(* ===== verification/Prelude.thy ===== *)
theory Prelude
  imports Main
begin

text \<open>
  The vocabulary every component shares: Go error values, computations that read and
  change a state and may fail, a weakest-precondition calculus for them, and small list
  facts.

  \<^item> A Go \<open>error\<close> is a value of \<open>err\<close>: a sentinel compared with \<open>errors.Is\<close>, a plain
    message, an error wrapped by \<open>fmt.Errorf("...: %w")\<close>, or an \<open>errors.Join\<close>.
  \<^item> A Go function that may fail and touches state \<open>'w\<close> is an \<open>('w, 'a) act\<close>: from a
    state to an error or a value, and the next state. \<open>bindE\<close> is the idiom
    \<open>x, err := f(); if err != nil { return err }\<close>.
\<close>

section \<open>Errors\<close>

datatype sentinel =
    ErrNotExist | ErrExist | ErrFault
  | ErrUnconfigured | ErrInvalid | ErrReplay | ErrRateLimited
  | ErrConflict | ErrPlan | ErrBaseline | ErrEpoch | ErrConfirmation
  | ErrActive | ErrInvalidRecoveryPoint

datatype err =
    Sentinel sentinel
  | Msg string
  | Wrap string err
  | Joined "err list"

text \<open>\<open>errors.Is\<close>: the sentinel is somewhere in the chain of wrapped and joined errors.\<close>

fun err_is :: "sentinel \<Rightarrow> err \<Rightarrow> bool" where
  "err_is s (Sentinel t) = (s = t)"
| "err_is s (Msg m) = False"
| "err_is s (Wrap m e) = err_is s e"
| "err_is s (Joined es) = list_ex (err_is s) es"

text \<open>\<open>errors.Join\<close> drops the nil errors and is nil when nothing is left.\<close>

fun somes :: "'a option list \<Rightarrow> 'a list" where
  "somes [] = []"
| "somes (None # xs) = somes xs"
| "somes (Some x # xs) = x # somes xs"

definition join_errs :: "err option list \<Rightarrow> err option" where
  "join_errs es = (case somes es of [] \<Rightarrow> None | es' \<Rightarrow> Some (Joined es'))"

lemma join_errs_None_iff [simp]: "join_errs es = None \<longleftrightarrow> somes es = []"
  by (simp add: join_errs_def split: list.splits)

text \<open>\<open>err.Error()\<close>: a wrapped error is \<open>prefix: cause\<close>, joined errors are separated by
  newlines.\<close>

fun sentinel_text :: "sentinel \<Rightarrow> string" where
  "sentinel_text ErrNotExist = ''file does not exist''"
| "sentinel_text ErrExist = ''file already exists''"
| "sentinel_text ErrFault = ''input/output error''"
| "sentinel_text ErrUnconfigured = ''mutation authorization is not configured''"
| "sentinel_text ErrInvalid = ''mutation authorization code is invalid''"
| "sentinel_text ErrReplay = ''mutation authorization code was already used''"
| "sentinel_text ErrRateLimited = ''mutation authorization attempts are rate limited''"
| "sentinel_text ErrConflict = ''request_conflict''"
| "sentinel_text ErrPlan = ''plan_invalid''"
| "sentinel_text ErrBaseline = ''baseline_changed''"
| "sentinel_text ErrEpoch = ''epoch_changed''"
| "sentinel_text ErrConfirmation = ''confirmation_required''"
| "sentinel_text ErrActive = ''another updater operation is active''"
| "sentinel_text ErrInvalidRecoveryPoint = ''recovery point identifier is invalid''"

fun join_lines :: "string list \<Rightarrow> string" where
  "join_lines [] = []"
| "join_lines [x] = x"
| "join_lines (x # xs) = x @ [CHR 0x0A] @ join_lines xs"

fun error_text :: "err \<Rightarrow> string" where
  "error_text (Sentinel t) = sentinel_text t"
| "error_text (Msg m) = m"
| "error_text (Wrap p e) = p @ '': '' @ error_text e"
| "error_text (Joined es) = join_lines (map error_text es)"

text \<open>The error of an outcome, \<open>nil\<close> when there is none.\<close>

fun err_of :: "err + 'a \<Rightarrow> err option" where
  "err_of (Inl e) = Some e"
| "err_of (Inr x) = None"

section \<open>Computations with state and errors\<close>

type_synonym ('w, 'a) act = "'w \<Rightarrow> (err + 'a) \<times> 'w"

definition retE :: "'a \<Rightarrow> ('w, 'a) act" where
  "retE x w = (Inr x, w)"

definition failE :: "err \<Rightarrow> ('w, 'a) act" where
  "failE e w = (Inl e, w)"

definition bindE :: "('w, 'a) act \<Rightarrow> ('a \<Rightarrow> ('w, 'b) act) \<Rightarrow> ('w, 'b) act" where
  "bindE m f w = (case m w of (Inl e, w') \<Rightarrow> (Inl e, w') | (Inr x, w') \<Rightarrow> f x w')"

text \<open>Look at the outcome of a call instead of returning its error.\<close>

definition tryE :: "('w, 'a) act \<Rightarrow> ('w, err + 'a) act" where
  "tryE m w = (case m w of (r, w') \<Rightarrow> (Inr r, w'))"

text \<open>\<open>if err := f(); err != nil { return h(err) }\<close>: the error is handled, not returned.\<close>

definition checkE :: "('w, 'a) act \<Rightarrow> (err \<Rightarrow> ('w, 'b) act) \<Rightarrow> ('a \<Rightarrow> ('w, 'b) act) \<Rightarrow> ('w, 'b) act" where
  "checkE m h f w = (case m w of (Inl e, w') \<Rightarrow> h e w' | (Inr x, w') \<Rightarrow> f x w')"

text \<open>\<open>_ = f()\<close>: the error is dropped.\<close>

definition ignoreE :: "('w, 'a) act \<Rightarrow> ('w, unit) act" where
  "ignoreE m w = (Inr (), snd (m w))"

text \<open>\<open>return fmt.Errorf("...: %w", err)\<close> around a call.\<close>

definition wrapE :: "(err \<Rightarrow> err) \<Rightarrow> ('w, 'a) act \<Rightarrow> ('w, 'a) act" where
  "wrapE f m w = (case m w of (Inl e, w') \<Rightarrow> (Inl (f e), w') | (Inr x, w') \<Rightarrow> (Inr x, w'))"

text \<open>\<open>defer d()\<close>: the clean-up runs on every exit and its error is dropped.\<close>

definition deferE :: "('w, 'a) act \<Rightarrow> ('w, 'b) act \<Rightarrow> ('w, 'a) act" where
  "deferE m d w = (case m w of (r, w') \<Rightarrow> (r, snd (d w')))"

text \<open>\<open>if cond { return err }\<close>\<close>

definition guardE :: "bool \<Rightarrow> err \<Rightarrow> ('w, unit) act" where
  "guardE b e = (if b then retE () else failE e)"

definition liftE :: "err + 'a \<Rightarrow> ('w, 'a) act" where
  "liftE r w = (r, w)"

text \<open>A \<open>for\<close> loop over a slice that stops at the first error.\<close>

fun foldE :: "('a \<Rightarrow> 'b \<Rightarrow> ('w, 'b) act) \<Rightarrow> 'a list \<Rightarrow> 'b \<Rightarrow> ('w, 'b) act" where
  "foldE f [] b = retE b"
| "foldE f (x # xs) b = bindE (f x b) (foldE f xs)"

definition forE :: "('a \<Rightarrow> ('w, unit) act) \<Rightarrow> 'a list \<Rightarrow> ('w, unit) act" where
  "forE f xs = foldE (\<lambda>x _. f x) xs ()"

definition not_exist :: "err + 'a \<Rightarrow> bool" where
  "not_exist r = (case r of Inl e \<Rightarrow> err_is ErrNotExist e | Inr _ \<Rightarrow> False)"

section \<open>Weakest preconditions\<close>

text \<open>\<open>wp m Q w\<close>: the run of \<open>m\<close> from \<open>w\<close> ends with an outcome and a state
  satisfying \<open>Q\<close>. The equations below execute a model symbolically; the collection
  \<open>wp\<close> holds them.\<close>

definition wp :: "('w, 'a) act \<Rightarrow> (err + 'a \<Rightarrow> 'w \<Rightarrow> bool) \<Rightarrow> 'w \<Rightarrow> bool" where
  "wp m Q w = (case m w of (r, w') \<Rightarrow> Q r w')"

named_theorems wp_eqs \<open>symbolic execution of the monad's operations\<close>

lemma wp_retE [wp_eqs]: "wp (retE x) Q w = Q (Inr x) w"
  by (simp add: wp_def retE_def)

lemma wp_failE [wp_eqs]: "wp (failE e) Q w = Q (Inl e) w"
  by (simp add: wp_def failE_def)

lemma wp_liftE [wp_eqs]: "wp (liftE r) Q w = Q r w"
  by (simp add: wp_def liftE_def)

lemma wp_guardE [wp_eqs]: "wp (guardE b e) Q w = (if b then Q (Inr ()) w else Q (Inl e) w)"
  by (simp add: guardE_def wp_eqs)

lemma wp_bindE [wp_eqs]:
  "wp (bindE m f) Q w =
     wp m (\<lambda>r w'. case r of Inl e \<Rightarrow> Q (Inl e) w' | Inr x \<Rightarrow> wp (f x) Q w') w"
  by (simp add: wp_def bindE_def split: prod.splits sum.splits)

lemma wp_checkE [wp_eqs]:
  "wp (checkE m h f) Q w =
     wp m (\<lambda>r w'. case r of Inl e \<Rightarrow> wp (h e) Q w' | Inr x \<Rightarrow> wp (f x) Q w') w"
  by (simp add: wp_def checkE_def split: prod.splits sum.splits)

lemma wp_tryE [wp_eqs]: "wp (tryE m) Q w = wp m (\<lambda>r. Q (Inr r)) w"
  by (simp add: wp_def tryE_def split: prod.splits)

lemma wp_ignoreE [wp_eqs]: "wp (ignoreE m) Q w = wp m (\<lambda>_. Q (Inr ())) w"
  by (simp add: wp_def ignoreE_def split: prod.splits)

lemma wp_wrapE [wp_eqs]:
  "wp (wrapE f m) Q w = wp m (\<lambda>r. Q (case r of Inl e \<Rightarrow> Inl (f e) | Inr x \<Rightarrow> Inr x)) w"
  by (simp add: wp_def wrapE_def split: prod.splits sum.splits)

lemma wp_deferE [wp_eqs]: "wp (deferE m d) Q w = wp m (\<lambda>r. wp d (\<lambda>_. Q r)) w"
  by (simp add: wp_def deferE_def split: prod.splits)

lemma wp_if [wp_eqs]: "wp (if b then m else n) Q w = (if b then wp m Q w else wp n Q w)"
  by simp

lemma wp_case_sum [wp_eqs]:
  "wp (case r of Inl e \<Rightarrow> f e | Inr x \<Rightarrow> g x) Q w =
     (case r of Inl e \<Rightarrow> wp (f e) Q w | Inr x \<Rightarrow> wp (g x) Q w)"
  by (simp split: sum.splits)

lemma wp_case_option [wp_eqs]:
  "wp (case r of None \<Rightarrow> f | Some x \<Rightarrow> g x) Q w =
     (case r of None \<Rightarrow> wp f Q w | Some x \<Rightarrow> wp (g x) Q w)"
  by (simp split: option.splits)

lemma wp_case_prod [wp_eqs]:
  "wp (case p of (x, y) \<Rightarrow> f x y) Q w = (case p of (x, y) \<Rightarrow> wp (f x y) Q w)"
  by (simp split: prod.splits)

lemma wp_foldE_Nil [wp_eqs]: "wp (foldE f [] b) Q w = Q (Inr b) w"
  by (simp add: wp_eqs)

lemma wp_foldE_Cons [wp_eqs]:
  "wp (foldE f (x # xs) b) Q w =
     wp (f x b) (\<lambda>r w'. case r of Inl e \<Rightarrow> Q (Inl e) w' | Inr b' \<Rightarrow> wp (foldE f xs b') Q w') w"
  by (simp add: wp_eqs)

lemma wp_forE_Nil [wp_eqs]: "wp (forE f []) Q w = Q (Inr ()) w"
  by (simp add: forE_def wp_eqs)

lemma wp_forE_Cons [wp_eqs]:
  "wp (forE f (x # xs)) Q w =
     wp (f x) (\<lambda>r w'. case r of Inl e \<Rightarrow> Q (Inl e) w' | Inr _ \<Rightarrow> wp (forE f xs) Q w') w"
  by (simp add: forE_def wp_eqs cong: sum.case_cong)

lemma wp_mono:
  assumes "wp m Q w" and "\<And>r w'. Q r w' \<Longrightarrow> Q' r w'"
  shows "wp m Q' w"
  using assms by (auto simp: wp_def split: prod.splits)

lemma wp_conj: "wp m Q w \<Longrightarrow> wp m Q' w \<Longrightarrow> wp m (\<lambda>r w'. Q r w' \<and> Q' r w') w"
  by (auto simp: wp_def split: prod.splits)

lemma wp_run: "wp m Q w \<Longrightarrow> m w = (r, w') \<Longrightarrow> Q r w'"
  by (simp add: wp_def)

lemma wp_intro: "(\<And>r w'. m w = (r, w') \<Longrightarrow> Q r w') \<Longrightarrow> wp m Q w"
  by (auto simp: wp_def split: prod.splits)

text \<open>A relation between the state before and after that every action keeps: the
  induction over loops and the composition over \<open>bindE\<close> are proved once.\<close>

definition keeps :: "('w \<Rightarrow> 'w \<Rightarrow> bool) \<Rightarrow> ('w, 'a) act \<Rightarrow> bool" where
  "keeps R m \<longleftrightarrow> (\<forall>w. R w (snd (m w)))"

named_theorems keeps_intros \<open>composition of framed actions\<close>

lemma keepsD: "keeps R m \<Longrightarrow> m w = (r, w') \<Longrightarrow> R w w'"
  by (metis keeps_def snd_conv)

lemma keeps_wp: "keeps R m \<Longrightarrow> wp m (\<lambda>_. R w) w"
  by (simp add: keeps_def wp_def case_prod_unfold)

lemma keepsI: "(\<And>w. wp m (\<lambda>_. R w) w) \<Longrightarrow> keeps R m"
  by (simp add: keeps_def wp_def case_prod_unfold)

locale frame =
  fixes R :: "'w \<Rightarrow> 'w \<Rightarrow> bool"
  assumes refl: "R w w"
    and trans: "R w w' \<Longrightarrow> R w' w'' \<Longrightarrow> R w w''"
begin

lemma keeps_retE [keeps_intros]: "keeps R (retE x)"
  by (simp add: keeps_def retE_def refl)

lemma keeps_failE [keeps_intros]: "keeps R (failE e)"
  by (simp add: keeps_def failE_def refl)

lemma keeps_liftE [keeps_intros]: "keeps R (liftE r)"
  by (simp add: keeps_def liftE_def refl)

lemma keeps_guardE [keeps_intros]: "keeps R (guardE b e)"
  by (simp add: guardE_def keeps_retE keeps_failE)

lemma keeps_bindE [keeps_intros]:
  assumes "keeps R m" and "\<And>x. keeps R (f x)"
  shows "keeps R (bindE m f)"
  unfolding keeps_def
proof
  fix w
  obtain r w' where m: "m w = (r, w')" by fastforce
  with assms(1) have step: "R w w'" by (rule keepsD)
  show "R w (snd (bindE m f w))"
  proof (cases r)
    case (Inl e)
    with m step show ?thesis by (simp add: bindE_def)
  next
    case (Inr x)
    have "R w' (snd (f x w'))" using assms(2) by (simp add: keeps_def)
    with step have "R w (snd (f x w'))" by (rule trans)
    with m Inr show ?thesis by (simp add: bindE_def)
  qed
qed

lemma keeps_tryE [keeps_intros]: "keeps R m \<Longrightarrow> keeps R (tryE m)"
  by (simp add: keeps_def tryE_def case_prod_unfold)

lemma keeps_ignoreE [keeps_intros]: "keeps R m \<Longrightarrow> keeps R (ignoreE m)"
  by (auto simp: keeps_def ignoreE_def)

lemma keeps_wrapE [keeps_intros]: "keeps R m \<Longrightarrow> keeps R (wrapE f m)"
  by (auto simp: keeps_def wrapE_def split: prod.splits sum.splits) (metis snd_conv)+

lemma keeps_deferE [keeps_intros]:
  assumes "keeps R m" and "keeps R d"
  shows "keeps R (deferE m d)"
proof -
  have "R w (snd (d (snd (m w))))" for w
    using assms by (auto simp: keeps_def intro: trans)
  then show ?thesis by (simp add: keeps_def deferE_def case_prod_unfold)
qed

lemma keeps_checkE [keeps_intros]:
  assumes "keeps R m" and "\<And>e. keeps R (g e)" and "\<And>x. keeps R (f x)"
  shows "keeps R (checkE m g f)"
proof -
  have "checkE m g f = bindE (tryE m) (\<lambda>r. case r of Inl e \<Rightarrow> g e | Inr x \<Rightarrow> f x)"
    by (auto simp: checkE_def bindE_def tryE_def fun_eq_iff split: prod.splits sum.splits)
  then show ?thesis using assms by (auto intro!: keeps_bindE keeps_tryE split: sum.splits)
qed

lemma keeps_foldE [keeps_intros]:
  assumes "\<And>x b. keeps R (f x b)"
  shows "keeps R (foldE f xs b)"
  by (induction xs arbitrary: b) (simp_all add: keeps_retE keeps_bindE assms)

lemma keeps_forE [keeps_intros]: "(\<And>x. keeps R (f x)) \<Longrightarrow> keeps R (forE f xs)"
  by (simp add: forE_def keeps_foldE)

end

lemma keeps_mono: "keeps R m \<Longrightarrow> (\<And>w w'. R w w' \<Longrightarrow> S w w') \<Longrightarrow> keeps S m"
  by (simp add: keeps_def)

lemma keeps_if [keeps_intros]: "keeps R m \<Longrightarrow> keeps R n \<Longrightarrow> keeps R (if b then m else n)"
  by simp

lemma keeps_case_sum [keeps_intros]:
  "(\<And>e. keeps R (f e)) \<Longrightarrow> (\<And>x. keeps R (g x)) \<Longrightarrow>
     keeps R (case r of Inl e \<Rightarrow> f e | Inr x \<Rightarrow> g x)"
  by (simp split: sum.splits)

lemma keeps_case_option [keeps_intros]:
  "keeps R f \<Longrightarrow> (\<And>x. keeps R (g x)) \<Longrightarrow>
     keeps R (case r of None \<Rightarrow> f | Some x \<Rightarrow> g x)"
  by (simp split: option.splits)

lemma keeps_case_prod [keeps_intros]:
  "(\<And>x y. keeps R (f x y)) \<Longrightarrow> keeps R (case p of (x, y) \<Rightarrow> f x y)"
  by (simp split: prod.splits)

section \<open>Successful and failed runs\<close>

lemma bindE_Inr:
  "bindE m f w = (Inr y, w'') \<longleftrightarrow> (\<exists>x w'. m w = (Inr x, w') \<and> f x w' = (Inr y, w''))"
  by (auto simp: bindE_def split: prod.splits sum.splits)

lemma liftE_Inr [simp]: "liftE r w = (Inr y, w') \<longleftrightarrow> r = Inr y \<and> w' = w"
  by (auto simp: liftE_def)

lemma retE_eq [simp]: "retE x w = (r, w') \<longleftrightarrow> r = Inr x \<and> w' = w"
  by (auto simp: retE_def)

lemma failE_eq [simp]: "failE e w = (r, w') \<longleftrightarrow> r = Inl e \<and> w' = w"
  by (auto simp: failE_def)

lemma tryE_Inr [simp]: "tryE m w = (Inr r, w') \<longleftrightarrow> m w = (r, w')"
  by (auto simp: tryE_def split: prod.splits)

lemma bindE_Inl:
  "bindE m f w = (Inl e, w'') \<longleftrightarrow> m w = (Inl e, w'') \<or> (\<exists>x w'. m w = (Inr x, w') \<and> f x w' = (Inl e, w''))"
  by (auto simp: bindE_def split: prod.splits sum.splits)

lemma liftE_Inl [simp]: "liftE r w = (Inl e, w') \<longleftrightarrow> r = Inl e \<and> w' = w"
  by (auto simp: liftE_def)

lemma tryE_Inl [simp]: "tryE m w \<noteq> (Inl e, w')"
  by (auto simp: tryE_def split: prod.splits)

lemma bindE_tryE: "m w = (r, w1) \<Longrightarrow> bindE (tryE m) f w = f r w1"
  by (simp add: bindE_def tryE_def)

text \<open>A guard or a failing branch that was passed.\<close>

lemma case_fail_Inr [simp]:
  "(case r of Inl e \<Rightarrow> failE (h e) | Inr x \<Rightarrow> g x) w = (Inr y, w') \<longleftrightarrow>
     (\<exists>x. r = Inr x \<and> g x w = (Inr y, w'))"
  by (cases r) auto

lemma option_fail_Inr [simp]:
  "(case r of None \<Rightarrow> failE e | Some x \<Rightarrow> g x) w = (Inr y, w') \<longleftrightarrow>
     (\<exists>x. r = Some x \<and> g x w = (Inr y, w'))"
  by (cases r) auto

lemma if_fail_Inr [simp]:
  "(if b then failE e else m) w = (Inr x, w') \<longleftrightarrow> \<not> b \<and> m w = (Inr x, w')"
  "(if b then m else failE e) w = (Inr x, w') \<longleftrightarrow> b \<and> m w = (Inr x, w')"
  by auto

lemma bindE_step: "m w = (Inr x, w1) \<Longrightarrow> bindE m f w = f x w1"
  by (simp add: bindE_def)

lemma bindE_fail: "m w = (Inl e, w1) \<Longrightarrow> bindE m f w = (Inl e, w1)"
  by (simp add: bindE_def)

lemma wrapE_Inr [simp]: "wrapE f m w = (Inr x, w') \<longleftrightarrow> m w = (Inr x, w')"
  by (auto simp: wrapE_def split: prod.splits sum.splits)

lemma deferE_eq: "deferE m d w = (r, w') \<longleftrightarrow> (\<exists>w1. m w = (r, w1) \<and> w' = snd (d w1))"
  by (auto simp: deferE_def split: prod.splits)

lemma ignoreE_eq [simp]: "ignoreE m w = (r, w') \<longleftrightarrow> r = Inr () \<and> w' = snd (m w)"
  by (auto simp: ignoreE_def)

lemma guardE_Inr [simp]: "guardE b e w = (Inr x, w') \<longleftrightarrow> b \<and> w' = w"
  by (auto simp: guardE_def retE_def failE_def)

section \<open>Lists\<close>

lemma butlast_snoc_iff: "p \<noteq> [] \<and> butlast p = d \<longleftrightarrow> (\<exists>n. p = d @ [n])"
  by (metis append_butlast_last_id butlast_snoc snoc_eq_iff_butlast)

lemma map_of_filter_keys:
  "map_of (filter (\<lambda>(k, v). P k) xs) k = (if P k then map_of xs k else None)"
  by (induction xs) auto

end
