(* ===== verification/GoText.thy ===== *)
theory GoText
  imports Prelude
begin

text \<open>
  The parts of Go's \<open>strings\<close>, \<open>strconv\<close>, \<open>fmt\<close>, \<open>encoding/hex\<close> and \<open>regexp\<close> the
  sources use on text. A Go string is a list of bytes, so \<open>string\<close> (a list of 8-bit
  characters) is the same type. White space is the ASCII white space of
  \<open>unicode.IsSpace\<close>: every text the program trims is written by the program itself in ASCII.
\<close>

section \<open>Character classes and patterns\<close>

definition code :: "char \<Rightarrow> nat" where
  "code c = of_char c"

definition is_digit :: "char \<Rightarrow> bool" where
  "is_digit c \<longleftrightarrow> 48 \<le> code c \<and> code c \<le> 57"

definition is_lower :: "char \<Rightarrow> bool" where
  "is_lower c \<longleftrightarrow> 97 \<le> code c \<and> code c \<le> 122"

definition is_upper :: "char \<Rightarrow> bool" where
  "is_upper c \<longleftrightarrow> 65 \<le> code c \<and> code c \<le> 90"

definition is_alnum :: "char \<Rightarrow> bool" where
  "is_alnum c \<longleftrightarrow> is_lower c \<or> is_upper c \<or> is_digit c"

text \<open>The class \<open>[a-f0-9]\<close>.\<close>

definition is_hex :: "char \<Rightarrow> bool" where
  "is_hex c \<longleftrightarrow> is_digit c \<or> (97 \<le> code c \<and> code c \<le> 102)"

definition is_space :: "char \<Rightarrow> bool" where
  "is_space c \<longleftrightarrow> code c = 32 \<or> (9 \<le> code c \<and> code c \<le> 13)"

text \<open>An anchored regular expression that is a sequence of single-character classes: one
  predicate for each position.\<close>

definition shape :: "(char \<Rightarrow> bool) list \<Rightarrow> string \<Rightarrow> bool" where
  "shape ps s = list_all2 (\<lambda>p c. p c) ps s"

lemma shape_length: "shape ps s \<Longrightarrow> length s = length ps"
  by (simp add: shape_def list_all2_lengthD)

lemma shape_append: "shape ps s \<Longrightarrow> shape qs t \<Longrightarrow> shape (ps @ qs) (s @ t)"
  by (simp add: shape_def list_all2_appendI)

lemma shape_replicate: "shape (replicate n p) s \<longleftrightarrow> length s = n \<and> list_all p s"
  by (auto simp: shape_def list_all2_conv_all_nth list_all_length)

text \<open>\<open>^[a-z][a-z0-9-]{0,62}$\<close>\<close>

definition instance_id_ok :: "string \<Rightarrow> bool" where
  "instance_id_ok s =
     (case s of [] \<Rightarrow> False
      | c # cs \<Rightarrow> is_lower c \<and> length cs \<le> 62 \<and>
                  list_all (\<lambda>d. is_lower d \<or> is_digit d \<or> d = CHR ''-'') cs)"

text \<open>\<open>^[A-Za-z0-9][A-Za-z0-9._-]{7,127}$\<close>\<close>

definition identifier_ok :: "string \<Rightarrow> bool" where
  "identifier_ok s =
     (case s of [] \<Rightarrow> False
      | c # cs \<Rightarrow> is_alnum c \<and> 7 \<le> length cs \<and> length cs \<le> 127 \<and>
                  list_all (\<lambda>d. is_alnum d \<or> d = CHR ''.'' \<or> d = CHR ''_'' \<or> d = CHR ''-'') cs)"

definition hex32_ok :: "string \<Rightarrow> bool" where
  "hex32_ok = shape (replicate 32 is_hex)"

definition hex64_ok :: "string \<Rightarrow> bool" where
  "hex64_ok = shape (replicate 64 is_hex)"

definition uuid_ok :: "string \<Rightarrow> bool" where
  "uuid_ok = shape (replicate 8 is_hex @ [(=) CHR ''-''] @ replicate 4 is_hex @ [(=) CHR ''-''] @
     replicate 4 is_hex @ [(=) CHR ''-''] @ replicate 4 is_hex @ [(=) CHR ''-''] @ replicate 12 is_hex)"

text \<open>\<open>^[0-9]{8}T[0-9]{6}\.[0-9]{9}Z-[a-f0-9]{16}$\<close>\<close>

definition op_id_ok :: "string \<Rightarrow> bool" where
  "op_id_ok = shape (replicate 8 is_digit @ [(=) CHR ''T''] @ replicate 6 is_digit @ [(=) CHR ''.''] @
     replicate 9 is_digit @ [(=) CHR ''Z'', (=) CHR ''-''] @ replicate 16 is_hex)"

text \<open>\<open>^[0-9]{8}T[0-9]{6}Z-[a-f0-9]{8}$\<close>\<close>

definition point_id_ok :: "string \<Rightarrow> bool" where
  "point_id_ok = shape (replicate 8 is_digit @ [(=) CHR ''T''] @ replicate 6 is_digit @
     [(=) CHR ''Z'', (=) CHR ''-''] @ replicate 8 is_hex)"

lemma point_id_not_empty: "point_id_ok s \<Longrightarrow> s \<noteq> []"
  by (auto simp: point_id_ok_def dest: shape_length)

lemma op_id_not_empty: "op_id_ok s \<Longrightarrow> s \<noteq> []"
  by (auto simp: op_id_ok_def dest: shape_length)

lemma hex64_not_empty: "hex64_ok s \<Longrightarrow> s \<noteq> []"
  by (auto simp: hex64_ok_def dest: shape_length)

lemma identifier_not_empty: "identifier_ok s \<Longrightarrow> s \<noteq> []"
  by (auto simp: identifier_ok_def)

section \<open>Prefixes, suffixes and search\<close>

definition has_prefix :: "'a list \<Rightarrow> 'a list \<Rightarrow> bool" where
  "has_prefix p s \<longleftrightarrow> take (length p) s = p"

definition has_suffix :: "'a list \<Rightarrow> 'a list \<Rightarrow> bool" where
  "has_suffix p s \<longleftrightarrow> length p \<le> length s \<and> drop (length s - length p) s = p"

fun contains :: "string \<Rightarrow> string \<Rightarrow> bool" where
  "contains p [] = (p = [])"
| "contains p (c # cs) = (has_prefix p (c # cs) \<or> contains p cs)"

lemma has_prefix_iff: "has_prefix p s \<longleftrightarrow> (\<exists>t. s = p @ t)"
  by (metis append_eq_conv_conj append_take_drop_id has_prefix_def)

lemma has_prefix_refl [simp]: "has_prefix p p"
  by (simp add: has_prefix_def)

lemma has_prefix_append [simp]: "has_prefix p (p @ t)"
  by (simp add: has_prefix_def)

lemma has_suffix_append [simp]: "has_suffix p (t @ p)"
  by (simp add: has_suffix_def)

lemma contains_iff: "contains p s \<longleftrightarrow> (\<exists>a b. s = a @ p @ b)"
proof (induction s)
  case Nil
  show ?case by auto
next
  case (Cons c s)
  have "(\<exists>a b. c # s = a @ p @ b) \<longleftrightarrow>
      (\<exists>b. c # s = p @ b) \<or> (\<exists>a b. s = a @ p @ b)" (is "?l \<longleftrightarrow> ?r")
  proof
    assume ?l
    then obtain a b where "c # s = a @ p @ b" by blast
    then show ?r by (cases a) auto
  next
    assume ?r
    then show ?l by (metis append_Cons append_Nil)
  qed
  with Cons.IH show ?case by (simp add: has_prefix_iff)
qed

lemma contains_append: "contains p s \<Longrightarrow> contains p (a @ s @ b)"
  by (metis append.assoc contains_iff)

text \<open>\<open>strings.TrimSpace\<close> and \<open>strings.Fields\<close>.\<close>

definition trim :: "string \<Rightarrow> string" where
  "trim s = rev (dropWhile is_space (rev (dropWhile is_space s)))"

fun fields_acc :: "string \<Rightarrow> string \<Rightarrow> string list" where
  "fields_acc acc [] = (if acc = [] then [] else [acc])"
| "fields_acc acc (c # cs) =
     (if is_space c then (if acc = [] then fields_acc [] cs else acc # fields_acc [] cs)
      else fields_acc (acc @ [c]) cs)"

definition fields :: "string \<Rightarrow> string list" where
  "fields = fields_acc []"

lemma fields_acc_word:
  "list_all (\<lambda>c. \<not> is_space c) s \<Longrightarrow> fields_acc acc (s @ t) = fields_acc (acc @ s) t"
  by (induction s arbitrary: acc) auto

lemma trim_id: "list_all (\<lambda>c. \<not> is_space c) s \<Longrightarrow> trim s = s"
proof -
  assume "list_all (\<lambda>c. \<not> is_space c) s"
  then have "dropWhile is_space s = s" and "dropWhile is_space (rev s) = rev s"
    by (auto simp: dropWhile_eq_self_iff list_all_iff hd_rev)
  then show ?thesis by (simp add: trim_def)
qed

lemma trim_newline: "list_all (\<lambda>c. \<not> is_space c) s \<Longrightarrow> trim (s @ [CHR 0x0A]) = s"
proof -
  assume s: "list_all (\<lambda>c. \<not> is_space c) s"
  have nl: "is_space (CHR 0x0A)" by (simp add: is_space_def code_def)
  show ?thesis
  proof (cases s)
    case Nil
    with nl show ?thesis by (simp add: trim_def)
  next
    case (Cons c cs)
    with s have "dropWhile is_space (s @ [CHR 0x0A]) = s @ [CHR 0x0A]" by simp
    moreover have "dropWhile is_space (rev s) = rev s"
      using s by (auto simp: dropWhile_eq_self_iff list_all_iff hd_rev)
    ultimately show ?thesis using nl by (simp add: trim_def)
  qed
qed

section \<open>Decimal numbers\<close>

definition digit_char :: "nat \<Rightarrow> char" where
  "digit_char n = char_of (48 + n)"

definition digit_val :: "char \<Rightarrow> nat" where
  "digit_val c = code c - 48"

text \<open>\<open>strconv.FormatInt(n, 10)\<close> and \<open>%d\<close>.\<close>

fun nat_dec :: "nat \<Rightarrow> string" where
  "nat_dec n = (if n < 10 then [digit_char n] else nat_dec (n div 10) @ [digit_char (n mod 10)])"

declare nat_dec.simps [simp del]

definition int_dec :: "int \<Rightarrow> string" where
  "int_dec i = (if i < 0 then CHR ''-'' # nat_dec (nat (- i)) else nat_dec (nat i))"

definition digits_val :: "string \<Rightarrow> nat" where
  "digits_val s = foldl (\<lambda>a c. 10 * a + digit_val c) 0 s"

text \<open>\<open>strconv.ParseUint(s, 10, 64)\<close> and \<open>strconv.ParseInt(s, 10, 64)\<close>: an empty digit
  string, a character that is no digit or a value out of range is an error.\<close>

definition parse_uint :: "string \<Rightarrow> nat option" where
  "parse_uint s =
     (if s \<noteq> [] \<and> list_all is_digit s \<and> digits_val s < 2 ^ 64 then Some (digits_val s) else None)"

definition parse_int :: "string \<Rightarrow> int option" where
  "parse_int s =
     (let neg = (s \<noteq> [] \<and> hd s = CHR ''-'');
          ds = (if s \<noteq> [] \<and> (hd s = CHR ''-'' \<or> hd s = CHR ''+'') then tl s else s)
      in if ds = [] \<or> \<not> list_all is_digit ds then None
         else if neg then (if digits_val ds \<le> 2 ^ 63 then Some (- int (digits_val ds)) else None)
         else (if digits_val ds < 2 ^ 63 then Some (int (digits_val ds)) else None))"

lemma code_digit_char: "n < 10 \<Longrightarrow> code (digit_char n) = 48 + n"
  by (simp add: code_def digit_char_def)

lemma is_digit_digit_char: "n < 10 \<Longrightarrow> is_digit (digit_char n)"
  by (simp add: is_digit_def code_digit_char)

lemma digit_val_digit_char: "n < 10 \<Longrightarrow> digit_val (digit_char n) = n"
  by (simp add: digit_val_def code_digit_char)

lemma digit_not_space: "is_digit c \<Longrightarrow> \<not> is_space c"
  by (simp add: is_digit_def is_space_def)

lemma nat_dec_digits: "list_all is_digit (nat_dec n)"
proof (induction n rule: nat_dec.induct)
  case (1 n)
  then show ?case by (subst nat_dec.simps) (simp add: is_digit_digit_char)
qed

lemma nat_dec_not_empty [simp]: "nat_dec n \<noteq> []"
  by (subst nat_dec.simps) simp

lemma nat_dec_no_space: "list_all (\<lambda>c. \<not> is_space c) (nat_dec n)"
  using nat_dec_digits by (auto simp: list_all_iff digit_not_space)

lemma digits_val_snoc: "digits_val (s @ [c]) = 10 * digits_val s + digit_val c"
  by (simp add: digits_val_def)

lemma digits_val_nat_dec [simp]: "digits_val (nat_dec n) = n"
proof (induction n rule: nat_dec.induct)
  case (1 n)
  show ?case
  proof (cases "n < 10")
    case True
    then show ?thesis
      by (subst nat_dec.simps) (simp add: digits_val_def digit_val_digit_char)
  next
    case False
    with 1 have "digits_val (nat_dec (n div 10)) = n div 10" by simp
    with False show ?thesis
      by (subst nat_dec.simps) (simp add: digits_val_snoc digit_val_digit_char)
  qed
qed

lemma nat_dec_hd_digit: "is_digit (hd (nat_dec n))"
  using nat_dec_digits[of n] by (cases "nat_dec n") auto

lemma nat_dec_hd_not_sign: "hd (nat_dec n) \<noteq> CHR ''-''" "hd (nat_dec n) \<noteq> CHR ''+''"
  using nat_dec_hd_digit[of n] by (auto simp: is_digit_def code_def)

theorem parse_uint_nat_dec: "n < 2 ^ 64 \<Longrightarrow> parse_uint (nat_dec n) = Some n"
  by (simp add: parse_uint_def nat_dec_digits)

lemma parse_int_nat_dec: "n < 2 ^ 63 \<Longrightarrow> parse_int (nat_dec n) = Some (int n)"
  by (simp add: parse_int_def nat_dec_digits nat_dec_hd_not_sign Let_def)

lemma parse_int_int_dec:
  assumes "0 \<le> i" and "i < 2 ^ 63"
  shows "parse_int (int_dec i) = Some i"
proof -
  from assms have "nat i < 2 ^ 63" by (simp add: nat_less_iff)
  with assms(1) show ?thesis by (simp add: int_dec_def parse_int_nat_dec)
qed

lemma int_dec_no_space: "0 \<le> i \<Longrightarrow> list_all (\<lambda>c. \<not> is_space c) (int_dec i)"
  by (simp add: int_dec_def nat_dec_no_space)

lemma nat_dec_length: "n < 10 ^ k \<Longrightarrow> 0 < k \<Longrightarrow> length (nat_dec n) \<le> k"
proof (induction n arbitrary: k rule: nat_dec.induct)
  case (1 n)
  show ?case
  proof (cases "n < 10")
    case True
    with 1 show ?thesis by (subst nat_dec.simps) simp
  next
    case False
    with "1.prems" have "k \<noteq> 1" by (metis power_one_right)
    with "1.prems"(2) obtain j where j: "k = Suc j" "0 < j" by (cases k) auto
    with "1.prems"(1) have "n div 10 < 10 ^ j" by (simp add: less_mult_imp_div_less mult.commute)
    with False j "1.IH" have "length (nat_dec (n div 10)) \<le> j" by simp
    with False j show ?thesis by (subst nat_dec.simps) simp
  qed
qed

text \<open>\<open>%0kd\<close>\<close>

definition pad_dec :: "nat \<Rightarrow> nat \<Rightarrow> string" where
  "pad_dec k n = replicate (k - length (nat_dec n)) CHR ''0'' @ nat_dec n"

lemma pad_dec_shape: "n < 10 ^ k \<Longrightarrow> 0 < k \<Longrightarrow> shape (replicate k is_digit) (pad_dec k n)"
  using nat_dec_length[of n k] nat_dec_digits[of n]
  by (auto simp: shape_replicate pad_dec_def list_all_iff is_digit_def code_def)

section \<open>64-bit arithmetic\<close>

text \<open>The \<open>int64\<close> a sum or difference wraps to, and division that truncates towards zero.\<close>

definition wrap64 :: "int \<Rightarrow> int" where
  "wrap64 i = (i + 2 ^ 63) mod 2 ^ 64 - 2 ^ 63"

definition go_div :: "int \<Rightarrow> int \<Rightarrow> int" where
  "go_div a b = (if 0 \<le> a then a div b else - ((- a) div b))"

lemma wrap64_id: "- (2 ^ 63) \<le> i \<Longrightarrow> i < 2 ^ 63 \<Longrightarrow> wrap64 i = i"
  by (simp add: wrap64_def)

section \<open>Hexadecimal\<close>

definition hex_char :: "nat \<Rightarrow> char" where
  "hex_char n = (if n < 10 then char_of (48 + n) else char_of (87 + n))"

text \<open>\<open>hex.EncodeToString\<close> of bytes given as numbers below 256.\<close>

definition hex_encode :: "nat list \<Rightarrow> string" where
  "hex_encode bs = concat (map (\<lambda>b. [hex_char (b div 16 mod 16), hex_char (b mod 16)]) bs)"

lemma is_hex_hex_char: "n < 16 \<Longrightarrow> is_hex (hex_char n)"
  by (auto simp: hex_char_def is_hex_def is_digit_def code_def)

lemma hex_encode_shape: "shape (replicate (2 * length bs) is_hex) (hex_encode bs)"
proof -
  have "length (hex_encode bs) = 2 * length bs"
    by (induction bs) (simp_all add: hex_encode_def)
  moreover have "list_all is_hex (hex_encode bs)"
    by (induction bs) (simp_all add: hex_encode_def is_hex_hex_char)
  ultimately show ?thesis by (simp add: shape_replicate)
qed

end
