(* ===== verification/Json.thy ===== *)
theory Json
  imports GoText
begin

text \<open>
  JSON documents as \<open>encoding/json\<close> sees them after lexing, and the decoding of object
  fields into Go struct fields. The text layout of a document is not modelled; its length,
  which the sources bound, is a parameter of the world (theory \<open>FileSys\<close>). Time stamps,
  which \<open>time.Time\<close> writes as RFC 3339 strings, are a constructor of their own, counted in
  nanoseconds since the Unix epoch.
\<close>

datatype json =
    JNull
  | JBool bool
  | JNum int
  | JStr string
  | JTime int
  | JArr "json list"
  | JObj "(string \<times> json) list"

text \<open>The zero \<open>time.Time\<close> (January 1 of year 1), for \<open>IsZero\<close>.\<close>

definition zero_time :: int where
  "zero_time = -62135596800000000000"

section \<open>Object fields\<close>

definition lower_char :: "char \<Rightarrow> char" where
  "lower_char c = (if is_upper c then char_of (code c + 32) else c)"

text \<open>Keys match struct tags without regard to case.\<close>

definition key_eq :: "string \<Rightarrow> string \<Rightarrow> bool" where
  "key_eq k k' \<longleftrightarrow> map lower_char k = map lower_char k'"

lemma key_eq_refl [simp]: "key_eq k k"
  by (simp add: key_eq_def)

lemma key_eq_Cons [simp]:
  "key_eq (c # cs) (d # ds) = (if lower_char c = lower_char d then key_eq cs ds else False)"
  "key_eq [] (d # ds) = False" "key_eq (c # cs) [] = False" "key_eq [] [] = True"
  by (simp_all add: key_eq_def)

text \<open>Every entry of the object whose key matches is decoded into the field, in order; a
  decoder sees the field's previous value, because \<open>null\<close> leaves most types unchanged.\<close>

fun field :: "string \<Rightarrow> (json \<Rightarrow> 'a \<Rightarrow> 'a option) \<Rightarrow> (string \<times> json) list \<Rightarrow> 'a \<Rightarrow> 'a option" where
  "field k d [] x = Some x"
| "field k d ((k', v) # kvs) x =
     (if key_eq k k' then (case d v x of None \<Rightarrow> None | Some y \<Rightarrow> field k d kvs y)
      else field k d kvs x)"

lemma field_append:
  "field k d (xs @ ys) x = (case field k d xs x of None \<Rightarrow> None | Some y \<Rightarrow> field k d ys y)"
  by (induction k d xs x rule: field.induct) (auto split: option.splits)

fun dec_str :: "json \<Rightarrow> string \<Rightarrow> string option" where
  "dec_str (JStr s) _ = Some s"
| "dec_str JNull x = Some x"
| "dec_str _ _ = None"

fun dec_bool :: "json \<Rightarrow> bool \<Rightarrow> bool option" where
  "dec_bool (JBool b) _ = Some b"
| "dec_bool JNull x = Some x"
| "dec_bool _ _ = None"

text \<open>A number outside the range of the Go type is an error.\<close>

fun dec_int :: "int \<Rightarrow> int \<Rightarrow> json \<Rightarrow> int \<Rightarrow> int option" where
  "dec_int lo hi (JNum i) _ = (if lo \<le> i \<and> i < hi then Some i else None)"
| "dec_int lo hi JNull x = Some x"
| "dec_int lo hi _ _ = None"

definition dec_int64 :: "json \<Rightarrow> int \<Rightarrow> int option" where
  "dec_int64 = dec_int (- (2 ^ 63)) (2 ^ 63)"

definition dec_uint64 :: "json \<Rightarrow> int \<Rightarrow> int option" where
  "dec_uint64 = dec_int 0 (2 ^ 64)"

fun dec_time :: "json \<Rightarrow> int \<Rightarrow> int option" where
  "dec_time (JTime t) _ = Some t"
| "dec_time JNull x = Some x"
| "dec_time _ _ = None"

text \<open>Pointer fields: \<open>null\<close> is nil.\<close>

fun dec_opt :: "(json \<Rightarrow> 'a \<Rightarrow> 'a option) \<Rightarrow> 'a \<Rightarrow> json \<Rightarrow> 'a option \<Rightarrow> 'a option option" where
  "dec_opt d z JNull _ = Some None"
| "dec_opt d z j x = map_option Some (d j (case x of None \<Rightarrow> z | Some y \<Rightarrow> y))"

text \<open>\<open>json.RawMessage\<close> keeps the value as it is.\<close>

definition dec_raw :: "json \<Rightarrow> json option \<Rightarrow> json option option" where
  "dec_raw j _ = Some (Some j)"

fun dec_all :: "(json \<Rightarrow> 'a option) \<Rightarrow> json list \<Rightarrow> 'a list option" where
  "dec_all d [] = Some []"
| "dec_all d (j # js) =
     (case d j of None \<Rightarrow> None
      | Some x \<Rightarrow> (case dec_all d js of None \<Rightarrow> None | Some xs \<Rightarrow> Some (x # xs)))"

fun dec_list :: "(json \<Rightarrow> 'a option) \<Rightarrow> json \<Rightarrow> 'a list \<Rightarrow> 'a list option" where
  "dec_list d (JArr js) _ = dec_all d js"
| "dec_list d JNull _ = Some []"
| "dec_list d _ _ = None"

lemma dec_all_map: "(\<And>x. x \<in> set xs \<Longrightarrow> d (e x) = Some x) \<Longrightarrow> dec_all d (map e xs) = Some xs"
  by (induction xs) auto

text \<open>\<open>DisallowUnknownFields\<close>.\<close>

definition known :: "string list \<Rightarrow> (string \<times> json) list \<Rightarrow> bool" where
  "known ks kvs \<longleftrightarrow> list_all (\<lambda>(k, v). list_ex (key_eq k) ks) kvs"

text \<open>A decoded document at the top level: \<open>null\<close> decodes to the zero value and an object
  field by field; anything else is a type error.\<close>

definition members :: "json \<Rightarrow> (string \<times> json) list option" where
  "members j = (case j of JObj kvs \<Rightarrow> Some kvs | JNull \<Rightarrow> Some [] | _ \<Rightarrow> None)"

lemma members_simps [simp]:
  "members (JObj kvs) = Some kvs" "members JNull = Some []" "members (JStr s) = None"
  "members (JNum i) = None" "members (JBool b) = None" "members (JArr js) = None"
  "members (JTime t) = None"
  by (simp_all add: members_def)

text \<open>A field written with \<open>omitempty\<close>.\<close>

definition omit_str :: "string \<Rightarrow> string \<Rightarrow> (string \<times> json) list" where
  "omit_str k s = (if s = [] then [] else [(k, JStr s)])"

definition opt_pair :: "string \<Rightarrow> 'a option \<Rightarrow> ('a \<Rightarrow> json) \<Rightarrow> (string \<times> json) list" where
  "opt_pair k x e = (case x of None \<Rightarrow> [] | Some y \<Rightarrow> [(k, e y)])"

lemma field_omit_str [simp]:
  "field k d (omit_str k' s @ kvs) x =
     (if s \<noteq> [] \<and> key_eq k k'
      then (case d (JStr s) x of None \<Rightarrow> None | Some y \<Rightarrow> field k d kvs y)
      else field k d kvs x)"
  by (simp add: omit_str_def)

lemma field_omit_str_end [simp]:
  "field k d (omit_str k' s) x =
     (if s \<noteq> [] \<and> key_eq k k'
      then (case d (JStr s) x of None \<Rightarrow> None | Some y \<Rightarrow> Some y) else Some x)"
  by (simp add: omit_str_def split: option.splits)

lemma field_opt_pair [simp]:
  "field k d (opt_pair k' y e @ kvs) x =
     (case y of None \<Rightarrow> field k d kvs x
      | Some z \<Rightarrow> if key_eq k k' then (case d (e z) x of None \<Rightarrow> None | Some y \<Rightarrow> field k d kvs y)
                  else field k d kvs x)"
  "field k d (opt_pair k' y e) x =
     (case y of None \<Rightarrow> Some x
      | Some z \<Rightarrow> if key_eq k k' then (case d (e z) x of None \<Rightarrow> None | Some y \<Rightarrow> Some y)
                  else Some x)"
  by (simp_all add: opt_pair_def split: option.splits)

lemma known_opt_pair [simp]: "known ks (opt_pair k y e) \<longleftrightarrow> y = None \<or> list_ex (key_eq k) ks"
  by (simp add: opt_pair_def known_def split: option.splits)

lemma option_case_same [simp]: "(case y of None \<Rightarrow> a | Some z \<Rightarrow> a) = a"
  by (simp split: option.splits)

lemma known_Nil [simp]: "known ks []"
  by (simp add: known_def)

lemma known_Cons [simp]: "known ks ((k, v) # kvs) \<longleftrightarrow> list_ex (key_eq k) ks \<and> known ks kvs"
  by (simp add: known_def)

lemma known_append [simp]: "known ks (xs @ ys) \<longleftrightarrow> known ks xs \<and> known ks ys"
  by (simp add: known_def)

lemma known_omit_str [simp]: "known ks (omit_str k s) \<longleftrightarrow> s = [] \<or> list_ex (key_eq k) ks"
  by (simp add: omit_str_def)

lemma dec_int64_num: "- (2 ^ 63) \<le> i \<Longrightarrow> i < 2 ^ 63 \<Longrightarrow> dec_int64 (JNum i) x = Some i"
  by (simp add: dec_int64_def)

lemma dec_uint64_num: "0 \<le> i \<Longrightarrow> i < 2 ^ 64 \<Longrightarrow> dec_uint64 (JNum i) x = Some i"
  by (simp add: dec_uint64_def)

end
