(* ===== verification/FileSys.thy ===== *)
theory FileSys
  imports Json "HOL-Library.Char_ord" "HOL-Library.List_Lexorder"
begin

text \<open>
  The file system calls of Go's \<open>os\<close> package that the sources make, with failures.

  \<^item> A path is the list of its components below \<open>/\<close>; a directory entry is a node.
  \<^item> The world holds the entries as the process sees them (\<open>w_fs\<close>) and as a crash would
    leave them (\<open>w_disk\<close>): only \<open>Sync\<close> on a directory moves its entries to the disk, and
    an entry whose file was not synced before reaches it with unspecified contents
    (\<open>n_synced\<close> false).
  \<^item> Every call consumes one tick of a fault plan that makes it succeed, fail before its
    effect, or fail after its effect. A plan that fails every call from some tick on leaves
    the same files as a crash at that tick, so a theorem for every plan covers crashes.
\<close>

section \<open>The world\<close>

type_synonym path = "string list"

datatype content = Text string | Json json

datatype fkind = KRegular | KDir | KSymlink | KOther

record node =
  n_kind :: fkind
  n_perm :: nat
  n_data :: content
  n_synced :: bool
  n_uid :: int
  n_gid :: int

datatype fault = FOk | FBefore | FAfter

record world =
  w_fs :: "(path \<times> node) list"
  w_disk :: "(path \<times> node) list"
  w_fault :: "nat \<Rightarrow> fault"
  w_tick :: nat
  w_rnd :: "nat \<Rightarrow> nat"
  w_rix :: nat
  w_jlen :: "json \<Rightarrow> nat"

type_synonym 'a io = "(world, 'a) act"

definition look :: "world \<Rightarrow> path \<Rightarrow> node option" where
  "look w p = map_of (w_fs w) p"

definition on_disk :: "world \<Rightarrow> path \<Rightarrow> node option" where
  "on_disk w p = map_of (w_disk w) p"

text \<open>The part of the world no call changes.\<close>

definition same_env :: "world \<Rightarrow> world \<Rightarrow> bool" where
  "same_env w w' \<longleftrightarrow> w_fault w' = w_fault w \<and> w_jlen w' = w_jlen w"

record info =
  i_kind :: fkind
  i_perm :: nat
  i_size :: nat
  i_uid :: int
  i_gid :: int

definition data_size :: "world \<Rightarrow> content \<Rightarrow> nat" where
  "data_size w c = (case c of Text s \<Rightarrow> length s | Json j \<Rightarrow> w_jlen w j)"

definition info_of :: "world \<Rightarrow> node \<Rightarrow> info" where
  "info_of w n = \<lparr>i_kind = n_kind n, i_perm = n_perm n, i_size = data_size w (n_data n),
     i_uid = n_uid n, i_gid = n_gid n\<rparr>"

section \<open>System calls\<close>

definition fault_err :: err where
  "fault_err = Sentinel ErrFault"

definition sys :: "'a io \<Rightarrow> 'a io" where
  "sys m w =
     (let w1 = w\<lparr>w_tick := Suc (w_tick w)\<rparr>
      in case w_fault w (w_tick w) of
           FOk \<Rightarrow> m w1
         | FBefore \<Rightarrow> (Inl fault_err, w1)
         | FAfter \<Rightarrow> (Inl fault_err, snd (m w1)))"

definition set_node :: "path \<Rightarrow> node \<Rightarrow> world \<Rightarrow> world" where
  "set_node p n w = w\<lparr>w_fs := (p, n) # filter (\<lambda>(q, _). q \<noteq> p) (w_fs w)\<rparr>"

definition del_node :: "path \<Rightarrow> world \<Rightarrow> world" where
  "del_node p w = w\<lparr>w_fs := filter (\<lambda>(q, _). q \<noteq> p) (w_fs w)\<rparr>"

definition is_dir :: "world \<Rightarrow> path \<Rightarrow> bool" where
  "is_dir w p = (case look w p of None \<Rightarrow> False | Some n \<Rightarrow> n_kind n = KDir)"

definition children :: "world \<Rightarrow> path \<Rightarrow> string list" where
  "children w d = map (last \<circ> fst) (filter (\<lambda>(p, _). p \<noteq> [] \<and> butlast p = d) (w_fs w))"

definition file_node :: "nat \<Rightarrow> node" where
  "file_node m = \<lparr>n_kind = KRegular, n_perm = m, n_data = Text [], n_synced = False,
     n_uid = 0, n_gid = 0\<rparr>"

definition dir_node :: "nat \<Rightarrow> node" where
  "dir_node m = \<lparr>n_kind = KDir, n_perm = m, n_data = Text [], n_synced = True,
     n_uid = 0, n_gid = 0\<rparr>"

definition lstat :: "path \<Rightarrow> info io" where
  "lstat p = sys (\<lambda>w. case look w p of
       None \<Rightarrow> (Inl (Sentinel ErrNotExist), w) | Some n \<Rightarrow> (Inr (info_of w n), w))"

definition read_file :: "path \<Rightarrow> content io" where
  "read_file p = sys (\<lambda>w. case look w p of
       None \<Rightarrow> (Inl (Sentinel ErrNotExist), w)
     | Some n \<Rightarrow> (if n_kind n = KRegular then Inr (n_data n) else Inl (Msg ''is not a file''), w))"

definition read_dir :: "path \<Rightarrow> string list io" where
  "read_dir p = sys (\<lambda>w. case look w p of
       None \<Rightarrow> (Inl (Sentinel ErrNotExist), w)
     | Some n \<Rightarrow> (if n_kind n = KDir then Inr (sort (remdups (children w p)))
                  else Inl (Msg ''not a directory''), w))"

text \<open>\<open>os.CreateTemp\<close>: random names until one is free, ten thousand at most.\<close>

fun fresh_temp :: "nat \<Rightarrow> path \<Rightarrow> string \<Rightarrow> world \<Rightarrow> path option \<times> world" where
  "fresh_temp 0 d pre w = (None, w)"
| "fresh_temp (Suc k) d pre w =
     (let t = d @ [pre @ nat_dec (w_rnd w (w_rix w))];
          w' = w\<lparr>w_rix := Suc (w_rix w)\<rparr>
      in if look w t = None then (Some t, w') else fresh_temp k d pre w')"

definition create_temp :: "path \<Rightarrow> string \<Rightarrow> path io" where
  "create_temp d pre = sys (\<lambda>w.
     if \<not> is_dir w d then (Inl (Sentinel ErrNotExist), w)
     else (case fresh_temp 10000 d pre w of
             (None, w') \<Rightarrow> (Inl (Sentinel ErrExist), w')
           | (Some t, w') \<Rightarrow> (Inr t, set_node t (file_node 384) w')))"

text \<open>\<open>os.OpenFile\<close> with \<open>O_WRONLY|O_CREATE|O_EXCL\<close>.\<close>

definition open_excl :: "path \<Rightarrow> nat \<Rightarrow> unit io" where
  "open_excl p m = sys (\<lambda>w.
     if look w p \<noteq> None then (Inl (Sentinel ErrExist), w)
     else if \<not> is_dir w (butlast p) then (Inl (Sentinel ErrNotExist), w)
     else (Inr (), set_node p (file_node m) w))"

text \<open>\<open>os.OpenFile\<close> with \<open>O_RDWR|O_CREATE\<close>.\<close>

definition open_create :: "path \<Rightarrow> nat \<Rightarrow> unit io" where
  "open_create p m = sys (\<lambda>w. case look w p of
       Some n \<Rightarrow> (if n_kind n = KDir then Inl (Msg ''is a directory'') else Inr (), w)
     | None \<Rightarrow> if \<not> is_dir w (butlast p) then (Inl (Sentinel ErrNotExist), w)
               else (Inr (), set_node p (file_node m) w))"

text \<open>\<open>Flock\<close> on an opened file. A locked section runs without interleaving, so taking and
  giving up the lock changes nothing else; the call itself may fail.\<close>

definition flock :: "path \<Rightarrow> unit io" where
  "flock p = sys (retE ())"

definition funlock :: "path \<Rightarrow> unit io" where
  "funlock p = sys (retE ())"

text \<open>\<open>io.ReadFull\<close> from the random source.\<close>

definition read_random :: "nat \<Rightarrow> nat list io" where
  "read_random k = sys (\<lambda>w. (Inr (map (\<lambda>i. w_rnd w (w_rix w + i) mod 256) [0..<k]),
     w\<lparr>w_rix := w_rix w + k\<rparr>))"

definition update_node :: "path \<Rightarrow> (node \<Rightarrow> node) \<Rightarrow> unit io" where
  "update_node p f = sys (\<lambda>w. case look w p of
       None \<Rightarrow> (Inl (Sentinel ErrNotExist), w) | Some n \<Rightarrow> (Inr (), set_node p (f n) w))"

definition chmod :: "path \<Rightarrow> nat \<Rightarrow> unit io" where
  "chmod p m = update_node p (\<lambda>n. n\<lparr>n_perm := m\<rparr>)"

definition chown :: "path \<Rightarrow> int \<Rightarrow> int \<Rightarrow> unit io" where
  "chown p u g = update_node p (\<lambda>n. n\<lparr>n_uid := u, n_gid := g\<rparr>)"

definition write_data :: "path \<Rightarrow> content \<Rightarrow> unit io" where
  "write_data p c = update_node p (\<lambda>n. n\<lparr>n_data := c, n_synced := False\<rparr>)"

definition fsync :: "path \<Rightarrow> unit io" where
  "fsync p = update_node p (\<lambda>n. n\<lparr>n_synced := True\<rparr>)"

definition close_file :: "path \<Rightarrow> unit io" where
  "close_file p = sys (retE ())"

definition open_path :: "path \<Rightarrow> unit io" where
  "open_path p = sys (\<lambda>w. (if look w p = None then Inl (Sentinel ErrNotExist) else Inr (), w))"

definition child_of :: "path \<Rightarrow> path \<Rightarrow> bool" where
  "child_of d p \<longleftrightarrow> p \<noteq> [] \<and> butlast p = d"

text \<open>\<open>Sync\<close> on an opened directory makes its entries durable.\<close>

definition sync_entries :: "path \<Rightarrow> unit io" where
  "sync_entries d = sys (\<lambda>w. (Inr (), w\<lparr>w_disk :=
     filter (\<lambda>(p, _). child_of d p) (w_fs w) @ filter (\<lambda>(p, _). \<not> child_of d p) (w_disk w)\<rparr>))"

definition mkdir :: "path \<Rightarrow> nat \<Rightarrow> unit io" where
  "mkdir p m = sys (\<lambda>w.
     if look w p \<noteq> None then (Inl (Sentinel ErrExist), w)
     else if \<not> is_dir w (butlast p) then (Inl (Sentinel ErrNotExist), w)
     else (Inr (), set_node p (dir_node m) w))"

text \<open>\<open>os.MkdirAll\<close>: the missing ancestors first, and no error for an existing directory.\<close>

definition mkdir_all_step :: "nat \<Rightarrow> path \<Rightarrow> world \<Rightarrow> (err + unit) \<times> world" where
  "mkdir_all_step m p w = (case look w p of
       None \<Rightarrow> (Inr (), set_node p (dir_node m) w)
     | Some n \<Rightarrow> (if n_kind n = KDir then Inr () else Inl (Msg ''not a directory''), w))"

definition prefixes_of :: "path \<Rightarrow> path list" where
  "prefixes_of p = map (\<lambda>k. take (Suc k) p) [0..<length p]"

definition mkdir_all :: "path \<Rightarrow> nat \<Rightarrow> unit io" where
  "mkdir_all p m = sys (forE (mkdir_all_step m) (prefixes_of p))"

definition remove :: "path \<Rightarrow> unit io" where
  "remove p = sys (\<lambda>w.
     if look w p = None then (Inl (Sentinel ErrNotExist), w)
     else if is_dir w p \<and> children w p \<noteq> [] then (Inl (Msg ''directory not empty''), w)
     else (Inr (), del_node p w))"

definition below :: "path \<Rightarrow> path \<Rightarrow> bool" where
  "below d p \<longleftrightarrow> has_prefix d p"

definition remove_all :: "path \<Rightarrow> unit io" where
  "remove_all p = sys (\<lambda>w. (Inr (), w\<lparr>w_fs := filter (\<lambda>(q, _). \<not> below p q) (w_fs w)\<rparr>))"

text \<open>\<open>os.Rename\<close>: one entry for a file, the whole subtree for a directory.\<close>

definition relocate :: "path \<Rightarrow> path \<Rightarrow> path \<Rightarrow> path" where
  "relocate src dst p = (if below src p then dst @ drop (length src) p else p)"

definition rename :: "path \<Rightarrow> path \<Rightarrow> unit io" where
  "rename src dst = sys (\<lambda>w. case look w src of
       None \<Rightarrow> (Inl (Sentinel ErrNotExist), w)
     | Some n \<Rightarrow>
         if src = dst then (Inr (), w)
         else if n_kind n \<noteq> KDir then
           (if is_dir w dst then (Inl (Msg ''is a directory''), w)
            else if \<not> is_dir w (butlast dst) then (Inl (Sentinel ErrNotExist), w)
            else (Inr (), set_node dst n (del_node src w)))
         else if below src dst then (Inl (Msg ''invalid argument''), w)
         else if look w dst \<noteq> None \<and> (\<not> is_dir w dst \<or> children w dst \<noteq> []) then
           (Inl (Msg ''target exists''), w)
         else if \<not> is_dir w (butlast dst) then (Inl (Sentinel ErrNotExist), w)
         else (Inr (), w\<lparr>w_fs := map (\<lambda>(p, n). (relocate src dst p, n))
                             (filter (\<lambda>(p, _). \<not> below dst p) (w_fs w))\<rparr>))"

text \<open>\<open>os.Link\<close> fails when the new name exists.\<close>

definition link :: "path \<Rightarrow> path \<Rightarrow> unit io" where
  "link src dst = sys (\<lambda>w. case look w src of
       None \<Rightarrow> (Inl (Sentinel ErrNotExist), w)
     | Some n \<Rightarrow> if look w dst \<noteq> None then (Inl (Sentinel ErrExist), w)
                 else if \<not> is_dir w (butlast dst) then (Inl (Sentinel ErrNotExist), w)
                 else (Inr (), set_node dst n w))"

section \<open>Reading the state after a call\<close>

lemma look_tick [simp]: "look (w\<lparr>w_tick := k\<rparr>) p = look w p"
  by (simp add: look_def)

lemma look_rix [simp]: "look (w\<lparr>w_rix := k\<rparr>) p = look w p"
  by (simp add: look_def)

lemma look_disk [simp]: "look (w\<lparr>w_disk := k\<rparr>) p = look w p"
  by (simp add: look_def)

lemma disk_env [simp]:
  "on_disk (w\<lparr>w_tick := k\<rparr>) p = on_disk w p" "on_disk (w\<lparr>w_rix := k\<rparr>) p = on_disk w p"
  "on_disk (set_node q n w) p = on_disk w p" "on_disk (del_node q w) p = on_disk w p"
  by (simp_all add: on_disk_def set_node_def del_node_def)

lemma map_of_remove_key: "map_of (filter (\<lambda>(q, _). q \<noteq> p) xs) q = (if q = p then None else map_of xs q)"
  by (induction xs) auto

lemma look_set_node [simp]: "look (set_node p n w) q = (if q = p then Some n else look w q)"
  by (simp add: look_def set_node_def map_of_remove_key)

lemma look_del_node [simp]: "look (del_node p w) q = (if q = p then None else look w q)"
  by (simp add: look_def del_node_def map_of_remove_key)

lemma set_node_env [simp]:
  "w_fault (set_node p n w) = w_fault w" "w_jlen (set_node p n w) = w_jlen w"
  "w_disk (set_node p n w) = w_disk w"
  "w_tick (set_node p n w) = w_tick w"
  by (simp_all add: set_node_def)

lemma del_node_env [simp]:
  "w_fault (del_node p w) = w_fault w" "w_jlen (del_node p w) = w_jlen w"
  "w_disk (del_node p w) = w_disk w"
  "w_tick (del_node p w) = w_tick w"
  by (simp_all add: del_node_def)

lemma same_env_refl [simp]: "same_env w w"
  by (simp add: same_env_def)

lemma same_env_trans: "same_env w w' \<Longrightarrow> same_env w' w'' \<Longrightarrow> same_env w w''"
  by (simp add: same_env_def)

lemma is_dir_look: "look w' d = look w d \<Longrightarrow> is_dir w' d = is_dir w d"
  by (simp add: is_dir_def)

text \<open>The three outcomes of a call, for symbolic execution.\<close>

lemma wp_sys:
  "wp (sys m) Q w =
     (let w1 = w\<lparr>w_tick := Suc (w_tick w)\<rparr>
      in case w_fault w (w_tick w) of
           FOk \<Rightarrow> wp m Q w1
         | FBefore \<Rightarrow> Q (Inl fault_err) w1
         | FAfter \<Rightarrow> wp m (\<lambda>_. Q (Inl fault_err)) w1)"
  by (simp add: wp_def sys_def Let_def case_prod_unfold split: fault.splits)

lemma wp_sysI:
  assumes "wp m Q (w\<lparr>w_tick := Suc (w_tick w)\<rparr>)"
    and "Q (Inl fault_err) (w\<lparr>w_tick := Suc (w_tick w)\<rparr>)"
    and "wp m (\<lambda>_. Q (Inl fault_err)) (w\<lparr>w_tick := Suc (w_tick w)\<rparr>)"
  shows "wp (sys m) Q w"
  using assms by (simp add: wp_sys split: fault.splits)

lemma fault_not_exist [simp]: "\<not> err_is ErrNotExist fault_err" "\<not> err_is ErrExist fault_err"
  by (simp_all add: fault_err_def)

end
