(* ===== verification/FileSpec.thy ===== *)
theory FileSpec
  imports FileSys
begin

text \<open>
  What the file system calls change and what they leave alone: the frame relations
  \<open>same_files\<close> (a call that only reads) and \<open>touches P\<close> (a call that changes entries in
  \<open>P\<close> only), rules for the calls, and the contract of a crash-safe file replacement,
  \<open>atomic_put\<close> (theory \<open>AtomicPut\<close>), rests on them.
\<close>

section \<open>Frames\<close>

definition same_files :: "world \<Rightarrow> world \<Rightarrow> bool" where
  "same_files w w' \<longleftrightarrow> w_fs w' = w_fs w \<and> w_disk w' = w_disk w \<and> same_env w w'"

definition touches :: "(path \<Rightarrow> bool) \<Rightarrow> world \<Rightarrow> world \<Rightarrow> bool" where
  "touches P w w' \<longleftrightarrow>
     (\<forall>p. \<not> P p \<longrightarrow> look w' p = look w p \<and> (on_disk w' p = on_disk w p \<or> on_disk w' p = look w p)) \<and>
     same_env w w'"

interpretation reads: frame same_files
  by unfold_locales (auto simp: same_files_def intro: same_env_trans)

interpretation writes: frame "touches P" for P
proof unfold_locales
  fix w w' w''
  assume "touches P w w'" and "touches P w' w''"
  then show "touches P w w''" unfolding touches_def by (metis same_env_trans)
qed (simp add: touches_def)

lemma same_files_look: "same_files w w' \<Longrightarrow> look w' p = look w p"
  by (simp add: same_files_def look_def)

lemma same_files_disk: "same_files w w' \<Longrightarrow> on_disk w' p = on_disk w p"
  by (simp add: same_files_def on_disk_def)

lemma same_files_touches: "same_files w w' \<Longrightarrow> touches P w w'"
  by (simp add: touches_def same_files_look same_files_disk) (simp add: same_files_def)

lemma same_files_env: "same_files w w' \<Longrightarrow> w_jlen w' = w_jlen w"
  by (simp add: same_files_def same_env_def)

lemma touches_look: "touches P w w' \<Longrightarrow> \<not> P p \<Longrightarrow> look w' p = look w p"
  by (simp add: touches_def)

lemma touches_mono: "touches P w w' \<Longrightarrow> (\<And>p. P p \<Longrightarrow> Q p) \<Longrightarrow> touches Q w w'"
  by (auto simp: touches_def)

lemma touches_comp:
  "touches P w w' \<Longrightarrow> touches Q w' w'' \<Longrightarrow> (\<And>p. P p \<or> Q p \<Longrightarrow> R p) \<Longrightarrow> touches R w w''"
  by (rule writes.trans) (auto elim!: touches_mono)

lemma keeps_sys_reads:
  assumes "\<And>w. w_fs (snd (m w)) = w_fs w \<and> w_disk (snd (m w)) = w_disk w \<and> same_env w (snd (m w))"
  shows "keeps same_files (sys m)"
  using assms
  by (auto simp: keeps_def same_files_def sys_def Let_def same_env_def split: fault.splits)

lemma keeps_sys_touches:
  assumes "\<And>w. touches P w (snd (m w))"
  shows "keeps (touches P) (sys m)"
proof -
  have "touches P w (snd (m (w\<lparr>w_tick := k\<rparr>)))" for w k
    using assms[of "w\<lparr>w_tick := k\<rparr>"] by (simp add: touches_def same_env_def)
  then show ?thesis
    by (auto simp: keeps_def sys_def Let_def touches_def same_env_def split: fault.splits)
qed

lemma keeps_reads_touches: "keeps same_files m \<Longrightarrow> keeps (touches P) m"
  by (erule keeps_mono) (rule same_files_touches)

lemma reads_lstat [keeps_intros]: "keeps same_files (lstat p)"
  unfolding lstat_def by (rule keeps_sys_reads) (auto split: option.splits)

lemma reads_read_file [keeps_intros]: "keeps same_files (read_file p)"
  unfolding read_file_def by (rule keeps_sys_reads) (auto split: option.splits)

lemma reads_read_dir [keeps_intros]: "keeps same_files (read_dir p)"
  unfolding read_dir_def by (rule keeps_sys_reads) (auto split: option.splits)

lemma reads_close_file [keeps_intros]: "keeps same_files (close_file p)"
  unfolding close_file_def by (rule keeps_sys_reads) (simp add: retE_def)

lemma reads_open_path [keeps_intros]: "keeps same_files (open_path p)"
  unfolding open_path_def by (rule keeps_sys_reads) simp

lemma reads_flock [keeps_intros]: "keeps same_files (flock p)"
  unfolding flock_def by (rule keeps_sys_reads) (simp add: retE_def)

lemma reads_funlock [keeps_intros]: "keeps same_files (funlock p)"
  unfolding funlock_def by (rule keeps_sys_reads) (simp add: retE_def)

lemma reads_read_random [keeps_intros]: "keeps same_files (read_random k)"
  unfolding read_random_def by (rule keeps_sys_reads) (simp add: same_env_def)

lemma touches_update_node: "P p \<Longrightarrow> keeps (touches P) (update_node p f)"
  unfolding update_node_def
  by (rule keeps_sys_touches) (auto simp: touches_def same_env_def split: option.splits)

lemma touches_chmod: "P p \<Longrightarrow> keeps (touches P) (chmod p m)"
  unfolding chmod_def by (rule touches_update_node)

lemma touches_chown: "P p \<Longrightarrow> keeps (touches P) (chown p u g)"
  unfolding chown_def by (rule touches_update_node)

lemma touches_write_data: "P p \<Longrightarrow> keeps (touches P) (write_data p c)"
  unfolding write_data_def by (rule touches_update_node)

lemma touches_fsync: "P p \<Longrightarrow> keeps (touches P) (fsync p)"
  unfolding fsync_def by (rule touches_update_node)

lemma map_of_filter_key [simp]:
  "map_of (filter (\<lambda>(p, _). P p) xs) p = (if P p then map_of xs p else None)"
  by (induction xs) auto

lemma touches_sync_entries [keeps_intros]: "keeps (touches P) (sync_entries d)"
  unfolding sync_entries_def
  by (rule keeps_sys_touches)
     (auto simp: touches_def same_env_def on_disk_def look_def map_add_def split: option.splits)

lemma touches_remove: "P p \<Longrightarrow> keeps (touches P) (remove p)"
  unfolding remove_def by (rule keeps_sys_touches) (auto simp: touches_def same_env_def)

lemma touches_mkdir: "P p \<Longrightarrow> keeps (touches P) (mkdir p m)"
  unfolding mkdir_def by (rule keeps_sys_touches) (auto simp: touches_def same_env_def)

lemma touches_open_excl: "P p \<Longrightarrow> keeps (touches P) (open_excl p m)"
  unfolding open_excl_def by (rule keeps_sys_touches) (auto simp: touches_def same_env_def)

lemma touches_open_create: "P p \<Longrightarrow> keeps (touches P) (open_create p m)"
  unfolding open_create_def
  by (rule keeps_sys_touches) (auto simp: touches_def same_env_def split: option.splits)

lemma touches_link: "P dst \<Longrightarrow> keeps (touches P) (link src dst)"
  unfolding link_def
  by (rule keeps_sys_touches) (auto simp: touches_def same_env_def split: option.splits)

lemma touches_mkdir_all_step: "P p \<Longrightarrow> keeps (touches P) (mkdir_all_step m p)"
  unfolding keeps_def mkdir_all_step_def
  by (auto simp: touches_def same_env_def split: option.splits)

lemma keeps_forE_set:
  assumes "\<And>x. x \<in> set xs \<Longrightarrow> keeps (touches P) (f x)"
  shows "keeps (touches P) (forE f xs)"
proof -
  have "keeps (touches P) (foldE (\<lambda>x _. f x) xs b)" for b
    using assms by (induction xs arbitrary: b) (auto intro: writes.keeps_retE writes.keeps_bindE)
  then show ?thesis by (simp add: forE_def)
qed

lemma touches_mkdir_all: "(\<And>q. q \<in> set (prefixes_of p) \<Longrightarrow> P q) \<Longrightarrow> keeps (touches P) (mkdir_all p m)"
  unfolding mkdir_all_def
  by (rule keeps_sys_touches)
     (rule keeps_def [THEN iffD1, rule_format], blast intro: keeps_forE_set touches_mkdir_all_step)

text \<open>Names reserved for temporary files of a directory.\<close>

definition temp_in :: "path \<Rightarrow> string \<Rightarrow> path \<Rightarrow> bool" where
  "temp_in d pre p \<longleftrightarrow> (\<exists>n. p = d @ [n] \<and> has_prefix pre n)"

lemma fresh_temp_props:
  "fresh_temp k d pre w = (ot, w') \<Longrightarrow>
     w_fs w' = w_fs w \<and> w_disk w' = w_disk w \<and> same_env w w' \<and> w_tick w' = w_tick w \<and>
     (\<forall>t. ot = Some t \<longrightarrow> temp_in d pre t \<and> look w t = None)"
proof (induction k d pre w rule: fresh_temp.induct)
  case (1 d pre w)
  then show ?case by auto
next
  case (2 k d pre w)
  then show ?case
    by (fastforce simp: Let_def temp_in_def same_env_def look_def split: if_splits)
qed

lemma touches_create_temp: "keeps (touches (temp_in d pre)) (create_temp d pre)"
  unfolding create_temp_def
proof (rule keeps_sys_touches)
  fix w
  obtain ot w' where f: "fresh_temp 10000 d pre w = (ot, w')" by fastforce
  note props = fresh_temp_props[OF f]
  from props have "\<And>p. look w' p = look w p" by (simp add: look_def)
  moreover from props have "\<And>p. on_disk w' p = on_disk w p" by (simp add: on_disk_def)
  ultimately show "touches (temp_in d pre) w
    (snd (if \<not> is_dir w d then (Inl (Sentinel ErrNotExist), w)
          else case fresh_temp 10000 d pre w of
               (None, w') \<Rightarrow> (Inl (Sentinel ErrExist), w')
             | (Some t, w') \<Rightarrow> (Inr t, set_node t (file_node 384) w')))"
    using props f by (auto simp: touches_def same_env_def split: option.splits)
qed

text \<open>Walking through a sequence of readers: either the whole run changed no file and failed, or
  the next reader returned.\<close>

lemma read_step:
  assumes "bindE m f w1 = (r, w')" and "keeps same_files m" and "same_files w w1"
    and "\<not> (same_files w w' \<and> (\<exists>e. r = Inl e))"
  obtains x w2 where "m w1 = (Inr x, w2)" and "same_files w w2" and "f x w2 = (r, w')"
proof -
  obtain q w2 where m: "m w1 = (q, w2)" by fastforce
  have s: "same_files w w2" using assms(3) keepsD[OF assms(2) m] by (rule reads.trans)
  show ?thesis
  proof (cases q)
    case (Inl e)
    with assms(1,4) m s show ?thesis by (auto simp: bindE_fail)
  next
    case (Inr x)
    with assms(1) m s that show ?thesis by (auto simp: bindE_step)
  qed
qed

section \<open>Outcomes of the calls\<close>

lemma wp_bindI:
  assumes "wp m P w"
    and "\<And>e w'. P (Inl e) w' \<Longrightarrow> Q (Inl e) w'"
    and "\<And>x w'. P (Inr x) w' \<Longrightarrow> wp (f x) Q w'"
  shows "wp (bindE m f) Q w"
  unfolding wp_bindE using assms(1) by (rule wp_mono) (use assms(2,3) in \<open>auto split: sum.splits\<close>)

lemma wp_tryI:
  assumes "wp m P w" and "\<And>r w'. P r w' \<Longrightarrow> wp (f r) Q w'"
  shows "wp (bindE (tryE m) f) Q w"
  unfolding wp_bindE wp_tryE sum.case using assms(1) by (rule wp_mono) (rule assms(2))

lemma lstat_outcome:
  "wp (lstat p) (\<lambda>r w'. same_files w w' \<and>
     (\<forall>i. r = Inr i \<longrightarrow> (\<exists>n. look w p = Some n \<and> i = info_of w n)) \<and>
     (not_exist r \<longrightarrow> look w p = None)) w"
  unfolding lstat_def
  by (rule wp_sysI)
     (auto simp: wp_def same_files_def same_env_def not_exist_def info_of_def data_size_def
       split: option.splits content.splits)

lemma read_file_outcome:
  "wp (read_file p) (\<lambda>r w'. same_files w w' \<and>
     (\<forall>c. r = Inr c \<longrightarrow> (\<exists>n. look w p = Some n \<and> n_kind n = KRegular \<and> c = n_data n)) \<and>
     (not_exist r \<longrightarrow> look w p = None)) w"
  unfolding read_file_def
  by (rule wp_sysI)
     (auto simp: wp_def same_files_def same_env_def not_exist_def split: option.splits)

lemma read_dir_outcome:
  "wp (read_dir p) (\<lambda>r w'. same_files w w' \<and>
     (\<forall>ns. r = Inr ns \<longrightarrow> is_dir w p \<and> set ns = {n. look w (p @ [n]) \<noteq> None} \<and> distinct ns) \<and>
     (not_exist r \<longrightarrow> look w p = None)) w"
proof -
  have "set (children w p) = {n. look w (p @ [n]) \<noteq> None}" for w
    by (force simp: children_def look_def map_of_eq_None_iff butlast_snoc_iff image_iff)
  then show ?thesis
    unfolding read_dir_def
    by (intro wp_sysI)
       (auto simp: wp_def same_files_def same_env_def not_exist_def is_dir_def children_def look_def
         split: option.splits)
qed

lemma create_temp_outcome:
  "wp (create_temp d pre) (\<lambda>r w'. touches (temp_in d pre) w w' \<and>
     (\<forall>t. r = Inr t \<longrightarrow> temp_in d pre t \<and> look w t = None \<and> is_dir w d \<and>
            look w' t = Some (file_node 384) \<and> touches (\<lambda>q. q = t) w w')) w"
proof -
  have main: "wp (\<lambda>w. if \<not> is_dir w d then (Inl (Sentinel ErrNotExist), w)
          else case fresh_temp 10000 d pre w of
               (None, w') \<Rightarrow> (Inl (Sentinel ErrExist), w')
             | (Some t, w') \<Rightarrow> (Inr t, set_node t (file_node 384) w'))
     (\<lambda>r w'. touches (temp_in d pre) w w' \<and>
       (\<forall>t. r = Inr t \<longrightarrow> temp_in d pre t \<and> look w t = None \<and> is_dir w d \<and>
            look w' t = Some (file_node 384) \<and> touches (\<lambda>q. q = t) w w')) (w\<lparr>w_tick := k\<rparr>)" for w k
  proof -
    let ?w = "w\<lparr>w_tick := k\<rparr>"
    obtain ot w' where f: "fresh_temp 10000 d pre ?w = (ot, w')" by fastforce
    note props = fresh_temp_props[OF f]
    from props have "\<And>p. look w' p = look w p" by (simp add: look_def)
    moreover from props have "\<And>p. on_disk w' p = on_disk w p" by (simp add: on_disk_def)
    ultimately show ?thesis
      using props f by (auto simp: wp_def touches_def same_env_def is_dir_def split: option.splits)
  qed
  show ?thesis
    unfolding create_temp_def
  proof (rule wp_sysI[OF main])
    show "wp (\<lambda>w. if \<not> is_dir w d then (Inl (Sentinel ErrNotExist), w)
          else case fresh_temp 10000 d pre w of
               (None, w') \<Rightarrow> (Inl (Sentinel ErrExist), w')
             | (Some t, w') \<Rightarrow> (Inr t, set_node t (file_node 384) w'))
       (\<lambda>_ w'. touches (temp_in d pre) w w' \<and>
         (\<forall>t. (Inl fault_err :: err + path) = Inr t \<longrightarrow> temp_in d pre t \<and> look w t = None \<and> is_dir w d \<and>
            look w' t = Some (file_node 384) \<and> touches (\<lambda>q. q = t) w w')) (w\<lparr>w_tick := Suc (w_tick w)\<rparr>)"
      using main by (rule wp_mono) simp
  qed (simp add: touches_def same_env_def)
qed

lemma update_node_outcome:
  "wp (update_node p f) (\<lambda>r w'. touches (\<lambda>q. q = p) w w' \<and>
     (r = Inr () \<longrightarrow> (\<exists>n. look w p = Some n \<and> look w' p = Some (f n)))) w"
  unfolding update_node_def
  by (rule wp_sysI) (auto simp: wp_def touches_def same_env_def split: option.splits)

lemma close_file_outcome: "wp (close_file p) (\<lambda>r w'. same_files w w') w"
  using reads_close_file by (rule keeps_wp)

lemma rename_file_outcome:
  assumes "look w src = Some n" and "n_kind n = KRegular" and "src \<noteq> dst"
  shows "wp (rename src dst) (\<lambda>r w'. touches (\<lambda>q. q = src \<or> q = dst) w w' \<and>
     (look w' dst = look w dst \<or> look w' dst = Some n) \<and>
     (r = Inr () \<longrightarrow> look w' dst = Some n \<and> look w' src = None)) w"
  unfolding rename_def using assms
  by (intro wp_sysI) (auto simp: wp_def touches_def same_env_def is_dir_def)

lemma link_outcome:
  assumes "look w src = Some n"
  shows "wp (link src dst) (\<lambda>r w'. touches (\<lambda>q. q = dst) w w' \<and>
     (look w' dst = look w dst \<or> look w dst = None \<and> look w' dst = Some n) \<and>
     (r = Inr () \<longrightarrow> look w dst = None \<and> look w' dst = Some n) \<and>
     (\<forall>e. r = Inl e \<longrightarrow> err_is ErrExist e \<longrightarrow> look w dst \<noteq> None \<and> look w' dst = look w dst)) w"
  unfolding link_def using assms
  by (intro wp_sysI) (auto simp: wp_def touches_def same_env_def is_dir_def)

lemma remove_outcome:
  "wp (remove p) (\<lambda>r w'. touches (\<lambda>q. q = p) w w' \<and>
     (r = Inr () \<or> not_exist r \<longrightarrow> look w' p = None)) w"
  unfolding remove_def
  by (rule wp_sysI) (auto simp: wp_def touches_def same_env_def not_exist_def)

lemma open_path_outcome: "wp (open_path p) (\<lambda>r w'. same_files w w') w"
  using reads_open_path by (rule keeps_wp)

lemma sync_entries_outcome:
  "wp (sync_entries d) (\<lambda>r w'. touches (\<lambda>_. False) w w' \<and>
     (r = Inr () \<longrightarrow> (\<forall>p. child_of d p \<longrightarrow> on_disk w' p = look w p))) w"
  unfolding sync_entries_def
  by (rule wp_sysI)
     (auto simp: wp_def touches_def same_env_def on_disk_def look_def map_add_def split: option.splits)

end
