(* ===== verification/AtomicPut.thy ===== *)
theory AtomicPut
  imports FileSpec
begin

text \<open>
  The contract of a crash-safe replacement of one file: whatever calls fail and wherever a
  crash stops the run, the target holds its old entry or a complete new one, only the target
  and reserved temporary names of its directory change, and when the call reports success
  the new entry is on the disk. Authorization, coordination, recovery control and the
  operation manager each implement it; the locale \<open>atomic_put\<close> is the interface their
  clients rest on.
\<close>

section \<open>The contract\<close>

definition good_file :: "nat \<Rightarrow> content \<Rightarrow> node \<Rightarrow> bool" where
  "good_file m c n \<longleftrightarrow> n_kind n = KRegular \<and> n_perm n = m \<and> n_data n = c \<and> n_synced n"

definition stored :: "world \<Rightarrow> path \<Rightarrow> content \<Rightarrow> nat \<Rightarrow> bool" where
  "stored w p c m \<longleftrightarrow> (\<exists>n. look w p = Some n \<and> good_file m c n)"

definition durable :: "world \<Rightarrow> path \<Rightarrow> content \<Rightarrow> nat \<Rightarrow> bool" where
  "durable w p c m \<longleftrightarrow> (\<exists>n. on_disk w p = Some n \<and> good_file m c n)"

text \<open>Files whose last component is not a reserved temporary name.\<close>

definition target :: "string \<Rightarrow> path \<Rightarrow> bool" where
  "target pre p \<longleftrightarrow> p \<noteq> [] \<and> \<not> has_prefix pre (last p)"

text \<open>\<open>aux\<close> holds the other entries the call may change: temporary names, and the
  directories an implementation creates on the way.\<close>

definition put_post ::
    "(path \<Rightarrow> bool) \<Rightarrow> nat \<Rightarrow> path \<Rightarrow> content \<Rightarrow> world \<Rightarrow> err + unit \<Rightarrow> world \<Rightarrow> bool" where
  "put_post aux m p c w r w' \<longleftrightarrow>
     touches (\<lambda>q. q = p \<or> aux q) w w' \<and>
     (look w' p = look w p \<or> stored w' p c m) \<and>
     (r = Inr () \<longrightarrow> stored w' p c m \<and> durable w' p c m)"

lemma target_not_temp: "target pre p \<Longrightarrow> \<not> temp_in d pre p"
  by (auto simp: target_def temp_in_def)

lemma put_post_unchanged:
  "touches aux w w' \<Longrightarrow> \<not> aux p \<Longrightarrow> r \<noteq> Inr () \<Longrightarrow> put_post aux m p c w r w'"
  by (auto simp: put_post_def touches_def)

lemma put_post_same: "same_files w w' \<Longrightarrow> r \<noteq> Inr () \<Longrightarrow> put_post aux m p c w r w'"
  by (auto simp: put_post_def same_files_look same_files_touches)

lemma stored_stays: "stored w p c m \<Longrightarrow> touches P w w' \<Longrightarrow> \<not> P p \<Longrightarrow> stored w' p c m"
  by (simp add: stored_def touches_look)

lemma durable_stays:
  "durable w p c m \<Longrightarrow> stored w p c m \<Longrightarrow> touches P w w' \<Longrightarrow> \<not> P p \<Longrightarrow> durable w' p c m"
  by (auto simp: stored_def durable_def touches_def)

locale atomic_put =
  fixes put :: "path \<Rightarrow> content \<Rightarrow> (world, unit) act"
    and ok :: "path \<Rightarrow> bool"
    and aux :: "path \<Rightarrow> path \<Rightarrow> bool"
    and perm :: nat
  assumes put_spec: "ok p \<Longrightarrow> wp (put p c) (put_post (aux p) perm p c w) w"
    and disjoint: "ok p \<Longrightarrow> ok q \<Longrightarrow> \<not> aux p q"
begin

lemma put_frame:
  "ok p \<Longrightarrow> put p c w = (r, w') \<Longrightarrow> q \<noteq> p \<Longrightarrow> \<not> aux p q \<Longrightarrow> look w' q = look w q"
  using put_spec[of p c w] by (auto simp: wp_def put_post_def touches_def)

lemma put_touches:
  "ok p \<Longrightarrow> put p c w = (r, w') \<Longrightarrow> touches (\<lambda>q. q = p \<or> aux p q) w w'"
  using put_spec[of p c w] by (auto simp: wp_def put_post_def)

lemma put_keeps_touches: "ok p \<Longrightarrow> keeps (touches (\<lambda>q. q = p \<or> aux p q)) (put p c)"
  unfolding keeps_def using put_touches by (metis prod.collapse)

lemma put_atomic:
  "ok p \<Longrightarrow> put p c w = (r, w') \<Longrightarrow> look w' p = look w p \<or> stored w' p c perm"
  using put_spec[of p c w] by (auto simp: wp_def put_post_def)

lemma put_commit:
  "ok p \<Longrightarrow> put p c w = (Inr (), w') \<Longrightarrow> stored w' p c perm \<and> durable w' p c perm"
  using put_spec[of p c w] by (auto simp: wp_def put_post_def)

text \<open>Storing the same contents at several targets keeps what is already stored.\<close>

lemma put_stays_stored:
  assumes "ok p" "ok q" and "stored w q c perm" and "put p c w = (r, w')"
  shows "stored w' q c perm"
proof (cases "p = q")
  case True
  with put_atomic[OF assms(1,4)] assms(3) show ?thesis by (auto simp: stored_def)
next
  case False
  have "look w' q = look w q"
  proof (rule put_frame[OF assms(1,4)])
    show "q \<noteq> p" using False by simp
    show "\<not> aux p q" using assms(1,2) by (rule disjoint)
  qed
  with assms(3) show ?thesis by (simp add: stored_def)
qed

lemma put_all_stays_stored:
  assumes "\<forall>p \<in> set ps. ok p" and "ok q" and "stored w q c perm"
    and "forE (\<lambda>p. put p c) ps w = (r, w')"
  shows "stored w' q c perm"
  using assms
proof (induction ps arbitrary: w)
  case Nil
  then show ?case by (simp add: forE_def retE_def)
next
  case (Cons p ps)
  obtain r1 w1 where p: "put p c w = (r1, w1)" by fastforce
  have w1: "stored w1 q c perm"
    using put_stays_stored[OF _ Cons.prems(2,3) p] Cons.prems(1) by simp
  show ?case
  proof (cases r1)
    case (Inl e)
    with Cons.prems(4) p w1 show ?thesis by (simp add: forE_def bindE_def)
  next
    case (Inr u)
    with Cons.prems(4) p have "forE (\<lambda>p. put p c) ps w1 = (r, w')"
      by (simp add: forE_def bindE_def)
    with Cons.IH[OF _ Cons.prems(2) w1] Cons.prems(1) show ?thesis by simp
  qed
qed

lemma put_all:
  assumes "\<forall>p \<in> set ps. ok p" and "forE (\<lambda>p. put p c) ps w = (Inr (), w')" and "p \<in> set ps"
  shows "stored w' p c perm"
  using assms
proof (induction ps arbitrary: w)
  case Nil
  then show ?case by simp
next
  case (Cons q qs)
  obtain r w1 where q: "put q c w = (r, w1)" by fastforce
  have r: "r = Inr ()" and rest: "forE (\<lambda>p. put p c) qs w1 = (Inr (), w')"
    using Cons.prems(2) q by (auto simp: forE_def bindE_def split: sum.splits)
  have "stored w1 q c perm" using put_commit Cons.prems(1) q r by auto
  then have "stored w' q c perm"
    using put_all_stays_stored[OF _ _ _ rest] Cons.prems(1) by simp
  with Cons.IH[OF _ rest] Cons.prems(1,3) show ?case by auto
qed

end

section \<open>Staging a temporary file\<close>

text \<open>Only entries in \<open>P\<close> change and nothing is written to the disk.\<close>

definition touches_mem :: "(path \<Rightarrow> bool) \<Rightarrow> world \<Rightarrow> world \<Rightarrow> bool" where
  "touches_mem P w w' \<longleftrightarrow> touches P w w' \<and> w_disk w' = w_disk w"

interpretation volatile: frame "touches_mem P" for P
  by unfold_locales (auto simp: touches_mem_def writes.refl intro: writes.trans)

lemma mem_remove: "P p \<Longrightarrow> keeps (touches_mem P) (remove p)"
  by (auto simp: keeps_def remove_def sys_def Let_def touches_mem_def touches_def same_env_def
    split: fault.splits)

lemma mem_reads: "keeps same_files m \<Longrightarrow> keeps (touches_mem P) m"
  by (auto simp: keeps_def touches_mem_def same_files_touches) (simp add: same_files_def)

definition stage_ok :: "nat \<Rightarrow> content \<Rightarrow> (path \<Rightarrow> unit io) \<Rightarrow> bool" where
  "stage_ok m c stage \<longleftrightarrow> (\<forall>t w. look w t = Some (file_node 384) \<longrightarrow>
     wp (stage t) (\<lambda>r w'. touches (\<lambda>q. q = t) w w' \<and>
       (r = Inr () \<longrightarrow> (\<exists>n. look w' t = Some n \<and> good_file m c n))) w)"

text \<open>With \<open>ex\<close> the target must not exist: an existing one is kept and the call fails.\<close>

definition kept_if :: "bool \<Rightarrow> path \<Rightarrow> world \<Rightarrow> err + unit \<Rightarrow> world \<Rightarrow> bool" where
  "kept_if ex p w r w' \<longleftrightarrow> (ex \<longrightarrow> look w p \<noteq> None \<longrightarrow> look w' p = look w p \<and> r \<noteq> Inr ())"

definition finish_ok :: "bool \<Rightarrow> nat \<Rightarrow> content \<Rightarrow> path \<Rightarrow> (path \<Rightarrow> unit io) \<Rightarrow> bool" where
  "finish_ok ex m c p finish \<longleftrightarrow> (\<forall>t w n. look w t = Some n \<longrightarrow> good_file m c n \<longrightarrow> t \<noteq> p \<longrightarrow>
     wp (finish t) (\<lambda>r w'. touches (\<lambda>q. q = t \<or> q = p) w w' \<and>
       (look w' p = look w p \<or> stored w' p c m) \<and>
       (r = Inr () \<longrightarrow> stored w' p c m \<and> durable w' p c m) \<and> kept_if ex p w r w') w)"

text \<open>Stage the contents in a fresh temporary file, move it over the target, clean up.\<close>

lemma staged_put_spec:
  assumes p: "target pre p"
    and stage: "stage_ok m c stage" and finish: "finish_ok ex m c p finish"
    and clean: "\<And>t. keeps (touches_mem (\<lambda>q. q = t)) (cleanup t)"
  shows "wp (bindE (create_temp d pre) (\<lambda>t. deferE (bindE (stage t) (\<lambda>_. finish t)) (cleanup t)))
           (\<lambda>r w'. put_post (temp_in d pre) m p c w r w' \<and> kept_if ex p w r w') w"
proof (rule wp_bindI[OF create_temp_outcome])
  fix e w1
  assume "touches (temp_in d pre) w w1 \<and> (\<forall>t. (Inl e :: err + path) = Inr t \<longrightarrow> temp_in d pre t \<and> look w t = None \<and>
    is_dir w d \<and> look w1 t = Some (file_node 384) \<and> touches (\<lambda>q. q = t) w w1)"
  then show "put_post (temp_in d pre) m p c w (Inl e) w1 \<and> kept_if ex p w (Inl e) w1"
    using put_post_unchanged[of "temp_in d pre" w w1 p "Inl e"] target_not_temp[OF p]
    by (auto simp: kept_if_def touches_look)
next
  fix t w1
  assume "touches (temp_in d pre) w w1 \<and> (\<forall>t'. Inr t = Inr t' \<longrightarrow> temp_in d pre t' \<and> look w t' = None \<and>
    is_dir w d \<and> look w1 t' = Some (file_node 384) \<and> touches (\<lambda>q. q = t') w w1)"
  then have t: "temp_in d pre t" and w1: "look w1 t = Some (file_node 384)" "touches (\<lambda>q. q = t) w w1"
    by auto
  have tp: "t \<noteq> p" using t p target_not_temp by blast
  have all: "touches (\<lambda>q. q = p \<or> temp_in d pre q) w w'" if "touches (\<lambda>q. q = t \<or> q = p) w w'" for w'
    using that t by (auto elim!: touches_mono)
  let ?Q = "\<lambda>(r :: err + unit) w'. wp (cleanup t) (\<lambda>_ w'. put_post (temp_in d pre) m p c w r w' \<and> kept_if ex p w r w') w'"
  have cleaned: "?Q r w'" if "touches (\<lambda>q. q = t \<or> q = p) w w'"
      "look w' p = look w p \<or> stored w' p c m" "r = Inr () \<longrightarrow> stored w' p c m \<and> durable w' p c m"
      "kept_if ex p w r w'" for r w'
  proof -
    from clean have "wp (cleanup t) (\<lambda>_. touches_mem (\<lambda>q. q = t) w') w'" by (rule keeps_wp)
    then show ?thesis
    proof (rule wp_mono)
      fix r' w2
      assume c: "touches_mem (\<lambda>q. q = t) w' w2"
      then have "look w2 p = look w' p" and "on_disk w2 p = on_disk w' p"
        using tp by (auto simp: touches_mem_def touches_def on_disk_def)
      moreover have "touches (\<lambda>q. q = t \<or> q = p) w w2"
        using that(1) c by (auto simp: touches_mem_def intro: touches_comp)
      ultimately show "put_post (temp_in d pre) m p c w r w2 \<and> kept_if ex p w r w2"
        using that(2-4) all by (auto simp: put_post_def stored_def durable_def kept_if_def)
    qed
  qed
  have "wp (bindE (stage t) (\<lambda>_. finish t)) ?Q w1"
  proof (rule wp_bindI[OF stage[unfolded stage_ok_def, rule_format, OF w1(1)]])
    fix e w2
    assume "touches (\<lambda>q. q = t) w1 w2 \<and> ((Inl e :: err + unit) = Inr () \<longrightarrow> (\<exists>n. look w2 t = Some n \<and> good_file m c n))"
    with w1 tp show "?Q (Inl e) w2"
      by (intro cleaned) (auto simp: touches_look kept_if_def intro: touches_comp)
  next
    fix u w2
    assume "touches (\<lambda>q. q = t) w1 w2 \<and> ((Inr u :: err + unit) = Inr () \<longrightarrow> (\<exists>n. look w2 t = Some n \<and> good_file m c n))"
    then obtain n where n: "look w2 t = Some n" "good_file m c n" and w2: "touches (\<lambda>q. q = t) w1 w2"
      by auto
    with w1 tp have base: "touches (\<lambda>q. q = t) w w2" "look w2 p = look w p"
      by (auto simp: touches_look intro: writes.trans)
    show "wp (finish t) ?Q w2"
      using finish[unfolded finish_ok_def, rule_format, OF n tp]
      by (rule wp_mono, intro cleaned)
         (use base in \<open>auto simp: kept_if_def intro: touches_comp\<close>)
  qed
  then show "wp (deferE (bindE (stage t) (\<lambda>_. finish t)) (cleanup t))
      (\<lambda>r w'. put_post (temp_in d pre) m p c w r w' \<and> kept_if ex p w r w') w1"
    by (simp add: wp_deferE)
qed

text \<open>The usual stage: set the mode, write, sync, close.\<close>

lemma stage_chmod_write_sync_close:
  "stage_ok m c (\<lambda>t. bindE (chmod t m) (\<lambda>_. bindE (write_data t c) (\<lambda>_.
     bindE (fsync t) (\<lambda>_. close_file t))))"
  unfolding stage_ok_def
proof (intro allI impI)
  fix t w
  assume "look w t = Some (file_node 384)"
  then show "wp (bindE (chmod t m) (\<lambda>_. bindE (write_data t c) (\<lambda>_. bindE (fsync t) (\<lambda>_. close_file t))))
    (\<lambda>r w'. touches (\<lambda>q. q = t) w w' \<and> (r = Inr () \<longrightarrow> (\<exists>n. look w' t = Some n \<and> good_file m c n))) w"
    unfolding chmod_def write_data_def fsync_def
    by (intro wp_bindI[OF update_node_outcome] wp_mono[OF close_file_outcome])
       (auto simp: same_files_look good_file_def file_node_def intro: writes.trans,
         blast intro: writes.trans same_files_touches)
qed

lemma finish_rename_sync:
  assumes sync: "\<And>w. wp (sync (butlast p)) (\<lambda>r w'. touches (\<lambda>_. False) w w' \<and>
     (r = Inr () \<longrightarrow> (\<forall>q. child_of (butlast p) q \<longrightarrow> on_disk w' q = look w q))) w"
    and p: "p \<noteq> []"
  shows "finish_ok False m c p (\<lambda>t. bindE (rename t p) (\<lambda>_. sync (butlast p)))"
  unfolding finish_ok_def
proof (intro allI impI)
  fix t w n
  assume n: "look w t = Some n" and good: "good_file m c n" and tp: "t \<noteq> p"
  have reg: "n_kind n = KRegular" using good by (simp add: good_file_def)
  have child: "child_of (butlast p) p" using p by (simp add: child_of_def)
  show "wp (bindE (rename t p) (\<lambda>_. sync (butlast p)))
     (\<lambda>r w'. touches (\<lambda>q. q = t \<or> q = p) w w' \<and> (look w' p = look w p \<or> stored w' p c m) \<and>
       (r = Inr () \<longrightarrow> stored w' p c m \<and> durable w' p c m) \<and> kept_if False p w r w') w"
  proof (rule wp_bindI[OF rename_file_outcome[OF n reg tp]])
    fix x w'
    assume "touches (\<lambda>q. q = t \<or> q = p) w w' \<and> (look w' p = look w p \<or> look w' p = Some n) \<and>
      ((Inr x :: err + unit) = Inr () \<longrightarrow> look w' p = Some n \<and> look w' t = None)"
    then have w': "touches (\<lambda>q. q = t \<or> q = p) w w'" "look w' p = Some n" by auto
    show "wp (sync (butlast p)) (\<lambda>r w'. touches (\<lambda>q. q = t \<or> q = p) w w' \<and>
       (look w' p = look w p \<or> stored w' p c m) \<and> (r = Inr () \<longrightarrow> stored w' p c m \<and> durable w' p c m) \<and>
       kept_if False p w r w') w'"
      by (rule wp_mono[OF sync])
         (use w' good child in \<open>auto simp: touches_look stored_def durable_def kept_if_def intro: touches_comp\<close>)
  qed (use good in \<open>auto simp: stored_def kept_if_def\<close>)
qed

lemma bindE_assoc: "bindE (bindE m f) g = bindE m (\<lambda>x. bindE (f x) g)"
  by (rule ext) (simp add: bindE_def split: prod.splits sum.splits)

end
