(* ===== verification/Coordination.thy ===== *)
theory Coordination
  imports AtomicPut "HOL-Library.Word"
begin

text \<open>
  The records of \<open>internal/coordination\<close>: actors, plans, submissions, admissions, receipts
  and the operation head, their validity checks, and their JSON forms. SHA-256 of a JSON
  document is a parameter \<open>sha\<close> (crypto is not modelled). Sequence numbers are 64-bit words.
\<close>

section \<open>Actors and scopes\<close>

record actor =
  ac_management :: string
  ac_admin :: int
  ac_identity :: string

definition actor_valid :: "actor \<Rightarrow> bool" where
  "actor_valid a \<longleftrightarrow> uuid_ok (ac_management a) \<and> 0 < ac_admin a \<and> hex64_ok (ac_identity a)"

definition scope :: "string \<Rightarrow> string" where
  "scope action =
     (if action = ''update'' \<or> action = ''switch-back'' then ''update''
      else if action = ''backup'' then ''backup''
      else if action = ''restore'' then ''rollback''
      else [])"

definition wire_scope :: "string \<Rightarrow> string" where
  "wire_scope action =
     (if action = ''restore'' then ''updater:restore''
      else if scope action \<noteq> [] then ''updater:'' @ scope action else [])"

section \<open>Plans\<close>

record plan_request =
  pr_action :: string
  pr_epoch :: string
  pr_actor :: actor
  pr_point :: string

definition plan_request_valid :: "plan_request \<Rightarrow> bool" where
  "plan_request_valid r \<longleftrightarrow> scope (pr_action r) \<noteq> [] \<and> hex32_ok (pr_epoch r) \<and>
     actor_valid (pr_actor r) \<and>
     ((pr_action r = ''restore'' \<and> point_id_ok (pr_point r)) \<or>
      (pr_action r \<noteq> ''restore'' \<and> pr_point r = []))"

record plan =
  pl_schema :: int
  pl_instance :: string
  pl_id :: string
  pl_sha :: string
  pl_baseline :: string
  pl_epoch :: string
  pl_action :: string
  pl_actor :: actor
  pl_expires :: int
  pl_maintenance :: bool
  pl_continuation :: string
  pl_point :: string
  pl_details :: "json option"
  pl_snapshot :: "json option"

definition actor_to_json :: "actor \<Rightarrow> json" where
  "actor_to_json a = JObj [(''management_instance_id'', JStr (ac_management a)),
     (''admin_id'', JNum (ac_admin a)), (''identity_sha256'', JStr (ac_identity a))]"

definition dec_actor :: "json \<Rightarrow> actor \<Rightarrow> actor option" where
  "dec_actor j x =
     (case members j of None \<Rightarrow> None
      | Some kvs \<Rightarrow>
          if \<not> known [''management_instance_id'', ''admin_id'', ''identity_sha256''] kvs then None
          else Option.bind (field ''management_instance_id'' dec_str kvs (ac_management x)) (\<lambda>m.
               Option.bind (field ''admin_id'' dec_int64 kvs (ac_admin x)) (\<lambda>i.
               Option.bind (field ''identity_sha256'' dec_str kvs (ac_identity x)) (\<lambda>h.
               Some \<lparr>ac_management = m, ac_admin = i, ac_identity = h\<rparr>))))"

definition zero_actor :: actor where
  "zero_actor = \<lparr>ac_management = [], ac_admin = 0, ac_identity = []\<rparr>"

definition plan_to_json :: "plan \<Rightarrow> json" where
  "plan_to_json p = JObj (
     [(''schema_version'', JNum (pl_schema p)), (''instance_id'', JStr (pl_instance p)),
      (''plan_id'', JStr (pl_id p)), (''plan_sha256'', JStr (pl_sha p)),
      (''baseline_sha256'', JStr (pl_baseline p)), (''expected_epoch'', JStr (pl_epoch p)),
      (''action'', JStr (pl_action p)), (''actor'', actor_to_json (pl_actor p)),
      (''expires_at'', JTime (pl_expires p)), (''maintenance_required'', JBool (pl_maintenance p)),
      (''continuation'', JStr (pl_continuation p))] @
     omit_str ''recovery_point_id'' (pl_point p) @
     opt_pair ''details'' (pl_details p) (\<lambda>j. j) @
     opt_pair ''snapshot'' (pl_snapshot p) (\<lambda>j. j))"

definition plan_keys :: "string list" where
  "plan_keys = [''schema_version'', ''instance_id'', ''plan_id'', ''plan_sha256'', ''baseline_sha256'',
     ''expected_epoch'', ''action'', ''actor'', ''expires_at'', ''maintenance_required'',
     ''continuation'', ''recovery_point_id'', ''details'', ''snapshot'']"

definition plan_of_json :: "json \<Rightarrow> plan option" where
  "plan_of_json j =
     (case members j of None \<Rightarrow> None
      | Some kvs \<Rightarrow>
          if \<not> known plan_keys kvs then None
          else Option.bind (field ''schema_version'' dec_int64 kvs 0) (\<lambda>sv.
               Option.bind (field ''instance_id'' dec_str kvs []) (\<lambda>i.
               Option.bind (field ''plan_id'' dec_str kvs []) (\<lambda>pid.
               Option.bind (field ''plan_sha256'' dec_str kvs []) (\<lambda>sha.
               Option.bind (field ''baseline_sha256'' dec_str kvs []) (\<lambda>base.
               Option.bind (field ''expected_epoch'' dec_str kvs []) (\<lambda>ep.
               Option.bind (field ''action'' dec_str kvs []) (\<lambda>act.
               Option.bind (field ''actor'' dec_actor kvs zero_actor) (\<lambda>ac.
               Option.bind (field ''expires_at'' dec_time kvs zero_time) (\<lambda>ex.
               Option.bind (field ''maintenance_required'' dec_bool kvs False) (\<lambda>mr.
               Option.bind (field ''continuation'' dec_str kvs []) (\<lambda>co.
               Option.bind (field ''recovery_point_id'' dec_str kvs []) (\<lambda>pt.
               Option.bind (field ''details'' dec_raw kvs None) (\<lambda>de.
               Option.bind (field ''snapshot'' dec_raw kvs None) (\<lambda>sn.
               Some \<lparr>pl_schema = sv, pl_instance = i, pl_id = pid, pl_sha = sha, pl_baseline = base,
                 pl_epoch = ep, pl_action = act, pl_actor = ac, pl_expires = ex, pl_maintenance = mr,
                 pl_continuation = co, pl_point = pt, pl_details = de, pl_snapshot = sn\<rparr>)))))))))))))))"

definition plan_digest :: "(json \<Rightarrow> string) \<Rightarrow> plan \<Rightarrow> string" where
  "plan_digest sha p = sha (plan_to_json (p\<lparr>pl_sha := []\<rparr>))"

definition plan_public :: "plan \<Rightarrow> plan" where
  "plan_public p = p\<lparr>pl_snapshot := None\<rparr>"

definition plan_valid :: "(json \<Rightarrow> string) \<Rightarrow> plan \<Rightarrow> bool" where
  "plan_valid sha p \<longleftrightarrow> pl_schema p = 2 \<and> pl_instance p = ''primary'' \<and> hex32_ok (pl_id p) \<and>
     hex64_ok (pl_sha p) \<and> hex64_ok (pl_baseline p) \<and> hex32_ok (pl_epoch p) \<and>
     scope (pl_action p) \<noteq> [] \<and> actor_valid (pl_actor p) \<and> pl_expires p \<noteq> zero_time \<and>
     (pl_continuation p = ''remote'' \<or> pl_continuation p = ''host_only'') \<and>
     (pl_point p = [] \<or> point_id_ok (pl_point p)) \<and> plan_digest sha p = pl_sha p"

section \<open>Submissions\<close>

record submit_request =
  sr_action :: string
  sr_plan :: string
  sr_plan_sha :: string
  sr_epoch :: string
  sr_allow_maintenance :: bool
  sr_confirm_host :: bool
  sr_request :: string
  sr_actor :: actor
  sr_scope :: string

definition submit_valid :: "submit_request \<Rightarrow> bool" where
  "submit_valid r \<longleftrightarrow> scope (sr_action r) \<noteq> [] \<and> hex32_ok (sr_plan r) \<and> hex64_ok (sr_plan_sha r) \<and>
     hex32_ok (sr_epoch r) \<and> identifier_ok (sr_request r) \<and> actor_valid (sr_actor r) \<and>
     sr_scope r = wire_scope (sr_action r)"

text \<open>The digest of the business fields; \<open>json.Marshal\<close> writes map keys in order.\<close>

definition business_sha :: "(json \<Rightarrow> string) \<Rightarrow> submit_request \<Rightarrow> string" where
  "business_sha sha r = sha (JObj [(''action'', JStr (sr_action r)),
     (''allow_maintenance'', JBool (sr_allow_maintenance r)),
     (''confirm_host_access'', JBool (sr_confirm_host r)),
     (''expected_epoch'', JStr (sr_epoch r)), (''plan_id'', JStr (sr_plan r)),
     (''plan_sha256'', JStr (sr_plan_sha r))])"

section \<open>Admissions and receipts\<close>

record admission =
  ad_sequence :: "64 word"
  ad_schema :: int
  ad_instance :: string
  ad_request :: string
  ad_business :: string
  ad_operation_id :: string
  ad_action :: string
  ad_plan :: string
  ad_epoch :: string
  ad_actor :: actor
  ad_scope :: string
  ad_counter :: int
  ad_accepted :: int
  ad_point :: string
  ad_operation :: "json option"

definition admission_valid :: "admission \<Rightarrow> bool" where
  "admission_valid a \<longleftrightarrow> 0 < ad_sequence a \<and> ad_schema a = 2 \<and> ad_instance a = ''primary'' \<and>
     identifier_ok (ad_request a) \<and> hex64_ok (ad_business a) \<and> op_id_ok (ad_operation_id a) \<and>
     hex32_ok (ad_plan a) \<and> hex32_ok (ad_epoch a) \<and> actor_valid (ad_actor a) \<and>
     ad_scope a = scope (ad_action a) \<and> ad_scope a \<noteq> [] \<and> 0 \<le> ad_counter a \<and>
     ad_accepted a \<noteq> zero_time \<and> ad_operation a \<noteq> None \<and>
     (ad_point a = [] \<or> point_id_ok (ad_point a))"

text \<open>A raw message that was never set is written as \<open>null\<close>.\<close>

definition raw_json :: "json option \<Rightarrow> json" where
  "raw_json r = (case r of None \<Rightarrow> JNull | Some j \<Rightarrow> j)"

definition admission_to_json :: "admission \<Rightarrow> json" where
  "admission_to_json a = JObj (
     [(''sequence'', JNum (uint (ad_sequence a))), (''schema_version'', JNum (ad_schema a)),
      (''instance_id'', JStr (ad_instance a)), (''client_request_id'', JStr (ad_request a)),
      (''business_sha256'', JStr (ad_business a)), (''operation_id'', JStr (ad_operation_id a)),
      (''action'', JStr (ad_action a)), (''plan_id'', JStr (ad_plan a)),
      (''accepted_epoch'', JStr (ad_epoch a)), (''actor'', actor_to_json (ad_actor a)),
      (''scope'', JStr (ad_scope a)), (''counter'', JNum (ad_counter a)),
      (''accepted_at'', JTime (ad_accepted a))] @
     omit_str ''recovery_point_id'' (ad_point a) @
     [(''operation'', raw_json (ad_operation a))])"

definition admission_keys :: "string list" where
  "admission_keys = [''sequence'', ''schema_version'', ''instance_id'', ''client_request_id'',
     ''business_sha256'', ''operation_id'', ''action'', ''plan_id'', ''accepted_epoch'', ''actor'',
     ''scope'', ''counter'', ''accepted_at'', ''recovery_point_id'', ''operation'']"

definition admission_of_json :: "json \<Rightarrow> admission option" where
  "admission_of_json j =
     (case members j of None \<Rightarrow> None
      | Some kvs \<Rightarrow>
          if \<not> known admission_keys kvs then None
          else Option.bind (field ''sequence'' dec_uint64 kvs 0) (\<lambda>sq.
               Option.bind (field ''schema_version'' dec_int64 kvs 0) (\<lambda>sv.
               Option.bind (field ''instance_id'' dec_str kvs []) (\<lambda>i.
               Option.bind (field ''client_request_id'' dec_str kvs []) (\<lambda>rq.
               Option.bind (field ''business_sha256'' dec_str kvs []) (\<lambda>bs.
               Option.bind (field ''operation_id'' dec_str kvs []) (\<lambda>oi.
               Option.bind (field ''action'' dec_str kvs []) (\<lambda>act.
               Option.bind (field ''plan_id'' dec_str kvs []) (\<lambda>pid.
               Option.bind (field ''accepted_epoch'' dec_str kvs []) (\<lambda>ep.
               Option.bind (field ''actor'' dec_actor kvs zero_actor) (\<lambda>ac.
               Option.bind (field ''scope'' dec_str kvs []) (\<lambda>sc.
               Option.bind (field ''counter'' dec_int64 kvs 0) (\<lambda>ct.
               Option.bind (field ''accepted_at'' dec_time kvs zero_time) (\<lambda>at.
               Option.bind (field ''recovery_point_id'' dec_str kvs []) (\<lambda>pt.
               Option.bind (field ''operation'' dec_raw kvs None) (\<lambda>opn.
               Some \<lparr>ad_sequence = word_of_int sq, ad_schema = sv, ad_instance = i, ad_request = rq,
                 ad_business = bs, ad_operation_id = oi, ad_action = act, ad_plan = pid, ad_epoch = ep,
                 ad_actor = ac, ad_scope = sc, ad_counter = ct, ad_accepted = at, ad_point = pt,
                 ad_operation = opn\<rparr>))))))))))))))))"

record receipt =
  rc_schema :: int
  rc_instance :: string
  rc_request :: string
  rc_business :: string
  rc_operation_id :: string
  rc_action :: string
  rc_plan :: string
  rc_epoch :: string
  rc_admission :: string
  rc_background :: string
  rc_operation :: "json option"

text \<open>\<open>json.Unmarshal\<close> into a struct with one string field; other keys are ignored.\<close>

definition json_string_field :: "string \<Rightarrow> json \<Rightarrow> string option" where
  "json_string_field k j = Option.bind (members j) (\<lambda>kvs. field k dec_str kvs [])"

definition admission_receipt :: "admission \<Rightarrow> string \<Rightarrow> receipt" where
  "admission_receipt a background =
     (let r = \<lparr>rc_schema = 2, rc_instance = ad_instance a, rc_request = ad_request a,
                rc_business = ad_business a, rc_operation_id = ad_operation_id a,
                rc_action = ad_action a, rc_plan = ad_plan a, rc_epoch = ad_epoch a,
                rc_admission = ''accepted'', rc_background = background,
                rc_operation = ad_operation a\<rparr>
      in if Option.bind (ad_operation a) (json_string_field ''status'') = Some ''queued''
         then r\<lparr>rc_admission := ''pending'', rc_operation := None\<rparr> else r)"

section \<open>The operation head\<close>

record head =
  hd_schema :: int
  hd_instance :: string
  hd_sequence :: "64 word"
  hd_origin :: string
  hd_operation_id :: string
  hd_operation :: "json option"

definition head_valid :: "head \<Rightarrow> bool" where
  "head_valid h \<longleftrightarrow> hd_schema h = 2 \<and> hd_instance h = ''primary'' \<and> 0 < hd_sequence h \<and>
     (hd_origin h = ''legacy'' \<or> hd_origin h = ''admission'') \<and> op_id_ok (hd_operation_id h) \<and>
     hd_operation h \<noteq> None"

definition head_to_json :: "head \<Rightarrow> json" where
  "head_to_json h = JObj [(''schema_version'', JNum (hd_schema h)),
     (''instance_id'', JStr (hd_instance h)), (''sequence'', JNum (uint (hd_sequence h))),
     (''origin'', JStr (hd_origin h)), (''operation_id'', JStr (hd_operation_id h)),
     (''operation'', raw_json (hd_operation h))]"

definition head_of_json :: "json \<Rightarrow> head option" where
  "head_of_json j =
     (case members j of None \<Rightarrow> None
      | Some kvs \<Rightarrow>
          if \<not> known [''schema_version'', ''instance_id'', ''sequence'', ''origin'', ''operation_id'',
                ''operation''] kvs then None
          else Option.bind (field ''schema_version'' dec_int64 kvs 0) (\<lambda>sv.
               Option.bind (field ''instance_id'' dec_str kvs []) (\<lambda>i.
               Option.bind (field ''sequence'' dec_uint64 kvs 0) (\<lambda>sq.
               Option.bind (field ''origin'' dec_str kvs []) (\<lambda>og.
               Option.bind (field ''operation_id'' dec_str kvs []) (\<lambda>oi.
               Option.bind (field ''operation'' dec_raw kvs None) (\<lambda>opn.
               Some \<lparr>hd_schema = sv, hd_instance = i, hd_sequence = word_of_int sq, hd_origin = og,
                 hd_operation_id = oi, hd_operation = opn\<rparr>)))))))"

definition zero_head :: head where
  "zero_head = \<lparr>hd_schema = 0, hd_instance = [], hd_sequence = 0, hd_origin = [],
     hd_operation_id = [], hd_operation = None\<rparr>"

section \<open>Encoding and decoding\<close>

lemmas json_eval = lower_char_def is_upper_def code_def dec_raw_def

lemma actor_roundtrip:
  assumes "- (2 ^ 63) \<le> ac_admin a" "ac_admin a < 2 ^ 63"
  shows "dec_actor (actor_to_json a) x = Some a"
  using assms by (simp add: dec_actor_def actor_to_json_def json_eval dec_int64_num)

lemma uint64_range: "0 \<le> uint (x :: 64 word)" "uint (x :: 64 word) < 18446744073709551616"
  using uint_bounded[of x] by simp_all

lemma head_roundtrip:
  assumes "- (2 ^ 63) \<le> hd_schema h" "hd_schema h < 2 ^ 63" and "hd_operation h \<noteq> None"
  shows "head_of_json (head_to_json h) = Some h"
  using assms uint64_range
  by (auto simp: head_of_json_def head_to_json_def json_eval dec_int64_num dec_uint64_def raw_json_def)

definition admission_in_range :: "admission \<Rightarrow> bool" where
  "admission_in_range a \<longleftrightarrow> - (2 ^ 63) \<le> ad_schema a \<and> ad_schema a < 2 ^ 63 \<and>
     - (2 ^ 63) \<le> ad_counter a \<and> ad_counter a < 2 ^ 63 \<and>
     - (2 ^ 63) \<le> ac_admin (ad_actor a) \<and> ac_admin (ad_actor a) < 2 ^ 63"

lemma admission_roundtrip:
  assumes "admission_in_range a" and "ad_operation a \<noteq> None"
  shows "admission_of_json (admission_to_json a) = Some a"
  using assms uint64_range
  by (auto simp: admission_of_json_def admission_to_json_def admission_keys_def json_eval
      dec_int64_num dec_uint64_def raw_json_def actor_roundtrip admission_in_range_def)

definition plan_in_range :: "plan \<Rightarrow> bool" where
  "plan_in_range p \<longleftrightarrow> - (2 ^ 63) \<le> pl_schema p \<and> pl_schema p < 2 ^ 63 \<and>
     - (2 ^ 63) \<le> ac_admin (pl_actor p) \<and> ac_admin (pl_actor p) < 2 ^ 63"

lemma plan_roundtrip:
  assumes "plan_in_range p"
  shows "plan_of_json (plan_to_json p) = Some p"
  using assms
  by (auto simp: plan_of_json_def plan_to_json_def plan_keys_def json_eval
      dec_int64_num actor_roundtrip plan_in_range_def split: option.splits)

end
