(* ===== verification/CoordStore.thy ===== *)
theory CoordStore
  imports Coordination
begin

text \<open>
  The durable store of \<open>internal/coordination\<close> (\<open>store.go\<close>, \<open>head.go\<close>): reading and
  writing records, plans, admissions, the operation head that orders legacy starts and
  admissions, and the recovery points the store protects. The hooks \<open>Fault\<close> and
  \<open>SyncDirectory\<close> of the Go struct are fields here too; production code leaves both unset.
\<close>

section \<open>The store\<close>

record store =
  st_dir :: "path option"
  st_hook :: "string \<Rightarrow> err option"
  st_sync :: "(path \<Rightarrow> unit io) option"
  st_sha :: "json \<Rightarrow> string"

definition default_state_dir :: path where
  "default_state_dir = [''var'', ''lib'', ''geoflow-updater'']"

definition state_dir :: "store \<Rightarrow> path" where
  "state_dir st = (case st_dir st of None \<Rightarrow> default_state_dir | Some d \<Rightarrow> d)"

definition root :: "store \<Rightarrow> string \<Rightarrow> string \<Rightarrow> err + path" where
  "root st inst kind =
     (if inst \<noteq> ''primary'' then Inl (Msg ''invalid instance'')
      else Inr (state_dir st @ [''coordination'', inst] @ (if kind = [] then [] else [kind])))"

definition hook :: "store \<Rightarrow> string \<Rightarrow> unit io" where
  "hook st stage = (case st_hook st stage of None \<Rightarrow> retE () | Some e \<Rightarrow> failE e)"

definition sync_directory :: "path \<Rightarrow> unit io" where
  "sync_directory p = bindE (wrapE (Wrap ''open coordination directory'') (open_path p))
     (\<lambda>_. deferE (sync_entries p) (close_file p))"

definition store_sync :: "store \<Rightarrow> path \<Rightarrow> unit io" where
  "store_sync st p = (case st_sync st of None \<Rightarrow> sync_directory p | Some f \<Rightarrow> f p)"

section \<open>Records on disk\<close>

definition max_record :: nat where
  "max_record = 16 * 1024 * 1024"

definition json_of_content :: "content \<Rightarrow> err + json" where
  "json_of_content c = (case c of Json j \<Rightarrow> Inr j | Text _ \<Rightarrow> Inl (Msg ''invalid coordination data''))"

lemma json_of_content_Inr [simp]: "json_of_content c = Inr j \<longleftrightarrow> c = Json j"
  by (simp add: json_of_content_def split: content.splits)

text \<open>\<open>read\<close>: a private regular file of bounded size that holds one JSON document.\<close>

definition read_record :: "path \<Rightarrow> json io" where
  "read_record p =
     bindE (lstat p) (\<lambda>i.
     if i_kind i \<noteq> KRegular \<or> i_perm i \<noteq> 384 \<or> i_size i < 1 \<or> i_size i > max_record
     then failE (Msg ''unsafe coordination record'')
     else bindE (read_file p) (\<lambda>c. liftE (json_of_content c)))"

fun json_names :: "string list \<Rightarrow> err + string list" where
  "json_names [] = Inr []"
| "json_names (n # ns) =
     (if has_prefix ''.pending-'' n then json_names ns
      else if \<not> has_suffix ''.json'' n then Inl (Msg ''unexpected coordination file'')
      else (case json_names ns of Inl e \<Rightarrow> Inl e | Inr xs \<Rightarrow> Inr (take (length n - 5) n # xs)))"

definition entries :: "path \<Rightarrow> string list io" where
  "entries d =
     bindE (tryE (lstat d)) (\<lambda>r. case r of
       Inl e \<Rightarrow> (if err_is ErrNotExist e then retE [] else failE e)
     | Inr i \<Rightarrow> (if i_kind i \<noteq> KDir then failE (Msg ''unsafe coordination directory'')
                 else bindE (read_dir d) (\<lambda>items. liftE (json_names items))))"

text \<open>\<open>durableDirectory\<close>: create the missing components below the state directory and sync
  every one of them, existing ones included.\<close>

definition durable_component :: "store \<Rightarrow> path \<Rightarrow> path \<Rightarrow> unit io" where
  "durable_component st parent current =
     bindE (bindE (tryE (lstat current)) (\<lambda>r. case r of
        Inr i \<Rightarrow> retE i
      | Inl e \<Rightarrow>
          if err_is ErrNotExist e
          then bindE (tryE (mkdir current 448)) (\<lambda>m. case m of
                 Inl e' \<Rightarrow> if err_is ErrExist e' then lstat current else failE e'
               | Inr _ \<Rightarrow> lstat current)
          else failE e))
     (\<lambda>i. if i_kind i \<noteq> KDir then failE (Msg ''unsafe coordination directory'')
          else bindE (store_sync st current) (\<lambda>_. store_sync st parent))"

fun durable_components :: "store \<Rightarrow> path \<Rightarrow> string list \<Rightarrow> unit io" where
  "durable_components st parent [] = retE ()"
| "durable_components st parent (c # cs) =
     bindE (durable_component st parent (parent @ [c])) (\<lambda>_. durable_components st (parent @ [c]) cs)"

definition durable_directory :: "store \<Rightarrow> path \<Rightarrow> unit io" where
  "durable_directory st p =
     (let boundary = state_dir st in
      if \<not> has_prefix boundary p then failE (Msg ''coordination path escaped state directory'')
      else bindE (lstat boundary) (\<lambda>i.
        if i_kind i \<noteq> KDir then failE (Msg ''unsafe state directory'')
        else bindE (store_sync st boundary) (\<lambda>_.
          durable_components st boundary (drop (length boundary) p))))"

text \<open>\<open>write\<close>: stage the document in a temporary file and rename or link it into place.\<close>

definition write_stage :: "path \<Rightarrow> json \<Rightarrow> unit io" where
  "write_stage t j = bindE (chmod t 384) (\<lambda>_. bindE (write_data t (Json j)) (\<lambda>_.
     bindE (fsync t) (\<lambda>_. close_file t)))"

definition write_finish :: "store \<Rightarrow> path \<Rightarrow> bool \<Rightarrow> path \<Rightarrow> unit io" where
  "write_finish st p exclusive t =
     bindE (hook st ''before-rename'') (\<lambda>_.
     bindE (tryE (if exclusive then link t p else rename t p)) (\<lambda>r. case r of
       Inl e \<Rightarrow> failE (if err_is ErrExist e then Sentinel ErrConflict else e)
     | Inr _ \<Rightarrow> bindE (hook st ''after-rename'') (\<lambda>_. bindE (store_sync st (butlast p)) (\<lambda>_.
                  hook st ''after-sync''))))"

definition write_record :: "store \<Rightarrow> path \<Rightarrow> json \<Rightarrow> bool \<Rightarrow> unit io" where
  "write_record st p j exclusive =
     bindE (durable_directory st (butlast p)) (\<lambda>_.
     bindE (hook st ''before-write'') (\<lambda>_.
     bindE (\<lambda>w. guardE (w_jlen w j \<le> max_record) (Msg ''coordination record too large'') w) (\<lambda>_.
     bindE (create_temp (butlast p) ''.pending-'') (\<lambda>t.
       deferE (bindE (write_stage t j) (\<lambda>_. write_finish st p exclusive t))
              (bindE (ignoreE (close_file t)) (\<lambda>_. remove t))))))"

section \<open>Admissions and plans\<close>

definition json_name :: "string \<Rightarrow> string" where
  "json_name n = n @ ''.json''"

definition storeRequest :: "store \<Rightarrow> string \<Rightarrow> string \<Rightarrow> admission io" where
  "storeRequest st inst rq =
     (if \<not> identifier_ok rq then failE (Msg ''invalid request identity'')
      else bindE (liftE (root st inst ''admissions'')) (\<lambda>d.
           bindE (read_record (d @ [json_name rq])) (\<lambda>j.
           case admission_of_json j of
             None \<Rightarrow> failE (Msg ''invalid coordination data'')
           | Some a \<Rightarrow>
               if \<not> admission_valid a \<or> ad_instance a \<noteq> inst \<or> ad_request a \<noteq> rq
               then failE (Msg ''invalid admission authority'') else retE a)))"

definition collect_admission :: "store \<Rightarrow> string \<Rightarrow> string \<Rightarrow> admission list \<Rightarrow> admission list io" where
  "collect_admission st inst name acc =
     bindE (storeRequest st inst name) (\<lambda>a.
       if ad_operation_id a \<in> set (map ad_operation_id acc) then failE (Msg ''duplicate operation authority'')
       else if ad_sequence a \<in> set (map ad_sequence acc) then failE (Msg ''duplicate admission sequence'')
       else retE (acc @ [a]))"

definition storeAdmissions :: "store \<Rightarrow> string \<Rightarrow> admission list io" where
  "storeAdmissions st inst =
     (if inst \<noteq> ''primary'' then retE []
      else bindE (liftE (root st inst ''admissions'')) (\<lambda>d.
           bindE (entries d) (\<lambda>names. foldE (collect_admission st inst) names [])))"

definition storeOperation :: "store \<Rightarrow> string \<Rightarrow> string \<Rightarrow> admission io" where
  "storeOperation st inst op =
     (if \<not> op_id_ok op then failE (Msg ''invalid operation identity'')
      else bindE (storeAdmissions st inst) (\<lambda>records.
        case find (\<lambda>a. ad_operation_id a = op) records of
          Some a \<Rightarrow> retE a | None \<Rightarrow> failE (Sentinel ErrNotExist)))"

definition last_counter :: "string \<Rightarrow> admission list \<Rightarrow> int" where
  "last_counter sc records =
     foldl (\<lambda>last a. if ad_scope a = sc \<and> last < ad_counter a then ad_counter a else last) (-1) records"

definition storeCounter :: "store \<Rightarrow> string \<Rightarrow> string \<Rightarrow> int io" where
  "storeCounter st inst sc = bindE (storeAdmissions st inst) (\<lambda>records. retE (last_counter sc records))"

definition savePlan :: "store \<Rightarrow> plan \<Rightarrow> unit io" where
  "savePlan st p =
     (if \<not> plan_valid (st_sha st) p then failE (Sentinel ErrPlan)
      else bindE (liftE (root st (pl_instance p) ''plans'')) (\<lambda>d.
           write_record st (d @ [json_name (pl_id p)]) (plan_to_json p) True))"

definition storePlan :: "store \<Rightarrow> string \<Rightarrow> string \<Rightarrow> plan io" where
  "storePlan st inst pid =
     (if \<not> hex32_ok pid then failE (Sentinel ErrPlan)
      else bindE (liftE (root st inst ''plans'')) (\<lambda>d.
           bindE (read_record (d @ [json_name pid])) (\<lambda>j.
           case plan_of_json j of
             None \<Rightarrow> failE (Msg ''invalid coordination data'')
           | Some p \<Rightarrow>
               if \<not> plan_valid (st_sha st) p \<or> pl_instance p \<noteq> inst \<or> pl_id p \<noteq> pid
               then failE (Sentinel ErrPlan) else retE p)))"

section \<open>Order of operations\<close>

definition storeHead :: "store \<Rightarrow> string \<Rightarrow> head io" where
  "storeHead st inst =
     bindE (liftE (root st inst [])) (\<lambda>d.
     bindE (read_record (d @ [''head.json''])) (\<lambda>j.
     case head_of_json j of
       None \<Rightarrow> failE (Msg ''invalid coordination data'')
     | Some h \<Rightarrow> if \<not> head_valid h \<or> hd_instance h \<noteq> inst
                 then failE (Msg ''invalid operation order authority'') else retE h))"

definition writeHead :: "store \<Rightarrow> head \<Rightarrow> unit io" where
  "writeHead st h =
     (if \<not> head_valid h then failE (Msg ''invalid operation order authority'')
      else bindE (liftE (root st (hd_instance h) [])) (\<lambda>d.
           write_record st (d @ [''head.json'']) (head_to_json h) False))"

definition admission_head :: "string \<Rightarrow> admission \<Rightarrow> head" where
  "admission_head inst a = \<lparr>hd_schema = 2, hd_instance = inst, hd_sequence = ad_sequence a,
     hd_origin = ''admission'', hd_operation_id = ad_operation_id a, hd_operation = ad_operation a\<rparr>"

text \<open>The loop of \<open>Latest\<close> over the admissions.\<close>

fun newest :: "string \<Rightarrow> admission list \<Rightarrow> head \<Rightarrow> err + head" where
  "newest inst [] latest = Inr latest"
| "newest inst (a # as) latest =
     (if hd_sequence latest = ad_sequence a \<and> hd_operation_id latest \<noteq> ad_operation_id a
      then Inl (Msg ''conflicting operation order authority'')
      else newest inst as (if ad_sequence a > hd_sequence latest then admission_head inst a else latest))"

text \<open>What \<open>Latest\<close> starts from: a legacy head is authoritative, an admission head is only
  checked against the receipts.\<close>

definition head_base :: "head option \<Rightarrow> admission list \<Rightarrow> err + head" where
  "head_base h records = (case h of
       None \<Rightarrow> Inr zero_head
     | Some h \<Rightarrow>
         if hd_origin h = ''legacy'' then Inr h
         else if list_ex (\<lambda>a. ad_operation_id a = hd_operation_id h \<and> ad_sequence a = hd_sequence h) records
         then Inr zero_head
         else Inl (Msg ''operation head lost its admission authority''))"

definition storeLatest :: "store \<Rightarrow> string \<Rightarrow> head io" where
  "storeLatest st inst =
     (if inst \<noteq> ''primary'' then failE (Sentinel ErrNotExist)
      else bindE (storeAdmissions st inst) (\<lambda>records.
           bindE (tryE (storeHead st inst)) (\<lambda>r.
           bindE (case r of
               Inl e \<Rightarrow> if err_is ErrNotExist e then retE None else failE e
             | Inr h \<Rightarrow> retE (Some h)) (\<lambda>h.
           bindE (liftE (head_base h records)) (\<lambda>base.
           bindE (liftE (newest inst records base)) (\<lambda>latest.
           if hd_sequence latest = 0 then failE (Sentinel ErrNotExist) else retE latest))))))"

definition nextSequence :: "store \<Rightarrow> string \<Rightarrow> 64 word io" where
  "nextSequence st inst =
     bindE (tryE (storeLatest st inst)) (\<lambda>r.
     bindE (case r of
         Inl e \<Rightarrow> if err_is ErrNotExist e then retE 0 else failE e
       | Inr h \<Rightarrow> retE (hd_sequence h)) (\<lambda>sq.
     if sq = - 1 then failE (Msg ''operation sequence exhausted'') else retE (sq + 1)))"

definition beginLegacy :: "store \<Rightarrow> string \<Rightarrow> string \<Rightarrow> json \<Rightarrow> unit io" where
  "beginLegacy st inst op contents =
     (if inst \<noteq> ''primary'' then retE ()
      else bindE (nextSequence st inst) (\<lambda>sq.
        writeHead st \<lparr>hd_schema = 2, hd_instance = inst, hd_sequence = sq, hd_origin = ''legacy'',
          hd_operation_id = op, hd_operation = Some contents\<rparr>))"

definition syncHeadOperation :: "store \<Rightarrow> string \<Rightarrow> string \<Rightarrow> json \<Rightarrow> unit io" where
  "syncHeadOperation st inst op contents =
     bindE (tryE (storeLatest st inst)) (\<lambda>r. case r of
       Inl e \<Rightarrow> if err_is ErrNotExist e then retE () else failE e
     | Inr h \<Rightarrow>
         if hd_operation_id h \<noteq> op
         then failE (Msg ''operation was superseded by a newer operation'')
         else writeHead st (h\<lparr>hd_operation := Some contents\<rparr>))"

definition storeAccept :: "store \<Rightarrow> admission \<Rightarrow> unit io" where
  "storeAccept st a0 =
     bindE (nextSequence st (ad_instance a0)) (\<lambda>sq.
     let a = a0\<lparr>ad_sequence := sq\<rparr> in
     if \<not> admission_valid a then failE (Msg ''invalid admission authority'')
     else bindE (liftE (root st (ad_instance a) ''admissions'')) (\<lambda>d.
          write_record st (d @ [json_name (ad_request a)]) (admission_to_json a) True))"

definition project_operation :: "admission \<Rightarrow> json \<Rightarrow> err + admission" where
  "project_operation a contents =
     (case json_string_field ''recovery_point_id'' contents of
        None \<Rightarrow> Inl (Msg ''invalid operation projection'')
      | Some pt \<Rightarrow>
          let a' = a\<lparr>ad_operation := Some contents, ad_point := (if pt \<noteq> [] then pt else ad_point a)\<rparr>
          in if admission_valid a' then Inr a' else Inl (Msg ''invalid operation projection''))"

definition updateAdmission :: "store \<Rightarrow> string \<Rightarrow> string \<Rightarrow> json \<Rightarrow> unit io" where
  "updateAdmission st inst op contents =
     bindE (tryE (storeOperation st inst op)) (\<lambda>r. case r of
       Inl e \<Rightarrow> if err_is ErrNotExist e then syncHeadOperation st inst op contents else failE e
     | Inr a0 \<Rightarrow>
         bindE (liftE (project_operation a0 contents)) (\<lambda>a.
         bindE (liftE (root st inst ''admissions'')) (\<lambda>d.
         bindE (write_record st (d @ [json_name (ad_request a)]) (admission_to_json a) False) (\<lambda>_.
         syncHeadOperation st inst op contents))))"

definition updateOperation :: "store \<Rightarrow> string \<Rightarrow> string \<Rightarrow> json \<Rightarrow> unit io" where
  "updateOperation st inst op contents =
     bindE (tryE (storeLatest st inst)) (\<lambda>latest. case latest of
       Inl e \<Rightarrow> if err_is ErrNotExist e then updateAdmission st inst op contents else failE e
     | Inr h \<Rightarrow>
         if hd_operation_id h \<noteq> op
         then failE (Msg ''operation was superseded by a newer operation'')
         else updateAdmission st inst op contents)"

text \<open>Authority becomes durable before any projection of it.\<close>

definition syncAuthority :: "store \<Rightarrow> string \<Rightarrow> unit io" where
  "syncAuthority st inst =
     bindE (liftE (root st inst [])) (\<lambda>d.
     bindE (durable_directory st d) (\<lambda>_.
     bindE (storeAdmissions st inst) (\<lambda>records.
     if records \<noteq> [] then durable_directory st (d @ [''admissions'']) else retE ())))"

section \<open>Recovery points the store protects\<close>

definition plan_refs :: "store \<Rightarrow> string \<Rightarrow> int \<Rightarrow> string \<Rightarrow> string list \<Rightarrow> string list io" where
  "plan_refs st inst now name acc =
     bindE (storePlan st inst name) (\<lambda>p.
       retE (if now < pl_expires p \<and> pl_point p \<noteq> [] then acc @ [pl_point p] else acc))"

fun admission_refs :: "admission list \<Rightarrow> string list \<Rightarrow> err + string list" where
  "admission_refs [] acc = Inr acc"
| "admission_refs (a # as) acc =
     (case Option.bind (ad_operation a) (json_string_field ''status'') of
        None \<Rightarrow> Inl (Msg ''invalid operation projection'')
      | Some status \<Rightarrow>
          admission_refs as
            (if status \<noteq> ''succeeded'' \<and> status \<noteq> ''failed'' \<and> status \<noteq> ''rolled_back'' \<and> ad_point a \<noteq> []
             then acc @ [ad_point a] else acc))"

definition protectedPoints :: "store \<Rightarrow> string \<Rightarrow> int \<Rightarrow> string list io" where
  "protectedPoints st inst now =
     bindE (liftE (root st inst ''plans'')) (\<lambda>d.
     bindE (entries d) (\<lambda>names.
     bindE (foldE (plan_refs st inst now) names []) (\<lambda>refs.
     bindE (storeAdmissions st inst) (\<lambda>records.
     liftE (admission_refs records refs)))))"

end
