(* ===== verification/Managed.thy ===== *)
theory Managed
  imports Json "HOL-Library.Word"
begin

text \<open>
  \<open>internal/managed\<close>: signed releases and their upgrade plans. A signed byte string is its
  length and, when it is one JSON document, that document; an absent one has length 0.
\<close>

record doc =
  dc_len :: nat
  dc_json :: "json option"

section \<open>Patterns\<close>

text \<open>\<open>^[0-9]+\.[0-9]+\.[0-9]+(?:[-+][0-9A-Za-z.-]+)?$\<close>: three runs of digits separated by
  dots, then nothing or a suffix.\<close>

definition version_tail_ok :: "string \<Rightarrow> bool" where
  "version_tail_ok s = (case s of [] \<Rightarrow> True
     | c # cs \<Rightarrow> (c = CHR ''-'' \<or> c = CHR ''+'') \<and> cs \<noteq> [] \<and>
         list_all (\<lambda>d. is_alnum d \<or> d = CHR ''.'' \<or> d = CHR ''-'') cs)"

definition digits_then :: "(string \<Rightarrow> bool) \<Rightarrow> string \<Rightarrow> bool" where
  "digits_then k s \<longleftrightarrow> takeWhile is_digit s \<noteq> [] \<and> k (dropWhile is_digit s)"

definition dot_then :: "(string \<Rightarrow> bool) \<Rightarrow> string \<Rightarrow> bool" where
  "dot_then k s = (case s of c # cs \<Rightarrow> c = CHR ''.'' \<and> k cs | [] \<Rightarrow> False)"

definition version_ok :: "string \<Rightarrow> bool" where
  "version_ok = digits_then (dot_then (digits_then (dot_then (digits_then version_tail_ok))))"

definition pinned :: "string \<Rightarrow> string \<Rightarrow> bool" where
  "pinned repo s \<longleftrightarrow> has_prefix (repo @ ''@sha256:'') s \<and> hex64_ok (drop (length repo + 8) s)"

definition app_image_ok :: "string \<Rightarrow> bool" where
  "app_image_ok = pinned ''ghcr.io/yaojingang/geoflow-app''"

definition web_image_ok :: "string \<Rightarrow> bool" where
  "web_image_ok = pinned ''ghcr.io/yaojingang/geoflow-web''"

definition postgres_image_ok :: "string \<Rightarrow> bool" where
  "postgres_image_ok = pinned ''pgvector/pgvector''"

definition redis_image_ok :: "string \<Rightarrow> bool" where
  "redis_image_ok = pinned ''redis''"

text \<open>\<open>^[0-9]{4}_[0-9]{2}_[0-9]{2}_[0-9]{6}_[a-zA-Z0-9_]+$\<close>\<close>

definition migration_name_ok :: "string \<Rightarrow> bool" where
  "migration_name_ok s \<longleftrightarrow>
     shape (replicate 4 is_digit @ [(=) CHR ''_''] @ replicate 2 is_digit @ [(=) CHR ''_''] @
       replicate 2 is_digit @ [(=) CHR ''_''] @ replicate 6 is_digit @ [(=) CHR ''_'']) (take 18 s) \<and>
     drop 18 s \<noteq> [] \<and> list_all (\<lambda>c. is_alnum c \<or> c = CHR ''_'') (drop 18 s)"

text \<open>\<open>^[a-z][a-z0-9_-]{0,63}$\<close>\<close>

definition step_id_ok :: "string \<Rightarrow> bool" where
  "step_id_ok s = (case s of [] \<Rightarrow> False
     | c # cs \<Rightarrow> is_lower c \<and> length cs \<le> 63 \<and>
         list_all (\<lambda>d. is_lower d \<or> is_digit d \<or> d = CHR ''_'' \<or> d = CHR ''-'') cs)"

section \<open>Upgrade plans\<close>

record migration =
  mi_name :: string
  mi_sha :: string
  mi_online :: bool

record ustep =
  us_id :: string
  us_kind :: string
  us_phase :: string
  us_timeout :: int
  us_online :: bool

record compatibility =
  co_schema :: bool
  co_queue :: bool
  co_cache :: bool
  co_storage :: bool

definition compatibility_online :: "compatibility \<Rightarrow> bool" where
  "compatibility_online c \<longleftrightarrow> co_schema c \<and> co_queue c \<and> co_cache c \<and> co_storage c"

record upgrade_plan =
  up_schema :: int
  up_strategy :: string
  up_sources :: "int list"
  up_migrations :: "migration list"
  up_compat :: compatibility
  up_steps :: "ustep list"

text \<open>\<open>upgradePlanObject\<close>: an object with exactly the given keys, none twice and none null.\<close>

fun plan_fields :: "string list \<Rightarrow> (string \<times> json) list \<Rightarrow> (string \<times> json) list \<Rightarrow> err + (string \<times> json) list" where
  "plan_fields keys [] seen =
     (if length seen \<noteq> length keys then Inl (Msg ''object is missing required fields'') else Inr seen)"
| "plan_fields keys ((k, v) # kvs) seen =
     (if k \<notin> set keys then Inl (Msg ''object contains an unknown field'')
      else if k \<in> fst ` set seen then Inl (Msg ''duplicate field'')
      else if v = JNull then Inl (Msg ''field cannot be null'')
      else plan_fields keys kvs ((k, v) # seen))"

definition upgradePlanObject :: "string list \<Rightarrow> json \<Rightarrow> err + (string \<times> json) list" where
  "upgradePlanObject keys j = (case j of JObj kvs \<Rightarrow> plan_fields keys kvs []
     | _ \<Rightarrow> Inl (Msg ''expected an object''))"

definition field_json :: "string \<Rightarrow> (string \<times> json) list \<Rightarrow> json" where
  "field_json k kvs = (case map_of kvs k of None \<Rightarrow> JNull | Some j \<Rightarrow> j)"

fun check_entries :: "string list \<Rightarrow> json list \<Rightarrow> err + unit" where
  "check_entries keys [] = Inr ()"
| "check_entries keys (j # js) =
     (case upgradePlanObject keys j of Inl e \<Rightarrow> Inl e | Inr _ \<Rightarrow> check_entries keys js)"

definition check_array :: "string list \<Rightarrow> json \<Rightarrow> err + unit" where
  "check_array keys j = (case j of JArr js \<Rightarrow> check_entries keys js | _ \<Rightarrow> Inl (Msg ''must be an array''))"

definition upgrade_plan_keys :: "string list" where
  "upgrade_plan_keys = [''schema_version'', ''strategy'', ''allowed_sources'', ''migrations'', ''compatibility'', ''steps'']"

definition compatibility_keys :: "string list" where
  "compatibility_keys = [''schema'', ''queue'', ''cache'', ''storage'']"

definition migration_keys :: "string list" where
  "migration_keys = [''name'', ''sha256'', ''online'']"

definition step_keys :: "string list" where
  "step_keys = [''id'', ''kind'', ''phase'', ''timeout_seconds'', ''online'']"

text \<open>The two arrays are checked in map order in the source; which of two errors is reported
  first is not part of the result.\<close>

definition validateUpgradePlanFields :: "json \<Rightarrow> err + unit" where
  "validateUpgradePlanFields j =
     (case upgradePlanObject upgrade_plan_keys j of Inl e \<Rightarrow> Inl e
      | Inr fs \<Rightarrow>
          (case upgradePlanObject compatibility_keys (field_json ''compatibility'' fs) of
             Inl e \<Rightarrow> Inl (Wrap ''compatibility'' e)
           | Inr _ \<Rightarrow>
               (case check_array migration_keys (field_json ''migrations'' fs) of
                  Inl e \<Rightarrow> Inl (Wrap ''migrations'' e)
                | Inr _ \<Rightarrow>
                    (case check_array step_keys (field_json ''steps'' fs) of
                       Inl e \<Rightarrow> Inl (Wrap ''steps'' e) | Inr _ \<Rightarrow> Inr ()))))"

text \<open>Decoding into the Go structs.\<close>

definition dec_migration :: "json \<Rightarrow> migration option" where
  "dec_migration j = Option.bind (members j) (\<lambda>kvs.
     if \<not> known migration_keys kvs then None
     else Option.bind (field ''name'' dec_str kvs []) (\<lambda>n.
          Option.bind (field ''sha256'' dec_str kvs []) (\<lambda>h.
          Option.bind (field ''online'' dec_bool kvs False) (\<lambda>on.
          Some \<lparr>mi_name = n, mi_sha = h, mi_online = on\<rparr>))))"

definition dec_ustep :: "json \<Rightarrow> ustep option" where
  "dec_ustep j = Option.bind (members j) (\<lambda>kvs.
     if \<not> known step_keys kvs then None
     else Option.bind (field ''id'' dec_str kvs []) (\<lambda>i.
          Option.bind (field ''kind'' dec_str kvs []) (\<lambda>k.
          Option.bind (field ''phase'' dec_str kvs []) (\<lambda>p.
          Option.bind (field ''timeout_seconds'' dec_int64 kvs 0) (\<lambda>t.
          Option.bind (field ''online'' dec_bool kvs False) (\<lambda>on.
          Some \<lparr>us_id = i, us_kind = k, us_phase = p, us_timeout = t, us_online = on\<rparr>))))))"

definition dec_compatibility :: "json \<Rightarrow> compatibility \<Rightarrow> compatibility option" where
  "dec_compatibility j x = Option.bind (members j) (\<lambda>kvs.
     if \<not> known compatibility_keys kvs then None
     else Option.bind (field ''schema'' dec_bool kvs (co_schema x)) (\<lambda>s.
          Option.bind (field ''queue'' dec_bool kvs (co_queue x)) (\<lambda>q.
          Option.bind (field ''cache'' dec_bool kvs (co_cache x)) (\<lambda>c.
          Option.bind (field ''storage'' dec_bool kvs (co_storage x)) (\<lambda>t.
          Some \<lparr>co_schema = s, co_queue = q, co_cache = c, co_storage = t\<rparr>)))))"

definition dec_source :: "json \<Rightarrow> int option" where
  "dec_source j = dec_uint64 j 0"

definition upgrade_plan_of_json :: "json \<Rightarrow> upgrade_plan option" where
  "upgrade_plan_of_json j = Option.bind (members j) (\<lambda>kvs.
     if \<not> known upgrade_plan_keys kvs then None
     else Option.bind (field ''schema_version'' dec_int64 kvs 0) (\<lambda>sv.
          Option.bind (field ''strategy'' dec_str kvs []) (\<lambda>st.
          Option.bind (field ''allowed_sources'' (dec_list dec_source) kvs []) (\<lambda>so.
          Option.bind (field ''migrations'' (dec_list dec_migration) kvs []) (\<lambda>mi.
          Option.bind (field ''compatibility'' dec_compatibility kvs \<lparr>co_schema = False, co_queue = False,
             co_cache = False, co_storage = False\<rparr>) (\<lambda>co.
          Option.bind (field ''steps'' (dec_list dec_ustep) kvs []) (\<lambda>us.
          Some \<lparr>up_schema = sv, up_strategy = st, up_sources = so, up_migrations = mi, up_compat = co,
            up_steps = us\<rparr>)))))))"

fun sources_ok :: "int list \<Rightarrow> int set \<Rightarrow> bool" where
  "sources_ok [] seen = True"
| "sources_ok (s # ss) seen = (if s = 0 \<or> s > 2 ^ 63 - 1 \<or> s \<in> seen then False else sources_ok ss (insert s seen))"

fun migrations_ok :: "migration list \<Rightarrow> string set \<Rightarrow> bool" where
  "migrations_ok [] seen = True"
| "migrations_ok (m # ms) seen =
     (if \<not> migration_name_ok (mi_name m) \<or> \<not> hex64_ok (mi_sha m) \<or> mi_name m \<in> seen then False
      else migrations_ok ms (insert (mi_name m) seen))"

definition step_kinds :: "string list" where
  "step_kinds = [''migrate'', ''retrieval_backfill'', ''managed_images'', ''security_audit'',
     ''system_knowledge'', ''cache_warmup'']"

fun steps_ok :: "string \<Rightarrow> ustep list \<Rightarrow> string set \<Rightarrow> string set \<Rightarrow> err + unit" where
  "steps_ok strategy [] ids kinds = Inr ()"
| "steps_ok strategy (s # ss) ids kinds =
     (if \<not> step_id_ok (us_id s) \<or> us_id s \<in> ids \<or> us_kind s \<in> kinds \<or> us_phase s \<noteq> ''apply'' \<or>
         us_timeout s < 1 \<or> us_timeout s > 7200
      then Inl (Msg ''upgrade step identity, phase, or timeout is invalid'')
      else if us_kind s \<notin> set step_kinds then Inl (Msg ''upgrade plan contains an unsupported step kind'')
      else if strategy = ''online'' \<and> \<not> us_online s then Inl (Msg ''online plan contains a maintenance step'')
      else steps_ok strategy ss (insert (us_id s) ids) (insert (us_kind s) kinds))"

definition upgrade_plan_validate :: "upgrade_plan \<Rightarrow> err + unit" where
  "upgrade_plan_validate p =
     (if up_schema p \<noteq> 1 \<or> (up_strategy p \<noteq> ''maintenance'' \<and> up_strategy p \<noteq> ''online'')
      then Inl (Msg ''upgrade plan schema or strategy is unsupported'')
      else if \<not> sources_ok (up_sources p) {}
      then Inl (Msg ''upgrade plan source sequences must be unique positive application integers'')
      else if up_strategy p = ''online'' \<and> (up_sources p = [] \<or> \<not> compatibility_online (up_compat p))
      then Inl (Msg ''online plan requires explicit source releases and data compatibility'')
      else if \<not> migrations_ok (up_migrations p) {}
      then Inl (Msg ''upgrade plan migration identity is invalid or duplicated'')
      else if length (up_steps p) < 1 \<or> length (up_steps p) > 32
      then Inl (Msg ''upgrade plan requires between one and 32 steps'')
      else (case steps_ok (up_strategy p) (up_steps p) {} {} of Inl e \<Rightarrow> Inl e
            | Inr _ \<Rightarrow> if us_kind (hd (up_steps p)) \<noteq> ''migrate''
                       then Inl (Msg ''upgrade plan must begin with the migration step'') else Inr ()))"

definition upgrade_plan_limit :: nat where
  "upgrade_plan_limit = 1024 * 1024"

definition DecodeUpgradePlan :: "doc \<Rightarrow> err + upgrade_plan" where
  "DecodeUpgradePlan d =
     (if dc_len d = 0 \<or> dc_len d > upgrade_plan_limit then Inl (Msg ''upgrade plan is missing or too large'')
      else (case dc_json d of None \<Rightarrow> Inl (Msg ''decode upgrade plan'')
        | Some j \<Rightarrow>
            (case validateUpgradePlanFields j of Inl e \<Rightarrow> Inl (Wrap ''decode upgrade plan'' e)
             | Inr _ \<Rightarrow>
                 (case upgrade_plan_of_json j of None \<Rightarrow> Inl (Msg ''decode upgrade plan'')
                  | Some p \<Rightarrow> (case upgrade_plan_validate p of Inl e \<Rightarrow> Inl e | Inr _ \<Rightarrow> Inr p)))))"

definition AllowsSource :: "upgrade_plan \<Rightarrow> int \<Rightarrow> bool" where
  "AllowsSource p s = (if up_strategy p = ''maintenance'' \<and> up_sources p = [] then True
     else s \<in> set (up_sources p))"

section \<open>Releases\<close>

definition UpdaterProtocolVersion :: "64 word" where
  "UpdaterProtocolVersion = 5"

record release =
  rl_sequence :: "64 word"
  rl_minimum :: "64 word"
  rl_version :: string
  rl_commit :: string
  rl_app :: string
  rl_web :: string
  rl_postgres :: "(string \<times> string) list"
  rl_redis :: "(string \<times> string) list"
  rl_compose_len :: nat
  rl_document :: doc
  rl_plan :: doc

definition zero_release :: release where
  "zero_release = \<lparr>rl_sequence = 0, rl_minimum = 0, rl_version = [], rl_commit = [], rl_app = [],
     rl_web = [], rl_postgres = [], rl_redis = [], rl_compose_len = 0,
     rl_document = \<lparr>dc_len = 0, dc_json = None\<rparr>, rl_plan = \<lparr>dc_len = 0, dc_json = None\<rparr>\<rparr>"

text \<open>A Go map is an association list with distinct keys.\<close>

definition validateImageSet :: "string \<Rightarrow> (string \<times> string) list \<Rightarrow> string list \<Rightarrow> (string \<Rightarrow> bool) \<Rightarrow> err + unit" where
  "validateImageSet label images expected ok =
     (if length images \<noteq> length expected then Inl (Msg (label @ '' signed image set is incomplete''))
      else (case find (\<lambda>m. case map_of images m of None \<Rightarrow> True | Some i \<Rightarrow> \<not> ok i) expected of
              Some m \<Rightarrow> Inl (Msg (label @ '' signed image for major '' @ m @ '' is invalid''))
            | None \<Rightarrow> Inr ()))"

definition document_version :: "json \<Rightarrow> string option" where
  "document_version j = Option.bind (members j) (\<lambda>kvs. field ''version'' dec_str kvs [])"

definition plan_protocol_ok :: "release \<Rightarrow> err + unit" where
  "plan_protocol_ok r =
     (if dc_len (rl_plan r) > 0 then
        (case DecodeUpgradePlan (rl_plan r) of Inl e \<Rightarrow> Inl e
         | Inr p \<Rightarrow>
             if rl_minimum r < (if up_strategy p = ''online'' then 4 else 3)
             then Inl (Msg ''upgrade plan requires a newer minimum updater protocol'') else Inr ())
      else if rl_minimum r \<ge> 3 then Inl (Msg ''release is missing its signed upgrade plan'') else Inr ())"

definition release_validate :: "release \<Rightarrow> err + unit" where
  "release_validate r =
     (if rl_sequence r = 0 then Inl (Msg ''release sequence must be positive'')
      else if rl_minimum r > UpdaterProtocolVersion then Inl (Msg ''release requires a newer updater protocol'')
      else (case plan_protocol_ok r of Inl e \<Rightarrow> Inl e | Inr _ \<Rightarrow>
        if \<not> version_ok (rl_version r) then Inl (Msg ''release version must be semantic'')
        else if \<not> app_image_ok (rl_app r)
        then Inl (Msg ''app image must use the official registry and a sha256 digest'')
        else if \<not> web_image_ok (rl_web r)
        then Inl (Msg ''web image must use the official registry and a sha256 digest'')
        else (case validateImageSet ''PostgreSQL'' (rl_postgres r) [''16'', ''18''] postgres_image_ok of
                Inl e \<Rightarrow> Inl e
              | Inr _ \<Rightarrow> (case validateImageSet ''Redis'' (rl_redis r) [''7'', ''8''] redis_image_ok of
                  Inl e \<Rightarrow> Inl e
                | Inr _ \<Rightarrow>
                    if rl_compose_len r = 0 then Inl (Msg ''managed Compose template is required'')
                    else if dc_len (rl_document r) > 1024 * 1024
                    then Inl (Msg ''signed version document exceeds the size limit'')
                    else if dc_len (rl_document r) > 0 \<and>
                      Option.bind (dc_json (rl_document r)) document_version \<noteq> Some (rl_version r)
                    then Inl (Msg ''signed version document does not match the release'')
                    else Inr ()))))"

definition InfrastructureImages :: "release \<Rightarrow> string \<Rightarrow> string \<Rightarrow> err + string \<times> string" where
  "InfrastructureImages r pg redis =
     (case map_of (rl_postgres r) pg of
        None \<Rightarrow> Inl (Msg ''signed release does not support the installed PostgreSQL major'')
      | Some pi \<Rightarrow>
          (case map_of (rl_redis r) redis of
             None \<Rightarrow> Inl (Msg ''signed release does not support the installed Redis major'')
           | Some ri \<Rightarrow>
               if \<not> postgres_image_ok pi \<or> \<not> redis_image_ok ri
               then Inl (Msg ''signed infrastructure image selection is invalid'') else Inr (pi, ri)))"

definition ValidateSelectedImages :: "string \<Rightarrow> string \<Rightarrow> string \<Rightarrow> string \<Rightarrow> err + unit" where
  "ValidateSelectedImages app web pg redis =
     (if \<not> app_image_ok app then Inl (Msg ''app image is not an official digest pin'')
      else if \<not> web_image_ok web then Inl (Msg ''web image is not an official digest pin'')
      else if \<not> postgres_image_ok pg then Inl (Msg ''PostgreSQL image is not an official digest pin'')
      else if \<not> redis_image_ok redis then Inl (Msg ''Redis image is not an official digest pin'')
      else Inr ())"

section \<open>What acceptance guarantees\<close>

lemma plan_fields_Inr:
  "plan_fields keys kvs seen = Inr out \<Longrightarrow> distinct (map fst seen) \<Longrightarrow> set (map fst seen) \<subseteq> set keys \<Longrightarrow>
     out = rev kvs @ seen \<and> distinct (map fst out) \<and> set (map fst out) \<subseteq> set keys \<and> length out = length keys \<and>
     (\<forall>v \<in> set (map snd kvs). v \<noteq> JNull)"
proof (induction keys kvs seen rule: plan_fields.induct)
  case (2 keys k v kvs seen)
  from "2.prems"(1) have c: "k \<in> set keys" "k \<notin> set (map fst seen)" "v \<noteq> JNull"
    and r: "plan_fields keys kvs ((k, v) # seen) = Inr out"
    by (simp_all split: if_splits)
  have "distinct (map fst ((k, v) # seen))" "set (map fst ((k, v) # seen)) \<subseteq> set keys"
    using c "2.prems"(2,3) by simp_all
  moreover have "\<not> k \<notin> set keys" "\<not> k \<in> fst ` set seen" using c by simp_all
  ultimately have "out = rev kvs @ (k, v) # seen \<and> distinct (map fst out) \<and> set (map fst out) \<subseteq> set keys \<and>
      length out = length keys \<and> (\<forall>v \<in> set (map snd kvs). v \<noteq> JNull)"
    using "2.IH" c(3) r by blast
  then show ?case using c(3) by (elim conjE) (intro conjI, simp_all only: rev.simps append.simps append_assoc, simp)
qed (simp split: if_splits)

lemma upgradePlanObject_Inr:
  assumes "upgradePlanObject keys j = Inr fs" and "distinct keys"
  shows "\<exists>kvs. j = JObj kvs \<and> distinct (map fst kvs) \<and> fst ` set kvs = set keys \<and>
    (\<forall>(k, v) \<in> set kvs. v \<noteq> JNull) \<and> map_of fs = map_of kvs"
proof -
  from assms(1) obtain kvs where j: "j = JObj kvs" and r: "plan_fields keys kvs [] = Inr fs"
    by (auto simp: upgradePlanObject_def split: json.splits)
  from plan_fields_Inr[OF r] have fs: "fs = rev kvs" and d: "distinct (map fst fs)"
    and sub: "fst ` set fs \<subseteq> set keys" and len: "length fs = length keys" and nn: "\<forall>(k, v) \<in> set kvs. v \<noteq> JNull"
    by force+
  have "card (fst ` set fs) = length fs" using d by (metis distinct_card length_map set_map)
  then have "fst ` set fs = set keys"
    using sub len assms(2) by (metis List.finite_set card_subset_eq distinct_card)
  moreover have dk: "distinct (map fst kvs)" using d fs by (metis distinct_rev rev_map)
  moreover have "map_of fs = map_of kvs" using fs d dk by (simp add: map_of_inject_set rev_map)
  ultimately show ?thesis using j fs nn by auto
qed

lemma steps_ok_Inr:
  "steps_ok st ss ids kinds = Inr () \<Longrightarrow>
     distinct (map us_id ss) \<and> distinct (map us_kind ss) \<and> us_kind ` set ss \<subseteq> set step_kinds \<and>
     us_kind ` set ss \<inter> kinds = {} \<and> us_id ` set ss \<inter> ids = {} \<and>
     (\<forall>s \<in> set ss. us_phase s = ''apply'' \<and> 1 \<le> us_timeout s \<and> us_timeout s \<le> 7200 \<and>
        (st = ''online'' \<longrightarrow> us_online s))"
proof (induction st ss ids kinds rule: steps_ok.induct)
  case (2 strategy s ss ids kinds)
  then show ?case by (auto split: if_splits)
qed simp


lemma find_None: "find P xs = None \<longleftrightarrow> (\<forall>x \<in> set xs. \<not> P x)"
  by (induction xs) auto

lemma validateImageSet_Inr:
  assumes "validateImageSet label images expected ok = Inr ()" and "m \<in> set expected"
  shows "\<exists>i. map_of images m = Some i \<and> ok i"
proof -
  from assms(1) have "find (\<lambda>m. case map_of images m of None \<Rightarrow> True | Some i \<Rightarrow> \<not> ok i) expected = None"
    by (simp add: validateImageSet_def split: if_splits option.splits)
  with assms(2) show ?thesis by (auto simp: find_None split: option.splits)
qed

text \<open>a validated release can be deployed on every supported database: for PostgreSQL 16 and 18
  and Redis 7 and 8 the image selection succeeds, and all four selected images are digest pins
  that the deployment check accepts. Its protocol is one this updater implements, and it
  carries a plan exactly when its protocol is 3 or newer.\<close>

theorem valid_release_deployable:
  assumes "release_validate r = Inr ()" and "pg \<in> {''16'', ''18''}" and "redis \<in> {''7'', ''8''}"
  shows "\<exists>pi ri. InfrastructureImages r pg redis = Inr (pi, ri) \<and>
      ValidateSelectedImages (rl_app r) (rl_web r) pi ri = Inr () \<and>
    rl_minimum r \<le> UpdaterProtocolVersion \<and> (0 < dc_len (rl_plan r) \<longleftrightarrow> 3 \<le> rl_minimum r)"
proof -
  from assms(1) have a: "app_image_ok (rl_app r)" "web_image_ok (rl_web r)" "rl_minimum r \<le> UpdaterProtocolVersion"
    and p: "plan_protocol_ok r = Inr ()"
    and i: "validateImageSet ''PostgreSQL'' (rl_postgres r) [''16'', ''18''] postgres_image_ok = Inr ()"
      "validateImageSet ''Redis'' (rl_redis r) [''7'', ''8''] redis_image_ok = Inr ()"
    by (auto simp: release_validate_def not_less split: if_splits sum.splits)
  obtain pi where "map_of (rl_postgres r) pg = Some pi" "postgres_image_ok pi"
    using validateImageSet_Inr[OF i(1), of pg] assms(2) by auto
  moreover obtain ri where "map_of (rl_redis r) redis = Some ri" "redis_image_ok ri"
    using validateImageSet_Inr[OF i(2), of redis] assms(3) by auto
  moreover have "0 < dc_len (rl_plan r) \<longleftrightarrow> 3 \<le> rl_minimum r"
  proof -
    have "(3 :: 64 word) \<le> x" if "4 \<le> x" for x :: "64 word"
      using that by (rule order.trans[rotated]) simp
    with p show ?thesis
      by (auto simp: plan_protocol_ok_def not_less split: if_splits sum.splits)
  qed
  ultimately show ?thesis
    using a by (simp add: InfrastructureImages_def ValidateSelectedImages_def)
qed

end
