(* ===== verification/Update.thy ===== *)
theory Update
  imports Managed
begin

text \<open>
  The update engine of \<open>internal/update\<close> (\<open>engine.go\<close>, \<open>planned.go\<close>): the order in which an
  instance is stopped, backed up, migrated, activated and resumed, and what happens when a
  step or the journal fails.

  \<^item> The deployment, an interface of the Go code, is a record of actions on a state \<open>'w\<close>.
    The two optional capabilities the engine asks for with a type assertion
    (\<open>FreezeRecoveryCheckpoint\<close>, \<open>QuiesceForRecovery\<close>) and \<open>ExecuteRelease\<close> are options.
  \<^item> The observer writes the operation journal and may fail; the clock is a field.
  \<^item> Contexts and their time limits are not modelled: a call that is cut off by its
    deadline is a call that fails.
\<close>

section \<open>The types of the engine\<close>

record stage =
  sg_name :: string
  sg_status :: string
  sg_message :: string
  sg_at :: int

record result =
  rs_status :: string
  rs_target :: release
  rs_point :: string
  rs_error :: string

record options =
  op_pinned :: "release option"
  op_legacy :: bool
  op_maintenance :: bool
  op_expected_plan :: string
  op_operation :: string

record restore_request =
  rr_point :: string
  rr_transaction :: string

type_synonym 'w observer = "stage \<Rightarrow> ('w, unit) act"

record 'w deployment =
  dp_resolve :: "string \<Rightarrow> ('w, release) act"
  dp_preflight :: "string \<Rightarrow> release \<Rightarrow> ('w, unit) act"
  dp_pull :: "string \<Rightarrow> release \<Rightarrow> ('w, unit) act"
  dp_quiesce :: "string \<Rightarrow> ('w, unit) act"
  dp_point :: "string \<Rightarrow> string \<Rightarrow> ('w, string) act"
  dp_migrate :: "string \<Rightarrow> release \<Rightarrow> ('w, unit) act"
  dp_activate :: "string \<Rightarrow> release \<Rightarrow> ('w, unit) act"
  dp_rollback :: "string \<Rightarrow> restore_request \<Rightarrow> ('w, unit) act"
  dp_resume :: "string \<Rightarrow> ('w, unit) act"
  dp_verify :: "string \<Rightarrow> ('w, unit) act"
  dp_freeze :: "(string \<Rightarrow> restore_request \<Rightarrow> ('w, unit) act) option"
  dp_quiesce_recovery :: "(string \<Rightarrow> string \<Rightarrow> ('w, unit) act) option"
  dp_planned :: "(string \<Rightarrow> release \<Rightarrow> options \<Rightarrow> 'w observer option \<Rightarrow> 'w \<Rightarrow> result \<times> 'w) option"

record 'w engine =
  en_deployment :: "'w deployment option"
  en_now :: "'w \<Rightarrow> int \<times> 'w"

definition StatusSucceeded :: string where "StatusSucceeded = ''succeeded''"
definition StatusFailed :: string where "StatusFailed = ''failed''"
definition StatusRolledBack :: string where "StatusRolledBack = ''rolled_back''"
definition StatusRecoveryRequired :: string where "StatusRecoveryRequired = ''recovery_required''"

definition ResumeBoundaryMessage :: string where
  "ResumeBoundaryMessage = ''service resume boundary v1''"

definition failed_result :: "string \<Rightarrow> result" where
  "failed_result e = \<lparr>rs_status = StatusFailed, rs_target = zero_release, rs_point = [], rs_error = e\<rparr>"

definition outcome :: "string \<Rightarrow> release \<Rightarrow> string \<Rightarrow> string \<Rightarrow> result" where
  "outcome st t pid e = \<lparr>rs_status = st, rs_target = t, rs_point = pid, rs_error = e\<rparr>"

text \<open>\<open>errors.Join(...).Error()\<close> where at least one error is set.\<close>

definition joined :: "err option list \<Rightarrow> string" where
  "joined es = error_text (Joined (somes es))"

section \<open>Stages\<close>

text \<open>The closure \<open>emit\<close>: a running resume stage always carries the boundary message.\<close>

definition emit :: "'w engine \<Rightarrow> 'w observer option \<Rightarrow> string \<Rightarrow> string \<Rightarrow> string \<Rightarrow> ('w, unit) act" where
  "emit en obs name status message w =
     (let message' = (if name = ''resume'' \<and> status = ''running'' then ResumeBoundaryMessage else message)
      in case obs of
           None \<Rightarrow> (Inr (), w)
         | Some ob \<Rightarrow> (case en_now en w of (t, w') \<Rightarrow>
             ob \<lparr>sg_name = name, sg_status = status, sg_message = message', sg_at = t\<rparr> w'))"

type_synonym 'w emitter = "string \<Rightarrow> string \<Rightarrow> string \<Rightarrow> ('w, unit) act"

text \<open>The closures \<open>fail\<close> and \<open>persistenceFailure\<close> of \<open>RunWithOptions\<close>.\<close>

definition run_fail :: "'w emitter \<Rightarrow> string \<Rightarrow> err \<Rightarrow> ('w, result) act" where
  "run_fail em stg e =
     checkE (em stg ''failed'' (error_text e))
       (\<lambda>oe. retE (failed_result (joined [Some e, Some (Wrap (''persist '' @ stg @ '' failure'') oe)])))
       (\<lambda>_. retE (failed_result (error_text e)))"

definition persistence_failure :: "'w emitter \<Rightarrow> string \<Rightarrow> err \<Rightarrow> ('w, result) act" where
  "persistence_failure em stg e = run_fail em stg (Wrap ''persist operation state'' e)"

section \<open>Resuming services\<close>

definition engine_resume :: "'w deployment \<Rightarrow> string \<Rightarrow> 'w emitter \<Rightarrow> ('w, unit) act" where
  "engine_resume d i em =
     bindE (wrapE (Wrap ''persist resume boundary'') (em ''resume'' ''running'' [])) (\<lambda>_.
     checkE (dp_resume d i)
       (\<lambda>e. bindE (tryE (em ''resume'' ''failed'' (error_text e))) (\<lambda>oe.
            failE (Joined (somes [Some e, err_of oe]))))
       (\<lambda>_. wrapE (Wrap ''persist resume completion'') (em ''resume'' ''succeeded'' [])))"

definition resumeAndVerify :: "'w deployment \<Rightarrow> string \<Rightarrow> 'w emitter \<Rightarrow> ('w, unit) act" where
  "resumeAndVerify d i em =
     bindE (engine_resume d i em) (\<lambda>_.
     bindE (wrapE (Wrap ''persist verification stage'') (em ''verify'' ''running'' [])) (\<lambda>_.
     checkE (dp_verify d i)
       (\<lambda>e. bindE (tryE (em ''verify'' ''failed'' (error_text e))) (\<lambda>oe.
            failE (Joined (somes [Some e, err_of oe]))))
       (\<lambda>_. wrapE (Wrap ''persist verification completion'') (em ''verify'' ''succeeded'' []))))"

definition resumeAfterPersistenceFailure ::
  "'w deployment \<Rightarrow> string \<Rightarrow> release \<Rightarrow> string \<Rightarrow> err \<Rightarrow> 'w emitter \<Rightarrow> ('w, result) act" where
  "resumeAfterPersistenceFailure d i t stg pe em =
     (let cause = Wrap (''persist '' @ stg @ '' stage'') pe
      in checkE (resumeAndVerify d i em)
           (\<lambda>e. retE (outcome StatusRecoveryRequired t [] (joined [Some cause, Some e])))
           (\<lambda>_. bindE (ignoreE (em stg ''failed'' (error_text cause))) (\<lambda>_.
                retE (outcome StatusFailed t [] (error_text cause)))))"

section \<open>Automatic rollback\<close>

definition recovery_quiesce :: "'w deployment \<Rightarrow> string \<Rightarrow> string \<Rightarrow> ('w, unit) act" where
  "recovery_quiesce d i pid = (case dp_quiesce_recovery d of
       None \<Rightarrow> dp_quiesce d i | Some q \<Rightarrow> q i pid)"

definition engine_rollback ::
  "'w deployment \<Rightarrow> string \<Rightarrow> string \<Rightarrow> string \<Rightarrow> release \<Rightarrow> err \<Rightarrow> 'w emitter \<Rightarrow> ('w, result) act" where
  "engine_rollback d i pid tx t cause em =
     bindE (tryE (em ''rollback'' ''running'' [])) (\<lambda>oe0.
     checkE (recovery_quiesce d i pid)
       (\<lambda>e. let combined = joined [Some cause, err_of oe0, Some (Wrap ''quiesce before automatic rollback'' e)]
            in bindE (ignoreE (em ''rollback'' ''failed'' combined)) (\<lambda>_.
               retE (outcome StatusFailed t pid combined)))
       (\<lambda>_. checkE (dp_rollback d i \<lparr>rr_point = pid, rr_transaction = tx\<rparr>)
       (\<lambda>e. let combined = joined [Some cause, err_of oe0, Some (Wrap ''automatic rollback'' e)]
            in bindE (ignoreE (em ''rollback'' ''failed'' combined)) (\<lambda>_.
               retE (outcome StatusFailed t pid combined)))
       (\<lambda>_. checkE (em ''rollback'' ''succeeded'' [])
       (\<lambda>e. retE (outcome StatusRecoveryRequired t pid
              (joined [Some cause, err_of oe0, Some (Wrap ''persist completed data recovery'' e)])))
       (\<lambda>_. checkE (resumeAndVerify d i em)
       (\<lambda>e. retE (outcome StatusRecoveryRequired t pid (joined [Some cause, err_of oe0, Some e])))
       (\<lambda>_. bindE (tryE (em ''rolled_back'' ''succeeded'' (error_text cause))) (\<lambda>oe1.
            retE (outcome StatusRolledBack t pid
              (case join_errs [err_of oe0, err_of oe1] of
                 None \<Rightarrow> error_text cause
               | Some oe \<Rightarrow> joined [Some cause, Some (Wrap ''persist rollback state'' oe)]))))))))"

section \<open>The run\<close>

text \<open>The loop over \<open>preflight\<close> and \<open>pull\<close>, which touch no service.\<close>

fun opening_steps :: "'w emitter \<Rightarrow> (string \<times> ('w, unit) act) list \<Rightarrow> ('w, result) act \<Rightarrow> ('w, result) act" where
  "opening_steps em [] k = k"
| "opening_steps em ((name, run) # rest) k =
     checkE (em name ''running'' []) (persistence_failure em name) (\<lambda>_.
     checkE run (run_fail em name) (\<lambda>_.
     checkE (em name ''succeeded'' []) (persistence_failure em name) (\<lambda>_.
     opening_steps em rest k)))"

text \<open>The loop over the protected steps: \<open>pid\<close> is the recovery point, \<open>tx\<close> the operation.\<close>

definition after_boundary :: "string \<Rightarrow> bool" where
  "after_boundary name \<longleftrightarrow> name = ''resume'' \<or> name = ''verify''"

definition protected_failure ::
  "'w deployment \<Rightarrow> string \<Rightarrow> string \<Rightarrow> string \<Rightarrow> release \<Rightarrow> 'w emitter \<Rightarrow> string \<Rightarrow> err \<Rightarrow> err \<Rightarrow> ('w, result) act" where
  "protected_failure d i pid tx t em name e cause =
     (if after_boundary name then retE (outcome StatusRecoveryRequired t pid (error_text e))
      else engine_rollback d i pid tx t cause em)"

fun protected_steps ::
  "'w deployment \<Rightarrow> string \<Rightarrow> string \<Rightarrow> string \<Rightarrow> release \<Rightarrow> 'w emitter \<Rightarrow>
   (string \<times> ('w, unit) act) list \<Rightarrow> ('w, result) act \<Rightarrow> ('w, result) act" where
  "protected_steps d i pid tx t em [] k = k"
| "protected_steps d i pid tx t em ((name, run) # rest) k =
     checkE (em name ''running'' [])
       (\<lambda>e. protected_failure d i pid tx t em name e (Wrap (''persist '' @ name @ '' stage'') e)) (\<lambda>_.
     checkE run
       (\<lambda>e. bindE (tryE (em name ''failed'' (error_text e))) (\<lambda>oe.
            let e' = (case oe of Inl x \<Rightarrow> Joined [e, Wrap (''persist '' @ name @ '' failure'') x] | Inr _ \<Rightarrow> e)
            in protected_failure d i pid tx t em name e' e')) (\<lambda>_.
     checkE (em name ''succeeded'' [])
       (\<lambda>e. protected_failure d i pid tx t em name e (Wrap (''persist '' @ name @ '' completion'') e)) (\<lambda>_.
     protected_steps d i pid tx t em rest k)))"

text \<open>From the recorded recovery point to the end of the update.\<close>

definition freeze_point :: "'w deployment \<Rightarrow> string \<Rightarrow> restore_request \<Rightarrow> ('w, unit) act" where
  "freeze_point d i rq = (case dp_freeze d of None \<Rightarrow> retE () | Some f \<Rightarrow> f i rq)"

definition run_protected :: "'w deployment \<Rightarrow> string \<Rightarrow> options \<Rightarrow> release \<Rightarrow> string \<Rightarrow> 'w emitter \<Rightarrow> ('w, result) act" where
  "run_protected d i opt t pid em =
     checkE (freeze_point d i \<lparr>rr_point = pid, rr_transaction = op_operation opt\<rparr>)
       (\<lambda>e. retE (outcome StatusRecoveryRequired t pid (''freeze recovery checkpoint: '' @ error_text e)))
       (\<lambda>_. protected_steps d i pid (op_operation opt) t em
          [(''migrate'', dp_migrate d i t), (''activate'', dp_activate d i t),
           (''resume'', dp_resume d i), (''verify'', dp_verify d i)]
          (checkE (em ''succeeded'' ''succeeded'' [])
             (\<lambda>e. retE (outcome StatusRecoveryRequired t pid (''persist update completion: '' @ error_text e)))
             (\<lambda>_. retE (outcome StatusSucceeded t pid []))))"

text \<open>From the first stop of the services to the recorded recovery point.\<close>

definition run_stopped :: "'w deployment \<Rightarrow> string \<Rightarrow> options \<Rightarrow> release \<Rightarrow> 'w emitter \<Rightarrow> ('w, result) act" where
  "run_stopped d i opt t em =
     checkE (em ''quiesce'' ''running'' []) (persistence_failure em ''quiesce'') (\<lambda>_.
     checkE (dp_quiesce d i)
       (\<lambda>e. checkE (resumeAndVerify d i em)
              (\<lambda>re. retE (outcome StatusRecoveryRequired t [] (joined [Some e, Some re])))
              (\<lambda>_. run_fail em ''quiesce'' e)) (\<lambda>_.
     checkE (em ''quiesce'' ''succeeded'' [])
       (\<lambda>e. resumeAfterPersistenceFailure d i t ''quiesce'' e em) (\<lambda>_.
     checkE (em ''backup'' ''running'' [])
       (\<lambda>e. resumeAfterPersistenceFailure d i t ''backup'' e em) (\<lambda>_.
     checkE (dp_point d i (''update-to-'' @ rl_version t))
       (\<lambda>e. checkE (engine_resume d i em)
              (\<lambda>re. retE (outcome StatusRecoveryRequired t [] (joined [Some e, Some re])))
              (\<lambda>_. run_fail em ''backup'' e)) (\<lambda>pid.
     checkE (em ''backup'' ''succeeded'' pid)
       (\<lambda>e. engine_rollback d i pid (op_operation opt) t (Wrap ''persist backup recovery point'' e) em) (\<lambda>_.
     run_protected d i opt t pid em))))))"

definition liftR :: "('w \<Rightarrow> 'a \<times> 'w) \<Rightarrow> ('w, 'a) act" where
  "liftR f w = (case f w of (x, w') \<Rightarrow> (Inr x, w'))"

definition resolve_target :: "'w deployment \<Rightarrow> string \<Rightarrow> options \<Rightarrow> ('w, release) act" where
  "resolve_target d i opt = (case op_pinned opt of
       None \<Rightarrow> dp_resolve d i
     | Some t \<Rightarrow> bindE (liftE (release_validate t)) (\<lambda>_. retE t))"

definition run_deployment :: "'w engine \<Rightarrow> 'w deployment \<Rightarrow> string \<Rightarrow> options \<Rightarrow> 'w observer option \<Rightarrow> ('w, result) act" where
  "run_deployment en d i opt obs =
     (let em = emit en obs in
      checkE (em ''resolve'' ''running'' []) (persistence_failure em ''resolve'') (\<lambda>_.
      checkE (resolve_target d i opt) (run_fail em ''resolve'') (\<lambda>t.
      checkE (em ''resolve'' ''succeeded'' []) (persistence_failure em ''resolve'') (\<lambda>_.
      if dc_len (rl_plan t) > 0
      then (case dp_planned d of
              Some f \<Rightarrow> liftR (f i t opt obs)
            | None \<Rightarrow> run_fail em ''preflight'' (Msg ''deployment does not support signed upgrade plans''))
      else if (\<not> op_maintenance opt \<and> \<not> op_legacy opt) \<or> op_expected_plan opt \<noteq> []
      then run_fail em ''preflight'' (Msg ''legacy release requires an explicit maintenance update without a plan hash'')
      else opening_steps em [(''preflight'', dp_preflight d i t), (''pull'', dp_pull d i t)]
             (run_stopped d i opt t em)))))"

definition RunWithOptions :: "'w engine \<Rightarrow> string \<Rightarrow> options \<Rightarrow> 'w observer option \<Rightarrow> ('w, result) act" where
  "RunWithOptions en i opt obs = (case en_deployment en of
       None \<Rightarrow> retE (failed_result ''deployment service is unavailable'')
     | Some d \<Rightarrow> run_deployment en d i opt obs)"

definition Run :: "'w engine \<Rightarrow> string \<Rightarrow> 'w observer option \<Rightarrow> ('w, result) act" where
  "Run en i obs = RunWithOptions en i \<lparr>op_pinned = None, op_legacy = False, op_maintenance = True,
     op_expected_plan = [], op_operation = []\<rparr> obs"

end
