(* ===== verification/Journal.thy ===== *)
theory Journal
  imports CoordStore Update "HOL-Library.Sublist"
begin

text \<open>
  The operation journal of \<open>internal/operation\<close>: the record of an operation and its JSON
  form, what is kept of its stages and messages (\<open>boundedOperationStages\<close>,
  \<open>boundedOperationMessage\<close>), the decisions that are read off a journal after a restart,
  the back-off between recovery attempts, and operation identifiers.
\<close>

section \<open>Operations\<close>

record operation =
  on_schema :: int
  on_id :: string
  on_instance :: string
  on_kind :: string
  on_status :: string
  on_current :: string
  on_stages :: "stage list"
  on_target :: string
  on_point :: string
  on_error :: string
  on_started :: int
  on_completed :: "int option"
  on_attempts :: int
  on_next :: "int option"

definition KindUpdate :: string where "KindUpdate = ''update''"
definition KindBackup :: string where "KindBackup = ''backup''"
definition KindRollback :: string where "KindRollback = ''rollback''"
definition KindVerify :: string where "KindVerify = ''verify''"
definition KindSwitchBack :: string where "KindSwitchBack = ''switch-back''"

definition StatusQueued :: string where "StatusQueued = ''queued''"
definition StatusRunning :: string where "StatusRunning = ''running''"

definition zero_operation :: operation where
  "zero_operation = \<lparr>on_schema = 0, on_id = [], on_instance = [], on_kind = [], on_status = [],
     on_current = [], on_stages = [], on_target = [], on_point = [], on_error = [],
     on_started = zero_time, on_completed = None, on_attempts = 0, on_next = None\<rparr>"

definition stage_to_json :: "stage \<Rightarrow> json" where
  "stage_to_json s = JObj ([(''name'', JStr (sg_name s)), (''status'', JStr (sg_status s))] @
     omit_str ''message'' (sg_message s) @ [(''updated_at'', JTime (sg_at s))])"

definition stage_of_json :: "json \<Rightarrow> stage option" where
  "stage_of_json j =
     (case members j of None \<Rightarrow> None
      | Some kvs \<Rightarrow>
          if \<not> known [''name'', ''status'', ''message'', ''updated_at''] kvs then None
          else Option.bind (field ''name'' dec_str kvs []) (\<lambda>n.
               Option.bind (field ''status'' dec_str kvs []) (\<lambda>st.
               Option.bind (field ''message'' dec_str kvs []) (\<lambda>m.
               Option.bind (field ''updated_at'' dec_time kvs zero_time) (\<lambda>t.
               Some \<lparr>sg_name = n, sg_status = st, sg_message = m, sg_at = t\<rparr>)))))"

definition omit_int :: "string \<Rightarrow> int \<Rightarrow> (string \<times> json) list" where
  "omit_int k i = (if i = 0 then [] else [(k, JNum i)])"

definition operation_to_json :: "operation \<Rightarrow> json" where
  "operation_to_json x = JObj (
     [(''schema_version'', JNum (on_schema x)), (''id'', JStr (on_id x)),
      (''instance_id'', JStr (on_instance x)), (''kind'', JStr (on_kind x)),
      (''status'', JStr (on_status x))] @
     omit_str ''current_stage'' (on_current x) @
     [(''stages'', JArr (map stage_to_json (on_stages x)))] @
     omit_str ''target_version'' (on_target x) @
     omit_str ''recovery_point_id'' (on_point x) @
     omit_str ''error'' (on_error x) @
     [(''started_at'', JTime (on_started x))] @
     opt_pair ''completed_at'' (on_completed x) JTime @
     omit_int ''reconcile_attempts'' (on_attempts x) @
     opt_pair ''next_reconcile_at'' (on_next x) JTime)"

definition operation_keys :: "string list" where
  "operation_keys = [''schema_version'', ''id'', ''instance_id'', ''kind'', ''status'', ''current_stage'',
     ''stages'', ''target_version'', ''recovery_point_id'', ''error'', ''started_at'', ''completed_at'',
     ''reconcile_attempts'', ''next_reconcile_at'']"

text \<open>\<open>strict\<close> is \<open>DisallowUnknownFields\<close>. Without it a stage may hold unknown keys as well.\<close>

definition relaxed :: "json \<Rightarrow> json" where
  "relaxed j = (case members j of None \<Rightarrow> j | Some kvs \<Rightarrow>
     JObj (filter (\<lambda>(k, v). list_ex (key_eq k) [''name'', ''status'', ''message'', ''updated_at'']) kvs))"

definition operation_decode :: "bool \<Rightarrow> json \<Rightarrow> operation option" where
  "operation_decode strict j =
     (let dec_stage = (if strict then stage_of_json else (\<lambda>s. stage_of_json (relaxed s))) in
      case members j of None \<Rightarrow> None
      | Some kvs \<Rightarrow>
          if strict \<and> \<not> known operation_keys kvs then None
          else Option.bind (field ''schema_version'' dec_int64 kvs 0) (\<lambda>sv.
               Option.bind (field ''id'' dec_str kvs []) (\<lambda>i.
               Option.bind (field ''instance_id'' dec_str kvs []) (\<lambda>ins.
               Option.bind (field ''kind'' dec_str kvs []) (\<lambda>k.
               Option.bind (field ''status'' dec_str kvs []) (\<lambda>st.
               Option.bind (field ''current_stage'' dec_str kvs []) (\<lambda>cs.
               Option.bind (field ''stages'' (dec_list dec_stage) kvs []) (\<lambda>sg.
               Option.bind (field ''target_version'' dec_str kvs []) (\<lambda>tv.
               Option.bind (field ''recovery_point_id'' dec_str kvs []) (\<lambda>pt.
               Option.bind (field ''error'' dec_str kvs []) (\<lambda>er.
               Option.bind (field ''started_at'' dec_time kvs zero_time) (\<lambda>sa.
               Option.bind (field ''completed_at'' (dec_opt dec_time zero_time) kvs None) (\<lambda>ca.
               Option.bind (field ''reconcile_attempts'' dec_int64 kvs 0) (\<lambda>ra.
               Option.bind (field ''next_reconcile_at'' (dec_opt dec_time zero_time) kvs None) (\<lambda>nr.
               Some \<lparr>on_schema = sv, on_id = i, on_instance = ins, on_kind = k, on_status = st,
                 on_current = cs, on_stages = sg, on_target = tv, on_point = pt, on_error = er,
                 on_started = sa, on_completed = ca, on_attempts = ra, on_next = nr\<rparr>)))))))))))))))"

section \<open>Bounded stages\<close>

definition maximumOperationStages :: nat where
  "maximumOperationStages = 100"

definition legacyRestoreUncertain :: string where
  "legacyRestoreUncertain =
     ''legacy recovery may have partially restored data; start a new explicit data recovery''"

definition isDurableResumeBoundary :: "stage \<Rightarrow> bool" where
  "isDurableResumeBoundary s \<longleftrightarrow>
     sg_name s = ''resume'' \<and> sg_status s = ''running'' \<and> sg_message s = ResumeBoundaryMessage"

definition hasDurableResumeBoundary :: "stage list \<Rightarrow> bool" where
  "hasDurableResumeBoundary ss = list_ex isDurableResumeBoundary ss"

definition is_legacy_hold :: "stage \<Rightarrow> bool" where
  "is_legacy_hold s \<longleftrightarrow> sg_name s = ''rollback'' \<and> sg_status s = ''failed'' \<and>
     has_prefix legacyRestoreUncertain (sg_message s)"

definition hasLegacyRestoreHold :: "stage list \<Rightarrow> bool" where
  "hasLegacyRestoreHold ss = list_ex is_legacy_hold ss"

text \<open>The key under which the loop remembers a stage as evidence; the empty key is none.\<close>

definition evidence_key :: "stage \<Rightarrow> string" where
  "evidence_key s =
     (if isDurableResumeBoundary s then ''durable-resume-boundary''
      else if is_legacy_hold s then ''legacy-restore-hold''
      else if sg_name s \<in> {''resume'', ''verify'', ''activate'', ''rollback'', ''rolled_back'', ''succeeded''}
      then (if sg_status s = ''succeeded'' then sg_name s @ '':succeeded'' else sg_name s)
      else [])"

text \<open>The first loop marks the first stage of every key, the second one fills up from the end.\<close>

fun mark_evidence :: "string list \<Rightarrow> stage list \<Rightarrow> bool list" where
  "mark_evidence seen [] = []"
| "mark_evidence seen (s # ss) =
     (let k = evidence_key s
      in if k \<noteq> [] \<and> k \<notin> set seen then True # mark_evidence (k # seen) ss
         else False # mark_evidence seen ss)"

fun fill_marks :: "nat \<Rightarrow> bool list \<Rightarrow> bool list" where
  "fill_marks count [] = []"
| "fill_marks count (b # bs) =
     (if count \<ge> maximumOperationStages then b # bs
      else if b then True # fill_marks count bs
      else True # fill_marks (Suc count) bs)"

definition marked :: "bool list \<Rightarrow> 'a list \<Rightarrow> 'a list" where
  "marked bs xs = map fst (filter snd (zip xs bs))"

definition count_marks :: "bool list \<Rightarrow> nat" where
  "count_marks bs = length (filter id bs)"

definition boundedOperationStages :: "stage list \<Rightarrow> stage list" where
  "boundedOperationStages ss =
     (if length ss \<le> maximumOperationStages then ss
      else let sel = mark_evidence [] ss
           in marked (rev (fill_marks (count_marks sel) (rev sel))) ss)"

section \<open>Bounded messages\<close>

text \<open>The length of the UTF-8 sequence a string starts with; 0 when it is not valid.\<close>

definition byte_in :: "nat \<Rightarrow> nat \<Rightarrow> char \<Rightarrow> bool" where
  "byte_in lo hi c \<longleftrightarrow> lo \<le> code c \<and> code c \<le> hi"

definition second_ok :: "char \<Rightarrow> char \<Rightarrow> bool" where
  "second_ok a b \<longleftrightarrow>
     (if code a = 224 then byte_in 160 191 b
      else if code a = 237 then byte_in 128 159 b
      else if code a = 240 then byte_in 144 191 b
      else if code a = 244 then byte_in 128 143 b
      else byte_in 128 191 b)"

fun rune_len :: "string \<Rightarrow> nat" where
  "rune_len [] = 0"
| "rune_len (a # s) =
     (if code a < 128 then 1
      else if byte_in 194 223 a then (case s of b # _ \<Rightarrow> if second_ok a b then 2 else 0 | [] \<Rightarrow> 0)
      else if byte_in 224 239 a then
        (case s of b # c # _ \<Rightarrow> if second_ok a b \<and> byte_in 128 191 c then 3 else 0 | _ \<Rightarrow> 0)
      else if byte_in 240 244 a then
        (case s of b # c # d # _ \<Rightarrow>
           if second_ok a b \<and> byte_in 128 191 c \<and> byte_in 128 191 d then 4 else 0 | _ \<Rightarrow> 0)
      else 0)"

fun valid_utf8 :: "string \<Rightarrow> bool" where
  "valid_utf8 [] = True"
| "valid_utf8 (a # s) = (case rune_len (a # s) of 0 \<Rightarrow> False | Suc n \<Rightarrow> valid_utf8 (drop n s))"

text \<open>\<open>strings.ToValidUTF8\<close>: one replacement character for every run of invalid bytes.\<close>

definition replacement :: string where
  "replacement = [CHR 0xEF, CHR 0xBF, CHR 0xBD]"

fun to_valid_utf8 :: "bool \<Rightarrow> string \<Rightarrow> string" where
  "to_valid_utf8 run [] = []"
| "to_valid_utf8 run (a # s) = (case rune_len (a # s) of
       0 \<Rightarrow> (if run then [] else replacement) @ to_valid_utf8 True s
     | Suc n \<Rightarrow> a # take n s @ to_valid_utf8 False (drop n s))"

text \<open>The loop that drops the last byte until the text is valid.\<close>

function shrink_valid :: "string \<Rightarrow> string" where
  "shrink_valid s = (if valid_utf8 s then s else shrink_valid (butlast s))"
  by auto
termination
proof (relation "measure length")
  fix s assume "\<not> valid_utf8 s"
  then have "s \<noteq> []" by auto
  then show "(butlast s, s) \<in> measure length" by simp
qed simp

declare shrink_valid.simps [simp del]

definition maximumBytes :: nat where
  "maximumBytes = 4096"

definition boundedOperationMessage :: "string \<Rightarrow> string" where
  "boundedOperationMessage m =
     (let v = to_valid_utf8 False m
      in if length v \<le> maximumBytes then v else shrink_valid (take maximumBytes v))"

section \<open>Reading a journal after a restart\<close>

definition legacy_failures :: "string list" where
  "legacy_failures = [''recover interrupted rollback:'', ''recover interrupted update:'',
     ''quiesce before recovering interrupted rollback:'', ''quiesce before recovering interrupted update:'']"

definition legacyPartialRestore :: "operation \<Rightarrow> bool" where
  "legacyPartialRestore x =
     (if on_kind x \<noteq> KindRollback \<and> on_kind x \<noteq> KindUpdate then False
      else if hasLegacyRestoreHold (on_stages x) \<or> contains legacyRestoreUncertain (on_error x) then True
      else if on_attempts x = 0 then False
      else list_ex (\<lambda>f. contains f (on_error x)) legacy_failures)"

definition recoveryRequired :: "operation \<Rightarrow> bool" where
  "recoveryRequired x =
     (if on_status x = StatusRecoveryRequired then True
      else if on_status x \<noteq> StatusFailed \<or> on_point x = [] \<or> on_current x \<noteq> ''rollback'' then False
      else if on_stages x = [] then True
      else sg_name (last (on_stages x)) = ''rollback'' \<and> sg_status (last (on_stages x)) = ''failed'')"

definition updateRecoveryNeeded :: "operation \<Rightarrow> bool" where
  "updateRecoveryNeeded x =
     (if on_kind x \<noteq> KindUpdate \<or> on_status x \<noteq> StatusRunning then False
      else on_current x = ''quiesce'' \<or> on_current x = ''backup'' \<or> on_current x = ''rollback'')"

text \<open>The loop over the stages of an interrupted update: whether the new release was activated,
  whether a recovery began and whether it completed.\<close>

fun update_evidence :: "stage list \<Rightarrow> bool \<times> bool \<times> bool \<Rightarrow> bool \<times> bool \<times> bool" where
  "update_evidence [] e = e"
| "update_evidence (s # ss) (activated, started, completed) =
     update_evidence ss
       (activated \<or> sg_name s = ''succeeded'' \<or> (sg_name s = ''activate'' \<and> sg_status s = ''succeeded''),
        started \<or> sg_name s = ''rollback'' \<or> sg_name s = ''rolled_back'',
        completed \<or> ((sg_name s = ''rollback'' \<or> sg_name s = ''rolled_back'') \<and> sg_status s = ''succeeded''))"

definition reconciled_update_status :: "operation \<Rightarrow> string" where
  "reconciled_update_status x =
     (case update_evidence (on_stages x)
        (on_current x = ''succeeded'', on_current x = ''rolled_back'', on_current x = ''rolled_back'') of
        (activated, started, completed) \<Rightarrow>
          if completed then StatusRolledBack
          else if activated \<and> \<not> started then StatusSucceeded else StatusFailed)"

text \<open>The delay before the next recovery attempt, in nanoseconds.\<close>

definition second_ns :: int where "second_ns = 1000000000"
definition minute_ns :: int where "minute_ns = 60 * second_ns"

fun backoff_loop :: "nat \<Rightarrow> int \<Rightarrow> int" where
  "backoff_loop 0 delay = delay"
| "backoff_loop (Suc k) delay =
     (if delay < 15 * minute_ns
      then (let delay' = delay * 2 in if delay' > 15 * minute_ns then 15 * minute_ns else backoff_loop k delay')
      else delay)"

definition reconciliationBackoff :: "int \<Rightarrow> int" where
  "reconciliationBackoff attempts = backoff_loop (nat (attempts - 1)) (30 * second_ns)"

section \<open>Identifiers\<close>

text \<open>\<open>Format("20060102T150405.000000000Z")\<close> of an instant in UTC, from the civil calendar.\<close>

definition civil :: "int \<Rightarrow> int \<times> int \<times> int" where
  "civil days =
     (let z = days + 719468; era = z div 146097; doe = z mod 146097;
          yoe = (doe - doe div 1460 + doe div 36524 - doe div 146096) div 365;
          doy = doe - (365 * yoe + yoe div 4 - yoe div 100);
          mp = (5 * doy + 2) div 153;
          d = doy - (153 * mp + 2) div 5 + 1;
          m = (if mp < 10 then mp + 3 else mp - 9)
      in (yoe + era * 400 + (if m \<le> 2 then 1 else 0), m, d))"

definition time_stamp :: "int \<Rightarrow> string" where
  "time_stamp t =
     (let secs = t div second_ns; ns = t mod second_ns; sod = secs mod 86400 in
      case civil (secs div 86400) of (y, m, d) \<Rightarrow>
        pad_dec 4 (nat y) @ pad_dec 2 (nat m) @ pad_dec 2 (nat d) @ ''T'' @
        pad_dec 2 (nat (sod div 3600)) @ pad_dec 2 (nat (sod div 60 mod 60)) @ pad_dec 2 (nat (sod mod 60)) @
        ''.'' @ pad_dec 9 (nat ns) @ ''Z'')"


section \<open>What bounding keeps\<close>

lemma marked_Nil [simp]: "marked [] xs = []" "marked bs [] = []"
  by (simp_all add: marked_def)

lemma marked_Cons [simp]: "marked (b # bs) (x # xs) = (if b then x # marked bs xs else marked bs xs)"
  by (simp add: marked_def)

lemma length_mark_evidence [simp]: "length (mark_evidence seen ss) = length ss"
  by (induction seen ss rule: mark_evidence.induct) (simp_all add: Let_def)

lemma length_fill_marks [simp]: "length (fill_marks c bs) = length bs"
  by (induction c bs rule: fill_marks.induct) simp_all

lemma length_marked: "length bs = length xs \<Longrightarrow> length (marked bs xs) = count_marks bs"
  by (induction bs xs rule: list_induct2) (simp_all add: count_marks_def)

lemma count_marks_simps [simp]:
  "count_marks [] = 0" "count_marks (b # bs) = (if b then Suc (count_marks bs) else count_marks bs)"
  "count_marks (rev bs) = count_marks bs"
  by (simp_all add: count_marks_def rev_filter[symmetric])

text \<open>Bounding keeps every mark and never passes the maximum.\<close>

definition keeps_marks :: "bool list \<Rightarrow> bool list \<Rightarrow> bool" where
  "keeps_marks bs cs = list_all2 (\<lambda>b c. b \<longrightarrow> c) bs cs"

lemma fill_keeps_marks: "keeps_marks bs (fill_marks c bs)"
  unfolding keeps_marks_def
  by (induction c bs rule: fill_marks.induct) (auto simp: list_all2_refl)

lemma fill_count:
  "c \<le> maximumOperationStages \<Longrightarrow> count_marks bs \<le> c \<Longrightarrow>
     c - count_marks bs + count_marks (fill_marks c bs) \<le> maximumOperationStages"
proof (induction c bs rule: fill_marks.induct)
  case (2 c b bs)
  then show ?case by (cases "c = maximumOperationStages") (auto simp: le_Suc_eq)
qed simp

text \<open>At most fourteen different pieces of evidence.\<close>

definition evidence_keys :: "string list" where
  "evidence_keys = [''durable-resume-boundary'', ''legacy-restore-hold'', ''resume'', ''verify'', ''activate'',
     ''rollback'', ''rolled_back'', ''succeeded'', ''resume:succeeded'', ''verify:succeeded'',
     ''activate:succeeded'', ''rollback:succeeded'', ''rolled_back:succeeded'', ''succeeded:succeeded'']"

lemma evidence_key_known: "evidence_key s \<noteq> [] \<Longrightarrow> evidence_key s \<in> set evidence_keys"
  by (auto simp: evidence_key_def evidence_keys_def split: if_splits)

lemma mark_evidence_count:
  "count_marks (mark_evidence seen ss) \<le> card (set evidence_keys - set seen)"
proof (induction seen ss rule: mark_evidence.induct)
  case (2 seen s ss)
  let ?k = "evidence_key s"
  show ?case
  proof (cases "?k \<noteq> [] \<and> ?k \<notin> set seen")
    case True
    then have k: "?k \<in> set evidence_keys - set seen" using evidence_key_known by auto
    have "card (set evidence_keys - set seen) = Suc (card (set evidence_keys - set (?k # seen)))"
      using k by (metis Diff_insert2 List.finite_set card.remove finite_Diff list.simps(15) Diff_insert)
    with 2(1)[OF refl True] True show ?thesis by (simp add: Let_def)
  next
    case False
    with 2(2)[OF refl False] show ?thesis by (auto simp: Let_def)
  qed
qed simp

lemma mark_evidence_complete:
  assumes "s \<in> set ss" and "evidence_key s \<noteq> []" and "evidence_key s \<notin> set seen"
  shows "\<exists>s' \<in> set (marked (mark_evidence seen ss) ss). evidence_key s' = evidence_key s"
  using assms
proof (induction seen ss rule: mark_evidence.induct)
  case (2 seen x ss)
  show ?case
  proof (cases "evidence_key x \<noteq> [] \<and> evidence_key x \<notin> set seen")
    case True
    show ?thesis
    proof (cases "evidence_key x = evidence_key s")
      case False
      with 2(3-5) have "s \<in> set ss" "evidence_key s \<notin> set (evidence_key x # seen)" by auto
      with 2(1)[OF refl True] 2(4) True show ?thesis by (auto simp: Let_def)
    qed (use True in \<open>simp add: Let_def\<close>)
  next
    case False
    with 2(3-5) have "s \<in> set ss" by auto
    with 2(2)[OF refl False] 2(4,5) have "\<exists>s' \<in> set (marked (mark_evidence seen ss) ss). evidence_key s' = evidence_key s"
      by simp
    with False show ?thesis by (simp only: mark_evidence.simps Let_def if_False marked_Cons)
  qed
qed simp

lemma marked_mono: "keeps_marks bs cs \<Longrightarrow> set (marked bs xs) \<subseteq> set (marked cs xs)"
  unfolding keeps_marks_def
proof (induction bs cs arbitrary: xs rule: list_all2_induct)
  case (Cons b bs c cs)
  note step = this
  show ?case
  proof (cases xs)
    case (Cons y ys)
    with step(3)[of ys] step(1) show ?thesis by auto
  qed simp
qed simp

lemma set_marked: "set (marked bs xs) \<subseteq> set xs"
  by (auto simp: marked_def dest: set_zip_leftD)

lemma subseq_marked: "subseq (marked bs xs) xs"
proof (induction xs arbitrary: bs)
  case (Cons x xs)
  then show ?case by (cases bs) auto
qed simp

lemma marked_snoc: "length bs = length xs \<Longrightarrow> marked (bs @ [b]) (xs @ [x]) = marked bs xs @ (if b then [x] else [])"
  by (induction bs xs rule: list_induct2) simp_all

text \<open>The marks of a journal that is too long.\<close>

definition final_marks :: "stage list \<Rightarrow> bool list" where
  "final_marks ss = (let sel = mark_evidence [] ss in rev (fill_marks (count_marks sel) (rev sel)))"

lemma bounded_marks:
  "boundedOperationStages ss = (if length ss \<le> maximumOperationStages then ss else marked (final_marks ss) ss)"
  by (simp add: boundedOperationStages_def final_marks_def Let_def)

lemma length_final_marks [simp]: "length (final_marks ss) = length ss"
  by (simp add: final_marks_def Let_def)

lemma initial_marks: "count_marks (mark_evidence [] ss) < maximumOperationStages"
proof -
  have "card (set evidence_keys) \<le> 14"
    using card_length[of evidence_keys] by (simp add: evidence_keys_def)
  with mark_evidence_count[of "[]" ss] show ?thesis by (simp add: maximumOperationStages_def)
qed

lemma final_marks_keep: "keeps_marks (mark_evidence [] ss) (final_marks ss)"
  using fill_keeps_marks[of "rev (mark_evidence [] ss)" "count_marks (mark_evidence [] ss)"]
  by (simp add: final_marks_def Let_def keeps_marks_def list_all2_rev1)

lemma final_marks_count: "count_marks (final_marks ss) \<le> maximumOperationStages"
  using fill_count[of "count_marks (mark_evidence [] ss)" "rev (mark_evidence [] ss)"] initial_marks[of ss]
  by (simp add: final_marks_def Let_def)

lemma final_marks_last: "\<exists>bs. final_marks (ss @ [s]) = bs @ [True] \<and> length bs = length ss"
proof -
  let ?sel = "mark_evidence [] (ss @ [s])"
  obtain b bs where r: "rev ?sel = b # bs" by (metis length_mark_evidence length_rev length_append_singleton length_Suc_conv)
  have "length (rev ?sel) = Suc (length ss)" by simp
  with r have "length bs = length ss" by simp
  with r initial_marks[of "ss @ [s]"] show ?thesis
    by (auto simp: final_marks_def Let_def)
qed

lemma bounded_evidence:
  assumes "s \<in> set ss" and "evidence_key s \<noteq> []"
  shows "\<exists>s' \<in> set (boundedOperationStages ss). evidence_key s' = evidence_key s"
  using mark_evidence_complete[OF assms, of "[]"] marked_mono[OF final_marks_keep[of ss], of ss] assms
  by (auto simp: bounded_marks)

lemma bounded_subset: "set (boundedOperationStages ss) \<subseteq> set ss"
  by (simp add: bounded_marks set_marked)

text \<open>What the decisions after a restart read is a function of the evidence keys.\<close>

lemma evidence_key_eqs:
  "evidence_key s = ''durable-resume-boundary'' \<longleftrightarrow> isDurableResumeBoundary s"
  "evidence_key s = ''legacy-restore-hold'' \<longleftrightarrow> is_legacy_hold s"
  by (auto simp: evidence_key_def is_legacy_hold_def isDurableResumeBoundary_def)

lemma update_evidence_set:
  "update_evidence ss (a, b, c) =
     (a \<or> (\<exists>s \<in> set ss. sg_name s = ''succeeded'' \<or> (sg_name s = ''activate'' \<and> sg_status s = ''succeeded'')),
      b \<or> (\<exists>s \<in> set ss. sg_name s = ''rollback'' \<or> sg_name s = ''rolled_back''),
      c \<or> (\<exists>s \<in> set ss. (sg_name s = ''rollback'' \<or> sg_name s = ''rolled_back'') \<and> sg_status s = ''succeeded''))"
  by (induction ss "(a, b, c)" arbitrary: a b c rule: update_evidence.induct) auto

text \<open>A property of stages that the evidence key decides and that only evidence has.\<close>

definition keyed :: "(stage \<Rightarrow> bool) \<Rightarrow> bool" where
  "keyed P \<longleftrightarrow> (\<forall>s. P s \<longrightarrow> evidence_key s \<noteq> []) \<and> (\<forall>s s'. P s \<longrightarrow> evidence_key s' = evidence_key s \<longrightarrow> P s')"

lemma bounded_keyed: "keyed P \<Longrightarrow> (\<exists>s \<in> set (boundedOperationStages ss). P s) \<longleftrightarrow> (\<exists>s \<in> set ss. P s)"
  using bounded_subset[of ss] by (metis bounded_evidence keyed_def subsetD)

lemma keyed_facts:
  "keyed isDurableResumeBoundary" "keyed is_legacy_hold"
  "keyed (\<lambda>s. sg_name s = ''succeeded'' \<or> (sg_name s = ''activate'' \<and> sg_status s = ''succeeded''))"
  "keyed (\<lambda>s. sg_name s = ''rollback'' \<or> sg_name s = ''rolled_back'')"
  "keyed (\<lambda>s. (sg_name s = ''rollback'' \<or> sg_name s = ''rolled_back'') \<and> sg_status s = ''succeeded'')"
  unfolding keyed_def
  by (auto simp: evidence_key_def isDurableResumeBoundary_def is_legacy_hold_def split: if_splits)

lemma bounded_length: "length (boundedOperationStages ss) \<le> maximumOperationStages"
  using final_marks_count[of ss] by (simp add: bounded_marks length_marked)

lemma bounded_last: "last (boundedOperationStages (ss @ [s])) = s"
  using final_marks_last[of ss s] by (auto simp: bounded_marks marked_snoc)

lemma bounded_decisions:
  "hasDurableResumeBoundary (boundedOperationStages ss) = hasDurableResumeBoundary ss"
  "hasLegacyRestoreHold (boundedOperationStages ss) = hasLegacyRestoreHold ss"
  "update_evidence (boundedOperationStages ss) e = update_evidence ss e"
  using bounded_keyed[OF keyed_facts(1)] bounded_keyed[OF keyed_facts(2)] bounded_keyed[OF keyed_facts(3)]
    bounded_keyed[OF keyed_facts(4)] bounded_keyed[OF keyed_facts(5)]
  by (simp_all add: hasDurableResumeBoundary_def hasLegacyRestoreHold_def list_ex_iff)
     (cases e, simp only: update_evidence_set)

text \<open>C37: what \<open>save\<close> keeps of a journal has at most a hundred stages, in their order and
  ending with the newest, and no decision taken after a restart changes: the durable resume
  boundary, the hold of a legacy restore and the evidence that an update was activated,
  recovered or completed are read off the kept stages exactly as off all of them.\<close>

theorem bounded_stages_keep_decisions:
  "length (boundedOperationStages ss) \<le> maximumOperationStages \<and>
   subseq (boundedOperationStages ss) ss \<and>
   last (boundedOperationStages (ss @ [s])) = s \<and>
   hasDurableResumeBoundary (boundedOperationStages ss) = hasDurableResumeBoundary ss \<and>
   hasLegacyRestoreHold (boundedOperationStages ss) = hasLegacyRestoreHold ss \<and>
   update_evidence (boundedOperationStages ss) e = update_evidence ss e"
  using bounded_length bounded_last bounded_decisions
  by (simp add: bounded_marks subseq_marked)

section \<open>Messages\<close>

lemma rune_len_local:
  "rune_len (a # s) = Suc n \<Longrightarrow> n \<le> length s \<and> rune_len (a # take n s @ t) = Suc n"
  by (cases s; cases "tl s"; cases "tl (tl s)") (auto split: if_splits)

lemma valid_utf8_rune:
  "rune_len (a # s) = Suc n \<Longrightarrow> valid_utf8 (a # take n s @ t) = valid_utf8 t"
  using rune_len_local[of a s n t] by (simp del: rune_len.simps)

lemma rune_len_replacement: "rune_len (replacement @ t) = 3"
  by (simp add: replacement_def byte_in_def second_ok_def code_def)

lemma valid_utf8_replacement [simp]: "valid_utf8 (replacement @ t) = valid_utf8 t"
  by (simp add: replacement_def byte_in_def second_ok_def code_def)

lemma valid_to_valid_utf8: "valid_utf8 (to_valid_utf8 run s)"
proof (induction run s rule: to_valid_utf8.induct)
  case (2 run a s)
  show ?case
  proof (cases "rune_len (a # s)")
    case 0
    with 2(1)[OF 0] show ?thesis by (simp del: rune_len.simps)
  next
    case (Suc n)
    with 2(2)[OF Suc] valid_utf8_rune[OF Suc] show ?thesis by (simp del: rune_len.simps)
  qed
qed simp

lemma to_valid_utf8_id: "valid_utf8 s \<Longrightarrow> to_valid_utf8 run s = s"
proof (induction s arbitrary: run rule: valid_utf8.induct)
  case (2 a s)
  then show ?case by (auto simp del: rune_len.simps split: nat.splits)
qed simp

lemma rune_len_le: "rune_len s \<le> 4"
  by (cases s) (auto split: list.splits)

text \<open>Cutting a valid text anywhere leaves a valid text within three bytes of the cut.\<close>

lemma valid_utf8_take:
  "valid_utf8 s \<Longrightarrow> k \<le> length s \<Longrightarrow> \<exists>j \<le> k. k \<le> j + 3 \<and> valid_utf8 (take j s)"
proof (induction s arbitrary: k rule: valid_utf8.induct)
  case (2 a s)
  then obtain n where n: "rune_len (a # s) = Suc n" and v: "valid_utf8 (drop n s)"
    by (auto simp del: rune_len.simps split: nat.splits)
  have le: "n \<le> length s" "n \<le> 3" using rune_len_local[OF n, of "[]"] rune_len_le[of "a # s"] n by auto
  show ?case
  proof (cases "k \<le> n")
    case True
    then show ?thesis using le by (intro exI[of _ 0]) auto
  next
    case False
    with 2(3) le have "k - Suc n \<le> length (drop n s)" by simp
    from 2(1)[OF n v this] obtain j where j: "j \<le> k - Suc n" "k - Suc n \<le> j + 3" "valid_utf8 (take j (drop n s))"
      by blast
    have "take (Suc n + j) (a # s) = a # take n s @ take j (drop n s)"
      by (simp add: take_add)
    then have "valid_utf8 (take (Suc n + j) (a # s))"
      using valid_utf8_rune[OF n] j(3) by simp
    with j False show ?thesis by (intro exI[of _ "Suc n + j"]) auto
  qed
qed simp

lemma shrink_valid_props:
  "valid_utf8 (shrink_valid s) \<and> (\<exists>k \<le> length s. shrink_valid s = take k s) \<and>
     (\<forall>j \<le> length s. valid_utf8 (take j s) \<longrightarrow> j \<le> length (shrink_valid s))"
proof (induction s rule: shrink_valid.induct)
  case (1 s)
  show ?case
  proof (cases "valid_utf8 s")
    case True
    then show ?thesis by (subst (1 2 3) shrink_valid.simps) (auto intro: exI[of _ "length s"])
  next
    case False
    then have s: "s \<noteq> []" by auto
    from False have eq: "shrink_valid s = shrink_valid (butlast s)" by (subst shrink_valid.simps) simp
    from 1[OF False] have IH: "valid_utf8 (shrink_valid (butlast s))"
      "\<exists>k \<le> length (butlast s). shrink_valid (butlast s) = take k (butlast s)"
      "\<forall>j \<le> length (butlast s). valid_utf8 (take j (butlast s)) \<longrightarrow> j \<le> length (shrink_valid (butlast s))"
      by auto
    have "j \<le> length (shrink_valid (butlast s))" if "j \<le> length s" "valid_utf8 (take j s)" for j
    proof -
      from that False have "j < length s" by (metis le_neq_implies_less order_refl take_all)
      with that IH(3) show ?thesis by (auto simp: take_butlast)
    qed
    moreover have "take k (butlast s) = take k s \<and> k \<le> length s" if "k \<le> length (butlast s)" for k
    proof -
      from that s have "k < length s" by (cases s rule: rev_cases) auto
      then show ?thesis by (simp add: take_butlast)
    qed
    ultimately show ?thesis using IH eq by metis
  qed
qed

lemma shrink_cut:
  assumes v: "valid_utf8 v" and long: "maximumBytes < length v"
  shows "valid_utf8 (shrink_valid (take maximumBytes v)) \<and> prefix (shrink_valid (take maximumBytes v)) v \<and>
    length (shrink_valid (take maximumBytes v)) \<le> maximumBytes \<and>
    maximumBytes \<le> length (shrink_valid (take maximumBytes v)) + 3"
proof -
  let ?t = "take maximumBytes v"
  obtain j where j: "j \<le> maximumBytes" "maximumBytes \<le> j + 3" "valid_utf8 (take j v)"
    using valid_utf8_take[OF v, of maximumBytes] long by auto
  with long have jt: "take j ?t = take j v" "j \<le> length ?t" by (simp_all add: min_def)
  obtain k where k: "k \<le> length ?t" "shrink_valid ?t = take k ?t" using shrink_valid_props by blast
  then have "length (shrink_valid ?t) \<le> maximumBytes" "prefix (shrink_valid ?t) v"
    by (auto simp: take_is_prefix)
  moreover have "valid_utf8 (shrink_valid ?t)" "j \<le> length (shrink_valid ?t)"
    using shrink_valid_props[of ?t] j jt by auto
  ultimately show ?thesis using j by simp
qed

text \<open>C38: a stored message is valid UTF-8 of at most 4096 bytes, a prefix of the repaired
  text that loses at most the three bytes of a cut character, and storing it again changes
  nothing.\<close>

theorem bounded_message:
  "valid_utf8 (boundedOperationMessage m) \<and> length (boundedOperationMessage m) \<le> maximumBytes \<and>
   prefix (boundedOperationMessage m) (to_valid_utf8 False m) \<and>
   min maximumBytes (length (to_valid_utf8 False m)) \<le> length (boundedOperationMessage m) + 3 \<and>
   boundedOperationMessage (boundedOperationMessage m) = boundedOperationMessage m"
proof -
  let ?v = "to_valid_utf8 False m" and ?b = "boundedOperationMessage m"
  have v: "valid_utf8 ?v" by (rule valid_to_valid_utf8)
  have short: "boundedOperationMessage x = x" if "valid_utf8 x" "length x \<le> maximumBytes" for x
    using that by (simp add: boundedOperationMessage_def to_valid_utf8_id)
  show ?thesis
  proof (cases "length ?v \<le> maximumBytes")
    case True
    then have "?b = ?v" by (simp add: boundedOperationMessage_def)
    with True v short[OF v True] show ?thesis by simp
  next
    case False
    then have "?b = shrink_valid (take maximumBytes ?v)" by (simp add: boundedOperationMessage_def)
    with shrink_cut[OF v] False short[of ?b] show ?thesis by simp
  qed
qed

section \<open>Back-off\<close>

lemma backoff_loop_min:
  "0 < d \<Longrightarrow> d \<le> 15 * minute_ns \<Longrightarrow> backoff_loop k d = min (d * 2 ^ k) (15 * minute_ns)"
proof (induction k arbitrary: d)
  case (Suc k)
  show ?case
  proof (cases "d * 2 > 15 * minute_ns")
    case True
    have "d * 2 * 1 \<le> d * 2 * 2 ^ k" using Suc.prems by (intro mult_left_mono) auto
    with True have "15 * minute_ns < d * 2 ^ Suc k" by simp
    with True Suc.prems show ?thesis by (auto simp: Let_def)
  next
    case False
    then have "d < 15 * minute_ns" using Suc.prems by auto
    with False Suc.IH[of "d * 2"] Suc.prems show ?thesis by (simp add: mult.assoc)
  qed
qed simp

text \<open>the delay before recovery attempt \<open>n + 1\<close> doubles from thirty seconds and is capped at
  fifteen minutes.\<close>

theorem backoff_closed_form:
  "reconciliationBackoff n = min (30 * second_ns * 2 ^ nat (n - 1)) (15 * minute_ns)"
  unfolding reconciliationBackoff_def by (rule backoff_loop_min) (simp_all add: minute_ns_def second_ns_def)

section \<open>Encoding and decoding\<close>

definition operation_in_range :: "operation \<Rightarrow> bool" where
  "operation_in_range x \<longleftrightarrow> - (2 ^ 63) \<le> on_schema x \<and> on_schema x < 2 ^ 63 \<and>
     - (2 ^ 63) \<le> on_attempts x \<and> on_attempts x < 2 ^ 63"

lemma field_omit_int [simp]:
  "field k d (omit_int k' i @ kvs) x =
     (if i \<noteq> 0 \<and> key_eq k k' then (case d (JNum i) x of None \<Rightarrow> None | Some y \<Rightarrow> field k d kvs y)
      else field k d kvs x)"
  by (simp add: omit_int_def)

lemma known_omit_int [simp]: "known ks (omit_int k i) \<longleftrightarrow> i = 0 \<or> list_ex (key_eq k) ks"
  by (simp add: omit_int_def)

lemma stage_roundtrip [simp]: "stage_of_json (stage_to_json s) = Some s"
  by (auto simp: stage_of_json_def stage_to_json_def lower_char_def is_upper_def code_def)

definition operation_pairs :: "operation \<Rightarrow> (string \<times> json) list" where
  "operation_pairs x = the (members (operation_to_json x))"

lemma field_other_pair:
  "\<not> key_eq k k' \<Longrightarrow> field k d (opt_pair k' y e @ kvs) x = field k d kvs x"
  "\<not> key_eq k k' \<Longrightarrow> field k d (opt_pair k' y e) x = Some x"
  by (simp_all split: option.splits)

lemmas operation_eval = operation_pairs_def operation_to_json_def lower_char_def is_upper_def code_def
  field_other_pair

lemma operation_fields:
  "field ''schema_version'' dec_int64 (operation_pairs x) 0 = dec_int64 (JNum (on_schema x)) 0"
  "field ''id'' dec_str (operation_pairs x) [] = Some (on_id x)"
  "field ''instance_id'' dec_str (operation_pairs x) [] = Some (on_instance x)"
  "field ''kind'' dec_str (operation_pairs x) [] = Some (on_kind x)"
  "field ''status'' dec_str (operation_pairs x) [] = Some (on_status x)"
  "field ''current_stage'' dec_str (operation_pairs x) [] = Some (on_current x)"
  "field ''stages'' (dec_list stage_of_json) (operation_pairs x) [] = Some (on_stages x)"
  "field ''target_version'' dec_str (operation_pairs x) [] = Some (on_target x)"
  "field ''recovery_point_id'' dec_str (operation_pairs x) [] = Some (on_point x)"
  "field ''error'' dec_str (operation_pairs x) [] = Some (on_error x)"
  "field ''started_at'' dec_time (operation_pairs x) zero_time = Some (on_started x)"
  by (simp_all add: operation_eval dec_all_map del: field_opt_pair split: option.split)

lemma field_this_pair:
  "key_eq k k' \<Longrightarrow> field k d (opt_pair k' y e @ kvs) x =
     (case y of None \<Rightarrow> field k d kvs x
      | Some z \<Rightarrow> (case d (e z) x of None \<Rightarrow> None | Some y \<Rightarrow> field k d kvs y))"
  "key_eq k k' \<Longrightarrow> field k d (opt_pair k' y e) x = (case y of None \<Rightarrow> Some x | Some z \<Rightarrow> d (e z) x)"
  by (simp_all split: option.splits)

lemma operation_option_fields:
  "field ''completed_at'' (dec_opt dec_time zero_time) (operation_pairs x) None = Some (on_completed x)"
  "field ''next_reconcile_at'' (dec_opt dec_time zero_time) (operation_pairs x) None = Some (on_next x)"
  by (simp_all add: operation_eval field_this_pair del: field_opt_pair split: option.split)

lemma operation_attempts_field:
  "- (2 ^ 63) \<le> on_attempts x \<Longrightarrow> on_attempts x < 2 ^ 63 \<Longrightarrow>
     field ''reconcile_attempts'' dec_int64 (operation_pairs x) 0 = Some (on_attempts x)"
  by (simp add: operation_eval dec_int64_num del: field_opt_pair)

lemma operation_known: "known operation_keys (operation_pairs x)"
  by (simp add: operation_eval operation_keys_def)

lemma operation_roundtrip:
  assumes "operation_in_range x"
  shows "operation_decode True (operation_to_json x) = Some x"
proof -
  have "members (operation_to_json x) = Some (operation_pairs x)"
    by (simp add: operation_pairs_def operation_to_json_def)
  with assms show ?thesis
    by (simp add: operation_decode_def operation_known operation_fields operation_option_fields
        operation_attempts_field operation_in_range_def dec_int64_num)
qed

end
