(* ===== verification/RecoveryControl.thy ===== *)
theory RecoveryControl
  imports AtomicPut
begin

text \<open>
  \<open>internal/recoverycontrol\<close>: the authority over restore generations. \<open>change\<close> reads the
  authority under a lock, applies a mutation, validates the result and commits it to three
  files: the protocol floor, the private authority and the public state, in that order.
  A \<open>StateDir\<close> that is not absolute is \<open>None\<close>.
\<close>

unbundle bit_operations_syntax

section \<open>State and authority\<close>

definition MinimumProtocol :: int where
  "MinimumProtocol = 5"

record rstate =
  rs_schema :: int
  rs_instance :: string
  rs_host :: string
  rs_epoch :: string
  rs_tx :: "string option"
  rs_phase :: string
  rs_minimum :: int

record rauthority =
  ra_state :: rstate
  ra_point :: string
  ra_digest :: string
  ra_restored :: bool
  ra_http :: bool
  ra_redis :: string
  ra_prep :: string

definition zero_rstate :: rstate where
  "zero_rstate = \<lparr>rs_schema = 0, rs_instance = [], rs_host = [], rs_epoch = [], rs_tx = None,
     rs_phase = [], rs_minimum = 0\<rparr>"

definition zero_rauthority :: rauthority where
  "zero_rauthority = \<lparr>ra_state = zero_rstate, ra_point = [], ra_digest = [], ra_restored = False,
     ra_http = False, ra_redis = [], ra_prep = []\<rparr>"

definition rstate_to_json :: "rstate \<Rightarrow> json" where
  "rstate_to_json s = JObj [(''schema_version'', JNum (rs_schema s)),
     (''instance_id'', JStr (rs_instance s)), (''host_id'', JStr (rs_host s)),
     (''epoch'', JStr (rs_epoch s)),
     (''transaction_id'', case rs_tx s of None \<Rightarrow> JNull | Some t \<Rightarrow> JStr t),
     (''phase'', JStr (rs_phase s)), (''minimum_updater_protocol'', JNum (rs_minimum s))]"

definition dec_rstate :: "json \<Rightarrow> rstate \<Rightarrow> rstate option" where
  "dec_rstate j x =
     (case members j of None \<Rightarrow> None
      | Some kvs \<Rightarrow>
          if \<not> known [''schema_version'', ''instance_id'', ''host_id'', ''epoch'', ''transaction_id'',
                ''phase'', ''minimum_updater_protocol''] kvs then None
          else Option.bind (field ''schema_version'' dec_int64 kvs (rs_schema x)) (\<lambda>sv.
               Option.bind (field ''instance_id'' dec_str kvs (rs_instance x)) (\<lambda>i.
               Option.bind (field ''host_id'' dec_str kvs (rs_host x)) (\<lambda>h.
               Option.bind (field ''epoch'' dec_str kvs (rs_epoch x)) (\<lambda>e.
               Option.bind (field ''transaction_id'' (dec_opt dec_str []) kvs (rs_tx x)) (\<lambda>t.
               Option.bind (field ''phase'' dec_str kvs (rs_phase x)) (\<lambda>ph.
               Option.bind (field ''minimum_updater_protocol'' dec_uint64 kvs (rs_minimum x)) (\<lambda>m.
               Some \<lparr>rs_schema = sv, rs_instance = i, rs_host = h, rs_epoch = e, rs_tx = t,
                 rs_phase = ph, rs_minimum = m\<rparr>))))))))"

definition rauthority_to_json :: "rauthority \<Rightarrow> json" where
  "rauthority_to_json a = JObj (
     [(''state'', rstate_to_json (ra_state a))] @
     omit_str ''point_id'' (ra_point a) @ omit_str ''admin_digest'' (ra_digest a) @
     [(''data_restored'', JBool (ra_restored a)), (''http_opened'', JBool (ra_http a))] @
     omit_str ''redis_manifest_sha256'' (ra_redis a) @
     omit_str ''preparation_sha256'' (ra_prep a))"

definition rauthority_of_json :: "json \<Rightarrow> rauthority option" where
  "rauthority_of_json j =
     (case members j of None \<Rightarrow> None
      | Some kvs \<Rightarrow>
          if \<not> known [''state'', ''point_id'', ''admin_digest'', ''data_restored'', ''http_opened'',
                ''redis_manifest_sha256'', ''preparation_sha256''] kvs then None
          else Option.bind (field ''state'' dec_rstate kvs zero_rstate) (\<lambda>s.
               Option.bind (field ''point_id'' dec_str kvs []) (\<lambda>p.
               Option.bind (field ''admin_digest'' dec_str kvs []) (\<lambda>d.
               Option.bind (field ''data_restored'' dec_bool kvs False) (\<lambda>dr.
               Option.bind (field ''http_opened'' dec_bool kvs False) (\<lambda>h.
               Option.bind (field ''redis_manifest_sha256'' dec_str kvs []) (\<lambda>rm.
               Option.bind (field ''preparation_sha256'' dec_str kvs []) (\<lambda>pr.
               Some \<lparr>ra_state = s, ra_point = p, ra_digest = d, ra_restored = dr, ra_http = h,
                 ra_redis = rm, ra_prep = pr\<rparr>))))))))"

definition validate :: "rauthority \<Rightarrow> string \<Rightarrow> err + unit" where
  "validate a inst =
     (let st = ra_state a in
      if rs_schema st \<noteq> 1 \<or> rs_instance st \<noteq> inst \<or> \<not> hex32_ok (rs_host st) \<or>
         \<not> hex32_ok (rs_epoch st) \<or> rs_minimum st \<noteq> MinimumProtocol
      then Inl (Msg ''invalid recovery authority identity'')
      else if rs_phase st = ''ready'' \<and>
         (rs_tx st \<noteq> None \<or> ra_point a \<noteq> [] \<or> ra_restored a \<or> ra_http a)
      then Inl (Msg ''invalid initial recovery state'')
      else if rs_phase st \<in> {''restoring'', ''validating'', ''http_ready''} \<and>
         ((case rs_tx st of None \<Rightarrow> True | Some t \<Rightarrow> \<not> identifier_ok t) \<or> \<not> point_id_ok (ra_point a) \<or>
          \<not> hex64_ok (ra_digest a))
      then Inl (Msg ''invalid recovery transaction state'')
      else if rs_phase st \<in> {''restoring'', ''validating'', ''http_ready''} \<and>
         ((rs_phase st \<noteq> ''restoring'') \<noteq> ra_restored a \<or> (rs_phase st = ''http_ready'') \<noteq> ra_http a)
      then Inl (Msg ''inconsistent recovery boundary'')
      else if rs_phase st \<notin> {''ready'', ''restoring'', ''validating'', ''http_ready''}
      then Inl (Msg ''unknown recovery phase'')
      else if ra_redis a \<noteq> [] \<and> \<not> hex64_ok (ra_redis a)
      then Inl (Msg ''invalid quarantine manifest'')
      else if ra_prep a \<noteq> [] \<and> \<not> hex64_ok (ra_prep a)
      then Inl (Msg ''invalid Core preparation proof'')
      else Inr ())"

section \<open>Files\<close>

record rcstore =
  rc_dir :: "path option"

definition control_dir :: "path \<Rightarrow> string \<Rightarrow> path" where
  "control_dir d inst = d @ [''recovery-control'', inst]"

definition PublicDir :: "path \<Rightarrow> string \<Rightarrow> path" where
  "PublicDir d inst = d @ [''recovery-control'', inst, ''public'']"

definition authority_path :: "path \<Rightarrow> string \<Rightarrow> path" where
  "authority_path d inst = control_dir d inst @ [''authority.json'']"

definition floor_path :: "path \<Rightarrow> path" where
  "floor_path d = d @ [''minimum-updater-protocol'']"

definition initialized_path :: "path \<Rightarrow> string \<Rightarrow> path" where
  "initialized_path d inst = control_dir d inst @ [''initialized'']"

definition public_path :: "path \<Rightarrow> string \<Rightarrow> path" where
  "public_path d inst = PublicDir d inst @ [''state.json'']"

definition checkpoint_path :: "path \<Rightarrow> string \<Rightarrow> string \<Rightarrow> path" where
  "checkpoint_path d inst tx = control_dir d inst @ [''checkpoints'', tx @ ''.json'']"

definition located :: "rcstore \<Rightarrow> string \<Rightarrow> err + path" where
  "located st inst = (case rc_dir st of
       None \<Rightarrow> Inl (Msg ''invalid recovery control location'')
     | Some d \<Rightarrow> if inst \<noteq> ''primary'' then Inl (Msg ''invalid recovery control location'') else Inr d)"

definition randomID :: "string io" where
  "randomID = bindE (read_random 16) (\<lambda>bs. retE (hex_encode bs))"

definition syncDir :: "path \<Rightarrow> unit io" where
  "syncDir d = bindE (open_path d) (\<lambda>_. deferE (sync_entries d) (close_file d))"

definition directory :: "path \<Rightarrow> nat \<Rightarrow> unit io" where
  "directory p m =
     bindE (tryE (mkdir p m)) (\<lambda>r.
     bindE (case r of Inl e \<Rightarrow> if \<not> err_is ErrExist e then failE e else retE () | Inr _ \<Rightarrow> retE ()) (\<lambda>_.
     bindE (lstat p) (\<lambda>i.
     if i_kind i \<noteq> KDir then failE (Msg ''unsafe recovery directory'')
     else bindE (if m = 493 then chmod p m else retE ()) (\<lambda>_. syncDir (butlast p)))))"

definition atomic_stage :: "path \<Rightarrow> content \<Rightarrow> nat \<Rightarrow> unit io" where
  "atomic_stage t c m =
     bindE (tryE (bindE (chmod t m) (\<lambda>_. bindE (write_data t c) (\<lambda>_. fsync t)))) (\<lambda>r.
     bindE (tryE (close_file t)) (\<lambda>k.
     case join_errs [err_of r, err_of k] of None \<Rightarrow> retE () | Some e \<Rightarrow> failE e))"

definition atomic :: "path \<Rightarrow> content \<Rightarrow> nat \<Rightarrow> unit io" where
  "atomic p c m =
     bindE (tryE (lstat p)) (\<lambda>r.
     bindE (case r of
         Inr i \<Rightarrow> if i_kind i \<noteq> KRegular then failE (Msg ''unsafe recovery state destination'') else retE ()
       | Inl e \<Rightarrow> if \<not> err_is ErrNotExist e then failE e else retE ()) (\<lambda>_.
     bindE (create_temp (butlast p) ''.recovery-state-'') (\<lambda>t.
     deferE (bindE (atomic_stage t c m) (\<lambda>_. bindE (rename t p) (\<lambda>_. syncDir (butlast p)))) (remove t))))"

section \<open>Reading and checking\<close>

definition CheckProtocol :: "path \<Rightarrow> int \<Rightarrow> unit io" where
  "CheckProtocol d protocol =
     bindE (tryE (lstat (floor_path d))) (\<lambda>r. case r of
       Inl e \<Rightarrow> if err_is ErrNotExist e then retE () else failE e
     | Inr i \<Rightarrow>
         if i_kind i \<noteq> KRegular \<or> i_size i < 1 \<or> i_size i > 24
         then failE (Msg ''invalid host updater protocol floor'')
         else bindE (read_file (floor_path d)) (\<lambda>c.
           case (case c of Text s \<Rightarrow> parse_uint (trim s) | Json _ \<Rightarrow> None) of
             None \<Rightarrow> failE (Msg ''invalid host updater protocol floor'')
           | Some minimum \<Rightarrow>
               if int minimum < MinimumProtocol then failE (Msg ''invalid host updater protocol floor'')
               else if protocol < int minimum
               then failE (Msg ''host recovery state requires a newer updater protocol; downgrade refused'')
               else retE ()))"

definition rcRead :: "rcstore \<Rightarrow> string \<Rightarrow> rauthority io" where
  "rcRead st inst =
     bindE (liftE (located st inst)) (\<lambda>d.
     bindE (lstat (authority_path d inst)) (\<lambda>i.
     if i_kind i \<noteq> KRegular \<or> i_size i > 16384 \<or> i_perm i AND 63 \<noteq> 0
     then failE (Msg ''unsafe recovery authority file'')
     else bindE (read_file (authority_path d inst)) (\<lambda>c.
       case (case c of Json j \<Rightarrow> rauthority_of_json j | Text _ \<Rightarrow> None) of
         None \<Rightarrow> failE (Msg ''invalid recovery authority'')
       | Some a \<Rightarrow> bindE (liftE (validate a inst)) (\<lambda>_. retE a))))"

section \<open>Changing the authority\<close>

definition initial_authority :: "string \<Rightarrow> string \<Rightarrow> string \<Rightarrow> rauthority" where
  "initial_authority inst host epoch = zero_rauthority\<lparr>ra_state := \<lparr>rs_schema = 1, rs_instance = inst,
     rs_host = host, rs_epoch = epoch, rs_tx = None, rs_phase = ''ready'', rs_minimum = MinimumProtocol\<rparr>\<rparr>"

definition floor_text :: string where
  "floor_text = ''5'' @ [CHR 0x0A]"

definition initialize_authority :: "path \<Rightarrow> string \<Rightarrow> rauthority io" where
  "initialize_authority d inst =
     bindE (tryE (lstat (initialized_path d inst))) (\<lambda>r.
     if \<not> not_exist r then failE (Msg ''recovery authority is missing after initialization'')
     else bindE randomID (\<lambda>host. bindE randomID (\<lambda>epoch.
          bindE (atomic (floor_path d) (Text floor_text) 384) (\<lambda>_.
          bindE (atomic (initialized_path d inst) (Text (''1'' @ [CHR 0x0A])) 384) (\<lambda>_.
          retE (initial_authority inst host epoch))))))"

definition commit :: "path \<Rightarrow> string \<Rightarrow> rauthority \<Rightarrow> rauthority io" where
  "commit d inst a =
     bindE (directory (PublicDir d inst) 493) (\<lambda>_.
     bindE (atomic (floor_path d) (Text floor_text) 384) (\<lambda>_.
     bindE (atomic (authority_path d inst) (Json (rauthority_to_json a)) 384) (\<lambda>_.
     bindE (atomic (public_path d inst) (Json (rstate_to_json (ra_state a))) 420) (\<lambda>_. retE a))))"

definition change_locked :: "rcstore \<Rightarrow> path \<Rightarrow> string \<Rightarrow> bool \<Rightarrow> (rauthority \<Rightarrow> rauthority io) \<Rightarrow> rauthority io" where
  "change_locked st d inst init mutate =
     bindE (tryE (rcRead st inst)) (\<lambda>r.
     bindE (case r of
         Inr a \<Rightarrow> retE a
       | Inl e \<Rightarrow> if err_is ErrNotExist e \<and> init then initialize_authority d inst else failE e) (\<lambda>a.
     bindE (mutate a) (\<lambda>a'.
     bindE (liftE (validate a' inst)) (\<lambda>_. commit d inst a'))))"

definition control_lock :: "path \<Rightarrow> string \<Rightarrow> path" where
  "control_lock d inst = control_dir d inst @ [''control.lock'']"

definition change :: "rcstore \<Rightarrow> string \<Rightarrow> bool \<Rightarrow> (rauthority \<Rightarrow> rauthority io) \<Rightarrow> rauthority io" where
  "change st inst init mutate =
     bindE (liftE (located st inst)) (\<lambda>d.
     bindE (CheckProtocol d MinimumProtocol) (\<lambda>_.
     bindE (forE (\<lambda>p. directory p 448) [d, d @ [''recovery-control''], control_dir d inst]) (\<lambda>_.
     bindE (open_create (control_lock d inst) 384) (\<lambda>_.
     deferE
       (bindE (flock (control_lock d inst)) (\<lambda>_.
        deferE (change_locked st d inst init mutate) (funlock (control_lock d inst))))
       (close_file (control_lock d inst))))))"

definition rcInitialize :: "rcstore \<Rightarrow> string \<Rightarrow> rauthority io" where
  "rcInitialize st inst = change st inst True retE"

definition begin_fields :: "string \<Rightarrow> string \<Rightarrow> string \<Rightarrow> string \<Rightarrow> rauthority \<Rightarrow> rauthority" where
  "begin_fields epoch point tx digest a =
     a\<lparr>ra_state := (ra_state a)\<lparr>rs_epoch := epoch, rs_tx := Some tx, rs_phase := ''restoring''\<rparr>,
       ra_point := point, ra_digest := digest, ra_restored := False, ra_http := False,
       ra_redis := [], ra_prep := []\<rparr>"

definition begin_mutate :: "string \<Rightarrow> string \<Rightarrow> string \<Rightarrow> rauthority \<Rightarrow> rauthority io" where
  "begin_mutate point tx digest a =
     (if rs_tx (ra_state a) = Some tx then
        (if ra_point a \<noteq> point \<or> ra_digest a \<noteq> digest
         then failE (Msg ''recovery transaction identity conflict'') else retE a)
      else bindE randomID (\<lambda>epoch. retE (begin_fields epoch point tx digest a)))"

definition rcBegin :: "rcstore \<Rightarrow> string \<Rightarrow> string \<Rightarrow> string \<Rightarrow> string \<Rightarrow> rauthority io" where
  "rcBegin st inst point tx digest =
     (if \<not> point_id_ok point \<or> \<not> identifier_ok tx \<or> \<not> hex64_ok digest
      then failE (Msg ''invalid recovery transaction identity'')
      else change st inst True (begin_mutate point tx digest))"

definition restored_mutate :: "string \<Rightarrow> rauthority \<Rightarrow> rauthority io" where
  "restored_mutate tx a =
     (if rs_tx (ra_state a) \<noteq> Some tx \<or> rs_phase (ra_state a) \<noteq> ''restoring''
      then failE (Msg ''recovery completion identity conflict'')
      else retE (a\<lparr>ra_restored := True, ra_state := (ra_state a)\<lparr>rs_phase := ''validating''\<rparr>\<rparr>))"

definition Restored :: "rcstore \<Rightarrow> string \<Rightarrow> string \<Rightarrow> rauthority io" where
  "Restored st inst tx = change st inst False (restored_mutate tx)"

definition open_mutate :: "string \<Rightarrow> rauthority \<Rightarrow> rauthority io" where
  "open_mutate tx a =
     (if rs_tx (ra_state a) \<noteq> Some tx \<or> \<not> ra_restored a \<or> ra_redis a = [] \<or> ra_prep a = [] \<or>
         (rs_phase (ra_state a) \<noteq> ''validating'' \<and> rs_phase (ra_state a) \<noteq> ''http_ready'')
      then failE (Msg ''recovery HTTP boundary identity conflict'')
      else retE (a\<lparr>ra_http := True, ra_state := (ra_state a)\<lparr>rs_phase := ''http_ready''\<rparr>\<rparr>))"

definition OpenHTTP :: "rcstore \<Rightarrow> string \<Rightarrow> string \<Rightarrow> rauthority io" where
  "OpenHTTP st inst tx = change st inst False (open_mutate tx)"

definition preparation_mutate :: "string \<Rightarrow> string \<Rightarrow> rauthority \<Rightarrow> rauthority io" where
  "preparation_mutate tx digest a =
     (if rs_tx (ra_state a) \<noteq> Some tx \<or> rs_phase (ra_state a) \<noteq> ''validating''
      then failE (Msg ''Core preparation transaction mismatch'')
      else if ra_prep a \<noteq> [] \<and> ra_prep a \<noteq> digest
      then failE (Msg ''Core preparation report changed'')
      else retE (a\<lparr>ra_prep := digest\<rparr>))"

definition RecordPreparation :: "rcstore \<Rightarrow> string \<Rightarrow> string \<Rightarrow> string \<Rightarrow> rauthority io" where
  "RecordPreparation st inst tx digest =
     (if \<not> hex64_ok digest then failE (Msg ''invalid Core preparation digest'')
      else change st inst False (preparation_mutate tx digest))"

definition redis_mutate :: "string \<Rightarrow> string \<Rightarrow> rauthority \<Rightarrow> rauthority io" where
  "redis_mutate tx digest a =
     (if rs_tx (ra_state a) \<noteq> Some tx \<or> rs_phase (ra_state a) \<noteq> ''validating''
      then failE (Msg ''Redis quarantine transaction mismatch'')
      else if ra_redis a \<noteq> [] \<and> ra_redis a \<noteq> digest
      then failE (Msg ''Redis quarantine manifest changed'')
      else retE (a\<lparr>ra_redis := digest\<rparr>))"

definition RecordRedisManifest :: "rcstore \<Rightarrow> string \<Rightarrow> string \<Rightarrow> string \<Rightarrow> rauthority io" where
  "RecordRedisManifest st inst tx digest =
     (if \<not> hex64_ok digest then failE (Msg ''invalid Redis quarantine digest'')
      else change st inst False (redis_mutate tx digest))"

section \<open>Checkpoints\<close>

record checkpoint =
  cp_schema :: int
  cp_point :: string
  cp_tx :: string
  cp_digest :: string

definition checkpoint_to_json :: "checkpoint \<Rightarrow> json" where
  "checkpoint_to_json c = JObj [(''schema_version'', JNum (cp_schema c)), (''point_id'', JStr (cp_point c)),
     (''transaction_id'', JStr (cp_tx c)), (''admin_digest'', JStr (cp_digest c))]"

text \<open>\<open>json.Unmarshal\<close>: unknown keys are ignored.\<close>

definition checkpoint_of_json :: "json \<Rightarrow> checkpoint option" where
  "checkpoint_of_json j =
     (case members j of None \<Rightarrow> None
      | Some kvs \<Rightarrow>
          Option.bind (field ''schema_version'' dec_int64 kvs 0) (\<lambda>sv.
          Option.bind (field ''point_id'' dec_str kvs []) (\<lambda>p.
          Option.bind (field ''transaction_id'' dec_str kvs []) (\<lambda>t.
          Option.bind (field ''admin_digest'' dec_str kvs []) (\<lambda>d.
          Some \<lparr>cp_schema = sv, cp_point = p, cp_tx = t, cp_digest = d\<rparr>)))))"

definition rcCheckpoint :: "rcstore \<Rightarrow> string \<Rightarrow> string \<Rightarrow> string \<Rightarrow> checkpoint io" where
  "rcCheckpoint st inst point tx =
     (if inst \<noteq> ''primary'' \<or> \<not> point_id_ok point \<or> \<not> identifier_ok tx
      then failE (Msg ''invalid recovery checkpoint identity'')
      else bindE (liftE (located st inst)) (\<lambda>d.
           bindE (lstat (checkpoint_path d inst tx)) (\<lambda>i.
           if i_kind i \<noteq> KRegular \<or> i_size i > 2048 \<or> i_perm i AND 63 \<noteq> 0
           then failE (Msg ''unsafe recovery checkpoint'')
           else bindE (read_file (checkpoint_path d inst tx)) (\<lambda>c.
             case (case c of Json j \<Rightarrow> checkpoint_of_json j | Text _ \<Rightarrow> None) of
               None \<Rightarrow> failE (Msg ''recovery checkpoint identity mismatch'')
             | Some k \<Rightarrow>
                 if cp_schema k \<noteq> 1 \<or> cp_point k \<noteq> point \<or> cp_tx k \<noteq> tx \<or> \<not> hex64_ok (cp_digest k)
                 then failE (Msg ''recovery checkpoint identity mismatch'') else retE k))))"

definition write_checkpoint :: "rcstore \<Rightarrow> string \<Rightarrow> string \<Rightarrow> string \<Rightarrow> string \<Rightarrow> unit io" where
  "write_checkpoint st inst point tx digest =
     bindE (liftE (located st inst)) (\<lambda>d.
     bindE (directory (control_dir d inst @ [''checkpoints'']) 448) (\<lambda>_.
     atomic (checkpoint_path d inst tx)
       (Json (checkpoint_to_json \<lparr>cp_schema = 1, cp_point = point, cp_tx = tx, cp_digest = digest\<rparr>)) 384))"

definition checkpoint_mutate :: "rcstore \<Rightarrow> string \<Rightarrow> string \<Rightarrow> string \<Rightarrow> string \<Rightarrow> rauthority \<Rightarrow> rauthority io" where
  "checkpoint_mutate st inst point tx digest a =
     (if rs_phase (ra_state a) \<noteq> ''ready'' then failE (Msg ''checkpoint requires a ready source'')
      else bindE (tryE (rcCheckpoint st inst point tx)) (\<lambda>r. case r of
        Inr k \<Rightarrow> if cp_digest k \<noteq> digest then failE (Msg ''frozen administrator digest changed'') else retE a
      | Inl e \<Rightarrow>
          if \<not> err_is ErrNotExist e then failE e
          else bindE (write_checkpoint st inst point tx digest) (\<lambda>_. retE a)))"

definition CaptureCheckpoint :: "rcstore \<Rightarrow> string \<Rightarrow> string \<Rightarrow> string \<Rightarrow> string \<Rightarrow> unit io" where
  "CaptureCheckpoint st inst point tx digest =
     (if \<not> point_id_ok point \<or> \<not> identifier_ok tx \<or> \<not> hex64_ok digest
      then failE (Msg ''invalid recovery checkpoint identity'')
      else bindE (change st inst True (checkpoint_mutate st inst point tx digest)) (\<lambda>_. retE ()))"


section \<open>Encoding and decoding\<close>

lemmas rc_json_eval = lower_char_def is_upper_def code_def

definition rauthority_in_range :: "rauthority \<Rightarrow> bool" where
  "rauthority_in_range a \<longleftrightarrow> - (2 ^ 63) \<le> rs_schema (ra_state a) \<and> rs_schema (ra_state a) < 2 ^ 63 \<and>
     0 \<le> rs_minimum (ra_state a) \<and> rs_minimum (ra_state a) < 2 ^ 64"

lemma rstate_roundtrip:
  assumes "- (2 ^ 63) \<le> rs_schema s" "rs_schema s < 2 ^ 63" "0 \<le> rs_minimum s" "rs_minimum s < 2 ^ 64"
  shows "dec_rstate (rstate_to_json s) x = Some s"
  using assms
  by (auto simp: dec_rstate_def rstate_to_json_def rc_json_eval dec_int64_num dec_uint64_num split: option.splits)

lemma rauthority_roundtrip:
  assumes "rauthority_in_range a"
  shows "rauthority_of_json (rauthority_to_json a) = Some a"
  using assms
  by (auto simp: rauthority_of_json_def rauthority_to_json_def rc_json_eval rauthority_in_range_def
      rstate_roundtrip)

lemma checkpoint_roundtrip:
  assumes "- (2 ^ 63) \<le> cp_schema c" "cp_schema c < 2 ^ 63"
  shows "checkpoint_of_json (checkpoint_to_json c) = Some c"
  using assms
  by (auto simp: checkpoint_of_json_def checkpoint_to_json_def rc_json_eval dec_int64_num)

end
