(* ===== verification/Totp.thy ===== *)
theory Totp
  imports GoText "HOL-Library.Word"
begin

text \<open>
  The one-time codes of \<open>internal/authorization\<close>: base32 without padding
  (\<open>encoding/base32\<close>), the secrets derived for each scope and the six-digit code of a
  counter. HMAC-SHA1 and HMAC-SHA256 are parameters: what the code relies on is that their
  digests have 20 and 32 bytes.
\<close>

type_synonym hmac = "8 word list \<Rightarrow> 8 word list \<Rightarrow> 8 word list"

section \<open>Digits in a base\<close>

definition undigits :: "nat \<Rightarrow> nat list \<Rightarrow> nat" where
  "undigits b ds = foldl (\<lambda>a d. b * a + d) 0 ds"

fun digits :: "nat \<Rightarrow> nat \<Rightarrow> nat \<Rightarrow> nat list" where
  "digits b 0 v = []"
| "digits b (Suc k) v = digits b k (v div b) @ [v mod b]"

lemma digits_length [simp]: "length (digits b k v) = k"
  by (induction k arbitrary: v) simp_all

lemma undigits_snoc [simp]: "undigits b (ds @ [d]) = b * undigits b ds + d"
  by (simp add: undigits_def)

lemma undigits_digits: "v < b ^ k \<Longrightarrow> undigits b (digits b k v) = v"
proof (induction k arbitrary: v)
  case 0
  then show ?case by (simp add: undigits_def)
next
  case (Suc k)
  then have "v div b < b ^ k" by (simp add: less_mult_imp_div_less mult.commute)
  with Suc show ?case by simp
qed

lemma digits_less: "0 < b \<Longrightarrow> d \<in> set (digits b k v) \<Longrightarrow> d < b"
  by (induction k arbitrary: v) auto

lemma undigits_less: "\<forall>d \<in> set ds. d < b \<Longrightarrow> undigits b ds < b ^ length ds"
proof (induction ds rule: rev_induct)
  case Nil
  then show ?case by (simp add: undigits_def)
next
  case (snoc d ds)
  then have "undigits b ds + 1 \<le> b ^ length ds" and "d < b" by auto
  then have "b * undigits b ds + d < b * (undigits b ds + 1)" by simp
  also have "\<dots> \<le> b * b ^ length ds" using \<open>undigits b ds + 1 \<le> _\<close> by (rule mult_le_mono2)
  finally show ?case by simp
qed

lemma digits_undigits: "\<forall>d \<in> set ds. d < b \<Longrightarrow> digits b (length ds) (undigits b ds) = ds"
proof (induction ds rule: rev_induct)
  case (snoc d ds)
  then show ?case by auto
qed simp

section \<open>Base32\<close>

text \<open>The alphabet \<open>A-Z2-7\<close>.\<close>

definition b32_char :: "nat \<Rightarrow> char" where
  "b32_char n = (if n < 26 then char_of (65 + n) else char_of (24 + n))"

definition b32_val :: "char \<Rightarrow> nat option" where
  "b32_val c = (if is_upper c then Some (code c - 65)
                else if 50 \<le> code c \<and> code c \<le> 55 then Some (code c - 24) else None)"

text \<open>\<open>^[A-Z2-7]{32}$\<close>\<close>

definition secret_ok :: "string \<Rightarrow> bool" where
  "secret_ok = shape (replicate 32 (\<lambda>c. b32_val c \<noteq> None))"

text \<open>A group of five bytes is eight characters; a last group of fewer bytes is padded with
  zero bits and cut.\<close>

definition b32_group :: "nat list \<Rightarrow> string" where
  "b32_group bs = take ((8 * length bs + 4) div 5)
     (map b32_char (digits 32 8 (undigits 256 (bs @ replicate (5 - length bs) 0))))"

function groups :: "nat \<Rightarrow> 'a list \<Rightarrow> 'a list list" where
  "groups n xs = (if n = 0 \<or> xs = [] then [] else take n xs # groups n (drop n xs))"
  by auto
termination
  by (relation "measure (\<lambda>(n, xs). length xs)") auto

declare groups.simps [simp del]

definition b32_encode :: "8 word list \<Rightarrow> string" where
  "b32_encode bs = concat (map b32_group (groups 5 (map unat bs)))"

text \<open>Decoding a group: a last group of 2, 4, 5 or 7 characters gives 1 to 4 bytes, any other
  incomplete group none.\<close>

definition b32_bytes :: "nat \<Rightarrow> nat" where
  "b32_bytes k = (if k = 8 then 5 else if k = 7 then 4 else if k = 5 then 3 else if k = 4 then 2
                  else if k = 2 then 1 else 0)"

fun b32_vals :: "string \<Rightarrow> nat list option" where
  "b32_vals [] = Some []"
| "b32_vals (c # cs) = (case b32_val c of None \<Rightarrow> None | Some v \<Rightarrow> map_option ((#) v) (b32_vals cs))"

definition b32_ungroup :: "nat list \<Rightarrow> nat list" where
  "b32_ungroup vs = take (b32_bytes (length vs))
     (digits 256 5 (undigits 32 (vs @ replicate (8 - length vs) 0)))"

definition b32_decode :: "string \<Rightarrow> 8 word list option" where
  "b32_decode s = map_option (\<lambda>vs. map of_nat (concat (map b32_ungroup (groups 8 vs)))) (b32_vals s)"

lemma b32_val_char [simp]: "n < 32 \<Longrightarrow> b32_val (b32_char n) = Some n"
  by (auto simp: b32_val_def b32_char_def is_upper_def code_def)

lemma b32_vals_append:
  "b32_vals (s @ t) = (case b32_vals s of None \<Rightarrow> None | Some vs \<Rightarrow> map_option ((@) vs) (b32_vals t))"
  by (induction s; cases "b32_vals t") (auto split: option.splits)

lemma b32_vals_map [simp]: "\<forall>v \<in> set vs. v < 32 \<Longrightarrow> b32_vals (map b32_char vs) = Some vs"
  by (induction vs) simp_all

lemma b32_vals_length: "b32_vals s = Some vs \<Longrightarrow> length vs = length s"
  by (induction s arbitrary: vs) (auto split: option.splits)

lemma b32_vals_total: "list_all (\<lambda>c. b32_val c \<noteq> None) s \<Longrightarrow> \<exists>vs. b32_vals s = Some vs"
  by (induction s) auto

lemma groups_Nil [simp]: "groups n [] = []"
  by (simp add: groups.simps)

lemma groups_append: "length xs = n \<Longrightarrow> 0 < n \<Longrightarrow> groups n (xs @ ys) = xs # groups n ys"
  by (subst groups.simps) auto

text \<open>Encoding then decoding whole groups.\<close>

lemma group_roundtrip:
  assumes "length bs = 5" and "\<forall>b \<in> set bs. b < 256"
  shows "b32_vals (b32_group bs) = Some (digits 32 8 (undigits 256 bs)) \<and>
    b32_ungroup (digits 32 8 (undigits 256 bs)) = bs"
proof -
  have "undigits 256 bs < 256 ^ 5" using undigits_less[OF assms(2)] assms(1) by simp
  then have v: "undigits 256 bs < 32 ^ 8" by simp
  have "\<forall>v \<in> set (digits 32 8 (undigits 256 bs)). v < 32"
    using digits_less[of 32] by auto
  moreover have "b32_group bs = map b32_char (digits 32 8 (undigits 256 bs))"
    using assms(1) by (simp add: b32_group_def)
  moreover have "digits 256 5 (undigits 256 bs) = bs"
    using digits_undigits[OF assms(2)] assms(1) by simp
  ultimately show ?thesis
    using v assms(1) by (simp add: b32_ungroup_def b32_bytes_def undigits_digits)
qed

lemma groups_roundtrip:
  assumes "length bs = 5 * k" and "\<forall>b \<in> set bs. b < 256"
  shows "\<exists>vs. b32_vals (concat (map b32_group (groups 5 bs))) = Some vs \<and>
    length vs = 8 * k \<and> concat (map b32_ungroup (groups 8 vs)) = bs"
  using assms
proof (induction k arbitrary: bs)
  case 0
  then show ?case by simp
next
  case (Suc k)
  let ?x = "take 5 bs" and ?y = "drop 5 bs"
  have len: "length ?x = 5" "length ?y = 5 * k" using Suc.prems(1) by simp_all
  have "set ?y \<subseteq> set bs" "set ?x \<subseteq> set bs" by (simp_all add: set_drop_subset set_take_subset)
  with Suc.prems(2) have "\<forall>b \<in> set ?y. b < 256" and xs: "\<forall>b \<in> set ?x. b < 256" by auto
  with Suc.IH[OF len(2)] obtain vs where vs: "b32_vals (concat (map b32_group (groups 5 ?y))) = Some vs"
    "length vs = 8 * k" "concat (map b32_ungroup (groups 8 vs)) = ?y" by auto
  let ?d = "digits 32 8 (undigits 256 ?x)"
  have g: "groups 5 bs = ?x # groups 5 ?y"
    using groups_append[OF len(1), of ?y] by simp
  have g': "groups 8 (?d @ vs) = ?d # groups 8 vs"
    by (rule groups_append) simp_all
  have "b32_vals (concat (map b32_group (groups 5 bs))) = Some (?d @ vs)"
    using group_roundtrip[OF len(1) xs] vs(1) g by (simp add: b32_vals_append)
  moreover have "concat (map b32_ungroup (groups 8 (?d @ vs))) = bs"
    unfolding g' using group_roundtrip[OF len(1) xs] vs(3) by simp
  moreover have "length (?d @ vs) = 8 * Suc k" using vs(2) by simp
  ultimately show ?case by blast
qed

text \<open>base32 decoding gives back the bytes encoded, for whole groups of five bytes, which
  every secret the program writes consists of.\<close>

theorem b32_roundtrip:
  assumes "length bs mod 5 = 0"
  shows "b32_decode (b32_encode bs) = Some bs"
proof -
  have b: "\<forall>b \<in> set (map unat bs). b < 256"
  proof
    fix b assume "b \<in> set (map unat bs)"
    then obtain x :: "8 word" where "b = unat x" by auto
    then show "b < 256" using unsigned_less[of x, where 'a = nat] by simp
  qed
  from assms have "length (map unat bs) = 5 * (length bs div 5)" by auto
  from groups_roundtrip[OF this b] obtain vs where
    "b32_vals (b32_encode bs) = Some vs" "concat (map b32_ungroup (groups 8 vs)) = map unat bs"
    by (auto simp: b32_encode_def)
  then show ?thesis by (simp add: b32_decode_def comp_def)
qed

lemma b32_char_ok: "n < 32 \<Longrightarrow> b32_val (b32_char n) \<noteq> None"
  by simp

lemma b32_group_ok: "list_all (\<lambda>c. b32_val c \<noteq> None) (b32_group bs)"
proof -
  have "\<forall>d \<in> set (digits 32 8 v). d < 32" for v using digits_less[of 32] by auto
  then show ?thesis by (auto simp: b32_group_def list_all_iff dest!: in_set_takeD)
qed

lemma b32_encode_length: "length bs = 5 * k \<Longrightarrow> length (concat (map b32_group (groups 5 bs))) = 8 * k"
proof (induction k arbitrary: bs)
  case (Suc k)
  let ?x = "take 5 bs" and ?y = "drop 5 bs"
  have "groups 5 (?x @ ?y) = ?x # groups 5 ?y" by (rule groups_append) (use Suc.prems in simp_all)
  then have "groups 5 bs = ?x # groups 5 ?y" by simp
  moreover have "length (b32_group ?x) = 8" using Suc.prems by (simp add: b32_group_def)
  ultimately show ?case using Suc.IH[of ?y] Suc.prems by simp
qed simp

lemma b32_encode_ok: "length bs = 20 \<Longrightarrow> secret_ok (b32_encode bs)"
proof -
  assume len: "length bs = 20"
  have "list_all (\<lambda>c. b32_val c \<noteq> None) (concat (map b32_group gs))" for gs
    by (induction gs) (simp_all add: b32_group_ok [simplified])
  then show ?thesis
    using b32_encode_length[of "map unat bs" 4] len
    by (simp add: secret_ok_def shape_replicate b32_encode_def)
qed

section \<open>Scopes, secrets and codes\<close>

datatype mutation_scope = ScopeUpdate | ScopeBackup | ScopeRollback | OtherScope string

definition scopes :: "mutation_scope list" where
  "scopes = [ScopeUpdate, ScopeBackup, ScopeRollback]"

fun scope_name :: "mutation_scope \<Rightarrow> string" where
  "scope_name ScopeUpdate = ''update''"
| "scope_name ScopeBackup = ''backup''"
| "scope_name ScopeRollback = ''rollback''"
| "scope_name (OtherScope s) = s"

definition validScope :: "mutation_scope \<Rightarrow> bool" where
  "validScope s \<longleftrightarrow> s = ScopeUpdate \<or> s = ScopeBackup \<or> s = ScopeRollback"

definition str_bytes :: "string \<Rightarrow> 8 word list" where
  "str_bytes s = map (\<lambda>c. of_nat (code c)) s"

definition deriveSecret :: "hmac \<Rightarrow> string \<Rightarrow> mutation_scope \<Rightarrow> err + string" where
  "deriveSecret hmac256 master s =
     (if \<not> validScope s then Inl (Sentinel ErrInvalid)
      else (case b32_decode master of
              None \<Rightarrow> Inl (Msg ''illegal base32 data'')
            | Some key \<Rightarrow> Inr (b32_encode (take 20
                 (hmac256 key (str_bytes (''geoflow-updater-mutation:'' @ scope_name s)))))))"

text \<open>\<open>binary.BigEndian.PutUint64\<close>\<close>

definition be64 :: "int \<Rightarrow> 8 word list" where
  "be64 c = map (\<lambda>i. word_of_int ((c mod 2 ^ 64) div 256 ^ (7 - i))) [0..<8]"

unbundle bit_operations_syntax

definition digest_offset :: "8 word list \<Rightarrow> nat" where
  "digest_offset dg = unat (dg ! (length dg - 1) AND 0x0f)"

definition truncate_digest :: "8 word list \<Rightarrow> 32 word" where
  "truncate_digest dg =
     (let offset = digest_offset dg
      in push_bit 24 (ucast (dg ! offset) AND 0x7f) OR
         push_bit 16 (ucast (dg ! (offset + 1))) OR
         push_bit 8 (ucast (dg ! (offset + 2))) OR
         ucast (dg ! (offset + 3)))"

text \<open>A digest of 20 bytes is never read out of range.\<close>

lemma digest_offset_range: "length dg = 20 \<Longrightarrow> digest_offset dg + 3 < length dg"
proof -
  assume "length dg = 20"
  have "unat (x AND 0x0f :: 8 word) \<le> 15" for x
    using word_and_le1[of x "0x0f"] by (simp add: word_le_nat_alt)
  then have "digest_offset dg \<le> 15" by (simp add: digest_offset_def)
  with \<open>length dg = 20\<close> show ?thesis by simp
qed


definition generateCode :: "hmac \<Rightarrow> string \<Rightarrow> int \<Rightarrow> err + string" where
  "generateCode hmac1 secret counter =
     (case b32_decode secret of
        None \<Rightarrow> Inl (Msg ''illegal base32 data'')
      | Some key \<Rightarrow> Inr (pad_dec 6 (unat (truncate_digest (hmac1 key (be64 counter)) mod 1000000))))"

text \<open>\<open>^[0-9]{6}$\<close>\<close>

definition code_ok :: "string \<Rightarrow> bool" where
  "code_ok = shape (replicate 6 is_digit)"

lemma code_exists:
  assumes "secret_ok master" and "validScope s" and "\<And>k m. length (hmac256 k m) = 32"
    and "\<And>k m. length (hmac1 k m) = 20"
  shows "\<exists>secret code. deriveSecret hmac256 master s = Inr secret \<and> secret_ok secret \<and>
    generateCode hmac1 secret counter = Inr code \<and> code_ok code \<and>
    (\<forall>key. digest_offset (hmac1 key (be64 counter)) + 3 < length (hmac1 key (be64 counter)))"
proof -
  obtain vs where "b32_vals master = Some vs"
    using assms(1) b32_vals_total by (auto simp: secret_ok_def shape_replicate)
  then obtain key where "b32_decode master = Some key" by (auto simp: b32_decode_def)
  then obtain bs where d: "deriveSecret hmac256 master s = Inr (b32_encode bs)" and len: "length bs = 20"
    using assms(2,3) by (auto simp: deriveSecret_def)
  have "unat (truncate_digest x mod 1000000) < 10 ^ 6" for x
  proof -
    have "truncate_digest x mod 1000000 < 1000000"
      by (rule word_mod_less_divisor) simp
    then show ?thesis by (simp add: word_less_nat_alt)
  qed
  then have "code_ok (pad_dec 6 (unat (truncate_digest x mod 1000000)))" for x
    using pad_dec_shape[of _ 6] by (simp add: code_ok_def)
  moreover have "b32_decode (b32_encode bs) = Some bs"
  proof -
    have *: "\<forall>b \<in> set (map unat bs). b < 256"
      using unsigned_less[of "_ :: 8 word", where 'a = nat] by auto
    from groups_roundtrip[of "map unat bs" 4, OF _ *] len show ?thesis
      by (auto simp: b32_encode_def b32_decode_def comp_def)
  qed
  ultimately show ?thesis
    using d b32_encode_ok[OF len] digest_offset_range[OF assms(4)] by (simp add: generateCode_def)
qed

text \<open>a code is always exactly six decimal digits, the form \<open>authorize\<close> accepts, and the
  derived secret it comes from has the form \<open>readSecret\<close> accepts, so neither step fails on a
  well-formed master secret; the digest is never indexed out of range.\<close>

theorem code_form:
  assumes "secret_ok master" and "validScope s" and "\<And>k m. length (hmac256 k m) = 32"
    and "\<And>k m. length (hmac1 k m) = 20"
  shows "\<exists>secret code. deriveSecret hmac256 master s = Inr secret \<and> secret_ok secret \<and>
    generateCode hmac1 secret counter = Inr code \<and> code_ok code \<and>
    (\<forall>key. digest_offset (hmac1 key (be64 counter)) + 3 < length (hmac1 key (be64 counter)))"
  using assms by (rule code_exists)

section \<open>Failed attempts\<close>

record attempts =
  at_failures :: int
  at_locked :: int

definition no_attempts :: attempts where
  "no_attempts = \<lparr>at_failures = 0, at_locked = 0\<rparr>"

definition lockoutThreshold :: int where "lockoutThreshold = 5"
definition baseLockoutSeconds :: int where "baseLockoutSeconds = 15 * 60"
definition maxLockoutSeconds :: int where "maxLockoutSeconds = 24 * 60 * 60"

text \<open>The state after one more failure, and whether it is locked.\<close>

definition nextInvalidAttemptState :: "attempts \<Rightarrow> int \<Rightarrow> attempts \<times> sentinel" where
  "nextInvalidAttemptState prev now =
     (let failures = wrap64 (at_failures prev + 1)
      in if failures \<ge> lockoutThreshold then
           (let exponent = (if failures - lockoutThreshold > 16 then 16 else failures - lockoutThreshold);
                delay0 = baseLockoutSeconds * 2 ^ nat exponent;
                delay = (if delay0 > maxLockoutSeconds then maxLockoutSeconds else delay0)
            in (\<lparr>at_failures = failures, at_locked = wrap64 (now + delay)\<rparr>, ErrRateLimited))
         else (\<lparr>at_failures = failures, at_locked = 0\<rparr>, ErrInvalid))"

text \<open>What \<open>readAttemptState\<close> accepts.\<close>

definition attempts_ok :: "attempts \<Rightarrow> bool" where
  "attempts_ok a \<longleftrightarrow> 0 \<le> at_failures a \<and> at_failures a \<le> 1000000 \<and> 0 \<le> at_locked a \<and>
     (at_failures a < lockoutThreshold \<longrightarrow> at_locked a = 0)"

definition attempts_text :: "attempts \<Rightarrow> string" where
  "attempts_text a = int_dec (at_failures a) @ '' '' @ int_dec (at_locked a) @ [CHR 0x0A]"

definition parse_attempts :: "string \<Rightarrow> err + attempts" where
  "parse_attempts s =
     (case GoText.fields s of
        [f, l] \<Rightarrow>
          (case (parse_int f, parse_int l) of
             (Some failures, Some locked) \<Rightarrow>
               if failures < 0 \<or> failures > 1000000 \<or> locked < 0 \<or>
                  (failures < lockoutThreshold \<and> locked \<noteq> 0)
               then Inl (Msg ''mutation authorization attempt state is invalid'')
               else Inr \<lparr>at_failures = failures, at_locked = locked\<rparr>
           | _ \<Rightarrow> Inl (Msg ''mutation authorization attempt state is invalid''))
      | _ \<Rightarrow> Inl (Msg ''mutation authorization attempt state is invalid''))"

lemma int_dec_not_empty [simp]: "0 \<le> i \<Longrightarrow> int_dec i \<noteq> []"
  by (simp add: int_dec_def)

lemma fields_two:
  assumes "list_all (\<lambda>c. \<not> is_space c) s" "list_all (\<lambda>c. \<not> is_space c) t" "s \<noteq> []" "t \<noteq> []"
  shows "GoText.fields (s @ '' '' @ t @ [CHR 0x0A]) = [s, t]"
proof -
  have sp: "is_space CHR '' ''" "is_space CHR 0x0A" by (simp_all add: is_space_def code_def)
  have "fields_acc [] (s @ '' '' @ t @ [CHR 0x0A]) = fields_acc s ('' '' @ t @ [CHR 0x0A])"
    using fields_acc_word[OF assms(1), of "[]"] by simp
  also have "\<dots> = s # fields_acc [] (t @ [CHR 0x0A])" using sp assms(3) by simp
  also have "\<dots> = s # fields_acc t [CHR 0x0A]"
    using fields_acc_word[OF assms(2), of "[]"] by simp
  also have "\<dots> = [s, t]" using sp assms(4) by simp
  finally show ?thesis by (simp add: GoText.fields_def)
qed

lemma parse_attempts_range:
  assumes "0 \<le> at_failures a" "at_failures a < 2 ^ 63" "0 \<le> at_locked a" "at_locked a < 2 ^ 63"
  shows "parse_attempts (attempts_text a) =
    (if attempts_ok a then Inr a else Inl (Msg ''mutation authorization attempt state is invalid''))"
  using assms fields_two[of "int_dec (at_failures a)" "int_dec (at_locked a)"]
  by (auto simp: parse_attempts_def attempts_text_def int_dec_no_space parse_int_int_dec attempts_ok_def)

text \<open>the attempt state written to disk is the state read back, whenever it is within the
  limits the reader checks.\<close>

theorem attempts_roundtrip:
  assumes "attempts_ok a" and "at_locked a < 2 ^ 63"
  shows "parse_attempts (attempts_text a) = Inr a"
proof -
  have "at_failures a < 2 ^ 63" using assms(1) by (simp add: attempts_ok_def)
  with assms parse_attempts_range[of a] show ?thesis by (simp add: attempts_ok_def)
qed

lemma lockout_delay:
  assumes "0 \<le> e"
  shows "900 \<le> (if baseLockoutSeconds * 2 ^ nat e > maxLockoutSeconds then maxLockoutSeconds
            else baseLockoutSeconds * 2 ^ nat e) \<and>
    (if baseLockoutSeconds * 2 ^ nat e > maxLockoutSeconds then maxLockoutSeconds
            else baseLockoutSeconds * 2 ^ nat e) \<le> 86400"
proof -
  have "(1 :: int) \<le> 2 ^ nat e" by simp
  then show ?thesis by (auto simp: baseLockoutSeconds_def maxLockoutSeconds_def)
qed

lemma next_invalid_attempt:
  assumes "attempts_ok prev" and "0 \<le> now" and "now < 2 ^ 62"
    and "nextInvalidAttemptState prev now = (a, res)"
  shows "at_failures a = at_failures prev + 1 \<and>
    (at_failures a < 5 \<longrightarrow> at_locked a = 0 \<and> res = ErrInvalid) \<and>
    (5 \<le> at_failures a \<longrightarrow> res = ErrRateLimited \<and>
       now + 900 \<le> at_locked a \<and> at_locked a \<le> now + 86400) \<and>
    (at_failures prev < 1000000 \<longrightarrow> attempts_ok a)"
proof -
  have f: "wrap64 (at_failures prev + 1) = at_failures prev + 1"
    using assms(1) by (intro wrap64_id) (auto simp: attempts_ok_def)
  have l: "wrap64 (now + d) = now + d" if "900 \<le> d" "d \<le> 86400" for d
    using assms(2,3) that by (intro wrap64_id) auto
  let ?e = "if at_failures prev + 1 - lockoutThreshold > 16 then 16 else at_failures prev + 1 - lockoutThreshold"
  show ?thesis
  proof (cases "at_failures prev + 1 \<ge> lockoutThreshold")
    case False
    with assms f show ?thesis
      by (auto simp: nextInvalidAttemptState_def attempts_ok_def lockoutThreshold_def)
  next
    case True
    then have "0 \<le> ?e" by simp
    note d = lockout_delay[OF this]
    from assms(4) True f have "at_failures a = at_failures prev + 1" "res = ErrRateLimited" and
      "at_locked a = wrap64 (now + (if baseLockoutSeconds * 2 ^ nat ?e > maxLockoutSeconds then maxLockoutSeconds
            else baseLockoutSeconds * 2 ^ nat ?e))"
      by (auto simp: nextInvalidAttemptState_def Let_def)
    with d l have "now + 900 \<le> at_locked a \<and> at_locked a \<le> now + 86400" by simp
    with True assms(1,2) \<open>at_failures a = _\<close> \<open>res = _\<close> show ?thesis
      by (auto simp: attempts_ok_def lockoutThreshold_def)
  qed
qed

text \<open>a failed code never shortens the punishment: the failure count goes up by one, the
  first four failures do not lock, from the fifth on the state is locked for 15 minutes to 24
  hours from now, and the state stays readable below the cap of 1,000,000 failures.\<close>

theorem invalid_attempt_locks:
  assumes "attempts_ok prev" and "0 \<le> now" and "now < 2 ^ 62"
    and "nextInvalidAttemptState prev now = (a, res)"
  shows "at_failures a = at_failures prev + 1 \<and>
    (at_failures a < 5 \<longrightarrow> at_locked a = 0 \<and> res = ErrInvalid) \<and>
    (5 \<le> at_failures a \<longrightarrow> res = ErrRateLimited \<and>
       now + 900 \<le> at_locked a \<and> at_locked a \<le> now + 86400) \<and>
    (at_failures prev < 1000000 \<longrightarrow> attempts_ok a)"
  using assms by (rule next_invalid_attempt)

text \<open>C40: at the cap the writer goes one further than the reader accepts: after failure number
  1,000,001 the state on disk is unreadable, and every later authorization fails on it.\<close>

theorem attempts_cap_unreadable:
  assumes "at_failures prev = 1000000" and "0 \<le> now" and "now < 2 ^ 62"
  shows "\<exists>e. parse_attempts (attempts_text (fst (nextInvalidAttemptState prev now))) = Inl e"
proof -
  let ?a = "fst (nextInvalidAttemptState prev now)"
  have "wrap64 (now + 86400) = now + 86400" using assms(2,3) by (intro wrap64_id) auto
  moreover have "wrap64 1000001 = 1000001" by (simp add: wrap64_def)
  ultimately have a: "?a = \<lparr>at_failures = 1000001, at_locked = now + 86400\<rparr>"
    using assms(1)
    by (simp add: nextInvalidAttemptState_def Let_def lockoutThreshold_def baseLockoutSeconds_def maxLockoutSeconds_def)
  show ?thesis
    unfolding a by (subst parse_attempts_range) (use assms in \<open>simp_all add: attempts_ok_def\<close>)
qed

end
