(* ===== verification/Authorization.thy ===== *)
theory Authorization
  imports CoordStore Totp
begin

text \<open>
  \<open>internal/authorization\<close>: the files of an instance that hold the master secret, the last
  used counter of each scope and the failed attempts, and \<open>authorize\<close>, which checks a code
  under a lock and runs a callback. YAML decoding (\<open>gopkg.in/yaml.v3\<close>) and the two HMACs
  are fields of the service, as are its clock and state directory.
\<close>

unbundle bit_operations_syntax

section \<open>The instance configuration\<close>

text \<open>\<open>instance.Config\<close> of \<open>internal/instance/config.go\<close>; times are nanoseconds.\<close>

record config =
  cf_layout :: string
  cf_active_slot :: string
  cf_infra_compose :: string
  cf_infra_env :: string
  cf_schema :: int
  cf_id :: string
  cf_root :: string
  cf_compose :: string
  cf_env :: string
  cf_token :: string
  cf_release :: "64 word"
  cf_release_sha :: string
  cf_version :: string
  cf_pg_major :: string
  cf_pg_dir :: string
  cf_pg_mount :: string
  cf_redis_major :: string
  cf_enrolled :: int

text \<open>\<open>filepath.IsAbs\<close>\<close>

definition is_abs :: "string \<Rightarrow> bool" where
  "is_abs s \<longleftrightarrow> has_prefix ''/'' s"

section \<open>The service\<close>

text \<open>\<open>sv_yaml\<close> decodes the first document of a file into a configuration and says whether
  the input ends after it.\<close>

record service =
  sv_dir :: "path option"
  sv_now :: "world \<Rightarrow> int"
  sv_yaml :: "string \<Rightarrow> (err + config) \<times> bool"
  sv_hmac1 :: hmac
  sv_hmac256 :: hmac
  sv_sha :: "json \<Rightarrow> string"

definition coordination_store :: "service \<Rightarrow> store" where
  "coordination_store sv = \<lparr>st_dir = sv_dir sv, st_hook = (\<lambda>_. None), st_sync = None, st_sha = sv_sha sv\<rparr>"

definition service_dir :: "service \<Rightarrow> path" where
  "service_dir sv = (case sv_dir sv of None \<Rightarrow> [''var'', ''lib'', ''geoflow-updater''] | Some d \<Rightarrow> d)"

text \<open>The clock in seconds, \<open>service.now().Unix()\<close>.\<close>

definition unix_now :: "service \<Rightarrow> int io" where
  "unix_now sv w = (Inr (sv_now sv w), w)"

definition instance_path :: "service \<Rightarrow> string \<Rightarrow> path" where
  "instance_path sv inst = service_dir sv @ [''instances'', inst]"

definition instanceDir :: "service \<Rightarrow> string \<Rightarrow> path io" where
  "instanceDir sv inst =
     (if \<not> instance_id_ok inst then failE (Msg ''managed instance identifier is invalid'')
      else bindE (lstat (instance_path sv inst)) (\<lambda>i.
           if i_kind i \<noteq> KDir then failE (Msg ''managed instance directory is unavailable or symbolic'')
           else retE (instance_path sv inst)))"

text \<open>The text of a file. The files read here are written as text; one that holds a JSON
  document is no valid secret, counter or attempt state and reads as empty.\<close>

definition content_text :: "content \<Rightarrow> string" where
  "content_text c = (case c of Text s \<Rightarrow> s | Json _ \<Rightarrow> [])"

definition validateEnrollment :: "service \<Rightarrow> path \<Rightarrow> string \<Rightarrow> unit io" where
  "validateEnrollment sv d inst =
     bindE (lstat (d @ [''instance.yml''])) (\<lambda>i.
     if i_kind i \<noteq> KRegular \<or> i_perm i AND 23 \<noteq> 0 \<or> i_size i < 1 \<or> i_size i > 1024 * 1024
     then failE (Msg ''managed instance configuration is not a private bounded regular file'')
     else bindE (read_file (d @ [''instance.yml''])) (\<lambda>c.
     (case sv_yaml sv (content_text c) of (r, ended) \<Rightarrow>
       bindE (liftE r) (\<lambda>cf.
       if \<not> ended then failE (Msg ''managed instance configuration contains multiple documents'')
       else if cf_schema cf \<noteq> 1 \<or> cf_id cf \<noteq> inst \<or> \<not> is_abs (cf_root cf) \<or>
          \<not> is_abs (cf_compose cf) \<or> \<not> is_abs (cf_env cf) \<or> \<not> is_abs (cf_token cf) \<or>
          cf_release cf < 1 \<or> trim (cf_version cf) = [] \<or> cf_enrolled cf = zero_time
       then failE (Msg ''managed instance configuration is incomplete'')
       else retE ()))))"

section \<open>Private files\<close>

definition auth_sync :: "path \<Rightarrow> unit io" where
  "auth_sync d = bindE (open_path d) (\<lambda>_. deferE (sync_entries d) (close_file d))"

definition replacePrivateFile :: "path \<Rightarrow> string \<Rightarrow> unit io" where
  "replacePrivateFile p contents =
     bindE (create_temp (butlast p) ''.mutation-state-'') (\<lambda>t.
     deferE
       (bindE (chmod t 384) (\<lambda>_.
        bindE (write_data t (Text contents)) (\<lambda>_.
        bindE (fsync t) (\<lambda>_.
        bindE (close_file t) (\<lambda>_.
        bindE (rename t p) (\<lambda>_. auth_sync (butlast p)))))))
       (bindE (ignoreE (close_file t)) (\<lambda>_. remove t)))"

definition readSecret :: "path \<Rightarrow> string io" where
  "readSecret p =
     bindE (lstat p) (\<lambda>i.
     if i_kind i \<noteq> KRegular \<or> i_perm i \<noteq> 384 \<or> i_size i < 1 \<or> i_size i > 128
     then failE (Msg ''mutation authorization secret is not a private bounded regular file'')
     else bindE (read_file p) (\<lambda>c.
     let secret = trim (content_text c)
     in if \<not> secret_ok secret then failE (Msg ''mutation authorization secret format is invalid'')
        else retE secret))"

definition counter_of_text :: "string \<Rightarrow> err + int" where
  "counter_of_text s = (case parse_int (trim s) of
       None \<Rightarrow> Inl (Msg ''mutation authorization counter is invalid'')
     | Some c \<Rightarrow> if c < 0 then Inl (Msg ''mutation authorization counter is invalid'') else Inr c)"

definition readCounter :: "path \<Rightarrow> int io" where
  "readCounter p =
     bindE (tryE (lstat p)) (\<lambda>r. case r of
       Inl e \<Rightarrow> if err_is ErrNotExist e then retE (-1) else failE e
     | Inr i \<Rightarrow>
         if i_kind i \<noteq> KRegular \<or> i_perm i \<noteq> 384 \<or> i_size i < 1 \<or> i_size i > 32
         then failE (Msg ''mutation authorization counter is invalid'')
         else bindE (read_file p) (\<lambda>c. liftE (counter_of_text (content_text c))))"

definition readAttemptState :: "path \<Rightarrow> attempts io" where
  "readAttemptState p =
     bindE (tryE (lstat p)) (\<lambda>r. case r of
       Inl e \<Rightarrow> if err_is ErrNotExist e then retE no_attempts else failE e
     | Inr i \<Rightarrow>
         if i_kind i \<noteq> KRegular \<or> i_perm i \<noteq> 384 \<or> i_size i < 1 \<or> i_size i > 64
         then failE (Msg ''mutation authorization attempt state is invalid'')
         else bindE (read_file p) (\<lambda>c. liftE (parse_attempts (content_text c))))"

definition writeAttemptState :: "path \<Rightarrow> attempts \<Rightarrow> unit io" where
  "writeAttemptState p a = replacePrivateFile p (attempts_text a)"

definition counter_text :: "int \<Rightarrow> string" where
  "counter_text c = int_dec c @ [CHR 0x0A]"

definition restoreCounter :: "path \<Rightarrow> int \<Rightarrow> unit io" where
  "restoreCounter p previous =
     (if 0 \<le> previous then replacePrivateFile p (counter_text previous)
      else bindE (tryE (remove p)) (\<lambda>r. case r of
             Inl e \<Rightarrow> if err_is ErrNotExist e then auth_sync (butlast p) else failE e
           | Inr _ \<Rightarrow> auth_sync (butlast p)))"

definition wrapRestoreError :: "string \<Rightarrow> err option \<Rightarrow> err option" where
  "wrapRestoreError state e = map_option (Wrap (''restore unused mutation authorization '' @ state)) e"

definition openPrivateLock :: "path \<Rightarrow> unit io" where
  "openPrivateLock p =
     bindE (tryE (lstat p)) (\<lambda>r.
     bindE (case r of
         Inr i \<Rightarrow> if i_kind i \<noteq> KRegular \<or> i_perm i \<noteq> 384
                  then failE (Msg ''mutation authorization lock is invalid'') else retE ()
       | Inl e \<Rightarrow> if \<not> err_is ErrNotExist e then failE e else retE ()) (\<lambda>_.
     bindE (wrapE (Wrap ''open mutation authorization lock'') (open_create p 384)) (\<lambda>_.
     bindE (tryE (chmod p 384)) (\<lambda>c. case c of
         Inl e \<Rightarrow> bindE (ignoreE (close_file p)) (\<lambda>_. failE e)
       | Inr _ \<Rightarrow> retE ()))))"

section \<open>Failed attempts on disk\<close>

definition attempts_path :: "path \<Rightarrow> mutation_scope \<Rightarrow> path" where
  "attempts_path d s = d @ [''mutation.'' @ scope_name s @ ''.attempts'']"

definition global_attempts_path :: "path \<Rightarrow> path" where
  "global_attempts_path d = d @ [''mutation.attempts'']"

definition counter_path :: "path \<Rightarrow> mutation_scope \<Rightarrow> path" where
  "counter_path d s = d @ [''mutation.'' @ scope_name s @ ''.counter'']"

definition recordInvalidAttempt :: "path \<Rightarrow> attempts \<Rightarrow> path \<Rightarrow> attempts \<Rightarrow> int \<Rightarrow> unit io" where
  "recordInvalidAttempt gp prev_g sp prev_s now =
     (case (nextInvalidAttemptState prev_g now, nextInvalidAttemptState prev_s now) of
        ((g, gr), (s, sr)) \<Rightarrow>
          bindE (wrapE (Wrap ''persist global mutation authorization attempts'') (writeAttemptState gp g)) (\<lambda>_.
          bindE (wrapE (Wrap ''persist scoped mutation authorization attempts'') (writeAttemptState sp s)) (\<lambda>_.
          failE (if gr = ErrRateLimited \<or> sr = ErrRateLimited then Sentinel ErrRateLimited
                 else Sentinel ErrInvalid))))"

definition add_attempts :: "attempts \<Rightarrow> attempts \<Rightarrow> attempts" where
  "add_attempts r a = \<lparr>at_failures = wrap64 (at_failures r + at_failures a),
     at_locked = (if at_locked a > at_locked r then at_locked a else at_locked r)\<rparr>"

definition remainingGlobalAttemptState :: "path \<Rightarrow> mutation_scope \<Rightarrow> attempts io" where
  "remainingGlobalAttemptState d accepted =
     bindE (foldE (\<lambda>s r. if s = accepted then retE r
              else bindE (readAttemptState (attempts_path d s)) (\<lambda>a. retE (add_attempts r a)))
            scopes no_attempts) (\<lambda>r.
     retE (if at_failures r > 1000000 then r\<lparr>at_failures := 1000000\<rparr> else r))"

section \<open>Authorization\<close>

definition auth_period :: int where "auth_period = 30"

text \<open>The largest of the three candidate counters whose code matches.\<close>

definition try_candidate :: "service \<Rightarrow> string \<Rightarrow> string \<Rightarrow> int \<Rightarrow> int \<Rightarrow> int io" where
  "try_candidate sv secret otp c matched =
     bindE (liftE (generateCode (sv_hmac1 sv) secret c)) (\<lambda>expected.
     retE (if expected = otp \<and> c > matched then c else matched))"

definition match_counter :: "service \<Rightarrow> string \<Rightarrow> string \<Rightarrow> int \<Rightarrow> int io" where
  "match_counter sv secret otp now =
     (let current = go_div now auth_period
      in foldE (try_candidate sv secret otp) [current - 1, current, current + 1] (-1))"

text \<open>After the callback: a failure restores the counter, a success clears the attempts.\<close>

definition after_callback :: "path \<Rightarrow> mutation_scope \<Rightarrow> int \<Rightarrow> attempts \<Rightarrow> err + unit \<Rightarrow> unit io" where
  "after_callback d s last_used cleared r = (case r of
       Inl e \<Rightarrow> bindE (tryE (restoreCounter (counter_path d s) last_used)) (\<lambda>ce.
                  failE (Joined (somes [Some e, wrapRestoreError ''counter''
                    (case ce of Inl x \<Rightarrow> Some x | Inr _ \<Rightarrow> None)])))
     | Inr _ \<Rightarrow>
         bindE (wrapE (Wrap ''reset scoped mutation authorization attempts'')
           (writeAttemptState (attempts_path d s) no_attempts)) (\<lambda>_.
         wrapE (Wrap ''reset global mutation authorization attempts'')
           (writeAttemptState (global_attempts_path d) cleared)))"

text \<open>What follows a fresh match: for an admission the callback comes first and the files are
  projections; otherwise the counter is persisted before the callback and restored when it
  fails.\<close>

definition accept_code ::
    "path \<Rightarrow> mutation_scope \<Rightarrow> int \<Rightarrow> int \<Rightarrow> attempts \<Rightarrow> (int \<Rightarrow> unit io) \<Rightarrow> bool \<Rightarrow> unit io" where
  "accept_code d s matched last_used cleared callback admission =
     (if admission then
        bindE (callback matched) (\<lambda>_.
        bindE (ignoreE (replacePrivateFile (counter_path d s) (counter_text matched))) (\<lambda>_.
        bindE (ignoreE (writeAttemptState (attempts_path d s) no_attempts)) (\<lambda>_.
        ignoreE (writeAttemptState (global_attempts_path d) cleared))))
      else
        bindE (wrapE (Wrap ''persist mutation authorization counter'')
          (replacePrivateFile (counter_path d s) (counter_text matched))) (\<lambda>_.
        bindE (tryE (callback matched)) (after_callback d s last_used cleared)))"

text \<open>The reads of \<open>authorize\<close>: secret, attempts, counters, and the counter the code matches
  (-1 for none), with the checks between them.\<close>

record attempt =
  am_global :: attempts
  am_scoped :: attempts
  am_now :: int
  am_last :: int
  am_matched :: int

definition match_attempt :: "service \<Rightarrow> string \<Rightarrow> path \<Rightarrow> mutation_scope \<Rightarrow> string \<Rightarrow> attempt io" where
  "match_attempt sv inst d s otp =
     bindE (tryE (readSecret (d @ [''mutation.secret'']))) (\<lambda>ms.
     bindE (case ms of
         Inl e \<Rightarrow> failE (if err_is ErrNotExist e then Sentinel ErrUnconfigured else e)
       | Inr m \<Rightarrow> retE m) (\<lambda>master.
     bindE (liftE (deriveSecret (sv_hmac256 sv) master s)) (\<lambda>secret.
     bindE (readAttemptState (global_attempts_path d)) (\<lambda>ga.
     bindE (readAttemptState (attempts_path d s)) (\<lambda>sa.
     bindE (unix_now sv) (\<lambda>now.
     if at_locked ga > now \<or> at_locked sa > now then failE (Sentinel ErrRateLimited)
     else
       bindE (readCounter (counter_path d s)) (\<lambda>last_file.
       bindE (wrapE (Wrap ''read admission authorization authority'')
         (storeCounter (coordination_store sv) inst (scope_name s))) (\<lambda>authority.
       bindE (match_counter sv secret otp now) (\<lambda>matched.
       retE \<lparr>am_global = ga, am_scoped = sa, am_now = now,
         am_last = (if authority > last_file then authority else last_file), am_matched = matched\<rparr>)))))))))"

definition check_code ::
    "service \<Rightarrow> string \<Rightarrow> path \<Rightarrow> mutation_scope \<Rightarrow> string \<Rightarrow> (int \<Rightarrow> unit io) \<Rightarrow> bool \<Rightarrow> unit io" where
  "check_code sv inst d s otp callback admission =
     bindE (match_attempt sv inst d s otp) (\<lambda>a.
     if am_matched a < 0 then
       recordInvalidAttempt (global_attempts_path d) (am_global a) (attempts_path d s) (am_scoped a) (am_now a)
     else if am_matched a \<le> am_last a then failE (Sentinel ErrReplay)
     else bindE (wrapE (Wrap ''calculate mutation authorization attempts'')
            (remainingGlobalAttemptState d s)) (\<lambda>cleared.
          accept_code d s (am_matched a) (am_last a) cleared callback admission))"

text \<open>The part of \<open>authorize\<close> that runs under the lock, and the lock around it.\<close>

definition locked_section ::
    "service \<Rightarrow> string \<Rightarrow> path \<Rightarrow> mutation_scope \<Rightarrow> string \<Rightarrow> bool io option \<Rightarrow> (int \<Rightarrow> unit io) \<Rightarrow> bool \<Rightarrow> unit io" where
  "locked_section sv inst d s otp existing cb admission =
     bindE (case existing of None \<Rightarrow> retE False | Some ex \<Rightarrow> ex) (\<lambda>found.
       if found then retE ()
       else if \<not> code_ok otp then failE (Sentinel ErrInvalid)
       else check_code sv inst d s otp cb admission)"

definition under_lock :: "path \<Rightarrow> unit io \<Rightarrow> unit io" where
  "under_lock p m = bindE (openPrivateLock p) (\<lambda>_.
     deferE (bindE (wrapE (Wrap ''lock mutation authorization'') (flock p)) (\<lambda>_. deferE m (funlock p)))
            (close_file p))"

definition authorize ::
    "service \<Rightarrow> string \<Rightarrow> mutation_scope \<Rightarrow> string \<Rightarrow> bool io option \<Rightarrow> (int \<Rightarrow> unit io) option \<Rightarrow> bool \<Rightarrow> unit io" where
  "authorize sv inst s otp existing callback admission =
     (case callback of None \<Rightarrow> failE (Sentinel ErrInvalid)
      | Some cb \<Rightarrow>
          if \<not> validScope s then failE (Sentinel ErrInvalid)
          else bindE (tryE (instanceDir sv inst)) (\<lambda>dr. case dr of
            Inl e \<Rightarrow> failE (if err_is ErrNotExist e then Sentinel ErrUnconfigured else e)
          | Inr d \<Rightarrow> under_lock (d @ [''mutation.lock'']) (locked_section sv inst d s otp existing cb admission)))"

definition Authorize :: "service \<Rightarrow> string \<Rightarrow> mutation_scope \<Rightarrow> string \<Rightarrow> unit io option \<Rightarrow> unit io" where
  "Authorize sv inst s otp callback =
     (case callback of None \<Rightarrow> failE (Sentinel ErrInvalid)
      | Some cb \<Rightarrow> authorize sv inst s otp None (Some (\<lambda>_. cb)) False)"

definition AuthorizeAdmission ::
    "service \<Rightarrow> string \<Rightarrow> mutation_scope \<Rightarrow> string \<Rightarrow> bool io option \<Rightarrow> (int \<Rightarrow> unit io) option \<Rightarrow> unit io" where
  "AuthorizeAdmission sv inst s otp existing callback = authorize sv inst s otp existing callback True"

section \<open>Provisioning\<close>

definition createSecret :: "path \<Rightarrow> string io" where
  "createSecret p =
     bindE (wrapE (Wrap ''generate mutation authorization secret'') (read_random 20)) (\<lambda>bytes.
     let secret = b32_encode (map of_nat bytes) in
     bindE (tryE (open_excl p 384)) (\<lambda>r. case r of
       Inl e \<Rightarrow> if err_is ErrExist e then readSecret p
                else failE (Wrap ''create mutation authorization secret'' e)
     | Inr _ \<Rightarrow>
         bindE (tryE (bindE (chmod p 384) (\<lambda>_.
           bindE (write_data p (Text (secret @ [CHR 0x0A]))) (\<lambda>_.
           bindE (fsync p) (\<lambda>_. close_file p))))) (\<lambda>r. case r of
             Inl e \<Rightarrow> bindE (ignoreE (close_file p)) (\<lambda>_. bindE (ignoreE (remove p)) (\<lambda>_. failE e))
           | Inr _ \<Rightarrow> deferE (bindE (auth_sync (butlast p)) (\<lambda>_. retE secret)) (close_file p))))"

record factor =
  fa_scope :: mutation_scope
  fa_uri :: string

text \<open>\<open>url.Values.Encode\<close> writes the keys in order and a space as \<open>+\<close>; the path of the URI
  writes it as \<open>%20\<close>. The other characters that occur need no escaping.\<close>

definition provisioningURI :: "string \<Rightarrow> mutation_scope \<Rightarrow> string \<Rightarrow> string" where
  "provisioningURI inst s secret =
     ''otpauth://totp/GEOFlow%20Updater:'' @ inst @ '':'' @ scope_name s @
     ''?algorithm=SHA1&digits=6&issuer=GEOFlow+Updater&period='' @ int_dec auth_period @
     ''&secret='' @ secret"

definition Provision :: "service \<Rightarrow> string \<Rightarrow> factor list io" where
  "Provision sv inst =
     bindE (instanceDir sv inst) (\<lambda>d.
     bindE (wrapE (Wrap ''validate managed enrollment'') (validateEnrollment sv d inst)) (\<lambda>_.
     bindE (tryE (readSecret (d @ [''mutation.secret'']))) (\<lambda>r.
     bindE (case r of
         Inl e \<Rightarrow> if err_is ErrNotExist e then createSecret (d @ [''mutation.secret'']) else failE e
       | Inr m \<Rightarrow> retE m) (\<lambda>secret.
     foldE (\<lambda>s fs. bindE (liftE (deriveSecret (sv_hmac256 sv) secret s)) (\<lambda>scoped.
              retE (fs @ [\<lparr>fa_scope = s, fa_uri = provisioningURI inst s scoped\<rparr>]))) scopes []))))"

definition Configured :: "service \<Rightarrow> string \<Rightarrow> unit io" where
  "Configured sv inst =
     bindE (tryE (instanceDir sv inst)) (\<lambda>dr. case dr of
       Inl e \<Rightarrow> failE (if err_is ErrNotExist e then Sentinel ErrUnconfigured else e)
     | Inr d \<Rightarrow>
         bindE (tryE (validateEnrollment sv d inst)) (\<lambda>v. case v of
           Inl _ \<Rightarrow> failE (Sentinel ErrUnconfigured)
         | Inr _ \<Rightarrow>
             bindE (tryE (readSecret (d @ [''mutation.secret'']))) (\<lambda>r. case r of
               Inl e \<Rightarrow> failE (if err_is ErrNotExist e then Sentinel ErrUnconfigured else e)
             | Inr _ \<Rightarrow> retE ())))"

section \<open>The delay a client is told\<close>

definition retry_step :: "service \<Rightarrow> path \<Rightarrow> int \<Rightarrow> (int option) io" where
  "retry_step sv p seconds =
     bindE (tryE (readAttemptState p)) (\<lambda>r. case r of
       Inl _ \<Rightarrow> retE None
     | Inr a \<Rightarrow> bindE (unix_now sv) (\<lambda>now.
         let remaining = wrap64 (at_locked a - now)
         in retE (Some (if remaining > seconds then remaining else seconds))))"

fun retry_loop :: "service \<Rightarrow> path list \<Rightarrow> int \<Rightarrow> int io" where
  "retry_loop sv [] seconds = retE (if seconds > maxLockoutSeconds then maxLockoutSeconds else seconds)"
| "retry_loop sv (p # ps) seconds =
     bindE (retry_step sv p seconds) (\<lambda>r. case r of
       None \<Rightarrow> retE maxLockoutSeconds | Some s \<Rightarrow> retry_loop sv ps s)"

definition RetryAfter :: "service \<Rightarrow> string \<Rightarrow> mutation_scope \<Rightarrow> int io" where
  "RetryAfter sv inst s =
     bindE (tryE (instanceDir sv inst)) (\<lambda>dr. case dr of
       Inl _ \<Rightarrow> retE maxLockoutSeconds
     | Inr d \<Rightarrow> if \<not> validScope s then retE maxLockoutSeconds
                else retry_loop sv [global_attempts_path d, attempts_path d s] 1)"


end
