(* ===== verification/PathText.thy ===== *)
theory PathText
  imports Authorization
begin

text \<open>
  \<open>path/filepath\<close> on Unix path texts: \<open>Clean\<close>, \<open>Join\<close>, \<open>Dir\<close>, \<open>Rel\<close> and \<open>IsLocal\<close>, computed on
  the components of a text. \<open>text_path\<close> is the entry of the file system a text names; a
  relative text is taken from the root directory, where the service unit runs.
\<close>

section \<open>Components\<close>

fun split_on :: "char \<Rightarrow> string \<Rightarrow> string \<Rightarrow> string list" where
  "split_on x acc [] = [acc]"
| "split_on x acc (c # cs) = (if c = x then acc # split_on x [] cs else split_on x (acc @ [c]) cs)"

definition slash :: char where
  "slash = CHR ''/''"

definition components :: "string \<Rightarrow> string list" where
  "components s = split_on slash [] s"

fun join_slash :: "string list \<Rightarrow> string" where
  "join_slash [] = []"
| "join_slash [c] = c"
| "join_slash (c # cs) = c @ [slash] @ join_slash cs"

text \<open>One component against the components kept so far, as in the loop of \<open>Clean\<close>.\<close>

definition clean_step :: "bool \<Rightarrow> string list \<Rightarrow> string \<Rightarrow> string list" where
  "clean_step rooted done c =
     (if c = [] \<or> c = ''.'' then done
      else if c = ''..'' then
        (if done \<noteq> [] \<and> last done \<noteq> ''..'' then butlast done
         else if rooted then done else done @ [c])
      else done @ [c])"

definition clean_from :: "bool \<Rightarrow> string list \<Rightarrow> string \<Rightarrow> string list" where
  "clean_from rooted base s = foldl (clean_step rooted) base (components s)"

definition clean_parts :: "string \<Rightarrow> string list" where
  "clean_parts s = clean_from (is_abs s) [] s"

section \<open>The operations\<close>

definition parts_text :: "bool \<Rightarrow> string list \<Rightarrow> string" where
  "parts_text rooted cs =
     (if rooted then slash # join_slash cs else if cs = [] then ''.'' else join_slash cs)"

definition path_clean :: "string \<Rightarrow> string" where
  "path_clean s = parts_text (is_abs s) (clean_parts s)"

text \<open>\<open>Join\<close>: empty elements are ignored, and no element at all gives the empty text.\<close>

definition path_join :: "string list \<Rightarrow> string" where
  "path_join es =
     (let fs = filter (\<lambda>e. e \<noteq> []) es in if fs = [] then [] else path_clean (join_slash fs))"

text \<open>\<open>Dir\<close>: everything up to the last slash, cleaned.\<close>

definition path_dir :: "string \<Rightarrow> string" where
  "path_dir s = path_clean (rev (dropWhile (\<lambda>c. c \<noteq> slash) (rev s)))"

fun strip_common :: "string list \<Rightarrow> string list \<Rightarrow> string list \<times> string list" where
  "strip_common (b # bs) (t # ts) = (if b = t then strip_common bs ts else (b # bs, t # ts))"
| "strip_common bs ts = (bs, ts)"

text \<open>\<open>Rel\<close>: no relative path exists when one text is absolute and the other is not, or when
  the way out of the base is not known.\<close>

definition path_rel :: "string \<Rightarrow> string \<Rightarrow> string option" where
  "path_rel base targ =
     (if is_abs base \<noteq> is_abs targ then None
      else case strip_common (clean_parts base) (clean_parts targ) of (bs, ts) \<Rightarrow>
        if bs \<noteq> [] \<and> hd bs = ''..'' then None
        else Some (parts_text False (replicate (length bs) ''..'' @ ts)))"

text \<open>\<open>IsLocal\<close> of a text.\<close>

definition path_local :: "string \<Rightarrow> bool" where
  "path_local s \<longleftrightarrow> \<not> is_abs s \<and> s \<noteq> [] \<and> (clean_parts s = [] \<or> hd (clean_parts s) \<noteq> ''..'')"

definition text_path :: "string \<Rightarrow> path" where
  "text_path s = clean_from True [] s"

definition path_text :: "path \<Rightarrow> string" where
  "path_text p = slash # join_slash p"

text \<open>\<open>Join\<close> of a directory and a text, as an entry of the file system.\<close>

definition resolve :: "path \<Rightarrow> string \<Rightarrow> path" where
  "resolve d s = clean_from True d s"

section \<open>Laws\<close>

text \<open>A component that stands for itself.\<close>

definition plain :: "string \<Rightarrow> bool" where
  "plain c \<longleftrightarrow> c \<noteq> [] \<and> c \<noteq> ''.'' \<and> c \<noteq> ''..'' \<and> slash \<notin> set c"

lemma clean_step_plain [simp]: "plain c \<Longrightarrow> clean_step r done c = done @ [c]"
  by (auto simp: clean_step_def plain_def)

lemma foldl_plain: "list_all plain cs \<Longrightarrow> foldl (clean_step r) done cs = done @ cs"
  by (induction cs arbitrary: "done") auto

lemma split_on_no: "x \<notin> set s \<Longrightarrow> split_on x acc (s @ t) = split_on x (acc @ s) t"
  by (induction s arbitrary: acc) auto

lemma split_on_end: "x \<notin> set s \<Longrightarrow> split_on x acc s = [acc @ s]"
  using split_on_no[of x s acc "[]"] by simp

lemma components_plain: "slash \<notin> set c \<Longrightarrow> components c = [c]"
  by (simp add: components_def split_on_end)

lemma components_append: "slash \<notin> set c \<Longrightarrow> components (c @ slash # s) = c # components s"
  by (simp add: components_def split_on_no)

lemma components_join:
  "cs \<noteq> [] \<Longrightarrow> \<forall>c \<in> set cs. slash \<notin> set c \<Longrightarrow> components (join_slash cs) = cs"
  by (induction cs rule: join_slash.induct) (auto simp: components_append components_plain)

lemma split_on_parts: "c \<in> set (split_on x acc s) \<Longrightarrow> x \<notin> set acc \<Longrightarrow> x \<notin> set c"
  by (induction x acc s rule: split_on.induct) (auto split: if_splits)

lemma components_no_slash: "c \<in> set (components s) \<Longrightarrow> slash \<notin> set c"
  unfolding components_def by (erule split_on_parts) simp

text \<open>What is kept are plain components behind, for a relative text, a run of \<open>..\<close>.\<close>

definition cleaned :: "bool \<Rightarrow> string list \<Rightarrow> bool" where
  "cleaned rooted cs \<longleftrightarrow> (\<exists>n ps. cs = replicate n ''..'' @ ps \<and> list_all plain ps \<and> (rooted \<longrightarrow> n = 0))"

lemma plain_not_up [simp]: "\<not> plain ''..''" "\<not> plain []" "\<not> plain ''.''"
  by (simp_all add: plain_def)

lemma cleaned_step:
  assumes "cleaned r cs" and "slash \<notin> set c"
  shows "cleaned r (clean_step r cs c)"
proof -
  from assms(1) obtain n ps where cs: "cs = replicate n ''..'' @ ps" and ps: "list_all plain ps" and n: "r \<longrightarrow> n = 0"
    by (auto simp: cleaned_def)
  consider (skip) "c = [] \<or> c = ''.''" | (up) "c = ''..''" | (plain) "plain c"
    using assms(2) by (auto simp: plain_def)
  then show ?thesis
  proof cases
    case skip
    with assms(1) show ?thesis by (auto simp: clean_step_def)
  next
    case plain
    with cs have "clean_step r cs c = replicate n ''..'' @ (ps @ [c])" by simp
    moreover have "list_all plain (ps @ [c])" using plain ps by simp
    ultimately show ?thesis using n unfolding cleaned_def by blast
  next
    case up
    show ?thesis
    proof (cases "ps = []")
      case True
      have "clean_step r cs c = (if r then cs else replicate (Suc n) ''..'')"
        using up cs True n by (cases n) (auto simp: clean_step_def replicate_append_same)
      moreover have "cleaned False (replicate (Suc n) ''..'' @ [])"
        unfolding cleaned_def by (rule exI[of _ "Suc n"], rule exI[of _ "[]"]) simp
      moreover have "cleaned r cs" by (rule assms(1))
      ultimately show ?thesis by (cases r) simp_all
    next
      case False
      then have "last ps \<noteq> ''..''" using ps by (metis last_in_set list_all_iff plain_not_up(1))
      then have "clean_step r cs c = replicate n ''..'' @ butlast ps"
        using up cs False by (simp add: clean_step_def butlast_append)
      moreover have "list_all plain (butlast ps)" using ps by (auto simp: list_all_iff dest: in_set_butlastD)
      ultimately show ?thesis using n by (auto simp: cleaned_def)
    qed
  qed
qed

lemma cleaned_foldl:
  "cleaned r cs \<Longrightarrow> \<forall>c \<in> set ds. slash \<notin> set c \<Longrightarrow> cleaned r (foldl (clean_step r) cs ds)"
  by (induction ds arbitrary: cs) (auto intro: cleaned_step)

lemma cleaned_from: "cleaned r base \<Longrightarrow> cleaned r (clean_from r base s)"
  unfolding clean_from_def by (erule cleaned_foldl) (blast dest: components_no_slash)

lemma cleaned_parts: "cleaned (is_abs s) (clean_parts s)"
  unfolding clean_parts_def by (rule cleaned_from) (simp add: cleaned_def)

lemma text_path_plain: "list_all plain (text_path s)"
  using cleaned_from[of True "[]" s] by (auto simp: text_path_def cleaned_def)

lemma local_plain: "path_local s \<Longrightarrow> list_all plain (clean_parts s)"
  using cleaned_parts[of s] by (auto simp: path_local_def cleaned_def hd_append split: if_splits)

lemma foldl_cleaned_same: "list_all plain cs \<Longrightarrow> foldl (clean_step r) base cs = base @ cs"
  by (rule foldl_plain)

text \<open>A clean local text adds its components below a directory.\<close>

lemma is_abs_Cons: "is_abs s \<longleftrightarrow> (\<exists>t. s = slash # t)"
  by (cases s) (auto simp: is_abs_def has_prefix_def slash_def)

lemma join_slash_head: "c \<noteq> [] \<Longrightarrow> \<exists>t. join_slash (c # cs) = c @ t"
  by (cases cs) auto

lemma is_abs_join: "list_all plain cs \<Longrightarrow> \<not> is_abs (join_slash cs)"
proof (cases cs)
  case (Cons c ds)
  moreover assume "list_all plain cs"
  ultimately obtain t where "join_slash cs = c @ t" and "c \<noteq> []" "slash \<notin> set c"
    using join_slash_head[of c ds] by (auto simp: plain_def)
  then show ?thesis by (cases c) (auto simp: is_abs_Cons)
qed (simp add: is_abs_Cons)

lemma components_clean: "list_all plain cs \<Longrightarrow> cs \<noteq> [] \<Longrightarrow> components (join_slash cs) = cs"
  by (rule components_join) (auto simp: list_all_iff plain_def)

lemma resolve_local:
  assumes "path_local s" and "clean_parts s \<noteq> []"
  shows "resolve d (path_clean s) = d @ clean_parts s"
proof -
  have p: "list_all plain (clean_parts s)" using assms(1) by (rule local_plain)
  have "path_clean s = join_slash (clean_parts s)"
    using assms by (simp add: path_clean_def parts_text_def path_local_def)
  with p assms(2) show ?thesis
    by (simp add: resolve_def clean_from_def components_clean foldl_plain)
qed

lemma clean_parts_join: "list_all plain cs \<Longrightarrow> cs \<noteq> [] \<Longrightarrow> clean_parts (join_slash cs) = cs"
  by (simp add: clean_parts_def clean_from_def components_clean foldl_plain)

lemma path_clean_join: "list_all plain cs \<Longrightarrow> cs \<noteq> [] \<Longrightarrow> path_clean (join_slash cs) = join_slash cs"
  by (simp add: path_clean_def clean_parts_join parts_text_def is_abs_join)

lemma path_local_join: "list_all plain cs \<Longrightarrow> cs \<noteq> [] \<Longrightarrow> path_local (join_slash cs)"
  using is_abs_join[of cs] join_slash_head[of "hd cs" "tl cs"]
  by (cases cs) (auto simp: path_local_def clean_parts_join plain_def)

text \<open>A relative text that stays inside its base leads below it.\<close>

lemma strip_common_split:
  "strip_common bs ts = (bs', ts') \<Longrightarrow> \<exists>cs. bs = cs @ bs' \<and> ts = cs @ ts'"
proof (induction bs ts arbitrary: bs' ts' rule: strip_common.induct)
  case (1 b bs t ts)
  show ?case
  proof (cases "b = t")
    case True
    with 1 obtain cs where "bs = cs @ bs' \<and> ts = cs @ ts'" by auto
    with True show ?thesis by (intro exI[of _ "b # cs"]) simp
  qed (use "1.prems" in auto)
qed auto

lemma join_starts_up:
  assumes "cs \<noteq> []" and "hd cs = ''..''"
  shows "join_slash cs = ''..'' \<or> has_prefix (''..'' @ [slash]) (join_slash cs)"
  using assms by (cases cs rule: join_slash.cases) (auto simp: has_prefix_def)

lemma rel_inside:
  assumes "path_rel base targ = Some r" and "r \<noteq> ''..''" and "\<not> has_prefix (''..'' @ [slash]) r"
  shows "\<exists>ts. clean_parts targ = clean_parts base @ ts"
proof -
  obtain bs ts where s: "strip_common (clean_parts base) (clean_parts targ) = (bs, ts)" by fastforce
  from strip_common_split[OF s] obtain cs where cs: "clean_parts base = cs @ bs" "clean_parts targ = cs @ ts"
    by blast
  have r: "r = parts_text False (replicate (length bs) ''..'' @ ts)"
    using assms(1) s by (auto simp: path_rel_def split: if_splits)
  have "bs = []"
  proof (rule ccontr)
    assume "bs \<noteq> []"
    then obtain k where "length bs = Suc k" by (cases bs) auto
    with r have "r = join_slash (''..'' # replicate k ''..'' @ ts)" by (simp add: parts_text_def)
    with join_starts_up[of "''..'' # replicate k ''..'' @ ts"] assms(2,3) show False by auto
  qed
  with cs show ?thesis by auto
qed

end
