(* ===== verification/PointRecord.thy ===== *)
theory PointRecord
  imports PathText Journal
begin

text \<open>
  The records of \<open>internal/recovery\<close> (\<open>store.go\<close>): what a recovery point says of its files, the
  manifest of a point with its JSON form, the files a deployment consists of
  (\<open>deploymentArtifacts\<close>) and the deployment a point may be restored to
  (\<open>recoveryConfiguration\<close>). Maps are association lists with one entry for a key.
\<close>

section \<open>The configuration as JSON\<close>

definition zero_config :: config where
  "zero_config = \<lparr>cf_layout = [], cf_active_slot = [], cf_infra_compose = [], cf_infra_env = [],
     cf_schema = 0, cf_id = [], cf_root = [], cf_compose = [], cf_env = [], cf_token = [], cf_release = 0,
     cf_release_sha = [], cf_version = [], cf_pg_major = [], cf_pg_dir = [], cf_pg_mount = [],
     cf_redis_major = [], cf_enrolled = zero_time\<rparr>"

definition config_pairs :: "config \<Rightarrow> (string \<times> json) list" where
  "config_pairs c =
     omit_str ''layout'' (cf_layout c) @ omit_str ''active_slot'' (cf_active_slot c) @
     omit_str ''infra_compose_file'' (cf_infra_compose c) @
     omit_str ''infra_environment_file'' (cf_infra_env c) @
     [(''schema_version'', JNum (cf_schema c)), (''id'', JStr (cf_id c)), (''root'', JStr (cf_root c)),
      (''compose_file'', JStr (cf_compose c)), (''environment_file'', JStr (cf_env c)),
      (''control_token_file'', JStr (cf_token c)), (''release_sequence'', JNum (uint (cf_release c)))] @
     omit_str ''enrolled_release_sha256'' (cf_release_sha c) @
     [(''version'', JStr (cf_version c)), (''postgres_major'', JStr (cf_pg_major c)),
      (''postgres_data_dir'', JStr (cf_pg_dir c)), (''postgres_container_data_dir'', JStr (cf_pg_mount c)),
      (''redis_major'', JStr (cf_redis_major c)), (''enrolled_at'', JTime (cf_enrolled c))]"

definition config_to_json :: "config \<Rightarrow> json" where
  "config_to_json c = JObj (config_pairs c)"

definition config_keys :: "string list" where
  "config_keys = [''layout'', ''active_slot'', ''infra_compose_file'', ''infra_environment_file'',
     ''schema_version'', ''id'', ''root'', ''compose_file'', ''environment_file'', ''control_token_file'',
     ''release_sequence'', ''enrolled_release_sha256'', ''version'', ''postgres_major'',
     ''postgres_data_dir'', ''postgres_container_data_dir'', ''redis_major'', ''enrolled_at'']"

definition dec_word64 :: "json \<Rightarrow> 64 word \<Rightarrow> 64 word option" where
  "dec_word64 j x = map_option word_of_int (dec_uint64 j (uint x))"

definition dec_config :: "json \<Rightarrow> config \<Rightarrow> config option" where
  "dec_config j x =
     (case members j of None \<Rightarrow> None
      | Some kvs \<Rightarrow>
          if \<not> known config_keys kvs then None
          else Option.bind (field ''layout'' dec_str kvs (cf_layout x)) (\<lambda>lay.
               Option.bind (field ''active_slot'' dec_str kvs (cf_active_slot x)) (\<lambda>slot.
               Option.bind (field ''infra_compose_file'' dec_str kvs (cf_infra_compose x)) (\<lambda>ic.
               Option.bind (field ''infra_environment_file'' dec_str kvs (cf_infra_env x)) (\<lambda>ie.
               Option.bind (field ''schema_version'' dec_int64 kvs (cf_schema x)) (\<lambda>sv.
               Option.bind (field ''id'' dec_str kvs (cf_id x)) (\<lambda>i.
               Option.bind (field ''root'' dec_str kvs (cf_root x)) (\<lambda>r.
               Option.bind (field ''compose_file'' dec_str kvs (cf_compose x)) (\<lambda>cp.
               Option.bind (field ''environment_file'' dec_str kvs (cf_env x)) (\<lambda>ev.
               Option.bind (field ''control_token_file'' dec_str kvs (cf_token x)) (\<lambda>tk.
               Option.bind (field ''release_sequence'' dec_word64 kvs (cf_release x)) (\<lambda>rs.
               Option.bind (field ''enrolled_release_sha256'' dec_str kvs (cf_release_sha x)) (\<lambda>rh.
               Option.bind (field ''version'' dec_str kvs (cf_version x)) (\<lambda>ve.
               Option.bind (field ''postgres_major'' dec_str kvs (cf_pg_major x)) (\<lambda>pm.
               Option.bind (field ''postgres_data_dir'' dec_str kvs (cf_pg_dir x)) (\<lambda>pd.
               Option.bind (field ''postgres_container_data_dir'' dec_str kvs (cf_pg_mount x)) (\<lambda>pc.
               Option.bind (field ''redis_major'' dec_str kvs (cf_redis_major x)) (\<lambda>rm.
               Option.bind (field ''enrolled_at'' dec_time kvs (cf_enrolled x)) (\<lambda>en.
               Some \<lparr>cf_layout = lay, cf_active_slot = slot, cf_infra_compose = ic, cf_infra_env = ie,
                 cf_schema = sv, cf_id = i, cf_root = r, cf_compose = cp, cf_env = ev, cf_token = tk,
                 cf_release = rs, cf_release_sha = rh, cf_version = ve, cf_pg_major = pm, cf_pg_dir = pd,
                 cf_pg_mount = pc, cf_redis_major = rm, cf_enrolled = en\<rparr>)))))))))))))))))))"

text \<open>\<open>StateDirectory\<close>\<close>

definition StateDirectory :: "config \<Rightarrow> string" where
  "StateDirectory c = (if cf_token c \<noteq> [] then path_dir (cf_token c) else path_dir (cf_compose c))"

section \<open>Files and points\<close>

record file_record =
  fr_sha :: string
  fr_size :: int
  fr_mode :: int
  fr_uid :: int
  fr_gid :: int

definition zero_file_record :: file_record where
  "zero_file_record = \<lparr>fr_sha = [], fr_size = 0, fr_mode = 0, fr_uid = 0, fr_gid = 0\<rparr>"

definition file_record_to_json :: "file_record \<Rightarrow> json" where
  "file_record_to_json r = JObj [(''sha256'', JStr (fr_sha r)), (''size'', JNum (fr_size r)),
     (''mode'', JNum (fr_mode r)), (''uid'', JNum (fr_uid r)), (''gid'', JNum (fr_gid r))]"

definition dec_uint32 :: "json \<Rightarrow> int \<Rightarrow> int option" where
  "dec_uint32 = dec_int 0 (2 ^ 32)"

definition dec_file_record :: "json \<Rightarrow> file_record \<Rightarrow> file_record option" where
  "dec_file_record j x =
     (case members j of None \<Rightarrow> None
      | Some kvs \<Rightarrow>
          if \<not> known [''sha256'', ''size'', ''mode'', ''uid'', ''gid''] kvs then None
          else Option.bind (field ''sha256'' dec_str kvs (fr_sha x)) (\<lambda>s.
               Option.bind (field ''size'' dec_int64 kvs (fr_size x)) (\<lambda>n.
               Option.bind (field ''mode'' dec_uint32 kvs (fr_mode x)) (\<lambda>m.
               Option.bind (field ''uid'' dec_int64 kvs (fr_uid x)) (\<lambda>u.
               Option.bind (field ''gid'' dec_int64 kvs (fr_gid x)) (\<lambda>g.
               Some \<lparr>fr_sha = s, fr_size = n, fr_mode = m, fr_uid = u, fr_gid = g\<rparr>))))))"

type_synonym file_map = "(string \<times> file_record) list"

text \<open>\<open>m[k] = v\<close>\<close>

definition map_put :: "string \<Rightarrow> 'a \<Rightarrow> (string \<times> 'a) list \<Rightarrow> (string \<times> 'a) list" where
  "map_put k v m = filter (\<lambda>(k', _). k' \<noteq> k) m @ [(k, v)]"

text \<open>A JSON object is decoded into a map entry by entry, each into a fresh value.\<close>

fun put_all_pairs :: "(string \<times> json) list \<Rightarrow> file_map \<Rightarrow> file_map option" where
  "put_all_pairs [] m = Some m"
| "put_all_pairs ((k, j) # kvs) m =
     (case dec_file_record j zero_file_record of None \<Rightarrow> None | Some r \<Rightarrow> put_all_pairs kvs (map_put k r m))"

definition dec_files :: "json \<Rightarrow> file_map \<Rightarrow> file_map option" where
  "dec_files j m = (case j of JObj kvs \<Rightarrow> put_all_pairs kvs m | JNull \<Rightarrow> Some [] | _ \<Rightarrow> None)"

text \<open>Maps are written in the order of their keys.\<close>

definition files_to_json :: "file_map \<Rightarrow> json" where
  "files_to_json m = JObj (map (\<lambda>(k, r). (k, file_record_to_json r)) (sort_key fst m))"

record point =
  pt_deployment :: "config option"
  pt_schema :: int
  pt_id :: string
  pt_instance :: string
  pt_reason :: string
  pt_created :: int
  pt_version :: string
  pt_release :: "64 word"
  pt_root :: string
  pt_files :: file_map

definition point_pairs :: "point \<Rightarrow> (string \<times> json) list" where
  "point_pairs p =
     opt_pair ''deployment'' (pt_deployment p) config_to_json @
     [(''schema_version'', JNum (pt_schema p)), (''id'', JStr (pt_id p)),
      (''instance_id'', JStr (pt_instance p)), (''reason'', JStr (pt_reason p)),
      (''created_at'', JTime (pt_created p)), (''version'', JStr (pt_version p)),
      (''release_sequence'', JNum (uint (pt_release p))), (''root'', JStr (pt_root p)),
      (''files'', files_to_json (pt_files p))]"

definition point_to_json :: "point \<Rightarrow> json" where
  "point_to_json p = JObj (point_pairs p)"

definition point_keys :: "string list" where
  "point_keys = [''deployment'', ''schema_version'', ''id'', ''instance_id'', ''reason'', ''created_at'',
     ''version'', ''release_sequence'', ''root'', ''files'']"

definition point_of_json :: "json \<Rightarrow> point option" where
  "point_of_json j =
     (case members j of None \<Rightarrow> None
      | Some kvs \<Rightarrow>
          if \<not> known point_keys kvs then None
          else Option.bind (field ''deployment'' (dec_opt dec_config zero_config) kvs None) (\<lambda>dp.
               Option.bind (field ''schema_version'' dec_int64 kvs 0) (\<lambda>sv.
               Option.bind (field ''id'' dec_str kvs []) (\<lambda>i.
               Option.bind (field ''instance_id'' dec_str kvs []) (\<lambda>ii.
               Option.bind (field ''reason'' dec_str kvs []) (\<lambda>re.
               Option.bind (field ''created_at'' dec_time kvs zero_time) (\<lambda>ca.
               Option.bind (field ''version'' dec_str kvs []) (\<lambda>ve.
               Option.bind (field ''release_sequence'' dec_word64 kvs 0) (\<lambda>rs.
               Option.bind (field ''root'' dec_str kvs []) (\<lambda>ro.
               Option.bind (field ''files'' dec_files kvs []) (\<lambda>fs.
               Some \<lparr>pt_deployment = dp, pt_schema = sv, pt_id = i, pt_instance = ii, pt_reason = re,
                 pt_created = ca, pt_version = ve, pt_release = rs, pt_root = ro, pt_files = fs\<rparr>)))))))))))"

text \<open>\<open>IsUpdateCheckpoint\<close>\<close>

definition IsUpdateCheckpoint :: "point \<Rightarrow> bool" where
  "IsUpdateCheckpoint p = has_prefix ''update-to-'' (pt_reason p)"

record restore_request =
  rq_point :: string
  rq_tx :: string
  rq_digest :: string

section \<open>The files of a deployment\<close>

text \<open>\<open>deploymentArtifacts\<close>: the name of a file in the point and where it lives.\<close>

definition deploymentArtifacts :: "config \<Rightarrow> (string \<times> string) list" where
  "deploymentArtifacts c =
     [(''site.env'', path_join [cf_root c, ''.env.prod'']), (''version.json'', path_join [cf_root c, ''version.json'']),
      (''managed/instance.yml'', path_join [StateDirectory c, ''instance.yml'']),
      (''managed/release.env'', cf_env c), (''managed/docker-compose.yml'', cf_compose c)] @
     (if cf_layout c = ''blue-green'' then
        [(''managed/infra-compose.yml'', cf_infra_compose c), (''managed/infra.env'', cf_infra_env c),
         (''managed/nginx.conf'', path_join [path_dir (cf_infra_compose c), ''traffic'', ''nginx.conf'']),
         (''managed/upgrade-plan.json'', path_join [path_dir (cf_compose c), ''upgrade-plan.json'']),
         (''managed/slot-version.json'', path_join [path_dir (cf_compose c), ''version.json''])]
      else [])"

definition artifact_escapes :: "config \<Rightarrow> string \<times> string \<Rightarrow> bool" where
  "artifact_escapes current a \<longleftrightarrow>
     fst a \<noteq> ''site.env'' \<and> fst a \<noteq> ''version.json'' \<and>
     (case path_rel (StateDirectory current) (snd a) of None \<Rightarrow> True
      | Some rel \<Rightarrow> \<not> is_abs (snd a) \<or> rel = ''..'' \<or> has_prefix (''..'' @ [slash]) rel)"

definition recoveryConfiguration :: "config \<Rightarrow> point \<Rightarrow> err + config" where
  "recoveryConfiguration current p =
     (case pt_deployment p of
        None \<Rightarrow> if cf_layout current \<noteq> []
                then Inl (Msg ''legacy recovery point requires its original deployment layout'')
                else Inr current
      | Some source \<Rightarrow>
          if cf_id source \<noteq> cf_id current \<or> cf_root source \<noteq> cf_root current \<or>
             StateDirectory source \<noteq> StateDirectory current \<or> cf_version source \<noteq> pt_version p \<or>
             cf_release source \<noteq> pt_release p
          then Inl (Msg ''recovery deployment identity mismatch'')
          else if cf_layout source \<noteq> [] \<and> cf_layout source \<noteq> ''blue-green''
          then Inl (Msg ''unsupported recovery layout'')
          else if cf_layout source = ''blue-green'' \<and> cf_active_slot source \<noteq> ''blue'' \<and>
             cf_active_slot source \<noteq> ''green''
          then Inl (Msg ''invalid recovery slot'')
          else if list_ex (artifact_escapes current) (deploymentArtifacts source)
          then Inl (Msg ''recovery file escapes instance state'')
          else Inr source)"

section \<open>Identifiers\<close>

text \<open>\<open>Format("20060102T150405Z")\<close>\<close>

definition point_stamp :: "int \<Rightarrow> string" where
  "point_stamp t =
     (let secs = t div second_ns; sod = secs mod 86400 in
      case civil (secs div 86400) of (y, m, d) \<Rightarrow>
        pad_dec 4 (nat y) @ pad_dec 2 (nat m) @ pad_dec 2 (nat d) @ ''T'' @
        pad_dec 2 (nat (sod div 3600)) @ pad_dec 2 (nat (sod div 60 mod 60)) @ pad_dec 2 (nat (sod mod 60)) @ ''Z'')"

end
