(* ===== verification/Manager.thy ===== *)
theory Manager
  imports Journal RecoveryControl PointRecord
begin

text \<open>
  The operation manager of \<open>internal/operation\<close> (\<open>manager.go\<close>, \<open>planned.go\<close>): one operation
  at a time for an instance, its journal on disk, the runners of the five kinds of operation,
  and the recovery of an interrupted operation after a restart.

  \<^item> The state is the world of files with the variables of the process: the table of active
    operations, the instances whose \<open>operation.lock\<close> is held, the operation a runner works
    on (\<open>ho_op\<close>, the Go pointer \<open>*Operation\<close>), the receipt captured by \<open>Submit\<close>, the
    operation captured by a request of the agent, the goroutines
    that were spawned and have not run yet, and a state \<open>'d\<close> of the deployment.
  \<^item> The deployment is a parameter; what the code finds out with a type assertion is an
    option. Contexts and deadlines are not modelled.
\<close>

section \<open>The state of the process\<close>

text \<open>The closure a start hands to its goroutine, by what it captured.\<close>

datatype job =
    RunUpdate options
  | RunBackup
  | RunRollback string
  | RunRestore string
  | RunVerify
  | RunSwitchBack

record 'd host =
  ho_world :: world
  ho_active :: "(string \<times> string) list"
  ho_locked :: "string list"
  ho_op :: operation
  ho_receipt :: receipt
  ho_started :: operation
  ho_jobs :: "(string \<times> operation \<times> job) list"
  ho_dep :: 'd

text \<open>A file system call leaves the variables of the process alone.\<close>

definition onW :: "'a io \<Rightarrow> ('d host, 'a) act" where
  "onW m h = (case m (ho_world h) of (r, w) \<Rightarrow> (r, h\<lparr>ho_world := w\<rparr>))"

definition getOp :: "('d host, operation) act" where
  "getOp h = (Inr (ho_op h), h)"

definition modifyOp :: "(operation \<Rightarrow> operation) \<Rightarrow> ('d host, unit) act" where
  "modifyOp f h = (Inr (), h\<lparr>ho_op := f (ho_op h)\<rparr>)"

text \<open>Private evidence for a plan; the JSON text of a release is not modelled, so the encoding
  of a snapshot is a pair of functions of the manager.\<close>

record snapshot =
  sn_baseline :: string
  sn_maintenance :: bool
  sn_continuation :: string
  sn_details :: "json option"
  sn_target :: "release option"
  sn_plan :: string

record 'w services =
  mp_base :: "'w deployment"
  mp_quiesce_recovery :: "string \<Rightarrow> string \<Rightarrow> ('w, unit) act"
  mp_validate_point :: "string \<Rightarrow> string \<Rightarrow> ('w, unit) act"
  mp_list_points :: "string \<Rightarrow> ('w, point list) act"
  mp_snapshot :: "(string \<Rightarrow> string \<Rightarrow> string \<Rightarrow> ('w, snapshot) act) option"
  mp_preview :: "(string \<Rightarrow> ('w, json) act) option"
  mp_reconcile :: "(string \<Rightarrow> string \<Rightarrow> 'w \<Rightarrow> (result \<times> bool) \<times> 'w) option"
  mp_switch_back :: "(string \<Rightarrow> string \<Rightarrow> 'w observer \<Rightarrow> 'w \<Rightarrow> result \<times> 'w) option"

record 'd manager =
  mg_dir :: "path option"
  mg_engine :: "'d host engine"
  mg_deployment :: "'d host services option"
  mg_now :: "'d host \<Rightarrow> int"
  mg_coordination :: "store option"
  mg_sha :: "json \<Rightarrow> string"
  mg_marshal :: "snapshot \<Rightarrow> json"
  mg_unmarshal :: "json \<Rightarrow> snapshot option"

definition now :: "'d manager \<Rightarrow> ('d host, int) act" where
  "now m h = (Inr (mg_now m h), h)"

definition manager_dir :: "'d manager \<Rightarrow> path" where
  "manager_dir m = (case mg_dir m of None \<Rightarrow> default_state_dir | Some d \<Rightarrow> d)"

definition operationsDir :: "'d manager \<Rightarrow> string \<Rightarrow> path" where
  "operationsDir m inst = manager_dir m @ [''instances'', inst, ''operations'']"

definition currentPath :: "'d manager \<Rightarrow> string \<Rightarrow> path" where
  "currentPath m inst = operationsDir m inst @ [''current.json'']"

definition operation_path :: "'d manager \<Rightarrow> string \<Rightarrow> string \<Rightarrow> path" where
  "operation_path m inst op = operationsDir m inst @ [json_name op]"

definition coordinationStore :: "'d manager \<Rightarrow> store" where
  "coordinationStore m = (case mg_coordination m of
       Some st \<Rightarrow> st
     | None \<Rightarrow> \<lparr>st_dir = Some (manager_dir m), st_hook = (\<lambda>_. None), st_sync = None, st_sha = mg_sha m\<rparr>)"

definition control_store :: "'d manager \<Rightarrow> rcstore" where
  "control_store m = \<lparr>rc_dir = Some (manager_dir m)\<rparr>"

section \<open>Files\<close>

text \<open>\<open>errors.Join(directory.Sync(), directory.Close())\<close>\<close>

definition sync_and_close :: "path \<Rightarrow> unit io" where
  "sync_and_close d =
     bindE (open_path d) (\<lambda>_.
     bindE (tryE (sync_entries d)) (\<lambda>s.
     bindE (tryE (close_file d)) (\<lambda>c.
     case join_errs [err_of s, err_of c] of None \<Rightarrow> retE () | Some e \<Rightarrow> failE e)))"

definition replace_stage :: "content \<Rightarrow> path \<Rightarrow> unit io" where
  "replace_stage c t = bindE (chmod t 416) (\<lambda>_. bindE (write_data t c) (\<lambda>_.
     bindE (fsync t) (\<lambda>_. close_file t)))"

definition replaceContents :: "path \<Rightarrow> content \<Rightarrow> unit io" where
  "replaceContents p c =
     bindE (create_temp (butlast p) ''.operation-'') (\<lambda>t.
       deferE (bindE (replace_stage c t) (\<lambda>_. bindE (rename t p) (\<lambda>_. sync_and_close (butlast p))))
              (remove t))"

text \<open>The lock of an instance. Another holder, in this process or another one, makes the
  attempt fail.\<close>

definition lock_dir :: "'d manager \<Rightarrow> string \<Rightarrow> path" where
  "lock_dir m inst = manager_dir m @ [''instances'', inst]"

definition acquireLock :: "'d manager \<Rightarrow> string \<Rightarrow> ('d host, unit) act" where
  "acquireLock m inst =
     bindE (onW (mkdir_all (lock_dir m inst) 488)) (\<lambda>_.
     bindE (onW (open_create (lock_dir m inst @ [''operation.lock'']) 416)) (\<lambda>_.
     bindE (wrapE (\<lambda>_. Sentinel ErrActive) (onW (flock (lock_dir m inst @ [''operation.lock''])))) (\<lambda>_.
     \<lambda>h. if inst \<in> set (ho_locked h) then (Inl (Sentinel ErrActive), h)
         else (Inr (), h\<lparr>ho_locked := inst # ho_locked h\<rparr>))))"

definition releaseLock :: "'d manager \<Rightarrow> string \<Rightarrow> ('d host, unit) act" where
  "releaseLock m inst =
     bindE (ignoreE (onW (close_file (lock_dir m inst @ [''operation.lock''])))) (\<lambda>_.
     \<lambda>h. (Inr (), h\<lparr>ho_locked := filter (\<lambda>i. i \<noteq> inst) (ho_locked h)\<rparr>))"

section \<open>The journal on disk\<close>

definition bound_operation :: "operation \<Rightarrow> operation" where
  "bound_operation x = x\<lparr>on_stages :=
       map (\<lambda>s. s\<lparr>sg_message := boundedOperationMessage (sg_message s)\<rparr>) (boundedOperationStages (on_stages x)),
     on_error := boundedOperationMessage (on_error x)\<rparr>"

definition saveOperation :: "'d manager \<Rightarrow> ('d host, unit) act" where
  "saveOperation m =
     bindE (modifyOp bound_operation) (\<lambda>_.
     bindE getOp (\<lambda>x.
     bindE (onW (mkdir_all (operationsDir m (on_instance x)) 488)) (\<lambda>_.
     bindE (onW (updateOperation (coordinationStore m) (on_instance x) (on_id x) (operation_to_json x))) (\<lambda>_.
     onW (forE (\<lambda>p. replaceContents p (Json (operation_to_json x)))
       [operation_path m (on_instance x) (on_id x), currentPath m (on_instance x)])))))"

text \<open>\<open>read\<close>: an empty identifier accepts any operation of the instance.\<close>

definition readOperation :: "path \<Rightarrow> string \<Rightarrow> string \<Rightarrow> operation io" where
  "readOperation p inst op =
     bindE (lstat p) (\<lambda>i.
     if i_kind i \<noteq> KRegular \<or> i_size i < 1 \<or> i_size i > 2 * 1024 * 1024
     then failE (Msg ''operation state is invalid'')
     else bindE (read_file p) (\<lambda>c.
       case (case c of Json j \<Rightarrow> operation_decode True j | Text _ \<Rightarrow> None) of
         None \<Rightarrow> failE (Msg ''operation state is invalid'')
       | Some x \<Rightarrow>
           if on_schema x \<noteq> 1 \<or> on_instance x \<noteq> inst \<or> \<not> op_id_ok (on_id x) \<or> (op \<noteq> [] \<and> on_id x \<noteq> op)
           then failE (Msg ''operation state is invalid'') else retE x))"

definition Current :: "'d manager \<Rightarrow> string \<Rightarrow> ('d host, operation) act" where
  "Current m inst =
     (if \<not> instance_id_ok inst then failE (Msg ''managed instance identifier is invalid'')
      else onW (readOperation (currentPath m inst) inst []))"

definition GetOperation :: "'d manager \<Rightarrow> string \<Rightarrow> string \<Rightarrow> ('d host, operation) act" where
  "GetOperation m inst op =
     (if \<not> instance_id_ok inst \<or> \<not> op_id_ok op then failE (Msg ''operation identifier is invalid'')
      else onW (readOperation (operation_path m inst op) inst op))"

definition RecoveryPoints :: "'d manager \<Rightarrow> string \<Rightarrow> ('d host, point list) act" where
  "RecoveryPoints m inst = (case mg_deployment m of
       None \<Rightarrow> failE (Msg ''deployment service is unavailable'')
     | Some d \<Rightarrow> mp_list_points d inst)"

section \<open>Stages of an operation\<close>

definition updateStage :: "stage \<Rightarrow> ('d host, unit) act \<Rightarrow> ('d host, unit) act" where
  "updateStage s save =
     bindE (modifyOp (\<lambda>x. x\<lparr>on_current := sg_name s, on_stages := on_stages x @ [s]\<rparr>)) (\<lambda>_. save)"

definition new_stage :: "'d manager \<Rightarrow> string \<Rightarrow> string \<Rightarrow> string \<Rightarrow> ('d host, stage) act" where
  "new_stage m name status message =
     bindE (now m) (\<lambda>t. retE \<lparr>sg_name = name, sg_status = status, sg_message = message, sg_at = t\<rparr>)"

definition put_stage :: "'d manager \<Rightarrow> ('d host, unit) act \<Rightarrow> string \<Rightarrow> string \<Rightarrow> string \<Rightarrow> ('d host, unit) act" where
  "put_stage m save name status message =
     bindE (new_stage m name status message) (\<lambda>s. updateStage s save)"

definition fail_operation :: "string \<Rightarrow> operation \<Rightarrow> operation" where
  "fail_operation e x = x\<lparr>on_status := StatusFailed, on_error := e\<rparr>"

definition failPersistence :: "string \<Rightarrow> err \<Rightarrow> ('d host, unit) act" where
  "failPersistence stg e = modifyOp (fail_operation (''persist '' @ stg @ '' stage: '' @ error_text e))"

text \<open>\<open>step\<close>: announce the stage, run it, record how it went.\<close>

definition run_step ::
    "'d manager \<Rightarrow> ('d host, unit) act \<Rightarrow> string \<Rightarrow> ('d host, unit) act \<Rightarrow> ('d host, bool) act" where
  "run_step m save name run =
     checkE (put_stage m save name ''running'' (if name = ''resume'' then ResumeBoundaryMessage else []))
       (\<lambda>e. bindE (failPersistence name e) (\<lambda>_. retE False)) (\<lambda>_.
     checkE run
       (\<lambda>e. bindE (tryE (put_stage m save name ''failed'' (error_text e))) (\<lambda>r.
            let e' = (case r of Inl se \<Rightarrow> Joined [e, Wrap (''persist '' @ name @ '' failure'') se] | Inr _ \<Rightarrow> e)
            in bindE (modifyOp (fail_operation (error_text e'))) (\<lambda>_. retE False))) (\<lambda>_.
     checkE (put_stage m save name ''succeeded'' [])
       (\<lambda>e. bindE (failPersistence name e) (\<lambda>_. retE False)) (\<lambda>_. retE True)))"

definition op_resumeAndVerify :: "'d manager \<Rightarrow> 'd host services \<Rightarrow> ('d host, unit) act \<Rightarrow> ('d host, unit) act" where
  "op_resumeAndVerify m d save =
     bindE getOp (\<lambda>x.
     bindE (run_step m save ''resume'' (dp_resume (mp_base d) (on_instance x))) (\<lambda>ok.
     if \<not> ok then bindE getOp (\<lambda>x. failE (Msg (on_error x)))
     else bindE getOp (\<lambda>x.
       bindE (run_step m save ''verify'' (dp_verify (mp_base d) (on_instance x))) (\<lambda>ok.
       if \<not> ok then bindE getOp (\<lambda>x. failE (Msg (on_error x))) else retE ()))))"

definition set_status :: "string \<Rightarrow> ('d host, unit) act" where
  "set_status st = modifyOp (on_status_update (\<lambda>_. st))"

definition resumeAfterFailure :: "'d manager \<Rightarrow> 'd host services \<Rightarrow> ('d host, unit) act" where
  "resumeAfterFailure m d =
     bindE getOp (\<lambda>x.
     checkE (op_resumeAndVerify m d (saveOperation m))
       (\<lambda>e. modifyOp (\<lambda>y. y\<lparr>on_error := joined [Some (Msg (on_error x)), Some e], on_status := StatusRecoveryRequired\<rparr>))
       retE)"

text \<open>\<open>requireDeployment\<close> in front of a runner.\<close>

definition with_deployment :: "'d manager \<Rightarrow> ('d host services \<Rightarrow> ('d host, unit) act) \<Rightarrow> ('d host, unit) act" where
  "with_deployment m k = (case mg_deployment m of
       None \<Rightarrow> modifyOp (fail_operation ''deployment service is unavailable'')
     | Some d \<Rightarrow> k d)"

section \<open>Runners\<close>

type_synonym 'd runner = "('d host, unit) act \<Rightarrow> ('d host, unit) act"

definition update_observer :: "('d host, unit) act \<Rightarrow> 'd host observer" where
  "update_observer save s =
     bindE (if sg_name s = ''backup'' \<and> sg_status s = ''succeeded'' \<and> sg_message s \<noteq> []
            then modifyOp (on_point_update (\<lambda>_. sg_message s)) else retE ()) (\<lambda>_.
     updateStage s save)"

definition update_result :: "result \<Rightarrow> operation \<Rightarrow> operation" where
  "update_result r x =
     (let y = x\<lparr>on_point := rs_point r, on_target := rl_version (rs_target r), on_error := rs_error r\<rparr>
      in if rs_status r = StatusSucceeded then y\<lparr>on_status := StatusSucceeded\<rparr>
         else if rs_status r = StatusRecoveryRequired then y\<lparr>on_status := StatusRecoveryRequired\<rparr>
         else if rs_status r = StatusRolledBack then y\<lparr>on_status := StatusRolledBack\<rparr>
         else if updateRecoveryNeeded y then y\<lparr>on_status := StatusRecoveryRequired\<rparr>
         else y\<lparr>on_status := StatusFailed\<rparr>)"

definition updateRunner :: "'d manager \<Rightarrow> string \<Rightarrow> options \<Rightarrow> 'd runner" where
  "updateRunner m inst opt save =
     bindE getOp (\<lambda>x.
     bindE (RunWithOptions (mg_engine m) inst (opt\<lparr>op_operation := on_id x\<rparr>) (Some (update_observer save))) (\<lambda>r.
     modifyOp (update_result r)))"

definition backupRunner :: "'d manager \<Rightarrow> string \<Rightarrow> 'd runner" where
  "backupRunner m inst save = with_deployment m (\<lambda>d.
     bindE (run_step m save ''preflight'' (dp_verify (mp_base d) inst)) (\<lambda>pre.
     if \<not> pre then retE () else
     bindE (run_step m save ''quiesce'' (dp_quiesce (mp_base d) inst)) (\<lambda>stopped.
     if \<not> stopped then resumeAfterFailure m d else
     bindE (run_step m save ''backup''
       (checkE (dp_point (mp_base d) inst ''manual-backup'')
          (\<lambda>e. bindE (modifyOp (on_point_update (\<lambda>_. []))) (\<lambda>_. failE e))
          (\<lambda>pid. modifyOp (on_point_update (\<lambda>_. pid))))) (\<lambda>backupOK.
     bindE (run_step m save ''resume'' (dp_resume (mp_base d) inst)) (\<lambda>resumeOK.
     bindE (if resumeOK then retE ()
            else bindE (set_status StatusRecoveryRequired) (\<lambda>_. resumeAfterFailure m d)) (\<lambda>_.
     if backupOK \<and> resumeOK then
       bindE (run_step m save ''verify'' (dp_verify (mp_base d) inst)) (\<lambda>ok.
         set_status (if ok then StatusSucceeded else StatusRecoveryRequired))
     else retE ()))))))"

definition rollbackRunner :: "'d manager \<Rightarrow> string \<Rightarrow> string \<Rightarrow> 'd runner" where
  "rollbackRunner m inst pid save = with_deployment m (\<lambda>d.
     bindE (run_step m save ''preflight'' (mp_validate_point d inst pid)) (\<lambda>ok.
     if \<not> ok then retE () else
     bindE (run_step m save ''quiesce'' (mp_quiesce_recovery d inst pid)) (\<lambda>ok.
     if \<not> ok then set_status StatusRecoveryRequired else
     bindE getOp (\<lambda>x.
     bindE (run_step m save ''rollback''
       (dp_rollback (mp_base d) inst \<lparr>rr_point = pid, rr_transaction = on_id x\<rparr>)) (\<lambda>ok.
     if \<not> ok then set_status StatusRecoveryRequired else
     bindE (run_step m save ''resume'' (dp_resume (mp_base d) inst)) (\<lambda>ok.
     if \<not> ok then set_status StatusRecoveryRequired else
     bindE (run_step m save ''verify'' (dp_verify (mp_base d) inst)) (\<lambda>ok.
     set_status (if ok then StatusSucceeded else StatusRecoveryRequired))))))))"

definition verifyRunner :: "'d manager \<Rightarrow> string \<Rightarrow> 'd runner" where
  "verifyRunner m inst save = with_deployment m (\<lambda>d.
     bindE (run_step m save ''verify'' (dp_verify (mp_base d) inst)) (\<lambda>ok.
     if ok then set_status StatusSucceeded else retE ()))"

definition switch_back_result :: "result \<Rightarrow> operation \<Rightarrow> operation" where
  "switch_back_result r x =
     x\<lparr>on_error := rs_error r, on_target := rl_version (rs_target r),
       on_status := (if rs_status r = StatusSucceeded \<or> rs_status r = StatusRolledBack then StatusSucceeded
                     else if rs_status r = StatusRecoveryRequired then StatusRecoveryRequired
                     else StatusFailed)\<rparr>"

definition switchBackRunner :: "'d manager \<Rightarrow> string \<Rightarrow> 'd runner" where
  "switchBackRunner m inst save =
     (case Option.bind (mg_deployment m) mp_switch_back of
        None \<Rightarrow> modifyOp (fail_operation ''application switch-back is unavailable'')
      | Some f \<Rightarrow>
          bindE getOp (\<lambda>x.
          bindE (liftR (f inst (on_id x) (\<lambda>s. updateStage s save))) (\<lambda>r.
          modifyOp (switch_back_result r))))"

definition runner_of :: "'d manager \<Rightarrow> string \<Rightarrow> job \<Rightarrow> 'd runner" where
  "runner_of m inst j = (case j of
       RunUpdate opt \<Rightarrow> updateRunner m inst opt
     | RunBackup \<Rightarrow> backupRunner m inst
     | RunRollback pid \<Rightarrow> rollbackRunner m inst pid
     | RunRestore pid \<Rightarrow> (\<lambda>save. bindE (modifyOp (on_point_update (\<lambda>_. pid))) (\<lambda>_. rollbackRunner m inst pid save))
     | RunVerify \<Rightarrow> verifyRunner m inst
     | RunSwitchBack \<Rightarrow> switchBackRunner m inst)"

end
