(* ===== verification/Dispatch.thy ===== *)
theory Dispatch
  imports Manager
begin

text \<open>
  How the operation manager admits, starts, repairs and recovers operations
  (\<open>internal/operation\<close>: \<open>coordination.go\<close>, \<open>planned.go\<close> and the rest of \<open>manager.go\<close>).

  \<^item> \<open>startAccepted\<close> records the goroutine it spawns in \<open>ho_jobs\<close>; its body is \<open>goroutine\<close>, run
    by the step relation of theory \<open>Exclusion\<close>.
\<close>

section \<open>Identifiers\<close>

definition newID :: "'d manager \<Rightarrow> ('d host, string) act" where
  "newID m =
     bindE (onW (read_random 8)) (\<lambda>suffix.
     bindE (now m) (\<lambda>t. retE (time_stamp t @ ''-'' @ hex_encode suffix)))"

section \<open>Operations in the authority\<close>

definition action_kind :: "string \<Rightarrow> string" where
  "action_kind action = (if action = ''restore'' then KindRollback else action)"

definition known_status :: "string \<Rightarrow> bool" where
  "known_status st \<longleftrightarrow> st \<in> {StatusQueued, StatusRunning, StatusSucceeded, StatusFailed, StatusRolledBack,
     StatusRecoveryRequired}"

definition admissionOperation :: "admission \<Rightarrow> err + operation" where
  "admissionOperation a =
     (case Option.bind (ad_operation a) (operation_decode True) of
        None \<Rightarrow> Inl (Msg ''invalid admission operation data'')
      | Some x \<Rightarrow>
          if on_schema x \<noteq> 1 \<or> on_id x \<noteq> ad_operation_id a \<or> on_instance x \<noteq> ad_instance a \<or>
             on_kind x \<noteq> action_kind (ad_action a) \<or> on_started x = zero_time \<or>
             length (on_stages x) > maximumOperationStages
          then Inl (Msg ''admission operation identity is invalid'')
          else if \<not> known_status (on_status x) then Inl (Msg ''admission operation status is invalid'')
          else Inr x)"

definition zero_admission :: admission where
  "zero_admission = \<lparr>ad_sequence = 0, ad_schema = 0, ad_instance = [], ad_request = [], ad_business = [],
     ad_operation_id = [], ad_action = [], ad_plan = [], ad_epoch = [], ad_actor = zero_actor, ad_scope = [],
     ad_counter = 0, ad_accepted = zero_time, ad_point = [], ad_operation = None\<rparr>"

definition headOperation :: "head \<Rightarrow> err + operation" where
  "headOperation h =
     (case Option.bind (hd_operation h) (operation_decode False) of
        None \<Rightarrow> Inl (Msg ''invalid operation head'')
      | Some x \<Rightarrow>
          if on_kind x \<notin> {KindRollback, KindUpdate, KindBackup, KindSwitchBack, KindVerify}
          then Inl (Msg ''invalid operation head kind'')
          else admissionOperation (zero_admission\<lparr>ad_instance := hd_instance h, ad_operation_id := hd_operation_id h,
                 ad_action := (if on_kind x = KindRollback then ''restore'' else on_kind x),
                 ad_operation := hd_operation h\<rparr>))"

text \<open>The contents of a projection: the raw message of the record.\<close>

definition project :: "path \<Rightarrow> json option \<Rightarrow> unit io" where
  "project p j = replaceContents p (Json (raw_json j))"

definition repair_admission :: "path \<Rightarrow> admission \<Rightarrow> unit io" where
  "repair_admission d a =
     bindE (liftE (admissionOperation a)) (\<lambda>x. project (d @ [json_name (on_id x)]) (ad_operation a))"

definition repair_files :: "'d manager \<Rightarrow> string \<Rightarrow> head \<Rightarrow> unit io" where
  "repair_files m inst latest =
     bindE (liftE (headOperation latest)) (\<lambda>current.
     bindE (storeAdmissions (coordinationStore m) inst) (\<lambda>records.
     bindE (syncAuthority (coordinationStore m) inst) (\<lambda>_.
     bindE (mkdir_all (operationsDir m inst) 488) (\<lambda>_.
     bindE (forE (repair_admission (operationsDir m inst)) records) (\<lambda>_.
     bindE (project (operation_path m inst (on_id current)) (hd_operation latest)) (\<lambda>_.
     project (currentPath m inst) (hd_operation latest)))))))"

definition repairAdmissions :: "'d manager \<Rightarrow> string \<Rightarrow> unit io" where
  "repairAdmissions m inst =
     bindE (tryE (storeLatest (coordinationStore m) inst)) (\<lambda>r. case r of
       Inl e \<Rightarrow> if err_is ErrNotExist e then retE () else failE e
     | Inr latest \<Rightarrow> repair_files m inst latest)"

section \<open>Starting an operation\<close>

definition active_id :: "'d host \<Rightarrow> string \<Rightarrow> string" where
  "active_id h inst = (case map_of (ho_active h) inst of None \<Rightarrow> [] | Some op \<Rightarrow> op)"

definition blocks :: "string \<Rightarrow> operation \<Rightarrow> bool" where
  "blocks kind x \<longleftrightarrow> on_status x = StatusQueued \<or> on_status x = StatusRunning \<or>
     (on_status x = StatusRecoveryRequired \<and> kind \<noteq> KindRollback)"

definition check_current :: "'d manager \<Rightarrow> string \<Rightarrow> string \<Rightarrow> ('d host, unit) act" where
  "check_current m inst kind =
     bindE (tryE (Current m inst)) (\<lambda>r. case r of
       Inr x \<Rightarrow> if blocks kind x then failE (Sentinel ErrActive) else retE ()
     | Inl e \<Rightarrow> if err_is ErrNotExist e then retE () else failE (Wrap ''read current operation'' e))"

definition queued_operation :: "string \<Rightarrow> string \<Rightarrow> string \<Rightarrow> string \<Rightarrow> int \<Rightarrow> operation" where
  "queued_operation op inst kind pid t = zero_operation\<lparr>on_schema := 1, on_id := op, on_instance := inst,
     on_kind := kind, on_status := StatusQueued, on_stages := [], on_point := pid, on_started := t\<rparr>"

text \<open>What \<open>startAccepted\<close> does with the lock held: \<open>'v\<close> is what the validation hands to the
  acceptance and the runner.\<close>

definition accept_operation ::
  "'d manager \<Rightarrow> string \<Rightarrow> string \<Rightarrow> string \<Rightarrow> ('d host, 'v) act \<Rightarrow> ('v \<Rightarrow> ('d host, unit) act) option \<Rightarrow>
   ('d host, operation \<times> 'v) act" where
  "accept_operation m inst kind pid check accept =
     bindE (onW (repairAdmissions m inst)) (\<lambda>_.
     bindE (check_current m inst kind) (\<lambda>_.
     bindE check (\<lambda>v.
     bindE (newID m) (\<lambda>op.
     bindE (now m) (\<lambda>t.
     bindE (modifyOp (\<lambda>_. queued_operation op inst kind pid t)) (\<lambda>_.
     bindE (case accept of
         Some acc \<Rightarrow> acc v
       | None \<Rightarrow> bindE getOp (\<lambda>x.
           onW (beginLegacy (coordinationStore m) inst op (operation_to_json x)))) (\<lambda>_.
     bindE (saveOperation m) (\<lambda>_.
     bindE getOp (\<lambda>x. retE (x, v))))))))))"

definition spawn :: "string \<Rightarrow> operation \<Rightarrow> job \<Rightarrow> ('d host, unit) act" where
  "spawn inst x j h =
     (Inr (), h\<lparr>ho_active := (inst, on_id x) # filter (\<lambda>(i, _). i \<noteq> inst) (ho_active h),
        ho_jobs := ho_jobs h @ [(inst, x, j)]\<rparr>)"

definition startAccepted ::
  "'d manager \<Rightarrow> string \<Rightarrow> string \<Rightarrow> string \<Rightarrow> ('v \<Rightarrow> job) \<Rightarrow> ('d host, 'v) act \<Rightarrow> ('v \<Rightarrow> ('d host, unit) act) option \<Rightarrow>
   ('d host, operation) act" where
  "startAccepted m inst kind pid run check accept h =
     (if \<not> instance_id_ok inst then (Inl (Msg ''managed instance identifier is invalid''), h)
      else if active_id h inst \<noteq> [] then (Inl (Sentinel ErrActive), h)
      else bindE (acquireLock m inst) (\<lambda>_.
           checkE (accept_operation m inst kind pid check accept)
             (\<lambda>e. bindE (ignoreE (releaseLock m inst)) (\<lambda>_. failE e))
             (\<lambda>(x, v). bindE (spawn inst x (run v)) (\<lambda>_. retE x))) h)"

text \<open>The goroutine of an accepted operation, its deferred clean-up included.\<close>

definition run_operation :: "'d manager \<Rightarrow> operation \<Rightarrow> 'd runner \<Rightarrow> ('d host, unit) act" where
  "run_operation m x run =
     bindE (modifyOp (\<lambda>_. x\<lparr>on_status := StatusRunning\<rparr>)) (\<lambda>_.
     checkE (saveOperation m) (\<lambda>_. retE ()) (\<lambda>_.
     bindE (run (saveOperation m)) (\<lambda>_.
     bindE (modifyOp (\<lambda>y. if on_status y = StatusRunning
              then fail_operation ''operation ended without a terminal result'' y else y)) (\<lambda>_.
     bindE (now m) (\<lambda>t.
     bindE (modifyOp (on_completed_update (\<lambda>_. Some t))) (\<lambda>_.
     ignoreE (saveOperation m)))))))"

definition clear_active :: "string \<Rightarrow> ('d host, unit) act" where
  "clear_active inst h = (Inr (), h\<lparr>ho_active := filter (\<lambda>(i, _). i \<noteq> inst) (ho_active h)\<rparr>)"

definition goroutine :: "'d manager \<Rightarrow> string \<Rightarrow> operation \<Rightarrow> job \<Rightarrow> ('d host, unit) act" where
  "goroutine m inst x j =
     deferE (run_operation m x (runner_of m inst j))
       (bindE (ignoreE (onW (funlock (lock_dir m inst @ [''operation.lock''])))) (\<lambda>_.
        bindE (ignoreE (releaseLock m inst)) (\<lambda>_. clear_active inst)))"

text \<open>\<open>start\<close>: no validation and the legacy order of operations.\<close>

definition start_legacy :: "'d manager \<Rightarrow> string \<Rightarrow> string \<Rightarrow> string \<Rightarrow> job \<Rightarrow> ('d host, operation) act" where
  "start_legacy m inst kind pid j = startAccepted m inst kind pid (\<lambda>_. j) (retE ()) None"

definition StartUpdateWithOptions :: "'d manager \<Rightarrow> string \<Rightarrow> options \<Rightarrow> ('d host, operation) act" where
  "StartUpdateWithOptions m inst opt = start_legacy m inst KindUpdate [] (RunUpdate opt)"

definition legacy_options :: options where
  "legacy_options = \<lparr>op_pinned = None, op_legacy = True, op_maintenance = False, op_expected_plan = [],
     op_operation = []\<rparr>"

definition StartUpdate :: "'d manager \<Rightarrow> string \<Rightarrow> ('d host, operation) act" where
  "StartUpdate m inst = StartUpdateWithOptions m inst legacy_options"

definition StartBackup :: "'d manager \<Rightarrow> string \<Rightarrow> ('d host, operation) act" where
  "StartBackup m inst = start_legacy m inst KindBackup [] RunBackup"

definition StartRollback :: "'d manager \<Rightarrow> string \<Rightarrow> string \<Rightarrow> ('d host, operation) act" where
  "StartRollback m inst pid =
     (if \<not> point_id_ok pid then failE (Sentinel ErrInvalidRecoveryPoint)
      else start_legacy m inst KindRollback pid (RunRollback pid))"

definition StartVerify :: "'d manager \<Rightarrow> string \<Rightarrow> ('d host, operation) act" where
  "StartVerify m inst = start_legacy m inst KindVerify [] RunVerify"

definition StartSwitchBack :: "'d manager \<Rightarrow> string \<Rightarrow> ('d host, operation) act" where
  "StartSwitchBack m inst = start_legacy m inst KindSwitchBack [] RunSwitchBack"

definition Preview :: "'d manager \<Rightarrow> string \<Rightarrow> ('d host, json) act" where
  "Preview m inst =
     (if \<not> instance_id_ok inst then failE (Msg ''invalid instance'')
      else (\<lambda>h.
        if active_id h inst \<noteq> [] then (Inl (Sentinel ErrActive), h)
        else bindE (acquireLock m inst) (\<lambda>_.
             deferE (case Option.bind (mg_deployment m) mp_preview of
                       None \<Rightarrow> failE (Msg ''upgrade planning is unavailable'')
                     | Some f \<Rightarrow> f inst)
                    (bindE (ignoreE (onW (funlock (lock_dir m inst @ [''operation.lock''])))) (\<lambda>_.
                     releaseLock m inst))) h))"

section \<open>Recovering an interrupted operation\<close>

text \<open>An operation that was accepted but never ran: nothing to recover.\<close>

definition never_ran :: "'d manager \<Rightarrow> operation \<Rightarrow> ('d host, bool) act" where
  "never_ran m x =
     (if on_stages x = [] \<and> op_id_ok (on_id x)
      then bindE (tryE (onW (storeLatest (coordinationStore m) (on_instance x)))) (\<lambda>r. case r of
             Inr h \<Rightarrow> retE (hd_operation_id h = on_id x)
           | Inl e \<Rightarrow> if err_is ErrNotExist e then retE False else failE e)
      else retE False)"

definition hold_legacy_restore :: "'d manager \<Rightarrow> operation \<Rightarrow> ('d host, string) act" where
  "hold_legacy_restore m x =
     (if hasLegacyRestoreHold (on_stages x) then failE (Msg legacyRestoreUncertain)
      else checkE (put_stage m (saveOperation m) ''rollback'' ''failed''
                     (legacyRestoreUncertain @ '': '' @ on_error x))
             (\<lambda>e. failE (Joined [Msg legacyRestoreUncertain, Wrap ''persist explicit recovery requirement'' e]))
             (\<lambda>_. failE (Msg legacyRestoreUncertain)))"

text \<open>The answer of the deployment's own journal; \<open>None\<close> is not handled.\<close>

definition released_status :: "string \<Rightarrow> result \<Rightarrow> err + string" where
  "released_status kind r =
     (if rs_status r = StatusSucceeded then Inr StatusSucceeded
      else if rs_status r = StatusRolledBack
      then Inr (if kind = KindSwitchBack then StatusSucceeded else StatusRolledBack)
      else if rs_status r = StatusFailed then Inr StatusFailed
      else Inl (Msg (rs_error r)))"

definition adopt_result :: "result \<Rightarrow> operation \<Rightarrow> operation" where
  "adopt_result r x = x\<lparr>on_point := (if rs_point r \<noteq> [] then rs_point r else on_point x),
     on_target := (if rl_version (rs_target r) \<noteq> [] then rl_version (rs_target r) else on_target x)\<rparr>"

definition reconcile_release :: "'d host services \<Rightarrow> operation \<Rightarrow> ('d host, string option) act" where
  "reconcile_release d x = (case mp_reconcile d of
       None \<Rightarrow> retE None
     | Some f \<Rightarrow>
         if on_kind x \<noteq> KindUpdate \<and> on_kind x \<noteq> KindSwitchBack then retE None
         else bindE (liftR (f (on_instance x) (on_id x))) (\<lambda>(r, handled).
           if \<not> handled then retE None
           else bindE (modifyOp (adopt_result r)) (\<lambda>_.
                bindE (liftE (released_status (on_kind x) r)) (\<lambda>st. retE (Some st)))))"

text \<open>The recovery by kind; \<open>x\<close> is the operation as it was read.\<close>

definition reconcile_kind :: "'d manager \<Rightarrow> 'd host services \<Rightarrow> operation \<Rightarrow> ('d host, string) act" where
  "reconcile_kind m d x =
     (let resume = op_resumeAndVerify m d (saveOperation m) in
      if on_kind x = KindBackup then
        bindE resume (\<lambda>_. bindE getOp (\<lambda>y.
        retE (if on_point y \<noteq> [] then StatusSucceeded else StatusFailed)))
      else if on_kind x = KindVerify then
        bindE (wrapE (Wrap ''retry interrupted verification'') (dp_verify (mp_base d) (on_instance x)))
          (\<lambda>_. retE StatusSucceeded)
      else if on_kind x = KindRollback then
        (if \<not> hasDurableResumeBoundary (on_stages x)
         then failE (Msg ''interrupted recovery has no durable resume boundary; start a new explicit data recovery'')
         else bindE resume (\<lambda>_. retE StatusSucceeded))
      else if on_kind x = KindUpdate then
        (if hasDurableResumeBoundary (on_stages x)
         then bindE resume (\<lambda>_. retE (reconciled_update_status x))
         else failE (Msg ''interrupted update recovery has no durable resume boundary; start a new explicit data recovery''))
      else failE (Msg ''interrupted operation kind is invalid''))"

definition reconcileOperation :: "'d manager \<Rightarrow> 'd host services \<Rightarrow> ('d host, string) act" where
  "reconcileOperation m d =
     bindE getOp (\<lambda>x.
     bindE (never_ran m x) (\<lambda>idle.
     if idle then retE StatusFailed
     else if legacyPartialRestore x then hold_legacy_restore m x
     else bindE (reconcile_release d x) (\<lambda>r. case r of
            Some st \<Rightarrow> retE st
          | None \<Rightarrow> reconcile_kind m d x)))"

definition recovery_failed :: "err \<Rightarrow> int \<Rightarrow> operation \<Rightarrow> operation" where
  "recovery_failed e t x =
     x\<lparr>on_status := StatusRecoveryRequired,
       on_error := ''updater service could not recover an interrupted operation: '' @ error_text e,
       on_attempts := wrap64 (on_attempts x + 1),
       on_next := Some (t + reconciliationBackoff (wrap64 (on_attempts x + 1))),
       on_completed := Some t\<rparr>"

definition recovery_done :: "string \<Rightarrow> int \<Rightarrow> operation \<Rightarrow> operation" where
  "recovery_done st t x =
     x\<lparr>on_status := st, on_error := ''updater service recovered an interrupted operation'',
       on_current := ''reconciled'', on_attempts := 0, on_next := None, on_completed := Some t\<rparr>"

text \<open>What \<open>Reconcile\<close> does with the lock held.\<close>

definition recover_current :: "'d manager \<Rightarrow> string \<Rightarrow> ('d host, unit) act" where
  "recover_current m inst =
     bindE (onW (repairAdmissions m inst)) (\<lambda>_.
     bindE (tryE (Current m inst)) (\<lambda>r. case r of
       Inl e \<Rightarrow> if err_is ErrNotExist e then retE () else failE e
     | Inr x \<Rightarrow>
         if on_status x \<noteq> StatusQueued \<and> on_status x \<noteq> StatusRunning \<and> \<not> recoveryRequired x then retE ()
         else bindE (now m) (\<lambda>t.
           if recoveryRequired x \<and> (case on_next x of None \<Rightarrow> False | Some n \<Rightarrow> t < n) then retE ()
           else (case mg_deployment m of
               None \<Rightarrow> failE (Msg ''deployment service is unavailable'')
             | Some d \<Rightarrow>
                 bindE (modifyOp (\<lambda>_. x)) (\<lambda>_.
                 checkE (reconcileOperation m d)
                   (\<lambda>e. bindE (now m) (\<lambda>t.
                        bindE (modifyOp (recovery_failed e t)) (\<lambda>_.
                        checkE (saveOperation m)
                          (\<lambda>se. failE (Joined [e, Wrap ''persist failed operation recovery'' se]))
                          (\<lambda>_. failE e))))
                   (\<lambda>st. bindE (now m) (\<lambda>t.
                         bindE (modifyOp (recovery_done st t)) (\<lambda>_. saveOperation m))))))))"

definition Reconcile :: "'d manager \<Rightarrow> string \<Rightarrow> ('d host, unit) act" where
  "Reconcile m inst =
     (if \<not> instance_id_ok inst then failE (Msg ''managed instance identifier is invalid'')
      else bindE (tryE (Current m inst)) (\<lambda>r.
           bindE (case r of
               Inr x \<Rightarrow> retE True
             | Inl e \<Rightarrow>
                 if \<not> err_is ErrNotExist e then failE e
                 else bindE (tryE (onW (storeLatest (coordinationStore m) inst))) (\<lambda>l. case l of
                        Inr h \<Rightarrow> retE True
                      | Inl le \<Rightarrow> if err_is ErrNotExist le then retE False else failE le)) (\<lambda>any.
           if \<not> any then retE ()
           else bindE (acquireLock m inst) (\<lambda>_.
                deferE (recover_current m inst)
                  (bindE (ignoreE (onW (funlock (lock_dir m inst @ [''operation.lock''])))) (\<lambda>_.
                   releaseLock m inst))))))"

end
