(* ===== verification/Submission.thy ===== *)
theory Submission
  imports Dispatch
begin

text \<open>
  The coordinated interface of the operation manager (\<open>internal/operation/coordination.go\<close>):
  plans, idempotent submissions and receipts. The authorizer, an interface in the code, is a
  parameter; \<open>Authorization\<close> models the implementation the agent passes.
\<close>

section \<open>Plans and receipts\<close>

definition background :: "'d manager \<Rightarrow> string \<Rightarrow> ('d host, string) act" where
  "background m inst =
     bindE (tryE (onW (rcRead (control_store m) inst))) (\<lambda>r. case r of
       Inr a \<Rightarrow> retE (if rs_phase (ra_state a) = ''ready'' then ''ready'' else ''held'')
     | Inl e \<Rightarrow> retE ''held'')"

record capabilities =
  ca_actions :: "string list"
  ca_background :: string
  ca_host :: string
  ca_epoch :: string
  ca_phase :: string

definition Capabilities :: "'d manager \<Rightarrow> string \<Rightarrow> ('d host, capabilities) act" where
  "Capabilities m inst =
     (if inst \<noteq> ''primary'' then failE (Msg ''invalid instance'')
      else case Option.bind (mg_deployment m) mp_snapshot of
        None \<Rightarrow> failE (Msg ''coordinated deployment is unavailable'')
      | Some _ \<Rightarrow>
          bindE (onW (rcRead (control_store m) inst)) (\<lambda>a.
          bindE (background m inst) (\<lambda>b.
          retE \<lparr>ca_actions = (if rs_phase (ra_state a) \<noteq> ''ready'' then [''restore'']
                               else [''update'', ''backup'', ''restore'', ''switch-back'']),
            ca_background = b, ca_host = rs_host (ra_state a), ca_epoch = rs_epoch (ra_state a),
            ca_phase = rs_phase (ra_state a)\<rparr>)))"

text \<open>An operation that is active or needs a recovery other than the requested one.\<close>

definition plan_blocked :: "string \<Rightarrow> operation \<Rightarrow> bool" where
  "plan_blocked action x \<longleftrightarrow> on_status x = StatusQueued \<or> on_status x = StatusRunning \<or>
     (on_status x = StatusRecoveryRequired \<and> action \<noteq> ''restore'')"

definition new_plan :: "'d manager \<Rightarrow> string \<Rightarrow> plan_request \<Rightarrow> snapshot \<Rightarrow> string \<Rightarrow> string \<Rightarrow> int \<Rightarrow> plan" where
  "new_plan m inst rq sn pid epoch t =
     (let p = \<lparr>pl_schema = 2, pl_instance = inst, pl_id = pid, pl_sha = [], pl_baseline = sn_baseline sn,
          pl_epoch = epoch, pl_action = pr_action rq, pl_actor = pr_actor rq, pl_expires = t + 10 * minute_ns,
          pl_maintenance = sn_maintenance sn, pl_continuation = sn_continuation sn, pl_point = pr_point rq,
          pl_details = sn_details sn, pl_snapshot = Some (mg_marshal m sn)\<rparr>
      in p\<lparr>pl_sha := plan_digest (mg_sha m) p\<rparr>)"

definition make_plan ::
  "'d manager \<Rightarrow> (string \<Rightarrow> string \<Rightarrow> string \<Rightarrow> ('d host, snapshot) act) \<Rightarrow> string \<Rightarrow> plan_request \<Rightarrow> ('d host, plan) act" where
  "make_plan m planner inst rq =
     bindE (onW (repairAdmissions m inst)) (\<lambda>_.
     bindE (tryE (Current m inst)) (\<lambda>r.
     bindE (case r of
         Inr x \<Rightarrow> if plan_blocked (pr_action rq) x then failE (Sentinel ErrActive) else retE ()
       | Inl e \<Rightarrow> if err_is ErrNotExist e then retE () else failE e) (\<lambda>_.
     bindE (onW (rcRead (control_store m) inst)) (\<lambda>a.
     if rs_epoch (ra_state a) \<noteq> pr_epoch rq then failE (Sentinel ErrEpoch)
     else
       bindE (planner inst (pr_action rq) (pr_point rq)) (\<lambda>sn.
       bindE (onW (read_random 16)) (\<lambda>bytes.
       bindE (now m) (\<lambda>t.
       let p = new_plan m inst rq sn (hex_encode bytes) (rs_epoch (ra_state a)) t
       in bindE (onW (savePlan (coordinationStore m) p)) (\<lambda>_. retE (plan_public p)))))))))"

definition CreatePlan :: "'d manager \<Rightarrow> string \<Rightarrow> plan_request \<Rightarrow> ('d host, plan) act" where
  "CreatePlan m inst rq =
     (if inst \<noteq> ''primary'' \<or> \<not> plan_request_valid rq then failE (Sentinel ErrPlan)
      else case Option.bind (mg_deployment m) mp_snapshot of
        None \<Rightarrow> failE (Sentinel ErrPlan)
      | Some planner \<Rightarrow>
          bindE (acquireLock m inst) (\<lambda>_. deferE (make_plan m planner inst rq) (releaseLock m inst)))"

definition GetPlan :: "'d manager \<Rightarrow> string \<Rightarrow> string \<Rightarrow> ('d host, plan) act" where
  "GetPlan m inst pid = bindE (onW (storePlan (coordinationStore m) inst pid)) (\<lambda>p. retE (plan_public p))"

definition receipt_of :: "'d manager \<Rightarrow> string \<Rightarrow> admission \<Rightarrow> ('d host, receipt) act" where
  "receipt_of m inst a =
     bindE (liftE (admissionOperation a)) (\<lambda>_.
     bindE (background m inst) (\<lambda>b. retE (admission_receipt a b)))"

definition Request :: "'d manager \<Rightarrow> string \<Rightarrow> string \<Rightarrow> ('d host, receipt) act" where
  "Request m inst rq = bindE (onW (storeRequest (coordinationStore m) inst rq)) (receipt_of m inst)"

definition OperationReceipt :: "'d manager \<Rightarrow> string \<Rightarrow> string \<Rightarrow> ('d host, receipt) act" where
  "OperationReceipt m inst op = bindE (onW (storeOperation (coordinationStore m) inst op)) (receipt_of m inst)"

section \<open>Submissions\<close>

type_synonym 'd authorizer =
  "string \<Rightarrow> string \<Rightarrow> string \<Rightarrow> ('d host, bool) act \<Rightarrow> (int \<Rightarrow> ('d host, unit) act) \<Rightarrow> ('d host, unit) act"

text \<open>The closure \<open>lookup\<close>: the receipt of the same request, if it was admitted.\<close>

definition lookup_request :: "'d manager \<Rightarrow> string \<Rightarrow> submit_request \<Rightarrow> ('d host, bool) act" where
  "lookup_request m inst rq =
     bindE (tryE (Request m inst (sr_request rq))) (\<lambda>r. case r of
       Inl e \<Rightarrow> if err_is ErrNotExist e then retE False else failE e
     | Inr x \<Rightarrow>
         if rc_business x \<noteq> business_sha (mg_sha m) rq then failE (Sentinel ErrConflict)
         else (\<lambda>h. (Inr True, h\<lparr>ho_receipt := x\<rparr>)))"

text \<open>The closure \<open>validate\<close>, run with the operation lock held.\<close>

definition plan_matches :: "submit_request \<Rightarrow> plan \<Rightarrow> int \<Rightarrow> bool" where
  "plan_matches rq p t \<longleftrightarrow> pl_sha p = sr_plan_sha rq \<and> pl_action p = sr_action rq \<and>
     pl_epoch p = sr_epoch rq \<and> pl_actor p = sr_actor rq \<and> t < pl_expires p"

definition plan_confirmed :: "submit_request \<Rightarrow> plan \<Rightarrow> bool" where
  "plan_confirmed rq p \<longleftrightarrow> \<not> ((pl_maintenance p \<and> \<not> sr_allow_maintenance rq) \<or>
     (pl_continuation p = ''host_only'' \<and> \<not> sr_confirm_host rq))"

definition same_baseline :: "'d manager \<Rightarrow> snapshot \<Rightarrow> plan \<Rightarrow> err + snapshot" where
  "same_baseline m current p =
     (if sn_baseline current \<noteq> pl_baseline p then Inl (Sentinel ErrBaseline)
      else case Option.bind (pl_snapshot p) (mg_unmarshal m) of
        None \<Rightarrow> Inl (Msg ''invalid plan snapshot'')
      | Some sn \<Rightarrow> if sn_baseline sn \<noteq> sn_baseline current then Inl (Sentinel ErrPlan) else Inr sn)"

definition validate_submission :: "'d manager \<Rightarrow> string \<Rightarrow> submit_request \<Rightarrow> ('d host, plan \<times> snapshot) act" where
  "validate_submission m inst rq =
     bindE (wrapE (\<lambda>_. Sentinel ErrPlan) (onW (storePlan (coordinationStore m) inst (sr_plan rq)))) (\<lambda>p.
     bindE (now m) (\<lambda>t.
     if \<not> plan_matches rq p t then failE (Sentinel ErrPlan)
     else if \<not> plan_confirmed rq p then failE (Sentinel ErrConfirmation)
     else bindE (onW (rcRead (control_store m) inst)) (\<lambda>a.
       if rs_epoch (ra_state a) \<noteq> sr_epoch rq then failE (Sentinel ErrEpoch)
       else case Option.bind (mg_deployment m) mp_snapshot of
         None \<Rightarrow> failE (Sentinel ErrPlan)
       | Some planner \<Rightarrow>
           bindE (planner inst (pl_action p) (pl_point p)) (\<lambda>current.
           bindE (liftE (same_baseline m current p)) (\<lambda>sn.
           bindE (now m) (\<lambda>t.
           if \<not> t < pl_expires p then failE (Sentinel ErrPlan) else retE (p, sn)))))))"

text \<open>The closure \<open>accept\<close>: the code must still be fresh when the admission is written.\<close>

definition unix_counter :: "int \<Rightarrow> int" where
  "unix_counter t = go_div (t div second_ns) 30"

definition submitted_admission :: "'d manager \<Rightarrow> string \<Rightarrow> submit_request \<Rightarrow> int \<Rightarrow> plan \<Rightarrow> operation \<Rightarrow> int \<Rightarrow> admission" where
  "submitted_admission m inst rq counter p x t =
     \<lparr>ad_sequence = 0, ad_schema = 2, ad_instance = inst, ad_request = sr_request rq,
      ad_business = business_sha (mg_sha m) rq, ad_operation_id = on_id x, ad_action = sr_action rq,
      ad_plan = pl_id p, ad_epoch = pl_epoch p, ad_actor = pl_actor p, ad_scope = scope (sr_action rq),
      ad_counter = counter, ad_accepted = t, ad_point = pl_point p, ad_operation = Some (operation_to_json x)\<rparr>"

definition accept_submission ::
  "'d manager \<Rightarrow> string \<Rightarrow> submit_request \<Rightarrow> int \<Rightarrow> plan \<times> snapshot \<Rightarrow> ('d host, unit) act" where
  "accept_submission m inst rq counter v =
     bindE (if sr_action rq = ''restore'' then modifyOp (on_point_update (\<lambda>_. pl_point (fst v))) else retE ()) (\<lambda>_.
     bindE (now m) (\<lambda>t.
     if counter < wrap64 (unix_counter t - 1) \<or> counter > wrap64 (unix_counter t + 1)
     then failE (Sentinel ErrInvalid)
     else bindE getOp (\<lambda>x.
       onW (storeAccept (coordinationStore m) (submitted_admission m inst rq counter (fst v) x t)))))"

definition submitted_job :: "submit_request \<Rightarrow> plan \<times> snapshot \<Rightarrow> job" where
  "submitted_job rq v =
     (if sr_action rq = ''update''
      then RunUpdate \<lparr>op_pinned = sn_target (snd v), op_legacy = False, op_maintenance = sr_allow_maintenance rq,
             op_expected_plan = sn_plan (snd v), op_operation = []\<rparr>
      else if sr_action rq = ''backup'' then RunBackup
      else if sr_action rq = ''restore'' then RunRestore (pl_point (fst v))
      else RunSwitchBack)"

text \<open>The callback under the authorization: start the operation, then believe only what was
  written: an admission that is on disk is accepted whatever failed after it.\<close>

definition submit_callback :: "'d manager \<Rightarrow> string \<Rightarrow> submit_request \<Rightarrow> int \<Rightarrow> ('d host, unit) act" where
  "submit_callback m inst rq counter =
     bindE (tryE (startAccepted m inst (action_kind (sr_action rq)) [] (submitted_job rq)
       (validate_submission m inst rq) (Some (accept_submission m inst rq counter)))) (\<lambda>started.
     bindE (lookup_request m inst rq) (\<lambda>found.
     if found then retE () else liftE (case started of Inl e \<Rightarrow> Inl e | Inr _ \<Rightarrow> Inr ())))"

definition zero_receipt :: receipt where
  "zero_receipt = \<lparr>rc_schema = 0, rc_instance = [], rc_request = [], rc_business = [], rc_operation_id = [],
     rc_action = [], rc_plan = [], rc_epoch = [], rc_admission = [], rc_background = [], rc_operation = None\<rparr>"

definition getReceipt :: "('d host, receipt) act" where
  "getReceipt h = (Inr (ho_receipt h), h)"

definition Submit ::
  "'d manager \<Rightarrow> 'd authorizer option \<Rightarrow> string \<Rightarrow> submit_request \<Rightarrow> string \<Rightarrow> ('d host, receipt) act" where
  "Submit m auth inst rq otp =
     (if inst \<noteq> ''primary'' \<or> \<not> submit_valid rq then failE (Sentinel ErrPlan)
      else bindE (\<lambda>h. (Inr (), h\<lparr>ho_receipt := zero_receipt\<rparr>)) (\<lambda>_.
           bindE (lookup_request m inst rq) (\<lambda>found.
           if found then getReceipt
           else case auth of
             None \<Rightarrow> failE (Sentinel ErrUnconfigured)
           | Some au \<Rightarrow>
               bindE (au inst (scope (sr_action rq)) otp (lookup_request m inst rq) (submit_callback m inst rq)) (\<lambda>_.
               getReceipt))))"

end
