(* ===== verification/CoordLaws.thy ===== *)
theory CoordLaws
  imports CoordStore
begin

text \<open>
  What the coordination store guarantees. Readers are related to a pure view of the files
  (\<open>record_at\<close>, \<open>admission_at\<close>, \<open>head_at\<close>): a reader changes no file, and what it
  returns is the view. Writers satisfy the contract of \<open>atomic_put\<close>, or of an exclusive
  creation, at every fault.
\<close>

section \<open>Readers\<close>

lemma reads_hook [keeps_intros]: "keeps same_files (hook st stage)"
  by (simp add: hook_def reads.keeps_retE reads.keeps_failE split: option.splits)

lemma reads_read_record [keeps_intros]: "keeps same_files (read_record p)"
  unfolding read_record_def by (intro keeps_intros)

lemma reads_entries [keeps_intros]: "keeps same_files (entries d)"
  unfolding entries_def by (intro keeps_intros)

lemma reads_storeRequest [keeps_intros]: "keeps same_files (storeRequest st inst rq)"
  unfolding storeRequest_def by (intro keeps_intros)

lemma reads_storeAdmissions [keeps_intros]: "keeps same_files (storeAdmissions st inst)"
  unfolding storeAdmissions_def collect_admission_def by (intro keeps_intros)

lemma reads_storeOperation [keeps_intros]: "keeps same_files (storeOperation st inst op)"
  unfolding storeOperation_def by (intro keeps_intros)

lemma reads_storeCounter [keeps_intros]: "keeps same_files (storeCounter st inst sc)"
  unfolding storeCounter_def by (intro keeps_intros)

lemma reads_storePlan [keeps_intros]: "keeps same_files (storePlan st inst pid)"
  unfolding storePlan_def by (intro keeps_intros)

lemma reads_storeHead [keeps_intros]: "keeps same_files (storeHead st inst)"
  unfolding storeHead_def by (intro keeps_intros)

lemma reads_storeLatest [keeps_intros]: "keeps same_files (storeLatest st inst)"
  unfolding storeLatest_def by (intro keeps_intros)

lemma reads_nextSequence [keeps_intros]: "keeps same_files (nextSequence st inst)"
  unfolding nextSequence_def by (intro keeps_intros)

lemma reads_protectedPoints [keeps_intros]: "keeps same_files (protectedPoints st inst now)"
  unfolding protectedPoints_def plan_refs_def by (intro keeps_intros)

text \<open>A successful step of a reader: facts about its result and an unchanged file system.\<close>

definition yields :: "(world \<Rightarrow> 'a \<Rightarrow> bool) \<Rightarrow> 'a io \<Rightarrow> bool" where
  "yields P m \<longleftrightarrow> keeps same_files m \<and> (\<forall>w x w'. m w = (Inr x, w') \<longrightarrow> P w x)"

lemma yieldsD: "yields P m \<Longrightarrow> m w = (Inr x, w') \<Longrightarrow> P w x \<and> same_files w w'"
  by (auto simp: yields_def dest: keepsD)

definition record_at :: "world \<Rightarrow> path \<Rightarrow> json option" where
  "record_at w p =
     (case look w p of None \<Rightarrow> None
      | Some n \<Rightarrow>
          (case n_data n of Text _ \<Rightarrow> None
           | Json j \<Rightarrow> if n_kind n = KRegular \<and> n_perm n = 384 \<and> 1 \<le> w_jlen w j \<and> w_jlen w j \<le> max_record
                       then Some j else None))"

lemma record_at_same: "same_files w w' \<Longrightarrow> record_at w' p = record_at w p"
  by (auto simp: record_at_def same_files_look same_files_env split: option.splits content.splits)

lemma read_record_yields:
  assumes "read_record p w = (Inr j, w')"
  shows "record_at w p = Some j"
proof -
  from assms obtain i w1 c w2 where l: "lstat p w = (Inr i, w1)"
    and i: "i_kind i = KRegular" "i_perm i = 384" "1 \<le> i_size i" "i_size i \<le> max_record"
    and r: "read_file p w1 = (Inr c, w2)" and c: "c = Json j"
    by (auto simp: read_record_def bindE_Inr split: if_splits)
  from wp_run[OF lstat_outcome l] obtain n where n: "look w p = Some n" "i = info_of w n"
    and s: "same_files w w1" by auto
  from wp_run[OF read_file_outcome r] n s c have "n_data n = Json j"
    by (auto simp: same_files_look)
  with n i show ?thesis by (simp add: record_at_def info_of_def data_size_def)
qed

definition request_path :: "store \<Rightarrow> string \<Rightarrow> path" where
  "request_path st rq = state_dir st @ [''coordination'', ''primary'', ''admissions'', json_name rq]"

definition head_path :: "store \<Rightarrow> path" where
  "head_path st = state_dir st @ [''coordination'', ''primary'', ''head.json'']"

definition plan_path :: "store \<Rightarrow> string \<Rightarrow> path" where
  "plan_path st pid = state_dir st @ [''coordination'', ''primary'', ''plans'', json_name pid]"

definition admission_at :: "store \<Rightarrow> world \<Rightarrow> string \<Rightarrow> admission option" where
  "admission_at st w rq =
     (if \<not> identifier_ok rq then None
      else (case Option.bind (record_at w (request_path st rq)) admission_of_json of
              None \<Rightarrow> None
            | Some a \<Rightarrow> if admission_valid a \<and> ad_request a = rq then Some a else None))"

definition head_at :: "store \<Rightarrow> world \<Rightarrow> head option" where
  "head_at st w =
     (case Option.bind (record_at w (head_path st)) head_of_json of
        None \<Rightarrow> None | Some h \<Rightarrow> if head_valid h then Some h else None)"

definition plan_at :: "store \<Rightarrow> world \<Rightarrow> string \<Rightarrow> plan option" where
  "plan_at st w pid =
     (if \<not> hex32_ok pid then None
      else (case Option.bind (record_at w (plan_path st pid)) plan_of_json of
              None \<Rightarrow> None
            | Some p \<Rightarrow> if plan_valid (st_sha st) p \<and> pl_id p = pid then Some p else None))"

lemma views_same:
  assumes "same_files w w'"
  shows "admission_at st w' rq = admission_at st w rq" "head_at st w' = head_at st w"
    "plan_at st w' pid = plan_at st w pid"
  using assms by (simp_all add: admission_at_def head_at_def plan_at_def record_at_same)

lemma admission_at_props:
  "admission_at st w rq = Some a \<Longrightarrow> admission_valid a \<and> ad_request a = rq \<and> identifier_ok rq"
  by (auto simp: admission_at_def split: if_splits option.splits)

lemma root_Inr: "root st inst kind = Inr d \<longleftrightarrow> inst = ''primary'' \<and>
    d = state_dir st @ [''coordination'', ''primary''] @ (if kind = [] then [] else [kind])"
  by (auto simp: root_def)

lemma storeRequest_yields:
  assumes "storeRequest st inst rq w = (Inr a, w')"
  shows "inst = ''primary'' \<and> admission_at st w rq = Some a"
proof -
  from assms obtain d j w1 where ok: "identifier_ok rq" and d: "root st inst ''admissions'' = Inr d"
    and r: "read_record (d @ [json_name rq]) w = (Inr j, w1)"
    and a: "admission_of_json j = Some a" "admission_valid a" "ad_instance a = inst" "ad_request a = rq"
    by (auto simp: storeRequest_def bindE_Inr split: if_splits option.splits)
  from d have "d @ [json_name rq] = request_path st rq" and i: "inst = ''primary''"
    by (auto simp: root_Inr request_path_def)
  with read_record_yields[OF r] ok a show ?thesis by (simp add: admission_at_def)
qed

lemma storeHead_yields:
  assumes "storeHead st inst w = (Inr h, w')"
  shows "inst = ''primary'' \<and> head_at st w = Some h"
proof -
  from assms obtain d j w1 where d: "root st inst [] = Inr d"
    and r: "read_record (d @ [''head.json'']) w = (Inr j, w1)"
    and h: "head_of_json j = Some h" "head_valid h" "hd_instance h = inst"
    by (auto simp: storeHead_def bindE_Inr split: if_splits option.splits)
  from d have "d @ [''head.json''] = head_path st" and i: "inst = ''primary''"
    by (auto simp: root_Inr head_path_def)
  with read_record_yields[OF r] h show ?thesis by (simp add: head_at_def)
qed

lemma storePlan_yields:
  assumes "storePlan st inst pid w = (Inr p, w')"
  shows "inst = ''primary'' \<and> plan_at st w pid = Some p"
proof -
  from assms obtain d j w1 where ok: "hex32_ok pid" and d: "root st inst ''plans'' = Inr d"
    and r: "read_record (d @ [json_name pid]) w = (Inr j, w1)"
    and a: "plan_of_json j = Some p" "plan_valid (st_sha st) p" "pl_instance p = inst" "pl_id p = pid"
    by (auto simp: storePlan_def bindE_Inr split: if_splits option.splits)
  from d have "d @ [json_name pid] = plan_path st pid" and i: "inst = ''primary''"
    by (auto simp: root_Inr plan_path_def)
  with read_record_yields[OF r] ok a show ?thesis by (simp add: plan_at_def)
qed

section \<open>All admissions\<close>

text \<open>The list \<open>Admissions\<close> returns: every admission file, decoded, without duplicate
  operations or sequence numbers.\<close>

definition authority :: "store \<Rightarrow> world \<Rightarrow> admission list \<Rightarrow> bool" where
  "authority st w rs \<longleftrightarrow>
     (\<forall>a \<in> set rs. admission_at st w (ad_request a) = Some a) \<and>
     (\<forall>rq a. admission_at st w rq = Some a \<longrightarrow> a \<in> set rs) \<and>
     distinct (map ad_operation_id rs) \<and> distinct (map ad_sequence rs)"

lemma collect_admissions:
  assumes "foldE (collect_admission st inst) names acc w = (Inr rs, w')"
    and "distinct (map ad_operation_id acc)" "distinct (map ad_sequence acc)"
    and "\<forall>a \<in> set acc. admission_at st w (ad_request a) = Some a"
  shows "distinct (map ad_operation_id rs) \<and> distinct (map ad_sequence rs) \<and>
     (\<forall>a \<in> set rs. admission_at st w (ad_request a) = Some a) \<and>
     set acc \<subseteq> set rs \<and> (\<forall>n \<in> set names. \<exists>a \<in> set rs. admission_at st w n = Some a)"
  using assms
proof (induction names arbitrary: acc w)
  case Nil
  then show ?case by simp
next
  case (Cons n ns)
  from Cons.prems(1) obtain acc' w1 where step: "collect_admission st inst n acc w = (Inr acc', w1)"
    and rest: "foldE (collect_admission st inst) ns acc' w1 = (Inr rs, w')"
    by (auto simp: bindE_Inr)
  from step obtain a where a: "storeRequest st inst n w = (Inr a, w1)" and acc': "acc' = acc @ [a]"
    and new: "ad_operation_id a \<notin> set (map ad_operation_id acc)" "ad_sequence a \<notin> set (map ad_sequence acc)"
    by (auto simp: collect_admission_def bindE_Inr split: if_splits)
  have same: "same_files w w1" using keepsD[OF reads_storeRequest a] .
  have at: "admission_at st w n = Some a" using storeRequest_yields[OF a] by simp
  then have "admission_at st w (ad_request a) = Some a" using admission_at_props by fastforce
  with Cons.prems(2-4) new acc' same
  have "distinct (map ad_operation_id acc')" "distinct (map ad_sequence acc')"
    "\<forall>b \<in> set acc'. admission_at st w1 (ad_request b) = Some b"
    by (auto simp: views_same)
  from Cons.IH[OF rest this] at acc' same show ?case by (auto simp: views_same)
qed

lemma json_names_set:
  assumes "json_names items = Inr names" and "n @ ''.json'' \<in> set items"
    and "\<not> has_prefix ''.pending-'' (n @ ''.json'')"
  shows "n \<in> set names"
  using assms
proof (induction items arbitrary: names)
  case Nil
  then show ?case by simp
next
  case (Cons x xs)
  from Cons.prems(1) obtain ms where js: "json_names xs = Inr ms"
    by (cases "json_names xs") (auto split: if_splits)
  with Cons.prems(1) have ms: "json_names xs = Inr ms" "set ms \<subseteq> set names"
    by (auto split: if_splits)
  show ?case
  proof (cases "n @ ''.json'' \<in> set xs")
    case True
    with Cons.IH ms Cons.prems(3) show ?thesis by auto
  next
    case False
    with Cons.prems(2) have x: "x = n @ ''.json''" by auto
    with Cons.prems(1,3) ms show ?thesis by (auto split: if_splits sum.splits)
  qed
qed

lemma identifier_not_pending: "identifier_ok rq \<Longrightarrow> \<not> has_prefix ''.pending-'' (json_name rq)"
  by (auto simp: identifier_ok_def has_prefix_def json_name_def is_alnum_def is_lower_def is_upper_def
      is_digit_def code_def split: list.splits)

lemma entries_yields:
  assumes "entries d w = (Inr names, w')"
    and "look w (d @ [json_name n]) \<noteq> None" and "\<not> has_prefix ''.pending-'' (json_name n)"
    and "look w d \<noteq> None"
  shows "n \<in> set names"
proof -
  from assms(1) obtain r w1 where l: "lstat d w = (r, w1)"
    and rest: "(case r of Inl e \<Rightarrow> (if err_is ErrNotExist e then retE [] else failE e)
     | Inr i \<Rightarrow> (if i_kind i \<noteq> KDir then failE (Msg ''unsafe coordination directory'')
                 else bindE (read_dir d) (\<lambda>items. liftE (json_names items)))) w1 = (Inr names, w')"
    by (auto simp: entries_def bindE_Inr)
  from wp_run[OF lstat_outcome l] have s: "same_files w w1" and ne: "\<not> not_exist r"
    using assms(4) by auto
  from rest ne obtain items where it: "read_dir d w1 = (Inr items, w')" and
    js: "json_names items = Inr names"
    by (auto simp: bindE_Inr not_exist_def split: sum.splits if_splits)
  from wp_run[OF read_dir_outcome it] s assms(2) have "json_name n \<in> set items"
    by (simp add: same_files_look)
  with js assms(3) show ?thesis by (auto simp: json_name_def intro: json_names_set)
qed

text \<open>Every entry of a directory is found under a directory that exists.\<close>

definition parents_exist :: "store \<Rightarrow> world \<Rightarrow> bool" where
  "parents_exist st w \<longleftrightarrow>
     (\<forall>rq. identifier_ok rq \<longrightarrow> look w (request_path st rq) \<noteq> None \<longrightarrow>
        look w (state_dir st @ [''coordination'', ''primary'', ''admissions'']) \<noteq> None)"

lemma storeAdmissions_yields:
  assumes "storeAdmissions st ''primary'' w = (Inr rs, w')" and "parents_exist st w"
  shows "authority st w rs"
proof -
  let ?d = "state_dir st @ [''coordination'', ''primary'', ''admissions'']"
  from assms(1) obtain names w1 where e: "entries ?d w = (Inr names, w1)"
    and f: "foldE (collect_admission st ''primary'') names [] w1 = (Inr rs, w')"
    by (auto simp: storeAdmissions_def bindE_Inr root_def)
  have same: "same_files w w1" using keepsD[OF reads_entries e] .
  note c = collect_admissions[OF f]
  have "a \<in> set rs" if at: "admission_at st w rq = Some a" for rq a
  proof -
    from at have ok: "identifier_ok rq" and l: "look w (?d @ [json_name rq]) \<noteq> None"
      by (auto simp: admission_at_def record_at_def request_path_def split: if_splits option.splits)
    with assms(2) ok have "look w ?d \<noteq> None"
      by (auto simp: parents_exist_def request_path_def)
    with entries_yields[OF e l identifier_not_pending[OF ok]] have "rq \<in> set names" by simp
    with c same obtain b where "b \<in> set rs" "admission_at st w rq = Some b" by (auto simp: views_same)
    with at show ?thesis by simp
  qed
  with c same show ?thesis by (auto simp: authority_def views_same)
qed

section \<open>Durable directories\<close>

definition grows :: "world \<Rightarrow> world \<Rightarrow> bool" where
  "grows w w' \<longleftrightarrow> (\<forall>q. look w q \<noteq> None \<longrightarrow> look w' q = look w q)"

lemma grows_trans: "grows w w' \<Longrightarrow> grows w' w'' \<Longrightarrow> grows w w''"
  by (auto simp: grows_def)

lemma sync_directory_outcome:
  "wp (sync_directory p) (\<lambda>r w'. touches (\<lambda>_. False) w w' \<and>
     (r = Inr () \<longrightarrow> (\<forall>q. child_of p q \<longrightarrow> on_disk w' q = look w q))) w"
  unfolding sync_directory_def
proof (rule wp_bindI)
  show "wp (wrapE (Wrap ''open coordination directory'') (open_path p)) (\<lambda>r w'. same_files w w') w"
    unfolding wp_wrapE by (rule wp_mono[OF open_path_outcome])
next
  fix x w1
  assume s: "same_files w w1"
  show "wp (deferE (sync_entries p) (close_file p)) (\<lambda>r w'. touches (\<lambda>_. False) w w' \<and>
     (r = Inr () \<longrightarrow> (\<forall>q. child_of p q \<longrightarrow> on_disk w' q = look w q))) w1"
    unfolding wp_deferE
  proof (rule wp_mono[OF sync_entries_outcome])
    fix r w2
    assume a: "touches (\<lambda>_. False) w1 w2 \<and> (r = Inr () \<longrightarrow> (\<forall>q. child_of p q \<longrightarrow> on_disk w2 q = look w1 q))"
    show "wp (close_file p) (\<lambda>_ w'. touches (\<lambda>_. False) w w' \<and>
       (r = Inr () \<longrightarrow> (\<forall>q. child_of p q \<longrightarrow> on_disk w' q = look w q))) w2"
      by (rule wp_mono[OF close_file_outcome])
         (use s a in \<open>auto simp: same_files_look same_files_disk\<close>,
          (blast intro: writes.trans same_files_touches)+)
  qed
qed (auto intro: same_files_touches)

lemma store_sync_outcome:
  "st_sync st = None \<Longrightarrow> wp (store_sync st p) (\<lambda>r w'. touches (\<lambda>_. False) w w' \<and>
     (r = Inr () \<longrightarrow> (\<forall>q. child_of p q \<longrightarrow> on_disk w' q = look w q))) w"
  by (simp add: store_sync_def sync_directory_outcome)

lemma is_dir_info: "look w p = Some n \<Longrightarrow> i_kind (info_of w n) = KDir \<longleftrightarrow> is_dir w p"
  by (simp add: info_of_def is_dir_def)

text \<open>Finding or creating one component.\<close>

definition ensure_dir :: "path \<Rightarrow> info io" where
  "ensure_dir current = bindE (tryE (lstat current)) (\<lambda>r. case r of
        Inr i \<Rightarrow> retE i
      | Inl e \<Rightarrow>
          if err_is ErrNotExist e
          then bindE (tryE (mkdir current 448)) (\<lambda>m. case m of
                 Inl e' \<Rightarrow> if err_is ErrExist e' then lstat current else failE e'
               | Inr _ \<Rightarrow> lstat current)
          else failE e)"

lemma mkdir_outcome:
  "wp (mkdir p m) (\<lambda>r w'. touches (\<lambda>q. q = p) w w' \<and> grows w w' \<and>
     (look w' p = look w p \<or> is_dir w' p)) w"
  unfolding mkdir_def
  by (rule wp_sysI) (auto simp: wp_def touches_def same_env_def grows_def is_dir_def dir_node_def)

lemma lstat_after:
  assumes "touches (\<lambda>q. q = p) w w1" and "grows w w1"
  shows "wp (lstat p) (\<lambda>r w'. touches (\<lambda>q. q = p) w w' \<and> grows w w' \<and>
     (\<forall>i. r = Inr i \<longrightarrow> i_kind i = KDir \<longrightarrow> is_dir w' p)) w1"
proof (rule wp_mono[OF lstat_outcome])
  fix r w'
  assume a: "same_files w1 w' \<and> (\<forall>i. r = Inr i \<longrightarrow> (\<exists>n. look w1 p = Some n \<and> i = info_of w1 n)) \<and>
    (not_exist r \<longrightarrow> look w1 p = None)"
  then have "touches (\<lambda>q. q = p) w w'" "grows w w'"
    using assms by (auto simp: grows_def same_files_look intro: writes.trans same_files_touches)
  moreover have "is_dir w' p" if "r = Inr i" "i_kind i = KDir" for i
    using a that by (auto simp: is_dir_def same_files_look info_of_def)
  ultimately show "touches (\<lambda>q. q = p) w w' \<and> grows w w' \<and>
     (\<forall>i. r = Inr i \<longrightarrow> i_kind i = KDir \<longrightarrow> is_dir w' p)" by blast
qed

lemma grows_same: "same_files w w' \<Longrightarrow> grows w w'"
  by (simp add: grows_def same_files_look)

lemma grows_touches: "touches (\<lambda>_. False) w w' \<Longrightarrow> grows w w'"
  by (simp add: grows_def touches_def)

lemma ensure_dir_outcome:
  "wp (ensure_dir p) (\<lambda>r w'. touches (\<lambda>q. q = p) w w' \<and> grows w w' \<and>
     (\<forall>i. r = Inr i \<longrightarrow> i_kind i = KDir \<longrightarrow> is_dir w' p)) w"
  unfolding ensure_dir_def wp_bindE wp_tryE
proof (rule wp_mono[OF lstat_outcome], goal_cases)
  case (1 r w1)
  then have s: "same_files w w1" by simp
  then have base: "touches (\<lambda>q. q = p) w w1" "grows w w1"
    by (auto intro: same_files_touches grows_same)
  show ?case
  proof (cases r)
    case (Inr i)
    with 1 s base show ?thesis by (auto simp: wp_eqs is_dir_def same_files_look info_of_def)
  next
    case (Inl e)
    have "wp (mkdir p 448) (\<lambda>m w'. touches (\<lambda>q. q = p) w w' \<and> grows w w') w1"
      by (rule wp_mono[OF mkdir_outcome]) (use base in \<open>auto intro: writes.trans grows_trans\<close>)
    then have "wp (mkdir p 448) (\<lambda>m w'. wp (case m of
                 Inl e' \<Rightarrow> if err_is ErrExist e' then lstat p else failE e'
               | Inr _ \<Rightarrow> lstat p) (\<lambda>r w'. touches (\<lambda>q. q = p) w w' \<and> grows w w' \<and>
     (\<forall>i. r = Inr i \<longrightarrow> i_kind i = KDir \<longrightarrow> is_dir w' p)) w') w1"
      by (rule wp_mono) (auto simp: wp_eqs lstat_after split: sum.splits)
    with Inl base show ?thesis by (simp add: wp_eqs)
  qed
qed

lemma durable_component_outcome:
  assumes "st_sync st = None"
  shows "wp (durable_component st parent (parent @ [c])) (\<lambda>r w'. touches (\<lambda>q. q = parent @ [c]) w w' \<and>
     grows w w' \<and> (r = Inr () \<longrightarrow> is_dir w' (parent @ [c]) \<and>
        on_disk w' (parent @ [c]) = look w' (parent @ [c]))) w"
  unfolding durable_component_def ensure_dir_def[symmetric]
proof (rule wp_bindI[OF ensure_dir_outcome], goal_cases)
  case (1 e w1)
  then show ?case by auto
next
  case (2 i w1)
  let ?p = "parent @ [c]"
  let ?Q = "\<lambda>r w'. touches (\<lambda>q. q = ?p) w w' \<and> grows w w' \<and>
     (r = Inr () \<longrightarrow> is_dir w' ?p \<and> on_disk w' ?p = look w' ?p)"
  show ?case
  proof (cases "i_kind i = KDir")
    case False
    with 2 show ?thesis by (simp add: wp_eqs)
  next
    case True
    have "wp (bindE (store_sync st ?p) (\<lambda>_. store_sync st parent)) ?Q w1"
    proof (rule wp_bindI[OF store_sync_outcome[OF assms]], goal_cases)
      case (1 e w2)
      with 2 show ?case by (auto intro: touches_comp grows_trans grows_touches)
    next
      case (2 u w2)
      then have t: "touches (\<lambda>_. False) w1 w2" by simp
      have ch: "child_of parent ?p" by (simp add: child_of_def)
      show ?case
        by (rule wp_mono[OF store_sync_outcome[OF assms]])
           (use True ch \<open>touches (\<lambda>q. q = ?p) w w1 \<and> _\<close> t in
             \<open>auto simp: is_dir_def touches_look intro: touches_comp\<close>,
            (blast intro: grows_trans grows_touches)+)
    qed
    with True show ?thesis by simp
  qed
qed

definition comps :: "path \<Rightarrow> string list \<Rightarrow> path \<Rightarrow> bool" where
  "comps parent cs q \<longleftrightarrow> (\<exists>k. 0 < k \<and> k \<le> length cs \<and> q = parent @ take k cs)"

lemma comps_Cons: "comps parent (c # cs) q \<longleftrightarrow> q = parent @ [c] \<or> comps (parent @ [c]) cs q"
proof
  assume "comps parent (c # cs) q"
  then obtain k where k: "0 < k" "k \<le> Suc (length cs)" "q = parent @ take k (c # cs)"
    by (auto simp: comps_def)
  then obtain j where "k = Suc j" by (cases k) auto
  with k show "q = parent @ [c] \<or> comps (parent @ [c]) cs q"
    by (cases "j = 0") (auto simp: comps_def)
next
  assume "q = parent @ [c] \<or> comps (parent @ [c]) cs q"
  then show "comps parent (c # cs) q"
  proof
    assume "q = parent @ [c]"
    then show ?thesis unfolding comps_def by (intro exI[of _ 1]) simp
  next
    assume "comps (parent @ [c]) cs q"
    then obtain k where "0 < k" "k \<le> length cs" "q = (parent @ [c]) @ take k cs"
      by (auto simp: comps_def)
    then show ?thesis unfolding comps_def by (intro exI[of _ "Suc k"]) simp
  qed
qed

lemma durable_components_outcome:
  assumes "st_sync st = None"
  shows "wp (durable_components st parent cs) (\<lambda>r w'. touches (comps parent cs) w w' \<and> grows w w' \<and>
     (r = Inr () \<longrightarrow> (\<forall>q. comps parent cs q \<longrightarrow> is_dir w' q \<and> on_disk w' q = look w' q))) w"
proof (induction cs arbitrary: parent w)
  case Nil
  show ?case by (simp add: wp_eqs comps_def writes.refl grows_def)
next
  case (Cons c cs)
  show ?case
    unfolding durable_components.simps
  proof (rule wp_bindI[OF durable_component_outcome[OF assms]], goal_cases)
    case (1 e w1)
    then show ?case by (auto simp: comps_Cons elim!: touches_mono)
  next
    case (2 u w1)
    let ?p = "parent @ [c]"
    have no: "\<not> comps ?p cs ?p" by (auto simp: comps_def)
    show ?case
    proof (rule wp_mono[OF Cons.IH], goal_cases)
      case (1 r w2)
      then have t: "touches (comps ?p cs) w1 w2" and d: "r = Inr () \<Longrightarrow> comps ?p cs q \<Longrightarrow>
          is_dir w2 q \<and> on_disk w2 q = look w2 q" for q by auto
      have "is_dir w2 ?p \<and> on_disk w2 ?p = look w2 ?p"
        using 2 t no by (auto simp: touches_def is_dir_def)
      with 1 2 t d show ?case
        by (auto simp: comps_Cons intro: touches_comp grows_trans)
    qed
  qed
qed

text \<open>A guard that looks at the state.\<close>

lemma wp_guard_state:
  "wp (\<lambda>w. guardE (b w) e w) Q w = (if b w then Q (Inr ()) w else Q (Inl e) w)"
  by (simp add: wp_def guardE_def retE_def failE_def)

text \<open>The entries between the state directory and a path.\<close>

definition path_below :: "store \<Rightarrow> path \<Rightarrow> path \<Rightarrow> bool" where
  "path_below st p = comps (state_dir st) (drop (length (state_dir st)) p)"

lemma durable_directory_outcome:
  assumes "st_sync st = None"
  shows "wp (durable_directory st p) (\<lambda>r w'. touches (path_below st p) w w' \<and> grows w w' \<and>
     (r = Inr () \<longrightarrow> (\<forall>q. path_below st p q \<longrightarrow> is_dir w' q \<and> on_disk w' q = look w' q))) w"
proof (cases "has_prefix (state_dir st) p")
  case False
  then show ?thesis by (simp add: durable_directory_def Let_def wp_eqs writes.refl grows_def)
next
  case True
  let ?b = "state_dir st"
  let ?Q = "\<lambda>r w'. touches (path_below st p) w w' \<and> grows w w' \<and>
     (r = Inr () \<longrightarrow> (\<forall>q. path_below st p q \<longrightarrow> is_dir w' q \<and> on_disk w' q = look w' q))"
  have rest: "wp (bindE (store_sync st ?b) (\<lambda>_. durable_components st ?b (drop (length ?b) p))) ?Q w1"
    if s: "same_files w w1" for w1
  proof (rule wp_bindI[OF store_sync_outcome[OF assms]], goal_cases)
    case (1 e w2)
    with s show ?case by (auto intro: touches_comp grows_trans grows_touches grows_same same_files_touches)
  next
    case (2 u w2)
    then have "touches (path_below st p) w w2" "grows w w2"
      using s by (auto intro: touches_comp[OF same_files_touches] grows_trans grows_touches grows_same)
    then show ?case
      by (intro wp_mono[OF durable_components_outcome[OF assms]])
         (auto simp: path_below_def intro: writes.trans grows_trans)
  qed
  have "wp (bindE (lstat ?b) (\<lambda>i. if i_kind i \<noteq> KDir then failE (Msg ''unsafe state directory'')
        else bindE (store_sync st ?b) (\<lambda>_. durable_components st ?b (drop (length ?b) p)))) ?Q w"
    by (rule wp_bindI[OF keeps_wp[OF reads_lstat]])
       (auto simp: wp_if wp_failE rest intro: same_files_touches grows_same)
  with True show ?thesis by (simp add: durable_directory_def Let_def)
qed

section \<open>Writing a record\<close>

definition record_path :: "store \<Rightarrow> path \<Rightarrow> bool" where
  "record_path st p \<longleftrightarrow> (\<exists>kind n. p = state_dir st @ [''coordination'', ''primary''] @ kind @ [json_name n] \<and>
     kind \<in> {[], [''admissions''], [''plans'']} \<and> \<not> has_prefix ''.pending-'' (json_name n))"

definition record_aux :: "store \<Rightarrow> path \<Rightarrow> path \<Rightarrow> bool" where
  "record_aux st p q \<longleftrightarrow> temp_in (butlast p) ''.pending-'' q \<or> path_below st (butlast p) q"

lemma json_name_not_dir:
  "json_name n \<noteq> ''coordination'' \<and> json_name n \<noteq> ''primary'' \<and>
   json_name n \<noteq> ''admissions'' \<and> json_name n \<noteq> ''plans''"
proof -
  have "take 3 (rev (json_name n)) = ''nos''" by (simp add: json_name_def)
  then have "json_name n \<noteq> d" if "take 3 (rev d) \<noteq> ''nos''" for d using that by auto
  then show ?thesis by simp
qed

lemma record_path_disjoint:
  assumes "record_path st p" and "record_path st q"
  shows "\<not> record_aux st p q"
proof -
  from assms obtain kind n kind' n' where p: "p = state_dir st @ [''coordination'', ''primary''] @ kind @ [json_name n]"
    and kind: "kind \<in> {[], [''admissions''], [''plans'']}"
    and q: "q = state_dir st @ [''coordination'', ''primary''] @ kind' @ [json_name n']"
    and nt: "\<not> has_prefix ''.pending-'' (json_name n')"
    by (auto simp: record_path_def)
  have "\<not> temp_in d ''.pending-'' q" for d
    using q nt by (auto simp: temp_in_def)
  moreover have "\<not> path_below st (butlast p) q"
  proof
    assume "path_below st (butlast p) q"
    then obtain k where "0 < k" "q = state_dir st @ take k ([''coordination'', ''primary''] @ kind)"
      unfolding path_below_def comps_def p by (auto simp: butlast_append)
    with q have "take k ([''coordination'', ''primary''] @ kind) = [''coordination'', ''primary''] @ kind' @ [json_name n']"
      by simp
    then have "json_name n' \<in> set (take k ([''coordination'', ''primary''] @ kind))" by simp
    then have mem: "json_name n' \<in> set ([''coordination'', ''primary''] @ kind)" by (rule in_set_takeD)
    have "set kind \<subseteq> {''admissions'', ''plans''}" using kind by fastforce
    with mem have "json_name n' \<in> {''coordination'', ''primary'', ''admissions'', ''plans''}"
      by fastforce
    with json_name_not_dir[of n'] show False by blast
  qed
  ultimately show ?thesis by (simp add: record_aux_def)
qed

lemma record_path_target: "record_path st p \<Longrightarrow> target ''.pending-'' p"
  by (auto simp: record_path_def target_def)

lemma hook_outcome: "wp (hook st stage) (\<lambda>r w'. w' = w) w"
  by (simp add: hook_def wp_eqs split: option.splits)

lemma link_or_rename_outcome:
  assumes "look w t = Some n" "n_kind n = KRegular" "t \<noteq> p"
  shows "wp (if ex then link t p else rename t p) (\<lambda>r w'. touches (\<lambda>q. q = t \<or> q = p) w w' \<and>
     (look w' p = look w p \<or> look w' p = Some n) \<and> (r = Inr () \<longrightarrow> look w' p = Some n) \<and>
     kept_if ex p w r w') w"
proof (cases ex)
  case True
  then show ?thesis
    by (simp only: if_True) (rule wp_mono[OF link_outcome[OF assms(1)]],
      auto simp: kept_if_def elim: touches_mono)
next
  case False
  then show ?thesis
    by (simp only: if_False) (rule wp_mono[OF rename_file_outcome[OF assms]],
      auto simp: kept_if_def elim: touches_mono)
qed

lemma write_finish_ok:
  assumes sync: "st_sync st = None" and p: "p \<noteq> []"
  shows "finish_ok ex 384 (Json j) p (write_finish st p ex)"
  unfolding finish_ok_def
proof (intro allI impI)
  fix t w n
  assume n: "look w t = Some n" and good: "good_file 384 (Json j) n" and tp: "t \<noteq> p"
  let ?Q = "\<lambda>r w'. touches (\<lambda>q. q = t \<or> q = p) w w' \<and> (look w' p = look w p \<or> stored w' p (Json j) 384) \<and>
     (r = Inr () \<longrightarrow> stored w' p (Json j) 384 \<and> durable w' p (Json j) 384) \<and> kept_if ex p w r w'"
  have reg: "n_kind n = KRegular" using good by (simp add: good_file_def)
  have child: "child_of (butlast p) p" using p by (simp add: child_of_def)
  have tail: "wp (bindE (hook st ''after-rename'') (\<lambda>_. bindE (store_sync st (butlast p)) (\<lambda>_. hook st ''after-sync''))) ?Q w1"
    if w1: "touches (\<lambda>q. q = t \<or> q = p) w w1" "look w1 p = Some n" "ex \<longrightarrow> look w p = None" for w1
  proof (rule wp_bindI[OF hook_outcome], goal_cases)
    case (1 e w2)
    with w1 good show ?case by (auto simp: stored_def kept_if_def)
  next
    case (2 u w2)
    show ?case
    proof (rule wp_bindI[OF store_sync_outcome[OF sync]], goal_cases)
      case (1 e w3)
      with 2 w1 good show ?case
        by (auto simp: stored_def kept_if_def touches_look intro: touches_comp)
    next
      case (2 u w3)
      with \<open>w2 = w1\<close> w1 good child show ?case
        by (intro wp_mono[OF hook_outcome])
           (auto simp: stored_def durable_def kept_if_def touches_look intro: touches_comp)
    qed
  qed
  show "wp (write_finish st p ex t) ?Q w"
    unfolding write_finish_def
  proof (rule wp_bindI[OF hook_outcome], goal_cases)
    case (1 e w1)
    then show ?case by (auto simp: kept_if_def writes.refl)
  next
    case (2 u w1)
    then have n1: "look w1 t = Some n" "w1 = w" using n by auto
    have "wp (if ex then link t p else rename t p) (\<lambda>r w'. wp (case r of
       Inl e \<Rightarrow> failE (if err_is ErrExist e then Sentinel ErrConflict else e)
     | Inr _ \<Rightarrow> bindE (hook st ''after-rename'') (\<lambda>_. bindE (store_sync st (butlast p)) (\<lambda>_.
                  hook st ''after-sync''))) ?Q w') w1"
    proof (rule wp_mono[OF link_or_rename_outcome[OF n1(1) reg tp]], goal_cases)
      case (1 r w2)
      show ?case
      proof (cases r)
        case (Inl e)
        with 1 n1 good show ?thesis by (auto simp: wp_eqs stored_def kept_if_def)
      next
        case (Inr u)
        have "touches (\<lambda>q. q = t \<or> q = p) w w2" "look w2 p = Some n"
          using 1 n1 Inr by simp_all
        moreover have "ex \<longrightarrow> look w p = None" using 1 n1 Inr by (auto simp: kept_if_def)
        ultimately have "wp (bindE (hook st ''after-rename'') (\<lambda>_. bindE (store_sync st (butlast p)) (\<lambda>_.
           hook st ''after-sync''))) ?Q w2" by (rule tail)
        with Inr show ?thesis by (simp only: sum.case)
      qed
    qed
    then show ?case by (simp add: wp_bindE wp_tryE)
  qed
qed

definition write_post :: "store \<Rightarrow> bool \<Rightarrow> path \<Rightarrow> json \<Rightarrow> world \<Rightarrow> err + unit \<Rightarrow> world \<Rightarrow> bool" where
  "write_post st ex p j w r w' \<longleftrightarrow> put_post (record_aux st p) 384 p (Json j) w r w' \<and> kept_if ex p w r w' \<and>
     (r = Inr () \<longrightarrow> w_jlen w j \<le> max_record \<and>
        (\<forall>q. path_below st (butlast p) q \<longrightarrow> is_dir w' q \<and> (\<exists>n. on_disk w' q = Some n \<and> n_kind n = KDir)))"

lemma path_below_length: "path_below st p q \<Longrightarrow> length q \<le> length p \<or> length q \<le> length (state_dir st)"
  by (auto simp: path_below_def comps_def)

lemma write_record_outcome:
  assumes sync: "st_sync st = None" and p: "record_path st p"
  shows "wp (write_record st p j ex) (write_post st ex p j w) w"
  unfolding write_record_def
proof (rule wp_bindI[OF durable_directory_outcome[OF sync]], goal_cases)
  case (1 e w1)
  moreover have "\<not> path_below st (butlast p) p"
    using record_path_disjoint[OF p p] by (simp add: record_aux_def)
  ultimately show ?case
    by (auto simp: write_post_def put_post_def kept_if_def record_aux_def touches_look elim!: touches_mono)
next
  case (2 u w1)
  have nb: "\<not> path_below st (butlast p) p"
    using record_path_disjoint[OF p p] by (simp add: record_aux_def)
  from 2 have t1: "touches (path_below st (butlast p)) w w1"
    and d1: "path_below st (butlast p) q \<Longrightarrow> is_dir w1 q \<and> on_disk w1 q = look w1 q" for q by auto
  have l1: "look w1 p = look w p" using t1 nb by (simp add: touches_look)
  have jl: "w_jlen w1 j = w_jlen w j" using t1 by (simp add: touches_def same_env_def)
  have fail: "write_post st ex p j w (Inl e) w1" for e
    using t1 l1 by (auto simp: write_post_def put_post_def kept_if_def record_aux_def elim!: touches_mono)
  have wide: "touches (\<lambda>q. q = p \<or> record_aux st p q) w w'"
    if "touches (\<lambda>q. q = p \<or> temp_in (butlast p) ''.pending-'' q) w1 w'" for w'
    using t1 that by (rule touches_comp) (auto simp: record_aux_def)
  have dirs: "is_dir w' q \<and> (\<exists>n. on_disk w' q = Some n \<and> n_kind n = KDir)"
    if "touches (\<lambda>q. q = p \<or> temp_in (butlast p) ''.pending-'' q) w1 w'" "path_below st (butlast p) q" for w' q
  proof -
    have "q \<noteq> p" using nb that(2) by auto
    moreover have "\<not> temp_in (butlast p) ''.pending-'' q"
    proof
      assume "temp_in (butlast p) ''.pending-'' q"
      then have "length q = Suc (length (butlast p))" by (auto simp: temp_in_def)
      moreover from that(2) have "length q \<le> length (butlast p)"
        by (auto simp: path_below_def comps_def)
      ultimately show False by simp
    qed
    ultimately have "look w' q = look w1 q" "on_disk w' q = on_disk w1 q \<or> on_disk w' q = look w1 q"
      using that(1) by (auto simp: touches_def)
    with d1[OF that(2)] show ?thesis by (auto simp: is_dir_def split: option.splits)
  qed
  have staged: "wp (bindE (create_temp (butlast p) ''.pending-'') (\<lambda>t.
       deferE (bindE (write_stage t j) (\<lambda>_. write_finish st p ex t))
              (bindE (ignoreE (close_file t)) (\<lambda>_. remove t)))) (write_post st ex p j w) w1"
    if small: "w_jlen w j \<le> max_record"
  proof (rule wp_mono)
    show "wp (bindE (create_temp (butlast p) ''.pending-'') (\<lambda>t.
       deferE (bindE (write_stage t j) (\<lambda>_. write_finish st p ex t))
              (bindE (ignoreE (close_file t)) (\<lambda>_. remove t))))
       (\<lambda>r w'. put_post (temp_in (butlast p) ''.pending-'') 384 p (Json j) w1 r w' \<and> kept_if ex p w1 r w') w1"
    proof (rule staged_put_spec[OF record_path_target[OF p]])
      show "stage_ok 384 (Json j) (\<lambda>t. write_stage t j)"
        unfolding write_stage_def by (rule stage_chmod_write_sync_close)
      show "finish_ok ex 384 (Json j) p (write_finish st p ex)"
        using sync record_path_target[OF p] by (intro write_finish_ok) (auto simp: target_def)
      show "keeps (touches_mem (\<lambda>q. q = t)) (bindE (ignoreE (close_file t)) (\<lambda>_. remove t))" for t
        by (intro volatile.keeps_bindE volatile.keeps_ignoreE mem_remove mem_reads[OF reads_close_file]) simp
    qed
  next
    fix r w'
    assume a: "put_post (temp_in (butlast p) ''.pending-'') 384 p (Json j) w1 r w' \<and> kept_if ex p w1 r w'"
    then have t: "touches (\<lambda>q. q = p \<or> temp_in (butlast p) ''.pending-'' q) w1 w'" by (simp add: put_post_def)
    show "write_post st ex p j w r w'"
      unfolding write_post_def
      using a l1 small wide[OF t] dirs[OF t] by (auto simp: put_post_def kept_if_def)
  qed
  show ?case
  proof (rule wp_bindI[OF hook_outcome], goal_cases)
    case (1 e w2)
    then show ?case using fail by simp
  next
    case (2 u w2)
    then have w2: "w2 = w1" by simp
    show ?case
      unfolding w2
    proof (rule wp_bindI[where P = "\<lambda>r w3. w3 = w1 \<and> (r = Inr () \<longrightarrow> w_jlen w j \<le> max_record)"], goal_cases)
      case 1
      then show ?case using jl by (simp add: wp_guard_state)
    next
      case (2 e w3)
      then show ?case using fail by simp
    next
      case (3 u w3)
      then show ?case using staged by simp
    qed
  qed
qed

text \<open>The replacing form is an implementation of the shared contract.\<close>

definition coord_put :: "store \<Rightarrow> path \<Rightarrow> content \<Rightarrow> unit io" where
  "coord_put st p c = bindE (liftE (json_of_content c)) (\<lambda>j. write_record st p j False)"

interpretation coord: atomic_put "coord_put st" "\<lambda>p. st_sync st = None \<and> record_path st p"
    "record_aux st" 384 for st
proof
  fix p c w
  assume ok: "st_sync st = None \<and> record_path st p"
  show "wp (coord_put st p c) (put_post (record_aux st p) 384 p c w) w"
  proof (cases c)
    case (Text s)
    then show ?thesis
      by (simp add: coord_put_def json_of_content_def wp_eqs put_post_same reads.refl)
  next
    case (Json j)
    with ok show ?thesis
      by (simp add: coord_put_def json_of_content_def wp_eqs)
         (rule wp_mono[OF write_record_outcome], auto simp: write_post_def)
  qed
qed (use record_path_disjoint in auto)

end
