(* ===== verification/CoordOrder.thy ===== *)
theory CoordOrder
  imports CoordLaws
begin

text \<open>
  The order of operations and the durability of admissions: what \<open>Latest\<close>, \<open>NextSequence\<close>,
  \<open>Accept\<close>, \<open>BeginLegacy\<close>, \<open>UpdateOperation\<close>, \<open>Counter\<close>, \<open>SavePlan\<close> and \<open>ProtectedPoints\<close>
  of \<open>internal/coordination\<close> guarantee, at every fault of the file system.
\<close>

section \<open>Missing files\<close>

lemma json_of_content_exists: "json_of_content c = Inl e \<Longrightarrow> \<not> err_is ErrNotExist e"
  by (auto simp: json_of_content_def split: content.splits)

lemma root_exists: "root st i k = Inl e \<Longrightarrow> \<not> err_is ErrNotExist e"
  by (auto simp: root_def split: if_splits)

lemma lstat_missing: "lstat p w = (Inl e, w') \<Longrightarrow> err_is ErrNotExist e \<Longrightarrow> look w p = None"
  using wp_run[OF lstat_outcome, of p w "Inl e" w'] by (simp add: not_exist_def)

lemma lstat_found: "lstat p w = (Inr i, w') \<Longrightarrow> look w p \<noteq> None \<and> same_files w w'"
  using wp_run[OF lstat_outcome, of p w "Inr i" w'] by auto

lemma read_file_missing: "read_file p w = (Inl e, w') \<Longrightarrow> err_is ErrNotExist e \<Longrightarrow> look w p = None"
  using wp_run[OF read_file_outcome, of p w "Inl e" w'] by (simp add: not_exist_def)

lemma read_dir_missing: "read_dir p w = (Inl e, w') \<Longrightarrow> err_is ErrNotExist e \<Longrightarrow> look w p = None"
  using wp_run[OF read_dir_outcome, of p w "Inl e" w'] by (simp add: not_exist_def)

lemma read_record_missing:
  assumes "read_record p w = (Inl e, w')" and "err_is ErrNotExist e"
  shows "look w p = None"
proof -
  from assms(1) consider "lstat p w = (Inl e, w')"
    | i w1 where "lstat p w = (Inr i, w1)" "read_file p w1 = (Inl e, w')"
    | s where "e = Msg s" | c where "json_of_content c = Inl e"
    by (auto simp: read_record_def bindE_Inl split: if_splits)
  then show ?thesis
  proof cases
    case 1
    then show ?thesis using assms(2) by (rule lstat_missing)
  next
    case 2
    have "look w1 p = None" using 2(2) assms(2) by (rule read_file_missing)
    with lstat_found[OF 2(1)] show ?thesis by (auto simp: same_files_look)
  qed (use assms(2) json_of_content_exists in auto)
qed

lemma json_names_items:
  "json_names items = Inr names \<Longrightarrow> n \<in> set names \<Longrightarrow> json_name n \<in> set items"
proof (induction items arbitrary: names)
  case Nil
  then show ?case by simp
next
  case (Cons x xs)
  have "json_name (take (length x - 5) x) = x" if "has_suffix ''.json'' x"
    using that append_take_drop_id[of "length x - 5" x]
    by (simp add: has_suffix_def json_name_def eval_nat_numeral)
  with Cons show ?case by (auto split: if_splits sum.splits)
qed

lemma json_names_exists: "json_names items = Inl e \<Longrightarrow> \<not> err_is ErrNotExist e"
  by (induction items) (auto split: if_splits sum.splits)

lemma entries_found:
  assumes "entries d w = (Inr names, w')" and "n \<in> set names"
  shows "look w (d @ [json_name n]) \<noteq> None"
proof -
  obtain r w1 where r: "lstat d w = (r, w1)" by fastforce
  from assms obtain i items where l: "lstat d w = (Inr i, w1)"
    and it: "read_dir d w1 = (Inr items, w')" and js: "json_names items = Inr names"
    using r by (cases r) (auto simp: entries_def bindE_tryE[of "lstat d", OF r] bindE_Inr split: if_splits)
  have "json_name n \<in> set items" using js assms(2) by (rule json_names_items)
  with wp_run[OF read_dir_outcome it] lstat_found[OF l] show ?thesis by (auto simp: same_files_look)
qed

lemma entries_exists:
  assumes "entries d w = (Inl e, w')"
  shows "\<not> err_is ErrNotExist e"
proof
  assume ne: "err_is ErrNotExist e"
  obtain r w1 where r: "lstat d w = (r, w1)" by fastforce
  from assms consider "\<not> err_is ErrNotExist e"
    | i where "lstat d w = (Inr i, w1)" "read_dir d w1 = (Inl e, w')"
    | items where "json_names items = Inl e"
    using r by (cases r) (auto simp: entries_def bindE_tryE[of "lstat d", OF r] bindE_Inl split: if_splits)
  then show False
  proof cases
    case 2
    have "look w1 d = None" using 2(2) ne by (rule read_dir_missing)
    with lstat_found[OF 2(1)] show ?thesis by (auto simp: same_files_look)
  qed (use ne json_names_exists in auto)
qed

lemma storeRequest_missing:
  assumes "storeRequest st inst rq w = (Inl e, w')" and "err_is ErrNotExist e"
  shows "inst = ''primary'' \<and> look w (request_path st rq) = None"
  using assms root_exists
  by (auto simp: storeRequest_def bindE_Inl root_Inr request_path_def dest: read_record_missing
      split: if_splits option.splits)

lemma collect_exists:
  assumes "foldE (collect_admission st ''primary'') names acc w = (Inl e, w')"
    and "\<forall>n \<in> set names. look w (request_path st n) \<noteq> None"
  shows "\<not> err_is ErrNotExist e"
  using assms
proof (induction names arbitrary: acc w)
  case Nil
  then show ?case by simp
next
  case (Cons n ns)
  from Cons.prems(1) consider "collect_admission st ''primary'' n acc w = (Inl e, w')"
    | acc' w1 where "collect_admission st ''primary'' n acc w = (Inr acc', w1)"
        "foldE (collect_admission st ''primary'') ns acc' w1 = (Inl e, w')"
    by (auto simp: bindE_Inl)
  then show ?case
  proof cases
    case 1
    with Cons.prems(2) show ?thesis
      by (auto simp: collect_admission_def bindE_Inl dest: storeRequest_missing split: if_splits)
  next
    case 2
    from 2(1) have "same_files w w1"
      by (auto simp: collect_admission_def bindE_Inr dest!: keepsD[OF reads_storeRequest] split: if_splits)
    with Cons.IH[OF 2(2)] Cons.prems(2) show ?thesis by (simp add: same_files_look)
  qed
qed

lemma storeAdmissions_exists:
  assumes "storeAdmissions st inst w = (Inl e, w')"
  shows "\<not> err_is ErrNotExist e"
proof (cases "inst = ''primary''")
  case True
  let ?d = "state_dir st @ [''coordination'', ''primary'', ''admissions'']"
  from assms True consider "entries ?d w = (Inl e, w')"
    | names w1 where "entries ?d w = (Inr names, w1)" "foldE (collect_admission st inst) names [] w1 = (Inl e, w')"
    by (auto simp: storeAdmissions_def bindE_Inl root_def)
  then show ?thesis
  proof cases
    case 1
    then show ?thesis by (rule entries_exists)
  next
    case 2
    have "look w1 (request_path st n) \<noteq> None" if "n \<in> set names" for n
      using entries_found[OF 2(1) that] keepsD[OF reads_entries 2(1)]
      by (simp add: request_path_def same_files_look)
    with collect_exists[of st names "[]" w1 e w'] 2(2) True show ?thesis by simp
  qed
qed (use assms in \<open>simp add: storeAdmissions_def\<close>)

lemma storeHead_missing:
  assumes "storeHead st ''primary'' w = (Inl e, w')" and "err_is ErrNotExist e"
  shows "look w (head_path st) = None"
  using assms root_exists
  by (auto simp: storeHead_def bindE_Inl root_Inr head_path_def dest: read_record_missing
      split: if_splits option.splits)

section \<open>The newest operation\<close>

lemma newest_max:
  "newest inst as latest = Inr h \<Longrightarrow> hd_sequence latest \<le> hd_sequence h \<and>
     (\<forall>a \<in> set as. ad_sequence a \<le> hd_sequence h) \<and>
     (h = latest \<or> (\<exists>a \<in> set as. h = admission_head inst a))"
proof (induction inst as latest rule: newest.induct)
  case (2 inst a as latest)
  then show ?case
    by (force simp: admission_head_def split: if_splits intro: order.trans)
qed simp

text \<open>The order authority on the files: \<open>h\<close> is at least as new as every admission and the
  head record, and it is one of them.\<close>

definition newest_authority :: "store \<Rightarrow> world \<Rightarrow> head \<Rightarrow> bool" where
  "newest_authority st w h \<longleftrightarrow>
     (\<forall>rq a. admission_at st w rq = Some a \<longrightarrow> ad_sequence a \<le> hd_sequence h) \<and>
     (\<forall>h'. head_at st w = Some h' \<longrightarrow> hd_sequence h' \<le> hd_sequence h) \<and>
     ((\<exists>rq a. admission_at st w rq = Some a \<and> h = admission_head ''primary'' a) \<or>
      (head_at st w = Some h \<and> hd_origin h = ''legacy''))"

definition no_authority :: "store \<Rightarrow> world \<Rightarrow> bool" where
  "no_authority st w \<longleftrightarrow> (\<forall>rq. admission_at st w rq = None) \<and> head_at st w = None"

lemma head_base_max:
  assumes "head_base ho rs = Inr b" and "newest inst rs b = Inr h" and "ho = Some h'"
  shows "hd_sequence h' \<le> hd_sequence h"
  using assms newest_max[OF assms(2)]
  by (force simp: head_base_def list_ex_iff split: if_splits)

lemma head_base_cases:
  assumes "head_base ho rs = Inr b"
  shows "b = zero_head \<or> (ho = Some b \<and> hd_origin b = ''legacy'')"
  using assms by (auto simp: head_base_def split: option.splits if_splits)

definition latest_of :: "head option \<Rightarrow> admission list \<Rightarrow> head io" where
  "latest_of ho rs = bindE (liftE (head_base ho rs)) (\<lambda>base.
     bindE (liftE (newest ''primary'' rs base)) (\<lambda>latest.
     if hd_sequence latest = 0 then failE (Sentinel ErrNotExist) else retE latest))"

lemma newest_exists: "newest i as l = Inl e \<Longrightarrow> \<not> err_is ErrNotExist e"
  by (induction i as l rule: newest.induct) (auto split: if_splits)

lemma head_base_exists: "head_base ho rs = Inl e \<Longrightarrow> \<not> err_is ErrNotExist e"
  by (auto simp: head_base_def split: option.splits if_splits)

lemma latest_of_cases:
  assumes "latest_of ho rs w = (r, w')"
  shows "(\<exists>e. r = Inl e \<and> \<not> err_is ErrNotExist e) \<or>
    (\<exists>b h. head_base ho rs = Inr b \<and> newest ''primary'' rs b = Inr h \<and>
       r = (if hd_sequence h = 0 then Inl (Sentinel ErrNotExist) else Inr h))"
proof (cases "head_base ho rs")
  case (Inl e)
  with assms have "r = Inl e" by (simp add: latest_of_def bindE_def liftE_def)
  with head_base_exists[OF Inl] show ?thesis by simp
next
  case b: (Inr b)
  show ?thesis
  proof (cases "newest ''primary'' rs b")
    case (Inl e)
    with b assms have "r = Inl e" by (simp add: latest_of_def bindE_def liftE_def)
    with newest_exists[OF Inl] show ?thesis by simp
  next
    case (Inr h)
    with b assms show ?thesis
      by (auto simp: latest_of_def bindE_def liftE_def retE_def failE_def split: if_splits)
  qed
qed

lemma storeLatest_steps:
  assumes "storeLatest st ''primary'' w = (r, w')" and "parents_exist st w"
  shows "(\<exists>e. r = Inl e \<and> \<not> err_is ErrNotExist e) \<or>
    (\<exists>rs ho b h. authority st w rs \<and> head_base ho rs = Inr b \<and> newest ''primary'' rs b = Inr h \<and>
       ho = head_at st w \<and>
       r = (if hd_sequence h = 0 then Inl (Sentinel ErrNotExist) else Inr h))"
proof -
  obtain ra w1 where a: "storeAdmissions st ''primary'' w = (ra, w1)" by fastforce
  show ?thesis
  proof (cases ra)
    case (Inl e)
    with a assms(1) storeAdmissions_exists[of st "''primary''" w e w1] show ?thesis
      by (auto simp: storeLatest_def bindE_def)
  next
    case (Inr rs)
    then have auth: "authority st w rs" using storeAdmissions_yields a assms(2) by blast
    have s: "same_files w w1" using keepsD[OF reads_storeAdmissions a] .
    obtain rh w2 where h: "storeHead st ''primary'' w1 = (rh, w2)" by fastforce
    have hd: "head_at st w = (case rh of Inr h \<Rightarrow> Some h | Inl e \<Rightarrow> None)"
      if "\<And>e. rh = Inl e \<Longrightarrow> err_is ErrNotExist e"
    proof (cases rh)
      case (Inl e)
      with that h storeHead_missing have "look w1 (head_path st) = None" by blast
      with s Inl show ?thesis
        by (auto simp: head_at_def record_at_def same_files_look)
    next
      case (Inr hh)
      with h storeHead_yields[of st "''primary''" w1 hh w2] s show ?thesis by (simp add: views_same)
    qed
    let ?ho = "case rh of Inr h \<Rightarrow> Some h | Inl e \<Rightarrow> None"
    have run: "storeLatest st ''primary'' w = (case rh of
        Inl e \<Rightarrow> if err_is ErrNotExist e then latest_of None rs w2 else (Inl e, w2)
      | Inr h \<Rightarrow> latest_of (Some h) rs w2)"
      using a Inr h
      by (simp add: storeLatest_def latest_of_def bindE_def tryE_def retE_def failE_def split: sum.splits)
    show ?thesis
    proof (cases "\<exists>e. rh = Inl e \<and> \<not> err_is ErrNotExist e")
      case True
      with run assms(1) show ?thesis by auto
    next
      case False
      then have eq: "latest_of ?ho rs w2 = (r, w')" and "?ho = head_at st w"
        using run assms(1) hd by (auto split: sum.splits)
      with auth latest_of_cases[OF eq] show ?thesis by metis
    qed
  qed
qed

lemma head_at_valid: "head_at st w = Some h \<Longrightarrow> head_valid h"
  by (auto simp: head_at_def split: option.splits if_splits)

lemma latest_newest_authority:
  assumes "storeLatest st ''primary'' w = (Inr h, w')" and "parents_exist st w"
  shows "newest_authority st w h"
proof -
  from storeLatest_steps[OF assms] obtain rs b where auth: "authority st w rs"
    and b: "head_base (head_at st w) rs = Inr b" and n: "newest ''primary'' rs b = Inr h"
    and nz: "hd_sequence h \<noteq> 0"
    by (auto split: if_splits)
  have from_rs: "\<exists>rq. admission_at st w rq = Some a" if "a \<in> set rs" for a
    using auth that by (auto simp: authority_def)
  from newest_max[OF n] head_base_cases[OF b] nz from_rs
  have "(\<exists>rq a. admission_at st w rq = Some a \<and> h = admission_head ''primary'' a) \<or>
      (head_at st w = Some h \<and> hd_origin h = ''legacy'')"
    by (auto simp: zero_head_def)
  moreover have "ad_sequence a \<le> hd_sequence h" if "admission_at st w rq = Some a" for rq a
    using auth that newest_max[OF n] by (auto simp: authority_def)
  ultimately show ?thesis
    using head_base_max[OF b n] by (simp add: newest_authority_def)
qed

lemma latest_no_authority:
  assumes "storeLatest st ''primary'' w = (Inl e, w')" and "err_is ErrNotExist e"
    and "parents_exist st w"
  shows "no_authority st w"
proof -
  from storeLatest_steps[OF assms(1,3)] assms(2) obtain rs b h where auth: "authority st w rs"
    and b: "head_base (head_at st w) rs = Inr b" and n: "newest ''primary'' rs b = Inr h"
    and z: "hd_sequence h = 0"
    by (auto split: if_splits)
  have zero: "hd_sequence h' = 0" if "head_at st w = Some h'" for h'
    using head_base_max[OF b n that] z by simp
  have "head_at st w = None"
    using zero head_at_valid[of st w] by (cases "head_at st w") (auto simp: head_valid_def)
  moreover have "rs = []"
  proof (rule ccontr)
    assume "rs \<noteq> []"
    then obtain a where a: "a \<in> set rs" by (cases rs) auto
    with newest_max[OF n] z have "ad_sequence a = 0" by simp
    moreover have "admission_valid a" using auth a by (auto simp: authority_def dest: admission_at_props)
    ultimately show False by (simp add: admission_valid_def)
  qed
  ultimately show ?thesis
    using auth by (auto simp: authority_def no_authority_def)
qed

lemma word_succ_above:
  assumes "(sq :: 64 word) \<noteq> - 1" and "x \<le> sq"
  shows "x < sq + 1"
proof -
  have "uint sq < 2 ^ 64" using uint_bounded[of sq] by simp
  moreover have "uint sq \<noteq> 2 ^ 64 - 1"
  proof
    assume "uint sq = 2 ^ 64 - 1"
    then have "sq = word_of_int (2 ^ 64 - 1)" by (metis word_of_int_uint)
    with assms(1) show False by simp
  qed
  ultimately have "uint (sq + 1) = uint sq + 1" by (simp add: uint_word_ariths)
  with assms(2) show ?thesis by (simp add: word_less_def word_le_def)
qed

definition fresh_sequence :: "store \<Rightarrow> world \<Rightarrow> 64 word \<Rightarrow> bool" where
  "fresh_sequence st w sq \<longleftrightarrow> 0 < sq \<and>
     (\<forall>rq a. admission_at st w rq = Some a \<longrightarrow> ad_sequence a < sq) \<and>
     (\<forall>h. head_at st w = Some h \<longrightarrow> hd_sequence h < sq)"

lemma nextSequence_fresh:
  assumes "nextSequence st ''primary'' w = (Inr sq, w')" and "parents_exist st w"
  shows "fresh_sequence st w sq \<and> same_files w w'"
proof
  obtain r w1 where r: "storeLatest st ''primary'' w = (r, w1)" by fastforce
  have "fresh_sequence st w sq"
  proof (cases r)
    case (Inl e)
    with assms(1) r have "err_is ErrNotExist e" and sq: "sq = 1"
      by (auto simp: nextSequence_def bindE_def tryE_def retE_def failE_def split: if_splits)
    then have "no_authority st w" using latest_no_authority assms(2) r Inl by blast
    with sq show ?thesis by (auto simp: fresh_sequence_def no_authority_def)
  next
    case (Inr h)
    with assms(1) r have h: "hd_sequence h \<noteq> - 1" and sq: "sq = hd_sequence h + 1"
      by (auto simp: nextSequence_def bindE_def tryE_def retE_def failE_def split: if_splits)
    have "newest_authority st w h" using latest_newest_authority assms(2) r Inr by blast
    with h sq word_succ_above[OF h, of 0] show ?thesis
      by (auto simp: fresh_sequence_def newest_authority_def intro: word_succ_above)
  qed
  then show "fresh_sequence st w sq" .
  show "same_files w w'" using keepsD[OF reads_nextSequence assms(1)] .
qed

section \<open>Where the records are\<close>

lemma json_name_inj [simp]: "json_name a = json_name b \<longleftrightarrow> a = b"
  by (simp add: json_name_def)

lemma request_record: "identifier_ok rq \<Longrightarrow> record_path st (request_path st rq)"
  using identifier_not_pending[of rq]
  by (auto simp: record_path_def request_path_def intro!: exI[of _ "[''admissions'']"])

lemma hex_not_dot: "is_hex c \<Longrightarrow> c \<noteq> CHR ''.''"
  by (auto simp: is_hex_def is_digit_def code_def)

lemma plan_record: "hex32_ok pid \<Longrightarrow> record_path st (plan_path st pid)"
proof -
  assume h: "hex32_ok pid"
  then have "\<not> has_prefix ''.pending-'' (json_name pid)"
    using hex_not_dot
    by (cases pid) (auto simp: hex32_ok_def shape_replicate has_prefix_def json_name_def)
  then show ?thesis
    by (auto simp: record_path_def plan_path_def intro!: exI[of _ "[''plans'']"])
qed

lemma head_record: "record_path st (head_path st)"
proof -
  have "''head.json'' = json_name ''head''" by (simp add: json_name_def)
  moreover have "\<not> has_prefix ''.pending-'' (json_name ''head'')"
    by (simp add: has_prefix_def json_name_def)
  ultimately show ?thesis
    by (auto simp: record_path_def head_path_def intro!: exI[of _ "[]"] exI[of _ "''head''"])
qed

lemma paths_differ [simp]:
  "request_path st rq \<noteq> head_path st" "plan_path st pid \<noteq> head_path st"
  "request_path st rq \<noteq> plan_path st pid" "request_path st rq = request_path st rq' \<longleftrightarrow> rq = rq'"
  "plan_path st pid = plan_path st pid' \<longleftrightarrow> pid = pid'"
  "head_path st \<noteq> request_path st rq" "head_path st \<noteq> plan_path st pid"
  "plan_path st pid \<noteq> request_path st rq"
  by (simp_all add: request_path_def head_path_def plan_path_def)

lemma write_keeps_record:
  assumes "write_post st ex p j w r w'" and "record_path st p" and "record_path st q" and "q \<noteq> p"
  shows "look w' q = look w q" "record_at w' q = record_at w q"
proof -
  from assms(1) have t: "touches (\<lambda>q. q = p \<or> record_aux st p q) w w'"
    by (simp add: write_post_def put_post_def)
  with record_path_disjoint[OF assms(2,3)] assms(4) show "look w' q = look w q"
    by (auto simp: touches_look)
  moreover from t have "w_jlen w' = w_jlen w" by (simp add: touches_def same_env_def)
  ultimately show "record_at w' q = record_at w q"
    by (simp add: record_at_def split: option.splits content.splits)
qed

lemma write_keeps_views:
  assumes "write_post st ex p j w r w'" and "record_path st p"
  shows "head_path st \<noteq> p \<Longrightarrow> head_at st w' = head_at st w"
    and "request_path st rq \<noteq> p \<Longrightarrow> admission_at st w' rq = admission_at st w rq"
    and "plan_path st pid \<noteq> p \<Longrightarrow> plan_at st w' pid = plan_at st w pid"
proof -
  assume "head_path st \<noteq> p"
  then have "record_at w' (head_path st) = record_at w (head_path st)"
    by (rule write_keeps_record(2)[OF assms head_record])
  then show "head_at st w' = head_at st w" by (simp only: head_at_def)
next
  assume n: "request_path st rq \<noteq> p"
  show "admission_at st w' rq = admission_at st w rq"
  proof (cases "identifier_ok rq")
    case True
    then have "record_at w' (request_path st rq) = record_at w (request_path st rq)"
      using write_keeps_record(2)[OF assms request_record] n by blast
    then show ?thesis by (simp only: admission_at_def)
  qed (simp add: admission_at_def)
next
  assume n: "plan_path st pid \<noteq> p"
  show "plan_at st w' pid = plan_at st w pid"
  proof (cases "hex32_ok pid")
    case True
    then have "record_at w' (plan_path st pid) = record_at w (plan_path st pid)"
      using write_keeps_record(2)[OF assms plan_record] n by blast
    then show ?thesis by (simp only: plan_at_def)
  qed (simp add: plan_at_def)
qed

lemma write_stores:
  assumes "write_post st ex p j w (Inr ()) w'" and "1 \<le> w_jlen w j"
  shows "record_at w' p = Some j" "stored w' p (Json j) 384" "durable w' p (Json j) 384"
proof -
  from assms(1) have "stored w' p (Json j) 384 \<and> durable w' p (Json j) 384" and "w_jlen w j \<le> max_record"
    and "w_jlen w' = w_jlen w"
    by (auto simp: write_post_def put_post_def touches_def same_env_def)
  with assms(2) show "record_at w' p = Some j" "stored w' p (Json j) 384" "durable w' p (Json j) 384"
    by (auto simp: record_at_def stored_def good_file_def)
qed

text \<open>JSON documents are not empty.\<close>

definition texts_not_empty :: "world \<Rightarrow> bool" where
  "texts_not_empty w \<longleftrightarrow> (\<forall>j. 1 \<le> w_jlen w j)"

section \<open>Accepting a request\<close>

text \<open>\<open>Accept\<close> gets no further than a read, or writes one record with a fresh sequence.\<close>

lemma storeAccept_cases:
  assumes run: "storeAccept st a0 w = (r, w')" and sync: "st_sync st = None" and pe: "parents_exist st w"
  shows "(same_files w w' \<and> r \<noteq> Inr ()) \<or>
    (\<exists>sq w1. same_files w w1 \<and> fresh_sequence st w sq \<and> admission_valid (a0\<lparr>ad_sequence := sq\<rparr>) \<and>
       write_post st True (request_path st (ad_request a0)) (admission_to_json (a0\<lparr>ad_sequence := sq\<rparr>)) w1 r w')"
proof -
  obtain rs w1 where n: "nextSequence st (ad_instance a0) w = (rs, w1)" by fastforce
  have s: "same_files w w1" using keepsD[OF reads_nextSequence n] .
  show ?thesis
  proof (cases "\<exists>sq. rs = Inr sq \<and> admission_valid (a0\<lparr>ad_sequence := sq\<rparr>)")
    case False
    with run n s show ?thesis
      by (auto simp: storeAccept_def bindE_def Let_def failE_def split: sum.splits)
  next
    case True
    then obtain sq where sq: "rs = Inr sq" and v: "admission_valid (a0\<lparr>ad_sequence := sq\<rparr>)" by auto
    then have i: "ad_instance a0 = ''primary''" and ok: "identifier_ok (ad_request a0)"
      by (auto simp: admission_valid_def)
    from n sq i nextSequence_fresh pe have fresh: "fresh_sequence st w sq" by auto
    from run n sq v i have
      "write_record st (request_path st (ad_request a0)) (admission_to_json (a0\<lparr>ad_sequence := sq\<rparr>)) True w1 = (r, w')"
      by (simp add: storeAccept_def bindE_def Let_def root_def liftE_def request_path_def)
    with wp_run[OF write_record_outcome[OF sync request_record[OF ok]]] s fresh v show ?thesis by blast
  qed
qed

text \<open>C1: when \<open>Accept\<close> reports success, no record existed for the request, the admission is on
  the disk with a sequence number above every earlier admission and the head, it reads back
  as submitted, and every other admission, plan and the head are as before.\<close>

theorem accept_success:
  assumes "storeAccept st a0 w = (Inr (), w')" and "st_sync st = None" and "parents_exist st w"
    and "texts_not_empty w" and "admission_in_range a0"
  shows "\<exists>sq. fresh_sequence st w sq \<and>
     look w (request_path st (ad_request a0)) = None \<and>
     durable w' (request_path st (ad_request a0)) (Json (admission_to_json (a0\<lparr>ad_sequence := sq\<rparr>))) 384 \<and>
     admission_at st w' (ad_request a0) = Some (a0\<lparr>ad_sequence := sq\<rparr>) \<and>
     (\<forall>rq. rq \<noteq> ad_request a0 \<longrightarrow> admission_at st w' rq = admission_at st w rq) \<and>
     head_at st w' = head_at st w \<and> (\<forall>pid. plan_at st w' pid = plan_at st w pid)"
proof -
  let ?p = "request_path st (ad_request a0)"
  from storeAccept_cases[OF assms(1-3)] obtain sq w1 where s: "same_files w w1"
    and fresh: "fresh_sequence st w sq" and v: "admission_valid (a0\<lparr>ad_sequence := sq\<rparr>)"
    and post: "write_post st True ?p (admission_to_json (a0\<lparr>ad_sequence := sq\<rparr>)) w1 (Inr ()) w'"
    by auto
  let ?a = "a0\<lparr>ad_sequence := sq\<rparr>"
  have ok: "identifier_ok (ad_request a0)" using v by (simp add: admission_valid_def)
  have len: "1 \<le> w_jlen w1 (admission_to_json ?a)"
    using assms(4) s by (simp add: texts_not_empty_def same_files_env)
  have "admission_of_json (admission_to_json ?a) = Some ?a"
    using assms(5) v by (intro admission_roundtrip) (auto simp: admission_in_range_def admission_valid_def)
  with write_stores[OF post len] ok v have "admission_at st w' (ad_request a0) = Some ?a"
    by (simp add: admission_at_def)
  moreover have "admission_at st w' rq = admission_at st w rq" if "rq \<noteq> ad_request a0" for rq
    using write_keeps_views(2)[OF post request_record[OF ok]] that s by (simp add: views_same)
  moreover have "head_at st w' = head_at st w"
    using write_keeps_views(1)[OF post request_record[OF ok]] s
    by (simp add: views_same)
  moreover have "plan_at st w' pid = plan_at st w pid" for pid
    using write_keeps_views(3)[OF post request_record[OF ok]] s
    by (simp add: views_same)
  moreover have "look w ?p = None"
    using post s by (auto simp: write_post_def kept_if_def same_files_look)
  moreover have "durable w' ?p (Json (admission_to_json ?a)) 384" using write_stores(3)[OF post len] .
  ultimately show ?thesis using fresh by (intro exI[of _ sq]) simp
qed

text \<open>C2: whatever call of \<open>Accept\<close> fails, or wherever a crash stops it, the record of the
  request is as it was or complete with a fresh sequence number; a record that existed is
  never changed and the call then fails; no other record changes.\<close>

theorem accept_atomic:
  assumes "storeAccept st a0 w = (r, w')" and "st_sync st = None" and "parents_exist st w"
  shows "(look w' (request_path st (ad_request a0)) = look w (request_path st (ad_request a0)) \<or>
      (\<exists>sq. fresh_sequence st w sq \<and>
        stored w' (request_path st (ad_request a0)) (Json (admission_to_json (a0\<lparr>ad_sequence := sq\<rparr>))) 384)) \<and>
    (look w (request_path st (ad_request a0)) \<noteq> None \<longrightarrow>
      look w' (request_path st (ad_request a0)) = look w (request_path st (ad_request a0)) \<and> r \<noteq> Inr ()) \<and>
    (\<forall>q. record_path st q \<and> q \<noteq> request_path st (ad_request a0) \<longrightarrow> look w' q = look w q)"
  using storeAccept_cases[OF assms]
proof
  assume "\<exists>sq w1. same_files w w1 \<and> fresh_sequence st w sq \<and> admission_valid (a0\<lparr>ad_sequence := sq\<rparr>) \<and>
       write_post st True (request_path st (ad_request a0)) (admission_to_json (a0\<lparr>ad_sequence := sq\<rparr>)) w1 r w'"
  then obtain sq w1 where s: "same_files w w1" and fresh: "fresh_sequence st w sq"
    and v: "admission_valid (a0\<lparr>ad_sequence := sq\<rparr>)" and
    post: "write_post st True (request_path st (ad_request a0)) (admission_to_json (a0\<lparr>ad_sequence := sq\<rparr>)) w1 r w'"
    by blast
  have "identifier_ok (ad_request a0)" using v by (simp add: admission_valid_def)
  note other = write_keeps_record(1)[OF post request_record[OF this]]
  from post have "put_post (record_aux st (request_path st (ad_request a0))) 384 (request_path st (ad_request a0))
      (Json (admission_to_json (a0\<lparr>ad_sequence := sq\<rparr>))) w1 r w'"
    and "kept_if True (request_path st (ad_request a0)) w1 r w'" by (simp_all add: write_post_def)
  with s fresh other show ?thesis
    by (simp add: same_files_look put_post_def kept_if_def) blast
qed (simp add: same_files_look)

section \<open>Legacy starts and updates\<close>

text \<open>what \<open>Latest\<close> returns is the newest operation: no admission and no head record has
  a higher sequence number, and it is an admission or the legacy head record itself.\<close>

theorem latest_newest:
  assumes "storeLatest st ''primary'' w = (Inr h, w')" and "parents_exist st w"
  shows "newest_authority st w h \<and> same_files w w'"
  using latest_newest_authority[OF assms] keepsD[OF reads_storeLatest assms(1)] by simp

lemma beginLegacy_cases:
  assumes "beginLegacy st ''primary'' op c w = (Inr (), w')" and "st_sync st = None"
    and "parents_exist st w" and "texts_not_empty w"
  shows "\<exists>sq h. fresh_sequence st w sq \<and> head_at st w' = Some h \<and> hd_sequence h = sq \<and>
     hd_origin h = ''legacy'' \<and> hd_operation_id h = op \<and> hd_operation h = Some c \<and>
     durable w' (head_path st) (Json (head_to_json h)) 384 \<and>
     (\<forall>rq. admission_at st w' rq = admission_at st w rq) \<and>
     (\<forall>rq. identifier_ok rq \<longrightarrow> look w' (request_path st rq) = look w (request_path st rq)) \<and>
     look w' (state_dir st @ [''coordination'', ''primary'', ''admissions'']) =
       look w (state_dir st @ [''coordination'', ''primary'', ''admissions''])"
proof -
  from assms(1) obtain sq w1 where n: "nextSequence st ''primary'' w = (Inr sq, w1)"
    and wr: "writeHead st \<lparr>hd_schema = 2, hd_instance = ''primary'', hd_sequence = sq, hd_origin = ''legacy'',
          hd_operation_id = op, hd_operation = Some c\<rparr> w1 = (Inr (), w')"
    by (auto simp: beginLegacy_def bindE_Inr)
  let ?h = "\<lparr>hd_schema = 2, hd_instance = ''primary'', hd_sequence = sq, hd_origin = ''legacy'',
          hd_operation_id = op, hd_operation = Some c\<rparr>"
  from nextSequence_fresh[OF n assms(3)] have fresh: "fresh_sequence st w sq" and s: "same_files w w1" by auto
  from wr have v: "head_valid ?h" and run: "write_record st (head_path st) (head_to_json ?h) False w1 = (Inr (), w')"
    by (auto simp: writeHead_def bindE_def root_def head_path_def liftE_def split: if_splits)
  have post: "write_post st False (head_path st) (head_to_json ?h) w1 (Inr ()) w'"
    using wp_run[OF write_record_outcome[OF assms(2) head_record] run] .
  have len: "1 \<le> w_jlen w1 (head_to_json ?h)"
    using assms(4) s by (simp add: texts_not_empty_def same_files_env)
  have "head_of_json (head_to_json ?h) = Some ?h" by (rule head_roundtrip) simp_all
  with write_stores[OF post len] v have "head_at st w' = Some ?h" by (simp add: head_at_def)
  moreover have "admission_at st w' rq = admission_at st w rq" for rq
    using write_keeps_views(2)[OF post head_record] s by (simp add: views_same)
  moreover have "look w' (request_path st rq) = look w (request_path st rq)" if "identifier_ok rq" for rq
    using write_keeps_record(1)[OF post head_record request_record[OF that]] s by (simp add: same_files_look)
  moreover have "look w' (state_dir st @ [''coordination'', ''primary'', ''admissions'']) =
       look w (state_dir st @ [''coordination'', ''primary'', ''admissions''])"
  proof -
    let ?d = "state_dir st @ [''coordination'', ''primary'', ''admissions'']"
    have "\<not> record_aux st (head_path st) ?d"
      using path_below_length[of st "butlast (head_path st)" ?d]
      by (auto simp: record_aux_def head_path_def temp_in_def has_prefix_def)
    moreover have "?d \<noteq> head_path st" by (simp add: head_path_def)
    ultimately show ?thesis
      using post s by (auto simp: write_post_def put_post_def touches_look same_files_look)
  qed
  ultimately show ?thesis using fresh write_stores(3)[OF post len] by (intro exI[of _ sq] exI[of _ ?h]) simp
qed

text \<open>C29: a legacy start that reports success owns the head: its sequence is above everything
  before it, and the next \<open>Latest\<close> returns it or fails, never an older operation.\<close>

theorem legacy_leads:
  assumes "beginLegacy st ''primary'' op c w = (Inr (), w')" and "st_sync st = None"
    and "parents_exist st w" and "texts_not_empty w"
  shows "\<exists>h. fresh_sequence st w (hd_sequence h) \<and> hd_operation_id h = op \<and> hd_operation h = Some c \<and>
     durable w' (head_path st) (Json (head_to_json h)) 384 \<and>
     (\<forall>h' w''. storeLatest st ''primary'' w' = (Inr h', w'') \<longrightarrow> h' = h)"
proof -
  from beginLegacy_cases[OF assms] obtain sq h where fresh: "fresh_sequence st w sq"
    and h: "head_at st w' = Some h" "hd_sequence h = sq" "hd_origin h = ''legacy''"
      "hd_operation_id h = op" "hd_operation h = Some c"
      "durable w' (head_path st) (Json (head_to_json h)) 384"
    and adm: "\<And>rq. admission_at st w' rq = admission_at st w rq"
    and dir: "look w' (state_dir st @ [''coordination'', ''primary'', ''admissions'']) =
       look w (state_dir st @ [''coordination'', ''primary'', ''admissions''])"
    and rec: "\<And>rq. identifier_ok rq \<Longrightarrow> look w' (request_path st rq) = look w (request_path st rq)"
    by blast
  have "parents_exist st w'" using assms(3) dir rec by (auto simp: parents_exist_def)
  then have "h' = h" if "storeLatest st ''primary'' w' = (Inr h', w'')" for h' w''
  proof -
    from latest_newest_authority[OF that] \<open>parents_exist st w'\<close>
    have na: "newest_authority st w' h'" .
    with h have "hd_sequence h \<le> hd_sequence h'" by (simp add: newest_authority_def)
    moreover have "ad_sequence a < hd_sequence h" if "admission_at st w' rq = Some a" for rq a
      using that adm fresh h by (simp add: fresh_sequence_def)
    ultimately show ?thesis
      using na h by (fastforce simp: newest_authority_def admission_head_def)
  qed
  with fresh h show ?thesis by blast
qed

text \<open>C30: an operation that is not the newest one can no longer update its projection:
  \<open>UpdateOperation\<close> fails and changes no file.\<close>

theorem superseded_update_refused:
  assumes "storeLatest st inst w = (Inr h, w1)" and "hd_operation_id h \<noteq> op"
    and "updateOperation st inst op c w = (r, w')"
  shows "same_files w w' \<and> r = Inl (Msg ''operation was superseded by a newer operation'')"
  using assms keepsD[OF reads_storeLatest assms(1)]
  by (auto simp: updateOperation_def bindE_tryE[of "storeLatest st inst", OF assms(1)])

section \<open>Counters, plans and protected points\<close>

lemma last_counter_snoc:
  "last_counter sc (xs @ [a]) =
     (if ad_scope a = sc \<and> last_counter sc xs < ad_counter a then ad_counter a else last_counter sc xs)"
  by (simp add: last_counter_def)

lemma last_counter_max:
  "(\<forall>a \<in> set rs. ad_scope a = sc \<longrightarrow> ad_counter a \<le> last_counter sc rs) \<and>
   (last_counter sc rs = -1 \<or> (\<exists>a \<in> set rs. ad_scope a = sc \<and> ad_counter a = last_counter sc rs)) \<and>
   -1 \<le> last_counter sc rs"
proof (induction rs rule: rev_induct)
  case Nil
  show ?case by (simp add: last_counter_def)
next
  case (snoc a rs)
  then show ?case by (auto simp: last_counter_snoc)
qed

text \<open>\<open>Counter\<close> is the highest authorization counter any admission of the scope has used,
  or -1 when there is none, so a counter above it was never admitted before.\<close>

theorem counter_high_water:
  assumes "storeCounter st ''primary'' sc w = (Inr c, w')" and "parents_exist st w"
  shows "(\<forall>rq a. admission_at st w rq = Some a \<and> ad_scope a = sc \<longrightarrow> ad_counter a \<le> c) \<and>
    (c = -1 \<or> (\<exists>rq a. admission_at st w rq = Some a \<and> ad_scope a = sc \<and> ad_counter a = c))"
proof -
  from assms(1) obtain rs w1 where "storeAdmissions st ''primary'' w = (Inr rs, w1)" and c: "c = last_counter sc rs"
    by (auto simp: storeCounter_def bindE_Inr)
  then have auth: "authority st w rs" using storeAdmissions_yields assms(2) by blast
  with c last_counter_max[of rs sc] show ?thesis by (fastforce simp: authority_def)
qed

text \<open>a saved plan reads back as it was given, was not there before, and no other plan,
  admission or head changes.\<close>

theorem plan_saved:
  assumes "savePlan st p w = (Inr (), w')" and "st_sync st = None" and "texts_not_empty w"
    and "plan_in_range p"
  shows "look w (plan_path st (pl_id p)) = None \<and> plan_at st w' (pl_id p) = Some p \<and>
     (\<forall>q w''. storePlan st ''primary'' (pl_id p) w' = (Inr q, w'') \<longrightarrow> q = p) \<and>
     (\<forall>pid. pid \<noteq> pl_id p \<longrightarrow> plan_at st w' pid = plan_at st w pid) \<and>
     (\<forall>rq. admission_at st w' rq = admission_at st w rq) \<and> head_at st w' = head_at st w"
proof -
  from assms(1) have v: "plan_valid (st_sha st) p"
    and run: "write_record st (plan_path st (pl_id p)) (plan_to_json p) True w = (Inr (), w')"
    by (auto simp: savePlan_def bindE_def root_def liftE_def plan_path_def plan_valid_def split: if_splits)
  then have ok: "hex32_ok (pl_id p)" by (simp add: plan_valid_def)
  have post: "write_post st True (plan_path st (pl_id p)) (plan_to_json p) w (Inr ()) w'"
    using wp_run[OF write_record_outcome[OF assms(2) plan_record[OF ok]] run] .
  have "1 \<le> w_jlen w (plan_to_json p)" using assms(3) by (simp add: texts_not_empty_def)
  with write_stores(1)[OF post] ok v plan_roundtrip[OF assms(4)]
  have at: "plan_at st w' (pl_id p) = Some p" by (simp add: plan_at_def)
  then have "q = p" if "storePlan st ''primary'' (pl_id p) w' = (Inr q, w'')" for q w''
    using storePlan_yields[OF that] by simp
  moreover have "look w (plan_path st (pl_id p)) = None"
    using post by (auto simp: write_post_def kept_if_def)
  ultimately show ?thesis
    using at write_keeps_views[OF post plan_record[OF ok]] by simp
qed

lemma admission_refs_keep:
  "admission_refs as acc = Inr refs \<Longrightarrow> set acc \<subseteq> set refs \<and>
     (\<forall>a \<in> set as. \<forall>status. Option.bind (ad_operation a) (json_string_field ''status'') = Some status \<longrightarrow>
        status \<notin> {''succeeded'', ''failed'', ''rolled_back''} \<longrightarrow> ad_point a \<noteq> [] \<longrightarrow> ad_point a \<in> set refs)"
proof (induction as acc rule: admission_refs.induct)
  case (2 a as acc)
  then show ?case by (fastforce split: option.splits if_splits)
qed simp

lemma plan_refs_keep:
  assumes "foldE (plan_refs st ''primary'' now) names acc w = (Inr refs, w')"
  shows "set acc \<subseteq> set refs \<and> same_files w w' \<and>
    (\<forall>n \<in> set names. \<forall>p. plan_at st w n = Some p \<longrightarrow> now < pl_expires p \<longrightarrow> pl_point p \<noteq> [] \<longrightarrow>
       pl_point p \<in> set refs)"
  using assms
proof (induction names arbitrary: acc w)
  case Nil
  then show ?case by (simp add: reads.refl)
next
  case (Cons n ns)
  from Cons.prems obtain acc' w1 where step: "plan_refs st ''primary'' now n acc w = (Inr acc', w1)"
    and rest': "foldE (plan_refs st ''primary'' now) ns acc' w1 = (Inr refs, w')"
    by (auto simp: bindE_Inr)
  from step obtain p where p: "storePlan st ''primary'' n w = (Inr p, w1)"
    and acc': "acc' = (if now < pl_expires p \<and> pl_point p \<noteq> [] then acc @ [pl_point p] else acc)"
    unfolding plan_refs_def bindE_Inr by auto
  note rest = rest'[unfolded acc']
  have s: "same_files w w1" using keepsD[OF reads_storePlan p] .
  have at: "plan_at st w n = Some p" using storePlan_yields[OF p] by simp
  from Cons.IH[OF rest] have i: "set (if now < pl_expires p \<and> pl_point p \<noteq> [] then acc @ [pl_point p] else acc) \<subseteq> set refs"
    "same_files w1 w'" "\<And>m q. m \<in> set ns \<Longrightarrow> plan_at st w1 m = Some q \<Longrightarrow> now < pl_expires q \<Longrightarrow>
       pl_point q \<noteq> [] \<Longrightarrow> pl_point q \<in> set refs" by blast+
  from i(1,2) s at have "set acc \<subseteq> set refs" "same_files w w'"
    by (auto split: if_splits intro: reads.trans)
  with i at s show ?case by (auto simp: views_same split: if_splits)
qed

lemma hex32_not_pending: "hex32_ok pid \<Longrightarrow> \<not> has_prefix ''.pending-'' (json_name pid)"
  using hex_not_dot by (cases pid) (auto simp: hex32_ok_def shape_replicate has_prefix_def json_name_def)

text \<open>C31: \<open>ProtectedPoints\<close> is complete: the recovery point of every unexpired plan and of every
  admission whose operation has not ended is in the result, so pruning cannot take it.\<close>

theorem protected_points_complete:
  assumes "protectedPoints st ''primary'' now w = (Inr refs, w')" and "parents_exist st w"
    and "look w (state_dir st @ [''coordination'', ''primary'', ''plans'']) \<noteq> None"
  shows "(\<forall>pid p. plan_at st w pid = Some p \<and> now < pl_expires p \<and> pl_point p \<noteq> [] \<longrightarrow> pl_point p \<in> set refs) \<and>
    (\<forall>rq a status. admission_at st w rq = Some a \<and>
       Option.bind (ad_operation a) (json_string_field ''status'') = Some status \<and>
       status \<notin> {''succeeded'', ''failed'', ''rolled_back''} \<and> ad_point a \<noteq> [] \<longrightarrow> ad_point a \<in> set refs)"
proof -
  let ?d = "state_dir st @ [''coordination'', ''primary'', ''plans'']"
  from assms(1) obtain names w1 acc w2 rs where e: "entries ?d w = (Inr names, w1)"
    and f: "foldE (plan_refs st ''primary'' now) names [] w1 = (Inr acc, w2)"
    and a: "storeAdmissions st ''primary'' w2 = (Inr rs, w')" and refs: "admission_refs rs acc = Inr refs"
    by (auto simp: protectedPoints_def bindE_Inr root_def)
  note pf = plan_refs_keep[OF f]
  have s: "same_files w w1" using keepsD[OF reads_entries e] .
  with pf have s2: "same_files w w2" by (blast intro: reads.trans)
  from s2 assms(2) have "parents_exist st w2" by (simp add: parents_exist_def same_files_look)
  with a have auth: "authority st w2 rs" using storeAdmissions_yields by blast
  note af = admission_refs_keep[OF refs]
  have "pl_point p \<in> set refs" if "plan_at st w pid = Some p" "now < pl_expires p" "pl_point p \<noteq> []" for pid p
  proof -
    from that(1) have ok: "hex32_ok pid" and l: "look w (?d @ [json_name pid]) \<noteq> None"
      by (auto simp: plan_at_def record_at_def plan_path_def split: if_splits option.splits)
    have "pid \<in> set names"
      using entries_yields[OF e l hex32_not_pending[OF ok]] assms(3) by simp
    with pf af that s show ?thesis by (auto simp: views_same)
  qed
  moreover have "ad_point a \<in> set refs" if "admission_at st w rq = Some a"
    "Option.bind (ad_operation a) (json_string_field ''status'') = Some status"
    "status \<notin> {''succeeded'', ''failed'', ''rolled_back''}" "ad_point a \<noteq> []" for rq a status
  proof -
    have "a \<in> set rs" using that(1) auth s2 by (auto simp: authority_def views_same)
    with af that show ?thesis by blast
  qed
  ultimately show ?thesis by blast
qed

end
