(* ===== verification/ManagerLaws.thy ===== *)
theory ManagerLaws
  imports Submission CoordOrder
begin

text \<open>
  Frames of the operation manager: what its calls leave alone in the process (\<open>same_process\<close>),
  in the coordination records (\<open>settled\<close>) and on the rest of the disk, how these lift to the
  host, and that \<open>replaceContents\<close> implements \<open>atomic_put\<close>.
\<close>

section \<open>Replacing an operation file\<close>

lemma sync_and_close_outcome:
  "wp (sync_and_close d) (\<lambda>r w'. touches (\<lambda>_. False) w w' \<and>
     (r = Inr () \<longrightarrow> (\<forall>q. child_of d q \<longrightarrow> on_disk w' q = look w q))) w"
  unfolding sync_and_close_def
proof (rule wp_bindI[OF open_path_outcome])
  fix x w1
  assume s: "same_files w w1"
  show "wp (bindE (tryE (sync_entries d)) (\<lambda>s. bindE (tryE (close_file d)) (\<lambda>c.
      case join_errs [err_of s, err_of c] of None \<Rightarrow> retE () | Some e \<Rightarrow> failE e)))
    (\<lambda>r w'. touches (\<lambda>_. False) w w' \<and> (r = Inr () \<longrightarrow> (\<forall>q. child_of d q \<longrightarrow> on_disk w' q = look w q))) w1"
  proof (rule wp_tryI[OF sync_entries_outcome], goal_cases)
    case (1 r w2)
    show ?case
    proof (rule wp_tryI[OF close_file_outcome], goal_cases)
      case (1 k w3)
      with \<open>_ \<and> _\<close> s have "touches (\<lambda>_. False) w w3" by (blast intro: writes.trans same_files_touches)
      with 1 \<open>touches _ w1 w2 \<and> _\<close> s show ?case
        by (cases r; cases k) (auto simp: wp_eqs join_errs_def same_files_look same_files_disk)
    qed
  qed
qed (auto intro: same_files_touches)

lemma replaceContents_outcome:
  assumes p: "target ''.operation-'' p"
  shows "wp (replaceContents p c) (put_post (temp_in (butlast p) ''.operation-'') 416 p c w) w"
proof -
  let ?finish = "\<lambda>t. bindE (rename t p) (\<lambda>_. sync_and_close (butlast p))"
  have ne: "p \<noteq> []" using p by (simp add: target_def)
  have stage: "stage_ok 416 c (replace_stage c)"
    unfolding replace_stage_def[abs_def] by (rule stage_chmod_write_sync_close)
  show ?thesis
    unfolding replaceContents_def
  proof (rule wp_mono[OF staged_put_spec[OF p stage finish_rename_sync[of sync_and_close p, OF sync_and_close_outcome ne]]])
    show "keeps (touches_mem (\<lambda>q. q = t)) (remove t)" for t by (rule mem_remove) simp
  qed simp
qed

interpretation operations: atomic_put replaceContents "target ''.operation-''"
    "\<lambda>p. temp_in (butlast p) ''.operation-''" 416
  by unfold_locales (simp_all add: replaceContents_outcome target_not_temp)

section \<open>Frames of the host\<close>

context frame
begin

text \<open>The second step is only run on what the first one returns.\<close>

lemma keeps_bindE_post:
  assumes "keeps R m" and "\<And>w x w'. m w = (Inr x, w') \<Longrightarrow> keeps R (f x)"
  shows "keeps R (bindE m f)"
  unfolding keeps_def
proof
  fix w
  obtain r w' where m: "m w = (r, w')" by fastforce
  with assms(1) have "R w w'" by (rule keepsD)
  moreover have "R w' (snd (f x w'))" if "r = Inr x" for x
    using assms(2)[of w x w'] m that by (simp add: keeps_def)
  ultimately show "R w (snd (bindE m f w))"
    using m by (cases r) (auto simp: bindE_def intro: trans)
qed

end

definition same_process :: "'d host \<Rightarrow> 'd host \<Rightarrow> bool" where
  "same_process h h' \<longleftrightarrow> ho_active h' = ho_active h \<and> ho_locked h' = ho_locked h \<and> ho_jobs h' = ho_jobs h"

interpretation process: frame same_process
  by unfold_locales (auto simp: same_process_def)

text \<open>A relation on files, read off the world of a host.\<close>

definition files :: "(world \<Rightarrow> world \<Rightarrow> bool) \<Rightarrow> 'd host \<Rightarrow> 'd host \<Rightarrow> bool" where
  "files R h h' \<longleftrightarrow> R (ho_world h) (ho_world h')"

locale world_frame = frame R for R :: "world \<Rightarrow> world \<Rightarrow> bool"
begin

lemma keeps_onW [keeps_intros]: "keeps R m \<Longrightarrow> keeps (files R) (onW m)"
  by (simp add: keeps_def files_def onW_def case_prod_unfold)

lemma keeps_process:
  assumes "\<And>h. ho_world (snd (m h)) = ho_world h"
  shows "keeps (files R) m"
  using assms by (simp add: keeps_def files_def refl)

lemma keeps_now [keeps_intros]: "keeps (files R) (now m)"
  by (rule keeps_process) (simp add: now_def)

lemma keeps_getOp [keeps_intros]: "keeps (files R) getOp"
  by (rule keeps_process) (simp add: getOp_def)

lemma keeps_modifyOp [keeps_intros]: "keeps (files R) (modifyOp f)"
  by (rule keeps_process) (simp add: modifyOp_def)

end

sublocale world_frame \<subseteq> host: frame "files R"
  by unfold_locales (auto simp: files_def refl intro: trans)

interpretation reading: world_frame same_files
  by unfold_locales

interpretation writing: world_frame "touches P" for P
  by unfold_locales

text \<open>Process variables under the calls on files.\<close>

lemma process_onW [keeps_intros]: "keeps same_process (onW m)"
  by (simp add: keeps_def same_process_def onW_def case_prod_unfold)

lemma process_now [keeps_intros]: "keeps same_process (now m)"
  by (simp add: keeps_def same_process_def now_def)

lemma process_getOp [keeps_intros]: "keeps same_process getOp"
  by (simp add: keeps_def same_process_def getOp_def)

lemma process_modifyOp [keeps_intros]: "keeps same_process (modifyOp f)"
  by (simp add: keeps_def same_process_def modifyOp_def)

lemma bindE_liftE [simp]: "bindE (liftE (Inr x)) f = f x" "bindE (liftE (Inl e)) f = failE e"
  by (rule ext, simp add: bindE_def liftE_def failE_def)+

section \<open>Coordination records stay\<close>

definition admissions_dir :: "store \<Rightarrow> path" where
  "admissions_dir st = state_dir st @ [''coordination'', ''primary'', ''admissions'']"

definition settled :: "store \<Rightarrow> world \<Rightarrow> world \<Rightarrow> bool" where
  "settled st w w' \<longleftrightarrow> same_env w w' \<and> (\<forall>p. record_path st p \<longrightarrow> look w' p = look w p) \<and>
     (look w (admissions_dir st) \<noteq> None \<longrightarrow> look w' (admissions_dir st) \<noteq> None)"

interpretation settling: world_frame "settled st" for st
  by unfold_locales (auto simp: settled_def intro: same_env_trans)

lemma settled_reads: "keeps same_files m \<Longrightarrow> keeps (settled st) m"
  by (erule keeps_mono) (auto simp: settled_def same_files_look same_files_def)

lemma settled_touches:
  assumes "keeps (touches P) m" and "\<And>p. P p \<Longrightarrow> \<not> has_prefix (state_dir st @ [''coordination'']) p"
  shows "keeps (settled st) m"
  using assms(1)
proof (rule keeps_mono)
  fix w w'
  assume t: "touches P w w'"
  have below: "\<not> P p" if "record_path st p \<or> p = admissions_dir st" for p
    using assms(2)[of p] that by (auto simp: record_path_def admissions_dir_def has_prefix_iff)
  show "settled st w w'"
    using t below unfolding settled_def by (auto simp: touches_look) (simp add: touches_def)
qed

lemma settled_records: "settled st w w' \<Longrightarrow> record_path st p \<Longrightarrow> record_at w' p = record_at w p"
  by (auto simp: settled_def record_at_def same_env_def split: option.splits content.splits)

lemma settled_views:
  assumes "settled st w w'"
  shows "admission_at st w' rq = admission_at st w rq" "head_at st w' = head_at st w"
    "plan_at st w' pid = plan_at st w pid"
  using assms request_record[of rq st] plan_record[of pid st] head_record[of st]
  by (simp_all add: admission_at_def head_at_def plan_at_def settled_records)

lemma settled_parents: "settled st w w' \<Longrightarrow> parents_exist st w \<Longrightarrow> parents_exist st w'"
  by (auto simp: parents_exist_def settled_def request_record admissions_dir_def)

lemma settled_durable_directory:
  assumes "st_sync st = None" and "p = state_dir st @ ''coordination'' # ''primary'' # kind" and "kind \<in> {[], [''admissions'']}"
  shows "keeps (settled st) (durable_directory st p)"
proof (rule keepsI, rule wp_mono[OF durable_directory_outcome[OF assms(1)]])
  fix w r w'
  assume a: "touches (path_below st p) w w' \<and> grows w w' \<and>
     (r = Inr () \<longrightarrow> (\<forall>q. path_below st p q \<longrightarrow> is_dir w' q \<and> on_disk w' q = look w' q))"
  have "\<not> path_below st p q" if "record_path st q" for q
  proof -
    have rp: "record_path st (p @ [json_name ''head''])"
      using assms(2,3) by (auto simp: record_path_def has_prefix_def json_name_def intro!: exI[of _ kind] exI[of _ "''head''"])
    from record_path_disjoint[OF rp that] show ?thesis by (simp add: record_aux_def)
  qed
  moreover have "same_env w w'" using a by (simp add: touches_def)
  ultimately show "settled st w w'" using a by (auto simp: settled_def touches_look grows_def)
qed

lemma settled_syncAuthority:
  assumes "st_sync st = None"
  shows "keeps (settled st) (syncAuthority st inst)"
proof (cases "inst = ''primary''")
  case True
  have "keeps (settled st) (bindE (durable_directory st (state_dir st @ [''coordination'', ''primary''])) (\<lambda>_.
      bindE (storeAdmissions st inst) (\<lambda>records.
      if records \<noteq> [] then durable_directory st ((state_dir st @ [''coordination'', ''primary'']) @ [''admissions''])
      else retE ())))"
    by (intro keeps_intros settled_reads[OF reads_storeAdmissions] settled_durable_directory[OF assms]) auto
  with True show ?thesis by (simp add: syncAuthority_def root_def)
next
  case False
  then show ?thesis by (simp add: syncAuthority_def root_def settling.keeps_failE)
qed

section \<open>The files of the manager\<close>

text \<open>The production manager: its coordination store is the one of its own state directory.\<close>

definition standard :: "'d manager \<Rightarrow> bool" where
  "standard m \<longleftrightarrow> mg_coordination m = None"

lemma standard_store:
  assumes "standard m"
  shows "state_dir (coordinationStore m) = manager_dir m" "st_sync (coordinationStore m) = None"
    "st_hook (coordinationStore m) = (\<lambda>_. None)"
  using assms by (simp_all add: standard_def coordinationStore_def state_dir_def)

text \<open>Paths under \<open>instances\<close> and the directories above them.\<close>

definition own :: "'d manager \<Rightarrow> path \<Rightarrow> bool" where
  "own m p \<longleftrightarrow> \<not> has_prefix (manager_dir m @ [''coordination'']) p"

lemma own_below [simp]: "own m (manager_dir m @ ''instances'' # rest)"
  by (auto simp: own_def has_prefix_iff)

lemma own_prefixes: "q \<in> set (prefixes_of (manager_dir m @ ''instances'' # rest)) \<Longrightarrow> own m q"
  unfolding own_def
proof
  assume q: "q \<in> set (prefixes_of (manager_dir m @ ''instances'' # rest))"
    and c: "has_prefix (manager_dir m @ [''coordination'']) q"
  from q obtain t where "manager_dir m @ ''instances'' # rest = q @ t"
    by (auto simp del: take_append simp: prefixes_of_def) (metis append_take_drop_id)
  with c show False by (auto simp: has_prefix_iff)
qed

text \<open>Calls on own files keep the coordination records.\<close>

lemma settled_own:
  assumes "standard m" and "keeps (touches (own m)) a"
  shows "keeps (settled (coordinationStore m)) a"
  using assms(2) by (rule settled_touches) (simp add: own_def standard_store[OF assms(1)])

lemma op_id_digit: "op_id_ok op \<Longrightarrow> op \<noteq> [] \<and> is_digit (hd op)"
  by (cases op) (simp_all add: op_id_ok_def shape_def numeral_eq_Suc)

lemma op_id_target: "op_id_ok op \<Longrightarrow> target ''.operation-'' (d @ [json_name op])"
  using op_id_digit[of op]
  by (cases op) (auto simp: target_def has_prefix_def json_name_def is_digit_def code_def)

lemma current_target: "target ''.operation-'' (currentPath m inst)"
  by (simp add: target_def currentPath_def has_prefix_def)

lemma own_replace:
  assumes "target ''.operation-'' (operationsDir m inst @ [n])"
  shows "keeps (touches (own m)) (replaceContents (operationsDir m inst @ [n]) c)"
  using operations.put_keeps_touches[OF assms]
  by (rule keeps_mono) (erule touches_mono, auto simp: temp_in_def operationsDir_def butlast_append)

lemma own_mkdir: "keeps (touches (own m)) (mkdir_all (operationsDir m inst) k)"
  by (rule touches_mkdir_all) (simp add: operationsDir_def own_prefixes)

section \<open>Repairing projections\<close>

lemma admissionOperation_id: "admissionOperation a = Inr x \<Longrightarrow> on_id x = ad_operation_id a"
  by (auto simp: admissionOperation_def split: option.splits if_splits)

lemma headOperation_id: "headOperation h = Inr x \<Longrightarrow> on_id x = hd_operation_id h"
  by (auto simp: headOperation_def dest: admissionOperation_id split: option.splits if_splits)

lemma storeAdmissions_at:
  assumes "storeAdmissions st inst w = (Inr rs, w')" and "a \<in> set rs"
  shows "inst = ''primary'' \<and> admission_at st w (ad_request a) = Some a"
proof (cases "inst = ''primary''")
  case True
  with assms(1) obtain names w1 where e: "entries (admissions_dir st) w = (Inr names, w1)"
    and f: "foldE (collect_admission st ''primary'') names [] w1 = (Inr rs, w')"
    by (auto simp: storeAdmissions_def bindE_Inr root_def admissions_dir_def)
  have s: "same_files w w1" using keepsD[OF reads_entries e] .
  from collect_admissions[OF f] assms(2) have "admission_at st w1 (ad_request a) = Some a" by simp
  with True s show ?thesis by (simp add: views_same)
next
  case False
  with assms show ?thesis by (simp add: storeAdmissions_def)
qed

lemma storeAdmissions_op_id:
  "storeAdmissions st inst w = (Inr rs, w') \<Longrightarrow> a \<in> set rs \<Longrightarrow> op_id_ok (ad_operation_id a)"
  by (drule storeAdmissions_at, assumption) (auto dest: admission_at_props simp: admission_valid_def)

lemma storeLatest_op_id:
  assumes "storeLatest st inst w = (Inr h, w')"
  shows "op_id_ok (hd_operation_id h)"
proof -
  from assms have i: "inst = ''primary''" by (simp add: storeLatest_def split: if_splits)
  obtain ra w1 where a: "storeAdmissions st inst w = (ra, w1)" by fastforce
  with assms i obtain rs where rs: "storeAdmissions st inst w = (Inr rs, w1)"
    by (cases ra) (auto simp: storeLatest_def bindE_fail)
  obtain hr w2 where hr: "storeHead st inst w1 = (hr, w2)" by fastforce
  have "storeLatest st inst w = (case hr of
        Inl e \<Rightarrow> if err_is ErrNotExist e then latest_of None rs w2 else (Inl e, w2)
      | Inr h \<Rightarrow> latest_of (Some h) rs w2)"
    using rs hr i
    by (simp add: storeLatest_def latest_of_def bindE_def tryE_def retE_def failE_def split: sum.splits)
  with assms obtain ho where l: "latest_of ho rs w2 = (Inr h, w')"
    and ho: "\<And>h. ho = Some h \<Longrightarrow> hr = Inr h"
    by (auto split: sum.splits if_splits)
  from latest_of_cases[OF l] i obtain b where b: "head_base ho rs = Inr b" and n: "newest inst rs b = Inr h"
    and nz: "hd_sequence h \<noteq> 0" by (auto split: if_splits)
  from newest_max[OF n] consider "h = b" | a where "a \<in> set rs" "h = admission_head inst a" by blast
  then show ?thesis
  proof cases
    case 1
    with head_base_cases[OF b] nz have "ho = Some h" by (auto simp: zero_head_def)
    with ho hr have "storeHead st inst w1 = (Inr h, w2)" by blast
    then show ?thesis
      by (auto simp: storeHead_def bindE_Inr head_valid_def split: if_splits option.splits)
  next
    case 2
    with storeAdmissions_op_id[OF rs] show ?thesis by (simp add: admission_head_def)
  qed
qed

lemma own_project: "op_id_ok op \<Longrightarrow> keeps (touches (own m)) (project (operation_path m inst op) j)"
  unfolding project_def operation_path_def by (rule own_replace) (rule op_id_target)

lemma own_repair_admission:
  assumes "op_id_ok (ad_operation_id a)"
  shows "keeps (touches (own m)) (repair_admission (operationsDir m inst) a)"
  unfolding repair_admission_def
proof (rule writes.keeps_bindE_post[OF writes.keeps_liftE])
  fix w x w'
  assume "liftE (admissionOperation a) w = (Inr x, w')"
  with assms have "op_id_ok (on_id x)" by (auto dest: admissionOperation_id)
  then show "keeps (touches (own m)) (project (operationsDir m inst @ [json_name (on_id x)]) (ad_operation a))"
    using own_project[of "on_id x" m inst] by (simp add: operation_path_def)
qed

lemma own_forE: "(\<And>x. x \<in> set xs \<Longrightarrow> keeps (touches P) (f x)) \<Longrightarrow> keeps (touches P) (forE f xs)"
  by (rule keeps_forE_set)

lemma settled_repairAdmissions:
  assumes "standard m"
  shows "keeps (settled (coordinationStore m)) (repairAdmissions m inst)"
proof -
  let ?st = "coordinationStore m"
  let ?R = "settled ?st"
  note own = settled_own[OF assms]
  note reads = settled_reads
  have files: "keeps ?R (repair_files m inst latest)" if ok: "op_id_ok (hd_operation_id latest)" for latest
    unfolding repair_files_def
  proof (rule settling.keeps_bindE_post[OF settling.keeps_liftE])
    fix w x w'
    assume "liftE (headOperation latest) w = (Inr x, w')"
    with ok have id: "op_id_ok (on_id x)" by (auto dest: headOperation_id)
    have p1: "keeps ?R (project (currentPath m inst) j)" for j
      using own[OF own_replace[OF current_target[unfolded currentPath_def]]]
      by (simp add: project_def currentPath_def)
    have p2: "keeps ?R (project (operation_path m inst (on_id x)) j)" for j
      by (rule own[OF own_project[OF id]])
    have p3: "keeps ?R (mkdir_all (operationsDir m inst) 488)" by (rule own[OF own_mkdir])
    have p4: "keeps ?R (syncAuthority ?st inst)"
      by (rule settled_syncAuthority[OF standard_store(2)[OF assms]])
    have p5: "keeps ?R (forE (repair_admission (operationsDir m inst)) rs)"
      if "storeAdmissions ?st inst w1 = (Inr rs, w2)" for w1 rs w2
      by (rule own[OF own_forE], rule own_repair_admission, rule storeAdmissions_op_id[OF that])
    show "keeps ?R (bindE (storeAdmissions ?st inst) (\<lambda>records.
     bindE (syncAuthority ?st inst) (\<lambda>_.
     bindE (mkdir_all (operationsDir m inst) 488) (\<lambda>_.
     bindE (forE (repair_admission (operationsDir m inst)) records) (\<lambda>_.
     bindE (project (operation_path m inst (on_id x)) (hd_operation latest)) (\<lambda>_.
     project (currentPath m inst) (hd_operation latest)))))))"
      by (rule settling.keeps_bindE_post[OF reads[OF reads_storeAdmissions]])
         (intro settling.keeps_bindE p1 p2 p3 p4 p5, assumption)
  qed
  show ?thesis
    unfolding repairAdmissions_def
  proof (rule settling.keeps_bindE_post[OF settling.keeps_tryE[OF reads[OF reads_storeLatest]]])
    fix w x w'
    assume "tryE (storeLatest ?st inst) w = (Inr x, w')"
    then show "keeps ?R (case x of Inl e \<Rightarrow> if err_is ErrNotExist e then retE () else failE e
       | Inr latest \<Rightarrow> repair_files m inst latest)"
      using files storeLatest_op_id by (auto intro!: keeps_intros split: sum.splits)
  qed
qed

end
