(* ===== verification/AdmissionLaws.thy ===== *)
theory AdmissionLaws
  imports ManagerLaws
begin

text \<open>
  How an admission lives on after it was accepted: decoded records are in the ranges that
  survive encoding, \<open>UpdateOperation\<close> projects the journal into the admission and the head
  and keeps every other field, and a property of the admission of a request that projections
  keep is an invariant of the journal's writes.
\<close>

section \<open>Decoded numbers are in range\<close>

lemma field_invariant:
  assumes "\<And>j x y. P x \<Longrightarrow> d j x = Some y \<Longrightarrow> P y"
  shows "field k d kvs x = Some y \<Longrightarrow> P x \<Longrightarrow> P y"
proof (induction kvs arbitrary: x)
  case (Cons kv kvs)
  obtain k' v where kv: "kv = (k', v)" by (cases kv)
  show ?case
  proof (cases "key_eq k k'")
    case True
    with Cons.prems(1) kv obtain z where z: "d v x = Some z" and f: "field k d kvs z = Some y"
      by (auto split: option.splits)
    from assms[OF Cons.prems(2) z] show ?thesis by (rule Cons.IH[OF f])
  next
    case False
    with Cons kv show ?thesis by simp
  qed
qed simp

definition in_int64 :: "int \<Rightarrow> bool" where
  "in_int64 i \<longleftrightarrow> - (2 ^ 63) \<le> i \<and> i < 2 ^ 63"

lemma dec_int64_range: "in_int64 x \<Longrightarrow> dec_int64 j x = Some y \<Longrightarrow> in_int64 y"
  by (cases j) (auto simp: dec_int64_def in_int64_def split: if_splits)

lemma field_int64: "field k dec_int64 kvs x = Some y \<Longrightarrow> in_int64 x \<Longrightarrow> in_int64 y"
  by (rule field_invariant[where P = in_int64]) (rule dec_int64_range)

lemma dec_actor_range: "in_int64 (ac_admin x) \<Longrightarrow> dec_actor j x = Some y \<Longrightarrow> in_int64 (ac_admin y)"
  using field_int64[of "''admin_id''" _ "ac_admin x"]
  by (auto simp: dec_actor_def bind_eq_Some_conv split: option.splits if_splits)

lemma field_actor: "field k dec_actor kvs x = Some y \<Longrightarrow> in_int64 (ac_admin x) \<Longrightarrow> in_int64 (ac_admin y)"
  by (rule field_invariant[where P = "\<lambda>a. in_int64 (ac_admin a)"]) (rule dec_actor_range)

lemma zero_ranges [simp]: "in_int64 0" "in_int64 (ac_admin zero_actor)"
  by (simp_all add: in_int64_def zero_actor_def)

lemma in_range_iff:
  "admission_in_range a \<longleftrightarrow> in_int64 (ad_schema a) \<and> in_int64 (ad_counter a) \<and> in_int64 (ac_admin (ad_actor a))"
  "plan_in_range p \<longleftrightarrow> in_int64 (pl_schema p) \<and> in_int64 (ac_admin (pl_actor p))"
  by (auto simp: admission_in_range_def plan_in_range_def in_int64_def)

lemma admission_decoded_in_range: "admission_of_json j = Some a \<Longrightarrow> admission_in_range a"
  by (auto simp: admission_of_json_def bind_eq_Some_conv in_range_iff
      elim!: field_int64 field_actor split: option.splits if_splits)

lemma plan_decoded_in_range: "plan_of_json j = Some p \<Longrightarrow> plan_in_range p"
  by (auto simp: plan_of_json_def bind_eq_Some_conv in_range_iff
      elim!: field_int64 field_actor split: option.splits if_splits)

lemma admission_at_in_range: "admission_at st w rq = Some a \<Longrightarrow> admission_in_range a"
  by (auto simp: admission_at_def bind_eq_Some_conv dest: admission_decoded_in_range
      split: option.splits if_splits)

lemma plan_at_in_range: "plan_at st w pid = Some p \<Longrightarrow> plan_in_range p"
  by (auto simp: plan_at_def bind_eq_Some_conv dest: plan_decoded_in_range split: option.splits if_splits)

section \<open>Invariants of the admission of a request\<close>

definition holds :: "(world \<Rightarrow> bool) \<Rightarrow> world \<Rightarrow> world \<Rightarrow> bool" where
  "holds I w w' \<longleftrightarrow> (I w \<longrightarrow> I w')"

interpretation holding: world_frame "holds I" for I
  by unfold_locales (auto simp: holds_def)

definition admitted_as :: "store \<Rightarrow> string \<Rightarrow> (admission \<Rightarrow> bool) \<Rightarrow> world \<Rightarrow> bool" where
  "admitted_as st rq P w \<longleftrightarrow> (\<forall>a. admission_at st w rq = Some a \<longrightarrow> P a)"

definition projection_stable :: "(admission \<Rightarrow> bool) \<Rightarrow> bool" where
  "projection_stable P \<longleftrightarrow> (\<forall>a c a'. P a \<longrightarrow> project_operation a c = Inr a' \<longrightarrow> P a')"

lemma project_operation_fields:
  "project_operation a c = Inr a' \<Longrightarrow> admission_valid a' \<and>
     (\<exists>pt. a' = a\<lparr>ad_operation := Some c, ad_point := pt\<rparr>)"
  by (auto simp: project_operation_def Let_def split: option.splits if_splits intro!: exI[of _ "ad_point a'"])

lemma holds_settled: "keeps (settled st) m \<Longrightarrow> keeps (holds (admitted_as st rq P)) m"
  by (erule keeps_mono) (simp add: holds_def admitted_as_def settled_views)

lemma holds_reads: "keeps same_files m \<Longrightarrow> keeps (holds (admitted_as st rq P)) m"
  by (rule holds_settled) (rule settled_reads)

lemma holds_head:
  assumes "st_sync st = None" and "p = head_path st"
  shows "keeps (holds (admitted_as st rq P)) (write_record st p j ex)"
proof (rule keepsI, rule wp_mono[OF write_record_outcome[OF assms(1)]])
  show "record_path st p" using head_record assms(2) by simp
  fix w r w'
  assume "write_post st ex p j w r w'"
  then have "admission_at st w' rq = admission_at st w rq"
    using write_keeps_views(2) head_record assms(2) by auto
  then show "holds (admitted_as st rq P) w w'" by (simp add: holds_def admitted_as_def)
qed

text \<open>Rewriting an admission: afterwards the old or the new one is found.\<close>

lemma admission_rewritten:
  assumes post: "write_post st ex (request_path st (ad_request a)) (admission_to_json a) w r w'"
    and a: "admission_valid a" "admission_in_range a"
    and found: "admission_at st w' rq = Some b"
  shows "admission_at st w rq = Some b \<or> b = a"
proof (cases "rq = ad_request a")
  case False
  from a(1) have ok: "identifier_ok (ad_request a)" by (simp add: admission_valid_def)
  with False write_keeps_views(2)[OF post request_record[OF ok]] found show ?thesis by auto
next
  case True
  let ?p = "request_path st (ad_request a)"
  from post have env: "w_jlen w' = w_jlen w" and
    cases: "look w' ?p = look w ?p \<or> stored w' ?p (Json (admission_to_json a)) 384"
    by (auto simp: write_post_def put_post_def touches_def same_env_def)
  from cases show ?thesis
  proof
    assume "look w' ?p = look w ?p"
    with env have "record_at w' ?p = record_at w ?p"
      by (simp add: record_at_def split: option.splits content.splits)
    then have "admission_at st w' rq = admission_at st w rq" using True by (simp add: admission_at_def)
    with found show ?thesis by simp
  next
    assume "stored w' ?p (Json (admission_to_json a)) 384"
    moreover have "ad_operation a \<noteq> None" using a(1) by (simp add: admission_valid_def)
    moreover have "\<exists>j. record_at w' ?p = Some j \<and> admission_of_json j = Some b"
      using found True by (auto simp: admission_at_def bind_eq_Some_conv split: option.splits if_splits)
    ultimately show ?thesis using admission_roundtrip[OF a(2)]
      by (auto simp: stored_def good_file_def record_at_def split: if_splits)
  qed
qed

lemma holds_rewrite:
  assumes "st_sync st = None" and "admission_valid a" and "admission_in_range a" and "P a"
    and "p = request_path st (ad_request a)"
  shows "keeps (holds (admitted_as st rq P)) (write_record st p (admission_to_json a) ex)"
proof (rule keepsI, rule wp_mono[OF write_record_outcome[OF assms(1)]])
  show "record_path st p" using request_record assms(2,5) by (simp add: admission_valid_def)
  fix w r w'
  assume "write_post st ex p (admission_to_json a) w r w'"
  with admission_rewritten[of st ex a w r w' rq] assms(2-5) show "holds (admitted_as st rq P) w w'"
    by (auto simp: holds_def admitted_as_def)
qed

section \<open>The writes of the journal\<close>

lemma storeOperation_at:
  "storeOperation st inst op w = (Inr a, w') \<Longrightarrow> inst = ''primary'' \<and> admission_at st w (ad_request a) = Some a \<and>
     ad_operation_id a = op"
  by (auto simp: storeOperation_def bindE_Inr find_Some_iff split: if_splits option.splits
      dest!: storeAdmissions_at nth_mem)

lemma holds_syncHead:
  assumes "st_sync st = None"
  shows "keeps (holds (admitted_as st rq P)) (syncHeadOperation st inst op c)"
proof (cases "inst = ''primary''")
  case True
  have head: "keeps (holds (admitted_as st rq P)) (writeHead st h)" for h
  proof (cases "hd_instance h = ''primary''")
    case True
    then show ?thesis
      by (auto simp: writeHead_def root_def head_path_def intro!: keeps_intros holds_head[OF assms])
  next
    case False
    then show ?thesis by (simp add: writeHead_def head_valid_def holding.keeps_failE)
  qed
  then show ?thesis
    unfolding syncHeadOperation_def by (intro keeps_intros holds_reads[OF reads_storeLatest] head)
next
  case False
  then show ?thesis
    by (simp add: syncHeadOperation_def storeLatest_def bindE_def tryE_def failE_def retE_def keeps_def holding.refl)
qed

text \<open>An admission that a run of the reader returned, not only any value.\<close>

lemma holds_updateAdmission:
  assumes "st_sync st = None" and "projection_stable P"
  shows "keeps (holds (admitted_as st rq P)) (updateAdmission st inst op c)"
proof -
  let ?R = "holds (admitted_as st rq P)"
  have step: "?R w (snd (bindE (liftE (project_operation a0 c)) (\<lambda>a. bindE (liftE (root st inst ''admissions'')) (\<lambda>d.
      bindE (write_record st (d @ [json_name (ad_request a)]) (admission_to_json a) False)
        (\<lambda>_. syncHeadOperation st inst op c))) w))"
    if at: "admission_at st w (ad_request a0) = Some a0" "inst = ''primary''" for w a0
  proof (cases "project_operation a0 c")
    case (Inl e)
    then show ?thesis by (simp add: failE_def holding.refl)
  next
    case (Inr a)
    from project_operation_fields[OF Inr] obtain pt where v: "admission_valid a" and
      eq: "a = a0\<lparr>ad_operation := Some c, ad_point := pt\<rparr>" by blast
    have r: "admission_in_range a" using admission_at_in_range[OF at(1)] eq by (simp add: in_range_iff)
    have rq: "ad_request a = ad_request a0" using eq by simp
    let ?w = "write_record st (request_path st (ad_request a)) (admission_to_json a) False"
    have "keeps ?R (bindE ?w (\<lambda>_. syncHeadOperation st inst op c))" if "rq \<noteq> ad_request a \<or> P a"
    proof (rule holding.keeps_bindE[OF _ holds_syncHead[OF assms(1)]])
      show "keeps ?R ?w"
      proof (cases "rq = ad_request a")
        case True
        with that show ?thesis by (intro holds_rewrite[OF assms(1) v r]) auto
      next
        case False
        show ?thesis
        proof (rule keepsI, rule wp_mono[OF write_record_outcome[OF assms(1)]])
          show rp: "record_path st (request_path st (ad_request a))"
            using v request_record by (simp add: admission_valid_def)
          fix w r w'
          assume "write_post st False (request_path st (ad_request a)) (admission_to_json a) w r w'"
          from write_keeps_views(2)[OF this rp] False show "?R w w'"
            by (simp add: holds_def admitted_as_def)
        qed
      qed
    qed
    moreover have "rq = ad_request a \<Longrightarrow> admitted_as st rq P w \<Longrightarrow> P a"
      using at(1) rq Inr assms(2) by (auto simp: admitted_as_def projection_stable_def)
    ultimately show ?thesis
      using Inr at(2) by (auto simp: root_def request_path_def holds_def keeps_def)
  qed
  show ?thesis
    unfolding keeps_def
  proof
    fix w
    obtain r w1 where run: "storeOperation st inst op w = (r, w1)" by fastforce
    have s: "?R w w1" using keepsD[OF holds_reads[OF reads_storeOperation] run] .
    show "?R w (snd (updateAdmission st inst op c w))"
    proof (cases r)
      case (Inl e)
      have "keeps ?R (if err_is ErrNotExist e then syncHeadOperation st inst op c else failE e)"
        by (intro keeps_intros holds_syncHead[OF assms(1)])
      then have "?R w1 (snd (updateAdmission st inst op c w))"
        using run Inl by (simp add: updateAdmission_def bindE_tryE keeps_def)
      with s show ?thesis by (rule holding.trans)
    next
      case (Inr a0)
      from storeOperation_at[OF run[unfolded Inr]] keepsD[OF reads_storeOperation run]
      have "admission_at st w1 (ad_request a0) = Some a0" "inst = ''primary''" by (simp_all add: views_same)
      from step[OF this] have "?R w1 (snd (updateAdmission st inst op c w))"
        using run Inr by (simp add: updateAdmission_def bindE_tryE)
      with s show ?thesis by (rule holding.trans)
    qed
  qed
qed

lemma holds_updateOperation:
  assumes "st_sync st = None" and "projection_stable P"
  shows "keeps (holds (admitted_as st rq P)) (updateOperation st inst op c)"
  unfolding updateOperation_def
  by (intro keeps_intros holds_reads[OF reads_storeLatest] holds_updateAdmission[OF assms])

lemma holds_storeAccept:
  assumes "st_sync st = None" and "admission_in_range a0" and "\<And>sq. P (a0\<lparr>ad_sequence := sq\<rparr>)"
  shows "keeps (holds (admitted_as st rq P)) (storeAccept st a0)"
  unfolding storeAccept_def Let_def
proof (rule holding.keeps_bindE[OF holds_reads[OF reads_nextSequence]])
  fix sq
  let ?a = "a0\<lparr>ad_sequence := sq\<rparr>"
  let ?w = "bindE (liftE (root st (ad_instance ?a) ''admissions''))
     (\<lambda>d. write_record st (d @ [json_name (ad_request ?a)]) (admission_to_json ?a) True)"
  show "keeps (holds (admitted_as st rq P)) (if \<not> admission_valid ?a then failE (Msg ''invalid admission authority'') else ?w)"
  proof (cases "admission_valid ?a")
    case True
    have "admission_in_range ?a" using assms(2) by (simp add: in_range_iff)
    from holds_rewrite[where P = P, OF assms(1) True this assms(3)[of sq] refl, where ex = True and rq = rq]
    have "keeps (holds (admitted_as st rq P)) ?w"
      using True by (simp add: admission_valid_def root_def request_path_def)
    with True show ?thesis by simp
  qed (simp add: holding.keeps_failE)
qed

text \<open>A successful write leaves a record behind.\<close>

definition present :: "store \<Rightarrow> string \<Rightarrow> world \<Rightarrow> bool" where
  "present st rq w \<longleftrightarrow> admission_at st w rq \<noteq> None"

lemma updateOperation_op_id:
  assumes "updateOperation st inst op c w = (Inr (), w')"
  shows "op_id_ok op"
proof -
  obtain r w1 where run: "storeLatest st inst w = (r, w1)" by fastforce
  show ?thesis
  proof (cases r)
    case (Inr h)
    with run assms have "hd_operation_id h = op"
      by (auto simp: updateOperation_def bindE_tryE[of "storeLatest st inst"] split: if_splits)
    with storeLatest_op_id[OF run[unfolded Inr]] show ?thesis by simp
  next
    case (Inl e)
    with run assms have u: "updateAdmission st inst op c w1 = (Inr (), w')"
      by (auto simp: updateOperation_def bindE_tryE[of "storeLatest st inst"] split: if_splits)
    show ?thesis
    proof (rule ccontr)
      assume n: "\<not> op_id_ok op"
      have "storeOperation st inst op w1 = (Inl (Msg ''invalid operation identity''), w1)"
        using n by (simp add: storeOperation_def)
      with u show False by (simp add: updateAdmission_def bindE_tryE[of "storeOperation st inst op"])
    qed
  qed
qed

lemma admission_written:
  assumes post: "write_post st ex (request_path st (ad_request a)) (admission_to_json a) w (Inr ()) w'"
    and a: "admission_valid a" "admission_in_range a" and "texts_not_empty w"
  shows "admission_at st w' (ad_request a) = Some a"
proof -
  have "record_at w' (request_path st (ad_request a)) = Some (admission_to_json a)"
    using write_stores(1)[OF post] assms(4) by (simp add: texts_not_empty_def)
  moreover have "identifier_ok (ad_request a)" "ad_operation a \<noteq> None"
    using a(1) by (simp_all add: admission_valid_def)
  ultimately show ?thesis
    using a by (simp add: admission_at_def admission_roundtrip)
qed

lemma texts_env: "same_env w w' \<Longrightarrow> texts_not_empty w' = texts_not_empty w"
  by (simp add: texts_not_empty_def same_env_def)

lemma writeHead_present:
  assumes "st_sync st = None" and "writeHead st h w = (r, w')" and "present st rq w"
  shows "present st rq w'"
proof (cases "head_valid h")
  case True
  then have i: "hd_instance h = ''primary''" by (simp add: head_valid_def)
  with assms(2) True have "write_record st (head_path st) (head_to_json h) False w = (r, w')"
    by (simp add: writeHead_def root_def head_path_def)
  with wp_run[OF write_record_outcome[OF assms(1) head_record]]
  have "write_post st False (head_path st) (head_to_json h) w r w'" by blast
  from write_keeps_views(2)[OF this head_record] assms(3) show ?thesis by (simp add: present_def)
qed (use assms in \<open>simp add: writeHead_def\<close>)

lemma syncHead_present:
  assumes "st_sync st = None" and "syncHeadOperation st inst op c w = (r, w')" and "present st rq w"
  shows "present st rq w'"
proof -
  obtain l w1 where run: "storeLatest st inst w = (l, w1)" by fastforce
  have p: "present st rq w1" using assms(3) keepsD[OF reads_storeLatest run] by (simp add: present_def views_same)
  show ?thesis
    using assms(2) p writeHead_present[OF assms(1)] run
    by (auto simp: syncHeadOperation_def bindE_tryE[of "storeLatest st inst"] split: sum.splits if_splits)
qed

lemma updateAdmission_present:
  assumes st: "st_sync st = None" and run: "updateAdmission st inst op c w = (Inr (), w')"
    and "present st rq w" and "texts_not_empty w"
  shows "present st rq w'"
proof -
  obtain r w1 where o: "storeOperation st inst op w = (r, w1)" by fastforce
  have s: "same_files w w1" using keepsD[OF reads_storeOperation o] .
  then have p1: "present st rq w1" and t1: "texts_not_empty w1"
    using assms(3,4) by (simp_all add: present_def views_same texts_not_empty_def same_files_env)
  show ?thesis
  proof (cases r)
    case (Inl e)
    with run o p1 syncHead_present[OF st] show ?thesis
      by (auto simp: updateAdmission_def bindE_tryE[of "storeOperation st inst op"] split: if_splits)
  next
    case (Inr a0)
    from storeOperation_at[OF o[unfolded Inr]] s have i: "inst = ''primary''"
      and at: "admission_at st w1 (ad_request a0) = Some a0" by (simp_all add: views_same)
    from run o Inr i obtain a w2 where pr: "project_operation a0 c = Inr a"
      and wr: "write_record st (request_path st (ad_request a)) (admission_to_json a) False w1 = (Inr (), w2)"
      and sh: "syncHeadOperation st inst op c w2 = (Inr (), w')"
      by (auto simp: updateAdmission_def bindE_tryE[of "storeOperation st inst op"] bindE_Inr root_def request_path_def)
    from project_operation_fields[OF pr] obtain pt where v: "admission_valid a" and
      eq: "a = a0\<lparr>ad_operation := Some c, ad_point := pt\<rparr>" by blast
    have rng: "admission_in_range a" using admission_at_in_range[OF at] eq by (simp add: in_range_iff)
    have rp: "record_path st (request_path st (ad_request a))"
      using v request_record by (simp add: admission_valid_def)
    from wp_run[OF write_record_outcome[OF st rp] wr]
    have post: "write_post st False (request_path st (ad_request a)) (admission_to_json a) w1 (Inr ()) w2" .
    have "present st rq w2"
    proof (cases "rq = ad_request a")
      case True
      with admission_written[OF post v rng t1] show ?thesis by (simp add: present_def)
    next
      case False
      with write_keeps_views(2)[OF post rp] p1 show ?thesis by (simp add: present_def)
    qed
    with syncHead_present[OF st sh] show ?thesis by blast
  qed
qed

lemma updateOperation_present:
  assumes "st_sync st = None" and "updateOperation st inst op c w = (Inr (), w')"
    and "present st rq w" and "texts_not_empty w"
  shows "present st rq w'"
proof -
  obtain l w1 where run: "storeLatest st inst w = (l, w1)" by fastforce
  have s: "same_files w w1" using keepsD[OF reads_storeLatest run] .
  then have "present st rq w1" "texts_not_empty w1"
    using assms(3,4) by (simp_all add: present_def views_same texts_not_empty_def same_files_env)
  with assms(2) run updateAdmission_present[OF assms(1)] show ?thesis
    by (auto simp: updateOperation_def bindE_tryE[of "storeLatest st inst"] split: sum.splits if_splits)
qed

end
