(* ===== verification/HostAuth.thy ===== *)
theory HostAuth
  imports Submission Authorization
begin

text \<open>
  \<open>authorize\<close> (\<open>internal/authorization/service.go\<close>) around callbacks of the operation manager.
  Theory \<open>Authorization\<close> models it on files alone; here the existing receipt is looked up and
  the callback runs on the host, with the variables of the process. The two are the same
  function: seen from the files, a run on the host is a run of \<open>authorize\<close>.
\<close>

section \<open>The same steps on the host\<close>

definition host_accept_code ::
    "path \<Rightarrow> mutation_scope \<Rightarrow> int \<Rightarrow> int \<Rightarrow> attempts \<Rightarrow> (int \<Rightarrow> ('d host, unit) act) \<Rightarrow> bool \<Rightarrow> ('d host, unit) act" where
  "host_accept_code d s matched last_used cleared callback admission =
     (if admission then
        bindE (callback matched) (\<lambda>_. onW
          (bindE (ignoreE (replacePrivateFile (counter_path d s) (counter_text matched))) (\<lambda>_.
           bindE (ignoreE (writeAttemptState (attempts_path d s) no_attempts)) (\<lambda>_.
           ignoreE (writeAttemptState (global_attempts_path d) cleared)))))
      else
        bindE (onW (wrapE (Wrap ''persist mutation authorization counter'')
          (replacePrivateFile (counter_path d s) (counter_text matched)))) (\<lambda>_.
        bindE (tryE (callback matched)) (\<lambda>r. onW (after_callback d s last_used cleared r))))"

definition host_check_code ::
    "service \<Rightarrow> string \<Rightarrow> path \<Rightarrow> mutation_scope \<Rightarrow> string \<Rightarrow> (int \<Rightarrow> ('d host, unit) act) \<Rightarrow> bool \<Rightarrow> ('d host, unit) act" where
  "host_check_code sv inst d s otp callback admission =
     bindE (onW (match_attempt sv inst d s otp)) (\<lambda>a.
     if am_matched a < 0 then
       onW (recordInvalidAttempt (global_attempts_path d) (am_global a) (attempts_path d s) (am_scoped a) (am_now a))
     else if am_matched a \<le> am_last a then failE (Sentinel ErrReplay)
     else bindE (onW (wrapE (Wrap ''calculate mutation authorization attempts'')
            (remainingGlobalAttemptState d s))) (\<lambda>cleared.
          host_accept_code d s (am_matched a) (am_last a) cleared callback admission))"

definition host_locked_section ::
    "service \<Rightarrow> string \<Rightarrow> path \<Rightarrow> mutation_scope \<Rightarrow> string \<Rightarrow> ('d host, bool) act option \<Rightarrow> (int \<Rightarrow> ('d host, unit) act) \<Rightarrow>
     bool \<Rightarrow> ('d host, unit) act" where
  "host_locked_section sv inst d s otp existing cb admission =
     bindE (case existing of None \<Rightarrow> retE False | Some ex \<Rightarrow> ex) (\<lambda>found.
       if found then retE ()
       else if \<not> code_ok otp then failE (Sentinel ErrInvalid)
       else host_check_code sv inst d s otp cb admission)"

definition host_under_lock :: "path \<Rightarrow> ('d host, unit) act \<Rightarrow> ('d host, unit) act" where
  "host_under_lock p m = bindE (onW (openPrivateLock p)) (\<lambda>_.
     deferE (bindE (onW (wrapE (Wrap ''lock mutation authorization'') (flock p))) (\<lambda>_. deferE m (onW (funlock p))))
            (onW (close_file p)))"

definition host_authorize ::
    "service \<Rightarrow> string \<Rightarrow> mutation_scope \<Rightarrow> string \<Rightarrow> ('d host, bool) act option \<Rightarrow> (int \<Rightarrow> ('d host, unit) act) option \<Rightarrow>
     bool \<Rightarrow> ('d host, unit) act" where
  "host_authorize sv inst s otp existing callback admission =
     (case callback of None \<Rightarrow> failE (Sentinel ErrInvalid)
      | Some cb \<Rightarrow>
          if \<not> validScope s then failE (Sentinel ErrInvalid)
          else bindE (tryE (onW (instanceDir sv inst))) (\<lambda>dr. case dr of
            Inl e \<Rightarrow> failE (if err_is ErrNotExist e then Sentinel ErrUnconfigured else e)
          | Inr d \<Rightarrow> host_under_lock (d @ [''mutation.lock''])
                       (host_locked_section sv inst d s otp existing cb admission)))"

text \<open>\<open>authorization.Scope(...)\<close> of a text.\<close>

definition scope_of_name :: "string \<Rightarrow> mutation_scope" where
  "scope_of_name n = (if n = ''update'' then ScopeUpdate else if n = ''backup'' then ScopeBackup
     else if n = ''rollback'' then ScopeRollback else OtherScope n)"

text \<open>The two entry points: for the first interface, and the authorizer of \<open>Submit\<close>.\<close>

definition host_Authorize ::
    "service \<Rightarrow> string \<Rightarrow> mutation_scope \<Rightarrow> string \<Rightarrow> ('d host, unit) act \<Rightarrow> ('d host, unit) act" where
  "host_Authorize sv inst s otp callback = host_authorize sv inst s otp None (Some (\<lambda>_. callback)) False"

definition admission_authorizer :: "service \<Rightarrow> 'd authorizer" where
  "admission_authorizer sv inst sc otp existing callback =
     host_authorize sv inst (scope_of_name sc) otp (Some existing) (Some callback) True"

section \<open>Seen from the files\<close>

definition on_world :: "'d host \<Rightarrow> ('d host, 'a) act \<Rightarrow> 'a io" where
  "on_world h m w = (case m (h\<lparr>ho_world := w\<rparr>) of (r, h') \<Rightarrow> (r, ho_world h'))"

lemma on_world_run: "m h = (r, h') \<Longrightarrow> on_world h m (ho_world h) = (r, ho_world h')"
  by (simp add: on_world_def)

lemma on_world_simps [simp]:
  "on_world h (onW m) = m" "on_world h (retE x) = retE x" "on_world h (failE e) = failE e"
  "on_world h (tryE M) = tryE (on_world h M)"
  "on_world h (wrapE g M) = wrapE g (on_world h M)"
  "on_world h (deferE M (onW d)) = deferE (on_world h M) d"
  "on_world h (bindE M (\<lambda>x. onW (f x))) = bindE (on_world h M) f"
  by (auto simp: on_world_def onW_def retE_def failE_def tryE_def wrapE_def deferE_def bindE_def fun_eq_iff
      split: prod.splits sum.splits)

text \<open>A step on the files alone in front of any other step.\<close>

lemma on_world_first: "on_world h (bindE (onW m) F) = bindE m (\<lambda>x. on_world h (F x))"
  by (auto simp: on_world_def onW_def bindE_def fun_eq_iff split: prod.splits sum.splits)

lemma on_world_first_try: "on_world h (bindE (tryE (onW m)) F) = bindE (tryE m) (\<lambda>x. on_world h (F x))"
  by (auto simp: on_world_def onW_def bindE_def tryE_def fun_eq_iff split: prod.splits sum.splits)

lemma on_world_last_try: "on_world h (bindE (tryE M) (\<lambda>x. onW (f x))) = bindE (tryE (on_world h M)) f"
  by simp

text \<open>The lookup may leave a receipt behind only when it has found one.\<close>

definition looks_up :: "('d host, bool) act \<Rightarrow> bool" where
  "looks_up ex \<longleftrightarrow> (\<forall>h h'. ex h = (Inr False, h') \<longrightarrow> h' = h\<lparr>ho_world := ho_world h'\<rparr>)"

lemma on_world_lookup:
  assumes "looks_up ex"
  shows "on_world h (bindE ex (\<lambda>found. if found then retE () else M)) =
    bindE (on_world h ex) (\<lambda>found. if found then retE () else on_world h M)"
proof
  fix w
  obtain r h' where ex: "ex (h\<lparr>ho_world := w\<rparr>) = (r, h')" by fastforce
  show "on_world h (bindE ex (\<lambda>found. if found then retE () else M)) w =
    bindE (on_world h ex) (\<lambda>found. if found then retE () else on_world h M) w"
  proof (cases "r = Inr False")
    case True
    with ex assms have "h' = h\<lparr>ho_world := w\<rparr>\<lparr>ho_world := ho_world h'\<rparr>"
      unfolding looks_up_def by blast
    then have "h\<lparr>ho_world := ho_world h'\<rparr> = h'" by simp
    then have "on_world h M (ho_world h') = (fst (M h'), ho_world (snd (M h')))"
      by (simp add: on_world_def case_prod_unfold)
    with ex True show ?thesis by (simp add: on_world_def bindE_def case_prod_unfold)
  next
    case False
    with ex show ?thesis
      by (cases r) (auto simp: on_world_def bindE_def retE_def)
  qed
qed

lemma bindE_retE [simp]: "bindE (retE x) f = f x"
  by (rule ext) (simp add: bindE_def retE_def)

lemma on_world_accept_code:
  "on_world h (host_accept_code d s k l c cb adm) = accept_code d s k l c (\<lambda>n. on_world h (cb n)) adm"
  by (simp add: host_accept_code_def accept_code_def on_world_first)

lemma on_world_check_code:
  "on_world h (host_check_code sv inst d s otp cb adm) = check_code sv inst d s otp (\<lambda>n. on_world h (cb n)) adm"
  by (simp add: host_check_code_def check_code_def on_world_first on_world_accept_code if_distrib[of "on_world h"]
      cong: if_cong)

lemma on_world_locked_section:
  assumes "\<forall>ex. existing = Some ex \<longrightarrow> looks_up ex"
  shows "on_world h (host_locked_section sv inst d s otp existing cb adm) =
    locked_section sv inst d s otp (map_option (on_world h) existing) (\<lambda>n. on_world h (cb n)) adm"
proof (cases existing)
  case None
  then show ?thesis
    by (simp add: host_locked_section_def locked_section_def on_world_check_code if_distrib[of "on_world h"] cong: if_cong)
next
  case (Some ex)
  with assms have "looks_up ex" by simp
  with Some show ?thesis
    by (simp add: host_locked_section_def locked_section_def on_world_lookup on_world_check_code
        if_distrib[of "on_world h"] cong: if_cong)
qed

lemma on_world_under_lock: "on_world h (host_under_lock p m) = under_lock p (on_world h m)"
  by (simp add: host_under_lock_def under_lock_def on_world_first)


end
