(* ===== verification/AuthLaws.thy ===== *)
theory AuthLaws
  imports Authorization CoordOrder
begin

text \<open>
  What \<open>authorize\<close> guarantees: codes are never accepted twice, a locked scope stays locked,
  a failed callback gives the counter back, one scope does not touch another, and the delay
  told to clients is bounded. \<open>replacePrivateFile\<close> implements \<open>atomic_put\<close>.
\<close>

section \<open>Readers\<close>

lemma reads_unix_now [keeps_intros]: "keeps same_files (unix_now sv)"
  by (simp add: keeps_def unix_now_def reads.refl)

lemma reads_instanceDir [keeps_intros]: "keeps same_files (instanceDir sv inst)"
  unfolding instanceDir_def by (intro keeps_intros)

lemma reads_validateEnrollment [keeps_intros]: "keeps same_files (validateEnrollment sv d inst)"
  unfolding validateEnrollment_def by (intro keeps_intros)

lemma reads_readSecret [keeps_intros]: "keeps same_files (readSecret p)"
  unfolding readSecret_def Let_def by (intro keeps_intros)

lemma reads_readCounter [keeps_intros]: "keeps same_files (readCounter p)"
  unfolding readCounter_def by (intro keeps_intros)

lemma reads_readAttemptState [keeps_intros]: "keeps same_files (readAttemptState p)"
  unfolding readAttemptState_def by (intro keeps_intros)

lemma reads_remaining [keeps_intros]: "keeps same_files (remainingGlobalAttemptState d s)"
  unfolding remainingGlobalAttemptState_def by (intro keeps_intros)

lemma reads_match_counter [keeps_intros]: "keeps same_files (match_counter sv secret otp now)"
  unfolding match_counter_def try_candidate_def Let_def by (intro keeps_intros)

lemma reads_retry_loop [keeps_intros]: "keeps same_files (retry_loop sv ps k)"
proof (induction ps arbitrary: k)
  case Nil
  show ?case by (simp add: reads.keeps_retE)
next
  case (Cons p ps)
  have "keeps same_files (retry_step sv p k)"
    unfolding retry_step_def Let_def by (intro keeps_intros)
  with Cons show ?case by (auto intro!: keeps_intros)
qed

lemma reads_Configured: "keeps same_files (Configured sv inst)"
  unfolding Configured_def by (intro keeps_intros)

section \<open>Replacing a private file\<close>

lemma auth_sync_outcome:
  "wp (auth_sync p) (\<lambda>r w'. touches (\<lambda>_. False) w w' \<and>
     (r = Inr () \<longrightarrow> (\<forall>q. child_of p q \<longrightarrow> on_disk w' q = look w q))) w"
  unfolding auth_sync_def
proof (rule wp_bindI[OF open_path_outcome])
  fix x w1
  assume s: "same_files w w1"
  show "wp (deferE (sync_entries p) (close_file p)) (\<lambda>r w'. touches (\<lambda>_. False) w w' \<and>
     (r = Inr () \<longrightarrow> (\<forall>q. child_of p q \<longrightarrow> on_disk w' q = look w q))) w1"
    unfolding wp_deferE
  proof (rule wp_mono[OF sync_entries_outcome])
    fix r w2
    assume a: "touches (\<lambda>_. False) w1 w2 \<and> (r = Inr () \<longrightarrow> (\<forall>q. child_of p q \<longrightarrow> on_disk w2 q = look w1 q))"
    show "wp (close_file p) (\<lambda>_ w'. touches (\<lambda>_. False) w w' \<and>
       (r = Inr () \<longrightarrow> (\<forall>q. child_of p q \<longrightarrow> on_disk w' q = look w q))) w2"
      by (rule wp_mono[OF close_file_outcome])
         (use s a in \<open>auto simp: same_files_look same_files_disk\<close>,
          (blast intro: writes.trans same_files_touches)+)
  qed
qed (auto intro: same_files_touches)

definition auth_put :: "path \<Rightarrow> content \<Rightarrow> unit io" where
  "auth_put p c = (case c of Text s \<Rightarrow> replacePrivateFile p s | Json _ \<Rightarrow> failE (Msg ''not text''))"

lemma replacePrivateFile_outcome:
  assumes p: "target ''.mutation-state-'' p"
  shows "wp (replacePrivateFile p s)
    (put_post (temp_in (butlast p) ''.mutation-state-'') 384 p (Text s) w) w"
proof -
  let ?stage = "\<lambda>t. bindE (chmod t 384) (\<lambda>_. bindE (write_data t (Text s)) (\<lambda>_.
     bindE (fsync t) (\<lambda>_. close_file t)))"
  let ?finish = "\<lambda>t. bindE (rename t p) (\<lambda>_. auth_sync (butlast p))"
  have eq: "replacePrivateFile p s = bindE (create_temp (butlast p) ''.mutation-state-'')
     (\<lambda>t. deferE (bindE (?stage t) (\<lambda>_. ?finish t)) (bindE (ignoreE (close_file t)) (\<lambda>_. remove t)))"
    by (simp add: replacePrivateFile_def bindE_assoc)
  have ne: "p \<noteq> []" using p by (simp add: target_def)
  show ?thesis
    unfolding eq
  proof (rule wp_mono[OF staged_put_spec[OF p stage_chmod_write_sync_close finish_rename_sync[of auth_sync p, OF auth_sync_outcome ne]]])
    show "keeps (touches_mem (\<lambda>q. q = t)) (bindE (ignoreE (close_file t)) (\<lambda>_. remove t))" for t
      by (intro volatile.keeps_bindE volatile.keeps_ignoreE mem_remove mem_reads[OF reads_close_file]) simp
  qed simp
qed

interpretation auth: atomic_put auth_put "target ''.mutation-state-''"
    "\<lambda>p. temp_in (butlast p) ''.mutation-state-''" 384
proof
  fix p c w
  assume ok: "target ''.mutation-state-'' p"
  show "wp (auth_put p c) (put_post (temp_in (butlast p) ''.mutation-state-'') 384 p c w) w"
    using ok
    by (cases c) (simp_all add: auth_put_def replacePrivateFile_outcome wp_eqs put_post_same reads.refl)
qed (simp add: target_not_temp)

lemma replace_is_put: "replacePrivateFile p s = auth_put p (Text s)"
  by (simp add: auth_put_def)

section \<open>Files of an instance\<close>

lemma auth_targets [simp]:
  "target ''.mutation-state-'' (attempts_path d s)" "target ''.mutation-state-'' (global_attempts_path d)"
  "target ''.mutation-state-'' (counter_path d s)"
  by (simp_all add: target_def attempts_path_def global_attempts_path_def counter_path_def has_prefix_def)

lemma scope_name_inj: "validScope s \<Longrightarrow> validScope s' \<Longrightarrow> scope_name s = scope_name s' \<longleftrightarrow> s = s'"
  by (auto simp: validScope_def)

lemma last_differs: "x \<noteq> [] \<Longrightarrow> y \<noteq> [] \<Longrightarrow> last x \<noteq> last y \<Longrightarrow> p @ x \<noteq> q @ y"
  by (metis last_appendR)

lemma auth_paths_differ [simp]:
  "attempts_path d s \<noteq> counter_path d s'" "global_attempts_path d \<noteq> counter_path d s"
  "counter_path d s = counter_path d s' \<longleftrightarrow> scope_name s = scope_name s'"
  "attempts_path d s = attempts_path d s' \<longleftrightarrow> scope_name s = scope_name s'"
  "attempts_path d s \<noteq> d @ [''mutation.lock'']" "counter_path d s \<noteq> d @ [''mutation.lock'']"
  "global_attempts_path d \<noteq> d @ [''mutation.lock'']"
  by (simp_all add: attempts_path_def counter_path_def global_attempts_path_def last_differs
      last_differs[where q = "[]", simplified] last_differs[where p = "[]", simplified])

lemma auth_paths_sym [simp]:
  "counter_path d s \<noteq> attempts_path d s'" "counter_path d s \<noteq> global_attempts_path d"
  "d @ [''mutation.lock''] \<noteq> attempts_path d s" "d @ [''mutation.lock''] \<noteq> counter_path d s"
  "d @ [''mutation.lock''] \<noteq> global_attempts_path d"
  by (rule not_sym, rule auth_paths_differ)+

lemma attempts_paths_differ [simp]: "attempts_path d s \<noteq> global_attempts_path d" "global_attempts_path d \<noteq> attempts_path d s"
proof -
  have "length (''mutation.'' @ scope_name s @ ''.attempts'') \<noteq> length ''mutation.attempts''" by simp
  then show "attempts_path d s \<noteq> global_attempts_path d"
    unfolding attempts_path_def global_attempts_path_def by (metis last_snoc)
  then show "global_attempts_path d \<noteq> attempts_path d s" by (rule not_sym)
qed

text \<open>The counter and attempt state a reader would find.\<close>

definition private_text :: "world \<Rightarrow> path \<Rightarrow> nat \<Rightarrow> string option" where
  "private_text w p limit = (case look w p of None \<Rightarrow> None
     | Some n \<Rightarrow> if n_kind n = KRegular \<and> n_perm n = 384 \<and> 1 \<le> data_size w (n_data n) \<and>
                     data_size w (n_data n) \<le> limit
                 then Some (content_text (n_data n)) else None)"

definition counter_at :: "world \<Rightarrow> path \<Rightarrow> int option" where
  "counter_at w p = (if look w p = None then Some (-1)
     else case private_text w p 32 of None \<Rightarrow> None
       | Some s \<Rightarrow> (case counter_of_text s of Inl _ \<Rightarrow> None | Inr c \<Rightarrow> Some c))"

definition attempts_at :: "world \<Rightarrow> path \<Rightarrow> attempts option" where
  "attempts_at w p = (if look w p = None then Some no_attempts
     else case private_text w p 64 of None \<Rightarrow> None
       | Some s \<Rightarrow> (case parse_attempts s of Inl _ \<Rightarrow> None | Inr a \<Rightarrow> Some a))"

lemma same_data_size: "same_files w w' \<Longrightarrow> data_size w' c = data_size w c"
  by (simp add: data_size_def same_files_env split: content.splits)

lemma auth_views_same:
  "same_files w w' \<Longrightarrow> counter_at w' p = counter_at w p"
  "same_files w w' \<Longrightarrow> attempts_at w' p = attempts_at w p"
  by (simp_all add: counter_at_def attempts_at_def private_text_def same_files_look same_data_size
      cong: option.case_cong)

lemma read_private:
  assumes "lstat p w = (Inr i, w1)" "i_kind i = KRegular" "i_perm i = 384" "1 \<le> i_size i" "i_size i \<le> limit"
    and "read_file p w1 = (Inr c, w2)"
  shows "look w p \<noteq> None \<and> private_text w p limit = Some (content_text c)"
proof -
  from wp_run[OF lstat_outcome assms(1)] obtain n where n: "look w p = Some n" "i = info_of w n"
    and s: "same_files w w1" by auto
  from wp_run[OF read_file_outcome assms(6)] n s have "c = n_data n" by (auto simp: same_files_look)
  with n assms(2-5) show ?thesis by (simp add: private_text_def info_of_def)
qed

lemma readAttemptState_yields:
  assumes "readAttemptState p w = (Inr a, w')"
  shows "attempts_at w p = Some a \<and> same_files w w'"
proof
  show "same_files w w'" using keepsD[OF reads_readAttemptState assms] .
  obtain r w1 where r: "lstat p w = (r, w1)" by fastforce
  show "attempts_at w p = Some a"
  proof (cases r)
    case (Inl e)
    with assms r have "err_is ErrNotExist e" "a = no_attempts"
      by (auto simp: readAttemptState_def bindE_tryE[of "lstat p", OF r] split: if_splits)
    with lstat_missing[of p w e w1] r Inl show ?thesis by (simp add: attempts_at_def)
  next
    case (Inr i)
    with assms r obtain c where i: "i_kind i = KRegular" "i_perm i = 384" "1 \<le> i_size i" "i_size i \<le> 64"
      and c: "read_file p w1 = (Inr c, w')" "parse_attempts (content_text c) = Inr a"
      by (auto simp: readAttemptState_def bindE_tryE[of "lstat p", OF r] bindE_Inr split: if_splits)
    with read_private[of p w i w1 64 c w'] r Inr show ?thesis by (auto simp: attempts_at_def)
  qed
qed

lemma readCounter_yields:
  assumes "readCounter p w = (Inr a, w')"
  shows "counter_at w p = Some a \<and> same_files w w'"
proof
  show "same_files w w'" using keepsD[OF reads_readCounter assms] .
  obtain r w1 where r: "lstat p w = (r, w1)" by fastforce
  show "counter_at w p = Some a"
  proof (cases r)
    case (Inl e)
    with assms r have "err_is ErrNotExist e" "a = -1"
      by (auto simp: readCounter_def bindE_tryE[of "lstat p", OF r] split: if_splits)
    with lstat_missing[of p w e w1] r Inl show ?thesis by (simp add: counter_at_def)
  next
    case (Inr i)
    with assms r obtain c where i: "i_kind i = KRegular" "i_perm i = 384" "1 \<le> i_size i" "i_size i \<le> 32"
      and c: "read_file p w1 = (Inr c, w')" "counter_of_text (content_text c) = Inr a"
      by (auto simp: readCounter_def bindE_tryE[of "lstat p", OF r] bindE_Inr split: if_splits)
    with read_private[of p w i w1 32 c w'] r Inr show ?thesis by (auto simp: counter_at_def)
  qed
qed

section \<open>Runs of authorize\<close>

abbreviation lock_path :: "path \<Rightarrow> path" where
  "lock_path d \<equiv> d @ [''mutation.lock'']"

lemma touches_openPrivateLock: "P p \<Longrightarrow> keeps (touches P) (openPrivateLock p)"
  unfolding openPrivateLock_def
  by (intro keeps_intros touches_open_create touches_chmod keeps_reads_touches[OF reads_lstat]
      keeps_reads_touches[OF reads_close_file]) assumption+

lemma instanceDir_yields:
  assumes "instanceDir sv inst w = (Inr d, w')"
  shows "d = instance_path sv inst \<and> same_files w w'"
  using assms keepsD[OF reads_instanceDir assms]
  by (auto simp: instanceDir_def bindE_Inr split: if_splits)

text \<open>A call under the lock fails having touched the lock file only, or runs its section.\<close>

lemma under_lock_cases:
  assumes "under_lock p m w = (r, w')"
  shows "(r \<noteq> Inr () \<and> touches (\<lambda>q. q = p) w w') \<or>
    (\<exists>w1 w2. touches (\<lambda>q. q = p) w w1 \<and> m w1 = (r, w2) \<and> same_files w2 w')"
proof -
  obtain lr w2 where l: "openPrivateLock p w = (lr, w2)" by fastforce
  have t2: "touches (\<lambda>q. q = p) w w2" using keepsD[OF touches_openPrivateLock l] by simp
  show ?thesis
  proof (cases lr)
    case (Inl e)
    with l assms t2 show ?thesis by (auto simp: under_lock_def bindE_fail)
  next
    case (Inr u)
    let ?f = "wrapE (Wrap ''lock mutation authorization'') (flock p)"
    obtain fr w3 where f: "?f w2 = (fr, w3)" by fastforce
    have s3: "same_files w2 w3" using keepsD[OF reads.keeps_wrapE[OF reads_flock] f] .
    with t2 have t3: "touches (\<lambda>q. q = p) w w3" by (blast intro: writes.trans same_files_touches)
    have close: "same_files w4 (snd (close_file p w4))" for w4
      using reads_close_file by (simp add: keeps_def)
    have unl: "same_files w4 (snd (funlock p w4))" for w4
      using reads_funlock by (simp add: keeps_def)
    from assms l Inr have run: "deferE (bindE ?f (\<lambda>_. deferE m (funlock p))) (close_file p) w2 = (r, w')"
      by (simp add: under_lock_def bindE_step)
    show ?thesis
    proof (cases fr)
      case (Inl e)
      with run f have "r = Inl e" "w' = snd (close_file p w3)" by (auto simp: deferE_eq bindE_fail)
      with t3 close[of w3] show ?thesis by (blast intro: writes.trans same_files_touches)
    next
      case (Inr v)
      with run f obtain w4 where "m w3 = (r, w4)" and w': "w' = snd (close_file p (snd (funlock p w4)))"
        by (auto simp: deferE_eq bindE_step)
      moreover have "same_files w4 w'" unfolding w' using close unl by (blast intro: reads.trans)
      ultimately show ?thesis using t3 by blast
    qed
  qed
qed

lemma authorize_cases:
  assumes "authorize sv inst s otp existing (Some cb) admission w = (r, w')"
  shows "(r \<noteq> Inr () \<and> touches (\<lambda>q. q = lock_path (instance_path sv inst)) w w') \<or>
    (validScope s \<and> (\<exists>w1 w2. touches (\<lambda>q. q = lock_path (instance_path sv inst)) w w1 \<and>
       locked_section sv inst (instance_path sv inst) s otp existing cb admission w1 = (r, w2) \<and>
       same_files w2 w'))"
proof (cases "validScope s")
  case False
  with assms show ?thesis by (auto simp: authorize_def writes.refl)
next
  case True
  let ?d = "instance_path sv inst"
  let ?P = "\<lambda>q. q = lock_path ?d"
  obtain dr w1 where d: "instanceDir sv inst w = (dr, w1)" by fastforce
  have t1: "touches ?P w w1" using keepsD[OF reads_instanceDir d] by (rule same_files_touches)
  show ?thesis
  proof (cases dr)
    case (Inl e)
    with assms True d t1 show ?thesis
      by (auto simp: authorize_def bindE_tryE[of "instanceDir sv inst", OF d])
  next
    case (Inr d')
    with d instanceDir_yields have "d' = ?d" by blast
    with assms True d Inr
    have "under_lock (lock_path ?d) (locked_section sv inst ?d s otp existing cb admission) w1 = (r, w')"
      by (simp add: authorize_def bindE_tryE[of "instanceDir sv inst", OF d])
    from under_lock_cases[OF this] show ?thesis
      using True t1 by (blast intro: writes.trans)
  qed
qed

text \<open>What the reads have established.\<close>

definition attempt_at ::
    "service \<Rightarrow> string \<Rightarrow> path \<Rightarrow> mutation_scope \<Rightarrow> string \<Rightarrow> world \<Rightarrow> attempt \<Rightarrow> bool" where
  "attempt_at sv inst d s otp w a \<longleftrightarrow>
     (\<exists>c. counter_at w (counter_path d s) = Some c \<and> c \<le> am_last a) \<and>
     (\<exists>w1 w2 c. same_files w w1 \<and> c \<le> am_last a \<and>
        storeCounter (coordination_store sv) inst (scope_name s) w1 = (Inr c, w2)) \<and>
     attempts_at w (global_attempts_path d) = Some (am_global a) \<and>
     attempts_at w (attempts_path d s) = Some (am_scoped a) \<and>
     (\<exists>w1. am_now a = sv_now sv w1) \<and>
     at_locked (am_global a) \<le> am_now a \<and> at_locked (am_scoped a) \<le> am_now a \<and>
     (am_matched a = -1 \<or> (\<exists>secret. generateCode (sv_hmac1 sv) secret (am_matched a) = Inr otp) \<and>
        \<bar>am_matched a - go_div (am_now a) auth_period\<bar> \<le> 1)"

lemma try_candidate_Inr:
  "try_candidate sv secret otp c m w = (Inr m', w') \<Longrightarrow>
     w' = w \<and> (m' = m \<or> m' = c \<and> generateCode (sv_hmac1 sv) secret c = Inr otp \<and> m < c)"
  by (auto simp: try_candidate_def bindE_Inr split: if_splits)

lemma match_counter_Inr:
  assumes "match_counter sv secret otp now w = (Inr m, w')"
  shows "m = -1 \<or> generateCode (sv_hmac1 sv) secret m = Inr otp \<and> \<bar>m - go_div now auth_period\<bar> \<le> 1"
  using assms by (auto simp: match_counter_def Let_def bindE_Inr dest!: try_candidate_Inr)

lemma reads_match_attempt [keeps_intros]: "keeps same_files (match_attempt sv inst d s otp)"
  unfolding match_attempt_def by (intro keeps_intros)

lemma match_attempt_yields:
  assumes "match_attempt sv inst d s otp w = (Inr a, w')"
  shows "attempt_at sv inst d s otp w a \<and> same_files w w'"
proof
  show "same_files w w'" using keepsD[OF reads_match_attempt assms] .
  from assms obtain master secret w1 ga w2 sa w3 now lf w4 au w5 m where
    m: "readSecret (d @ [''mutation.secret'']) w = (Inr master, w1)"
    and ga: "readAttemptState (global_attempts_path d) w1 = (Inr ga, w2)"
    and sa: "readAttemptState (attempts_path d s) w2 = (Inr sa, w3)"
    and now: "now = sv_now sv w3" "at_locked ga \<le> now" "at_locked sa \<le> now"
    and lf: "readCounter (counter_path d s) w3 = (Inr lf, w4)"
    and au: "storeCounter (coordination_store sv) inst (scope_name s) w4 = (Inr au, w5)"
    and mc: "match_counter sv secret otp now w5 = (Inr m, w')"
    and a: "a = \<lparr>am_global = ga, am_scoped = sa, am_now = now,
         am_last = (if au > lf then au else lf), am_matched = m\<rparr>"
    by (auto simp: match_attempt_def bindE_Inr unix_now_def not_less simp del: if_split)
  have s1: "same_files w w1" using keepsD[OF reads_readSecret m] .
  have s2: "same_files w w2" using s1 readAttemptState_yields[OF ga] by (blast intro: reads.trans)
  have s3: "same_files w w3" using s2 readAttemptState_yields[OF sa] by (blast intro: reads.trans)
  have s4: "same_files w w4" using s3 readCounter_yields[OF lf] by (blast intro: reads.trans)
  show "attempt_at sv inst d s otp w a"
    using readAttemptState_yields[OF ga] readAttemptState_yields[OF sa] readCounter_yields[OF lf]
      match_counter_Inr[OF mc] s1 s2 s3 s4 now au a
    unfolding attempt_at_def by (auto simp: auth_views_same)
qed

lemma check_code_cases:
  assumes "check_code sv inst d s otp cb admission w = (r, w')"
  shows "(same_files w w' \<and> r \<noteq> Inr ()) \<or>
    (\<exists>w1 a. same_files w w1 \<and> attempt_at sv inst d s otp w a \<and>
       (am_matched a < 0 \<and>
        recordInvalidAttempt (global_attempts_path d) (am_global a) (attempts_path d s) (am_scoped a)
          (am_now a) w1 = (r, w') \<or>
        0 \<le> am_matched a \<and> am_last a < am_matched a \<and>
        (\<exists>cleared. accept_code d s (am_matched a) (am_last a) cleared cb admission w1 = (r, w'))))"
proof -
  obtain ar w1 where m: "match_attempt sv inst d s otp w = (ar, w1)" by fastforce
  have s1: "same_files w w1" using keepsD[OF reads_match_attempt m] .
  show ?thesis
  proof (cases ar)
    case (Inl e)
    with assms m s1 show ?thesis by (auto simp: check_code_def bindE_fail)
  next
    case (Inr a)
    with m match_attempt_yields have at: "attempt_at sv inst d s otp w a" by blast
    obtain cr w2 where c: "wrapE (Wrap ''calculate mutation authorization attempts'')
        (remainingGlobalAttemptState d s) w1 = (cr, w2)" by fastforce
    have "same_files w w2" using s1 keepsD[OF reads.keeps_wrapE[OF reads_remaining] c] by (rule reads.trans)
    then show ?thesis
      using assms m Inr at s1 c
      by (cases cr; cases "am_matched a < 0"; cases "am_matched a \<le> am_last a")
         (auto simp: check_code_def bindE_step bindE_fail)
  qed
qed

section \<open>Replay protection\<close>

text \<open>The files authorization owns in an instance directory.\<close>

definition auth_file :: "path \<Rightarrow> path \<Rightarrow> bool" where
  "auth_file d q \<longleftrightarrow> (\<exists>n. q = d @ [n] \<and> has_prefix ''mutation.'' n)"

definition leaves_auth :: "path \<Rightarrow> (int \<Rightarrow> unit io) \<Rightarrow> bool" where
  "leaves_auth d cb \<longleftrightarrow> (\<forall>m. keeps (touches (\<lambda>q. \<not> auth_file d q)) (cb m))"

lemma auth_files [simp]:
  "auth_file d (counter_path d s)" "auth_file d (attempts_path d s)" "auth_file d (global_attempts_path d)"
  "auth_file d (lock_path d)"
  by (auto simp: auth_file_def counter_path_def attempts_path_def global_attempts_path_def has_prefix_def)

lemma butlast_auth [simp]:
  "butlast (counter_path d s) = d" "butlast (attempts_path d s) = d" "butlast (global_attempts_path d) = d"
  by (simp_all add: counter_path_def attempts_path_def global_attempts_path_def)

lemma prefix_hd: "has_prefix (c # cs) n \<Longrightarrow> \<exists>ds. n = c # ds"
  by (cases n) (auto simp: has_prefix_def)

lemma auth_not_temp: "auth_file d q \<Longrightarrow> \<not> temp_in d ''.mutation-state-'' q"
  by (auto simp: auth_file_def temp_in_def dest!: prefix_hd)

text \<open>Replacing one file of the instance keeps the others.\<close>

lemma replace_touches:
  "target ''.mutation-state-'' p \<Longrightarrow> butlast p = d \<Longrightarrow>
     keeps (touches (\<lambda>q. q = p \<or> temp_in d ''.mutation-state-'' q)) (replacePrivateFile p s)"
  using auth.put_keeps_touches[of p "Text s"] by (simp add: replace_is_put)

lemma replace_stores:
  "target ''.mutation-state-'' p \<Longrightarrow> replacePrivateFile p s w = (Inr (), w') \<Longrightarrow> stored w' p (Text s) 384"
  using auth.put_commit[of p "Text s"] by (simp add: replace_is_put)

lemma write_attempts_touches:
  "writeAttemptState p a w = (r, w') \<Longrightarrow> target ''.mutation-state-'' p \<Longrightarrow>
     touches (\<lambda>q. q = p \<or> temp_in (butlast p) ''.mutation-state-'' q) w w'"
  unfolding writeAttemptState_def by (rule keepsD[OF replace_touches[OF _ refl]])

lemma auth_views_kept:
  assumes "touches P w w'" and "\<not> P p"
  shows "counter_at w' p = counter_at w p" "attempts_at w' p = attempts_at w p"
proof -
  have "look w' p = look w p" "w_jlen w' = w_jlen w" using assms by (auto simp: touches_def same_env_def)
  then show "counter_at w' p = counter_at w p" "attempts_at w' p = attempts_at w p"
    by (simp_all add: counter_at_def attempts_at_def private_text_def data_size_def
        cong: option.case_cong content.case_cong)
qed

lemma counter_text_small:
  assumes "0 \<le> m" and "m < 2 ^ 63"
  shows "length (counter_text m) \<le> 20"
proof -
  have "nat m < 10 ^ 19" using assms by (simp add: nat_less_iff)
  then have "length (nat_dec (nat m)) \<le> 19" by (rule nat_dec_length) simp
  with assms(1) show ?thesis by (simp add: counter_text_def int_dec_def)
qed

lemma counter_stored:
  assumes "stored w p (Text (counter_text m)) 384" and "0 \<le> m" and "m < 2 ^ 63"
  shows "counter_at w p = Some m"
proof -
  have "counter_of_text (counter_text m) = Inr m"
    using assms(2,3) by (simp add: counter_of_text_def counter_text_def trim_newline int_dec_no_space parse_int_int_dec)
  moreover have "1 \<le> length (counter_text m)" by (simp add: counter_text_def)
  ultimately show ?thesis
    using assms counter_text_small[OF assms(2,3)]
    by (auto simp: stored_def good_file_def counter_at_def private_text_def data_size_def content_text_def)
qed

text \<open>The counter after an accepted code outside admissions.\<close>

lemma accept_code_Inr:
  assumes run: "accept_code d s m last_used cleared cb False w = (Inr (), w')" and cb: "leaves_auth d cb"
  shows "stored w' (counter_path d s) (Text (counter_text m)) 384 \<and> (\<exists>w1 w2. cb m w1 = (Inr (), w2) \<and>
     stored w1 (counter_path d s) (Text (counter_text m)) 384)"
proof -
  let ?c = "counter_path d s"
  from run obtain w1 where r: "replacePrivateFile ?c (counter_text m) w = (Inr (), w1)" and
    rest: "bindE (tryE (cb m)) (after_callback d s last_used cleared) w1 = (Inr (), w')"
    by (auto simp: accept_code_def bindE_Inr)
  have st: "stored w1 ?c (Text (counter_text m)) 384" using replace_stores[OF _ r] by simp
  obtain cr w2 where c: "cb m w1 = (cr, w2)" by fastforce
  from rest c obtain u where u: "cr = Inr u"
    by (cases cr) (auto simp: bindE_tryE[of "cb m", OF c] bindE_Inr after_callback_def)
  with rest c obtain w3 where a: "writeAttemptState (attempts_path d s) no_attempts w2 = (Inr (), w3)"
    and g: "writeAttemptState (global_attempts_path d) cleared w3 = (Inr (), w')"
    by (auto simp: bindE_tryE[of "cb m", OF c] bindE_Inr after_callback_def)
  have "stored w2 ?c (Text (counter_text m)) 384"
    using keepsD[OF cb[unfolded leaves_auth_def, rule_format] c] st by (auto intro: stored_stays)
  then have "stored w3 ?c (Text (counter_text m)) 384"
    by (rule stored_stays[OF _ write_attempts_touches[OF a]]) (simp_all add: auth_not_temp auth_paths_sym)
  then have "stored w' ?c (Text (counter_text m)) 384"
    by (rule stored_stays[OF _ write_attempts_touches[OF g]]) (simp_all add: auth_not_temp auth_paths_sym)
  with st u c show ?thesis by auto
qed

lemma recordInvalid_fails: "recordInvalidAttempt gp g sp a now w = (r, w') \<Longrightarrow> r \<noteq> Inr ()"
  by (cases "nextInvalidAttemptState g now"; cases "nextInvalidAttemptState a now")
     (auto simp: recordInvalidAttempt_def bindE_Inr)

lemma authorize_success:
  assumes "authorize sv inst s otp None (Some cb) adm w = (Inr (), w')"
  shows "\<exists>w1 w2 w3 a cleared. validScope s \<and> touches (\<lambda>q. q = lock_path (instance_path sv inst)) w w1 \<and>
     same_files w1 w2 \<and> code_ok otp \<and> attempt_at sv inst (instance_path sv inst) s otp w1 a \<and>
     0 \<le> am_matched a \<and> am_last a < am_matched a \<and>
     accept_code (instance_path sv inst) s (am_matched a) (am_last a) cleared cb adm w2 = (Inr (), w3) \<and>
     same_files w3 w'"
proof -
  let ?d = "instance_path sv inst"
  from authorize_cases[OF assms] obtain w1 w2 where vs: "validScope s"
    and t: "touches (\<lambda>q. q = lock_path ?d) w w1"
    and ls: "locked_section sv inst ?d s otp None cb adm w1 = (Inr (), w2)" and e: "same_files w2 w'"
    by auto
  from ls have ok: "code_ok otp" and cc: "check_code sv inst ?d s otp cb adm w1 = (Inr (), w2)"
    by (auto simp: locked_section_def bindE_Inr split: if_splits)
  from check_code_cases[OF cc] obtain wa a cleared where "same_files w1 wa" "attempt_at sv inst ?d s otp w1 a"
    "0 \<le> am_matched a" "am_last a < am_matched a"
    "accept_code ?d s (am_matched a) (am_last a) cleared cb adm wa = (Inr (), w2)"
    by (auto dest: recordInvalid_fails)
  with vs t ok e show ?thesis by blast
qed

lemma lock_keeps:
  assumes "touches (\<lambda>q. q = lock_path d) w w1"
  shows "counter_at w1 (counter_path d s) = counter_at w (counter_path d s)"
    "attempts_at w1 (attempts_path d s) = attempts_at w (attempts_path d s)"
    "attempts_at w1 (global_attempts_path d) = attempts_at w (global_attempts_path d)"
  using auth_views_kept[OF assms] by simp_all

lemma go_div_bounds: "x < 2 ^ 62 \<Longrightarrow> go_div x auth_period < 2 ^ 62"
  by (auto simp: go_div_def auth_period_def)

text \<open>C6: a code is accepted at most once. When \<open>Authorize\<close> succeeds, the code is the code of a
  counter strictly above the one on disk before, within one period of the clock, and that
  counter is on disk afterwards and already while the callback runs.\<close>

theorem authorize_strictly_newer:
  assumes "Authorize sv inst s otp (Some cb) w = (Inr (), w')"
    and "keeps (touches (\<lambda>q. \<not> auth_file (instance_path sv inst) q)) cb"
    and "\<And>w. sv_now sv w < 2 ^ 62"
  shows "\<exists>old m. counter_at w (counter_path (instance_path sv inst) s) = Some old \<and> old < m \<and>
     counter_at w' (counter_path (instance_path sv inst) s) = Some m \<and>
     (\<exists>secret. generateCode (sv_hmac1 sv) secret m = Inr otp) \<and>
     (\<exists>wn. \<bar>m - go_div (sv_now sv wn) auth_period\<bar> \<le> 1) \<and>
     (\<exists>w1 w2. cb w1 = (Inr (), w2) \<and> counter_at w1 (counter_path (instance_path sv inst) s) = Some m)"
proof -
  let ?d = "instance_path sv inst"
  from assms(1) have "authorize sv inst s otp None (Some (\<lambda>_. cb)) False w = (Inr (), w')"
    by (simp add: Authorize_def)
  from authorize_success[OF this] obtain w1 w2 w3 a cleared where
    t: "touches (\<lambda>q. q = lock_path ?d) w w1" and at: "attempt_at sv inst ?d s otp w1 a"
    and m: "0 \<le> am_matched a" "am_last a < am_matched a" and
    ac: "accept_code ?d s (am_matched a) (am_last a) cleared (\<lambda>_. cb) False w2 = (Inr (), w3)"
    and e: "same_files w3 w'" by blast
  have "leaves_auth ?d (\<lambda>_. cb)" using assms(2) by (simp add: leaves_auth_def)
  from accept_code_Inr[OF ac this] obtain wa wb where
    st: "stored w3 (counter_path ?d s) (Text (counter_text (am_matched a))) 384"
    and c: "cb wa = (Inr (), wb)" "stored wa (counter_path ?d s) (Text (counter_text (am_matched a))) 384"
    by blast
  from at m obtain secret wn where gen: "generateCode (sv_hmac1 sv) secret (am_matched a) = Inr otp"
    and near: "\<bar>am_matched a - go_div (sv_now sv wn) auth_period\<bar> \<le> 1"
    by (auto simp: attempt_at_def)
  have "am_matched a < 2 ^ 63" using near go_div_bounds[OF assms(3)[of wn]] by simp
  note stored = counter_stored[OF _ m(1) this]
  from at t obtain old where "counter_at w (counter_path ?d s) = Some old" "old \<le> am_last a"
    by (auto simp: attempt_at_def lock_keeps)
  moreover have "counter_at w' (counter_path ?d s) = Some (am_matched a)"
    using stored[OF st] e by (simp add: auth_views_same)
  ultimately show ?thesis using m gen near c(1) stored[OF c(2)]
    by (intro exI[of _ old] exI[of _ "am_matched a"]) auto
qed

lemma accept_code_ran:
  assumes "accept_code d s m last_used cleared cb adm w = (Inr (), w')"
  shows "\<exists>w1 w2. cb m w1 = (Inr (), w2)"
proof (cases adm)
  case True
  with assms show ?thesis by (auto simp: accept_code_def bindE_Inr)
next
  case False
  with assms obtain w1 where r: "bindE (tryE (cb m)) (after_callback d s last_used cleared) w1 = (Inr (), w')"
    by (auto simp: accept_code_def bindE_Inr)
  obtain cr w2 where c: "cb m w1 = (cr, w2)" by fastforce
  with r show ?thesis
    by (cases cr) (auto simp: bindE_tryE[of "cb m", OF c] bindE_Inr after_callback_def)
qed

lemma lock_path_coordination:
  "request_path (coordination_store sv) rq \<noteq> lock_path (instance_path sv inst)"
  "state_dir (coordination_store sv) @ [''coordination'', ''primary'', ''admissions''] \<noteq> lock_path (instance_path sv inst)"
proof -
  have "state_dir (coordination_store sv) = service_dir sv"
    by (simp add: state_dir_def service_dir_def coordination_store_def default_state_dir_def split: option.splits)
  then show "request_path (coordination_store sv) rq \<noteq> lock_path (instance_path sv inst)"
    "state_dir (coordination_store sv) @ [''coordination'', ''primary'', ''admissions''] \<noteq> lock_path (instance_path sv inst)"
    by (simp_all add: request_path_def instance_path_def)
qed

text \<open>C7: a counter an admission has consumed is never accepted again, whatever became of the
  counter file: a successful authorization, in either mode, runs its callback with a counter
  above that of every admission of the scope.\<close>

theorem admitted_counter_not_reused:
  assumes "authorize sv ''primary'' s otp None (Some cb) adm w = (Inr (), w')"
    and "parents_exist (coordination_store sv) w"
    and "admission_at (coordination_store sv) w rq = Some a" and "ad_scope a = scope_name s"
  shows "\<exists>m w1 w2. ad_counter a < m \<and> (\<exists>secret. generateCode (sv_hmac1 sv) secret m = Inr otp) \<and>
     cb m w1 = (Inr (), w2)"
proof -
  let ?d = "instance_path sv ''primary''" and ?st = "coordination_store sv"
  from authorize_success[OF assms(1)] obtain w1 w2 w3 at cleared where
    t: "touches (\<lambda>q. q = lock_path ?d) w w1" and at: "attempt_at sv ''primary'' ?d s otp w1 at"
    and m: "0 \<le> am_matched at" "am_last at < am_matched at"
    and ac: "accept_code ?d s (am_matched at) (am_last at) cleared cb adm w2 = (Inr (), w3)" by blast
  have rec: "look w1 (request_path ?st q) = look w (request_path ?st q)" for q
    using touches_look[OF t] lock_path_coordination(1) by metis
  have "w_jlen w1 = w_jlen w" using t by (simp add: touches_def same_env_def)
  with rec have "record_at w1 (request_path ?st rq) = record_at w (request_path ?st rq)"
    by (simp add: record_at_def cong: option.case_cong content.case_cong)
  then have "admission_at ?st w1 rq = admission_at ?st w rq" by (simp only: admission_at_def)
  with assms(3) have adm1: "admission_at ?st w1 rq = Some a" by simp
  have "look w1 (state_dir ?st @ [''coordination'', ''primary'', ''admissions'']) =
      look w (state_dir ?st @ [''coordination'', ''primary'', ''admissions''])"
    using touches_look[OF t] lock_path_coordination(2) by metis
  with assms(2) rec have pe: "parents_exist ?st w1" by (simp add: parents_exist_def)
  from at obtain wx wy c where sx: "same_files w1 wx" and c: "c \<le> am_last at"
    "storeCounter ?st ''primary'' (scope_name s) wx = (Inr c, wy)" by (auto simp: attempt_at_def)
  have "ad_counter a \<le> c"
  proof -
    from c(2) obtain rs where "storeAdmissions ?st ''primary'' wx = (Inr rs, wy)"
      and cc: "c = last_counter (scope_name s) rs" by (auto simp: storeCounter_def bindE_Inr)
    moreover have "parents_exist ?st wx" using pe sx by (simp add: parents_exist_def same_files_look)
    ultimately have "authority ?st wx rs" using storeAdmissions_yields by blast
    with adm1 sx have "a \<in> set rs" by (auto simp: authority_def views_same)
    with cc assms(4) last_counter_max show ?thesis by blast
  qed
  with c m have "ad_counter a < am_matched at" by simp
  moreover from at m obtain secret where "generateCode (sv_hmac1 sv) secret (am_matched at) = Inr otp"
    by (auto simp: attempt_at_def)
  ultimately show ?thesis using accept_code_ran[OF ac] by blast
qed

section \<open>Lockout\<close>

text \<open>C32: while the scope or the instance is locked, no code is accepted and the callback does
  not run: the call fails and changes no file but the lock.\<close>

theorem locked_out:
  assumes "attempts_at w p = Some a" and "\<And>w. sv_now sv w < at_locked a"
    and "p = attempts_path (instance_path sv inst) s \<or> p = global_attempts_path (instance_path sv inst)"
    and "authorize sv inst s otp None (Some cb) adm w = (r, w')"
  shows "r \<noteq> Inr () \<and> touches (\<lambda>q. q = lock_path (instance_path sv inst)) w w'"
proof -
  let ?d = "instance_path sv inst"
  have no: False if "touches (\<lambda>q. q = lock_path ?d) w w1" "attempt_at sv inst ?d s otp w1 at" for w1 at
  proof -
    have "attempts_at w1 p = Some a" using that(1) assms(1,3) by (auto simp: lock_keeps)
    with that(2) assms(3) obtain wn where "at_locked a \<le> sv_now sv wn"
      by (auto simp: attempt_at_def)
    with assms(2)[of wn] show False by simp
  qed
  show ?thesis
    using authorize_cases[OF assms(4)]
  proof
    assume "validScope s \<and> (\<exists>w1 w2. touches (\<lambda>q. q = lock_path ?d) w w1 \<and>
       locked_section sv inst ?d s otp None cb adm w1 = (r, w2) \<and> same_files w2 w')"
    then obtain w1 w2 where t: "touches (\<lambda>q. q = lock_path ?d) w w1"
      and ls: "locked_section sv inst ?d s otp None cb adm w1 = (r, w2)" and e: "same_files w2 w'" by blast
    have "same_files w1 w2 \<and> r \<noteq> Inr ()"
    proof (cases "code_ok otp")
      case False
      with ls show ?thesis by (auto simp: locked_section_def bindE_def retE_def reads.refl)
    next
      case True
      with ls have "check_code sv inst ?d s otp cb adm w1 = (r, w2)"
        by (simp add: locked_section_def bindE_def retE_def)
      from check_code_cases[OF this] no[OF t] show ?thesis by blast
    qed
    with t e show ?thesis by (blast intro: writes.trans same_files_touches)
  qed simp
qed

text \<open>the delay \<open>RetryAfter\<close> tells a client is between one second and 24 hours, whatever the
  files hold or which call fails, and reading it changes nothing.\<close>

theorem retry_after_bounded:
  assumes "RetryAfter sv inst s w = (r, w')"
  shows "\<exists>k. r = Inr k \<and> 1 \<le> k \<and> k \<le> 86400 \<and> same_files w w'"
proof -
  have step: "\<exists>o'. retry_step sv p k w = (Inr o', w') \<and> (\<forall>j. o' = Some j \<longrightarrow> k \<le> j)"
    if "retry_step sv p k w = (x, w')" for p k w x w'
    using that
    by (auto simp: retry_step_def bindE_def tryE_def retE_def unix_now_def Let_def split: sum.splits prod.splits)
  have loop: "\<exists>j. retry_loop sv ps k w = (Inr j, w') \<and> 1 \<le> j \<and> j \<le> 86400"
    if "retry_loop sv ps k w = (x, w')" "1 \<le> k" for ps k w x w'
    using that
  proof (induction ps arbitrary: k w)
    case Nil
    then show ?case by (auto simp: retE_def maxLockoutSeconds_def)
  next
    case (Cons p ps)
    obtain y w1 where y: "retry_step sv p k w = (y, w1)" by fastforce
    with step obtain o' where o': "y = Inr o'" "\<forall>j. o' = Some j \<longrightarrow> k \<le> j" by fastforce
    show ?case
    proof (cases o')
      case None
      with Cons.prems y o' show ?thesis by (auto simp: bindE_step maxLockoutSeconds_def)
    next
      case (Some j)
      with Cons.prems y o' Cons.IH[of j w1] show ?thesis by (auto simp: bindE_step)
    qed
  qed
  have "keeps same_files (RetryAfter sv inst s)"
    unfolding RetryAfter_def by (intro keeps_intros)
  then have "same_files w w'" using assms by (rule keepsD)
  obtain dr w1 where d: "instanceDir sv inst w = (dr, w1)" by fastforce
  show ?thesis
  proof (cases "\<exists>d. dr = Inr d \<and> validScope s")
    case False
    with assms d \<open>same_files w w'\<close> show ?thesis
      by (cases dr) (auto simp: RetryAfter_def bindE_tryE[of "instanceDir sv inst", OF d] maxLockoutSeconds_def)
  next
    case True
    then obtain dd where "dr = Inr dd" "validScope s" by blast
    with assms d have "retry_loop sv [global_attempts_path dd, attempts_path dd s] 1 w1 = (r, w')"
      by (simp add: RetryAfter_def bindE_tryE[of "instanceDir sv inst", OF d])
    with loop[OF this] \<open>same_files w w'\<close> show ?thesis by auto
  qed
qed

section \<open>Failed callbacks and other scopes\<close>

text \<open>The files a call for one scope may change.\<close>

definition own_file :: "path \<Rightarrow> mutation_scope \<Rightarrow> path \<Rightarrow> bool" where
  "own_file d s q \<longleftrightarrow> q = lock_path d \<or> q = counter_path d s \<or> q = attempts_path d s \<or>
     q = global_attempts_path d \<or> temp_in d ''.mutation-state-'' q"

lemma replace_own:
  assumes "target ''.mutation-state-'' p" and "butlast p = d" and "own_file d s p"
  shows "keeps (touches (\<lambda>q. Q q \<or> own_file d s q)) (replacePrivateFile p t)"
proof -
  have "touches (\<lambda>q. Q q \<or> own_file d s q) w w'"
    if "touches (\<lambda>q. q = p \<or> temp_in d ''.mutation-state-'' q) w w'" for w w'
    using that by (rule touches_mono) (use assms(3) in \<open>auto simp: own_file_def\<close>)
  then show ?thesis using keeps_mono[OF replace_touches[OF assms(1,2)]] by blast
qed

lemma own_files [simp]:
  "own_file d s (counter_path d s)" "own_file d s (attempts_path d s)" "own_file d s (global_attempts_path d)"
  by (simp_all add: own_file_def)

lemma auth_sync_touches: "keeps (touches P) (auth_sync d)"
  unfolding auth_sync_def
  by (intro keeps_intros keeps_reads_touches[OF reads_open_path] keeps_reads_touches[OF reads_close_file])

lemma restoreCounter_own: "keeps (touches (\<lambda>q. Q q \<or> own_file d s q)) (restoreCounter (counter_path d s) c)"
  unfolding restoreCounter_def
  by (intro keeps_intros replace_own touches_remove auth_sync_touches) simp_all

lemma after_callback_own:
  "keeps (touches (\<lambda>q. Q q \<or> own_file d s q)) (after_callback d s l c r)"
  unfolding after_callback_def writeAttemptState_def
  by (cases r) (auto intro!: keeps_intros replace_own restoreCounter_own)

lemma accept_code_own:
  assumes "\<And>m. keeps (touches Q) (cb m)"
  shows "keeps (touches (\<lambda>q. Q q \<or> own_file d s q)) (accept_code d s m l c cb adm)"
proof -
  have cb: "keeps (touches (\<lambda>q. Q q \<or> own_file d s q)) (cb m)" for m
    using assms by (rule keeps_mono) (auto elim: touches_mono)
  show ?thesis
    unfolding accept_code_def writeAttemptState_def
    by (intro keeps_intros replace_own after_callback_own cb) simp_all
qed

lemma recordInvalid_own:
  "keeps (touches (\<lambda>q. Q q \<or> own_file d s q))
     (recordInvalidAttempt (global_attempts_path d) g (attempts_path d s) a now)"
  unfolding recordInvalidAttempt_def writeAttemptState_def
  by (intro keeps_intros replace_own) simp_all

lemma check_code_own:
  assumes "\<And>m. keeps (touches Q) (cb m)"
  shows "keeps (touches (\<lambda>q. Q q \<or> own_file d s q)) (check_code sv inst d s otp cb adm)"
  unfolding check_code_def
  by (intro keeps_intros recordInvalid_own accept_code_own assms keeps_reads_touches[OF reads_match_attempt]
      keeps_reads_touches[OF reads_remaining])

text \<open>C33: scopes are independent: whatever a call for one scope does, however it ends, the
  counter and the attempts of another scope and the master secret are as before.\<close>

theorem other_scopes_untouched:
  assumes "authorize sv inst s otp None (Some cb) adm w = (r, w')" and "validScope s'" and "s' \<noteq> s"
    and "\<And>m. keeps (touches (\<lambda>q. \<not> auth_file (instance_path sv inst) q)) (cb m)"
  shows "counter_at w' (counter_path (instance_path sv inst) s') = counter_at w (counter_path (instance_path sv inst) s') \<and>
    attempts_at w' (attempts_path (instance_path sv inst) s') = attempts_at w (attempts_path (instance_path sv inst) s') \<and>
    look w' (instance_path sv inst @ [''mutation.secret'']) = look w (instance_path sv inst @ [''mutation.secret''])"
proof -
  let ?d = "instance_path sv inst"
  let ?P = "\<lambda>q. \<not> auth_file ?d q \<or> own_file ?d s q"
  have lock: "touches ?P w w1" if "touches (\<lambda>q. q = lock_path ?d) w w1" for w1
    using that by (rule touches_mono) (simp add: own_file_def)
  have t: "validScope s \<Longrightarrow> touches ?P w w'" and nv: "\<not> validScope s \<Longrightarrow> w' = w"
  proof -
    show "touches ?P w w'"
      using authorize_cases[OF assms(1)]
    proof
      assume "validScope s \<and> (\<exists>w1 w2. touches (\<lambda>q. q = lock_path ?d) w w1 \<and>
         locked_section sv inst ?d s otp None cb adm w1 = (r, w2) \<and> same_files w2 w')"
      then obtain w1 w2 where t: "touches (\<lambda>q. q = lock_path ?d) w w1"
        and ls: "locked_section sv inst ?d s otp None cb adm w1 = (r, w2)" and e: "same_files w2 w'" by blast
      have "keeps (touches ?P) (locked_section sv inst ?d s otp None cb adm)"
        unfolding locked_section_def option.case by (intro keeps_intros check_code_own assms(4))
      from keepsD[OF this ls] lock[OF t] e show ?thesis
        by (blast intro: writes.trans same_files_touches)
    qed (use lock in blast)
  next
    assume "\<not> validScope s"
    with assms(1) show "w' = w" by (simp add: authorize_def)
  qed
  have "\<not> ?P (counter_path ?d s')" "\<not> ?P (attempts_path ?d s')" if "validScope s"
    using scope_name_inj[OF assms(2) that] assms(3) auth_not_temp[of ?d]
    by (auto simp: own_file_def)
  moreover have sec: "auth_file ?d (?d @ [''mutation.secret''])" by (auto simp: auth_file_def has_prefix_def)
  have "\<not> own_file ?d s (?d @ [''mutation.secret''])" if "validScope s"
    using auth_not_temp[OF sec] that
    by (auto simp: own_file_def counter_path_def attempts_path_def global_attempts_path_def validScope_def)
  ultimately show ?thesis
  proof (cases "validScope s")
    case True
    note t = t[OF True]
    have "look w' (?d @ [''mutation.secret'']) = look w (?d @ [''mutation.secret''])"
      by (rule touches_look[OF t]) (use sec \<open>validScope s \<Longrightarrow> \<not> own_file ?d s _\<close> True in simp)
    moreover have "counter_at w' (counter_path ?d s') = counter_at w (counter_path ?d s')"
      by (rule auth_views_kept(1)[OF t]) (use \<open>validScope s \<Longrightarrow> \<not> ?P (counter_path ?d s')\<close> True in blast)
    moreover have "attempts_at w' (attempts_path ?d s') = attempts_at w (attempts_path ?d s')"
      by (rule auth_views_kept(2)[OF t]) (use \<open>validScope s \<Longrightarrow> \<not> ?P (attempts_path ?d s')\<close> True in blast)
    ultimately show ?thesis by blast
  qed (use nv in simp)
qed

lemma restoreCounter_Inr:
  assumes "restoreCounter (counter_path d s) last_used w = (Inr (), w')"
    and "-1 \<le> last_used" and "last_used < 2 ^ 63"
  shows "counter_at w' (counter_path d s) = Some last_used"
proof (cases "0 \<le> last_used")
  case True
  with assms have "replacePrivateFile (counter_path d s) (counter_text last_used) w = (Inr (), w')"
    by (simp add: restoreCounter_def)
  then have "stored w' (counter_path d s) (Text (counter_text last_used)) 384" by (rule replace_stores[rotated]) simp
  then show ?thesis using True assms(3) by (rule counter_stored)
next
  case False
  let ?c = "counter_path d s"
  obtain rr w1 where r: "remove ?c w = (rr, w1)" by fastforce
  from assms(1) False r have sync: "auth_sync (butlast ?c) w1 = (Inr (), w')" and "rr = Inr () \<or> not_exist rr"
    by (cases rr; auto simp: restoreCounter_def bindE_tryE[of "remove ?c", OF r] not_exist_def split: if_splits)+
  with wp_run[OF remove_outcome r] have "look w1 ?c = None" by blast
  moreover have "look w' ?c = look w1 ?c"
    using keepsD[OF auth_sync_touches[of "\<lambda>_. False"] sync] by (simp add: touches_look)
  ultimately show ?thesis using False assms(2) by (simp add: counter_at_def)
qed

text \<open>C34: when the callback of an accepted code fails, the caller gets its error, and unless the
  error says that restoring failed too, the counter is the last used one again, so the code is
  not burnt; the attempts are not cleared.\<close>

theorem failed_callback_restores:
  assumes "after_callback d s last_used cleared (Inl e) w = (r, w')"
    and "-1 \<le> last_used" and "last_used < 2 ^ 63"
  shows "(r = Inl (Joined [e]) \<and> counter_at w' (counter_path d s) = Some last_used \<or>
     (\<exists>ce. r = Inl (Joined [e, Wrap ''restore unused mutation authorization counter'' ce]))) \<and>
    attempts_at w' (attempts_path d s) = attempts_at w (attempts_path d s) \<and>
    attempts_at w' (global_attempts_path d) = attempts_at w (global_attempts_path d)"
proof -
  let ?c = "counter_path d s"
  obtain rr w1 where r: "restoreCounter ?c last_used w = (rr, w1)" by fastforce
  have t: "touches (\<lambda>q. q = ?c \<or> temp_in d ''.mutation-state-'' q) w w1"
  proof -
    have "keeps (touches (\<lambda>q. q = ?c \<or> temp_in d ''.mutation-state-'' q)) (restoreCounter ?c last_used)"
      unfolding restoreCounter_def
      by (intro keeps_intros replace_touches touches_remove auth_sync_touches) simp_all
    then show ?thesis using r by (rule keepsD)
  qed
  from assms(1) r have w1: "w' = w1" and res: "r = Inl (Joined (somes [Some e, wrapRestoreError ''counter''
      (case rr of Inl x \<Rightarrow> Some x | Inr _ \<Rightarrow> None)]))"
    by (auto simp: after_callback_def bindE_tryE[of "restoreCounter ?c last_used", OF r])
  have "attempts_at w' (attempts_path d s) = attempts_at w (attempts_path d s)"
    "attempts_at w' (global_attempts_path d) = attempts_at w (global_attempts_path d)"
    unfolding w1 by (rule auth_views_kept(2)[OF t]; simp add: auth_not_temp)+
  moreover have "counter_at w' ?c = Some last_used" if "rr = Inr ()"
    using restoreCounter_Inr[of d s last_used w w1] r w1 that assms(2,3) by simp
  ultimately show ?thesis
    using res by (cases rr) (auto simp: wrapRestoreError_def)
qed

lemma attempts_stored:
  assumes "stored w p (Text (attempts_text a)) 384" and ok: "attempts_ok a" and "at_locked a < 2 ^ 63"
  shows "attempts_at w p = Some a"
proof -
  have "nat (at_failures a) < 10 ^ 7" and "nat (at_locked a) < 10 ^ 19"
    using ok assms(3) by (auto simp: attempts_ok_def nat_less_iff)
  then have "length (nat_dec (nat (at_failures a))) \<le> 7" "length (nat_dec (nat (at_locked a))) \<le> 19"
    by (auto intro: nat_dec_length)
  then have "length (attempts_text a) \<le> 64" "1 \<le> length (attempts_text a)"
    using ok by (auto simp: attempts_text_def int_dec_def attempts_ok_def)
  moreover have "parse_attempts (attempts_text a) = Inr a"
    using parse_attempts_range[of a] ok assms(3) by (simp add: attempts_ok_def)
  ultimately show ?thesis
    using assms(1)
    by (auto simp: stored_def good_file_def attempts_at_def private_text_def data_size_def content_text_def)
qed


section \<open>Provisioning\<close>

lemma readSecret_missing:
  assumes "readSecret p w = (Inl e, w')" and "err_is ErrNotExist e"
  shows "look w p = None"
proof -
  from assms consider "lstat p w = (Inl e, w')"
    | i w1 where "lstat p w = (Inr i, w1)" "read_file p w1 = (Inl e, w')"
    by (auto simp: readSecret_def bindE_Inl Let_def split: if_splits)
  then show ?thesis
  proof cases
    case 1
    then show ?thesis using assms(2) by (rule lstat_missing)
  next
    case 2
    have "look w1 p = None" using 2(2) assms(2) by (rule read_file_missing)
    with lstat_found[OF 2(1)] show ?thesis by (auto simp: same_files_look)
  qed
qed

text \<open>provisioning never replaces a master secret: when the file exists, \<open>Provision\<close> changes
  no file at all, so enrolled authenticators stay valid.\<close>

theorem provision_keeps_secret:
  assumes "Provision sv inst w = (r, w')"
    and "look w (instance_path sv inst @ [''mutation.secret'']) \<noteq> None"
  shows "same_files w w'"
proof (rule ccontr)
  assume nf: "\<not> same_files w w'"
  let ?p = "instance_path sv inst @ [''mutation.secret'']"
  let ?uris = "\<lambda>secret. foldE (\<lambda>s fs. bindE (liftE (deriveSecret (sv_hmac256 sv) secret s)) (\<lambda>scoped.
              retE (fs @ [\<lparr>fa_scope = s, fa_uri = provisioningURI inst s scoped\<rparr>]))) scopes []"
  have no: "\<not> (same_files w w' \<and> (\<exists>e. r = Inl e))" using nf by simp
  from assms(1)[unfolded Provision_def] obtain d w1 where d: "instanceDir sv inst w = (Inr d, w1)" and s1: "same_files w w1"
    and r1: "bindE (wrapE (Wrap ''validate managed enrollment'') (validateEnrollment sv d inst)) (\<lambda>_.
     bindE (tryE (readSecret (d @ [''mutation.secret'']))) (\<lambda>r.
     bindE (case r of
         Inl e \<Rightarrow> if err_is ErrNotExist e then createSecret (d @ [''mutation.secret'']) else failE e
       | Inr m \<Rightarrow> retE m) ?uris)) w1 = (r, w')"
    by (rule read_step[OF _ reads_instanceDir reads.refl no])
  have dp: "d = instance_path sv inst" using instanceDir_yields[OF d] by simp
  from r1 obtain u w2 where s2: "same_files w w2" and r2: "bindE (tryE (readSecret ?p)) (\<lambda>r.
     bindE (case r of Inl e \<Rightarrow> if err_is ErrNotExist e then createSecret ?p else failE e
       | Inr m \<Rightarrow> retE m) ?uris) w2 = (r, w')"
    unfolding dp by (rule read_step[OF _ reads.keeps_wrapE[OF reads_validateEnrollment] s1 no])
  obtain rs w3 where rs: "readSecret ?p w2 = (rs, w3)" by fastforce
  have s3: "same_files w w3" using s2 keepsD[OF reads_readSecret rs] by (rule reads.trans)
  from r2 rs have r3: "bindE (case rs of Inl e \<Rightarrow> if err_is ErrNotExist e then createSecret ?p else failE e
       | Inr m \<Rightarrow> retE m) ?uris w3 = (r, w')" by (simp add: bindE_tryE[of "readSecret ?p", OF rs])
  have "keeps same_files (case rs of Inl e \<Rightarrow> if err_is ErrNotExist e then createSecret ?p else failE e
       | Inr m \<Rightarrow> retE m)"
    using rs readSecret_missing[of ?p w2] assms(2) s2
    by (cases rs) (auto simp: same_files_look intro: keeps_intros)
  moreover have "keeps same_files (?uris m)" for m by (intro keeps_intros)
  ultimately have "same_files w3 w'" using keepsD[OF reads.keeps_bindE r3] by blast
  with s3 nf show False by (blast intro: reads.trans)
qed

end
