(* ===== verification/RecoveryLaws.thy ===== *)
theory RecoveryLaws
  imports RecoveryControl
begin

text \<open>
  What recovery control guarantees: the files it replaces keep their old or new contents at
  every fault (\<open>atomic\<close> implements \<open>atomic_put\<close>), every operation is one step of the phase
  protocol \<open>rstep\<close>, and the invariants of the protocol hold in every state that operations
  can reach.
\<close>

section \<open>Replacing a file\<close>

lemma syncDir_outcome:
  "wp (syncDir p) (\<lambda>r w'. touches (\<lambda>_. False) w w' \<and>
     (r = Inr () \<longrightarrow> (\<forall>q. child_of p q \<longrightarrow> on_disk w' q = look w q))) w"
  unfolding syncDir_def
proof (rule wp_bindI[OF open_path_outcome])
  fix x w1
  assume s: "same_files w w1"
  show "wp (deferE (sync_entries p) (close_file p)) (\<lambda>r w'. touches (\<lambda>_. False) w w' \<and>
     (r = Inr () \<longrightarrow> (\<forall>q. child_of p q \<longrightarrow> on_disk w' q = look w q))) w1"
    unfolding wp_deferE
  proof (rule wp_mono[OF sync_entries_outcome])
    fix r w2
    assume a: "touches (\<lambda>_. False) w1 w2 \<and> (r = Inr () \<longrightarrow> (\<forall>q. child_of p q \<longrightarrow> on_disk w2 q = look w1 q))"
    show "wp (close_file p) (\<lambda>_ w'. touches (\<lambda>_. False) w w' \<and>
       (r = Inr () \<longrightarrow> (\<forall>q. child_of p q \<longrightarrow> on_disk w' q = look w q))) w2"
      by (rule wp_mono[OF close_file_outcome])
         (use s a in \<open>auto simp: same_files_look same_files_disk\<close>,
          (blast intro: writes.trans same_files_touches)+)
  qed
qed (auto intro: same_files_touches)

lemma err_of_None [simp]: "err_of r = None \<longleftrightarrow> (\<exists>x. r = Inr x)"
  by (cases r) simp_all

lemma join_two: "join_errs [err_of (a :: err + unit), err_of (b :: err + unit)] = None \<longleftrightarrow> a = Inr () \<and> b = Inr ()"
  by (cases a; cases b) simp_all

lemma atomic_stage_ok: "stage_ok m c (\<lambda>t. atomic_stage t c m)"
  unfolding stage_ok_def
proof (intro allI impI)
  fix t w
  assume t: "look w t = Some (file_node 384)"
  have "wp (bindE (chmod t m) (\<lambda>_. bindE (write_data t c) (\<lambda>_. fsync t)))
      (\<lambda>r w'. touches (\<lambda>q. q = t) w w' \<and> (r = Inr () \<longrightarrow> (\<exists>n. look w' t = Some n \<and> good_file m c n))) w"
    unfolding chmod_def write_data_def fsync_def
    using t by (intro wp_bindI[OF update_node_outcome] wp_mono[OF update_node_outcome])
      (auto simp: good_file_def file_node_def intro: writes.trans)
  then show "wp (atomic_stage t c m)
    (\<lambda>r w'. touches (\<lambda>q. q = t) w w' \<and> (r = Inr () \<longrightarrow> (\<exists>n. look w' t = Some n \<and> good_file m c n))) w"
    unfolding atomic_stage_def
  proof (rule wp_tryI, goal_cases)
    case (1 r w1)
    then show ?case
    proof (intro wp_tryI[OF close_file_outcome], goal_cases)
      case (1 k w2)
      then have "touches (\<lambda>q. q = t) w w2" by (blast intro: writes.trans same_files_touches)
      with 1 join_two[of r k] show ?case
        by (auto simp: wp_eqs same_files_look split: option.splits)
    qed
  qed
qed

lemma atomic_outcome:
  assumes p: "target ''.recovery-state-'' p"
  shows "wp (atomic p c m) (put_post (temp_in (butlast p) ''.recovery-state-'') m p c w) w"
proof -
  let ?post = "put_post (temp_in (butlast p) ''.recovery-state-'') m p c w"
  have ne: "p \<noteq> []" using p by (simp add: target_def)
  have body: "wp (bindE (create_temp (butlast p) ''.recovery-state-'') (\<lambda>t.
     deferE (bindE (atomic_stage t c m) (\<lambda>_. bindE (rename t p) (\<lambda>_. syncDir (butlast p)))) (remove t)))
     ?post w1" if s: "same_files w w1" for w1
  proof (rule wp_mono[OF staged_put_spec[OF p atomic_stage_ok finish_rename_sync[of syncDir p, OF syncDir_outcome ne]]])
    show "keeps (touches_mem (\<lambda>q. q = t)) (remove t)" for t by (rule mem_remove) simp
    fix r w'
    assume "put_post (temp_in (butlast p) ''.recovery-state-'') m p c w1 r w' \<and> kept_if False p w1 r w'"
    with s show "?post r w'"
      by (auto simp: put_post_def same_files_look intro: writes.trans same_files_touches)
  qed
  show ?thesis
    unfolding atomic_def
  proof (rule wp_tryI[OF keeps_wp[OF reads_lstat]], goal_cases)
    case (1 r w1)
    show ?case
      by (rule wp_bindI[where P = "\<lambda>_ w'. w' = w1"])
         (use 1 body in \<open>auto simp: wp_eqs put_post_same split: sum.splits\<close>)
  qed
qed

interpretation rc: atomic_put "\<lambda>p c. atomic p c m" "target ''.recovery-state-''"
    "\<lambda>p. temp_in (butlast p) ''.recovery-state-''" m for m
  by unfold_locales (simp_all add: atomic_outcome target_not_temp)

section \<open>The phase protocol\<close>

text \<open>The steps an authority can take, in terms of its fields only.\<close>

inductive rstep :: "rauthority \<Rightarrow> rauthority \<Rightarrow> bool" where
  started: "rs_tx (ra_state a) \<noteq> Some tx \<Longrightarrow> hex32_ok epoch \<Longrightarrow> rstep a (begin_fields epoch point tx digest a)"
| restored: "rs_phase (ra_state a) = ''restoring'' \<Longrightarrow>
    rstep a (a\<lparr>ra_restored := True, ra_state := (ra_state a)\<lparr>rs_phase := ''validating''\<rparr>\<rparr>)"
| redis: "rs_phase (ra_state a) = ''validating'' \<Longrightarrow> ra_redis a \<in> {[], digest} \<Longrightarrow> hex64_ok digest \<Longrightarrow>
    rstep a (a\<lparr>ra_redis := digest\<rparr>)"
| prepared: "rs_phase (ra_state a) = ''validating'' \<Longrightarrow> ra_prep a \<in> {[], digest} \<Longrightarrow> hex64_ok digest \<Longrightarrow>
    rstep a (a\<lparr>ra_prep := digest\<rparr>)"
| opened: "rs_phase (ra_state a) \<in> {''validating'', ''http_ready''} \<Longrightarrow> ra_restored a \<Longrightarrow>
    ra_redis a \<noteq> [] \<Longrightarrow> ra_prep a \<noteq> [] \<Longrightarrow>
    rstep a (a\<lparr>ra_http := True, ra_state := (ra_state a)\<lparr>rs_phase := ''http_ready''\<rparr>\<rparr>)"

inductive_cases rstepE: "rstep a b"

definition evidence :: "rauthority \<Rightarrow> bool" where
  "evidence a \<longleftrightarrow> (rs_phase (ra_state a) = ''http_ready'' \<longrightarrow>
     ra_restored a \<and> ra_redis a \<noteq> [] \<and> ra_prep a \<noteq> [])"

lemma rstep_evidence: "rstep a b \<Longrightarrow> evidence b"
  by (erule rstepE) (auto simp: evidence_def begin_fields_def)

lemma rstep_not_ready: "rstep a b \<Longrightarrow> rs_phase (ra_state b) \<noteq> ''ready''"
  by (erule rstepE) (auto simp: begin_fields_def)

lemma rstep_host:
  "rstep a b \<Longrightarrow> rs_host (ra_state b) = rs_host (ra_state a) \<and> rs_minimum (ra_state b) = rs_minimum (ra_state a) \<and>
     rs_instance (ra_state b) = rs_instance (ra_state a)"
  by (erule rstepE) (auto simp: begin_fields_def)

lemma rstep_epoch:
  "rstep a b \<Longrightarrow> rs_tx (ra_state b) = rs_tx (ra_state a) \<Longrightarrow> rs_epoch (ra_state b) = rs_epoch (ra_state a)"
  by (erule rstepE) (auto simp: begin_fields_def)

section \<open>The authority on disk\<close>

unbundle bit_operations_syntax

definition authority_at :: "path \<Rightarrow> world \<Rightarrow> rauthority option" where
  "authority_at d w =
     (case look w (authority_path d ''primary'') of None \<Rightarrow> None
      | Some n \<Rightarrow> (case n_data n of Text _ \<Rightarrow> None
          | Json j \<Rightarrow> if n_kind n = KRegular \<and> w_jlen w j \<le> 16384 \<and> n_perm n AND 63 = 0
                      then (case rauthority_of_json j of None \<Rightarrow> None
                            | Some a \<Rightarrow> if validate a ''primary'' = Inr () then Some a else None)
                      else None))"

lemma reads_CheckProtocol [keeps_intros]: "keeps same_files (CheckProtocol d p)"
  unfolding CheckProtocol_def by (intro keeps_intros)

lemma reads_rcRead [keeps_intros]: "keeps same_files (rcRead st inst)"
  unfolding rcRead_def by (intro keeps_intros)

lemma reads_randomID [keeps_intros]: "keeps same_files randomID"
  unfolding randomID_def by (intro keeps_intros)

lemma reads_rcCheckpoint [keeps_intros]: "keeps same_files (rcCheckpoint st inst point tx)"
  unfolding rcCheckpoint_def by (intro keeps_intros)

lemma rcRead_yields:
  assumes "rcRead st ''primary'' w = (Inr a, w')" and "rc_dir st = Some d"
  shows "authority_at d w = Some a"
proof -
  from assms obtain i w1 c where l: "lstat (authority_path d ''primary'') w = (Inr i, w1)"
    and i: "i_kind i = KRegular" "i_size i \<le> 16384" "i_perm i AND 63 = 0"
    and r: "read_file (authority_path d ''primary'') w1 = (Inr c, w')"
    and a: "(case c of Json j \<Rightarrow> rauthority_of_json j | Text _ \<Rightarrow> None) = Some a" "validate a ''primary'' = Inr ()"
    by (auto simp: rcRead_def bindE_Inr located_def not_less)
  from wp_run[OF lstat_outcome l] obtain n where n: "look w (authority_path d ''primary'') = Some n" "i = info_of w n"
    and s: "same_files w w1" by auto
  from wp_run[OF read_file_outcome r] n s have "c = n_data n" by (auto simp: same_files_look)
  with n i a show ?thesis
    by (auto simp: authority_at_def info_of_def data_size_def split: content.splits)
qed

lemma validate_exists: "validate a i = Inl e \<Longrightarrow> \<not> err_is ErrNotExist e"
  by (auto simp: validate_def Let_def split: if_splits)

lemma rcRead_missing:
  assumes "rcRead st ''primary'' w = (Inl e, w')" and "err_is ErrNotExist e" and "rc_dir st = Some d"
  shows "look w (authority_path d ''primary'') = None"
proof -
  from assms(1,3) consider "lstat (authority_path d ''primary'') w = (Inl e, w')"
    | i w1 where "lstat (authority_path d ''primary'') w = (Inr i, w1)"
        "read_file (authority_path d ''primary'') w1 = (Inl e, w')"
    | s where "e = Msg s" | a where "validate a ''primary'' = Inl e"
    by (auto simp: rcRead_def bindE_Inl located_def split: if_splits option.splits)
  then show ?thesis
  proof cases
    case 1
    from wp_run[OF lstat_outcome 1] assms(2) show ?thesis by (simp add: not_exist_def)
  next
    case 2
    from wp_run[OF lstat_outcome 2(1)] obtain n where "look w (authority_path d ''primary'') = Some n"
      and s: "same_files w w1" by auto
    with wp_run[OF read_file_outcome 2(2)] assms(2) show ?thesis by (simp add: not_exist_def same_files_look)
  qed (use assms(2) validate_exists in auto)
qed


lemma authority_at_same:
  "touches P w w' \<Longrightarrow> \<not> P (authority_path d ''primary'') \<Longrightarrow> authority_at d w' = authority_at d w"
proof -
  assume t: "touches P w w'" and p: "\<not> P (authority_path d ''primary'')"
  then have "w_jlen w' = w_jlen w" "look w' (authority_path d ''primary'') = look w (authority_path d ''primary'')"
    by (auto simp: touches_def same_env_def)
  then show ?thesis by (simp only: authority_at_def)
qed

lemma hex_encode_ok: "length bs = 16 \<Longrightarrow> hex32_ok (hex_encode bs)"
  using hex_encode_shape[of bs] by (simp add: hex32_ok_def)

lemma randomID_ok: "randomID w = (Inr x, w') \<Longrightarrow> hex32_ok x"
  by (auto simp: randomID_def bindE_Inr read_random_def sys_def Let_def split: fault.splits
      intro: hex_encode_ok)

section \<open>Changing the authority\<close>

abbreviation auth_path :: "path \<Rightarrow> path" where
  "auth_path d \<equiv> authority_path d ''primary''"

text \<open>Actions that leave the authority file alone.\<close>

definition quiet :: "path \<Rightarrow> 'a io \<Rightarrow> bool" where
  "quiet d m \<longleftrightarrow> keeps (touches (\<lambda>q. q \<noteq> auth_path d)) m"

lemma quietD: "quiet d m \<Longrightarrow> m w = (r, w') \<Longrightarrow> touches (\<lambda>q. q \<noteq> auth_path d) w w'"
  by (simp add: quiet_def keepsD)

lemma quiet_reads: "keeps same_files m \<Longrightarrow> quiet d m"
  by (simp add: quiet_def keeps_reads_touches)

lemma syncDir_touches: "keeps (touches P) (syncDir d)"
  unfolding syncDir_def
  by (intro keeps_intros keeps_reads_touches[OF reads_open_path] keeps_reads_touches[OF reads_close_file])

lemma directory_touches: "P p \<Longrightarrow> keeps (touches P) (directory p m)"
  unfolding directory_def
  by (intro keeps_intros touches_mkdir touches_chmod syncDir_touches keeps_reads_touches[OF reads_lstat]; assumption?)

lemma atomic_touches:
  "target ''.recovery-state-'' p \<Longrightarrow> keeps (touches (\<lambda>q. q = p \<or> temp_in (butlast p) ''.recovery-state-'' q)) (atomic p c m)"
  by (rule rc.put_keeps_touches)

lemma rc_targets [simp]:
  "target ''.recovery-state-'' (auth_path d)" "target ''.recovery-state-'' (floor_path d)"
  "target ''.recovery-state-'' (public_path d ''primary'')" "target ''.recovery-state-'' (initialized_path d ''primary'')"
  by (simp_all add: target_def authority_path_def control_dir_def floor_path_def public_path_def
      PublicDir_def initialized_path_def has_prefix_def)

lemma rc_paths_differ [simp]:
  "floor_path d \<noteq> auth_path d" "public_path d ''primary'' \<noteq> auth_path d" "initialized_path d ''primary'' \<noteq> auth_path d"
  "PublicDir d ''primary'' \<noteq> auth_path d" "d \<noteq> auth_path d" "d @ [''recovery-control''] \<noteq> auth_path d"
  "control_dir d ''primary'' \<noteq> auth_path d" "control_lock d ''primary'' \<noteq> auth_path d"
  "checkpoint_path d ''primary'' tx \<noteq> auth_path d" "control_dir d ''primary'' @ [''checkpoints''] \<noteq> auth_path d"
  "floor_path d \<noteq> public_path d ''primary''" "auth_path d \<noteq> public_path d ''primary''"
  "auth_path d \<noteq> floor_path d" "auth_path d \<noteq> d" "auth_path d \<noteq> d @ [''recovery-control'']"
  "auth_path d \<noteq> control_dir d ''primary''"
  by (simp_all add: authority_path_def control_dir_def floor_path_def public_path_def PublicDir_def
      initialized_path_def control_lock_def checkpoint_path_def)

lemma auth_not_temporary [simp]: "\<not> temp_in e ''.recovery-state-'' (auth_path d)"
  by (simp add: temp_in_def authority_path_def has_prefix_def)

lemma floor_not_temporary [simp]: "\<not> temp_in e ''.recovery-state-'' (floor_path d)"
  by (simp add: temp_in_def floor_path_def has_prefix_def)

lemma quiet_atomic: "target ''.recovery-state-'' p \<Longrightarrow> p \<noteq> auth_path d \<Longrightarrow> quiet d (atomic p c m)"
  unfolding quiet_def by (rule keeps_mono[OF atomic_touches]) (auto elim: touches_mono)

lemma quiet_directory: "p \<noteq> auth_path d \<Longrightarrow> quiet d (directory p m)"
  unfolding quiet_def by (rule directory_touches)

lemmas quiet_intros = keeps_intros quiet_atomic[unfolded quiet_def] quiet_directory[unfolded quiet_def]
  quiet_reads[unfolded quiet_def, OF reads_lstat] quiet_reads[unfolded quiet_def, OF reads_randomID]
  quiet_reads[unfolded quiet_def, OF reads_rcRead] quiet_reads[unfolded quiet_def, OF reads_flock]
  quiet_reads[unfolded quiet_def, OF reads_funlock] quiet_reads[unfolded quiet_def, OF reads_close_file]
  quiet_reads[unfolded quiet_def, OF reads_CheckProtocol] quiet_reads[unfolded quiet_def, OF reads_rcCheckpoint]

lemma quiet_initialize: "quiet d (initialize_authority d ''primary'')"
  unfolding quiet_def initialize_authority_def by (intro quiet_intros) simp_all

definition floor_stored :: "path \<Rightarrow> world \<Rightarrow> bool" where
  "floor_stored d w \<longleftrightarrow> stored w (floor_path d) (Text floor_text) 384 \<and> durable w (floor_path d) (Text floor_text) 384"

text \<open>The outcomes of a commit: the authority is untouched, or the new one is stored, and then the
  protocol floor was durable before.\<close>

definition committed :: "path \<Rightarrow> rauthority \<Rightarrow> world \<Rightarrow> bool" where
  "committed d a w \<longleftrightarrow> stored w (auth_path d) (Json (rauthority_to_json a)) 384 \<and> floor_stored d w"

lemma floor_stays:
  "floor_stored d w \<Longrightarrow> touches P w w' \<Longrightarrow> \<not> P (floor_path d) \<Longrightarrow> floor_stored d w'"
  by (auto simp: floor_stored_def intro: stored_stays durable_stays)

definition commit_done :: "path \<Rightarrow> rauthority \<Rightarrow> world \<Rightarrow> err + rauthority \<Rightarrow> world \<Rightarrow> bool" where
  "commit_done d a w r w' \<longleftrightarrow> committed d a w' \<and> w_jlen w' = w_jlen w \<and> (\<forall>b. r = Inr b \<longrightarrow> b = a \<and>
     durable w' (auth_path d) (Json (rauthority_to_json a)) 384 \<and>
     stored w' (public_path d ''primary'') (Json (rstate_to_json (ra_state a))) 420)"

lemma commit_cases:
  assumes "commit d ''primary'' a w = (r, w')"
  shows "(look w' (auth_path d) = look w (auth_path d) \<and> w_jlen w' = w_jlen w \<and> (\<exists>e. r = Inl e)) \<or>
    commit_done d a w r w'"
proof -
  let ?P = "\<lambda>q. q \<noteq> auth_path d"
  let ?c = "Json (rauthority_to_json a)"
  have jl: "w_jlen w2 = w_jlen w1" if "touches P w1 w2" for P w1 w2
    using that by (simp add: touches_def same_env_def)
  obtain r1 w1 where d: "directory (PublicDir d ''primary'') 493 w = (r1, w1)" by fastforce
  have t1: "touches ?P w w1" using quietD[OF quiet_directory d] by simp
  obtain r2 w2 where f: "atomic (floor_path d) (Text floor_text) 384 w1 = (r2, w2)" by fastforce
  have "touches ?P w1 w2" using quietD[OF quiet_atomic f] by simp
  with t1 have t2: "touches ?P w w2" by (rule writes.trans)
  obtain r3 w3 where a: "atomic (auth_path d) ?c 384 w2 = (r3, w3)" by fastforce
  note t3 = keepsD[OF atomic_touches a]
  obtain r4 w4 where p: "atomic (public_path d ''primary'') (Json (rstate_to_json (ra_state a))) 420 w3 = (r4, w4)"
    by fastforce
  note t4 = keepsD[OF atomic_touches p]
  show ?thesis
  proof (cases "\<exists>x y. r1 = Inr x \<and> r2 = Inr y")
    case False
    with assms d f t1 t2 jl show ?thesis
      by (cases r1; cases r2) (auto simp: commit_def bindE_def touches_look)
  next
    case True
    then have fl: "floor_stored d w2" using rc.put_commit[of "floor_path d" "Text floor_text" 384 w1 w2] f
      by (auto simp: floor_stored_def)
    have f3: "floor_stored d w3" by (rule floor_stays[OF fl t3]) simp_all
    have f4: "floor_stored d w4" by (rule floor_stays[OF f3 t4]) simp_all
    have a4: "stored w3 (auth_path d) ?c 384 \<Longrightarrow> stored w4 (auth_path d) ?c 384"
      by (rule stored_stays[OF _ t4]) simp_all
    have d4: "durable w3 (auth_path d) ?c 384 \<Longrightarrow> stored w3 (auth_path d) ?c 384 \<Longrightarrow> durable w4 (auth_path d) ?c 384"
      by (rule durable_stays[OF _ _ t4]) simp_all
    show ?thesis
    proof (cases r3)
      case (Inl e)
      with assms d f True a have "r = Inl e" "w' = w3" by (auto simp: commit_def bindE_step bindE_fail)
      with rc.put_atomic[OF _ a] f3 t2 jl[OF t2] jl[OF t3] show ?thesis
        by (auto simp: commit_done_def committed_def touches_look)
    next
      case (Inr u)
      with rc.put_commit[of "auth_path d" ?c 384 w2 w3] a have s3: "stored w3 (auth_path d) ?c 384" "durable w3 (auth_path d) ?c 384"
        by auto
      have w': "w' = w4" and r: "r = (case r4 of Inl e \<Rightarrow> Inl e | Inr _ \<Rightarrow> Inr a)"
        using assms d f True a Inr p by (auto simp: commit_def bindE_step bindE_def retE_def split: sum.splits)
      have "stored w4 (public_path d ''primary'') (Json (rstate_to_json (ra_state a))) 420" if "r4 = Inr v" for v
        using rc.put_commit[of "public_path d ''primary''" _ 420 w3 w4] p that by simp
      with s3 a4 d4 f4 w' r jl[OF t2] jl[OF t3] jl[OF t4] show ?thesis
        by (auto simp: commit_done_def committed_def split: sum.splits)
    qed
  qed
qed

text \<open>Where a change starts from: the authority on disk, or a fresh one when there is none.\<close>

definition starts :: "path \<Rightarrow> bool \<Rightarrow> world \<Rightarrow> rauthority \<Rightarrow> bool" where
  "starts d init w a \<longleftrightarrow> authority_at d w = Some a \<or>
     (init \<and> look w (auth_path d) = None \<and>
      (\<exists>host epoch. a = initial_authority ''primary'' host epoch \<and> hex32_ok host \<and> hex32_ok epoch))"

lemma initialize_yields:
  assumes "initialize_authority d ''primary'' w = (Inr a, w')"
  shows "\<exists>host epoch. a = initial_authority ''primary'' host epoch \<and> hex32_ok host \<and> hex32_ok epoch"
  using assms by (auto simp: initialize_authority_def bindE_Inr dest!: randomID_ok)

definition unchanged :: "path \<Rightarrow> world \<Rightarrow> world \<Rightarrow> bool" where
  "unchanged d w w' \<longleftrightarrow> look w' (auth_path d) = look w (auth_path d) \<and> w_jlen w' = w_jlen w"

lemma unchanged_touches: "touches (\<lambda>q. q \<noteq> auth_path d) w w' \<Longrightarrow> unchanged d w w'"
  by (simp add: unchanged_def touches_def same_env_def)

lemma unchanged_trans: "unchanged d w w' \<Longrightarrow> unchanged d w' w'' \<Longrightarrow> unchanged d w w''"
  by (simp add: unchanged_def)

lemma unchanged_authority: "unchanged d w w' \<Longrightarrow> authority_at d w' = authority_at d w"
  by (simp only: unchanged_def authority_at_def)

lemma change_locked_cases:
  assumes run: "change_locked st d ''primary'' init mutate w = (r, w')" and st: "rc_dir st = Some d"
    and q: "\<And>a. quiet d (mutate a)"
  shows "(unchanged d w w' \<and> (\<exists>e. r = Inl e)) \<or>
    (\<exists>a a' w1 w2. starts d init w a \<and> mutate a w1 = (Inr a', w2) \<and> validate a' ''primary'' = Inr () \<and>
       (unchanged d w w' \<and> (\<exists>e. r = Inl e) \<or>
        commit_done d a' w r w'))"
proof -
  obtain rr w1 where rd: "rcRead st ''primary'' w = (rr, w1)" by fastforce
  have u1: "unchanged d w w1" using quietD[OF quiet_reads[OF reads_rcRead] rd] by (rule unchanged_touches)
  let ?start = "case rr of Inr a \<Rightarrow> retE a
       | Inl e \<Rightarrow> if err_is ErrNotExist e \<and> init then initialize_authority d ''primary'' else failE e"
  have qs: "quiet d ?start"
    using quiet_initialize[of d] unfolding quiet_def by (cases rr) (auto intro: keeps_intros)
  obtain sr w2 where s: "?start w1 = (sr, w2)" by fastforce
  have u2: "unchanged d w w2" using u1 unchanged_touches[OF quietD[OF qs s]] by (rule unchanged_trans)
  from run rd have rest: "bindE ?start (\<lambda>a. bindE (mutate a) (\<lambda>a'.
     bindE (liftE (validate a' ''primary'')) (\<lambda>_. commit d ''primary'' a'))) w1 = (r, w')"
    by (simp add: change_locked_def bindE_tryE[of "rcRead st ''primary''", OF rd])
  show ?thesis
  proof (cases sr)
    case (Inl e)
    with rest s u2 show ?thesis by (auto simp: bindE_fail)
  next
    case (Inr a)
    have start: "starts d init w a"
    proof (cases rr)
      case (Inl e)
      with s \<open>sr = Inr a\<close> have "err_is ErrNotExist e" "init" "initialize_authority d ''primary'' w1 = (Inr a, w2)"
        by (auto split: if_splits)
      with rcRead_missing[OF rd[unfolded Inl] _ st] initialize_yields show ?thesis by (auto simp: starts_def)
    next
      case (Inr b)
      with s \<open>sr = Inr a\<close> have "b = a" by simp
      with rcRead_yields[OF rd[unfolded Inr] st] show ?thesis by (simp add: starts_def)
    qed
    obtain mr w3 where m: "mutate a w2 = (mr, w3)" by fastforce
    have u3: "unchanged d w w3" using u2 unchanged_touches[OF quietD[OF q m]] by (rule unchanged_trans)
    show ?thesis
    proof (cases "\<exists>a'. mr = Inr a' \<and> validate a' ''primary'' = Inr ()")
      case False
      with rest s Inr m u3 show ?thesis
        by (cases mr) (auto simp: bindE_step bindE_fail bindE_def liftE_def split: sum.splits)
    next
      case True
      then obtain a' where a': "mr = Inr a'" "validate a' ''primary'' = Inr ()" by blast
      with rest s Inr m have "commit d ''primary'' a' w3 = (r, w')" by (simp add: bindE_step bindE_def liftE_def)
      from commit_cases[OF this] show ?thesis
      proof
        assume "look w' (auth_path d) = look w3 (auth_path d) \<and> w_jlen w' = w_jlen w3 \<and> (\<exists>e. r = Inl e)"
        with u3 show ?thesis by (simp add: unchanged_def)
      next
        assume "commit_done d a' w3 r w'"
        moreover have "w_jlen w3 = w_jlen w" using u3 by (simp add: unchanged_def)
        ultimately have "commit_done d a' w r w'" unfolding commit_done_def by metis
        with start m a' show ?thesis by blast
      qed
    qed
  qed
qed

lemma change_cases:
  assumes run: "change st ''primary'' init mutate w = (r, w')" and st: "rc_dir st = Some d"
    and q: "\<And>a. quiet d (mutate a)"
  shows "(unchanged d w w' \<and> (\<exists>e. r = Inl e)) \<or>
    (\<exists>a a' w1 w2. starts d init w a \<and> mutate a w1 = (Inr a', w2) \<and> validate a' ''primary'' = Inr () \<and>
       (unchanged d w w' \<and> (\<exists>e. r = Inl e) \<or>
        commit_done d a' w r w'))"
proof -
  let ?l = "control_lock d ''primary''"
  let ?pre = "bindE (CheckProtocol d MinimumProtocol) (\<lambda>_.
     bindE (forE (\<lambda>p. directory p 448) [d, d @ [''recovery-control''], control_dir d ''primary'']) (\<lambda>_.
     open_create ?l 384))"
  let ?sec = "bindE (flock ?l) (\<lambda>_. deferE (change_locked st d ''primary'' init mutate) (funlock ?l))"
  have qpre: "quiet d ?pre"
  proof -
    have "keeps (touches (\<lambda>q. q \<noteq> auth_path d)) (forE (\<lambda>p. directory p 448) [d, d @ [''recovery-control''], control_dir d ''primary''])"
      by (rule keeps_forE_set) (rule directory_touches, auto dest: sym)
    then show ?thesis
      unfolding quiet_def
      by (intro writes.keeps_bindE keeps_reads_touches[OF reads_CheckProtocol] touches_open_create) simp_all
  qed
  from run st have all: "bindE ?pre (\<lambda>_. deferE ?sec (close_file ?l)) w = (r, w')"
    by (simp add: change_def located_def bindE_assoc) (simp add: bindE_def liftE_def)
  obtain pr w1 where p: "?pre w = (pr, w1)" by fastforce
  have u1: "unchanged d w w1" using quietD[OF qpre p] by (rule unchanged_touches)
  have close: "unchanged d w2 (snd (close_file ?l w2))" "unchanged d w2 (snd (funlock ?l w2))" for w2
    using reads_close_file reads_funlock
    by (auto simp: keeps_def intro!: unchanged_touches same_files_touches)
  show ?thesis
  proof (cases pr)
    case (Inl e)
    with all p have "r = Inl e" "w' = w1" by (auto simp: bindE_fail)
    with u1 show ?thesis by blast
  next
    case (Inr u)
    with all p obtain w2 where sec: "?sec w1 = (r, w2)" and w': "w' = snd (close_file ?l w2)"
      by (auto simp: bindE_step deferE_eq)
    obtain fr w3 where f: "flock ?l w1 = (fr, w3)" by fastforce
    have u3: "unchanged d w w3"
      using u1 unchanged_touches[OF quietD[OF quiet_reads[OF reads_flock] f]] by (rule unchanged_trans)
    show ?thesis
    proof (cases fr)
      case (Inl e)
      with sec f have "r = Inl e" "w2 = w3" by (auto simp: bindE_fail)
      with u3 w' close(1)[of w2] show ?thesis by (auto intro: unchanged_trans)
    next
      case (Inr v)
      with sec f obtain w4 where c: "change_locked st d ''primary'' init mutate w3 = (r, w4)"
        and w2: "w2 = snd (funlock ?l w4)" by (auto simp: bindE_step deferE_eq)
      have t: "touches (\<lambda>_. False) w4 w'"
      proof -
        have "same_files w4 w2" using reads_funlock w2 by (simp add: keeps_def)
        moreover have "same_files w2 w'" using reads_close_file w' by (simp add: keeps_def)
        ultimately show ?thesis by (blast intro: reads.trans same_files_touches)
      qed
      then have u4: "unchanged d w4 w'" by (simp add: unchanged_def touches_def same_env_def)
      have st4: "starts d init w3 a \<Longrightarrow> starts d init w a" for a
        using u3 unchanged_authority[OF u3] by (simp add: starts_def unchanged_def)
      have un: "unchanged d w3 w4 \<Longrightarrow> unchanged d w w'" using u3 u4 by (blast intro: unchanged_trans)
      have cm: "committed d a' w4 \<Longrightarrow> committed d a' w'" for a'
        using stored_stays[OF _ t] floor_stays[OF _ t] by (simp add: committed_def)
      have du: "durable w4 p c m \<Longrightarrow> stored w4 p c m \<Longrightarrow> durable w' p c m" for p c m
        using durable_stays[OF _ _ t] by simp
      have so: "stored w4 p c m \<Longrightarrow> stored w' p c m" for p c m
        using stored_stays[OF _ t] by simp
      have jl: "w_jlen w4 = w_jlen w3 \<Longrightarrow> w_jlen w' = w_jlen w" using u3 u4 by (simp add: unchanged_def)
      from change_locked_cases[OF c st q] show ?thesis
      proof
        assume "unchanged d w3 w4 \<and> (\<exists>e. r = Inl e)"
        with un show ?thesis by blast
      next
        assume "\<exists>a a' w1 w2. starts d init w3 a \<and> mutate a w1 = (Inr a', w2) \<and> validate a' ''primary'' = Inr () \<and>
          (unchanged d w3 w4 \<and> (\<exists>e. r = Inl e) \<or>
           commit_done d a' w3 r w4)"
        then obtain a a' wa wb where s: "starts d init w3 a" and m: "mutate a wa = (Inr a', wb)" "validate a' ''primary'' = Inr ()"
          and o: "unchanged d w3 w4 \<and> (\<exists>e. r = Inl e) \<or>
           commit_done d a' w3 r w4"
          by blast
        have "unchanged d w w' \<and> (\<exists>e. r = Inl e) \<or>
           commit_done d a' w r w'"
          using o un cm du so jl by (auto simp: commit_done_def committed_def)
        with st4[OF s] m show ?thesis by blast
      qed
    qed
  qed
qed

section \<open>Operations are protocol steps\<close>

lemma quiet_mutations:
  "quiet d (retE a)" "quiet d (begin_mutate point tx digest a)" "quiet d (restored_mutate tx a)"
  "quiet d (open_mutate tx a)" "quiet d (preparation_mutate tx digest a)" "quiet d (redis_mutate tx digest a)"
  unfolding quiet_def begin_mutate_def restored_mutate_def open_mutate_def preparation_mutate_def redis_mutate_def
  by (intro quiet_intros)+

lemma checkpoint_target: "identifier_ok tx \<Longrightarrow> target ''.recovery-state-'' (checkpoint_path d i tx)"
  by (auto simp: target_def checkpoint_path_def has_prefix_def identifier_ok_def is_alnum_def is_lower_def
      is_upper_def is_digit_def code_def split: list.splits)

lemma quiet_write_checkpoint:
  assumes "identifier_ok tx" and "rc_dir st = Some d"
  shows "quiet d (write_checkpoint st ''primary'' point tx digest)"
proof -
  have eq: "bindE (liftE (located st ''primary'')) f = f d" for f :: "path \<Rightarrow> unit io"
    using assms(2) by (simp add: fun_eq_iff located_def bindE_def liftE_def)
  show ?thesis
    unfolding quiet_def write_checkpoint_def eq
    using checkpoint_target[OF assms(1)] by (intro quiet_intros) simp_all
qed

lemma quiet_checkpoint:
  assumes "identifier_ok tx" and "rc_dir st = Some d"
  shows "quiet d (checkpoint_mutate st ''primary'' point tx digest a)"
  using quiet_write_checkpoint[OF assms] unfolding quiet_def checkpoint_mutate_def by (intro quiet_intros)

lemma mutation_steps:
  "begin_mutate point tx digest a w = (Inr b, w') \<Longrightarrow> b = a \<or> rstep a b"
  "restored_mutate tx a w = (Inr b, w') \<Longrightarrow> rstep a b"
  "open_mutate tx a w = (Inr b, w') \<Longrightarrow> rstep a b"
  "hex64_ok digest \<Longrightarrow> preparation_mutate tx digest a w = (Inr b, w') \<Longrightarrow> rstep a b"
  "hex64_ok digest \<Longrightarrow> redis_mutate tx digest a w = (Inr b, w') \<Longrightarrow> rstep a b"
  by (auto simp: begin_mutate_def restored_mutate_def open_mutate_def preparation_mutate_def redis_mutate_def
      bindE_Inr dest!: randomID_ok intro: rstep.intros split: if_splits)

lemma checkpoint_step: "checkpoint_mutate st i point tx digest a w = (Inr b, w') \<Longrightarrow> b = a"
  by (auto simp: checkpoint_mutate_def bindE_def tryE_def retE_def failE_def split: prod.splits sum.splits if_splits)

text \<open>One call of an operation, with any outcome.\<close>

inductive rc_op :: "rcstore \<Rightarrow> world \<Rightarrow> world \<Rightarrow> bool" for st where
  op_init: "rcInitialize st ''primary'' w = (r, w') \<Longrightarrow> rc_op st w w'"
| op_begin: "rcBegin st ''primary'' point tx digest w = (r, w') \<Longrightarrow> rc_op st w w'"
| op_restored: "Restored st ''primary'' tx w = (r, w') \<Longrightarrow> rc_op st w w'"
| op_open: "OpenHTTP st ''primary'' tx w = (r, w') \<Longrightarrow> rc_op st w w'"
| op_prepare: "RecordPreparation st ''primary'' tx digest w = (r, w') \<Longrightarrow> rc_op st w w'"
| op_redis: "RecordRedisManifest st ''primary'' tx digest w = (r, w') \<Longrightarrow> rc_op st w w'"
| op_checkpoint: "CaptureCheckpoint st ''primary'' point tx digest w = (u, w') \<Longrightarrow> rc_op st w w'"

text \<open>What a call did to the authority file.\<close>

definition follows :: "path \<Rightarrow> world \<Rightarrow> world \<Rightarrow> bool" where
  "follows d w w' \<longleftrightarrow> unchanged d w w' \<or>
     (\<exists>a a'. starts d True w a \<and> (a' = a \<or> rstep a a') \<and> validate a' ''primary'' = Inr () \<and>
        committed d a' w' \<and> w_jlen w' = w_jlen w)"

lemma follows_change:
  assumes "change st ''primary'' init mutate w = (r, w')" and "rc_dir st = Some d"
    and "\<And>a. quiet d (mutate a)" and "\<And>a b w w'. mutate a w = (Inr b, w') \<Longrightarrow> b = a \<or> rstep a b"
  shows "follows d w w'"
proof -
  have st: "starts d init w a \<Longrightarrow> starts d True w a" for a by (auto simp: starts_def)
  from change_cases[OF assms(1-3)] show ?thesis
    using assms(4) st unfolding follows_def commit_done_def by meson
qed

lemma rc_op_follows:
  assumes "rc_op st w w'" and st: "rc_dir st = Some d"
  shows "follows d w w'"
proof -
  have same: "follows d w w" for w by (simp add: follows_def unchanged_def)
  from assms(1) show ?thesis
  proof cases
    case (op_init r)
    then show ?thesis
      unfolding rcInitialize_def by (rule follows_change[OF _ st quiet_mutations(1)]) simp
  next
    case (op_begin point tx digest r)
    then show ?thesis
      unfolding rcBegin_def
      by (auto simp: same split: if_splits intro: follows_change[OF _ st quiet_mutations(2) mutation_steps(1)])
  next
    case (op_restored tx r)
    then show ?thesis
      unfolding Restored_def by (rule follows_change[OF _ st quiet_mutations(3)]) (blast dest: mutation_steps(2))
  next
    case (op_open tx r)
    then show ?thesis
      unfolding OpenHTTP_def by (rule follows_change[OF _ st quiet_mutations(4)]) (blast dest: mutation_steps(3))
  next
    case (op_prepare tx digest r)
    then show ?thesis
      unfolding RecordPreparation_def
      by (auto simp: same split: if_splits intro: follows_change[OF _ st quiet_mutations(5)] dest: mutation_steps(4))
  next
    case (op_redis tx digest r)
    then show ?thesis
      unfolding RecordRedisManifest_def
      by (auto simp: same split: if_splits intro: follows_change[OF _ st quiet_mutations(6)] dest: mutation_steps(5))
  next
    case (op_checkpoint point tx digest u)
    show ?thesis
    proof (cases "point_id_ok point \<and> identifier_ok tx \<and> hex64_ok digest")
      case True
      obtain r where "change st ''primary'' True (checkpoint_mutate st ''primary'' point tx digest) w = (r, w')"
        using op_checkpoint True by (auto simp: CaptureCheckpoint_def bindE_def retE_def split: prod.splits sum.splits)
      then show ?thesis
        by (rule follows_change[OF _ st quiet_checkpoint[OF _ st]]) (use True in \<open>blast dest: checkpoint_step\<close>)+
    qed (use op_checkpoint in \<open>auto simp: CaptureCheckpoint_def same\<close>)
  qed
qed

text \<open>The JSON text of a valid authority is far below the limit of 16 KiB the reader checks.\<close>

definition short_authorities :: "world \<Rightarrow> bool" where
  "short_authorities w \<longleftrightarrow> (\<forall>a. validate a ''primary'' = Inr () \<longrightarrow> w_jlen w (rauthority_to_json a) \<le> 16384)"

lemma committed_reads:
  assumes "committed d a w" and v: "validate a ''primary'' = Inr ()" and "short_authorities w"
  shows "authority_at d w = Some a"
proof -
  have "rauthority_in_range a"
    using v by (auto simp: validate_def Let_def rauthority_in_range_def MinimumProtocol_def split: if_splits)
  then have "rauthority_of_json (rauthority_to_json a) = Some a" by (rule rauthority_roundtrip)
  with assms show ?thesis
    by (auto simp: committed_def stored_def good_file_def authority_at_def short_authorities_def)
qed

lemma short_kept: "w_jlen w' = w_jlen w \<Longrightarrow> short_authorities w \<Longrightarrow> short_authorities w'"
  by (simp add: short_authorities_def)

lemma follows_cases:
  assumes "follows d w w'" and "short_authorities w"
  shows "short_authorities w' \<and> (unchanged d w w' \<or>
     (\<exists>a a'. starts d True w a \<and> (a' = a \<or> rstep a a') \<and> authority_at d w' = Some a' \<and> floor_stored d w'))"
proof -
  have "w_jlen w' = w_jlen w" using assms(1) by (auto simp: follows_def unchanged_def)
  then have s: "short_authorities w'" using assms(2) by (rule short_kept)
  with assms(1) committed_reads show ?thesis
    unfolding follows_def by (metis committed_def)
qed

section \<open>Properties\<close>


lemma run_induct:
  assumes "(rc_op st)\<^sup>*\<^sup>* w0 w" and st: "rc_dir st = Some d" and "short_authorities w0" and "I w0"
    and step: "\<And>w w'. I w \<Longrightarrow> unchanged d w w' \<Longrightarrow> I w'"
    and move: "\<And>w w' a a'. I w \<Longrightarrow> starts d True w a \<Longrightarrow> a' = a \<or> rstep a a' \<Longrightarrow> authority_at d w' = Some a' \<Longrightarrow> I w'"
  shows "I w \<and> short_authorities w"
  using assms(1)
proof (induction rule: rtranclp_induct)
  case base
  show ?case using assms(3,4) by simp
next
  case (step w w')
  then have "follows d w w'" and s: "short_authorities w" using rc_op_follows st by blast+
  from follows_cases[OF this] step.IH assms(5,6) show ?case by blast
qed



lemma change_success:
  assumes "change st ''primary'' init mutate w = (Inr b, w')" and st: "rc_dir st = Some d"
    and q: "\<And>a. quiet d (mutate a)" and short: "short_authorities w"
  shows "\<exists>a w1 w2. starts d init w a \<and> mutate a w1 = (Inr b, w2) \<and> authority_at d w' = Some b \<and>
     durable w' (auth_path d) (Json (rauthority_to_json b)) 384 \<and> floor_stored d w' \<and>
     stored w' (public_path d ''primary'') (Json (rstate_to_json (ra_state b))) 420"
proof -
  from change_cases[OF assms(1) st q] obtain a w1 w2 where a: "starts d init w a" "mutate a w1 = (Inr b, w2)"
    and v: "validate b ''primary'' = Inr ()" and c: "commit_done d b w (Inr b) w'"
    by (auto simp: commit_done_def)
  have "short_authorities w'" using c short_kept short by (auto simp: commit_done_def)
  with c v committed_reads have "authority_at d w' = Some b" by (auto simp: commit_done_def)
  with a c show ?thesis by (auto simp: commit_done_def committed_def)
qed

lemma begin_success:
  assumes "rcBegin st ''primary'' point tx digest w = (Inr b, w')" and "rc_dir st = Some d"
    and "short_authorities w"
  shows "authority_at d w' = Some b \<and> durable w' (auth_path d) (Json (rauthority_to_json b)) 384 \<and>
    floor_stored d w' \<and> stored w' (public_path d ''primary'') (Json (rstate_to_json (ra_state b))) 420 \<and>
    rs_tx (ra_state b) = Some tx \<and> ra_point b = point \<and> ra_digest b = digest \<and>
    (authority_at d w = Some b \<or>
     rs_phase (ra_state b) = ''restoring'' \<and> \<not> ra_restored b \<and> \<not> ra_http b \<and> ra_redis b = [] \<and> ra_prep b = [] \<and>
     hex32_ok (rs_epoch (ra_state b)))"
proof -
  from assms(1) have run: "change st ''primary'' True (begin_mutate point tx digest) w = (Inr b, w')"
    by (auto simp: rcBegin_def)
  from change_success[OF run assms(2) quiet_mutations(2) assms(3)] obtain a w1 w2 where
    s: "starts d True w a" and m: "begin_mutate point tx digest a w1 = (Inr b, w2)" and
    rest: "authority_at d w' = Some b" "durable w' (auth_path d) (Json (rauthority_to_json b)) 384"
    "floor_stored d w'" "stored w' (public_path d ''primary'') (Json (rstate_to_json (ra_state b))) 420" by blast
  have "rs_tx (ra_state b) = Some tx \<and> ra_point b = point \<and> ra_digest b = digest \<and>
    (authority_at d w = Some b \<or>
     rs_phase (ra_state b) = ''restoring'' \<and> \<not> ra_restored b \<and> \<not> ra_http b \<and> ra_redis b = [] \<and> ra_prep b = [] \<and>
     hex32_ok (rs_epoch (ra_state b)))"
  proof (cases "rs_tx (ra_state a) = Some tx")
    case True
    with m have "b = a" "ra_point a = point" "ra_digest a = digest"
      by (auto simp: begin_mutate_def split: if_splits)
    moreover have "authority_at d w = Some a"
      using s True by (auto simp: starts_def initial_authority_def zero_rauthority_def)
    ultimately show ?thesis using True by simp
  next
    case False
    with m show ?thesis
      by (auto simp: begin_mutate_def bindE_Inr begin_fields_def dest: randomID_ok)
  qed
  with rest show ?thesis by blast
qed



end
