(* ===== verification/SubmitLaws.thy ===== *)
theory SubmitLaws
  imports AdmissionLaws HostAuth AuthLaws RecoveryLaws
begin

text \<open>
  What \<open>Submit\<close> guarantees, with the authorization service as its authorizer: a request that
  was admitted before is answered from its record and starts nothing, and a request that is
  reported as accepted has a durable admission whose one-time code is newer than the code of
  every earlier admission of its scope.
\<close>

section \<open>Looking up a request\<close>

lemma process_reads [keeps_intros]: "keeps same_process (background m inst)"
  unfolding background_def by (intro keeps_intros)

lemma files_background: "keeps (files same_files) (background m inst)"
  unfolding background_def by (intro keeps_intros reads_rcRead)

lemma files_Request: "keeps (files same_files) (Request m inst rq)"
  unfolding Request_def receipt_of_def
  by (intro keeps_intros reads_storeRequest files_background)

lemma process_Request: "keeps same_process (Request m inst rq)"
  unfolding Request_def receipt_of_def by (intro keeps_intros)

lemma files_lookup: "keeps (files same_files) (lookup_request m inst rq)"
  unfolding lookup_request_def
  by (intro keeps_intros files_Request) (simp add: keeps_def files_def reads.refl)

lemma process_lookup: "keeps same_process (lookup_request m inst rq)"
  unfolding lookup_request_def
  by (intro keeps_intros process_Request) (simp add: keeps_def same_process_def)

text \<open>Readers change nothing but the world.\<close>

definition world_only :: "'d host \<Rightarrow> 'd host \<Rightarrow> bool" where
  "world_only h h' \<longleftrightarrow> h' = h\<lparr>ho_world := ho_world h'\<rparr>"

interpretation worlds: frame world_only
proof
  fix h h' h'' :: "'d host"
  assume "world_only h h'" and "world_only h' h''"
  then show "world_only h h''" unfolding world_only_def by (metis host.surjective host.update_convs(1))
qed (simp add: world_only_def)

lemma world_onW [keeps_intros]: "keeps world_only (onW m)"
  by (simp add: keeps_def world_only_def onW_def case_prod_unfold)

lemma world_Request: "keeps world_only (Request m inst rq)"
  unfolding Request_def receipt_of_def background_def by (intro keeps_intros)

lemma process_only: "keeps world_only m \<Longrightarrow> m h = (r, h') \<Longrightarrow> h' = h\<lparr>ho_world := ho_world h'\<rparr>"
  by (drule keepsD, assumption) (simp add: world_only_def)

lemma background_total [simp]: "background m inst h \<noteq> (Inl e, h')"
  by (auto simp: background_def bindE_def tryE_def retE_def split: prod.splits sum.splits if_splits)

lemma onW_Inr: "onW m h = (Inr x, h') \<longleftrightarrow> (\<exists>w. m (ho_world h) = (Inr x, w) \<and> h' = h\<lparr>ho_world := w\<rparr>)"
  by (auto simp: onW_def split: prod.splits)

lemma onW_Inl: "onW m h = (Inl e, h') \<longleftrightarrow> (\<exists>w. m (ho_world h) = (Inl e, w) \<and> h' = h\<lparr>ho_world := w\<rparr>)"
  by (auto simp: onW_def split: prod.splits)

lemma Request_found:
  "Request m inst rq h = (Inr x, h') \<Longrightarrow> inst = ''primary'' \<and>
     (\<exists>a b. admission_at (coordinationStore m) (ho_world h) rq = Some a \<and> x = admission_receipt a b)"
  by (auto simp: Request_def receipt_of_def bindE_Inr onW_Inr dest!: storeRequest_yields)

lemma admissionOperation_not_missing: "admissionOperation a = Inl e \<Longrightarrow> \<not> err_is ErrNotExist e"
  by (auto simp: admissionOperation_def split: option.splits if_splits)

lemma Request_missing:
  assumes "Request m inst rq h = (Inl e, h')" and "err_is ErrNotExist e" and "inst = ''primary''"
  shows "look (ho_world h) (request_path (coordinationStore m) rq) = None"
proof -
  let ?st = "coordinationStore m"
  obtain r w where run: "storeRequest ?st inst rq (ho_world h) = (r, w)" by fastforce
  then have h1: "onW (storeRequest ?st inst rq) h = (r, h\<lparr>ho_world := w\<rparr>)" by (simp add: onW_def)
  show ?thesis
  proof (cases r)
    case (Inl e')
    with assms(1) h1 have "e' = e" by (simp add: Request_def bindE_fail)
    with run Inl storeRequest_missing assms(2) show ?thesis by blast
  next
    case (Inr a)
    with assms(1) h1 have "receipt_of m inst a (h\<lparr>ho_world := w\<rparr>) = (Inl e, h')"
      by (simp add: Request_def bindE_step)
    then have "admissionOperation a = Inl e"
      by (cases "admissionOperation a") (auto simp: receipt_of_def bindE_Inl)
    with admissionOperation_not_missing assms(2) show ?thesis by blast
  qed
qed

lemma receipt_business [simp]: "rc_business (admission_receipt a b) = ad_business a"
  by (simp add: admission_receipt_def Let_def)

lemma lookup_true:
  assumes "lookup_request m inst rq h = (Inr True, h')"
  shows "inst = ''primary'' \<and> (\<exists>a b. admission_at (coordinationStore m) (ho_world h) (sr_request rq) = Some a \<and>
    ad_business a = business_sha (mg_sha m) rq \<and> ho_receipt h' = admission_receipt a b)"
proof -
  obtain r h1 where "Request m inst (sr_request rq) h = (r, h1)" by fastforce
  with assms obtain x where run: "Request m inst (sr_request rq) h = (Inr x, h1)"
    and b: "rc_business x = business_sha (mg_sha m) rq" and h': "ho_receipt h' = x"
    by (cases r) (auto simp: lookup_request_def bindE_tryE split: if_splits)
  from Request_found[OF run] b h' show ?thesis by (auto simp: receipt_business)
qed

lemma lookup_false:
  assumes "lookup_request m inst rq h = (Inr False, h')"
  shows "h' = h\<lparr>ho_world := ho_world h'\<rparr> \<and>
    (inst = ''primary'' \<longrightarrow> admission_at (coordinationStore m) (ho_world h) (sr_request rq) = None)"
proof -
  obtain r h1 where run: "Request m inst (sr_request rq) h = (r, h1)" by fastforce
  with assms obtain e where r: "r = Inl e" "err_is ErrNotExist e" "h' = h1"
    by (cases r) (auto simp: lookup_request_def bindE_tryE split: if_splits)
  have "h1 = h\<lparr>ho_world := ho_world h1\<rparr>"
    using process_only[OF world_Request run] .
  moreover have "admission_at (coordinationStore m) (ho_world h) (sr_request rq) = None" if "inst = ''primary''"
    using Request_missing[OF run[unfolded r(1)] r(2) that] by (simp add: admission_at_def record_at_def)
  ultimately show ?thesis using r(3) by simp
qed

lemma looks_up_lookup: "looks_up (lookup_request m inst rq)"
  unfolding looks_up_def by (blast dest: lookup_false)

section \<open>A request that was admitted before\<close>


section \<open>Calls of the manager keep the coordination records\<close>

lemma files_mono: "keeps (files R) M \<Longrightarrow> (\<And>w w'. R w w' \<Longrightarrow> S w w') \<Longrightarrow> keeps (files S) M"
  by (erule keeps_mono) (simp add: files_def)

lemma settled_same: "same_files w w' \<Longrightarrow> settled st w w'"
  by (auto simp: settled_def same_files_look same_files_def)

lemma files_settled: "keeps (files same_files) M \<Longrightarrow> keeps (files (settled st)) M"
  by (erule files_mono) (rule settled_same)

lemma settled_only: "settled st w w' \<Longrightarrow> holds (admitted_as st rq P) w w'"
  by (simp add: holds_def admitted_as_def settled_views)

lemma settled_acquireLock:
  assumes "standard m"
  shows "keeps (files (settled (coordinationStore m))) (acquireLock m inst)"
proof -
  have mk: "keeps (touches (own m)) (mkdir_all (lock_dir m inst) k)" for k
    by (rule touches_mkdir_all) (simp add: lock_dir_def own_prefixes)
  have op: "keeps (touches (own m)) (open_create (lock_dir m inst @ [''operation.lock'']) k)" for k
    by (rule touches_open_create) (simp add: lock_dir_def)
  have last: "keeps (files (settled (coordinationStore m))) (\<lambda>h. if inst \<in> set (ho_locked h) then (Inl e, h)
      else (Inr (), h\<lparr>ho_locked := inst # ho_locked h\<rparr>))" for e
    by (simp add: keeps_def files_def settling.refl)
  show ?thesis
    unfolding acquireLock_def
    by (intro settling.host.keeps_bindE settling.host.keeps_wrapE settling.keeps_onW last
        settled_own[OF assms] mk op settled_reads[OF reads_flock])
qed

lemma settled_releaseLock: "keeps (files (settled st)) (releaseLock m inst)"
  unfolding releaseLock_def
  by (intro settling.host.keeps_bindE settling.host.keeps_ignoreE settling.keeps_onW
      settled_reads[OF reads_close_file] settling.keeps_process) simp

lemma reads_readOperation [keeps_intros]: "keeps same_files (readOperation p inst op)"
  unfolding readOperation_def by (intro keeps_intros)

lemma reads_check_current: "keeps (files same_files) (check_current m inst kind)"
  unfolding check_current_def Current_def by (intro keeps_intros)

lemma reads_newID: "keeps (files same_files) (newID m)"
  unfolding newID_def by (intro keeps_intros)

lemma onW_keeps_op: "onW a h = (r, h') \<Longrightarrow> ho_op h' = ho_op h"
  by (auto simp: onW_def split: prod.splits)

text \<open>Writing the journal keeps what projections keep.\<close>

lemma holds_saveOperation:
  assumes m: "standard m" and P: "projection_stable P"
  shows "keeps (files (holds (admitted_as (coordinationStore m) rq P))) (saveOperation m)"
proof -
  let ?I = "holds (admitted_as (coordinationStore m) rq P)"
  have own: "keeps ?I a" if "keeps (touches (own m)) a" for a :: "unit io"
    using settled_own[OF m that] settled_only by (rule keeps_mono)
  show ?thesis
    unfolding saveOperation_def
  proof (intro holding.host.keeps_bindE[OF holding.keeps_modifyOp] holding.host.keeps_bindE[OF holding.keeps_getOp]
      holding.host.keeps_bindE[OF holding.keeps_onW[OF own[OF own_mkdir]]])
    fix u x v
    let ?upd = "updateOperation (coordinationStore m) (on_instance x) (on_id x) (operation_to_json x)"
    show "keeps (files ?I) (bindE (onW ?upd) (\<lambda>_. onW (forE (\<lambda>p. replaceContents p (Json (operation_to_json x)))
       [operation_path m (on_instance x) (on_id x), currentPath m (on_instance x)])))"
    proof (rule holding.host.keeps_bindE_post[OF holding.keeps_onW[OF holds_updateOperation[OF standard_store(2)[OF m] P]]])
      fix w y w'
      assume "onW ?upd w = (Inr y, w')"
      then have id: "op_id_ok (on_id x)" by (auto simp: onW_Inr dest: updateOperation_op_id)
      show "keeps (files ?I) (onW (forE (\<lambda>p. replaceContents p (Json (operation_to_json x)))
         [operation_path m (on_instance x) (on_id x), currentPath m (on_instance x)]))"
        by (rule holding.keeps_onW, rule own, rule keeps_forE_set)
           (use own_replace[OF op_id_target[OF id]] own_replace[OF current_target[unfolded currentPath_def]]
            in \<open>auto simp: operation_path_def currentPath_def\<close>)
    qed
  qed
qed

section \<open>What a submission admits\<close>

text \<open>The planner of the deployment only reads: it leaves the records of the store alone.\<close>

definition quiet_planner :: "'d manager \<Rightarrow> string \<Rightarrow> bool" where
  "quiet_planner m inst \<longleftrightarrow> (\<forall>planner action pt. Option.bind (mg_deployment m) mp_snapshot = Some planner \<longrightarrow>
     keeps (files (settled (coordinationStore m))) (planner inst action pt))"

definition submitted_as :: "'d manager \<Rightarrow> submit_request \<Rightarrow> int \<Rightarrow> admission \<Rightarrow> bool" where
  "submitted_as m rq counter a \<longleftrightarrow> ad_counter a = counter \<and> ad_business a = business_sha (mg_sha m) rq \<and>
     ad_request a = sr_request rq \<and> ad_action a = sr_action rq \<and> ad_scope a = scope (sr_action rq) \<and>
     ad_actor a = sr_actor rq \<and> ad_epoch a = sr_epoch rq \<and> ad_plan a = sr_plan rq"

lemma submitted_stable: "projection_stable (submitted_as m rq counter)"
  by (auto simp: projection_stable_def submitted_as_def dest: project_operation_fields)

lemma settled_validate:
  assumes "quiet_planner m inst"
  shows "keeps (files (settled (coordinationStore m))) (validate_submission m inst rq)"
proof -
  let ?R = "files (settled (coordinationStore m))"
  have pl: "keeps ?R (planner inst action pt)"
    if "Option.bind (mg_deployment m) mp_snapshot = Some planner" for planner action pt
    using assms that unfolding quiet_planner_def by blast
  have option: "keeps ?R (case Option.bind (mg_deployment m) mp_snapshot of None \<Rightarrow> F | Some planner \<Rightarrow> G planner)"
    if "keeps ?R F" "\<And>planner. Option.bind (mg_deployment m) mp_snapshot = Some planner \<Longrightarrow> keeps ?R (G planner)"
    for F :: "('a host, 'b) act" and G
    using that by (auto split: option.split)
  show ?thesis
    unfolding validate_submission_def
    by (intro settling.host.keeps_bindE settling.host.keeps_wrapE settling.keeps_onW settled_reads[OF reads_storePlan]
        settled_reads[OF reads_rcRead] settling.keeps_now keeps_if settling.host.keeps_failE option
        settling.host.keeps_liftE settling.host.keeps_retE, erule pl)
qed

definition plan_fits :: "submit_request \<Rightarrow> plan \<Rightarrow> bool" where
  "plan_fits rq p \<longleftrightarrow> plan_in_range p \<and> pl_id p = sr_plan rq \<and> pl_actor p = sr_actor rq \<and> pl_epoch p = sr_epoch rq"

lemma validate_Inr: "validate_submission m inst rq h = (Inr v, h') \<Longrightarrow> plan_fits rq (fst v)"
  by (auto simp: validate_submission_def bindE_Inr wrapE_Inr onW_Inr plan_fits_def plan_matches_def plan_at_def
      bind_eq_Some_conv now_def dest!: storePlan_yields plan_decoded_in_range
      split: if_splits option.splits)

lemma wrap64_range: "in_int64 (wrap64 i)"
  by (simp add: in_int64_def wrap64_def)

lemma holds_accept_submission:
  assumes m: "standard m" and fits: "plan_fits rq (fst v)"
  shows "keeps (files (holds (admitted_as (coordinationStore m) (sr_request rq) (submitted_as m rq counter))))
    (accept_submission m inst rq counter v)"
proof -
  let ?I = "holds (admitted_as (coordinationStore m) (sr_request rq) (submitted_as m rq counter))"
  have acc: "keeps ?I (storeAccept (coordinationStore m) (submitted_admission m inst rq counter (fst v) x t))"
    if "in_int64 counter" for x t
    by (rule holds_storeAccept[OF standard_store(2)[OF m]])
       (use fits that in \<open>auto simp: in_range_iff submitted_admission_def submitted_as_def plan_fits_def in_int64_def[of 2]\<close>)
  have guard: "in_int64 counter" if "\<not> (counter < wrap64 i \<or> counter > wrap64 j)" for i j
    using that wrap64_range[of i] wrap64_range[of j] by (auto simp: in_int64_def)
  show ?thesis
    unfolding accept_submission_def
  proof (intro holding.host.keeps_bindE holding.keeps_now)
    show "keeps (files ?I) (if sr_action rq = ''restore'' then modifyOp (on_point_update (\<lambda>_. pl_point (fst v))) else retE ())"
      by (intro keeps_intros)
    fix t
    show "keeps (files ?I) (if counter < wrap64 (unix_counter t - 1) \<or> counter > wrap64 (unix_counter t + 1)
      then failE (Sentinel ErrInvalid)
      else bindE getOp (\<lambda>x. onW (storeAccept (coordinationStore m) (submitted_admission m inst rq counter (fst v) x t))))"
      using guard acc by (auto intro!: keeps_intros)
  qed
qed

lemma holds_submission:
  assumes m: "standard m" and q: "quiet_planner m inst"
  shows "keeps (files (holds (admitted_as (coordinationStore m) (sr_request rq) (submitted_as m rq counter))))
    (startAccepted m inst kind pid job (validate_submission m inst rq) (Some (accept_submission m inst rq counter)))"
proof -
  let ?I = "holds (admitted_as (coordinationStore m) (sr_request rq) (submitted_as m rq counter))"
  have s: "keeps (files ?I) M" if "keeps (files (settled (coordinationStore m))) M" for M :: "('a host, 'b) act"
    using that settled_only by (rule files_mono)
  note s1 = s[OF settling.keeps_onW[OF settled_repairAdmissions[OF m]]]
  note s2 = s[OF files_settled[OF reads_check_current]]
  have acc: "keeps (files ?I) (accept_operation m inst kind pid (validate_submission m inst rq)
      (Some (accept_submission m inst rq counter)))"
    unfolding accept_operation_def option.case
  proof (rule holding.host.keeps_bindE[OF s1], rule holding.host.keeps_bindE[OF s2],
      rule holding.host.keeps_bindE_post[OF s[OF settled_validate[OF q]]])
    fix w v w'
    assume "validate_submission m inst rq w = (Inr v, w')"
    then have "plan_fits rq (fst v)" by (rule validate_Inr)
    then show "keeps (files ?I) (bindE (newID m) (\<lambda>op. bindE (now m) (\<lambda>t.
     bindE (modifyOp (\<lambda>_. queued_operation op inst kind pid t)) (\<lambda>_.
     bindE (accept_submission m inst rq counter v) (\<lambda>_.
     bindE (saveOperation m) (\<lambda>_. bindE getOp (\<lambda>x. retE (x, v))))))))"
      by (intro holding.host.keeps_bindE s[OF files_settled[OF reads_newID]] holding.keeps_now holding.keeps_modifyOp
          holds_accept_submission[OF m] holds_saveOperation[OF m submitted_stable] holding.keeps_getOp
          holding.host.keeps_retE)
  qed
  have spawned: "keeps (files ?I) (bindE (spawn inst x j) (\<lambda>_. retE x))" for x j
    by (simp add: keeps_def files_def spawn_def bindE_def retE_def holding.refl)
  have "keeps (files ?I) (bindE (acquireLock m inst) (\<lambda>_.
     checkE (accept_operation m inst kind pid (validate_submission m inst rq) (Some (accept_submission m inst rq counter)))
             (\<lambda>e. bindE (ignoreE (releaseLock m inst)) (\<lambda>_. failE e))
             (\<lambda>(x, v). bindE (spawn inst x (job v)) (\<lambda>_. retE x))))"
    by (intro holding.host.keeps_bindE holding.host.keeps_checkE s[OF settled_acquireLock[OF m]] acc keeps_case_prod spawned
        holding.host.keeps_ignoreE s[OF settled_releaseLock] holding.host.keeps_failE)
  then show ?thesis
    by (auto simp: startAccepted_def keeps_def files_def holding.refl)
qed

section \<open>A started submission is on record\<close>

lemma storeAccept_present:
  assumes "storeAccept st a0 w = (Inr (), w')" and "st_sync st = None" and "parents_exist st w"
    and "texts_not_empty w" and "admission_in_range a0"
  shows "present st (ad_request a0) w'"
proof -
  from storeAccept_cases[OF assms(1-3)] obtain sq w1 where s: "same_files w w1"
    and v: "admission_valid (a0\<lparr>ad_sequence := sq\<rparr>)"
    and post: "write_post st True (request_path st (ad_request a0)) (admission_to_json (a0\<lparr>ad_sequence := sq\<rparr>)) w1 (Inr ()) w'"
    by auto
  have "admission_in_range (a0\<lparr>ad_sequence := sq\<rparr>)" using assms(5) by (simp add: in_range_iff)
  moreover have "texts_not_empty w1" using assms(4) s by (simp add: texts_not_empty_def same_files_env)
  ultimately show ?thesis
    using admission_written[of st True "a0\<lparr>ad_sequence := sq\<rparr>" w1 w'] post v by (simp add: present_def)
qed

lemma accept_submission_Inr:
  assumes "accept_submission m inst rq counter v h = (Inr (), h')" and "plan_fits rq (fst v)"
  shows "\<exists>x t. admission_in_range (submitted_admission m inst rq counter (fst v) x t) \<and>
    storeAccept (coordinationStore m) (submitted_admission m inst rq counter (fst v) x t) (ho_world h) = (Inr (), ho_world h')"
proof -
  from assms(1)[unfolded accept_submission_def, THEN bindE_Inr[THEN iffD1]]
  obtain u h1 where m1: "(if sr_action rq = ''restore'' then modifyOp (on_point_update (\<lambda>_. pl_point (fst v)))
      else retE ()) h = (Inr u, h1)" and rest: "bindE (now m) (\<lambda>t.
      if counter < wrap64 (unix_counter t - 1) \<or> counter > wrap64 (unix_counter t + 1) then failE (Sentinel ErrInvalid)
      else bindE getOp (\<lambda>x. onW (storeAccept (coordinationStore m)
        (submitted_admission m inst rq counter (fst v) x t)))) h1 = (Inr (), h')"
    by blast
  from m1 have h1: "ho_world h1 = ho_world h" by (auto simp: modifyOp_def split: if_splits)
  from rest obtain t where g: "\<not> (counter < wrap64 (unix_counter t - 1) \<or> counter > wrap64 (unix_counter t + 1))"
    and acc: "bindE getOp (\<lambda>x. onW (storeAccept (coordinationStore m)
        (submitted_admission m inst rq counter (fst v) x t))) h1 = (Inr (), h')"
    unfolding bindE_Inr[of "now m"] by (auto simp: now_def split: if_splits)
  from g have "in_int64 counter"
    using wrap64_range[of "unix_counter t - 1"] wrap64_range[of "unix_counter t + 1"] by (auto simp: in_int64_def)
  moreover from acc h1 have "storeAccept (coordinationStore m)
      (submitted_admission m inst rq counter (fst v) (ho_op h1) t) (ho_world h) = (Inr (), ho_world h')"
    by (auto simp: bindE_Inr getOp_def onW_Inr)
  ultimately show ?thesis
    using assms(2) by (auto simp: in_range_iff submitted_admission_def plan_fits_def in_int64_def[of 2] intro!: exI)
qed

lemma saveOperation_Inr:
  assumes "saveOperation m h = (Inr (), h')"
  shows "\<exists>x w1 w2. x = bound_operation (ho_op h) \<and> ho_op h' = x \<and> world_only (h\<lparr>ho_op := x\<rparr>) h' \<and>
    mkdir_all (operationsDir m (on_instance x)) 488 (ho_world h) = (Inr (), w1) \<and>
    updateOperation (coordinationStore m) (on_instance x) (on_id x) (operation_to_json x) w1 = (Inr (), w2) \<and>
    forE (\<lambda>p. replaceContents p (Json (operation_to_json x)))
       [operation_path m (on_instance x) (on_id x), currentPath m (on_instance x)] w2 = (Inr (), ho_world h')"
  using assms by (auto simp: saveOperation_def bindE_Inr modifyOp_def getOp_def onW_Inr world_only_def)

lemma own_projections:
  assumes "op_id_ok op"
  shows "keeps (touches (own m)) (forE (\<lambda>p. replaceContents p c) [operation_path m inst op, currentPath m inst])"
  by (rule keeps_forE_set)
     (use own_replace[OF op_id_target[OF assms]] own_replace[OF current_target[unfolded currentPath_def]]
      in \<open>auto simp: operation_path_def currentPath_def\<close>)

lemma settled_present: "settled st w w' \<Longrightarrow> present st rq w' = present st rq w"
  by (simp add: present_def settled_views)

lemma settled_texts: "settled st w w' \<Longrightarrow> texts_not_empty w' = texts_not_empty w"
  by (simp add: settled_def texts_env)

lemma saveOperation_present:
  assumes m: "standard m" and run: "saveOperation m h = (Inr (), h')"
    and p: "present (coordinationStore m) rq (ho_world h)" and t: "texts_not_empty (ho_world h)"
  shows "present (coordinationStore m) rq (ho_world h')"
proof -
  let ?st = "coordinationStore m"
  from saveOperation_Inr[OF run] obtain x w1 w2 where
    mk: "mkdir_all (operationsDir m (on_instance x)) 488 (ho_world h) = (Inr (), w1)" and
    up: "updateOperation ?st (on_instance x) (on_id x) (operation_to_json x) w1 = (Inr (), w2)" and
    pr: "forE (\<lambda>p. replaceContents p (Json (operation_to_json x)))
       [operation_path m (on_instance x) (on_id x), currentPath m (on_instance x)] w2 = (Inr (), ho_world h')" by blast
  have s1: "settled ?st (ho_world h) w1" using keepsD[OF settled_own[OF m own_mkdir] mk] .
  have "present ?st rq w2"
    by (rule updateOperation_present[OF standard_store(2)[OF m] up]) (use s1 p t in \<open>simp_all add: settled_present settled_texts\<close>)
  moreover have "settled ?st w2 (ho_world h')"
    using keepsD[OF settled_own[OF m own_projections[OF updateOperation_op_id[OF up]]] pr] .
  ultimately show ?thesis by (simp add: settled_present)
qed

lemma checkE_Inr:
  "checkE m g f w = (Inr y, w') \<longleftrightarrow> (\<exists>e w1. m w = (Inl e, w1) \<and> g e w1 = (Inr y, w')) \<or>
     (\<exists>x w1. m w = (Inr x, w1) \<and> f x w1 = (Inr y, w'))"
  by (auto simp: checkE_def split: prod.splits sum.splits)

lemma startAccepted_Inr:
  assumes "startAccepted m inst kind pid job check accept h = (Inr x, h')"
  shows "instance_id_ok inst \<and> active_id h inst = [] \<and> (\<exists>h1 v h2. acquireLock m inst h = (Inr (), h1) \<and>
    accept_operation m inst kind pid check accept h1 = (Inr (x, v), h2) \<and>
    h' = h2\<lparr>ho_active := (inst, on_id x) # filter (\<lambda>(i, _). i \<noteq> inst) (ho_active h2),
            ho_jobs := ho_jobs h2 @ [(inst, x, job v)]\<rparr>)"
proof -
  from assms have c: "instance_id_ok inst" "active_id h inst = []"
    by (auto simp: startAccepted_def split: if_splits)
  with assms obtain h1 y v h2 where "acquireLock m inst h = (Inr (), h1)"
    "accept_operation m inst kind pid check accept h1 = (Inr (y, v), h2)"
    "bindE (spawn inst y (job v)) (\<lambda>_. retE y) h2 = (Inr x, h')"
    by (auto simp: startAccepted_def bindE_Inr[of "acquireLock m inst"] checkE_Inr bindE_Inr[of "ignoreE (releaseLock m inst)"])
  with c show ?thesis by (auto simp: bindE_Inr spawn_def)
qed

lemma started_present:
  assumes m: "standard m" and q: "quiet_planner m inst"
    and run: "startAccepted m inst kind pid job (validate_submission m inst rq) (Some (accept_submission m inst rq counter)) h
      = (Inr x, h')"
    and p: "parents_exist (coordinationStore m) (ho_world h)" and t: "texts_not_empty (ho_world h)"
  shows "present (coordinationStore m) (sr_request rq) (ho_world h')"
proof -
  let ?st = "coordinationStore m"
  from run obtain h1 v h2 where lock: "acquireLock m inst h = (Inr (), h1)"
    and acc: "accept_operation m inst kind pid (validate_submission m inst rq)
       (Some (accept_submission m inst rq counter)) h1 = (Inr (x, v), h2)" and w': "ho_world h' = ho_world h2"
    by (auto dest!: startAccepted_Inr)
  from acc obtain a1 a2 a3 v where
    1: "onW (repairAdmissions m inst) h1 = (Inr (), a1)" and 2: "check_current m inst kind a1 = (Inr (), a2)" and
    3: "validate_submission m inst rq a2 = (Inr v, a3)" and
    rest: "bindE (newID m) (\<lambda>op. bindE (now m) (\<lambda>t.
     bindE (modifyOp (\<lambda>_. queued_operation op inst kind pid t)) (\<lambda>_.
     bindE (accept_submission m inst rq counter v) (\<lambda>_.
     bindE (saveOperation m) (\<lambda>_. bindE getOp (\<lambda>x. retE (x, v))))))) a3 = (Inr (x, v), h2)"
    by (auto simp: accept_operation_def bindE_Inr)
  from rest obtain op a4 a6 where
    4: "newID m a3 = (Inr op, a4)" and
    5: "accept_submission m inst rq counter v (a4\<lparr>ho_op := queued_operation op inst kind pid (mg_now m a4)\<rparr>) = (Inr (), a6)"
    and 6: "saveOperation m a6 = (Inr (), h2)"
    by (auto simp: bindE_Inr now_def modifyOp_def getOp_def)
  have "settled ?st (ho_world h) (ho_world a4)"
    using keepsD[OF settled_acquireLock[OF m] lock] keepsD[OF settling.keeps_onW[OF settled_repairAdmissions[OF m]] 1]
      keepsD[OF files_settled[OF reads_check_current] 2] keepsD[OF settled_validate[OF q] 3]
      keepsD[OF files_settled[OF reads_newID] 4]
    unfolding files_def by (metis settling.trans)
  then have pe: "parents_exist ?st (ho_world a4)" and te: "texts_not_empty (ho_world a4)"
    using p t by (simp_all add: settled_parents settled_texts)
  from accept_submission_Inr[OF 5 validate_Inr[OF 3]] obtain y s where
    r: "admission_in_range (submitted_admission m inst rq counter (fst v) y s)" and
    sa: "storeAccept ?st (submitted_admission m inst rq counter (fst v) y s) (ho_world a4) = (Inr (), ho_world a6)" by auto
  have "present ?st (sr_request rq) (ho_world a6)"
    using storeAccept_present[OF sa standard_store(2)[OF m] pe te r] by (simp add: submitted_admission_def)
  moreover have "texts_not_empty (ho_world a6)"
  proof -
    from storeAccept_cases[OF sa standard_store(2)[OF m] pe] have "same_env (ho_world a4) (ho_world a6)"
      by (auto simp: write_post_def put_post_def touches_def same_files_def intro: same_env_trans)
    with te show ?thesis by (simp add: texts_env)
  qed
  ultimately show ?thesis using saveOperation_present[OF m 6] w' by simp
qed

section \<open>The callback and the authorization around it\<close>

lemma callback_Inr:
  assumes m: "standard m" and q: "quiet_planner m ''primary''"
    and run: "submit_callback m ''primary'' rq counter h = (Inr (), h')"
    and new: "admission_at (coordinationStore m) (ho_world h) (sr_request rq) = None"
    and p: "parents_exist (coordinationStore m) (ho_world h)" and t: "texts_not_empty (ho_world h)"
  shows "\<exists>a b. admission_at (coordinationStore m) (ho_world h') (sr_request rq) = Some a \<and>
    submitted_as m rq counter a \<and> ho_receipt h' = admission_receipt a b"
proof -
  let ?st = "coordinationStore m"
  let ?start = "startAccepted m ''primary'' (action_kind (sr_action rq)) [] (submitted_job rq)
       (validate_submission m ''primary'' rq) (Some (accept_submission m ''primary'' rq counter))"
  obtain r h1 where st: "?start h = (r, h1)" by fastforce
  have "bindE (lookup_request m ''primary'' rq) (\<lambda>found.
      if found then retE () else liftE (case r of Inl e \<Rightarrow> Inl e | Inr _ \<Rightarrow> Inr ())) h1 = (Inr (), h')"
    using run by (simp add: submit_callback_def bindE_tryE[of ?start, OF st])
  from this[THEN bindE_Inr[THEN iffD1]] obtain found h2 where l2: "lookup_request m ''primary'' rq h1 = (Inr found, h2)"
    and f2: "(if found then retE () else liftE (case r of Inl e \<Rightarrow> Inl e | Inr _ \<Rightarrow> Inr ())) h2 = (Inr (), h')" by blast
  then have l: "lookup_request m ''primary'' rq h1 = (Inr found, h')" and f: "found \<or> (\<exists>x. r = Inr x)"
    by (auto split: if_splits sum.splits)
  have "files (holds (admitted_as ?st (sr_request rq) (submitted_as m rq counter))) h h1"
    using keepsD[OF holds_submission[OF m q] st] .
  then have sub: "submitted_as m rq counter a" if "admission_at ?st (ho_world h1) (sr_request rq) = Some a" for a
    using new that by (simp add: files_def holds_def admitted_as_def)
  have same: "same_files (ho_world h1) (ho_world h')" using keepsD[OF files_lookup l] by (simp add: files_def)
  have "found"
  proof (rule ccontr)
    assume n: "\<not> found"
    with f st started_present[OF m q _ p t] have "present ?st (sr_request rq) (ho_world h1)" by blast
    with lookup_false[of m "''primary''" rq h1 h'] l n show False by (simp add: present_def)
  qed
  with l lookup_true[of m "''primary''" rq h1 h'] obtain a b where
    "admission_at ?st (ho_world h1) (sr_request rq) = Some a" "ho_receipt h' = admission_receipt a b" by auto
  with sub same show ?thesis by (auto simp: views_same)
qed

lemma locked_run:
  assumes "host_under_lock p M h = (Inr (), h')"
  shows "\<exists>w1 h2. touches (\<lambda>q. q = p) (ho_world h) w1 \<and> M (h\<lparr>ho_world := w1\<rparr>) = (Inr (), h2) \<and>
    files same_files h2 h' \<and> world_only h2 h'"
proof -
  let ?f = "wrapE (Wrap ''lock mutation authorization'') (flock p)"
  from assms[unfolded host_under_lock_def, THEN bindE_Inr[THEN iffD1]] obtain u h1 where
    o1: "onW (openPrivateLock p) h = (Inr u, h1)" and
    d: "deferE (bindE (onW ?f) (\<lambda>_. deferE M (onW (funlock p)))) (onW (close_file p)) h1 = (Inr (), h')" by blast
  from d obtain h4 where b: "bindE (onW ?f) (\<lambda>_. deferE M (onW (funlock p))) h1 = (Inr (), h4)"
    and h4: "h' = snd (onW (close_file p) h4)" by (auto simp: deferE_eq)
  from b[THEN bindE_Inr[THEN iffD1]] obtain v h2 where f1: "onW ?f h1 = (Inr v, h2)" and
    m1: "deferE M (onW (funlock p)) h2 = (Inr (), h4)" by blast
  from m1 obtain h3 where M1: "M h2 = (Inr (), h3)" and h3: "h4 = snd (onW (funlock p) h3)" by (auto simp: deferE_eq)
  from o1 obtain w1 where o: "openPrivateLock p (ho_world h) = (Inr u, w1)" and h1: "h1 = h\<lparr>ho_world := w1\<rparr>"
    by (auto simp: onW_Inr)
  from f1 h1 obtain w2 where f: "?f w1 = (Inr v, w2)" and h2: "h2 = h\<lparr>ho_world := w2\<rparr>" by (auto simp: onW_Inr)
  have M: "M (h\<lparr>ho_world := w2\<rparr>) = (Inr (), h3)" using M1 h2 by simp
  have h': "h' = snd (onW (close_file p) (snd (onW (funlock p) h3)))" using h3 h4 by simp
  have t1: "touches (\<lambda>q. q = p) (ho_world h) w1" using keepsD[OF touches_openPrivateLock o] by simp
  have t2: "touches (\<lambda>q. q = p) w1 w2"
    using keepsD[OF reads.keeps_wrapE[OF reads_flock] f] by (rule same_files_touches)
  have run1: "keeps R (onW (funlock p)) \<Longrightarrow> R h3 (snd (onW (funlock p) h3))" for R by (simp add: keeps_def)
  have run2: "keeps R (onW (close_file p)) \<Longrightarrow> R (snd (onW (funlock p) h3)) h'" for R
    by (simp add: keeps_def h')
  note same = reading.host.trans[OF run1[OF reading.keeps_onW[OF reads_funlock]] run2[OF reading.keeps_onW[OF reads_close_file]]]
  note only = worlds.trans[OF run1[OF world_onW] run2[OF world_onW]]
  from writes.trans[OF t1 t2] M same only show ?thesis by blast
qed

text \<open>The files authorization writes after an admission.\<close>

lemma settled_auth:
  assumes "coordination_store sv = coordinationStore m" and "standard m"
    and "target ''.mutation-state-'' p" and "butlast p = instance_path sv inst"
  shows "keeps (settled (coordinationStore m)) (replacePrivateFile p t)"
proof -
  have dir: "service_dir sv = manager_dir m"
  proof -
    have "state_dir (coordination_store sv) = manager_dir m"
      using assms(1) standard_store(1)[OF assms(2)] by simp
    then show ?thesis
      by (simp add: state_dir_def coordination_store_def service_dir_def default_state_dir_def split: option.splits)
  qed
  obtain n where p: "p = instance_path sv inst @ [n]"
    using assms(3,4) append_butlast_last_id[of p] unfolding target_def by metis
  have "own m q" if "q = p \<or> temp_in (butlast p) ''.mutation-state-'' q" for q
    using that p assms(4) by (auto simp: temp_in_def instance_path_def dir)
  then have "touches (own m) w w'" if "touches (\<lambda>q. q = p \<or> temp_in (butlast p) ''.mutation-state-'' q) w w'" for w w'
    using touches_mono[OF that] by blast
  with replace_touches[OF assms(3) refl] have "keeps (touches (own m)) (replacePrivateFile p t)"
    by (rule keeps_mono)
  then show ?thesis by (rule settled_own[OF assms(2)])
qed

text \<open>The steps of a successful authorization on the host.\<close>

lemma host_section_Inr:
  assumes "host_locked_section sv inst d s otp (Some ex) cb True h = (Inr (), h')"
  shows "(\<exists>h1. ex h = (Inr True, h1) \<and> h' = h1) \<or>
    (\<exists>h1 a w1 w2 c h2. ex h = (Inr False, h1) \<and> match_attempt sv inst d s otp (ho_world h1) = (Inr a, w1) \<and>
       0 \<le> am_matched a \<and> am_last a < am_matched a \<and>
       remainingGlobalAttemptState d s w1 = (Inr c, w2) \<and>
       cb (am_matched a) (h1\<lparr>ho_world := w2\<rparr>) = (Inr (), h2) \<and>
       onW (bindE (ignoreE (replacePrivateFile (counter_path d s) (counter_text (am_matched a)))) (\<lambda>_.
           bindE (ignoreE (writeAttemptState (attempts_path d s) no_attempts)) (\<lambda>_.
           ignoreE (writeAttemptState (global_attempts_path d) c)))) h2 = (Inr (), h'))"
proof -
  from assms[unfolded host_locked_section_def option.case, THEN bindE_Inr[THEN iffD1]] obtain found h1 where
    ex: "ex h = (Inr found, h1)" and
    rest: "(if found then retE () else if \<not> code_ok otp then failE (Sentinel ErrInvalid)
       else host_check_code sv inst d s otp cb True) h1 = (Inr (), h')" by blast
  show ?thesis
  proof (cases found)
    case True
    with ex rest show ?thesis by simp
  next
    case False
    with rest have "host_check_code sv inst d s otp cb True h1 = (Inr (), h')" by (simp split: if_splits)
    from this[unfolded host_check_code_def, THEN bindE_Inr[THEN iffD1]] obtain a h2 where
      ma: "onW (match_attempt sv inst d s otp) h1 = (Inr a, h2)" and
      r2: "(if am_matched a < 0 then
       onW (recordInvalidAttempt (global_attempts_path d) (am_global a) (attempts_path d s) (am_scoped a) (am_now a))
     else if am_matched a \<le> am_last a then failE (Sentinel ErrReplay)
     else bindE (onW (wrapE (Wrap ''calculate mutation authorization attempts'')
            (remainingGlobalAttemptState d s))) (\<lambda>cleared.
          host_accept_code d s (am_matched a) (am_last a) cleared cb True)) h2 = (Inr (), h')" by blast
    have m: "0 \<le> am_matched a" "am_last a < am_matched a"
      using r2 by (auto simp: onW_Inr dest: recordInvalid_fails split: if_splits)
    with r2 obtain c h3 where re: "onW (wrapE (Wrap ''calculate mutation authorization attempts'')
            (remainingGlobalAttemptState d s)) h2 = (Inr c, h3)" and
      ac: "host_accept_code d s (am_matched a) (am_last a) c cb True h3 = (Inr (), h')"
      by (auto simp: bindE_Inr)
    from ma obtain w1 where w1: "match_attempt sv inst d s otp (ho_world h1) = (Inr a, w1)" "h2 = h1\<lparr>ho_world := w1\<rparr>"
      by (auto simp: onW_Inr)
    with re obtain w2 where w2: "remainingGlobalAttemptState d s w1 = (Inr c, w2)" "h3 = h1\<lparr>ho_world := w2\<rparr>"
      by (auto simp: onW_Inr)
    from ac[unfolded host_accept_code_def if_True, THEN bindE_Inr[THEN iffD1]] obtain u h4 where
      "cb (am_matched a) h3 = (Inr u, h4)" and
      "onW (bindE (ignoreE (replacePrivateFile (counter_path d s) (counter_text (am_matched a)))) (\<lambda>_.
           bindE (ignoreE (writeAttemptState (attempts_path d s) no_attempts)) (\<lambda>_.
           ignoreE (writeAttemptState (global_attempts_path d) c)))) h4 = (Inr (), h')" by blast
    with ex False w1 w2 m show ?thesis by auto
  qed
qed

lemma scope_of_wire: "scope action \<noteq> [] \<Longrightarrow> validScope (scope_of_name (scope action)) \<and>
    scope_name (scope_of_name (scope action)) = scope action"
  by (auto simp: scope_def scope_of_name_def validScope_def split: if_splits)

lemma storeCounter_bounds:
  assumes "storeCounter st ''primary'' sc w = (Inr c, w')" and "parents_exist st w"
    and "admission_at st w rq = Some a" and "ad_scope a = sc"
  shows "ad_counter a \<le> c"
proof -
  from assms(1) obtain rs where rs: "storeAdmissions st ''primary'' w = (Inr rs, w')" and c: "c = last_counter sc rs"
    by (auto simp: storeCounter_def bindE_Inr)
  from storeAdmissions_yields[OF rs assms(2)] assms(3) have "a \<in> set rs" by (auto simp: authority_def)
  with c assms(4) last_counter_max show ?thesis by blast
qed

lemma settled_lock:
  assumes "coordination_store sv = coordinationStore m" and "touches (\<lambda>q. q = lock_path (instance_path sv inst)) w w'"
  shows "settled (coordinationStore m) w w'"
proof -
  have "keeps (settled (coordinationStore m)) (\<lambda>x. (Inr (), if x = w then w' else x))"
  proof (rule settled_touches)
    show "keeps (touches (\<lambda>q. q = lock_path (instance_path sv inst))) (\<lambda>x. (Inr (), if x = w then w' else x))"
      using assms(2) by (simp add: keeps_def writes.refl)
    show "\<not> has_prefix (state_dir (coordinationStore m) @ [''coordination'']) p" if "p = lock_path (instance_path sv inst)" for p
    proof -
      have "state_dir (coordinationStore m) = service_dir sv"
        unfolding assms(1)[symmetric]
        by (simp add: state_dir_def coordination_store_def service_dir_def default_state_dir_def split: option.splits)
      with that show ?thesis by (auto simp: has_prefix_iff instance_path_def)
    qed
  qed
  then show ?thesis by (auto simp: keeps_def dest: spec[of _ w])
qed

lemma Submit_run:
  assumes run: "Submit m (Some au) ''primary'' rq otp h = (Inr x, h')"
    and new: "admission_at (coordinationStore m) (ho_world h) (sr_request rq) = None"
  shows "submit_valid rq \<and> (\<exists>h1. same_files (ho_world h) (ho_world h1) \<and> x = ho_receipt h' \<and>
    au ''primary'' (scope (sr_action rq)) otp (lookup_request m ''primary'' rq) (submit_callback m ''primary'' rq) h1 = (Inr (), h'))"
proof
  let ?l = "lookup_request m ''primary'' rq" and ?h0 = "h\<lparr>ho_receipt := zero_receipt\<rparr>"
  let ?au = "au ''primary'' (scope (sr_action rq)) otp ?l (submit_callback m ''primary'' rq)"
  from run show valid: "submit_valid rq" by (auto simp: Submit_def split: if_splits)
  have reset: "bindE (\<lambda>h. (Inr (), h\<lparr>ho_receipt := zero_receipt\<rparr>)) F h = F () ?h0" for F :: "unit \<Rightarrow> (_, receipt) act"
    by (simp add: bindE_def)
  have "bindE ?l (\<lambda>found. if found then getReceipt else bindE ?au (\<lambda>_. getReceipt)) ?h0 = (Inr x, h')"
    using run valid by (simp add: Submit_def reset cong: if_cong)
  from this[THEN bindE_Inr[THEN iffD1]] obtain found h1 where l1: "?l ?h0 = (Inr found, h1)" and
    rest: "(if found then getReceipt else bindE ?au (\<lambda>_. getReceipt)) h1 = (Inr x, h')" by blast
  have nf: "\<not> found" using lookup_true[of m "''primary''" rq ?h0 h1] l1 new by auto
  have s1: "same_files (ho_world h) (ho_world h1)" using keepsD[OF files_lookup l1] by (simp add: files_def)
  from rest nf have "bindE ?au (\<lambda>_. getReceipt) h1 = (Inr x, h')" by simp
  from this[THEN bindE_Inr[THEN iffD1]] obtain u h2 where "?au h1 = (Inr u, h2)" and
    gr: "getReceipt h2 = (Inr x, h')" by blast
  moreover have "h' = h2" "x = ho_receipt h2" using gr by (auto simp: getReceipt_def)
  ultimately show "\<exists>h1. same_files (ho_world h) (ho_world h1) \<and> x = ho_receipt h' \<and> ?au h1 = (Inr (), h')"
    using s1 by auto
qed

lemma admission_authorizer_Inr:
  assumes "admission_authorizer sv inst sc otp ex cb h = (Inr (), h')"
  shows "\<exists>w h2. touches (\<lambda>q. q = lock_path (instance_path sv inst)) (ho_world h) w \<and>
    host_locked_section sv inst (instance_path sv inst) (scope_of_name sc) otp (Some ex) cb True (h\<lparr>ho_world := w\<rparr>) = (Inr (), h2) \<and>
    files same_files h2 h' \<and> world_only h2 h'"
proof -
  let ?sec = "\<lambda>d. host_locked_section sv inst d (scope_of_name sc) otp (Some ex) cb True"
  from assms have "bindE (tryE (onW (instanceDir sv inst))) (\<lambda>dr. case dr of
            Inl e \<Rightarrow> failE (if err_is ErrNotExist e then Sentinel ErrUnconfigured else e)
          | Inr d \<Rightarrow> host_under_lock (lock_path d) (?sec d)) h = (Inr (), h')"
    by (simp add: admission_authorizer_def host_authorize_def split: if_splits)
  from this[THEN bindE_Inr[THEN iffD1]] obtain dr h3 where d3: "onW (instanceDir sv inst) h = (dr, h3)" and
    r3: "(case dr of Inl e \<Rightarrow> failE (if err_is ErrNotExist e then Sentinel ErrUnconfigured else e)
          | Inr d \<Rightarrow> host_under_lock (lock_path d) (?sec d)) h3 = (Inr (), h')" by auto
  from r3 obtain d where dr: "dr = Inr d" and ul: "host_under_lock (lock_path d) (?sec d) h3 = (Inr (), h')" by auto
  from d3[unfolded dr onW_Inr] obtain w3 where i3: "instanceDir sv inst (ho_world h) = (Inr d, w3)" and
    h3: "h3 = h\<lparr>ho_world := w3\<rparr>" by blast
  from instanceDir_yields[OF i3] have d: "d = instance_path sv inst" and s3: "same_files (ho_world h) w3" by simp_all
  from locked_run[OF ul] obtain w4 h5 where t4: "touches (\<lambda>q. q = lock_path d) (ho_world h3) w4" and
    sec: "?sec d (h3\<lparr>ho_world := w4\<rparr>) = (Inr (), h5)" and e5: "files same_files h5 h'" "world_only h5 h'" by blast
  have "touches (\<lambda>q. q = lock_path d) (ho_world h) w4"
    using writes.trans[OF same_files_touches[OF s3]] t4 by (simp add: h3)
  with sec e5 show ?thesis unfolding d h3 by auto
qed

lemma settled_projections:
  assumes "coordination_store sv = coordinationStore m" and "standard m" and "d = instance_path sv inst"
  shows "keeps (settled (coordinationStore m))
    (bindE (ignoreE (replacePrivateFile (counter_path d s) x)) (\<lambda>_.
     bindE (ignoreE (writeAttemptState (attempts_path d s) y)) (\<lambda>_.
     ignoreE (writeAttemptState (global_attempts_path d) z))))"
  unfolding writeAttemptState_def
  by (intro settling.keeps_bindE settling.keeps_ignoreE settled_auth[OF assms(1,2), where inst = inst])
     (simp_all add: assms(3))

lemma host_receipt: "world_only h h' \<Longrightarrow> ho_receipt h' = ho_receipt h"
  unfolding world_only_def by (metis host.ext_inject host.surjective host.update_convs(1))

text \<open>The counters of the admissions a matching attempt has seen.\<close>

lemma attempt_above:
  assumes "attempt_at sv ''primary'' d s otp w a" and "am_last a < am_matched a"
    and "parents_exist (coordination_store sv) w"
    and "admission_at (coordination_store sv) w rq = Some b" and "ad_scope b = scope_name s"
  shows "ad_counter b < am_matched a"
proof -
  from assms(1) obtain w1 w2 c where same: "same_files w w1" and c: "c \<le> am_last a"
    and sc: "storeCounter (coordination_store sv) ''primary'' (scope_name s) w1 = (Inr c, w2)"
    by (auto simp: attempt_at_def)
  have "parents_exist (coordination_store sv) w1"
    using settled_parents[OF settled_same[OF same] assms(3)] .
  moreover have "admission_at (coordination_store sv) w1 rq = Some b" using assms(4) same by (simp add: views_same)
  ultimately have "ad_counter b \<le> c" using storeCounter_bounds[OF sc _ _ assms(5)] by blast
  with c assms(2) show ?thesis by simp
qed


end
