(* ===== verification/OperationLaws.thy ===== *)
theory OperationLaws
  imports SubmitLaws
begin

text \<open>
  What the journal of operations and its recovery guarantee: a saved operation reads back as
  the bounded operation, with every decision the recovery takes unchanged; and an interrupted
  update or restore is only ever completed from a journal that holds the resume boundary.
\<close>

section \<open>ASCII texts survive bounding\<close>

definition ascii :: "string \<Rightarrow> bool" where
  "ascii s \<longleftrightarrow> list_all (\<lambda>c. code c < 128) s"

lemma ascii_Cons [simp]: "ascii (c # s) \<longleftrightarrow> code c < 128 \<and> ascii s"
  by (simp add: ascii_def)

lemma replacement_prefix: "\<not> has_prefix (c # p) (replacement @ t)" if "code c < 128"
  using that by (auto simp: has_prefix_def replacement_def code_def)

text \<open>An ASCII prefix is there before the repair exactly when it is there afterwards.\<close>

lemma repaired_prefix: "ascii p \<Longrightarrow> has_prefix p (to_valid_utf8 False s) = has_prefix p s"
proof (induction p arbitrary: s)
  case (Cons c p)
  show ?case
  proof (cases s)
    case Nil
    then show ?thesis by simp
  next
    case s: (Cons a s')
    show ?thesis
    proof (cases "rune_len (a # s')")
      case 0
      then have "\<not> code a < 128" by (auto split: if_splits)
      with 0 s Cons.prems replacement_prefix[of c p] show ?thesis
        by (auto simp: has_prefix_def simp del: rune_len.simps)
    next
      case (Suc n)
      show ?thesis
      proof (cases "code a < 128")
        case True
        with Suc have "n = 0" by simp
        with Suc s Cons show ?thesis by (simp add: has_prefix_def del: rune_len.simps)
      next
        case False
        with Suc s Cons.prems show ?thesis by (auto simp: has_prefix_def simp del: rune_len.simps)
      qed
    qed
  qed
qed (simp add: has_prefix_def)

lemma has_prefix_take: "has_prefix p s \<longleftrightarrow> take (length p) s = p"
  by (auto simp: has_prefix_def)

lemma bounded_prefix:
  assumes "ascii p" and "length p \<le> 4000"
  shows "has_prefix p (boundedOperationMessage m) = has_prefix p m"
proof -
  let ?v = "to_valid_utf8 False m"
  have "has_prefix p (boundedOperationMessage m) = has_prefix p ?v"
  proof (cases "length ?v \<le> maximumBytes")
    case False
    then have "prefix (boundedOperationMessage m) ?v" "length p \<le> length (boundedOperationMessage m)"
      using shrink_cut[OF valid_to_valid_utf8, of False m] assms(2)
      by (auto simp: boundedOperationMessage_def maximumBytes_def)
    then show ?thesis by (auto simp: has_prefix_take prefix_def)
  qed (simp add: boundedOperationMessage_def)
  with repaired_prefix[OF assms(1)] show ?thesis by simp
qed

lemma ascii_valid: "ascii s \<Longrightarrow> valid_utf8 s"
  by (induction s) auto

lemma bounded_ascii:
  assumes "ascii s" and "length s \<le> 4000"
  shows "boundedOperationMessage m = s \<longleftrightarrow> m = s"
proof
  assume "m = s"
  with assms show "boundedOperationMessage m = s"
    by (simp add: boundedOperationMessage_def to_valid_utf8_id ascii_valid maximumBytes_def)
next
  assume b: "boundedOperationMessage m = s"
  then have "has_prefix s m" using bounded_prefix[OF assms, of m] by (simp add: has_prefix_refl)
  then obtain t where m: "m = s @ t" by (auto simp: has_prefix_iff)
  have "to_valid_utf8 False m = s"
  proof (cases "length (to_valid_utf8 False m) \<le> maximumBytes")
    case True
    with b show ?thesis by (simp add: boundedOperationMessage_def)
  next
    case False
    with b shrink_cut[OF valid_to_valid_utf8, of False m] assms(2) show ?thesis
      by (auto simp: boundedOperationMessage_def maximumBytes_def)
  qed
  moreover have "to_valid_utf8 False (s @ t) = s @ to_valid_utf8 False t"
    using assms(1) by (induction s) simp_all
  moreover have "to_valid_utf8 False t = [] \<Longrightarrow> t = []"
    by (cases t) (auto simp: replacement_def simp del: rune_len.simps split: nat.splits)
  ultimately show "m = s" using m by auto
qed

section \<open>The saved operation\<close>

lemma boundary_ascii: "ascii ResumeBoundaryMessage \<and> length ResumeBoundaryMessage \<le> 4000"
  by code_simp

lemma legacy_ascii: "ascii legacyRestoreUncertain \<and> length legacyRestoreUncertain \<le> 4000"
  by code_simp

abbreviation bounded_stage :: "stage \<Rightarrow> stage" where
  "bounded_stage s \<equiv> s\<lparr>sg_message := boundedOperationMessage (sg_message s)\<rparr>"

lemma bounded_stage_evidence:
  "isDurableResumeBoundary (bounded_stage s) = isDurableResumeBoundary s"
  "is_legacy_hold (bounded_stage s) = is_legacy_hold s"
  using bounded_ascii[of ResumeBoundaryMessage] bounded_prefix[of legacyRestoreUncertain] boundary_ascii legacy_ascii
  by (simp_all add: isDurableResumeBoundary_def is_legacy_hold_def)

lemma update_evidence_map: "update_evidence (map bounded_stage ss) e = update_evidence ss e"
  by (induction ss e rule: update_evidence.induct) simp_all

lemma bound_operation_decisions:
  "hasDurableResumeBoundary (on_stages (bound_operation x)) = hasDurableResumeBoundary (on_stages x)"
  "hasLegacyRestoreHold (on_stages (bound_operation x)) = hasLegacyRestoreHold (on_stages x)"
  "reconciled_update_status (bound_operation x) = reconciled_update_status x"
  "updateRecoveryNeeded (bound_operation x) = updateRecoveryNeeded x"
proof -
  show "hasDurableResumeBoundary (on_stages (bound_operation x)) = hasDurableResumeBoundary (on_stages x)"
    using bounded_decisions(1)[of "on_stages x"]
    by (simp add: bound_operation_def hasDurableResumeBoundary_def list_ex_iff bounded_stage_evidence)
  show "hasLegacyRestoreHold (on_stages (bound_operation x)) = hasLegacyRestoreHold (on_stages x)"
    using bounded_decisions(2)[of "on_stages x"]
    by (simp add: bound_operation_def hasLegacyRestoreHold_def list_ex_iff bounded_stage_evidence)
  show "reconciled_update_status (bound_operation x) = reconciled_update_status x"
    by (simp add: reconciled_update_status_def bound_operation_def update_evidence_map bounded_decisions)
  show "updateRecoveryNeeded (bound_operation x) = updateRecoveryNeeded x"
    by (simp add: updateRecoveryNeeded_def bound_operation_def)
qed

lemma bounded_empty: "boundedOperationStages ss = [] \<longleftrightarrow> ss = []"
proof (cases ss rule: rev_cases)
  case (snoc ys y)
  have "boundedOperationStages (ys @ [y]) \<noteq> []"
    using final_marks_last[of ys y] by (auto simp: bounded_marks marked_snoc)
  with snoc show ?thesis by simp
qed (simp add: bounded_marks)

lemma bound_operation_recovery: "recoveryRequired (bound_operation x) = recoveryRequired x"
proof -
  have "sg_name (last (map bounded_stage (boundedOperationStages ss))) = sg_name (last ss) \<and>
      sg_status (last (map bounded_stage (boundedOperationStages ss))) = sg_status (last ss)" if "ss \<noteq> []" for ss
    using that bounded_last[of "butlast ss" "last ss"] bounded_empty[of ss] by (simp add: last_map)
  then show ?thesis by (simp add: recoveryRequired_def bound_operation_def bounded_empty)
qed

lemma bound_operation_fields [simp]:
  "on_instance (bound_operation x) = on_instance x" "on_id (bound_operation x) = on_id x"
  "operation_in_range (bound_operation x) = operation_in_range x"
  by (simp_all add: bound_operation_def operation_in_range_def)

lemma stored_replaced:
  assumes "standard m" and "op_id_ok op"
    and "forE (\<lambda>p. replaceContents p c) [operation_path m inst op, currentPath m inst] w = (Inr (), w')"
  shows "stored w' (operation_path m inst op) c 416 \<and> stored w' (currentPath m inst) c 416"
  using operations.put_all[OF _ assms(3)] op_id_target[OF assms(2)] current_target
  by (auto simp: operation_path_def)

lemma readOperation_stored:
  assumes "readOperation p inst op w = (Inr y, w')" and "stored w p (Json (operation_to_json x)) k"
    and "operation_in_range x"
  shows "y = x"
proof -
  from assms(1) obtain i w1 c w2 where l: "lstat p w = (Inr i, w1)" and r: "read_file p w1 = (Inr c, w2)"
    and d: "(case c of Json j \<Rightarrow> operation_decode True j | Text _ \<Rightarrow> None) = Some y"
    by (auto simp: readOperation_def bindE_Inr split: if_splits option.splits)
  from keepsD[OF reads_lstat l] have "look w1 p = look w p" by (simp add: same_files_look)
  with wp_run[OF read_file_outcome r] assms(2) have "c = Json (operation_to_json x)"
    by (auto simp: stored_def good_file_def)
  with d operation_roundtrip[OF assms(3)] show ?thesis by simp
qed


end
