(* ===== verification/Runners.thy ===== *)
theory Runners
  imports OperationLaws
begin

text \<open>
  What the runners of the operation manager do to the operation they work on and to the process:
  the update engine and every runner keep any relation that their deployment calls, their file
  calls and their updates of the operation keep; they never fail; and a goroutine ends with a
  terminal operation.
\<close>

section \<open>Deployments that keep a relation\<close>

definition deployment_keeps :: "('w \<Rightarrow> 'w \<Rightarrow> bool) \<Rightarrow> 'w deployment \<Rightarrow> bool" where
  "deployment_keeps R d \<longleftrightarrow>
     (\<forall>i. keeps R (dp_resolve d i)) \<and> (\<forall>i t. keeps R (dp_preflight d i t)) \<and> (\<forall>i t. keeps R (dp_pull d i t)) \<and>
     (\<forall>i. keeps R (dp_quiesce d i)) \<and> (\<forall>i l. keeps R (dp_point d i l)) \<and> (\<forall>i t. keeps R (dp_migrate d i t)) \<and>
     (\<forall>i t. keeps R (dp_activate d i t)) \<and> (\<forall>i q. keeps R (dp_rollback d i q)) \<and> (\<forall>i. keeps R (dp_resume d i)) \<and>
     (\<forall>i. keeps R (dp_verify d i)) \<and> (\<forall>f i q. dp_freeze d = Some f \<longrightarrow> keeps R (f i q)) \<and>
     (\<forall>f i p. dp_quiesce_recovery d = Some f \<longrightarrow> keeps R (f i p)) \<and>
     (\<forall>f i t opt ob. dp_planned d = Some f \<longrightarrow> (\<forall>g. ob = Some g \<longrightarrow> (\<forall>s. keeps R (g s))) \<longrightarrow>
        keeps R (liftR (f i t opt ob)))"

definition engine_keeps :: "('w \<Rightarrow> 'w \<Rightarrow> bool) \<Rightarrow> 'w engine \<Rightarrow> bool" where
  "engine_keeps R en \<longleftrightarrow> (\<forall>d. en_deployment en = Some d \<longrightarrow> deployment_keeps R d) \<and> keeps R (liftR (en_now en))"

context frame
begin

lemma keeps_emit:
  assumes "engine_keeps R en" and "\<And>g s. obs = Some g \<Longrightarrow> keeps R (g s)"
  shows "keeps R (emit en obs name status message)"
proof (cases obs)
  case None
  then show ?thesis by (simp add: keeps_def emit_def refl)
next
  case (Some ob)
  have "R w (snd (en_now en w))" for w
    using assms(1) by (simp add: engine_keeps_def keeps_def liftR_def case_prod_unfold)
  moreover have "R w (snd (ob s w))" for s w using assms(2)[OF Some] by (simp add: keeps_def)
  ultimately show ?thesis
    using Some by (auto simp: keeps_def emit_def Let_def case_prod_unfold intro: trans)
qed

lemma keeps_fail:
  assumes "\<And>a b c. keeps R (em a b c)"
  shows "keeps R (run_fail em stg e)" "keeps R (persistence_failure em stg e)"
  unfolding persistence_failure_def run_fail_def by (intro keeps_intros assms)+

lemma deployment_fields:
  assumes "deployment_keeps R d"
  shows "keeps R (dp_resolve d i)" "keeps R (dp_preflight d i t)" "keeps R (dp_pull d i t)" "keeps R (dp_quiesce d i)"
    "keeps R (dp_point d i l)" "keeps R (dp_migrate d i t)" "keeps R (dp_activate d i t)" "keeps R (dp_rollback d i q)"
    "keeps R (dp_resume d i)" "keeps R (dp_verify d i)" "keeps R (freeze_point d i q)" "keeps R (recovery_quiesce d i p)"
  using assms by (auto simp: deployment_keeps_def freeze_point_def recovery_quiesce_def keeps_retE split: option.splits)

lemma deployment_planned:
  "deployment_keeps R d \<Longrightarrow> dp_planned d = Some f \<Longrightarrow> (\<And>g s. ob = Some g \<Longrightarrow> keeps R (g s)) \<Longrightarrow>
     keeps R (liftR (f i t opt ob))"
  by (simp add: deployment_keeps_def)

lemma keeps_resume:
  assumes "deployment_keeps R d" and "\<And>a b c. keeps R (em a b c)"
  shows "keeps R (engine_resume d i em)" "keeps R (resumeAndVerify d i em)"
    "keeps R (resumeAfterPersistenceFailure d i t stg e em)"
  unfolding engine_resume_def resumeAndVerify_def resumeAfterPersistenceFailure_def Let_def
  by (intro keeps_intros assms(2) deployment_fields[OF assms(1)])+

lemma keeps_engine_rollback:
  assumes "deployment_keeps R d" and "\<And>a b c. keeps R (em a b c)"
  shows "keeps R (engine_rollback d i pid tx t cause em)"
  unfolding engine_rollback_def Let_def
  by (intro keeps_intros assms(2) deployment_fields[OF assms(1)] keeps_resume[OF assms])

lemma keeps_opening_steps:
  assumes "\<And>a b c. keeps R (em a b c)" and "list_all (keeps R \<circ> snd) steps" and "keeps R k"
  shows "keeps R (opening_steps em steps k)"
  using assms(2) by (induction steps) (auto intro!: keeps_checkE keeps_fail assms(1,3))

lemma keeps_protected_steps:
  assumes "deployment_keeps R d" and "\<And>a b c. keeps R (em a b c)" and "list_all (keeps R \<circ> snd) steps"
    and "keeps R k"
  shows "keeps R (protected_steps d i pid tx t em steps k)"
proof -
  have pf: "keeps R (protected_failure d i pid tx t em name e cause)" for name e cause
    unfolding protected_failure_def by (intro keeps_intros keeps_engine_rollback assms(1,2))
  show ?thesis
    using assms(3) by (induction steps) (auto simp: Let_def intro!: keeps_checkE keeps_bindE keeps_tryE pf assms(2,4))
qed

lemma keeps_RunWithOptions:
  assumes en: "engine_keeps R en" and ob: "\<And>g s. obs = Some g \<Longrightarrow> keeps R (g s)"
  shows "keeps R (RunWithOptions en i opt obs)"
proof (cases "en_deployment en")
  case None
  then show ?thesis by (simp add: RunWithOptions_def keeps_retE)
next
  case (Some d)
  with en have d: "deployment_keeps R d" by (simp add: engine_keeps_def)
  have em: "keeps R (emit en obs a b c)" for a b c by (intro keeps_emit en) (rule ob)
  have prot: "keeps R (run_protected d i opt t pid (emit en obs))" for t pid
    unfolding run_protected_def
    by (intro keeps_checkE keeps_retE keeps_protected_steps em d deployment_fields[OF d])
       (simp add: deployment_fields[OF d])
  have stopped: "keeps R (run_stopped d i opt t (emit en obs))" for t
    unfolding run_stopped_def
    by (intro keeps_checkE keeps_retE keeps_fail em keeps_resume[OF d] deployment_fields[OF d]
        keeps_engine_rollback[OF d] prot)
  have planned: "keeps R (liftR (f i t opt obs))" if "dp_planned d = Some f" for f t
    by (rule deployment_planned[OF d that]) (rule ob)
  have resolve: "keeps R (resolve_target d i opt)"
    unfolding resolve_target_def by (intro keeps_intros deployment_fields[OF d])
  have plan: "keeps R (case dp_planned d of Some f \<Rightarrow> liftR (f i t opt obs)
      | None \<Rightarrow> run_fail (emit en obs) ''preflight'' e)" for t e
    by (cases "dp_planned d") (simp_all add: planned keeps_fail[OF em])
  have first: "keeps R (opening_steps (emit en obs) [(''preflight'', dp_preflight d i t), (''pull'', dp_pull d i t)]
      (run_stopped d i opt t (emit en obs)))" for t
    by (rule keeps_opening_steps[OF em _ stopped]) (simp add: deployment_fields[OF d])
  have "keeps R (run_deployment en d i opt obs)"
    unfolding run_deployment_def Let_def
    by (intro keeps_checkE keeps_if em keeps_fail resolve plan first)
  with Some show ?thesis by (simp add: RunWithOptions_def)
qed

end

section \<open>Runners keep what file calls keep\<close>

definition services_keep :: "('d host \<Rightarrow> 'd host \<Rightarrow> bool) \<Rightarrow> 'd manager \<Rightarrow> bool" where
  "services_keep R m \<longleftrightarrow> engine_keeps R (mg_engine m) \<and>
     (\<forall>d. mg_deployment m = Some d \<longrightarrow> deployment_keeps R (mp_base d) \<and>
        (\<forall>i p. keeps R (mp_quiesce_recovery d i p)) \<and> (\<forall>i p. keeps R (mp_validate_point d i p)) \<and>
        (\<forall>i. keeps R (mp_list_points d i)) \<and>
        (\<forall>f i a p. mp_snapshot d = Some f \<longrightarrow> keeps R (f i a p)) \<and>
        (\<forall>f i. mp_preview d = Some f \<longrightarrow> keeps R (f i)) \<and>
        (\<forall>f i x. mp_reconcile d = Some f \<longrightarrow> keeps R (liftR (f i x))) \<and>
        (\<forall>f i x ob. mp_switch_back d = Some f \<longrightarrow> (\<forall>s. keeps R (ob s)) \<longrightarrow> keeps R (liftR (f i x ob))))"

text \<open>What a runner may do to the operation it works on: its identity stays, and its status only
  changes to a terminal one.\<close>

definition terminal :: "string \<Rightarrow> bool" where
  "terminal st \<longleftrightarrow> st \<in> {StatusSucceeded, StatusFailed, StatusRolledBack, StatusRecoveryRequired}"

definition same_start :: "operation \<Rightarrow> operation \<Rightarrow> bool" where
  "same_start x y \<longleftrightarrow> on_schema y = on_schema x \<and> on_id y = on_id x \<and> on_instance y = on_instance x \<and>
     on_kind y = on_kind x \<and> on_started y = on_started x"

definition progress :: "operation \<Rightarrow> operation \<Rightarrow> bool" where
  "progress x y \<longleftrightarrow> same_start x y \<and> (on_status y = on_status x \<or> terminal (on_status y))"

lemma progress_fields [simp]:
  "progress x (bound_operation x)" "progress x (x\<lparr>on_current := c, on_stages := ss\<rparr>)" "progress x (fail_operation e x)"
  "progress x (on_point_update g x)" "progress x (x\<lparr>on_error := e, on_status := StatusRecoveryRequired\<rparr>)"
  "progress x (switch_back_result r x)" "progress x (update_result r x)" "progress x (on_completed_update k x)"
  "terminal st \<Longrightarrow> progress x (on_status_update (\<lambda>_. st) x)"
  by (simp_all add: progress_def same_start_def terminal_def bound_operation_def fail_operation_def switch_back_result_def
      update_result_def Let_def)

lemma terminal_status [simp]: "terminal StatusSucceeded" "terminal StatusFailed" "terminal StatusRolledBack"
  "terminal StatusRecoveryRequired" "\<not> terminal StatusRunning" "\<not> terminal StatusQueued"
  by (simp_all add: terminal_def StatusSucceeded_def StatusFailed_def StatusRolledBack_def StatusRecoveryRequired_def
      StatusRunning_def StatusQueued_def)

text \<open>The goroutine once its copy of the operation is marked as running.\<close>

definition run_marked :: "'d manager \<Rightarrow> 'd runner \<Rightarrow> ('d host, unit) act" where
  "run_marked m run =
     checkE (saveOperation m) (\<lambda>_. retE ()) (\<lambda>_.
     bindE (run (saveOperation m)) (\<lambda>_.
     bindE (modifyOp (\<lambda>y. if on_status y = StatusRunning
              then fail_operation ''operation ended without a terminal result'' y else y)) (\<lambda>_.
     bindE (now m) (\<lambda>t.
     bindE (modifyOp (on_completed_update (\<lambda>_. Some t))) (\<lambda>_.
     ignoreE (saveOperation m))))))"

lemma run_operation_marked:
  "run_operation m x run = bindE (modifyOp (\<lambda>_. x\<lparr>on_status := StatusRunning\<rparr>)) (\<lambda>_. run_marked m run)"
  by (simp add: run_operation_def run_marked_def)

lemma terminal_if: "terminal st \<Longrightarrow> terminal st' \<Longrightarrow> terminal (if b then st else st')"
  by simp

lemma progress_if: "progress x y \<Longrightarrow> progress x (if b then y else x)"
  by (simp add: progress_def same_start_def)

text \<open>The contract under which runners are framed.\<close>

locale runner_frame = frame R for R :: "'d host \<Rightarrow> 'd host \<Rightarrow> bool" +
  assumes world: "R h (h\<lparr>ho_world := w\<rparr>)" and pointer: "progress (ho_op h) x \<Longrightarrow> R h (h\<lparr>ho_op := x\<rparr>)"
begin

lemma calls: "keeps R (onW a)" "keeps R (now m)" "keeps R getOp" "(\<And>x. progress x (f x)) \<Longrightarrow> keeps R (modifyOp f)"
  by (simp_all add: keeps_def onW_def now_def getOp_def modifyOp_def world pointer refl case_prod_unfold)

lemma keeps_saveOperation: "keeps R (saveOperation m)"
  unfolding saveOperation_def by (intro keeps_intros calls progress_fields)

lemma keeps_updateStage: "keeps R save \<Longrightarrow> keeps R (updateStage s save)"
  unfolding updateStage_def by (intro keeps_intros calls progress_fields)

lemma keeps_put_stage: "keeps R save \<Longrightarrow> keeps R (put_stage m save n st msg)"
  unfolding put_stage_def new_stage_def by (intro keeps_intros calls progress_fields keeps_updateStage)

lemma keeps_run_step: "keeps R save \<Longrightarrow> keeps R a \<Longrightarrow> keeps R (run_step m save n a)"
  unfolding run_step_def failPersistence_def Let_def by (intro keeps_intros calls progress_fields keeps_put_stage)

lemma keeps_set_status: "terminal st \<Longrightarrow> keeps R (set_status st)"
  unfolding set_status_def by (intro calls progress_fields)

lemma service_fields:
  assumes "services_keep R m" and "mg_deployment m = Some d"
  shows "deployment_keeps R (mp_base d)" "keeps R (mp_quiesce_recovery d i p)" "keeps R (mp_validate_point d i p)"
    "keeps R (mp_list_points d i)"
  using assms by (simp_all add: services_keep_def)

lemma service_switch_back:
  "services_keep R m \<Longrightarrow> mg_deployment m = Some d \<Longrightarrow> mp_switch_back d = Some f \<Longrightarrow> (\<And>s. keeps R (ob s)) \<Longrightarrow>
     keeps R (liftR (f i x ob))"
  by (simp add: services_keep_def)

lemma keeps_op_resume:
  assumes "deployment_keeps R (mp_base d)" and "keeps R save"
  shows "keeps R (op_resumeAndVerify m d save)"
  unfolding op_resumeAndVerify_def
  by (intro keeps_intros calls keeps_run_step assms(2) deployment_fields[OF assms(1)])

lemma keeps_resumeAfterFailure:
  "deployment_keeps R (mp_base d) \<Longrightarrow> keeps R (resumeAfterFailure m d)"
  unfolding resumeAfterFailure_def by (intro keeps_intros calls progress_fields keeps_op_resume keeps_saveOperation)

lemma keeps_runner:
  assumes sv: "services_keep R m" and save: "keeps R save"
  shows "keeps R (runner_of m i j save)"
proof -
  have dep: "keeps R (with_deployment m k)" if "\<And>d. mg_deployment m = Some d \<Longrightarrow> keeps R (k d)" for k
    using that by (auto simp: with_deployment_def intro!: calls progress_fields split: option.split)
  note step = keeps_run_step[OF save]
  have backup: "keeps R (backupRunner m i save)"
    unfolding backupRunner_def
    by (intro dep keeps_intros step keeps_set_status calls progress_fields terminal_status terminal_if keeps_resumeAfterFailure
        deployment_fields[OF service_fields(1)[OF sv]] service_fields(1)[OF sv])
  have rollback: "keeps R (rollbackRunner m i p save)" for p
    unfolding rollbackRunner_def
    by (intro dep keeps_intros step keeps_set_status calls progress_fields terminal_status terminal_if service_fields(2,3)[OF sv]
        deployment_fields[OF service_fields(1)[OF sv]])
  have verify: "keeps R (verifyRunner m i save)"
    unfolding verifyRunner_def
    by (intro dep keeps_intros step keeps_set_status terminal_status deployment_fields[OF service_fields(1)[OF sv]])
  have obs: "keeps R (update_observer save s)" for s
    unfolding update_observer_def by (intro keeps_intros calls progress_fields keeps_updateStage save)
  have "keeps R (RunWithOptions (mg_engine m) i opt (Some (update_observer save)))" for opt
    by (rule keeps_RunWithOptions) (use sv obs in \<open>auto simp: services_keep_def\<close>)
  then have update: "keeps R (updateRunner m i opt save)" for opt
    unfolding updateRunner_def by (intro keeps_intros calls progress_fields)
  have "keeps R (liftR (f i x (\<lambda>s. updateStage s save)))"
    if "mg_deployment m = Some d" "mp_switch_back d = Some f" for d f x
    by (rule service_switch_back[OF sv that]) (rule keeps_updateStage[OF save])
  then have switch: "keeps R (switchBackRunner m i save)"
    unfolding switchBackRunner_def
    by (auto simp: bind_eq_Some_conv intro!: keeps_bindE calls progress_fields split: option.split)
  show ?thesis
    unfolding runner_of_def
    by (auto intro!: update backup rollback verify switch keeps_bindE calls progress_fields split: job.split)
qed

lemma keeps_run_marked: "services_keep R m \<Longrightarrow> keeps R (run_marked m (runner_of m i j))"
  unfolding run_marked_def
  by (intro keeps_intros calls progress_fields progress_if keeps_saveOperation keeps_runner)

end

section \<open>Runners never fail\<close>

text \<open>In the code runners return nothing: every error ends up in the operation.\<close>

definition never_fails :: "('w, 'a) act \<Rightarrow> bool" where
  "never_fails a \<longleftrightarrow> (\<forall>w. \<not> isl (fst (a w)))"

named_theorems total_intros \<open>composition of actions that never fail\<close>

lemma total_retE [total_intros]: "never_fails (retE x)"
  by (simp add: never_fails_def retE_def)

lemma total_tryE [total_intros]: "never_fails (tryE a)"
  by (simp add: never_fails_def tryE_def case_prod_unfold)

lemma total_ignoreE [total_intros]: "never_fails (ignoreE a)"
  by (simp add: never_fails_def ignoreE_def)

lemma total_bindE [total_intros]:
  assumes "never_fails a" and "\<And>x. never_fails (f x)"
  shows "never_fails (bindE a f)"
  using assms by (auto simp: never_fails_def bindE_def split: prod.splits sum.splits) (metis fst_conv sum.disc(1))+

lemma total_checkE [total_intros]:
  "(\<And>e. never_fails (g e)) \<Longrightarrow> (\<And>x. never_fails (f x)) \<Longrightarrow> never_fails (checkE a g f)"
  by (auto simp: never_fails_def checkE_def split: prod.splits sum.splits)

lemma total_if [total_intros]: "never_fails a \<Longrightarrow> never_fails b \<Longrightarrow> never_fails (if c then a else b)"
  by simp

lemma total_pointer [total_intros]:
  "never_fails getOp" "never_fails (modifyOp f)" "never_fails (now m)" "never_fails (liftR g)" "never_fails (set_status st)"
  by (simp_all add: never_fails_def getOp_def modifyOp_def now_def liftR_def set_status_def case_prod_unfold)

lemma total_run_fail [total_intros]: "never_fails (run_fail em stg e)" "never_fails (persistence_failure em stg e)"
  unfolding persistence_failure_def run_fail_def by (intro total_intros)+

lemma total_rollback [total_intros]: "never_fails (engine_rollback d i pid tx t cause em)"
  unfolding engine_rollback_def Let_def by (intro total_intros)

lemma total_opening: "never_fails k \<Longrightarrow> never_fails (opening_steps em steps k)"
  by (induction em steps k rule: opening_steps.induct) (auto intro!: total_intros)

lemma total_protected: "never_fails k \<Longrightarrow> never_fails (protected_steps d i pid tx t em steps k)"
  by (induction d i pid tx t em steps k rule: protected_steps.induct)
     (auto simp: protected_failure_def Let_def intro!: total_intros)

lemma total_run_protected [total_intros]: "never_fails (run_protected d i opt t pid em)"
  unfolding run_protected_def by (intro total_intros total_protected)

lemma total_run_stopped [total_intros]: "never_fails (run_stopped d i opt t em)"
  unfolding run_stopped_def resumeAfterPersistenceFailure_def Let_def by (intro total_intros)

lemma total_RunWithOptions [total_intros]: "never_fails (RunWithOptions en i opt obs)"
proof -
  have "never_fails (run_deployment en d i opt obs)" for d
  proof -
    have "never_fails (case dp_planned d of Some f \<Rightarrow> liftR (f i t opt obs)
      | None \<Rightarrow> run_fail (emit en obs) ''preflight'' e)" for t e
      by (cases "dp_planned d") (simp_all add: total_intros)
    then show ?thesis unfolding run_deployment_def Let_def by (intro total_intros total_opening)
  qed
  then show ?thesis by (cases "en_deployment en") (simp_all add: RunWithOptions_def total_intros)
qed

lemma total_run_step [total_intros]: "never_fails (run_step m save n a)"
  unfolding run_step_def failPersistence_def Let_def by (intro total_intros)

lemma total_resumeAfterFailure [total_intros]: "never_fails (resumeAfterFailure m d)"
  unfolding resumeAfterFailure_def by (intro total_intros)

lemma total_with_deployment: "(\<And>d. never_fails (k d)) \<Longrightarrow> never_fails (with_deployment m k)"
  by (auto simp: with_deployment_def total_intros split: option.split)

lemma total_runner: "never_fails (runner_of m i j save)"
proof -
  have "never_fails (updateRunner m i opt save)" for opt
    unfolding updateRunner_def by (intro total_intros)
  moreover have "never_fails (backupRunner m i save)"
    unfolding backupRunner_def by (intro total_with_deployment total_intros)
  moreover have "never_fails (rollbackRunner m i p save)" for p
    unfolding rollbackRunner_def by (intro total_with_deployment total_intros)
  moreover have "never_fails (verifyRunner m i save)"
    unfolding verifyRunner_def by (intro total_with_deployment total_intros)
  moreover have "never_fails (switchBackRunner m i save)"
    by (auto simp: switchBackRunner_def intro!: total_intros split: option.split)
  ultimately show ?thesis
    by (auto simp: runner_of_def intro!: total_intros split: job.split)
qed

lemma never_fails_Inr: "never_fails a \<Longrightarrow> a w = (r, w') \<Longrightarrow> \<exists>x. r = Inr x"
  by (cases r) (auto simp: never_fails_def dest: spec[of _ w])

section \<open>How a goroutine ends\<close>

definition tracked :: "'d host \<Rightarrow> 'd host \<Rightarrow> bool" where
  "tracked h h' \<longleftrightarrow> progress (ho_op h) (ho_op h')"

interpretation tracked: runner_frame tracked
  by unfold_locales (auto simp: tracked_def progress_def same_start_def)

definition same_pointer :: "'d host \<Rightarrow> 'd host \<Rightarrow> bool" where
  "same_pointer h h' \<longleftrightarrow> ho_op h' = ho_op h"

interpretation pointer: frame same_pointer
  by unfold_locales (auto simp: same_pointer_def)

lemma save_bounds: "ho_op (snd (saveOperation m h)) = bound_operation (ho_op h)"
proof -
  let ?rest = "bindE getOp (\<lambda>x. bindE (onW (mkdir_all (operationsDir m (on_instance x)) 488)) (\<lambda>_.
     bindE (onW (updateOperation (coordinationStore m) (on_instance x) (on_id x) (operation_to_json x))) (\<lambda>_.
     onW (forE (\<lambda>p. replaceContents p (Json (operation_to_json x)))
       [operation_path m (on_instance x) (on_id x), currentPath m (on_instance x)]))))"
  have w: "keeps same_pointer (onW a)" for a :: "'x io"
    by (simp add: keeps_def same_pointer_def onW_def case_prod_unfold)
  have "keeps same_pointer ?rest"
    by (intro pointer.keeps_bindE w) (simp_all add: keeps_def same_pointer_def getOp_def onW_def case_prod_unfold)
  from this[unfolded keeps_def, rule_format, of "h\<lparr>ho_op := bound_operation (ho_op h)\<rparr>"]
  show ?thesis by (simp add: saveOperation_def bindE_step[of "modifyOp _"] modifyOp_def same_pointer_def)
qed

lemma bound_same [simp]: "on_schema (bound_operation x) = on_schema x" "on_kind (bound_operation x) = on_kind x"
  "on_started (bound_operation x) = on_started x"
  "on_status (bound_operation x) = on_status x" "on_completed (bound_operation x) = on_completed x"
  "same_start y (bound_operation x) = same_start y x"
  by (simp_all add: bound_operation_def same_start_def)


end
