(* ===== verification/Exclusion.thy ===== *)
theory Exclusion
  imports Runners
begin

text \<open>
  One operation at a time. The calls of the manager and the goroutines it spawned are the steps
  of a relation on the host; the lock, the table of active operations and the pending
  goroutines stay consistent in every reachable state, so that no instance ever has two
  operations running and a call for a busy instance is refused without touching anything.

  \<^item> \<open>Manager.mu\<close> is held for the whole of \<open>startAccepted\<close>, so a start is one step. A goroutine is
    one step too: it works on its own copy of the operation and changes the variables of the
    process only in its deferred clean-up.
  \<^item> The deployment and the observer it is handed have no access to the manager's variables;
    this is the hypothesis \<open>services_keep\<close>.
\<close>

text \<open>The contract without any restriction on the operation.\<close>

locale host_frame = frame R for R :: "'d host \<Rightarrow> 'd host \<Rightarrow> bool" +
  assumes any_state: "R h (h\<lparr>ho_world := w, ho_op := x\<rparr>)"

sublocale host_frame \<subseteq> runner_frame
proof unfold_locales
  show "R h (h\<lparr>ho_world := w\<rparr>)" for h w using any_state[of h "ho_op h" w] by simp
  show "R h (h\<lparr>ho_op := x\<rparr>)" for h x using any_state[of h x "ho_world h"] by simp
qed

context host_frame
begin

lemma any_update: "keeps R (modifyOp f)"
  using any_state[of h x "ho_world h" for h x] by (simp add: keeps_def modifyOp_def)

lemma keeps_run_operation: "services_keep R m \<Longrightarrow> keeps R (run_operation m x (runner_of m i j))"
  unfolding run_operation_marked by (intro keeps_bindE any_update keeps_run_marked)

end

interpretation process: host_frame same_process
  by unfold_locales (simp_all add: same_process_def)

section \<open>What a start does to the process\<close>

definition same_identity :: "'d host \<Rightarrow> 'd host \<Rightarrow> bool" where
  "same_identity h h' \<longleftrightarrow> on_id (ho_op h') = on_id (ho_op h) \<and> on_instance (ho_op h') = on_instance (ho_op h)"

interpretation identity: frame same_identity
  by unfold_locales (auto simp: same_identity_def)

lemma identity_onW [keeps_intros]: "keeps same_identity (onW a)"
  by (simp add: keeps_def same_identity_def onW_def case_prod_unfold)

lemma identity_getOp [keeps_intros]: "keeps same_identity getOp"
  by (simp add: keeps_def same_identity_def getOp_def)

lemma identity_now [keeps_intros]: "keeps same_identity (now m)"
  by (simp add: keeps_def same_identity_def now_def)

lemma identity_save: "keeps same_identity (saveOperation m)"
proof -
  have "keeps same_identity (modifyOp bound_operation)"
    by (simp add: keeps_def same_identity_def modifyOp_def)
  then show ?thesis unfolding saveOperation_def by (intro keeps_intros)
qed

text \<open>The acceptance of a start leaves the process and the identity of the operation alone.\<close>

definition plain_accept :: "('v \<Rightarrow> ('d host, unit) act) option \<Rightarrow> bool" where
  "plain_accept accept \<longleftrightarrow> (\<forall>acc v. accept = Some acc \<longrightarrow> keeps same_process (acc v) \<and> keeps same_identity (acc v))"

lemma newID_Inr: "newID m h = (Inr op, h') \<Longrightarrow> op \<noteq> []"
  by (auto simp: newID_def bindE_Inr)

lemma process_check_current [keeps_intros]: "keeps same_process (check_current m inst kind)"
  unfolding check_current_def Current_def by (intro keeps_intros)

lemma process_newID [keeps_intros]: "keeps same_process (newID m)"
  unfolding newID_def by (intro keeps_intros)

text \<open>The acceptance step: the closure of \<open>Submit\<close>, or the legacy order.\<close>

abbreviation acceptance where
  "acceptance m inst op accept v \<equiv> (case accept of Some acc \<Rightarrow> acc v
     | None \<Rightarrow> bindE getOp (\<lambda>x. onW (beginLegacy (coordinationStore m) inst op (operation_to_json x))))"

lemma acceptance_frames:
  assumes "plain_accept accept"
  shows "keeps same_process (acceptance m inst op accept v)" "keeps same_identity (acceptance m inst op accept v)"
  using assms by (auto simp: plain_accept_def intro!: keeps_intros split: option.split)

lemma process_accept_operation:
  assumes "keeps same_process check" and "plain_accept accept"
  shows "keeps same_process (accept_operation m inst kind pid check accept)"
  unfolding accept_operation_def
  by (intro process.keeps_bindE process.calls(1-3) process.any_update process_check_current assms(1) process_newID acceptance_frames[OF assms(2)]
      process.keeps_saveOperation process.keeps_retE)

lemma accepted_identity:
  assumes "bindE (acceptance m inst op accept v0) (\<lambda>_. bindE (saveOperation m) (\<lambda>_. bindE getOp (\<lambda>x. retE (x, v0)))) h =
      (Inr (x, v), h')" and "plain_accept accept"
  shows "on_id x = on_id (ho_op h) \<and> on_instance x = on_instance (ho_op h)"
proof -
  from assms(1)[THEN bindE_Inr[THEN iffD1]] obtain u h2 where r1: "acceptance m inst op accept v0 h = (Inr u, h2)"
    and r2: "bindE (saveOperation m) (\<lambda>_. bindE getOp (\<lambda>x. retE (x, v0))) h2 = (Inr (x, v), h')" by blast
  from r2 obtain h3 where s: "saveOperation m h2 = (Inr (), h3)" and x: "x = ho_op h3"
    by (auto simp: bindE_Inr getOp_def)
  from keepsD[OF acceptance_frames(2)[OF assms(2)] r1] keepsD[OF identity_save s] x show ?thesis
    by (simp add: same_identity_def)
qed

lemma accept_operation_identity:
  assumes "accept_operation m inst kind pid check accept h = (Inr (x, v), h')" and "plain_accept accept"
  shows "on_id x \<noteq> [] \<and> on_instance x = inst"
proof -
  from assms(1)[unfolded accept_operation_def, THEN bindE_Inr[THEN iffD1]] obtain h1 where
    "bindE (check_current m inst kind) (\<lambda>_. bindE check (\<lambda>v. bindE (newID m) (\<lambda>op. bindE (now m) (\<lambda>t.
       bindE (modifyOp (\<lambda>_. queued_operation op inst kind pid t)) (\<lambda>_.
       bindE (acceptance m inst op accept v) (\<lambda>_. bindE (saveOperation m) (\<lambda>_. bindE getOp (\<lambda>x. retE (x, v))))))))) h1 =
     (Inr (x, v), h')" by blast
  from this[THEN bindE_Inr[THEN iffD1]] obtain h2 where
    "bindE check (\<lambda>v. bindE (newID m) (\<lambda>op. bindE (now m) (\<lambda>t.
       bindE (modifyOp (\<lambda>_. queued_operation op inst kind pid t)) (\<lambda>_.
       bindE (acceptance m inst op accept v) (\<lambda>_. bindE (saveOperation m) (\<lambda>_. bindE getOp (\<lambda>x. retE (x, v)))))))) h2 =
     (Inr (x, v), h')" by blast
  from this[THEN bindE_Inr[THEN iffD1]] obtain v0 h3 where
    "bindE (newID m) (\<lambda>op. bindE (now m) (\<lambda>t.
       bindE (modifyOp (\<lambda>_. queued_operation op inst kind pid t)) (\<lambda>_.
       bindE (acceptance m inst op accept v0) (\<lambda>_. bindE (saveOperation m) (\<lambda>_. bindE getOp (\<lambda>x. retE (x, v0))))))) h3 =
     (Inr (x, v), h')" by blast
  from this[THEN bindE_Inr[THEN iffD1]] obtain op h4 where id: "newID m h3 = (Inr op, h4)" and
    "bindE (now m) (\<lambda>t. bindE (modifyOp (\<lambda>_. queued_operation op inst kind pid t)) (\<lambda>_.
       bindE (acceptance m inst op accept v0) (\<lambda>_. bindE (saveOperation m) (\<lambda>_. bindE getOp (\<lambda>x. retE (x, v0)))))) h4 =
     (Inr (x, v), h')" by blast
  then have "bindE (acceptance m inst op accept v0) (\<lambda>_. bindE (saveOperation m) (\<lambda>_. bindE getOp (\<lambda>x. retE (x, v0))))
      (h4\<lparr>ho_op := queued_operation op inst kind pid (mg_now m h4)\<rparr>) = (Inr (x, v), h')"
    by (simp add: bindE_step[of "now m"] now_def bindE_step[of "modifyOp _"] modifyOp_def)
  from accepted_identity[OF this assms(2)] newID_Inr[OF id] show ?thesis
    by (simp add: queued_operation_def)
qed

text \<open>A framed step in front of another one: it fails, or hands a related state on.\<close>

lemma bindE_framed:
  assumes "frame R" and "keeps R a" and "bindE a f h = (r, h')"
  shows "(\<exists>e. r = Inl e \<and> R h h') \<or> (\<exists>x h1. R h h1 \<and> f x h1 = (r, h'))"
proof -
  obtain k h1 where a: "a h = (k, h1)" by fastforce
  with assms(2) have "R h h1" by (rule keepsD)
  with a assms(3) show ?thesis by (cases k) (auto simp: bindE_def)
qed

lemma acquireLock_cases:
  assumes "acquireLock m inst h = (r, h')"
  shows "(\<exists>e. r = Inl e \<and> same_process h h') \<or>
    (r = Inr () \<and> inst \<notin> set (ho_locked h) \<and> ho_locked h' = inst # ho_locked h \<and> ho_active h' = ho_active h \<and>
     ho_jobs h' = ho_jobs h)"
proof -
  let ?l = "\<lambda>h. if inst \<in> set (ho_locked h) then (Inl (Sentinel ErrActive), h)
         else (Inr (), h\<lparr>ho_locked := inst # ho_locked h\<rparr>)"
  note w = process.calls(1) and f = process.keeps_wrapE[OF process.calls(1)]
  have "(\<exists>e. r = Inl e \<and> same_process h h') \<or> (\<exists>h1. same_process h h1 \<and> ?l h1 = (r, h'))"
    using assms unfolding acquireLock_def
    by (elim bindE_framed[OF process.frame_axioms w, THEN disjE] bindE_framed[OF process.frame_axioms f, THEN disjE] exE conjE)
       (blast intro: process.trans)+
  then show ?thesis by (auto simp: same_process_def split: if_splits)
qed

lemma releaseLock_run [simp]:
  "fst (releaseLock m inst h) = Inr ()"
  "ho_locked (snd (releaseLock m inst h)) = filter (\<lambda>i. i \<noteq> inst) (ho_locked h)"
  "ho_active (snd (releaseLock m inst h)) = ho_active h" "ho_jobs (snd (releaseLock m inst h)) = ho_jobs h"
  by (simp_all add: releaseLock_def bindE_def ignoreE_def onW_def case_prod_unfold)

lemma filter_same: "inst \<notin> set xs \<Longrightarrow> filter (\<lambda>i. i \<noteq> inst) xs = xs"
  by (induction xs) auto

lemma startAccepted_cases:
  assumes run: "startAccepted m inst kind pid job check accept h = (r, h')" and check: "keeps same_process check"
    and accept: "plain_accept accept"
  shows "(\<exists>e. r = Inl e \<and> same_process h h') \<or>
    (\<exists>x v. r = Inr x \<and> instance_id_ok inst \<and> active_id h inst = [] \<and> inst \<notin> set (ho_locked h) \<and> on_id x \<noteq> [] \<and>
       on_instance x = inst \<and> ho_locked h' = inst # ho_locked h \<and>
       ho_active h' = (inst, on_id x) # filter (\<lambda>(i, _). i \<noteq> inst) (ho_active h) \<and>
       ho_jobs h' = ho_jobs h @ [(inst, x, job v)])"
proof (cases "instance_id_ok inst \<and> active_id h inst = []")
  case False
  with run show ?thesis by (auto simp: startAccepted_def process.refl split: if_splits)
next
  case True
  obtain l h1 where l: "acquireLock m inst h = (l, h1)" by fastforce
  from acquireLock_cases[OF l] show ?thesis
  proof
    assume "\<exists>e. l = Inl e \<and> same_process h h1"
    with run True l show ?thesis by (auto simp: startAccepted_def bindE_def)
  next
    assume locked: "l = Inr () \<and> inst \<notin> set (ho_locked h) \<and> ho_locked h1 = inst # ho_locked h \<and>
      ho_active h1 = ho_active h \<and> ho_jobs h1 = ho_jobs h"
    obtain a h2 where a: "accept_operation m inst kind pid check accept h1 = (a, h2)" by fastforce
    have p: "same_process h1 h2" by (rule keepsD[OF process_accept_operation[OF check accept] a])
    have run': "checkE (accept_operation m inst kind pid check accept)
             (\<lambda>e. bindE (ignoreE (releaseLock m inst)) (\<lambda>_. failE e))
             (\<lambda>(x, v). bindE (spawn inst x (job v)) (\<lambda>_. retE x)) h1 = (r, h')"
      using run True l locked by (simp add: startAccepted_def bindE_def)
    show ?thesis
    proof (cases a)
      case (Inl e)
      with run' a have "r = Inl e" "h' = snd (releaseLock m inst h2)"
        by (auto simp: checkE_def bindE_def failE_def ignoreE_def)
      with p locked show ?thesis by (auto simp: same_process_def filter_same)
    next
      case (Inr xv)
      then obtain x v where xv: "a = Inr (x, v)" by (cases xv) auto
      from run' a xv have "r = Inr x" "h' = snd (spawn inst x (job v) h2)"
        by (auto simp: checkE_def bindE_def spawn_def)
      with p locked True accept_operation_identity[OF a[unfolded xv] accept] show ?thesis
        by (auto simp: same_process_def spawn_def)
    qed
  qed
qed

section \<open>Locks, active operations and goroutines agree\<close>

text \<open>The instances with a pending goroutine are those whose lock is held and those with an
  active operation, and none of them has two.\<close>

definition consistent :: "'d host \<Rightarrow> bool" where
  "consistent h \<longleftrightarrow> distinct (map fst (ho_jobs h)) \<and> set (ho_locked h) = set (map fst (ho_jobs h)) \<and>
     set (ho_active h) = set (map (\<lambda>(i, x, _). (i, on_id x)) (ho_jobs h)) \<and>
     (\<forall>(i, x, _) \<in> set (ho_jobs h). on_id x \<noteq> [] \<and> on_instance x = i \<and> instance_id_ok i)"

definition preserves :: "('d host \<Rightarrow> bool) \<Rightarrow> 'd host \<Rightarrow> 'd host \<Rightarrow> bool" where
  "preserves I h h' \<longleftrightarrow> (I h \<longrightarrow> I h')"

interpretation preserved: frame "preserves I" for I
  by unfold_locales (auto simp: preserves_def)

lemma consistent_same: "same_process h h' \<Longrightarrow> preserves consistent h h'"
  by (simp add: same_process_def preserves_def consistent_def)

lemma preserved_same: "keeps same_process a \<Longrightarrow> keeps (preserves consistent) a"
  by (erule keeps_mono) (rule consistent_same)

lemma busy_active:
  assumes "consistent h" and "(i, x, j) \<in> set (ho_jobs h)"
  shows "active_id h i \<noteq> []" and "i \<in> set (ho_locked h)"
proof -
  have k: "\<exists>x j. (i, x, j) \<in> set (ho_jobs h) \<and> op = on_id x" if "(i, op) \<in> set (ho_active h)" for op
    using that assms(1) by (auto simp: consistent_def)
  have "(i, on_id x) \<in> set (ho_active h)" using assms by (auto simp: consistent_def intro!: image_eqI[of _ _ "(i, x, j)"])
  then obtain op where op: "map_of (ho_active h) i = Some op"
    by (metis fst_conv imageI map_of_eq_None_iff not_None_eq)
  then obtain x' j' where "(i, x', j') \<in> set (ho_jobs h)" "op = on_id x'" using k map_of_SomeD by metis
  then have "op \<noteq> []" using assms(1) by (auto simp: consistent_def)
  with op show "active_id h i \<noteq> []" by (simp add: active_id_def)
  from assms have "set (ho_locked h) = fst ` set (ho_jobs h)" by (simp add: consistent_def)
  with assms(2) show "i \<in> set (ho_locked h)" by (metis fst_conv imageI)
qed

lemma consistent_started:
  assumes "keeps same_process check" and "plain_accept accept" and c: "consistent h"
  shows "consistent (snd (startAccepted m inst kind pid job check accept h))"
proof -
  let ?run = "startAccepted m inst kind pid job check accept h"
  have "?run = (fst ?run, snd ?run)" by simp
  from startAccepted_cases[OF this assms(1,2)] show "consistent (snd ?run)"
  proof
    assume "\<exists>e. fst ?run = Inl e \<and> same_process h (snd ?run)"
    with c consistent_same show ?thesis unfolding preserves_def by blast
  next
    assume "\<exists>x v. fst ?run = Inr x \<and> instance_id_ok inst \<and> active_id h inst = [] \<and> inst \<notin> set (ho_locked h) \<and>
      on_id x \<noteq> [] \<and> on_instance x = inst \<and> ho_locked (snd ?run) = inst # ho_locked h \<and>
      ho_active (snd ?run) = (inst, on_id x) # filter (\<lambda>(i, _). i \<noteq> inst) (ho_active h) \<and>
      ho_jobs (snd ?run) = ho_jobs h @ [(inst, x, job v)]"
    then obtain x v where free: "inst \<notin> set (ho_locked h)" "instance_id_ok inst" and new: "on_id x \<noteq> []" "on_instance x = inst"
      "ho_locked (snd ?run) = inst # ho_locked h"
      "ho_active (snd ?run) = (inst, on_id x) # filter (\<lambda>(i, _). i \<noteq> inst) (ho_active h)"
      "ho_jobs (snd ?run) = ho_jobs h @ [(inst, x, job v)]" by blast
    from c free have f: "inst \<notin> fst ` set (ho_jobs h)" by (simp add: consistent_def)
    from c have parts: "distinct (map fst (ho_jobs h))" "set (ho_locked h) = fst ` set (ho_jobs h)"
      "set (ho_active h) = (\<lambda>(i, x, _). (i, on_id x)) ` set (ho_jobs h)"
      "\<forall>(i, x, _) \<in> set (ho_jobs h). on_id x \<noteq> [] \<and> on_instance x = i \<and> instance_id_ok i" by (simp_all add: consistent_def)
    have "inst \<notin> fst ` set (ho_active h)" using f unfolding parts(3) by (simp add: image_image case_prod_unfold)
    then have "filter (\<lambda>(i, _). i \<noteq> inst) (ho_active h) = ho_active h" by (force simp: filter_id_conv)
    then show ?thesis
      unfolding consistent_def new(3-5) using f new(1,2) free(2) parts by simp
  qed
qed

lemma consistent_start:
  "keeps same_process check \<Longrightarrow> plain_accept accept \<Longrightarrow>
     keeps (preserves consistent) (startAccepted m inst kind pid job check accept)"
  unfolding keeps_def preserves_def by (intro allI impI consistent_started) (simp_all add: keeps_def)

lemma consistent_legacy: "keeps (preserves consistent) (start_legacy m inst kind pid j)"
  unfolding start_legacy_def
  by (rule consistent_start) (simp_all add: plain_accept_def process.keeps_retE)

section \<open>Calls that hold the lock while they run\<close>

text \<open>A clean-up that gives the lock back and does nothing else to the process.\<close>

definition unlocks :: "string \<Rightarrow> ('d host, 'a) act \<Rightarrow> bool" where
  "unlocks inst d \<longleftrightarrow> (\<forall>h. ho_locked (snd (d h)) = filter (\<lambda>i. i \<noteq> inst) (ho_locked h) \<and>
     ho_active (snd (d h)) = ho_active h \<and> ho_jobs (snd (d h)) = ho_jobs h)"

lemma unlocks_release: "unlocks inst (releaseLock m inst)"
  "unlocks inst (bindE (ignoreE (onW a)) (\<lambda>_. releaseLock m inst))"
  by (simp_all add: unlocks_def bindE_def ignoreE_def onW_def case_prod_unfold)

lemma locked_call:
  assumes "keeps same_process a" and "unlocks inst d"
  shows "keeps same_process (bindE (acquireLock m inst) (\<lambda>_. deferE a d))"
    (is "keeps _ ?run")
  unfolding keeps_def
proof
  fix h
  obtain l h1 where l: "acquireLock m inst h = (l, h1)" by fastforce
  from acquireLock_cases[OF l] show "same_process h (snd (?run h))"
  proof
    assume "\<exists>e. l = Inl e \<and> same_process h h1"
    with l show ?thesis by (auto simp: bindE_def)
  next
    assume lk: "l = Inr () \<and> inst \<notin> set (ho_locked h) \<and> ho_locked h1 = inst # ho_locked h \<and>
      ho_active h1 = ho_active h \<and> ho_jobs h1 = ho_jobs h"
    obtain r h2 where a: "a h1 = (r, h2)" by fastforce
    have "same_process h1 h2" by (rule keepsD[OF assms(1) a])
    with l lk a assms(2) show ?thesis
      by (simp add: bindE_def deferE_def same_process_def unlocks_def filter_same)
  qed
qed

lemma process_make_plan:
  assumes "services_keep same_process m" and "Option.bind (mg_deployment m) mp_snapshot = Some f"
  shows "keeps same_process (make_plan m f inst rq)"
proof -
  have f: "keeps same_process (f i a p)" for i a p
    using assms by (auto simp: services_keep_def bind_eq_Some_conv)
  show ?thesis
    unfolding make_plan_def Current_def Let_def by (intro keeps_intros f)
qed

lemma process_CreatePlan:
  assumes "services_keep same_process m"
  shows "keeps same_process (CreatePlan m inst rq)"
proof (cases "Option.bind (mg_deployment m) mp_snapshot")
  case None
  then show ?thesis by (simp add: CreatePlan_def process.keeps_failE)
next
  case (Some f)
  with locked_call[OF process_make_plan[OF assms Some] unlocks_release(1)] show ?thesis
    by (simp add: CreatePlan_def process.keeps_failE)
qed

lemma process_Preview:
  assumes "services_keep same_process m"
  shows "keeps same_process (Preview m inst)"
proof -
  have "keeps same_process (case Option.bind (mg_deployment m) mp_preview of
      None \<Rightarrow> failE (Msg ''upgrade planning is unavailable'') | Some f \<Rightarrow> f inst)"
    using assms by (auto simp: services_keep_def bind_eq_Some_conv process.keeps_failE split: option.split)
  note locked = locked_call[OF this unlocks_release(2), of m inst "funlock (lock_dir m inst @ [''operation.lock''])" m]
  show ?thesis
    unfolding Preview_def
  proof (rule keeps_if[OF process.keeps_failE])
    show "keeps same_process (\<lambda>h. if active_id h inst \<noteq> [] then (Inl (Sentinel ErrActive), h)
      else bindE (acquireLock m inst) (\<lambda>_. deferE
        (case Option.bind (mg_deployment m) mp_preview of None \<Rightarrow> failE (Msg ''upgrade planning is unavailable'')
         | Some f \<Rightarrow> f inst)
        (bindE (ignoreE (onW (funlock (lock_dir m inst @ [''operation.lock''])))) (\<lambda>_. releaseLock m inst))) h)"
      using locked by (simp add: keeps_def process.refl)
  qed
qed

lemma process_reconcileOperation:
  assumes sv: "services_keep same_process m" and d: "mg_deployment m = Some d"
  shows "keeps same_process (reconcileOperation m d)"
proof -
  have rel: "keeps same_process (liftR (f i x))" if "mp_reconcile d = Some f" for f i x
    using sv d that by (simp add: services_keep_def)
  have "keeps same_process (reconcile_release d x)" for x
    unfolding reconcile_release_def
    by (cases "mp_reconcile d") (auto intro!: keeps_intros rel)
  moreover have "keeps same_process (reconcile_kind m d x)" for x
    unfolding reconcile_kind_def Let_def
    by (intro keeps_intros process.keeps_op_resume process.service_fields[OF sv d] process.keeps_saveOperation
        process.deployment_fields[OF process.service_fields(1)[OF sv d]])
  ultimately show ?thesis
    unfolding reconcileOperation_def never_ran_def hold_legacy_restore_def
    by (intro keeps_intros process.keeps_put_stage process.keeps_saveOperation)
qed

lemma process_Current [keeps_intros]: "keeps same_process (Current m inst)"
  unfolding Current_def by (intro keeps_intros)

lemma process_recover_current:
  assumes "services_keep same_process m"
  shows "keeps same_process (recover_current m inst)"
proof (cases "mg_deployment m")
  case None
  then show ?thesis unfolding recover_current_def None option.case by (intro keeps_intros)
next
  case (Some d)
  note r = process_reconcileOperation[OF assms Some]
  show ?thesis
    unfolding recover_current_def unfolding Some option.case
    by (intro keeps_intros r process.keeps_saveOperation)
qed

lemma process_Reconcile:
  assumes "services_keep same_process m"
  shows "keeps same_process (Reconcile m inst)"
  unfolding Reconcile_def
  by (intro keeps_intros locked_call[OF process_recover_current[OF assms] unlocks_release(2)])

section \<open>Submissions and goroutines\<close>

context host_frame
begin

lemma keeps_host_authorize:
  assumes "\<And>ex. existing = Some ex \<Longrightarrow> keeps R ex" and "\<And>cb n. callback = Some cb \<Longrightarrow> keeps R (cb n)"
  shows "keeps R (host_authorize sv inst s otp existing callback adm)"
proof (cases callback)
  case None
  then show ?thesis by (simp add: host_authorize_def keeps_failE)
next
  case (Some cb)
  have ex: "keeps R (case existing of None \<Rightarrow> retE False | Some ex \<Rightarrow> ex)"
    using assms(1) by (auto simp: keeps_retE split: option.split)
  have "keeps R (host_locked_section sv inst d s otp existing cb adm)" for d
    unfolding host_locked_section_def host_check_code_def host_accept_code_def
    by (intro keeps_bindE keeps_if keeps_retE keeps_failE keeps_tryE calls ex assms(2)[OF Some])
  then show ?thesis
    unfolding host_authorize_def host_under_lock_def Some option.case
    by (intro keeps_intros calls)
qed

end

interpretation kept: host_frame "preserves consistent"
  by unfold_locales (simp_all add: preserves_def consistent_def)

lemma process_validate:
  assumes "services_keep same_process m"
  shows "keeps same_process (validate_submission m inst rq)"
proof -
  have "keeps same_process (f i a p)" if "Option.bind (mg_deployment m) mp_snapshot = Some f" for f i a p
    using assms that by (auto simp: services_keep_def bind_eq_Some_conv)
  then have planner: "keeps same_process (case Option.bind (mg_deployment m) mp_snapshot of None \<Rightarrow> failE e
      | Some f \<Rightarrow> bindE (f inst a p) g)" if "\<And>x. keeps same_process (g x)" for e a p and g :: "snapshot \<Rightarrow> (_, plan \<times> snapshot) act"
    using that by (auto intro!: process.keeps_failE process.keeps_bindE split: option.split)
  show ?thesis
    unfolding validate_submission_def
    by (intro process.keeps_bindE process.keeps_wrapE process.calls process.keeps_failE keeps_if process.keeps_liftE
        process.keeps_retE planner)
qed

lemma plain_submission: "plain_accept (Some (accept_submission m inst rq counter))"
proof -
  have "keeps same_identity (modifyOp (on_point_update f))" for f
    by (simp add: keeps_def same_identity_def modifyOp_def)
  then show ?thesis
    by (auto simp: plain_accept_def accept_submission_def intro!: keeps_intros)
qed

lemma consistent_callback:
  assumes "services_keep same_process m"
  shows "keeps (preserves consistent) (submit_callback m inst rq counter)"
  unfolding submit_callback_def
  by (intro preserved.keeps_bindE preserved.keeps_tryE consistent_start process_validate assms plain_submission
      preserved_same[OF process_lookup] keeps_if preserved.keeps_retE preserved.keeps_liftE)

lemma consistent_Submit:
  assumes "services_keep same_process m"
  shows "keeps (preserves consistent) (Submit m (Some (admission_authorizer sv)) inst rq otp)"
proof -
  have "keeps (preserves consistent) (\<lambda>h. (Inr (), h\<lparr>ho_receipt := zero_receipt\<rparr>))"
    by (simp add: keeps_def preserves_def consistent_def)
  moreover have "keeps (preserves consistent) getReceipt"
    by (simp add: keeps_def preserves_def getReceipt_def)
  moreover have "keeps (preserves consistent)
      (admission_authorizer sv inst sc otp (lookup_request m inst rq) (submit_callback m inst rq))" for sc
    unfolding admission_authorizer_def
    by (rule kept.keeps_host_authorize) (auto intro: preserved_same[OF process_lookup] consistent_callback[OF assms])
  ultimately show ?thesis
    unfolding Submit_def option.case
    by (intro keeps_if preserved.keeps_failE preserved.keeps_bindE preserved_same[OF process_lookup])
qed

lemma goroutine_process:
  assumes "services_keep same_process m" and "goroutine m i x j h = (r, h')"
  shows "ho_locked h' = filter (\<lambda>k. k \<noteq> i) (ho_locked h)" "ho_active h' = filter (\<lambda>(k, _). k \<noteq> i) (ho_active h)"
    "ho_jobs h' = ho_jobs h"
proof -
  obtain h1 where a: "run_operation m x (runner_of m i j) h = (r, h1)"
    and h': "h' = snd ((bindE (ignoreE (onW (funlock (lock_dir m i @ [''operation.lock''])))) (\<lambda>_.
        bindE (ignoreE (releaseLock m i)) (\<lambda>_. clear_active i))) h1)"
    using assms(2) by (auto simp: goroutine_def deferE_eq)
  have "same_process h h1" by (rule keepsD[OF process.keeps_run_operation[OF assms(1)] a])
  then show "ho_locked h' = filter (\<lambda>k. k \<noteq> i) (ho_locked h)" "ho_active h' = filter (\<lambda>(k, _). k \<noteq> i) (ho_active h)"
    "ho_jobs h' = ho_jobs h"
    by (simp_all add: h' same_process_def bindE_def ignoreE_def onW_def clear_active_def case_prod_unfold)
qed

lemma consistent_goroutine:
  assumes sv: "services_keep same_process m" and c: "consistent h" and jobs: "ho_jobs h = js @ (i, x, j) # ks"
    and run: "goroutine m i x j (h\<lparr>ho_jobs := js @ ks\<rparr>) = (r, h')"
  shows "consistent h' \<and> i \<notin> set (map fst (ho_jobs h')) \<and> i \<notin> set (ho_locked h') \<and> active_id h' i = []"
proof -
  note eff = goroutine_process[OF sv run]
  from c have parts: "distinct (map fst (js @ (i, x, j) # ks))" "set (ho_locked h) = fst ` set (js @ (i, x, j) # ks)"
    "set (ho_active h) = (\<lambda>(i, x, _). (i, on_id x)) ` set (js @ (i, x, j) # ks)"
    "\<forall>(i, x, _) \<in> set (js @ (i, x, j) # ks). on_id x \<noteq> [] \<and> on_instance x = i \<and> instance_id_ok i"
    by (simp_all add: consistent_def jobs image_Un)
  from parts(1) have i: "i \<notin> fst ` set js" "i \<notin> fst ` set ks" by auto
  have l: "set (ho_locked h') = fst ` set (js @ ks)"
    using parts(2) i by (auto simp: eff)
  have "set (ho_active h') = {p \<in> set (ho_active h). fst p \<noteq> i}" by (auto simp: eff)
  also have "\<dots> = (\<lambda>(i, x, _). (i, on_id x)) ` set (js @ ks)"
    unfolding parts(3) using i by (auto simp: image_iff) force+
  finally have a: "set (ho_active h') = (\<lambda>(i, x, _). (i, on_id x)) ` set (js @ ks)" .
  have "map_of (ho_active h') i = None" by (auto simp: eff map_of_eq_None_iff)
  then show ?thesis
    using parts(1,4) i l a by (simp add: consistent_def eff active_id_def image_Un)
qed

section \<open>Reachable states\<close>

text \<open>A call from outside, a goroutine, or anything that changes the files, the deployment or the
  operation a call works on. A goroutine leaves the table of pending ones when it runs.\<close>

inductive step :: "'d manager \<Rightarrow> service \<Rightarrow> 'd host \<Rightarrow> 'd host \<Rightarrow> bool" for m sv where
  update: "StartUpdateWithOptions m i opt h = (r, h') \<Longrightarrow> step m sv h h'"
| backup: "StartBackup m i h = (r, h') \<Longrightarrow> step m sv h h'"
| rollback: "StartRollback m i pid h = (r, h') \<Longrightarrow> step m sv h h'"
| verify: "StartVerify m i h = (r, h') \<Longrightarrow> step m sv h h'"
| switch_back: "StartSwitchBack m i h = (r, h') \<Longrightarrow> step m sv h h'"
| preview: "Preview m i h = (p, h') \<Longrightarrow> step m sv h h'"
| plan: "CreatePlan m i prq h = (pl, h') \<Longrightarrow> step m sv h h'"
| submit: "Submit m (Some (admission_authorizer sv)) i rq otp h = (rc, h') \<Longrightarrow> step m sv h h'"
| reconcile: "Reconcile m i h = (u, h') \<Longrightarrow> step m sv h h'"
| goroutine: "ho_jobs h = js @ (i, x, j) # ks \<Longrightarrow> goroutine m i x j (h\<lparr>ho_jobs := js @ ks\<rparr>) = (u, h') \<Longrightarrow> step m sv h h'"
| outside: "same_process h h' \<Longrightarrow> step m sv h h'"

inductive reachable :: "'d manager \<Rightarrow> service \<Rightarrow> 'd host \<Rightarrow> bool" for m sv where
  idle: "ho_jobs h = [] \<Longrightarrow> ho_locked h = [] \<Longrightarrow> ho_active h = [] \<Longrightarrow> reachable m sv h"
| more: "reachable m sv h \<Longrightarrow> step m sv h h' \<Longrightarrow> reachable m sv h'"

lemma consistent_step:
  assumes "step m sv h h'" and sv: "services_keep same_process m" and c: "consistent h"
  shows "consistent h'"
proof -
  have k: "consistent h'" if "keeps (preserves consistent) a" "a h = (r, h')" for a r
    using keepsD[OF that] c by (simp add: preserves_def)
  from assms(1) show ?thesis
  proof cases
    case (rollback i pid r)
    have "keeps (preserves consistent) (StartRollback m i pid)"
      unfolding StartRollback_def by (intro keeps_if preserved.keeps_failE consistent_legacy)
    from k[OF this rollback] show ?thesis .
  next
    case (goroutine js i x j ks u)
    from consistent_goroutine[OF sv c goroutine] show ?thesis by simp
  next
    case outside
    with c consistent_same show ?thesis unfolding preserves_def by blast
  qed (auto simp: StartUpdateWithOptions_def StartBackup_def StartVerify_def StartSwitchBack_def
      intro: k consistent_legacy preserved_same[OF process_Preview[OF sv]] preserved_same[OF process_CreatePlan[OF sv]]
        preserved_same[OF process_Reconcile[OF sv]] consistent_Submit[OF sv])
qed

lemma reachable_consistent: "reachable m sv h \<Longrightarrow> services_keep same_process m \<Longrightarrow> consistent h"
proof (induction rule: reachable.induct)
  case (more h h')
  then show ?case by (blast intro: consistent_step)
qed (simp add: consistent_def)

section \<open>A busy instance\<close>

lemma busy_start:
  assumes "active_id h i \<noteq> []" and "instance_id_ok i"
  shows "startAccepted m i kind pid job check accept h = (Inl (Sentinel ErrActive), h)"
  using assms by (simp add: startAccepted_def)

lemma busy_lock: "i \<in> set (ho_locked h) \<Longrightarrow> acquireLock m i h = (r, h') \<Longrightarrow> \<exists>e. r = Inl e"
  using acquireLock_cases by blast

text \<open>The deployment's state under calls that only touch files and the process.\<close>

definition same_deployment :: "'d host \<Rightarrow> 'd host \<Rightarrow> bool" where
  "same_deployment h h' \<longleftrightarrow> ho_dep h' = ho_dep h"

interpretation deployed: host_frame same_deployment
  by unfold_locales (auto simp: same_deployment_def)

lemma deployed_acquireLock: "keeps same_deployment (acquireLock m i)"
proof -
  have l: "keeps same_deployment (\<lambda>h. if i \<in> set (ho_locked h) then (Inl e, h)
         else (Inr (), h\<lparr>ho_locked := i # ho_locked h\<rparr>))" for e
    by (simp add: keeps_def same_deployment_def)
  show ?thesis unfolding acquireLock_def by (intro keeps_intros deployed.calls l)
qed

lemma busy_locked_call:
  assumes "i \<in> set (ho_locked h)" and "bindE (acquireLock m i) f h = (r, h')"
  shows "isl r \<and> same_deployment h h'"
proof -
  obtain l h1 where l: "acquireLock m i h = (l, h1)" by fastforce
  from busy_lock[OF assms(1) l] obtain e where "l = Inl e" by blast
  with l assms(2) keepsD[OF deployed_acquireLock l] show ?thesis by (auto simp: bindE_def)
qed

lemma busy_reconcile:
  fixes h :: "'d host" and m :: "'d manager"
  assumes "i \<in> set (ho_locked h)" and "Reconcile m i h = (r, h')"
  shows "same_deployment h h'"
proof (cases "instance_id_ok i")
  case False
  with assms(2) show ?thesis by (simp add: Reconcile_def same_deployment_def)
next
  case True
  let ?lock = "bindE (acquireLock m i) (\<lambda>_. deferE (recover_current m i)
        (bindE (ignoreE (onW (funlock (lock_dir m i @ [''operation.lock''])))) (\<lambda>_. releaseLock m i)))"
  have locked: "same_deployment h1 (snd (?lock h1))" if "i \<in> set (ho_locked h1)" for h1
    using busy_locked_call[OF that prod.collapse[symmetric]] by blast
  define any :: "err + operation \<Rightarrow> ('d host, bool) act" where "any x = (case x of Inr x \<Rightarrow> retE True
             | Inl e \<Rightarrow>
                 if \<not> err_is ErrNotExist e then failE e
                 else bindE (tryE (onW (storeLatest (coordinationStore m) i))) (\<lambda>l. case l of
                        Inr h \<Rightarrow> retE True
                      | Inl le \<Rightarrow> if err_is ErrNotExist le then retE False else failE le))" for x :: "err + operation"
  have f: "keeps same_deployment (any x)" "keeps same_process (any x)" for x
    unfolding any_def by (intro keeps_intros deployed.calls)+
  have c: "keeps same_deployment (Current m i)" unfolding Current_def by (intro keeps_intros deployed.calls)
  have "Reconcile m i = bindE (tryE (Current m i)) (\<lambda>x. bindE (any x) (\<lambda>b. if \<not> b then retE () else ?lock))"
    using True by (simp add: Reconcile_def any_def)
  with assms(2) have run: "bindE (tryE (Current m i)) (\<lambda>x. bindE (any x) (\<lambda>b. if \<not> b then retE () else ?lock)) h = (r, h')"
    by simp
  obtain k h1 where k: "Current m i h = (k, h1)" by fastforce
  from run k have run1: "bindE (any k) (\<lambda>b. if \<not> b then retE () else ?lock) h1 = (r, h')"
    by (simp add: bindE_tryE)
  have s1: "same_deployment h h1" "same_process h h1" using keepsD[OF c k] keepsD[OF process_Current k] by auto
  obtain b h2 where b: "any k h1 = (b, h2)" by fastforce
  have s2: "same_deployment h1 h2" "same_process h1 h2" using keepsD[OF f(1) b] keepsD[OF f(2) b] by auto
  have "i \<in> set (ho_locked h2)" using assms(1) s1(2) s2(2) by (simp add: same_process_def)
  from locked[OF this] run1 b have "same_deployment h2 h'"
    by (cases b) (auto simp: bindE_def deployed.refl split: if_splits)
  with s1 s2 show ?thesis by (blast intro: deployed.trans)
qed


text \<open>C22: no instance stays locked. Whatever its deployment calls and its writes do, the goroutine
  of a pending operation can run to its end, and then the lock of the instance is free, the table of
  active operations has no entry for it and no goroutine is left for it.\<close>

theorem lock_is_released:
  assumes "reachable m sv h" and "services_keep same_process m" and "(i, x, j) \<in> set (ho_jobs h)"
  shows "\<exists>h'. step m sv h h' \<and> i \<notin> set (map fst (ho_jobs h')) \<and> i \<notin> set (ho_locked h') \<and> active_id h' i = []"
proof -
  from split_list[OF assms(3)] obtain js ks where jobs: "ho_jobs h = js @ (i, x, j) # ks" by blast
  obtain u h' where run: "goroutine m i x j (h\<lparr>ho_jobs := js @ ks\<rparr>) = (u, h')" by fastforce
  from consistent_goroutine[OF assms(2) reachable_consistent[OF assms(1,2)] jobs run] step.goroutine[OF jobs run]
  show ?thesis by blast
qed

end
