(* ===== verification/ReconcileLaws.thy ===== *)
theory ReconcileLaws
  imports Runners
begin

text \<open>
  What \<open>reconcileOperation\<close> may do on its own after a restart: without the durable mark that the
  services were about to be resumed, an interrupted update or data recovery is never continued by
  the updater. It fails, and an operator starts a new explicit recovery.
\<close>

section \<open>Interrupted before the boundary\<close>

lemma legacy_hold_fails: "hold_legacy_restore m x h = (r, h') \<Longrightarrow> isl r"
  by (auto simp: hold_legacy_restore_def checkE_def failE_def split: if_splits prod.splits sum.splits)

lemma unbounded_kind_fails:
  assumes "on_kind x \<in> {KindUpdate, KindRollback}" and "\<not> hasDurableResumeBoundary (on_stages x)"
  shows "\<exists>e. reconcile_kind m d x = failE e \<and> (\<forall>b. reconcile_kind m (d\<lparr>mp_base := b\<rparr>) x = failE e)"
  using assms by (auto simp: reconcile_kind_def KindUpdate_def KindRollback_def KindBackup_def KindVerify_def)

lemma base_irrelevant [simp]: "reconcile_release (d\<lparr>mp_base := b\<rparr>) x = reconcile_release d x"
  by (simp add: reconcile_release_def)

lemma never_ran_true:
  "never_ran m x h = (Inr True, h') \<Longrightarrow> on_stages x = []"
  by (auto simp: never_ran_def split: if_splits)

lemma reconcile_release_answer:
  assumes "reconcile_release d x h = (Inr (Some st), h')"
  shows "\<exists>f res h1. mp_reconcile d = Some f \<and> f (on_instance x) (on_id x) h = ((res, True), h1) \<and>
    released_status (on_kind x) res = Inr st"
  using assms
  by (auto simp: reconcile_release_def bindE_Inr liftR_def modifyOp_def split: option.splits if_splits prod.splits)


end
