(* ===== verification/Examples.thy ===== *)
theory Examples
  imports CoordOrder
begin

text \<open>
  Concrete worlds, stores and records on which the theorems are applied, and the equations
  that run the model on them: a world where every call succeeds, a coordination store below
  \<open>/state\<close>, an actor, an admission and a plan.
\<close>

section \<open>Running the model\<close>

lemma fresh_temp_numeral [simp]:
  "fresh_temp (numeral k) d pre w =
     (let t = d @ [pre @ nat_dec (w_rnd w (w_rix w))];
          w' = w\<lparr>w_rix := Suc (w_rix w)\<rparr>
      in if look w t = None then (Some t, w') else fresh_temp (pred_numeral k) d pre w')"
  by (simp add: numeral_eq_Suc)

lemmas monad_exec = bindE_def tryE_def retE_def failE_def wrapE_def deferE_def ignoreE_def guardE_def
  liftE_def checkE_def forE_def foldE.simps Let_def

lemmas files_exec = sys_def lstat_def read_file_def read_dir_def create_temp_def open_excl_def
  open_create_def flock_def funlock_def read_random_def update_node_def chmod_def write_data_def
  fsync_def close_file_def open_path_def sync_entries_def mkdir_def remove_def rename_def link_def
  look_def set_node_def del_node_def is_dir_def child_of_def info_of_def data_size_def dir_node_def
  file_node_def children_def fault_err_def mkdir_all_def mkdir_all_step_def prefixes_of_def has_prefix_def has_suffix_def

lemmas store_exec = state_dir_def root_def hook_def sync_directory_def store_sync_def max_record_def
  json_of_content_def read_record_def json_name_def entries_def durable_component_def
  durable_components.simps durable_directory_def write_stage_def write_finish_def write_record_def
  storeAdmissions_def storeHead_def head_base_def storeLatest_def nextSequence_def storeAccept_def
  storeRequest_def collect_admission_def storeOperation_def storeCounter_def savePlan_def storePlan_def
  writeHead_def beginLegacy_def syncHeadOperation_def updateAdmission_def updateOperation_def
  protectedPoints_def plan_refs_def zero_head_def

section \<open>A world without faults\<close>

definition ex_dir :: path where "ex_dir = [''state'']"

definition ex_world :: "(path \<times> node) list \<Rightarrow> world" where
  "ex_world fs = \<lparr>w_fs = fs, w_disk = fs, w_fault = (\<lambda>_. FOk), w_tick = 0, w_rnd = (\<lambda>n. n), w_rix = 0,
     w_jlen = (\<lambda>_. 100)\<rparr>"

definition ex_file :: "nat \<Rightarrow> content \<Rightarrow> node" where
  "ex_file m c = \<lparr>n_kind = KRegular, n_perm = m, n_data = c, n_synced = True, n_uid = 0, n_gid = 0\<rparr>"

definition ex_store :: store where
  "ex_store = \<lparr>st_dir = Some ex_dir, st_hook = (\<lambda>_. None), st_sync = None,
     st_sha = (\<lambda>_. replicate 64 CHR ''a'')\<rparr>"

lemma ex_store_simps [simp]:
  "st_dir ex_store = Some ex_dir" "st_hook ex_store = (\<lambda>_. None)" "st_sync ex_store = None"
  by (simp_all add: ex_store_def)

lemma ex_world_texts [simp]: "texts_not_empty (ex_world fs)"
  by (simp add: texts_not_empty_def ex_world_def)

lemmas world_exec = ex_dir_def ex_world_def ex_file_def

section \<open>Records\<close>

definition ex_actor :: actor where
  "ex_actor = \<lparr>ac_management = ''aaaaaaaa-aaaa-aaaa-aaaa-aaaaaaaaaaaa'', ac_admin = 1,
     ac_identity = replicate 64 CHR ''b''\<rparr>"

definition ex_op_id :: string where
  "ex_op_id = ''20260101T000000.000000000Z-00000000000000aa''"

definition ex_request :: string where
  "ex_request = ''request-1''"

definition ex_admission :: admission where
  "ex_admission = \<lparr>ad_sequence = 0, ad_schema = 2, ad_instance = ''primary'', ad_request = ex_request,
     ad_business = replicate 64 CHR ''c'', ad_operation_id = ex_op_id, ad_action = ''backup'',
     ad_plan = replicate 32 CHR ''d'', ad_epoch = replicate 32 CHR ''e'', ad_actor = ex_actor,
     ad_scope = ''backup'', ad_counter = 7, ad_accepted = 0, ad_point = [],
     ad_operation = Some (JObj [(''status'', JStr ''queued'')])\<rparr>"

definition ex_admitted :: admission where
  "ex_admitted = ex_admission\<lparr>ad_sequence := 1\<rparr>"

definition ex_point :: string where
  "ex_point = ''20260101T000000Z-0000000a''"

definition ex_plan_id :: string where
  "ex_plan_id = ''11111111111111111111111111111111''"

definition ex_plan :: plan where
  "ex_plan = \<lparr>pl_schema = 2, pl_instance = ''primary'', pl_id = ex_plan_id, pl_sha = replicate 64 CHR ''a'',
     pl_baseline = replicate 64 CHR ''f'', pl_epoch = replicate 32 CHR ''e'', pl_action = ''restore'',
     pl_actor = ex_actor, pl_expires = 1000, pl_maintenance = True, pl_continuation = ''remote'',
     pl_point = ex_point, pl_details = None, pl_snapshot = None\<rparr>"

lemma ex_admission_valid [simp]: "admission_valid (ex_admission\<lparr>ad_sequence := 1\<rparr>)"
  by code_simp

lemma ex_admission_simps [simp]:
  "ad_instance ex_admission = ''primary''" "ad_request ex_admission = ex_request"
  "ad_operation_id ex_admission = ex_op_id" "ad_scope ex_admission = ''backup''" "ad_counter ex_admission = 7"
  "ad_operation ex_admission = Some (JObj [(''status'', JStr ''queued'')])" "ad_point ex_admission = []"
  by (simp_all add: ex_admission_def)

lemma ex_admission_range [simp]: "admission_in_range ex_admission"
  by (simp add: admission_in_range_def ex_admission_def ex_actor_def)

lemma ex_admitted_simps [simp]:
  "admission_valid ex_admitted" "ad_instance ex_admitted = ''primary''" "ad_request ex_admitted = ex_request"
  "ad_operation_id ex_admitted = ex_op_id" "ad_scope ex_admitted = ''backup''" "ad_counter ex_admitted = 7"
  "ad_sequence ex_admitted = 1" "ad_point ex_admitted = []"
  "ad_operation ex_admitted = Some (JObj [(''status'', JStr ''queued'')])"
  by (simp_all add: ex_admitted_def)

lemma ex_admitted_json [simp]: "admission_of_json (admission_to_json ex_admitted) = Some ex_admitted"
proof (rule admission_roundtrip)
  show "admission_in_range ex_admitted" using ex_admission_range by (simp add: admission_in_range_def ex_admitted_def)
qed simp

lemma ex_ids [simp]: "identifier_ok ex_request" "op_id_ok ex_op_id" "hex32_ok ex_plan_id" "point_id_ok ex_point"
  by (code_simp, code_simp, code_simp, code_simp)

lemmas ex_names = ex_ids[unfolded ex_request_def ex_plan_id_def]

lemma ex_plan_valid [simp]: "plan_valid (st_sha ex_store) ex_plan"
  by code_simp

lemma ex_plan_simps [simp]:
  "pl_instance ex_plan = ''primary''" "pl_id ex_plan = ex_plan_id" "pl_expires ex_plan = 1000"
  "pl_point ex_plan = ex_point" "ex_point \<noteq> []"
  by (simp_all add: ex_plan_def ex_point_def)

lemma ex_plan_range [simp]: "plan_in_range ex_plan"
  by (simp add: plan_in_range_def ex_plan_def ex_actor_def)

lemma ex_plan_json [simp]: "plan_of_json (plan_to_json ex_plan) = Some ex_plan"
  by (rule plan_roundtrip) simp

section \<open>Worlds\<close>

definition fresh_world :: world where
  "fresh_world = ex_world [(ex_dir, dir_node 448)]"

text \<open>One admission is on disk.\<close>

definition admitted_world :: world where
  "admitted_world = ex_world [(ex_dir, dir_node 448), (ex_dir @ [''coordination''], dir_node 448),
     (ex_dir @ [''coordination'', ''primary''], dir_node 448),
     (ex_dir @ [''coordination'', ''primary'', ''admissions''], dir_node 448),
     (request_path ex_store ex_request, ex_file 384 (Json (admission_to_json ex_admitted)))]"

text \<open>One plan is on disk.\<close>

definition planned_world :: world where
  "planned_world = ex_world [(ex_dir, dir_node 448), (ex_dir @ [''coordination''], dir_node 448),
     (ex_dir @ [''coordination'', ''primary''], dir_node 448),
     (ex_dir @ [''coordination'', ''primary'', ''plans''], dir_node 448),
     (plan_path ex_store ex_plan_id, ex_file 384 (Json (plan_to_json ex_plan)))]"

lemmas worlds = fresh_world_def admitted_world_def planned_world_def request_path_def plan_path_def head_path_def

lemma ex_parents [simp]:
  "parents_exist ex_store fresh_world" "parents_exist ex_store admitted_world" "parents_exist ex_store planned_world"
  by (simp_all add: parents_exist_def worlds world_exec files_exec store_exec)

lemma ex_texts [simp]: "texts_not_empty fresh_world" "texts_not_empty admitted_world"
  by (simp_all add: fresh_world_def admitted_world_def)

text \<open>The digits of a random temporary name, the identifiers and the sequence numbers stay as
  they are; everything else of a run is evaluated.\<close>

lemmas exec = monad_exec files_exec store_exec world_exec worlds ex_names ex_request_def ex_plan_id_def

end
