(* ===== verification/LazyRun.thy ===== *)
theory LazyRun
  imports Examples HostAuth
begin

text \<open>
  Running the model one call at a time. The equations of \<open>Examples\<close> unfold every call of a
  sequence at once; here a definition unfolds only when it is applied to its state, and the
  congruences keep the simplifier away from the rest of a sequence until its turn. Whole
  submissions and starts run this way.
\<close>


lemma lazy_bind: "w = w' \<Longrightarrow> bindE m f w = bindE m f w'" by simp
lemma lazy_try: "w = w' \<Longrightarrow> tryE m w = tryE m w'" by simp
lemma lazy_ignore: "w = w' \<Longrightarrow> ignoreE m w = ignoreE m w'" by simp
lemma lazy_check: "w = w' \<Longrightarrow> checkE m g f w = checkE m g f w'" by simp
lemma lazy_wrap: "w = w' \<Longrightarrow> wrapE e m w = wrapE e m w'" by simp
lemma lazy_defer: "w = w' \<Longrightarrow> deferE m d w = deferE m d w'" by simp
lemma lazy_sys: "w = w' \<Longrightarrow> sys m w = sys m w'" by simp
lemma lazy_onW: "h = h' \<Longrightarrow> onW m h = onW m h'" by simp
lemma lazy_fold: "xs = ys \<Longrightarrow> x = y \<Longrightarrow> w = w' \<Longrightarrow> foldE f xs x w = foldE f ys y w'" by simp
lemma lazy_for: "xs = ys \<Longrightarrow> w = w' \<Longrightarrow> forE f xs w = forE f ys w'" by simp

lemmas lazy_cong = lazy_bind lazy_try lazy_ignore lazy_check lazy_wrap lazy_defer lazy_sys lazy_onW lazy_fold lazy_for

lemma lazy_let [simp]: "(let x = a in f x) w = f a w"
  by simp

lemma lazy_if [simp]: "(if b then f else g) x = (if b then f x else g x)"
  by simp

lemmas lazy_monad = bindE_def tryE_def retE_def failE_def wrapE_def deferE_def ignoreE_def liftE_def checkE_def
  forE_def[THEN fun_cong] foldE.simps[THEN fun_cong] guardE_def[THEN fun_cong]

lemmas lazy_files = sys_def lstat_def[THEN fun_cong] read_file_def[THEN fun_cong] read_dir_def[THEN fun_cong]
  create_temp_def[THEN fun_cong] open_excl_def[THEN fun_cong] open_create_def[THEN fun_cong] flock_def[THEN fun_cong]
  funlock_def[THEN fun_cong] read_random_def[THEN fun_cong] update_node_def[THEN fun_cong] chmod_def[THEN fun_cong]
  write_data_def[THEN fun_cong] fsync_def[THEN fun_cong] close_file_def[THEN fun_cong] open_path_def[THEN fun_cong]
  sync_entries_def[THEN fun_cong] mkdir_def[THEN fun_cong] remove_def[THEN fun_cong] rename_def[THEN fun_cong]
  link_def[THEN fun_cong] mkdir_all_def[THEN fun_cong] mkdir_all_step_def
  look_def set_node_def del_node_def is_dir_def child_of_def info_of_def data_size_def dir_node_def file_node_def
  children_def fault_err_def prefixes_of_def has_prefix_def has_suffix_def

lemmas lazy_store = sync_directory_def[THEN fun_cong] store_sync_def[THEN fun_cong] read_record_def[THEN fun_cong]
  entries_def[THEN fun_cong] durable_component_def[THEN fun_cong] durable_components.simps[THEN fun_cong]
  durable_directory_def[THEN fun_cong] write_stage_def[THEN fun_cong] write_finish_def[THEN fun_cong]
  write_record_def[THEN fun_cong] storeAdmissions_def[THEN fun_cong] storeHead_def[THEN fun_cong]
  storeLatest_def[THEN fun_cong] nextSequence_def[THEN fun_cong] storeAccept_def[THEN fun_cong]
  storeRequest_def[THEN fun_cong] collect_admission_def[THEN fun_cong] storeOperation_def[THEN fun_cong]
  storeCounter_def[THEN fun_cong] storePlan_def[THEN fun_cong] writeHead_def[THEN fun_cong]
  beginLegacy_def[THEN fun_cong] syncHeadOperation_def[THEN fun_cong] updateAdmission_def[THEN fun_cong]
  updateOperation_def[THEN fun_cong] hook_def[THEN fun_cong]
  state_dir_def root_def max_record_def json_of_content_def json_name_def head_base_def zero_head_def

lemmas lazy_manager = onW_def now_def getOp_def modifyOp_def manager_dir_def operationsDir_def currentPath_def
  operation_path_def lock_dir_def active_id_def blocks_def spawn_def
  acquireLock_def[THEN fun_cong] releaseLock_def[THEN fun_cong] repairAdmissions_def[THEN fun_cong]
  readOperation_def[THEN fun_cong] Current_def[THEN fun_cong] check_current_def[THEN fun_cong]
  replaceContents_def[THEN fun_cong] replace_stage_def[THEN fun_cong] sync_and_close_def[THEN fun_cong]
  saveOperation_def[THEN fun_cong] accept_operation_def[THEN fun_cong] startAccepted_def

lemmas lazy_submit = Submit_def[THEN fun_cong] lookup_request_def[THEN fun_cong] Request_def[THEN fun_cong] receipt_of_def[THEN fun_cong]
  background_def[THEN fun_cong] rcRead_def[THEN fun_cong] admission_authorizer_def host_authorize_def[THEN fun_cong] host_under_lock_def[THEN fun_cong]
  host_locked_section_def[THEN fun_cong] host_check_code_def[THEN fun_cong] host_accept_code_def[THEN fun_cong] submit_callback_def[THEN fun_cong]
  validate_submission_def[THEN fun_cong] accept_submission_def[THEN fun_cong] match_attempt_def[THEN fun_cong]
  instanceDir_def[THEN fun_cong] openPrivateLock_def[THEN fun_cong] readSecret_def[THEN fun_cong] readAttemptState_def[THEN fun_cong] unix_now_def
  readCounter_def[THEN fun_cong] remainingGlobalAttemptState_def[THEN fun_cong] writeAttemptState_def[THEN fun_cong] replacePrivateFile_def[THEN fun_cong]
  auth_sync_def[THEN fun_cong] getReceipt_def global_attempts_path_def attempts_path_def counter_path_def scopes_def no_attempts_def add_attempts_def content_text_def last_counter_def
  action_kind_def

lemmas lazy = lazy_monad lazy_files lazy_store lazy_manager lazy_submit saveOperation_def[THEN fun_cong]

section \<open>Replacing a file without faults\<close>

text \<open>Without faults, a replacement succeeds when the directory exists, the target is not a directory
  and the next temporary name is free; it touches nothing but the target.\<close>

definition ready :: "world \<Rightarrow> path \<Rightarrow> bool" where
  "ready w p \<longleftrightarrow> w_fault w = (\<lambda>_. FOk) \<and> is_dir w (butlast p) \<and> \<not> is_dir w p \<and> p \<noteq> [] \<and>
     (let t = butlast p @ [''.operation-'' @ nat_dec (w_rnd w (w_rix w))] in look w t = None \<and> t \<noteq> p)"

lemma node_env [simp]: "w_rix (set_node p n w) = w_rix w" "w_rnd (set_node p n w) = w_rnd w"
  "w_rix (del_node p w) = w_rix w" "w_rnd (del_node p w) = w_rnd w" "w_fault (del_node p w) = w_fault w"
  "w_tick (del_node p w) = w_tick w"  "w_tick (set_node p n w) = w_tick w"
  by (simp_all add: set_node_def del_node_def)

lemma is_dir_simps [simp]: "is_dir (w\<lparr>w_tick := k\<rparr>) p = is_dir w p" "is_dir (w\<lparr>w_rix := k\<rparr>) p = is_dir w p"
  "is_dir (w\<lparr>w_disk := ds\<rparr>) p = is_dir w p"
  "is_dir (set_node q n w) p = (if p = q then n_kind n = KDir else is_dir w p)"
  "is_dir (del_node q w) p = (p \<noteq> q \<and> is_dir w p)"
  by (auto simp: is_dir_def)

lemma replace_runs:
  assumes "ready w p"
  shows "\<exists>w'. replaceContents p c w = (Inr (), w') \<and> w_fault w' = (\<lambda>_. FOk) \<and> w_rnd w' = w_rnd w \<and>
    w_rix w' = Suc (w_rix w) \<and> (\<forall>q. q \<noteq> p \<longrightarrow> look w' q = look w q)"
proof -
  let ?d = "butlast p"
  let ?t = "?d @ [''.operation-'' @ nat_dec (w_rnd w (w_rix w))]"
  from assms have a: "w_fault w = (\<lambda>_. FOk)" "is_dir w ?d" "\<not> is_dir w p" "p \<noteq> []" "look w ?t = None" "?t \<noteq> p"
    by (auto simp: ready_def Let_def)
  have td: "?d \<noteq> ?t" "\<not> is_dir w ?t" using a(5) by (auto simp: is_dir_def)
  have pd: "?d \<noteq> p" using a(2,3) by auto
  from a(2) obtain nd where nd: "look w ?d = Some nd" by (auto simp: is_dir_def split: option.splits)
  show ?thesis
    using a td pd nd
    by (simp add: lazy_monad sys_def create_temp_def[THEN fun_cong] replaceContents_def[THEN fun_cong] replace_stage_def[THEN fun_cong]
       sync_and_close_def[THEN fun_cong] chmod_def[THEN fun_cong] update_node_def[THEN fun_cong]  write_data_def[THEN fun_cong] fsync_def[THEN fun_cong]
       close_file_def[THEN fun_cong] open_path_def[THEN fun_cong] sync_entries_def[THEN fun_cong]
       rename_def[THEN fun_cong] remove_def[THEN fun_cong] file_node_def join_errs_def cong: lazy_cong)
qed

end
