(* ===== verification/CoordWitness.thy ===== *)
theory CoordWitness
  imports Examples
begin

text \<open>The theorems of \<open>CoordOrder\<close> applied to concrete runs of the store.\<close>

lemma run_split: "fst (m w) = r \<Longrightarrow> m w = (r, snd (m w))"
  by (metis prod.collapse)

lemma ex_accept: "storeAccept ex_store ex_admission fresh_world =
    (Inr (), snd (storeAccept ex_store ex_admission fresh_world))"
  by (rule run_split) (simp add: exec)

theorem accept_success_witness:
  "admission_at ex_store (snd (storeAccept ex_store ex_admission fresh_world)) ex_request \<noteq> None"
  using accept_success[OF ex_accept] by auto

theorem accept_atomic_witness:
  "look fresh_world (request_path ex_store ex_request) = None \<and>
   look (snd (storeAccept ex_store ex_admission fresh_world)) (head_path ex_store) = look fresh_world (head_path ex_store)"
proof
  show "look fresh_world (request_path ex_store ex_request) = None" by (simp add: exec)
  have "head_path ex_store \<noteq> request_path ex_store ex_request"
    by (simp add: head_path_def request_path_def)
  then show "look (snd (storeAccept ex_store ex_admission fresh_world)) (head_path ex_store) = look fresh_world (head_path ex_store)"
    using accept_atomic[OF ex_accept] head_record[of ex_store] by simp
qed

lemma ex_latest: "storeLatest ex_store ''primary'' admitted_world =
    (Inr (admission_head ''primary'' ex_admitted), snd (storeLatest ex_store ''primary'' admitted_world))"
  by (rule run_split) (simp add: exec admission_head_def)

theorem latest_newest_witness:
  "newest_authority ex_store admitted_world (admission_head ''primary'' ex_admitted)"
  using latest_newest[OF ex_latest] by simp

lemma ex_legacy: "beginLegacy ex_store ''primary'' ex_op_id (JObj []) fresh_world =
    (Inr (), snd (beginLegacy ex_store ''primary'' ex_op_id (JObj []) fresh_world))"
  by (rule run_split) (simp add: exec head_valid_def)

theorem legacy_leads_witness:
  "\<exists>h. hd_operation_id h = ex_op_id \<and>
     durable (snd (beginLegacy ex_store ''primary'' ex_op_id (JObj []) fresh_world)) (head_path ex_store)
       (Json (head_to_json h)) 384"
  using legacy_leads[OF ex_legacy] by auto

lemma ex_superseded: "updateOperation ex_store ''primary'' ''other'' (JObj []) admitted_world =
    (fst (updateOperation ex_store ''primary'' ''other'' (JObj []) admitted_world),
     snd (updateOperation ex_store ''primary'' ''other'' (JObj []) admitted_world))"
  by simp

theorem superseded_update_refused_witness:
  "fst (updateOperation ex_store ''primary'' ''other'' (JObj []) admitted_world) =
     Inl (Msg ''operation was superseded by a newer operation'')"
  using superseded_update_refused[OF ex_latest _ ex_superseded]
  by (simp add: admission_head_def ex_op_id_def)

lemma ex_counter: "storeCounter ex_store ''primary'' ''backup'' admitted_world =
    (Inr 7, snd (storeCounter ex_store ''primary'' ''backup'' admitted_world))"
  by (rule run_split) (simp add: exec last_counter_def)

theorem counter_high_water_witness:
  "\<exists>rq a. admission_at ex_store admitted_world rq = Some a \<and> ad_scope a = ''backup'' \<and> ad_counter a = 7"
  using counter_high_water[OF ex_counter] by simp

lemma ex_save: "savePlan ex_store ex_plan fresh_world = (Inr (), snd (savePlan ex_store ex_plan fresh_world))"
  by (rule run_split) (simp add: exec)

theorem plan_saved_witness:
  "plan_at ex_store (snd (savePlan ex_store ex_plan fresh_world)) ex_plan_id = Some ex_plan"
  using plan_saved[OF ex_save] by simp

lemma ex_protected: "protectedPoints ex_store ''primary'' 0 planned_world =
    (Inr [ex_point], snd (protectedPoints ex_store ''primary'' 0 planned_world))"
  by (rule run_split) (simp add: exec)

lemma ex_plan_found: "plan_at ex_store planned_world ex_plan_id = Some ex_plan"
  by (simp add: plan_at_def record_at_def plan_path_def exec)

theorem protected_points_complete_witness:
  "pl_point ex_plan \<in> set (projr (fst (protectedPoints ex_store ''primary'' 0 planned_world)))"
proof -
  have "look planned_world (state_dir ex_store @ [''coordination'', ''primary'', ''plans'']) \<noteq> None"
    by (simp add: exec)
  from protected_points_complete[OF ex_protected _ this, THEN conjunct1, rule_format, OF _ conjI[OF ex_plan_found]]
  have "pl_point ex_plan \<in> set [ex_point]" by (simp add: ex_plan_def ex_point_def)
  then show ?thesis by (subst ex_protected) simp
qed

end
