(* ===== verification/BaseWitness.thy ===== *)
theory BaseWitness
  imports Totp Managed
begin

text \<open>The theorems of \<open>Totp\<close> and \<open>Managed\<close> applied to concrete secrets, attempt states,
  upgrade plans and releases.\<close>

section \<open>One-time codes\<close>

theorem b32_roundtrip_witness:
  "b32_decode (b32_encode [1, 2, 3, 4, 250]) = Some [1, 2, 3, 4, 250]"
  using b32_roundtrip[of "[1, 2, 3, 4, 250]"] by simp

definition ex_master :: string where
  "ex_master = replicate 32 CHR ''A''"

lemma ex_master_ok: "secret_ok ex_master"
  by code_simp

theorem code_form_witness:
  "\<exists>secret code. deriveSecret (\<lambda>k m. replicate 32 7) ex_master ScopeUpdate = Inr secret \<and>
     generateCode (\<lambda>k m. replicate 20 9) secret 3 = Inr code \<and> code_ok code"
proof -
  have "validScope ScopeUpdate" by (simp add: validScope_def)
  from code_form[OF ex_master_ok this, where ?hmac256.0 = "\<lambda>k m. replicate 32 7" and ?hmac1.0 = "\<lambda>k m. replicate 20 9"
      and counter = 3]
  show ?thesis by auto
qed

definition ex_attempts :: attempts where
  "ex_attempts = \<lparr>at_failures = 7, at_locked = 1700000000\<rparr>"

lemma ex_attempts_ok: "attempts_ok ex_attempts"
  by (simp add: attempts_ok_def ex_attempts_def lockoutThreshold_def)

theorem attempts_roundtrip_witness:
  "parse_attempts (attempts_text ex_attempts) = Inr ex_attempts"
  by (rule attempts_roundtrip[OF ex_attempts_ok]) (simp add: ex_attempts_def)

theorem invalid_attempt_locks_witness:
  "1700000900 \<le> at_locked (fst (nextInvalidAttemptState ex_attempts 1700000000))"
proof -
  have "nextInvalidAttemptState ex_attempts 1700000000 =
      (fst (nextInvalidAttemptState ex_attempts 1700000000), snd (nextInvalidAttemptState ex_attempts 1700000000))"
    by simp
  from invalid_attempt_locks[OF ex_attempts_ok _ _ this] show ?thesis by (simp add: ex_attempts_def)
qed

theorem attempts_cap_unreadable_witness:
  "\<exists>e. parse_attempts (attempts_text (fst (nextInvalidAttemptState
     \<lparr>at_failures = 1000000, at_locked = 0\<rparr> 1700000000))) = Inl e"
  by (rule attempts_cap_unreadable) simp_all

section \<open>Upgrade plans\<close>

definition ex_plan_doc :: doc where
  "ex_plan_doc = \<lparr>dc_len = 300, dc_json = Some (JObj [
     (''schema_version'', JNum 1), (''strategy'', JStr ''online''), (''allowed_sources'', JArr [JNum 7]),
     (''migrations'', JArr []),
     (''compatibility'', JObj [(''schema'', JBool True), (''queue'', JBool True), (''cache'', JBool True),
        (''storage'', JBool True)]),
     (''steps'', JArr [JObj [(''id'', JStr ''migrate''), (''kind'', JStr ''migrate''), (''phase'', JStr ''apply''),
        (''timeout_seconds'', JNum 60), (''online'', JBool True)]])])\<rparr>"

definition ex_upgrade_plan :: upgrade_plan where
  "ex_upgrade_plan = \<lparr>up_schema = 1, up_strategy = ''online'', up_sources = [7], up_migrations = [],
     up_compat = \<lparr>co_schema = True, co_queue = True, co_cache = True, co_storage = True\<rparr>,
     up_steps = [\<lparr>us_id = ''migrate'', us_kind = ''migrate'', us_phase = ''apply'', us_timeout = 60,
       us_online = True\<rparr>]\<rparr>"

lemma ex_decode: "DecodeUpgradePlan ex_plan_doc = Inr ex_upgrade_plan"
  by (simp add: DecodeUpgradePlan_def ex_plan_doc_def ex_upgrade_plan_def upgrade_plan_limit_def
      validateUpgradePlanFields_def upgradePlanObject_def upgrade_plan_keys_def compatibility_keys_def
      migration_keys_def step_keys_def field_json_def check_array_def upgrade_plan_of_json_def
      dec_compatibility_def dec_ustep_def dec_source_def dec_int64_def dec_uint64_def lower_char_def is_upper_def
      code_def upgrade_plan_validate_def compatibility_online_def step_kinds_def step_id_ok_def is_lower_def)


section \<open>Releases\<close>

definition ex_digest :: string where
  "ex_digest = ''0123456789abcdef0123456789abcdef0123456789abcdef0123456789abcdef''"

definition ex_full_release :: release where
  "ex_full_release = \<lparr>rl_sequence = 8, rl_minimum = 2, rl_version = ''1.2.3'', rl_commit = [],
     rl_app = ''ghcr.io/yaojingang/geoflow-app@sha256:'' @ ex_digest,
     rl_web = ''ghcr.io/yaojingang/geoflow-web@sha256:'' @ ex_digest,
     rl_postgres = [(''16'', ''pgvector/pgvector@sha256:'' @ ex_digest), (''18'', ''pgvector/pgvector@sha256:'' @ ex_digest)],
     rl_redis = [(''7'', ''redis@sha256:'' @ ex_digest), (''8'', ''redis@sha256:'' @ ex_digest)],
     rl_compose_len = 10, rl_document = \<lparr>dc_len = 0, dc_json = None\<rparr>, rl_plan = \<lparr>dc_len = 0, dc_json = None\<rparr>\<rparr>"

lemma ex_digest_ok: "hex64_ok ex_digest"
  by code_simp

lemma ex_release_valid: "release_validate ex_full_release = Inr ()"
  by (simp add: release_validate_def ex_full_release_def UpdaterProtocolVersion_def plan_protocol_ok_def
      validateImageSet_def app_image_ok_def web_image_ok_def postgres_image_ok_def redis_image_ok_def pinned_def
      has_prefix_def ex_digest_ok version_ok_def digits_then_def dot_then_def version_tail_ok_def is_digit_def code_def)

theorem valid_release_deployable_witness:
  "\<exists>pi ri. InfrastructureImages ex_full_release ''16'' ''7'' = Inr (pi, ri)"
  using valid_release_deployable[OF ex_release_valid, of "''16''" "''7''"] by auto

end
