(* ===== verification/AuthWitness.thy ===== *)
theory AuthWitness
  imports AuthLaws CoordWitness BaseWitness
begin

text \<open>The theorems of \<open>AuthLaws\<close> applied to a service with a constant HMAC, whose code is always
  \<open>000000\<close>.\<close>

definition ex_now :: int where "ex_now = 1700000000"

definition ex_service :: service where
  "ex_service = \<lparr>sv_dir = Some ex_dir, sv_now = (\<lambda>_. ex_now), sv_yaml = (\<lambda>_. (Inl (Msg ''invalid''), True)),
     sv_hmac1 = (\<lambda>k m. replicate 20 0), sv_hmac256 = (\<lambda>k m. replicate 32 7),
     sv_sha = (\<lambda>_. replicate 64 CHR ''a'')\<rparr>"

definition ex_inst :: path where
  "ex_inst = [''state'', ''instances'', ''primary'']"

lemma ex_service_simps [simp]:
  "sv_now ex_service = (\<lambda>_. ex_now)" "sv_dir ex_service = Some ex_dir" "sv_hmac1 ex_service = (\<lambda>k m. replicate 20 0)"
  "sv_hmac256 ex_service = (\<lambda>k m. replicate 32 7)" "coordination_store ex_service = ex_store"
  "instance_path ex_service ''primary'' = ex_inst"
  by (simp_all add: ex_service_def coordination_store_def ex_store_def instance_path_def service_dir_def ex_inst_def ex_dir_def)

section \<open>Secrets and codes\<close>

definition ex_code :: string where "ex_code = ''000000''"

definition ex_scoped :: "mutation_scope \<Rightarrow> string" where
  "ex_scoped s = projr (deriveSecret (\<lambda>k m. replicate 32 7) ex_master s)"

lemma ex_derive:
  assumes "validScope s"
  shows "deriveSecret (\<lambda>k m. replicate 32 7) ex_master s = Inr (ex_scoped s) \<and>
    generateCode (\<lambda>k m. replicate 20 0) (ex_scoped s) c = Inr ex_code"
proof -
  have code: "pad_dec 6 (unat (truncate_digest (replicate 20 0) mod 1000000)) = ex_code" by code_simp
  from code_exists[OF ex_master_ok assms, where ?hmac256.0 = "\<lambda>k m. replicate 32 7" and
      ?hmac1.0 = "\<lambda>k m. replicate 20 0" and counter = c]
  obtain secret otp where "deriveSecret (\<lambda>k m. replicate 32 7) ex_master s = Inr secret"
    and "generateCode (\<lambda>k m. replicate 20 0) secret c = Inr otp" by auto
  with code show ?thesis by (auto simp: ex_scoped_def generateCode_def split: option.splits)
qed

section \<open>Worlds of an instance\<close>

definition auth_world :: "(path \<times> node) list \<Rightarrow> world" where
  "auth_world fs = ex_world ([(ex_dir, dir_node 448), (ex_dir @ [''instances''], dir_node 448), (ex_inst, dir_node 448),
     (ex_inst @ [''mutation.secret''], ex_file 384 (Text ex_master))] @ fs)"

lemma ex_master_text [simp]: "trim ex_master = ex_master" "length ex_master = 32" "secret_ok ex_master"
  by (code_simp, simp add: ex_master_def, rule ex_master_ok)

lemma ex_match: "match_counter ex_service (ex_scoped s) ex_code ex_now w = (Inr 56666667, w)" if "validScope s"
  using ex_derive[OF that]
  by (simp add: match_counter_def try_candidate_def go_div_def auth_period_def ex_now_def monad_exec)

lemma ex_code_ok [simp]: "code_ok ex_code"
  by code_simp

lemmas auth_exec = Authorize_def authorize_def instanceDir_def under_lock_def openPrivateLock_def locked_section_def
  check_code_def match_attempt_def readSecret_def readAttemptState_def unix_now_def readCounter_def
  remainingGlobalAttemptState_def accept_code_def after_callback_def writeAttemptState_def replacePrivateFile_def
  auth_sync_def global_attempts_path_def attempts_path_def counter_path_def auth_world_def ex_inst_def
  scopes_def no_attempts_def add_attempts_def content_text_def last_counter_def ex_now_def wrap64_def

lemma ex_instance_ok [simp]: "instance_id_ok ''primary''"
  by code_simp

lemma ex_authorize: "Authorize ex_service ''primary'' ScopeUpdate ex_code (Some (retE ())) (auth_world []) =
    (Inr (), snd (Authorize ex_service ''primary'' ScopeUpdate ex_code (Some (retE ())) (auth_world [])))"
proof (rule run_split)
  have v: "validScope ScopeUpdate" by (simp add: validScope_def)
  show "fst (Authorize ex_service ''primary'' ScopeUpdate ex_code (Some (retE ())) (auth_world [])) = Inr ()"
    using ex_derive[OF v, THEN conjunct1] ex_match[OF v]
    by (simp add: auth_exec v exec)
qed

theorem authorize_strictly_newer_witness:
  "\<exists>m. counter_at (snd (Authorize ex_service ''primary'' ScopeUpdate ex_code (Some (retE ())) (auth_world [])))
     (counter_path ex_inst ScopeUpdate) = Some m"
proof -
  have "keeps (touches P) (retE ())" for P by (rule writes.keeps_retE)
  from authorize_strictly_newer[OF ex_authorize this] show ?thesis
    by (auto simp: ex_now_def)
qed

section \<open>An admission has used a counter\<close>

definition admitted_auth_world :: world where
  "admitted_auth_world = auth_world [(ex_dir @ [''coordination''], dir_node 448),
     (ex_dir @ [''coordination'', ''primary''], dir_node 448),
     (ex_dir @ [''coordination'', ''primary'', ''admissions''], dir_node 448),
     (request_path ex_store ex_request, ex_file 384 (Json (admission_to_json ex_admitted)))]"

lemma ex_admit_code: "authorize ex_service ''primary'' ScopeBackup ex_code None (Some (\<lambda>_. retE ())) False admitted_auth_world =
    (Inr (), snd (authorize ex_service ''primary'' ScopeBackup ex_code None (Some (\<lambda>_. retE ())) False admitted_auth_world))"
proof (rule run_split)
  have v: "validScope ScopeBackup" by (simp add: validScope_def)
  show "fst (authorize ex_service ''primary'' ScopeBackup ex_code None (Some (\<lambda>_. retE ())) False admitted_auth_world) = Inr ()"
    using ex_derive[OF v, THEN conjunct1] ex_match[OF v]
    by (simp add: admitted_auth_world_def auth_exec v exec)
qed

theorem admitted_counter_not_reused_witness:
  "\<exists>m secret. 7 < m \<and> generateCode (\<lambda>k m. replicate 20 0) secret m = Inr ex_code"
proof -
  have p: "parents_exist ex_store admitted_auth_world"
    by (simp add: parents_exist_def admitted_auth_world_def auth_world_def exec)
  have a: "admission_at ex_store admitted_auth_world ex_request = Some ex_admitted"
    by (simp add: admission_at_def record_at_def admitted_auth_world_def auth_world_def ex_inst_def exec)
  from admitted_counter_not_reused[OF ex_admit_code _ _ , of ex_request ex_admitted] p a show ?thesis
    by auto
qed

section \<open>Failed attempts\<close>

definition locked_attempts :: attempts where
  "locked_attempts = \<lparr>at_failures = 7, at_locked = 1700001000\<rparr>"

lemma locked_attempts_ok: "attempts_ok locked_attempts"
  by (simp add: attempts_ok_def locked_attempts_def lockoutThreshold_def)

definition locked_world :: world where
  "locked_world = auth_world [(global_attempts_path ex_inst, ex_file 384 (Text ''7 1700001000''))]"

lemma locked_world_attempts: "attempts_at locked_world (global_attempts_path ex_inst) = Some locked_attempts"
proof -
  have "parse_attempts ''7 1700001000'' = Inr locked_attempts"
    by (simp add: parse_attempts_def GoText.fields_def is_space_def code_def parse_int_def is_digit_def digits_val_def
        digit_val_def lockoutThreshold_def locked_attempts_def)
  then show ?thesis
    by (simp add: attempts_at_def private_text_def locked_world_def auth_exec exec)
qed

theorem locked_out_witness:
  "fst (authorize ex_service ''primary'' ScopeUpdate ex_code None (Some (\<lambda>_. retE ())) False locked_world) \<noteq> Inr ()"
proof -
  let ?run = "authorize ex_service ''primary'' ScopeUpdate ex_code None (Some (\<lambda>_. retE ())) False locked_world"
  have run: "?run = (fst ?run, snd ?run)" by simp
  have "sv_now ex_service w < at_locked locked_attempts" for w
    by (simp add: ex_now_def locked_attempts_def)
  from locked_out[OF locked_world_attempts this _ run] show ?thesis by simp
qed

theorem retry_after_bounded_witness:
  "\<exists>k. fst (RetryAfter ex_service ''primary'' ScopeUpdate locked_world) = Inr k \<and> 1 \<le> k \<and> k \<le> 86400"
  using retry_after_bounded[of ex_service "''primary''" ScopeUpdate locked_world] by (metis prod.collapse)

theorem other_scopes_untouched_witness:
  "counter_at (snd (authorize ex_service ''primary'' ScopeUpdate ex_code None (Some (\<lambda>_. retE ())) False (auth_world [])))
     (counter_path ex_inst ScopeBackup) = counter_at (auth_world []) (counter_path ex_inst ScopeBackup)"
proof -
  let ?run = "authorize ex_service ''primary'' ScopeUpdate ex_code None (Some (\<lambda>_. retE ())) False (auth_world [])"
  have run: "?run = (fst ?run, snd ?run)" by simp
  have "keeps (touches P) (retE ())" for P by (rule writes.keeps_retE)
  from other_scopes_untouched[OF run _ _ this, of ScopeBackup] show ?thesis by (simp add: validScope_def)
qed

theorem failed_callback_restores_witness:
  "attempts_at (snd (after_callback ex_inst ScopeUpdate 6 no_attempts (Inl (Msg ''refused'')) locked_world))
     (global_attempts_path ex_inst) = Some locked_attempts"
proof -
  let ?run = "after_callback ex_inst ScopeUpdate 6 no_attempts (Inl (Msg ''refused'')) locked_world"
  have run: "?run = (fst ?run, snd ?run)" by simp
  from failed_callback_restores[OF run] show ?thesis by (simp add: locked_world_attempts)
qed


theorem provision_keeps_secret_witness:
  "same_files (auth_world []) (snd (Provision ex_service ''primary'' (auth_world [])))"
proof -
  let ?run = "Provision ex_service ''primary'' (auth_world [])"
  have run: "?run = (fst ?run, snd ?run)" by simp
  have "look (auth_world []) (instance_path ex_service ''primary'' @ [''mutation.secret'']) \<noteq> None"
    by (simp add: auth_world_def ex_inst_def exec)
  from provision_keeps_secret[OF run this] show ?thesis .
qed

end
