(* ===== verification/RecoveryWitness.thy ===== *)
theory RecoveryWitness
  imports RecoveryLaws CoordWitness
begin

text \<open>The theorems of \<open>RecoveryLaws\<close> applied to a fresh host and to hosts in the middle of a
  restore.\<close>

definition ex_rc :: rcstore where
  "ex_rc = \<lparr>rc_dir = Some ex_dir\<rparr>"

lemma ex_rc_dir [simp]: "rc_dir ex_rc = Some ex_dir"
  by (simp add: ex_rc_def)

lemma ex_short [simp]: "short_authorities (ex_world fs)"
  by (simp add: short_authorities_def ex_world_def)

definition ex_hex :: string where
  "ex_hex = ''0123456789abcdef0123456789abcdef''"

definition ex_digest64 :: string where
  "ex_digest64 = ex_hex @ ex_hex"

definition ex_tx :: string where
  "ex_tx = ''transaction-1''"

definition ex_authority :: "string \<Rightarrow> rauthority" where
  "ex_authority ph = \<lparr>ra_state = \<lparr>rs_schema = 1, rs_instance = ''primary'', rs_host = ex_hex, rs_epoch = ex_hex,
       rs_tx = Some ex_tx, rs_phase = ph, rs_minimum = 5\<rparr>,
     ra_point = ex_point, ra_digest = ex_digest64, ra_restored = True, ra_http = (ph = ''http_ready''),
     ra_redis = ex_digest64, ra_prep = ex_digest64\<rparr>"

lemma ex_tokens [simp]: "hex32_ok ex_hex" "hex64_ok ex_digest64" "identifier_ok ex_tx" "ex_digest64 \<noteq> []"
  by (code_simp, code_simp, code_simp, code_simp)

lemma ex_authority_valid:
  "validate (ex_authority ''validating'') ''primary'' = Inr ()"
  "validate (ex_authority ''http_ready'') ''primary'' = Inr ()"
  by (simp_all add: validate_def ex_authority_def MinimumProtocol_def Let_def)

lemma ex_authority_json [simp]:
  "rauthority_of_json (rauthority_to_json (ex_authority ph)) = Some (ex_authority ph)"
  by (rule rauthority_roundtrip) (simp add: rauthority_in_range_def ex_authority_def)

definition authority_world :: "string \<Rightarrow> world" where
  "authority_world ph = ex_world [([], dir_node 493), (ex_dir, dir_node 448), (ex_dir @ [''recovery-control''], dir_node 448),
     (control_dir ex_dir ''primary'', dir_node 448),
     (authority_path ex_dir ''primary'', ex_file 384 (Json (rauthority_to_json (ex_authority ph)))),
     (floor_path ex_dir, ex_file 384 (Text floor_text))]"

lemma join_errs_none [simp]: "join_errs [None, None] = None"
  by simp

lemmas rc_exec = change_def change_locked_def commit_def atomic_def atomic_stage_def directory_def syncDir_def
  located_def CheckProtocol_def rcRead_def randomID_def control_dir_def PublicDir_def authority_path_def
  floor_path_def initialized_path_def public_path_def control_lock_def authority_world_def

lemma ex_floor [simp]: "parse_uint (trim floor_text) = Some 5" "floor_text \<noteq> []" "length floor_text = 2"
    "MinimumProtocol = 5"
proof -
  have "trim floor_text = ''5''" unfolding floor_text_def by (rule trim_newline) (simp add: is_space_def code_def)
  then show "parse_uint (trim floor_text) = Some 5"
    by (simp add: parse_uint_def is_digit_def digits_val_def digit_val_def code_def)
qed (simp_all add: floor_text_def MinimumProtocol_def)

lemma ex_authority_at:
  "validate (ex_authority ph) ''primary'' = Inr () \<Longrightarrow> authority_at ex_dir (authority_world ph) = Some (ex_authority ph)"
  by (simp add: authority_at_def rc_exec exec)

lemma same_run: "m w = (fst (m w), snd (m w))"
  by simp


lemma ex_open: "authority_at ex_dir (snd (OpenHTTP ex_rc ''primary'' ex_tx (authority_world ''validating''))) =
    Some (ex_authority ''http_ready'')"
proof -
  have tx: "rs_tx (ra_state (ex_authority ''validating'')) = Some ex_tx"
    "rs_phase (ra_state (ex_authority ''validating'')) = ''validating''"
    "ra_restored (ex_authority ''validating'')" "ra_redis (ex_authority ''validating'') \<noteq> []"
    "ra_prep (ex_authority ''validating'') \<noteq> []"
    by (simp_all add: ex_authority_def)
  have nx: "(ex_authority ''validating'')\<lparr>ra_http := True,
      ra_state := (ra_state (ex_authority ''validating''))\<lparr>rs_phase := ''http_ready''\<rparr>\<rparr> = ex_authority ''http_ready''"
    by (simp add: ex_authority_def)
  show ?thesis
    by (simp add: OpenHTTP_def open_mutate_def tx nx ex_authority_valid authority_at_def rc_exec exec)
qed



lemma ex_retry_begin: "rcBegin ex_rc ''primary'' ex_point ex_tx ex_digest64 (authority_world ''validating'') =
    (Inr (ex_authority ''validating''),
     snd (rcBegin ex_rc ''primary'' ex_point ex_tx ex_digest64 (authority_world ''validating'')))"
proof (rule run_split)
  have tx: "rs_tx (ra_state (ex_authority ''validating'')) = Some ex_tx"
    "ra_point (ex_authority ''validating'') = ex_point" "ra_digest (ex_authority ''validating'') = ex_digest64"
    by (simp_all add: ex_authority_def)
  show "fst (rcBegin ex_rc ''primary'' ex_point ex_tx ex_digest64 (authority_world ''validating'')) =
      Inr (ex_authority ''validating'')"
    by (simp add: rcBegin_def begin_mutate_def tx ex_authority_valid rc_exec exec)
qed



end
