(* ===== verification/ManagerWitness.thy ===== *)
theory ManagerWitness
  imports Exclusion ReconcileLaws LazyRun AuthWitness RecoveryWitness
begin

text \<open>The theorems about the operation manager applied to a manager whose deployment succeeds at
  everything, on a host whose instance has an authorization secret, a recovery authority and a
  plan.\<close>

section \<open>A manager\<close>

definition ex_deployment :: "unit host deployment" where
  "ex_deployment = \<lparr>dp_resolve = (\<lambda>_. retE zero_release), dp_preflight = (\<lambda>_ _. retE ()), dp_pull = (\<lambda>_ _. retE ()),
     dp_quiesce = (\<lambda>_. retE ()), dp_point = (\<lambda>_ _. retE ex_point), dp_migrate = (\<lambda>_ _. retE ()),
     dp_activate = (\<lambda>_ _. retE ()), dp_rollback = (\<lambda>_ _. retE ()), dp_resume = (\<lambda>_. retE ()), dp_verify = (\<lambda>_. retE ()),
     dp_freeze = None, dp_quiesce_recovery = None, dp_planned = None\<rparr>"

definition ex_snapshot :: snapshot where
  "ex_snapshot = \<lparr>sn_baseline = replicate 64 CHR ''f'', sn_maintenance = False, sn_continuation = ''remote'',
     sn_details = None, sn_target = None, sn_plan = []\<rparr>"

definition ex_services :: "unit host services" where
  "ex_services = \<lparr>mp_base = ex_deployment, mp_quiesce_recovery = (\<lambda>_ _. retE ()), mp_validate_point = (\<lambda>_ _. retE ()),
     mp_list_points = (\<lambda>_. retE []), mp_snapshot = Some (\<lambda>_ _ _. retE ex_snapshot), mp_preview = None,
     mp_reconcile = None, mp_switch_back = None\<rparr>"

definition ex_manager :: "unit manager" where
  "ex_manager = \<lparr>mg_dir = Some ex_dir, mg_engine = \<lparr>en_deployment = Some ex_deployment, en_now = (\<lambda>h. (0, h))\<rparr>,
     mg_deployment = Some ex_services, mg_now = (\<lambda>_. 60 * second_ns), mg_coordination = None,
     mg_sha = (\<lambda>_. replicate 64 CHR ''a''), mg_marshal = (\<lambda>_. JNull), mg_unmarshal = (\<lambda>_. Some ex_snapshot)\<rparr>"

definition ex_auth :: service where
  "ex_auth = ex_service\<lparr>sv_now := (\<lambda>_. 60)\<rparr>"

definition ex_host :: "world \<Rightarrow> unit host" where
  "ex_host w = \<lparr>ho_world = w, ho_active = [], ho_locked = [], ho_op = zero_operation, ho_receipt = zero_receipt, ho_started = zero_operation,
     ho_jobs = [], ho_dep = ()\<rparr>"

lemma ex_manager_store [simp]: "coordinationStore ex_manager = ex_store" "standard ex_manager"
  by (simp_all add: coordinationStore_def ex_manager_def ex_store_def manager_dir_def standard_def)

section \<open>A submission\<close>

definition backup_plan :: plan where
  "backup_plan = \<lparr>pl_schema = 2, pl_instance = ''primary'', pl_id = ex_plan_id, pl_sha = replicate 64 CHR ''a'',
     pl_baseline = replicate 64 CHR ''f'', pl_epoch = ex_hex, pl_action = ''backup'',
     pl_actor = ex_actor, pl_expires = 120 * second_ns, pl_maintenance = False, pl_continuation = ''remote'',
     pl_point = [], pl_details = None, pl_snapshot = Some JNull\<rparr>"

definition ex_submit :: submit_request where
  "ex_submit = \<lparr>sr_action = ''backup'', sr_plan = ex_plan_id, sr_plan_sha = replicate 64 CHR ''a'', sr_epoch = ex_hex,
     sr_allow_maintenance = False, sr_confirm_host = False, sr_request = ex_request, sr_actor = ex_actor,
     sr_scope = wire_scope ''backup''\<rparr>"

lemma ex_request_ok [simp]: "submit_valid ex_submit" "sr_request ex_submit = ex_request" "sr_action ex_submit = ''backup''"
  "sr_plan ex_submit = ex_plan_id" "sr_epoch ex_submit = ex_hex"
  by (code_simp, simp_all add: ex_submit_def)


section \<open>Running the submission\<close>

lemma ex_manager_simps [simp]:
  "mg_dir ex_manager = Some ex_dir" "mg_now ex_manager h = 60 * second_ns" "mg_deployment ex_manager = Some ex_services"
  by (simp_all add: ex_manager_def)

lemma ex_instance [simp]: "instance_id_ok ''primary''"
  by (rule ex_instance_ok)

lemma ex_stamp: "time_stamp (60 * second_ns) = ''19700101T000100.000000000Z''"
  by (code_simp)

definition ex_new_id :: string where
  "ex_new_id = ''19700101T000100.000000000Z-0001020304050607''"

lemma ex_new_ids [simp]: "op_id_ok ex_new_id"
  by code_simp

lemma ex_bytes: "map (\<lambda>i. i mod 256) [0..<8] = [0, 1, 2, 3, 4, 5, 6, 7]" "map ((\<lambda>n. n mod 256) \<circ> (+) 0) [0..<8] = [0, 1, 2, 3, 4, 5, 6, 7::nat]"
  "hex_encode [0, Suc 0, 2, 3, 4, 5, 6, 7] = ''0001020304050607''"
  by (code_simp, code_simp, code_simp)

lemma ex_newID: "w_rnd (ho_world h) = (\<lambda>n. n) \<Longrightarrow> w_fault (ho_world h) = (\<lambda>_. FOk) \<Longrightarrow> w_rix (ho_world h) = 0 \<Longrightarrow>
    newID ex_manager h = (Inr ex_new_id, h\<lparr>ho_world := (ho_world h)\<lparr>w_tick := Suc (w_tick (ho_world h)), w_rix := 8\<rparr>\<rparr>)"
  by (simp add: lazy_manager lazy_monad lazy_files ex_stamp ex_bytes ex_new_id_def newID_def cong: lazy_cong)

lemmas host_worlds = auth_world_def ex_inst_def ex_host_def
   control_dir_def authority_path_def plan_path_def world_exec ex_names ex_request_def ex_plan_id_def 

definition submit_world :: world where
  "submit_world = auth_world
    [(ex_inst @ [''operations''], ex_file 416 (Text [])), (plan_path ex_store ex_plan_id, ex_file 384 (Json (plan_to_json backup_plan))),
     (authority_path ex_dir ''primary'', ex_file 384 (Json (rauthority_to_json (initial_authority ''primary'' ex_hex ex_hex))))]"

definition first_admission :: admission where
  "first_admission = (submitted_admission ex_manager ''primary'' ex_submit 3 backup_plan
     (queued_operation ex_new_id ''primary'' KindBackup [] (60 * second_ns)) (60 * second_ns))\<lparr>ad_sequence := 1\<rparr>"

lemma backup_plan_simps [simp]:
  "plan_of_json (plan_to_json backup_plan) = Some backup_plan" "plan_valid (st_sha ex_store) backup_plan"
  "pl_instance backup_plan = ''primary''" "pl_id backup_plan = ex_plan_id" "pl_action backup_plan = ''backup''"
  "pl_point backup_plan = []" "pl_epoch backup_plan = ex_hex" "plan_confirmed ex_submit backup_plan"
  "plan_matches ex_submit backup_plan (60 * second_ns)" "60 * second_ns < pl_expires backup_plan"
  "same_baseline ex_manager ex_snapshot backup_plan = Inr ex_snapshot"
  by (rule plan_roundtrip, code_simp, code_simp, simp_all add: backup_plan_def plan_confirmed_def plan_matches_def ex_submit_def second_ns_def
    same_baseline_def ex_snapshot_def ex_manager_def)

lemma fresh_authority [simp]:
  "rauthority_of_json (rauthority_to_json (initial_authority ''primary'' ex_hex ex_hex)) = Some (initial_authority ''primary'' ex_hex ex_hex)"
  "validate (initial_authority ''primary'' ex_hex ex_hex) ''primary'' = Inr ()"
  "rs_epoch (ra_state (initial_authority ''primary'' ex_hex ex_hex)) = ex_hex"
  "rs_phase (ra_state (initial_authority ''primary'' ex_hex ex_hex)) = ''ready''"
  by (rule rauthority_roundtrip, code_simp, code_simp, simp_all add: initial_authority_def)

lemma ex_control [simp]: "located (control_store ex_manager) ''primary'' = Inr ex_dir"
  by (simp add: located_def control_store_def manager_dir_def ex_manager_def)

lemma ex_window [simp]: "wrap64 (unix_counter (60 * second_ns) - 1) = 1" "wrap64 (unix_counter (60 * second_ns) + 1) = 3"
  by (code_simp, code_simp)

lemma first_record: "(submitted_admission ex_manager ''primary'' ex_submit 3 backup_plan
     (queued_operation ex_new_id ''primary'' KindBackup [] (60 * second_ns)) (60 * second_ns))\<lparr>ad_sequence := 1\<rparr> = first_admission"
  by (simp add: first_admission_def)

lemma first_fields [simp]:
  "ad_instance first_admission = ''primary''" "ad_request first_admission = ex_request" "ad_operation_id first_admission = ex_new_id"
  "ad_scope first_admission = ''backup''"  "ad_business first_admission = business_sha (mg_sha ex_manager) ex_submit"
  "ad_action first_admission = ''backup''" "ad_sequence first_admission = 1"
  "ad_operation first_admission = Some (operation_to_json (queued_operation ex_new_id ''primary'' KindBackup [] (60 * second_ns)))"
  by (simp_all add: first_admission_def submitted_admission_def ex_submit_def queued_operation_def scope_def)

lemma first_range: "operation_in_range (queued_operation ex_new_id ''primary'' KindBackup [] (60 * second_ns))"
  by (simp add: operation_in_range_def queued_operation_def zero_operation_def)

lemma first_admission_simps [simp]:
  "admission_of_json (admission_to_json first_admission) = Some first_admission"
  "admissionOperation first_admission = Inr (queued_operation ex_new_id ''primary'' KindBackup [] (60 * second_ns))"
  "admission_valid first_admission"
proof -
  show "admission_of_json (admission_to_json first_admission) = Some first_admission"
    by (rule admission_roundtrip)
       (simp_all add: admission_in_range_def first_admission_def submitted_admission_def backup_plan_def ex_actor_def)
  show "admissionOperation first_admission = Inr (queued_operation ex_new_id ''primary'' KindBackup [] (60 * second_ns))"
    by (simp add: admissionOperation_def operation_roundtrip[OF first_range])
       (simp add: queued_operation_def action_kind_def KindBackup_def zero_time_def second_ns_def maximumOperationStages_def known_status_def)
  show "admission_valid first_admission"
    by code_simp
qed

lemma ex_planner [simp]: "mp_snapshot ex_services = Some (\<lambda>_ _ _. retE ex_snapshot)" by (simp add: ex_services_def)

lemma ex_draft [simp]: "ad_instance (submitted_admission ex_manager ''primary'' ex_submit 3 backup_plan x t) = ''primary''"
 "ad_request (submitted_admission ex_manager ''primary'' ex_submit 3 backup_plan x t) = ex_request"
 "ad_scope (submitted_admission ex_manager ''primary'' ex_submit 3 backup_plan x t) = ''backup''"
 "ad_counter (submitted_admission ex_manager ''primary'' ex_submit 3 backup_plan x t) = 3"
 by (simp_all add: submitted_admission_def scope_def)

lemma ex_queued [simp]: "on_id (queued_operation a b c d e) = a" "on_instance (queued_operation a b c d e) = b"
  "bound_operation (queued_operation a b c d e) = queued_operation a b c d e"
  by (simp_all add: queued_operation_def bound_operation_def zero_operation_def boundedOperationStages_def boundedOperationMessage_def)

lemma ex_auth_simps [simp]: "sv_now ex_auth = (\<lambda>_. 60)" "sv_dir ex_auth = Some ex_dir" "sv_hmac1 ex_auth = sv_hmac1 ex_service"
  "sv_hmac256 ex_auth = sv_hmac256 ex_service" "coordination_store ex_auth = coordination_store ex_service"
  "instance_path ex_auth ''primary'' = ex_inst"
  by (simp_all add: ex_auth_def coordination_store_def instance_path_def service_dir_def ex_service_def ex_inst_def ex_dir_def)

lemma ex_matched: "match_counter ex_auth (ex_scoped ScopeBackup) ex_code 60 w = (Inr 3, w)"
proof -
  have v: "validScope ScopeBackup" by (simp add: validScope_def)
  show ?thesis using ex_derive[OF v, of 1] ex_derive[OF v, of 2] ex_derive[OF v, of 3]
  by (simp add: match_counter_def try_candidate_def go_div_def auth_period_def monad_exec)
qed

lemma ex_scope [simp]: "scope_of_name (scope ''backup'') = ScopeBackup" "validScope ScopeBackup"
  by (simp_all add: scope_of_name_def scope_def validScope_def)

lemma first_decoded [simp]: "operation_decode True (operation_to_json (queued_operation ex_new_id ''primary'' KindBackup [] (60 * second_ns))) = Some (queued_operation ex_new_id ''primary'' KindBackup [] (60 * second_ns))"
  by (rule operation_roundtrip[OF first_range])

lemma backup_record: "(submitted_admission ex_manager ''primary'' ex_submit 3 backup_plan
     (queued_operation ex_new_id ''primary'' ''backup'' [] (60 * second_ns)) (60 * second_ns))\<lparr>ad_sequence := 1\<rparr> = first_admission"
  by (simp add: first_admission_def KindBackup_def)

lemma ex_wrap [simp]: "wrap64 (-1) = -1" "wrap64 0 = 0" by (code_simp, code_simp)

lemma ex_secret: "deriveSecret (\<lambda>k m. replicate 32 7) ex_master ScopeBackup = Inr (ex_scoped ScopeBackup)"
  using ex_derive[OF ex_scope(2), THEN conjunct1] .

text \<open>The private lock file exists.\<close>

definition lock_world :: world where
  "lock_world = set_node (ex_inst @ [''mutation.lock'']) (file_node 384) submit_world"
lemmas submit_exec = lazy host_worlds submit_world_def lock_world_def ex_newID backup_record ex_matched ex_new_ids ex_secret

lemma lookup_free: "lookup_request ex_manager ''primary'' ex_submit (ex_host (submit_world\<lparr>w_tick := t\<rparr>)) = (Inr False, ex_host (submit_world\<lparr>w_tick := t + 1\<rparr>))"
  by (simp add: submit_exec cong: lazy_cong)

lemma lookup_locked: "lookup_request ex_manager ''primary'' ex_submit (ex_host (lock_world\<lparr>w_tick := t\<rparr>)) = (Inr False, ex_host (lock_world\<lparr>w_tick := t + 1\<rparr>))"
  by (simp add: submit_exec cong: lazy_cong)

lemma instance_dir: "instanceDir ex_auth ''primary'' (submit_world\<lparr>w_tick := t\<rparr>) = (Inr ex_inst, (submit_world\<lparr>w_tick := t + 1\<rparr>))"
  by (simp add: submit_exec cong: lazy_cong)

lemma lock_taken: "openPrivateLock (ex_inst @ [''mutation.lock'']) (submit_world\<lparr>w_tick := t\<rparr>) = (Inr (), (lock_world\<lparr>w_tick := t + 3\<rparr>))"
  by (simp add: submit_exec cong: lazy_cong)

lemma attempt_matched: "match_attempt ex_auth ''primary'' ex_inst ScopeBackup ex_code (lock_world\<lparr>w_tick := t\<rparr>) = (Inr \<lparr>am_global = no_attempts, am_scoped = no_attempts, am_now = 60,
               am_last = - 1, am_matched = 3\<rparr>, lock_world\<lparr>w_tick := t + 6\<rparr>)"
  by (simp add: submit_exec cong: lazy_cong)

lemma attempts_cleared: "(remainingGlobalAttemptState ex_inst ScopeBackup) (lock_world\<lparr>w_tick := t\<rparr>) = (Inr no_attempts, lock_world\<lparr>w_tick := t + 2\<rparr>)"
  by (simp add: submit_exec cong: lazy_cong)

lemma callback_runs: "\<not> isl (fst (submit_callback ex_manager ''primary'' ex_submit 3 (ex_host (lock_world\<lparr>w_tick := t\<rparr>))))"
  by (simp add: submit_exec cong: lazy_cong)

lemma success_unit: "\<not> isl (fst p) \<Longrightarrow> (\<And>h. p = (Inr (), h) \<Longrightarrow> P) \<Longrightarrow> P"
  by (cases p; cases "fst p") auto

lemma ex_host_world [simp]: "ho_world (ex_host w) = w" "(ex_host w)\<lparr>ho_world := v\<rparr> = ex_host v"
  "(ex_host w)\<lparr>ho_receipt := zero_receipt\<rparr> = ex_host w"
  by (simp_all add: ex_host_def)

lemma ex_flock: "flock p (lock_world\<lparr>w_tick := t\<rparr>) = (Inr (), lock_world\<lparr>w_tick := Suc t\<rparr>)"
  by (simp add: submit_exec cong: lazy_cong)

lemma ex_submit_tick: "submit_world = submit_world\<lparr>w_tick := 0\<rparr>"
  by (simp add: submit_world_def auth_world_def ex_world_def)

lemma submit_run: "\<not> isl (fst (Submit ex_manager (Some (admission_authorizer ex_auth)) ''primary'' ex_submit ex_code (ex_host submit_world)))"
proof -
  obtain h where cb: "submit_callback ex_manager ''primary'' ex_submit 3 (ex_host (lock_world\<lparr>w_tick := 15\<rparr>)) = (Inr (), h)"
    by (rule success_unit[OF callback_runs])
  show ?thesis
    by (subst ex_submit_tick)
       (simp add: Submit_def[THEN fun_cong] admission_authorizer_def host_authorize_def[THEN fun_cong] host_under_lock_def[THEN fun_cong]
          host_locked_section_def[THEN fun_cong] host_check_code_def[THEN fun_cong] host_accept_code_def[THEN fun_cong] getReceipt_def
          lazy_monad onW_def lookup_free lookup_locked instance_dir lock_taken attempt_matched attempts_cleared ex_flock cb cong: lazy_cong)
qed



section \<open>Operations\<close>

lemma ex_keeps: "services_keep R ex_manager" if f: "frame R" for R
proof -
  have r: "keeps R (retE x)" for x by (rule frame.keeps_retE[OF f])
  have d: "deployment_keeps R ex_deployment"
    by (simp add: deployment_keeps_def ex_deployment_def r)
  have t: "keeps R (liftR (\<lambda>h. (0::int, h)))"
    using frame.refl[OF f] by (simp add: keeps_def liftR_def)
  show ?thesis
    by (simp add: services_keep_def engine_keeps_def ex_manager_def ex_services_def d r t)
qed

definition ex_operation :: operation where
  "ex_operation = queued_operation ex_op_id ''primary'' KindVerify [] 0"



section \<open>A started operation\<close>

text \<open>What a start does before it saves its operation, and the first part of saving it.\<close>

definition ex_queue :: operation where
  "ex_queue = queued_operation ex_new_id ''primary'' KindVerify [] (60 * second_ns)"

definition ex_begun :: "(unit host, unit) act" where
  "ex_begun = bindE (acquireLock ex_manager ''primary'') (\<lambda>_. bindE (onW (repairAdmissions ex_manager ''primary'')) (\<lambda>_.
     bindE (check_current ex_manager ''primary'' KindVerify) (\<lambda>_. bindE (newID ex_manager) (\<lambda>op.
     bindE (modifyOp (\<lambda>_. queued_operation op ''primary'' KindVerify [] (60 * second_ns))) (\<lambda>_.
     bindE getOp (\<lambda>x. onW (beginLegacy ex_store ''primary'' op (operation_to_json x))))))))"

definition ex_projected :: "unit io" where
  "ex_projected = bindE (mkdir_all (operationsDir ex_manager ''primary'') 488) (\<lambda>_.
     updateOperation ex_store ''primary'' ex_new_id (operation_to_json ex_queue))"

definition begins :: "world \<Rightarrow> bool" where
  "begins u \<longleftrightarrow> (\<exists>h w. ex_begun (ex_host u) = (Inr (), h) \<and> ho_op h = ex_queue \<and>
    ex_projected (ho_world h) = (Inr (), w) \<and> ready w (operation_path ex_manager ''primary'' ex_new_id) \<and>
    (\<forall>w'. w_fault w' = w_fault w \<and> w_rnd w' = w_rnd w \<and> w_rix w' = Suc (w_rix w) \<and>
       (\<forall>q. q \<noteq> operation_path ex_manager ''primary'' ex_new_id \<longrightarrow> look w' q = look w q) \<longrightarrow>
       ready w' (currentPath ex_manager ''primary'')))"

lemma start_begun: "begins fresh_world"
  by (simp add: begins_def ex_begun_def[THEN fun_cong] ex_projected_def[THEN fun_cong] lazy host_worlds fresh_world_def ex_newID
      head_roundtrip head_valid_def ready_def ex_queue_def ex_new_id_def ex_new_ids[unfolded ex_new_id_def] cong: lazy_cong)

lemma save_succeeds:
  assumes "ho_op h = x" and "bound_operation x = x"
    and "bindE (mkdir_all (operationsDir m (on_instance x)) 488) (\<lambda>_.
      updateOperation (coordinationStore m) (on_instance x) (on_id x) (operation_to_json x)) (ho_world h) = (Inr (), w)"
    and "ready w (operation_path m (on_instance x) (on_id x))"
    and "\<forall>w'. w_fault w' = w_fault w \<and> w_rnd w' = w_rnd w \<and> w_rix w' = Suc (w_rix w) \<and>
       (\<forall>q. q \<noteq> operation_path m (on_instance x) (on_id x) \<longrightarrow> look w' q = look w q) \<longrightarrow>
       ready w' (currentPath m (on_instance x))"
  shows "\<exists>h'. saveOperation m h = (Inr (), h') \<and> ho_op h' = x"
proof -
  let ?c = "Json (operation_to_json x)"
  from assms(3)[THEN bindE_Inr[THEN iffD1]] obtain w1 where w1: "mkdir_all (operationsDir m (on_instance x)) 488 (ho_world h) = (Inr (), w1)"
    "updateOperation (coordinationStore m) (on_instance x) (on_id x) (operation_to_json x) w1 = (Inr (), w)" by auto
  from replace_runs[OF assms(4), of ?c] obtain w2 where w2: "replaceContents (operation_path m (on_instance x) (on_id x)) ?c w = (Inr (), w2)"
    and e: "w_fault w2 = (\<lambda>_. FOk)" "w_rnd w2 = w_rnd w" "w_rix w2 = Suc (w_rix w)"
      "\<forall>q. q \<noteq> operation_path m (on_instance x) (on_id x) \<longrightarrow> look w2 q = look w q" by blast
  have "w_fault w = (\<lambda>_. FOk)" using assms(4) by (simp add: ready_def)
  with assms(5) e have r: "ready w2 (currentPath m (on_instance x))" by simp
  from replace_runs[OF r, of ?c] obtain w3 where w3: "replaceContents (currentPath m (on_instance x)) ?c w2 = (Inr (), w3)" by blast
  have h: "h\<lparr>ho_op := x\<rparr> = h" using assms(1) by (metis host.surjective host.update_convs(4))
  show ?thesis
    by (simp add: saveOperation_def[THEN fun_cong] lazy_monad modifyOp_def getOp_def onW_def assms(1,2) h w1 w2 w3
        cong: lazy_cong)
qed

lemma start_runs_at:
  assumes "begins u"
  shows "\<not> isl (fst (StartVerify ex_manager ''primary'' (ex_host u)))"
proof -
  let ?q = "\<lambda>op. queued_operation op ''primary'' KindVerify [] (60 * second_ns)"
  from assms[unfolded begins_def] obtain h w where b: "ex_begun (ex_host u) = (Inr (), h)" and op: "ho_op h = ex_queue"
    and save: "ex_projected (ho_world h) = (Inr (), w)" "ready w (operation_path ex_manager ''primary'' ex_new_id)"
    "\<forall>w'. w_fault w' = w_fault w \<and> w_rnd w' = w_rnd w \<and> w_rix w' = Suc (w_rix w) \<and>
       (\<forall>q. q \<noteq> operation_path ex_manager ''primary'' ex_new_id \<longrightarrow> look w' q = look w q) \<longrightarrow>
       ready w' (currentPath ex_manager ''primary'')" by blast
  have q: "on_instance ex_queue = ''primary''" "on_id ex_queue = ex_new_id" "bound_operation ex_queue = ex_queue"
    by (simp_all add: ex_queue_def)
  from save_succeeds[OF op q(3), of ex_manager w] save obtain h' where s: "saveOperation ex_manager h = (Inr (), h')"
    by (auto simp: q ex_projected_def)
  from b[unfolded ex_begun_def, THEN bindE_Inr[THEN iffD1]] obtain h1 where
    r1: "acquireLock ex_manager ''primary'' (ex_host u) = (Inr (), h1)" and
    b1: "bindE (onW (repairAdmissions ex_manager ''primary'')) (\<lambda>_.
     bindE (check_current ex_manager ''primary'' KindVerify) (\<lambda>_. bindE (newID ex_manager) (\<lambda>op.
     bindE (modifyOp (\<lambda>_. ?q op)) (\<lambda>_. bindE getOp (\<lambda>x. onW (beginLegacy ex_store ''primary'' op (operation_to_json x))))))) h1 =
     (Inr (), h)" by auto
  from b1[THEN bindE_Inr[THEN iffD1]] obtain h2 where
    r2: "onW (repairAdmissions ex_manager ''primary'') h1 = (Inr (), h2)" and
    b2: "bindE (check_current ex_manager ''primary'' KindVerify) (\<lambda>_. bindE (newID ex_manager) (\<lambda>op.
     bindE (modifyOp (\<lambda>_. ?q op)) (\<lambda>_. bindE getOp (\<lambda>x. onW (beginLegacy ex_store ''primary'' op (operation_to_json x)))))) h2 =
     (Inr (), h)" by auto
  from b2[THEN bindE_Inr[THEN iffD1]] obtain h3 where
    r3: "check_current ex_manager ''primary'' KindVerify h2 = (Inr (), h3)" and
    b3: "bindE (newID ex_manager) (\<lambda>op.
     bindE (modifyOp (\<lambda>_. ?q op)) (\<lambda>_. bindE getOp (\<lambda>x. onW (beginLegacy ex_store ''primary'' op (operation_to_json x))))) h3 =
     (Inr (), h)" by auto
  from b3[THEN bindE_Inr[THEN iffD1]] obtain i h4 where r4: "newID ex_manager h3 = (Inr i, h4)" and
    b4: "bindE (modifyOp (\<lambda>_. ?q i)) (\<lambda>_. bindE getOp (\<lambda>x. onW (beginLegacy ex_store ''primary'' i (operation_to_json x)))) h4 =
     (Inr (), h)" by blast
  then have b5: "bindE getOp (\<lambda>x. onW (beginLegacy ex_store ''primary'' i (operation_to_json x))) (h4\<lparr>ho_op := ?q i\<rparr>) = (Inr (), h)"
    by (simp add: bindE_step[of "modifyOp _"] modifyOp_def)
  have "accept_operation ex_manager ''primary'' KindVerify [] (retE ()) None h1 = (Inr (ho_op h', ()), h')"
    using r2 r3 r4 b5 s
    by (simp add: accept_operation_def[THEN fun_cong] bindE_def now_def modifyOp_def getOp_def retE_def)
  moreover have "active_id (ex_host u) ''primary'' = []" by (simp add: active_id_def ex_host_def)
  ultimately show ?thesis
    by (simp add: StartVerify_def start_legacy_def startAccepted_def r1 checkE_def spawn_def bindE_def retE_def)
qed

lemmas start_runs = start_runs_at[OF start_begun]

lemma started_job: "\<exists>h x. reachable ex_manager ex_auth h \<and> (''primary'', x, RunVerify) \<in> set (ho_jobs h)"
proof -
  let ?run = "StartVerify ex_manager ''primary'' (ex_host fresh_world)"
  have run: "?run = (fst ?run, snd ?run)" by simp
  have "reachable ex_manager ex_auth (ex_host fresh_world)"
    by (rule reachable.idle) (simp_all add: ex_host_def)
  then have r: "reachable ex_manager ex_auth (snd ?run)"
    by (rule reachable.more) (rule step.verify[OF run])
  have "keeps same_process (retE ())" "plain_accept None" by (simp_all add: process.keeps_retE plain_accept_def)
  from startAccepted_cases[OF run[unfolded StartVerify_def start_legacy_def] this] start_runs
  have "\<exists>x. (''primary'', x, RunVerify) \<in> set (ho_jobs (snd ?run))"
    by (auto simp: StartVerify_def start_legacy_def)
  with r show ?thesis by blast
qed


theorem lock_is_released_witness:
  "\<exists>h. reachable ex_manager ex_auth h \<and> ''primary'' \<notin> set (ho_locked h)"
proof -
  from started_job obtain h x where h: "reachable ex_manager ex_auth h" "(''primary'', x, RunVerify) \<in> set (ho_jobs h)"
    by blast
  from lock_is_released[OF h(1) ex_keeps[OF process.frame_axioms] h(2)] h(1) show ?thesis
    by (blast intro: reachable.more)
qed

section \<open>A saved operation\<close>

definition ex_head :: head where
  "ex_head = \<lparr>hd_schema = 2, hd_instance = ''primary'', hd_sequence = 1, hd_origin = ''legacy'', hd_operation_id = ex_op_id,
     hd_operation = Some JNull\<rparr>"

definition headed_world :: world where
  "headed_world = ex_world [(ex_dir, dir_node 448), (ex_dir @ [''coordination''], dir_node 448),
     (ex_dir @ [''coordination'', ''primary''], dir_node 448), (head_path ex_store, ex_file 384 (Json (head_to_json ex_head)))]"

definition saving_host :: "unit host" where
  "saving_host = (ex_host headed_world)\<lparr>ho_op := ex_operation\<rparr>"

lemma ex_head_simps [simp]: "head_of_json (head_to_json ex_head) = Some ex_head" "head_valid ex_head"
  "head_valid (ex_head\<lparr>hd_operation := Some j\<rparr>)" "hd_instance ex_head = ''primary''"
  "hd_operation_id ex_head = ex_op_id" "hd_sequence ex_head = 1" "hd_origin ex_head = ''legacy''"
  by (rule head_roundtrip, simp_all add: ex_head_def head_valid_def)

definition ex_saved :: "unit io" where
  "ex_saved = bindE (mkdir_all (operationsDir ex_manager ''primary'') 488) (\<lambda>_.
     updateOperation ex_store ''primary'' ex_op_id (operation_to_json ex_operation))"

lemma save_begun: "\<exists>w. ex_saved headed_world = (Inr (), w) \<and> ready w (operation_path ex_manager ''primary'' ex_op_id) \<and>
    (\<forall>w'. w_fault w' = w_fault w \<and> w_rnd w' = w_rnd w \<and> w_rix w' = Suc (w_rix w) \<and>
       (\<forall>q. q \<noteq> operation_path ex_manager ''primary'' ex_op_id \<longrightarrow> look w' q = look w q) \<longrightarrow>
       ready w' (currentPath ex_manager ''primary''))"
  by (simp add: ex_saved_def[THEN fun_cong] lazy host_worlds headed_world_def head_path_def ready_def ex_operation_def ex_op_id_def
      ex_ids(2)[unfolded ex_op_id_def] cong: lazy_cong)

lemma save_runs: "\<not> isl (fst (saveOperation ex_manager saving_host))"
proof -
  have q: "on_instance ex_operation = ''primary''" "on_id ex_operation = ex_op_id" "bound_operation ex_operation = ex_operation"
    "ho_op saving_host = ex_operation" "ho_world saving_host = headed_world"
    by (simp_all add: ex_operation_def saving_host_def ex_host_def)
  from save_begun save_succeeds[OF q(4,3), of ex_manager] show ?thesis
    by (auto simp: q ex_saved_def)
qed


end
