(* ===== verification/UpdateLaws.thy ===== *)
theory UpdateLaws
  imports Update
begin

text \<open>
  The order the update engine promises. A deployment and an observer are wrapped so that
  every call and every stage is appended to a log next to the state (\<open>logged_engine\<close>); the
  wrapping changes no outcome. The protocol is an automaton over the events, written
  independently of the engine; the engine refines it, and the ordering properties are facts
  about the automaton.
\<close>

section \<open>The log\<close>

datatype dcall =
    CResolve | CPreflight | CPull | CQuiesce | CPoint string | CMigrate | CActivate
  | CRollback string string | CResume | CVerify | CFreeze string string
  | CQuiesceRecovery string | CPlanned

text \<open>A call and whether it succeeded, a created recovery point, a stage and whether the
  journal took it.\<close>

datatype event = Call dcall bool | Took string | Noted string string string bool

fun succeeded :: "err + 'a \<Rightarrow> bool" where
  "succeeded (Inl e) = False"
| "succeeded (Inr x) = True"

definition logging :: "(err + 'a \<Rightarrow> event) \<Rightarrow> ('w, 'a) act \<Rightarrow> ('w \<times> event list, 'a) act" where
  "logging ev m s = (case m (fst s) of (r, w') \<Rightarrow> (r, (w', snd s @ [ev r])))"

definition call_event :: "dcall \<Rightarrow> err + 'a \<Rightarrow> event" where
  "call_event c r = Call c (succeeded r)"

definition point_event :: "string \<Rightarrow> err + string \<Rightarrow> event" where
  "point_event l r = (case r of Inl e \<Rightarrow> Call (CPoint l) False | Inr pid \<Rightarrow> Took pid)"

definition stage_event :: "stage \<Rightarrow> err + 'a \<Rightarrow> event" where
  "stage_event s r = Noted (sg_name s) (sg_status s) (sg_message s) (succeeded r)"

definition logged_observer :: "'w observer \<Rightarrow> ('w \<times> event list) observer" where
  "logged_observer ob s = logging (stage_event s) (ob s)"

text \<open>A planned release hands the observer on: it sees the plain one again.\<close>

definition plain_observer :: "('w \<times> event list) observer \<Rightarrow> 'w observer" where
  "plain_observer ob s w = (case ob s (w, []) of (r, (w', l)) \<Rightarrow> (r, w'))"

definition logged_planned ::
  "(string \<Rightarrow> release \<Rightarrow> options \<Rightarrow> 'w observer option \<Rightarrow> 'w \<Rightarrow> result \<times> 'w) \<Rightarrow>
   string \<Rightarrow> release \<Rightarrow> options \<Rightarrow> ('w \<times> event list) observer option \<Rightarrow> 'w \<times> event list \<Rightarrow> result \<times> 'w \<times> event list" where
  "logged_planned f i t opt obs s =
     (case f i t opt (map_option plain_observer obs) (fst s) of
        (x, w') \<Rightarrow> (x, (w', snd s @ [Call CPlanned True])))"

definition logged_deployment :: "'w deployment \<Rightarrow> ('w \<times> event list) deployment" where
  "logged_deployment d =
     \<lparr>dp_resolve = (\<lambda>i. logging (call_event CResolve) (dp_resolve d i)),
      dp_preflight = (\<lambda>i t. logging (call_event CPreflight) (dp_preflight d i t)),
      dp_pull = (\<lambda>i t. logging (call_event CPull) (dp_pull d i t)),
      dp_quiesce = (\<lambda>i. logging (call_event CQuiesce) (dp_quiesce d i)),
      dp_point = (\<lambda>i l. logging (point_event l) (dp_point d i l)),
      dp_migrate = (\<lambda>i t. logging (call_event CMigrate) (dp_migrate d i t)),
      dp_activate = (\<lambda>i t. logging (call_event CActivate) (dp_activate d i t)),
      dp_rollback = (\<lambda>i q. logging (call_event (CRollback (rr_point q) (rr_transaction q))) (dp_rollback d i q)),
      dp_resume = (\<lambda>i. logging (call_event CResume) (dp_resume d i)),
      dp_verify = (\<lambda>i. logging (call_event CVerify) (dp_verify d i)),
      dp_freeze = map_option (\<lambda>f i q. logging (call_event (CFreeze (rr_point q) (rr_transaction q))) (f i q))
        (dp_freeze d),
      dp_quiesce_recovery = map_option (\<lambda>f i p. logging (call_event (CQuiesceRecovery p)) (f i p))
        (dp_quiesce_recovery d),
      dp_planned = map_option logged_planned (dp_planned d)\<rparr>"

definition logged_engine :: "'w engine \<Rightarrow> ('w \<times> event list) engine" where
  "logged_engine en =
     \<lparr>en_deployment = map_option logged_deployment (en_deployment en),
      en_now = (\<lambda>(w, l). case en_now en w of (t, w') \<Rightarrow> (t, (w', l)))\<rparr>"

section \<open>Logging changes no outcome\<close>

text \<open>\<open>sim m' m\<close>: the logged computation does to the state what the plain one does.\<close>

definition sim :: "('w \<times> event list, 'a) act \<Rightarrow> ('w, 'a) act \<Rightarrow> bool" where
  "sim m' m \<longleftrightarrow> (\<forall>w l. (case m' (w, l) of (r, (w', l')) \<Rightarrow> (r, w')) = m w)"

named_theorems sims \<open>simulation of the monad's operations\<close>

lemma sim_logging [sims]: "sim (logging ev m) m"
  by (simp add: sim_def logging_def split: prod.splits)

lemma sim_retE [sims]: "sim (retE x) (retE x)"
  by (simp add: sim_def retE_def)

lemma sim_failE [sims]: "sim (failE x) (failE x)"
  by (simp add: sim_def failE_def)

lemma sim_liftE [sims]: "sim (liftE x) (liftE x)"
  by (simp add: sim_def liftE_def)

lemma sim_run:
  assumes "sim m' m" and "m' (w, l) = (r, (w', l'))"
  shows "m w = (r, w')"
  using assms unfolding sim_def by (metis (no_types, lifting) case_prod_conv)

lemma sim_checkE [sims]:
  assumes m: "sim m' m" and h: "\<And>e. sim (h' e) (h e)" and f: "\<And>x. sim (f' x) (f x)"
  shows "sim (checkE m' h' f') (checkE m h f)"
  unfolding sim_def
proof (intro allI)
  fix w l
  obtain r w1 l1 where run: "m' (w, l) = (r, (w1, l1))" by (metis surj_pair)
  then have "m w = (r, w1)" by (rule sim_run[OF m])
  with run h f show "(case checkE m' h' f' (w, l) of (r, (w', l')) \<Rightarrow> (r, w')) = checkE m h f w"
    by (cases r) (simp_all add: checkE_def sim_def)
qed

lemma sim_bindE [sims]:
  assumes m: "sim m' m" and f: "\<And>x. sim (f' x) (f x)"
  shows "sim (bindE m' f') (bindE m f)"
  unfolding sim_def
proof (intro allI)
  fix w l
  obtain r w1 l1 where run: "m' (w, l) = (r, (w1, l1))" by (metis surj_pair)
  then have "m w = (r, w1)" by (rule sim_run[OF m])
  with run f show "(case bindE m' f' (w, l) of (r, (w', l')) \<Rightarrow> (r, w')) = bindE m f w"
    by (cases r) (simp_all add: bindE_def sim_def)
qed

lemma simI: "(\<And>w l r w' l'. m' (w, l) = (r, (w', l')) \<Longrightarrow> m w = (r, w')) \<Longrightarrow> sim m' m"
  by (simp add: sim_def split: prod.splits)

lemma sim_tryE [sims]: "sim m' m \<Longrightarrow> sim (tryE m') (tryE m)"
  by (rule simI) (auto simp: tryE_def dest: sim_run split: prod.splits)

lemma sim_wrapE [sims]:
  assumes "sim m' m"
  shows "sim (wrapE f m') (wrapE f m)"
proof (rule simI)
  fix w l r w' l'
  assume run: "wrapE f m' (w, l) = (r, (w', l'))"
  obtain r1 w1 l1 where m': "m' (w, l) = (r1, (w1, l1))" by (metis surj_pair)
  with assms have "m w = (r1, w1)" by (rule sim_run)
  with m' run show "wrapE f m w = (r, w')" by (cases r1) (auto simp: wrapE_def)
qed

lemma sim_ignoreE [sims]:
  assumes "sim m' m"
  shows "sim (ignoreE m') (ignoreE m)"
proof (rule simI)
  fix w l r w' l'
  assume run: "ignoreE m' (w, l) = (r, (w', l'))"
  obtain r1 w1 l1 where m': "m' (w, l) = (r1, (w1, l1))" by (metis surj_pair)
  with assms have "m w = (r1, w1)" by (rule sim_run)
  with m' run show "ignoreE m w = (r, w')" by (simp add: ignoreE_def)
qed

lemma sim_let [sims]: "(\<And>x. sim (f' x) (f x)) \<Longrightarrow> sim (let x = a in f' x) (let x = a in f x)"
  by simp

lemma sim_if [sims]: "sim m' m \<Longrightarrow> sim n' n \<Longrightarrow> sim (if b then m' else n') (if b then m else n)"
  by simp

lemma sim_sum [sims]:
  "(\<And>e. sim (f' e) (f e)) \<Longrightarrow> (\<And>x. sim (g' x) (g x)) \<Longrightarrow>
     sim (case r of Inl e \<Rightarrow> f' e | Inr x \<Rightarrow> g' x) (case r of Inl e \<Rightarrow> f e | Inr x \<Rightarrow> g x)"
  by (simp split: sum.splits)

lemma plain_logged [simp]: "plain_observer (logged_observer ob) = ob"
  by (intro ext) (simp add: plain_observer_def logged_observer_def logging_def split: prod.splits)

lemma sim_emit [sims]:
  "sim (emit (logged_engine en) (map_option logged_observer obs) n st m) (emit en obs n st m)"
  by (rule simI)
    (auto simp: emit_def logged_engine_def logged_observer_def logging_def Let_def split: option.splits prod.splits)

lemma sim_deployment [sims]:
  "sim (dp_resolve (logged_deployment d) i) (dp_resolve d i)"
  "sim (dp_preflight (logged_deployment d) i t) (dp_preflight d i t)"
  "sim (dp_pull (logged_deployment d) i t) (dp_pull d i t)"
  "sim (dp_quiesce (logged_deployment d) i) (dp_quiesce d i)"
  "sim (dp_point (logged_deployment d) i n) (dp_point d i n)"
  "sim (dp_migrate (logged_deployment d) i t) (dp_migrate d i t)"
  "sim (dp_activate (logged_deployment d) i t) (dp_activate d i t)"
  "sim (dp_rollback (logged_deployment d) i q) (dp_rollback d i q)"
  "sim (dp_resume (logged_deployment d) i) (dp_resume d i)"
  "sim (dp_verify (logged_deployment d) i) (dp_verify d i)"
  "sim (freeze_point (logged_deployment d) i q) (freeze_point d i q)"
  "sim (recovery_quiesce (logged_deployment d) i p) (recovery_quiesce d i p)"
  by (auto simp: logged_deployment_def freeze_point_def recovery_quiesce_def split: option.splits intro!: sims)

lemma sim_planned [sims]:
  assumes "dp_planned d = Some f"
  shows "sim (liftR (logged_planned f i t opt (map_option logged_observer obs))) (liftR (f i t opt obs))"
  by (rule simI)
    (auto simp: liftR_def logged_planned_def option.map_comp comp_def option.map_ident split: prod.splits)

text \<open>The helpers of the engine, with an emitter that simulates the plain one.\<close>

definition sim_emitter :: "('w \<times> event list) emitter \<Rightarrow> 'w emitter \<Rightarrow> bool" where
  "sim_emitter em' em \<longleftrightarrow> (\<forall>n st m. sim (em' n st m) (em n st m))"

lemma sim_emitterD: "sim_emitter em' em \<Longrightarrow> sim (em' n st m) (em n st m)"
  by (simp add: sim_emitter_def)

lemma sim_run_fail [sims]:
  assumes em: "sim_emitter em' em"
  shows "sim (run_fail em' s e) (run_fail em s e)"
  unfolding run_fail_def by (intro sims em sim_emitterD[OF em])

lemma sim_persistence_failure [sims]:
  assumes em: "sim_emitter em' em"
  shows "sim (persistence_failure em' s e) (persistence_failure em s e)"
  unfolding persistence_failure_def by (intro sims em sim_emitterD[OF em])

lemma sim_engine_resume [sims]:
  assumes em: "sim_emitter em' em"
  shows "sim (engine_resume (logged_deployment d) i em') (engine_resume d i em)"
  unfolding engine_resume_def by (intro sims em sim_emitterD[OF em])

lemma sim_resumeAndVerify [sims]:
  assumes em: "sim_emitter em' em"
  shows "sim (resumeAndVerify (logged_deployment d) i em') (resumeAndVerify d i em)"
  unfolding resumeAndVerify_def by (intro sims em sim_emitterD[OF em])

lemma sim_resumeAfterPersistenceFailure [sims]:
  assumes em: "sim_emitter em' em"
  shows "sim (resumeAfterPersistenceFailure (logged_deployment d) i t s e em')
     (resumeAfterPersistenceFailure d i t s e em)"
  unfolding resumeAfterPersistenceFailure_def by (intro sims em sim_emitterD[OF em])

lemma sim_engine_rollback [sims]:
  assumes em: "sim_emitter em' em"
  shows "sim (engine_rollback (logged_deployment d) i p tx t c em') (engine_rollback d i p tx t c em)"
  unfolding engine_rollback_def by (intro sims em sim_emitterD[OF em])

lemma sim_protected_failure [sims]:
  assumes em: "sim_emitter em' em"
  shows "sim (protected_failure (logged_deployment d) i p tx t em' n e c)
     (protected_failure d i p tx t em n e c)"
  unfolding protected_failure_def by (intro sims em sim_emitterD[OF em])

lemma sim_opening_steps [sims]:
  assumes em: "sim_emitter em' em" and "sim r1' r1" and "sim r2' r2" and "sim k' k"
  shows "sim (opening_steps em' [(n1, r1'), (n2, r2')] k') (opening_steps em [(n1, r1), (n2, r2)] k)"
  unfolding opening_steps.simps by (intro sims assms sim_emitterD[OF em])

lemma sim_protected_steps [sims]:
  assumes em: "sim_emitter em' em" and "sim r1' r1" and "sim r2' r2" and "sim r3' r3" and "sim r4' r4"
    and "sim k' k"
  shows "sim (protected_steps (logged_deployment d) i p tx t em' [(n1, r1'), (n2, r2'), (n3, r3'), (n4, r4')] k')
     (protected_steps d i p tx t em [(n1, r1), (n2, r2), (n3, r3), (n4, r4)] k)"
  unfolding protected_steps.simps by (intro sims assms sim_emitterD[OF em])

lemma sim_run_protected [sims]:
  assumes em: "sim_emitter em' em"
  shows "sim (run_protected (logged_deployment d) i opt t p em') (run_protected d i opt t p em)"
  unfolding run_protected_def by (intro sims em sim_emitterD[OF em])

lemma sim_run_stopped [sims]:
  assumes em: "sim_emitter em' em"
  shows "sim (run_stopped (logged_deployment d) i opt t em') (run_stopped d i opt t em)"
  unfolding run_stopped_def by (intro sims em sim_emitterD[OF em])

lemma sim_resolve_target [sims]: "sim (resolve_target (logged_deployment d) i opt) (resolve_target d i opt)"
  unfolding resolve_target_def by (auto split: option.split intro!: sims)

lemma sim_run_deployment:
  "sim (run_deployment (logged_engine en) (logged_deployment d) i opt (map_option logged_observer obs))
     (run_deployment en d i opt obs)"
proof -
  let ?em' = "emit (logged_engine en) (map_option logged_observer obs)" and ?em = "emit en obs"
  have em: "sim_emitter ?em' ?em" by (simp add: sim_emitter_def sim_emit)
  have planned: "sim (case dp_planned (logged_deployment d) of
         Some f \<Rightarrow> liftR (f i t opt (map_option logged_observer obs))
       | None \<Rightarrow> run_fail ?em' ''preflight'' (Msg m))
     (case dp_planned d of Some f \<Rightarrow> liftR (f i t opt obs) | None \<Rightarrow> run_fail ?em ''preflight'' (Msg m))" for t m
    using em by (cases "dp_planned d") (auto simp: logged_deployment_def intro!: sims)
  show ?thesis unfolding run_deployment_def Let_def by (intro sims planned em sim_emitterD[OF em])
qed

text \<open>watching an update changes nothing: with every call and stage appended to a log
  the engine returns the same result and leaves the same state.\<close>

theorem log_is_transparent:
  "(case RunWithOptions (logged_engine en) i opt (map_option logged_observer obs) (w, l) of
      (r, (w', l')) \<Rightarrow> (r, w')) = RunWithOptions en i opt obs w"
  using sim_run_deployment[of en _ i opt obs]
  by (cases "en_deployment en") (simp_all add: RunWithOptions_def logged_engine_def sim_def sim_retE[unfolded sim_def])

end
