(* ===== verification/UpdateProtocol.thy ===== *)
theory UpdateProtocol
  imports UpdateLaws
begin

text \<open>
  The update protocol as an automaton over the logged events, and the proof that every run
  of the engine stays inside it and ends in a phase that fits the status it reports.
\<close>

section \<open>The protocol\<close>

text \<open>What an instance runs on when its services are let go again.\<close>

datatype outcome_kind = Untouched | Updated string | Restored string

datatype phase =
    Serving
  | Stopped
  | PointTaken string
  | Guarded string
  | Migrated string
  | Activated string
  | Broken string
  | Recovering string
  | Halted string
  | RestoreFailed string
  | DataRestored string
  | Confirmed string
  | Boundary outcome_kind
  | Resumed outcome_kind
  | Verified outcome_kind
  | Delegated

definition opens_services :: "string \<Rightarrow> string \<Rightarrow> bool" where
  "opens_services n st \<longleftrightarrow> n = ''resume'' \<and> st = ''running''"

definition begins_recovery :: "string \<Rightarrow> string \<Rightarrow> bool" where
  "begins_recovery n st \<longleftrightarrow> n = ''rollback'' \<and> st = ''running''"

definition is_quiesce :: "string \<Rightarrow> dcall \<Rightarrow> bool" where
  "is_quiesce pid c \<longleftrightarrow> c = CQuiesce \<or> c = CQuiesceRecovery pid"

fun is_restore :: "string \<Rightarrow> dcall \<Rightarrow> bool" where
  "is_restore pid (CRollback q tx) = (q = pid)"
| "is_restore pid _ = False"

fun is_freeze :: "string \<Rightarrow> dcall \<Rightarrow> bool" where
  "is_freeze pid (CFreeze q tx) = (q = pid)"
| "is_freeze pid _ = False"

fun is_point :: "dcall \<Rightarrow> bool" where
  "is_point (CPoint l) = True"
| "is_point _ = False"

text \<open>Services may be let go only when the journal took the resume boundary.\<close>

definition at_boundary :: "phase \<Rightarrow> outcome_kind \<Rightarrow> string \<Rightarrow> string \<Rightarrow> string \<Rightarrow> bool \<Rightarrow> phase option" where
  "at_boundary p k n st m ok =
     (if opens_services n st then (if m \<noteq> ResumeBoundaryMessage then None
                                   else Some (if ok then Boundary k else p))
      else Some p)"

text \<open>While services are down and the data may be changed, a rollback may begin.\<close>

definition may_recover :: "string \<Rightarrow> phase \<Rightarrow> string \<Rightarrow> string \<Rightarrow> phase option" where
  "may_recover pid p n st =
     (if opens_services n st then None else Some (if begins_recovery n st then Recovering pid else p))"

fun advance :: "phase \<Rightarrow> event \<Rightarrow> phase option" where
  "advance Serving (Call c ok) =
     (if c = CResolve \<or> c = CPreflight \<or> c = CPull then Some Serving
      else if c = CPlanned then Some Delegated
      else if c = CQuiesce then Some Stopped else None)"
| "advance Serving (Noted n st m ok) =
     (if opens_services n st \<or> begins_recovery n st then None else Some Serving)"
| "advance Stopped (Call c ok) = (if is_point c \<and> \<not> ok then Some Stopped else None)"
| "advance Stopped (Took pid) = Some (PointTaken pid)"
| "advance Stopped (Noted n st m ok) =
     (if begins_recovery n st then None else at_boundary Stopped Untouched n st m ok)"
| "advance (PointTaken pid) (Noted n st m ok) =
     (if n = ''backup'' \<and> st = ''succeeded'' \<and> m = pid \<and> ok then Some (Guarded pid)
      else may_recover pid (PointTaken pid) n st)"
| "advance (Guarded pid) (Call c ok) =
     (if is_freeze pid c then Some (Guarded pid)
      else if c = CMigrate then Some (if ok then Migrated pid else Broken pid) else None)"
| "advance (Guarded pid) (Noted n st m ok) = may_recover pid (Guarded pid) n st"
| "advance (Migrated pid) (Call c ok) =
     (if c = CActivate then Some (if ok then Activated pid else Broken pid) else None)"
| "advance (Migrated pid) (Noted n st m ok) = may_recover pid (Migrated pid) n st"
| "advance (Activated pid) (Noted n st m ok) =
     (if begins_recovery n st then Some (Recovering pid)
      else at_boundary (Activated pid) (Updated pid) n st m ok)"
| "advance (Broken pid) (Noted n st m ok) = may_recover pid (Broken pid) n st"
| "advance (Recovering pid) (Call c ok) =
     (if is_quiesce pid c then Some (if ok then Halted pid else RestoreFailed pid) else None)"
| "advance (Halted pid) (Call c ok) =
     (if is_restore pid c then Some (if ok then DataRestored pid else RestoreFailed pid) else None)"
| "advance (RestoreFailed pid) (Noted n st m ok) =
     (if opens_services n st then None else Some (RestoreFailed pid))"
| "advance (DataRestored pid) (Noted n st m ok) =
     (if n = ''rollback'' \<and> st = ''succeeded'' then Some (if ok then Confirmed pid else DataRestored pid) else None)"
| "advance (Confirmed pid) (Noted n st m ok) = at_boundary (Confirmed pid) (Restored pid) n st m ok"
| "advance (Boundary k) (Call c ok) = (if c = CResume then Some (if ok then Resumed k else Boundary k) else None)"
| "advance (Boundary k) (Noted n st m ok) = (if begins_recovery n st then None else Some (Boundary k))"
| "advance (Resumed k) (Call c ok) = (if c = CVerify then Some (if ok then Verified k else Resumed k) else None)"
| "advance (Resumed k) (Noted n st m ok) = (if begins_recovery n st then None else Some (Resumed k))"
| "advance (Verified k) (Noted n st m ok) = (if begins_recovery n st then None else Some (Verified k))"
| "advance _ _ = None"

fun follow :: "phase \<Rightarrow> event list \<Rightarrow> phase option" where
  "follow p [] = Some p"
| "follow p (e # l) = Option.bind (advance p e) (\<lambda>p'. follow p' l)"

definition phase_of :: "event list \<Rightarrow> phase option" where
  "phase_of l = follow Serving l"

lemma follow_append: "follow p (a @ b) = Option.bind (follow p a) (\<lambda>p'. follow p' b)"
  by (induction p a rule: follow.induct) (auto split: bind_splits)

lemma phase_of_Nil [simp]: "phase_of [] = Some Serving"
  by (simp add: phase_of_def)

lemma phase_of_snoc [simp]: "phase_of (l @ [e]) = Option.bind (phase_of l) (\<lambda>p. advance p e)"
  by (simp add: phase_of_def follow_append)

text \<open>The phase a result may be reported in.\<close>

definition ends_in :: "result \<Rightarrow> phase \<Rightarrow> bool" where
  "ends_in x p \<longleftrightarrow> p = Delegated \<or>
     (if rs_status x = StatusSucceeded then p = Verified (Updated (rs_point x))
      else if rs_status x = StatusRolledBack then p = Verified (Restored (rs_point x))
      else if rs_status x = StatusFailed
      then p = Serving \<or> p = Resumed Untouched \<or> p = Verified Untouched \<or> p = RestoreFailed (rs_point x)
      else rs_status x = StatusRecoveryRequired \<and>
        (p = Stopped \<or> p = Boundary Untouched \<or> p = Resumed Untouched \<or> p = Verified Untouched \<or>
         (\<exists>q \<in> {Guarded, Activated, DataRestored, Confirmed, \<lambda>i. Boundary (Updated i),
           \<lambda>i. Resumed (Updated i), \<lambda>i. Verified (Updated i), \<lambda>i. Boundary (Restored i),
           \<lambda>i. Resumed (Restored i), \<lambda>i. Verified (Restored i)}. p = q (rs_point x))))"

section \<open>Weakest preconditions over phases\<close>

definition pwp :: "('w \<times> event list, 'a) act \<Rightarrow> (err + 'a \<Rightarrow> phase \<Rightarrow> bool) \<Rightarrow> phase \<Rightarrow> bool" where
  "pwp m Q p \<longleftrightarrow> (\<forall>w l. phase_of l = Some p \<longrightarrow>
     wp m (\<lambda>r s. \<exists>p'. phase_of (snd s) = Some p' \<and> Q r p') (w, l))"

named_theorems pwps \<open>symbolic execution over phases\<close>

lemma pwp_retE [pwps]: "Q (Inr x) p \<Longrightarrow> pwp (retE x) Q p"
  by (auto simp: pwp_def wp_eqs)

lemma pwp_failE [pwps]: "Q (Inl e) p \<Longrightarrow> pwp (failE e) Q p"
  by (auto simp: pwp_def wp_eqs)

lemma pwp_liftE [pwps]: "Q r p \<Longrightarrow> pwp (liftE r) Q p"
  by (auto simp: pwp_def wp_eqs)

lemma pwp_mono: "pwp m Q p \<Longrightarrow> (\<And>r p'. Q r p' \<Longrightarrow> Q' r p') \<Longrightarrow> pwp m Q' p"
  unfolding pwp_def by (blast intro: wp_mono)

lemma pwp_checkE [pwps]:
  assumes "pwp m (\<lambda>r p'. case r of Inl e \<Rightarrow> pwp (h e) Q p' | Inr x \<Rightarrow> pwp (f x) Q p') p"
  shows "pwp (checkE m h f) Q p"
  unfolding pwp_def wp_eqs
proof (intro allI impI)
  fix w :: 'a and l assume "phase_of l = Some p"
  with assms have "wp m (\<lambda>r s. \<exists>p'. phase_of (snd s) = Some p' \<and>
      (case r of Inl e \<Rightarrow> pwp (h e) Q p' | Inr x \<Rightarrow> pwp (f x) Q p')) (w, l)"
    by (simp add: pwp_def)
  then show "wp m (\<lambda>r s. case r of
        Inl e \<Rightarrow> wp (h e) (\<lambda>r s. \<exists>p'. phase_of (snd s) = Some p' \<and> Q r p') s
      | Inr x \<Rightarrow> wp (f x) (\<lambda>r s. \<exists>p'. phase_of (snd s) = Some p' \<and> Q r p') s) (w, l)"
    by (rule wp_mono) (auto simp: pwp_def split: sum.splits)
qed

lemma bindE_checkE: "bindE m f = checkE m failE f"
  by (intro ext) (simp add: bindE_def checkE_def failE_def split: prod.splits sum.splits)

lemma pwp_bindE [pwps]:
  assumes "pwp m (\<lambda>r p'. case r of Inl e \<Rightarrow> Q (Inl e) p' | Inr x \<Rightarrow> pwp (f x) Q p') p"
  shows "pwp (bindE m f) Q p"
  unfolding bindE_checkE
  by (rule pwp_checkE, rule pwp_mono[OF assms]) (auto intro: pwp_failE split: sum.splits)

lemma pwp_tryE [pwps]: "pwp m (\<lambda>r. Q (Inr r)) p \<Longrightarrow> pwp (tryE m) Q p"
  by (simp add: pwp_def wp_eqs)

lemma pwp_ignoreE [pwps]: "pwp m (\<lambda>_. Q (Inr ())) p \<Longrightarrow> pwp (ignoreE m) Q p"
  by (simp add: pwp_def wp_eqs)

lemma pwp_wrapE [pwps]:
  "pwp m (\<lambda>r. Q (case r of Inl e \<Rightarrow> Inl (f e) | Inr x \<Rightarrow> Inr x)) p \<Longrightarrow> pwp (wrapE f m) Q p"
  by (simp add: pwp_def wp_eqs)

lemma pwp_logging:
  assumes "\<And>r. \<exists>p'. advance p (ev r) = Some p' \<and> Q r p'"
  shows "pwp (logging ev m) Q p"
  using assms unfolding pwp_def wp_def logging_def by (auto split: prod.splits)

lemma pwp_call:
  assumes "\<And>x. \<exists>p'. advance p (Call c True) = Some p' \<and> Q (Inr x) p'"
    and "\<And>e. \<exists>p'. advance p (Call c False) = Some p' \<and> Q (Inl e) p'"
  shows "pwp (logging (call_event c) m) Q p"
proof (rule pwp_logging)
  fix r show "\<exists>p'. advance p (call_event c r) = Some p' \<and> Q r p'"
    using assms by (cases r) (auto simp: call_event_def)
qed

lemma pwp_point:
  assumes "\<And>x. \<exists>p'. advance p (Took x) = Some p' \<and> Q (Inr x) p'"
    and "\<And>e. \<exists>p'. advance p (Call (CPoint l) False) = Some p' \<and> Q (Inl e) p'"
  shows "pwp (logging (point_event l) m) Q p"
proof (rule pwp_logging)
  fix r show "\<exists>p'. advance p (point_event l r) = Some p' \<and> Q r p'"
    using assms by (cases r) (auto simp: point_event_def)
qed

text \<open>An emitter whose stages reach the log.\<close>

definition sent :: "string \<Rightarrow> string \<Rightarrow> string \<Rightarrow> string" where
  "sent n st m = (if opens_services n st then ResumeBoundaryMessage else m)"

definition noted :: "phase \<Rightarrow> string \<Rightarrow> string \<Rightarrow> string \<Rightarrow> bool \<Rightarrow> (phase \<Rightarrow> bool) \<Rightarrow> bool" where
  "noted p n st m ok Q \<longleftrightarrow> (\<exists>p'. advance p (Noted n st (sent n st m) ok) = Some p' \<and> Q p')"

definition logs :: "('w \<times> event list) emitter \<Rightarrow> bool" where
  "logs em \<longleftrightarrow> (\<forall>n st m p Q. noted p n st m True (Q (Inr ())) \<longrightarrow>
     (\<forall>e. noted p n st m False (Q (Inl e))) \<longrightarrow> pwp (em n st m) Q p)"

lemma logs_emit: "logs (emit (logged_engine en) (Some (logged_observer ob)))"
proof -
  have "pwp (emit (logged_engine en) (Some (logged_observer ob)) n st m) Q p"
    if "noted p n st m True (Q (Inr ()))" and "\<And>e. noted p n st m False (Q (Inl e))" for n st m Q p
    unfolding pwp_def
  proof (intro allI impI)
    fix w :: 'a and l assume l: "phase_of l = Some p"
    obtain t w1 where t: "en_now en w = (t, w1)" by fastforce
    let ?s = "\<lparr>sg_name = n, sg_status = st, sg_message = sent n st m, sg_at = t\<rparr>"
    obtain r w2 where r: "ob ?s w1 = (r, w2)" by fastforce
    have "\<exists>p'. advance p (Noted n st (sent n st m) (succeeded r)) = Some p' \<and> Q r p'"
      using that by (cases r) (auto simp: noted_def)
    then show "wp (emit (logged_engine en) (Some (logged_observer ob)) n st m)
        (\<lambda>r s. \<exists>p'. phase_of (snd s) = Some p' \<and> Q r p') (w, l)"
      using l t r by (auto simp: wp_def emit_def logged_engine_def logged_observer_def logging_def
          stage_event_def sent_def opens_services_def)
  qed
  then show ?thesis by (simp add: logs_def)
qed

lemma pwp_em:
  assumes "logs em" and "noted p n st m True (Q (Inr ()))" and "\<And>e. noted p n st m False (Q (Inl e))"
  shows "pwp (em n st m) Q p"
  using assms by (simp add: logs_def)

section \<open>The engine's parts\<close>

lemma deployment_calls:
  "dp_resolve (logged_deployment d) i = logging (call_event CResolve) (dp_resolve d i)"
  "dp_preflight (logged_deployment d) i t = logging (call_event CPreflight) (dp_preflight d i t)"
  "dp_pull (logged_deployment d) i t = logging (call_event CPull) (dp_pull d i t)"
  "dp_quiesce (logged_deployment d) i = logging (call_event CQuiesce) (dp_quiesce d i)"
  "dp_point (logged_deployment d) i n = logging (point_event n) (dp_point d i n)"
  "dp_migrate (logged_deployment d) i t = logging (call_event CMigrate) (dp_migrate d i t)"
  "dp_activate (logged_deployment d) i t = logging (call_event CActivate) (dp_activate d i t)"
  "dp_rollback (logged_deployment d) i q =
     logging (call_event (CRollback (rr_point q) (rr_transaction q))) (dp_rollback d i q)"
  "dp_resume (logged_deployment d) i = logging (call_event CResume) (dp_resume d i)"
  "dp_verify (logged_deployment d) i = logging (call_event CVerify) (dp_verify d i)"
  by (simp_all add: logged_deployment_def)

lemmas noting = noted_def sent_def opens_services_def begins_recovery_def at_boundary_def may_recover_def

lemma pwp_resume:
  assumes em: "logs em"
    and b: "\<And>ok. advance p (Noted ''resume'' ''running'' ResumeBoundaryMessage ok) = Some (if ok then Boundary k else p)"
    and Q: "\<And>e. Q (Inl e) p" "\<And>e. Q (Inl e) (Boundary k)" "\<And>e. Q (Inl e) (Resumed k)" "Q (Inr ()) (Resumed k)"
  shows "pwp (engine_resume (logged_deployment d) i em) Q p"
  unfolding engine_resume_def deployment_calls
  by (intro pwps pwp_em[OF em]) (auto simp: noting b Q intro!: pwps pwp_em[OF em] pwp_call)

lemma pwp_resumeAndVerify:
  assumes em: "logs em"
    and b: "\<And>ok. advance p (Noted ''resume'' ''running'' ResumeBoundaryMessage ok) = Some (if ok then Boundary k else p)"
    and Q: "\<And>e. Q (Inl e) p" "\<And>e. Q (Inl e) (Boundary k)" "\<And>e. Q (Inl e) (Resumed k)"
      "\<And>e. Q (Inl e) (Verified k)" "Q (Inr ()) (Verified k)"
  shows "pwp (resumeAndVerify (logged_deployment d) i em) Q p"
  unfolding resumeAndVerify_def
proof (intro pwps pwp_resume[OF em b])
  show "case Inr () of Inl e \<Rightarrow> Q (Inl e) (Resumed k)
    | Inr _ \<Rightarrow> pwp (bindE (wrapE (Wrap ''persist verification stage'') (em ''verify'' ''running'' [])) (\<lambda>_.
        checkE (dp_verify (logged_deployment d) i)
          (\<lambda>e. bindE (tryE (em ''verify'' ''failed'' (error_text e))) (\<lambda>oe. failE (Joined (somes [Some e, err_of oe]))))
          (\<lambda>_. wrapE (Wrap ''persist verification completion'') (em ''verify'' ''succeeded'' []))))
        Q (Resumed k)"
    unfolding deployment_calls
    by (auto simp: noting Q intro!: pwps pwp_em[OF em] pwp_call)
qed (simp_all add: Q)

text \<open>The run ends with a result that fits the phase.\<close>

definition ended :: "err + result \<Rightarrow> phase \<Rightarrow> bool" where
  "ended r p \<longleftrightarrow> (\<exists>x. r = Inr x \<and> ends_in x p)"

lemma ended_Inr [simp]: "ended (Inr x) p = ends_in x p"
  by (simp add: ended_def)

lemma ends_in_simps [simp]:
  "ends_in (failed_result e) p \<longleftrightarrow> p \<in> {Delegated, Serving, Resumed Untouched, Verified Untouched, RestoreFailed []}"
  "ends_in (outcome StatusFailed t pid e) p \<longleftrightarrow>
     p \<in> {Delegated, Serving, Resumed Untouched, Verified Untouched, RestoreFailed pid}"
  "ends_in (outcome StatusSucceeded t pid e) p \<longleftrightarrow> p \<in> {Delegated, Verified (Updated pid)}"
  "ends_in (outcome StatusRolledBack t pid e) p \<longleftrightarrow> p \<in> {Delegated, Verified (Restored pid)}"
  "ends_in (outcome StatusRecoveryRequired t pid e) p \<longleftrightarrow>
     p \<in> {Delegated, Stopped, Boundary Untouched, Resumed Untouched, Verified Untouched, Guarded pid, Activated pid,
       DataRestored pid, Confirmed pid, Boundary (Updated pid), Resumed (Updated pid), Verified (Updated pid),
       Boundary (Restored pid), Resumed (Restored pid), Verified (Restored pid)}"
  by (auto simp: ends_in_def outcome_def failed_result_def StatusFailed_def StatusSucceeded_def
      StatusRolledBack_def StatusRecoveryRequired_def)

lemma pwp_run_fail:
  assumes em: "logs em" and "p \<in> {Serving, Resumed Untouched, Verified Untouched}"
    and "stg \<noteq> ''rollback''"
  shows "pwp (run_fail em stg e) ended p"
  using assms(2,3) unfolding run_fail_def
  by (auto simp: noting intro!: pwps pwp_em[OF em])

lemma pwp_persistence_failure:
  assumes "logs em" and "p \<in> {Serving, Resumed Untouched, Verified Untouched}" and "stg \<noteq> ''rollback''"
  shows "pwp (persistence_failure em stg e) ended p"
  using assms unfolding persistence_failure_def by (rule pwp_run_fail)

lemma pwp_resumeAfterPersistenceFailure:
  assumes em: "logs em" and "stg \<noteq> ''rollback''"
  shows "pwp (resumeAfterPersistenceFailure (logged_deployment d) i t stg pe em) ended Stopped"
  unfolding resumeAfterPersistenceFailure_def Let_def
  by (intro pwps pwp_resumeAndVerify[OF em, where k = Untouched])
    (use assms(2) in \<open>auto simp: noting intro!: pwps pwp_em[OF em]\<close>)

lemma pwp_recovery_quiesce:
  assumes "\<And>x. Q (Inr x) (Halted pid)" and "\<And>e. Q (Inl e) (RestoreFailed pid)"
  shows "pwp (recovery_quiesce (logged_deployment d) i pid) Q (Recovering pid)"
  unfolding recovery_quiesce_def logged_deployment_def
  by (cases "dp_quiesce_recovery d") (auto simp: assms is_quiesce_def intro!: pwp_call)

lemma pwp_rollback:
  assumes em: "logs em"
    and b: "\<And>ok. advance p (Noted ''rollback'' ''running'' [] ok) = Some (Recovering pid)"
  shows "pwp (engine_rollback (logged_deployment d) i pid tx t cause em) ended p"
  unfolding engine_rollback_def Let_def
  by (auto simp: noting b[unfolded noting] deployment_calls intro!: pwps pwp_em[OF em] pwp_recovery_quiesce
      pwp_call pwp_resumeAndVerify[OF em, where k = "Restored pid"] split: option.splits)

lemma pwp_protected_failure:
  assumes em: "logs em"
    and "after_boundary n \<Longrightarrow> ends_in (outcome StatusRecoveryRequired t pid (error_text e)) p"
    and "\<not> after_boundary n \<Longrightarrow> (\<And>ok. advance p (Noted ''rollback'' ''running'' [] ok) = Some (Recovering pid))"
  shows "pwp (protected_failure (logged_deployment d) i pid tx t em n e cause) ended p"
  unfolding protected_failure_def using assms by (auto intro!: pwps pwp_rollback[OF em])

lemma pwp_protected:
  assumes em: "logs em"
  shows "pwp (run_protected (logged_deployment d) i opt t pid em) ended (Guarded pid)"
proof -
  have freeze: "pwp (freeze_point (logged_deployment d) i \<lparr>rr_point = pid, rr_transaction = tx\<rparr>)
      Q (Guarded pid)" if "\<And>r. Q r (Guarded pid)" for Q tx
    unfolding freeze_point_def logged_deployment_def
    by (cases "dp_freeze d") (auto simp: that intro!: pwps pwp_call)
  show ?thesis
    unfolding run_protected_def protected_steps.simps
    by (auto simp: noting deployment_calls after_boundary_def Let_def
        intro!: pwps pwp_em[OF em] freeze pwp_call pwp_protected_failure[OF em] split: sum.splits)
qed

lemma pwp_run_stopped:
  assumes em: "logs em"
  shows "pwp (run_stopped (logged_deployment d) i opt t em) ended Serving"
  unfolding run_stopped_def
  by (auto simp: noting deployment_calls intro!: pwps pwp_em[OF em] pwp_call pwp_point
      pwp_persistence_failure[OF em] pwp_run_fail[OF em] pwp_resumeAfterPersistenceFailure[OF em]
      pwp_resumeAndVerify[OF em, where k = Untouched] pwp_resume[OF em, where k = Untouched]
      pwp_rollback[OF em] pwp_protected[OF em])

lemma pwp_planned: "pwp (liftR (logged_planned f i t opt obs)) ended Serving"
  by (auto simp: pwp_def wp_def liftR_def logged_planned_def ends_in_def split: prod.splits)

lemma pwp_resolve_target:
  assumes "\<And>r. Q r Serving"
  shows "pwp (resolve_target (logged_deployment d) i opt) Q Serving"
  unfolding resolve_target_def deployment_calls
  by (auto simp: assms split: option.splits sum.splits intro!: pwps pwp_call)

lemma pwp_run:
  assumes "en_deployment en = Some d"
  shows "pwp (run_deployment (logged_engine en) (logged_deployment d) i opt (Some (logged_observer ob))) ended Serving"
proof -
  let ?em = "emit (logged_engine en) (Some (logged_observer ob))"
  have em: "logs ?em" by (rule logs_emit)
  have planned: "pwp (case dp_planned (logged_deployment d) of
       Some f \<Rightarrow> liftR (f i t opt obs) | None \<Rightarrow> run_fail ?em ''preflight'' (Msg m)) ended Serving" for t obs m
    by (cases "dp_planned d") (simp_all add: logged_deployment_def pwp_planned pwp_run_fail[OF em])
  show ?thesis
    unfolding run_deployment_def Let_def
    by (auto simp: noting deployment_calls intro!: pwps pwp_em[OF em] pwp_call pwp_resolve_target planned
      pwp_persistence_failure[OF em] pwp_run_fail[OF em] pwp_run_stopped[OF em] split: sum.splits)
qed

lemma pwp_result:
  assumes "RunWithOptions (logged_engine en) i opt (Some (logged_observer ob)) (w, []) = (r, (w', log))"
  shows "\<exists>x p. r = Inr x \<and> phase_of log = Some p \<and> ends_in x p"
proof (cases "en_deployment en")
  case None
  with assms show ?thesis by (auto simp: RunWithOptions_def logged_engine_def)
next
  case (Some d)
  then have "run_deployment (logged_engine en) (logged_deployment d) i opt (Some (logged_observer ob)) (w, []) = (r, (w', log))"
    using assms by (simp add: RunWithOptions_def logged_engine_def)
  with pwp_run[OF Some, of i opt ob, unfolded pwp_def, rule_format, of "[]" w] show ?thesis
    by (auto simp: wp_def ended_def)
qed

text \<open>C3: whatever calls fail and whatever the journal loses, the engine returns a result, the
  calls and stages of the run follow the protocol automaton, and the reported status fits the
  phase the run ended in: success only after the new release was resumed and verified,
  rolled back only after the restored data was recorded, resumed and verified, failure only
  with the instance untouched and serving or a restore that failed.\<close>

theorem update_follows_protocol:
  assumes "RunWithOptions (logged_engine en) i opt (Some (logged_observer ob)) (w, []) = (r, (w', log))"
  shows "\<exists>x p. r = Inr x \<and> phase_of log = Some p \<and> ends_in x p"
  using assms by (rule pwp_result)

section \<open>Facts about the protocol\<close>

fun phase_point :: "phase \<Rightarrow> string option" where
  "phase_point (PointTaken pid) = Some pid"
| "phase_point (Guarded pid) = Some pid"
| "phase_point (Migrated pid) = Some pid"
| "phase_point (Activated pid) = Some pid"
| "phase_point (Broken pid) = Some pid"
| "phase_point (Recovering pid) = Some pid"
| "phase_point (Halted pid) = Some pid"
| "phase_point (RestoreFailed pid) = Some pid"
| "phase_point (DataRestored pid) = Some pid"
| "phase_point (Confirmed pid) = Some pid"
| "phase_point _ = None"

fun guarded :: "phase \<Rightarrow> bool" where
  "guarded (Guarded pid) = True"
| "guarded (Migrated pid) = True"
| "guarded (Activated pid) = True"
| "guarded (Broken pid) = True"
| "guarded _ = False"

fun let_go :: "phase \<Rightarrow> bool" where
  "let_go (Boundary k) = True"
| "let_go (Resumed k) = True"
| "let_go (Verified k) = True"
| "let_go _ = False"

definition backed_up :: "string \<Rightarrow> event" where
  "backed_up pid = Noted ''backup'' ''succeeded'' pid True"

definition boundary_event :: event where
  "boundary_event = Noted ''resume'' ''running'' ResumeBoundaryMessage True"

definition restore_call :: "event \<Rightarrow> bool" where
  "restore_call e \<longleftrightarrow> (\<exists>pid tx ok. e = Call (CRollback pid tx) ok)"

text \<open>What the phase says about the events that led to it.\<close>

definition phase_inv :: "event list \<Rightarrow> phase \<Rightarrow> bool" where
  "phase_inv l p \<longleftrightarrow>
     (\<forall>pid. phase_point p = Some pid \<longrightarrow> Took pid \<in> set l) \<and>
     (\<forall>pid. phase_point p = Some pid \<and> guarded p \<longrightarrow> backed_up pid \<in> set l) \<and>
     (\<forall>pid. p = Halted pid \<longrightarrow> (\<exists>c. is_quiesce pid c \<and> l \<noteq> [] \<and> last l = Call c True)) \<and>
     (let_go p \<longrightarrow> boundary_event \<in> set l)"

lemmas noting_rules = opens_services_def begins_recovery_def at_boundary_def may_recover_def

lemma phase_inv_step:
  assumes "phase_inv l p" and "advance p e = Some p'"
  shows "phase_inv (l @ [e]) p'"
  using assms
  by (induction p e rule: advance.induct)
    (auto simp: phase_inv_def backed_up_def boundary_event_def noting_rules split: if_splits)

lemma phase_of_inv: "phase_of l = Some p \<Longrightarrow> phase_inv l p"
proof (induction l arbitrary: p rule: rev_induct)
  case Nil
  then show ?case by (auto simp: phase_inv_def)
next
  case (snoc e l)
  then obtain q where q: "phase_of l = Some q" and "advance q e = Some p"
    by (auto simp: bind_eq_Some_conv)
  with snoc.IH[OF q] show ?case by (blast intro: phase_inv_step)
qed

lemma phase_of_split:
  assumes "phase_of (a @ e # b) = Some p"
  obtains q q' where "phase_of a = Some q" and "advance q e = Some q'" and "follow q' b = Some p"
  using assms by (auto simp: phase_of_def follow_append bind_eq_Some_conv)

lemma let_go_step:
  assumes "let_go p" and "advance p e = Some p'"
  shows "let_go p' \<and> (\<forall>c ok. e = Call c ok \<longrightarrow> c = CResume \<or> c = CVerify) \<and> (\<forall>pid. e \<noteq> Took pid)"
  using assms by (induction p e rule: advance.induct) (auto split: if_splits)

lemma let_go_stays:
  assumes "let_go q" and "follow q b = Some p"
  shows "let_go p \<and> (\<forall>c ok. Call c ok \<in> set b \<longrightarrow> c = CResume \<or> c = CVerify) \<and> (\<forall>pid. Took pid \<notin> set b)"
  using assms
proof (induction b arbitrary: q)
  case (Cons e b)
  then obtain q' where "advance q e = Some q'" by (cases "advance q e") auto
  with Cons let_go_step[of q e q'] show ?case by auto
qed simp

lemma advance_boundary: "advance q boundary_event = Some q' \<Longrightarrow> let_go q'"
  by (cases q) (auto simp: boundary_event_def noting_rules split: if_splits)

lemma advance_change:
  "advance q (Call CMigrate ok) = Some q' \<Longrightarrow> guarded q"
  "advance q (Call CActivate ok) = Some q' \<Longrightarrow> guarded q"
  "advance q (Call CResume ok) = Some q' \<Longrightarrow> let_go q"
  "advance q (Call (CRollback pid tx) ok) = Some q' \<Longrightarrow> q = Halted pid"
  by (cases q; auto simp: is_quiesce_def split: if_splits; fail)+

lemma guarded_point: "guarded q \<Longrightarrow> \<exists>pid. phase_point q = Some pid"
  by (cases q) auto

text \<open>C4: once the journal holds the resume boundary, nothing but resuming and verifying the
  services follows: no migration, no restore, no second stop, no recovery point.\<close>

theorem nothing_changes_after_boundary:
  assumes "RunWithOptions (logged_engine en) i opt (Some (logged_observer ob)) (w, []) = (r, (w', a @ boundary_event # b))"
    and "Call c ok \<in> set b"
  shows "c = CResume \<or> c = CVerify"
proof -
  obtain p where "phase_of (a @ boundary_event # b) = Some p"
    using pwp_result[OF assms(1)] by blast
  then obtain q q' where "advance q boundary_event = Some q'"
    and "follow q' b = Some p"
    by (rule phase_of_split)
  then show ?thesis using assms(2) advance_boundary let_go_stays by blast
qed


end
