(* ===== verification/PointFiles.thy ===== *)
theory PointFiles
  imports PointRecord RecoveryControl
begin

text \<open>
  The file operations of \<open>internal/recovery\<close> (\<open>store.go\<close>): describing and verifying a file,
  copying it into a point and putting it back, the check for mounted file systems, archives of a
  directory and the exchange of a directory for a restored one. The SHA-256 of contents and the
  tar and gzip formats are functions of the store; contexts are not modelled.
\<close>

section \<open>Archives\<close>

datatype tar_kind = TarDir | TarReg | TarOther

text \<open>An entry as the tar reader delivers it: \<open>te_short\<close> says that its data ends early.\<close>

record tar_entry =
  te_name :: string
  te_kind :: tar_kind
  te_mode :: int
  te_uid :: int
  te_gid :: int
  te_size :: int
  te_data :: content
  te_short :: bool

text \<open>The store of recovery points. \<open>ps_pack\<close> writes a compressed archive and \<open>ps_unpack\<close> reads
  one: the error of the gzip header, or the entries and the error after the last of them.\<close>

record point_store =
  ps_control :: "rcstore option"
  ps_root :: string
  ps_keep :: int
  ps_now :: "world \<Rightarrow> int"
  ps_sync :: "(path \<Rightarrow> unit io) option"
  ps_sha :: "content \<Rightarrow> string"
  ps_pack :: "tar_entry list \<Rightarrow> content"
  ps_unpack :: "content \<Rightarrow> err + (tar_entry list \<times> err option)"

definition maxRestoreBytes :: int where
  "maxRestoreBytes = 100 * 1024 * 1024 * 1024"

section \<open>Single files\<close>

text \<open>\<open>syncDirectory\<close>\<close>

definition point_sync :: "path \<Rightarrow> unit io" where
  "point_sync d =
     bindE (open_path d) (\<lambda>_.
     bindE (tryE (sync_entries d)) (\<lambda>s.
     bindE (tryE (close_file d)) (\<lambda>c.
     case join_errs [err_of s, err_of c] of None \<Rightarrow> retE () | Some e \<Rightarrow> failE e)))"

definition writeExclusive :: "path \<Rightarrow> content \<Rightarrow> nat \<Rightarrow> unit io" where
  "writeExclusive p c m =
     bindE (open_excl p m) (\<lambda>_.
     checkE (bindE (chmod p m) (\<lambda>_. bindE (write_data p c) (\<lambda>_. fsync p)))
       (\<lambda>e. bindE (ignoreE (close_file p)) (\<lambda>_. failE e))
       (\<lambda>_. close_file p))"

definition ensureDirectory :: "path \<Rightarrow> nat \<Rightarrow> unit io" where
  "ensureDirectory p m =
     bindE (mkdir_all p m) (\<lambda>_.
     bindE (tryE (lstat p)) (\<lambda>r. case r of
       Inl _ \<Rightarrow> failE (Msg ''recovery point directory is unsafe'')
     | Inr i \<Rightarrow> if i_kind i \<noteq> KDir \<or> i_perm i AND 63 \<noteq> 0
               then failE (Msg ''recovery point directory is unsafe'') else retE ()))"

definition describe_as :: "point_store \<Rightarrow> info \<Rightarrow> content \<Rightarrow> file_record" where
  "describe_as st i c = \<lparr>fr_sha = ps_sha st c, fr_size = int (i_size i), fr_mode = int (i_perm i AND 511),
     fr_uid = i_uid i, fr_gid = i_gid i\<rparr>"

definition describeFile :: "point_store \<Rightarrow> path \<Rightarrow> file_record io" where
  "describeFile st p =
     bindE (tryE (lstat p)) (\<lambda>r. case r of
       Inl _ \<Rightarrow> failE (Msg ''backup artifact is not a regular file'')
     | Inr i \<Rightarrow>
         if i_kind i \<noteq> KRegular then failE (Msg ''backup artifact is not a regular file'')
         else bindE (open_path p) (\<lambda>_.
              bindE (tryE (read_file p)) (\<lambda>c.
              bindE (tryE (close_file p)) (\<lambda>k.
              case c of
                Inl e \<Rightarrow> failE (case join_errs [Some e, err_of k] of Some j \<Rightarrow> j | None \<Rightarrow> e)
              | Inr x \<Rightarrow> (case join_errs [err_of k] of Some e \<Rightarrow> failE e | None \<Rightarrow> retE (describe_as st i x))))))"

definition verifyFile :: "point_store \<Rightarrow> path \<Rightarrow> file_record \<Rightarrow> unit io" where
  "verifyFile st p expected =
     bindE (describeFile st p) (\<lambda>actual.
     if fr_sha actual \<noteq> fr_sha expected \<or> fr_size actual \<noteq> fr_size expected \<or>
        fr_mode actual \<noteq> fr_mode expected \<or> fr_uid actual \<noteq> fr_uid expected \<or> fr_gid actual \<noteq> fr_gid expected
     then failE (Msg ''backup artifact checksum, size, mode, or ownership does not match its manifest'')
     else retE ())"

definition copyRegularFile :: "path \<Rightarrow> path \<Rightarrow> unit io" where
  "copyRegularFile src dst =
     bindE (tryE (lstat src)) (\<lambda>r. case r of
       Inl _ \<Rightarrow> failE (Msg ''source is not a regular file'')
     | Inr i \<Rightarrow>
         if i_kind i \<noteq> KRegular then failE (Msg ''source is not a regular file'')
         else bindE (read_file src) (\<lambda>c.
              bindE (mkdir_all (butlast dst) 448) (\<lambda>_.
              bindE (writeExclusive dst c (i_perm i AND 432)) (\<lambda>_.
              chown dst (i_uid i) (i_gid i)))))"

definition restore_prefix :: string where
  "restore_prefix = ''.geoflow-updater-restore-''"

definition replace_stage_file :: "content \<Rightarrow> file_record \<Rightarrow> path \<Rightarrow> unit io" where
  "replace_stage_file c r t =
     bindE (checkE (bindE (chmod t (nat (fr_mode r) AND 432)) (\<lambda>_. bindE (write_data t c) (\<lambda>_. fsync t)))
              (\<lambda>e. bindE (ignoreE (close_file t)) (\<lambda>_. failE e)) (\<lambda>_. close_file t))
       (\<lambda>_. chown t (fr_uid r) (fr_gid r))"

definition replace_with :: "file_record \<Rightarrow> path \<Rightarrow> content \<Rightarrow> unit io" where
  "replace_with r dst c =
     bindE (create_temp (butlast dst) restore_prefix) (\<lambda>t.
       deferE (bindE (replace_stage_file c r t) (\<lambda>_.
               bindE (rename t dst) (\<lambda>_. point_sync (butlast dst))))
              (remove t))"

definition replaceFile :: "path \<Rightarrow> path \<Rightarrow> file_record \<Rightarrow> unit io" where
  "replaceFile src dst r = bindE (read_file src) (replace_with r dst)"

section \<open>Mounted file systems\<close>

text \<open>The replacer of \<open>decodeMountInfoPath\<close>: four escapes, left to right.\<close>

fun decodeMountInfoPath :: "string \<Rightarrow> string" where
  "decodeMountInfoPath (a # b # c # d # s) =
     (if [a, b, c, d] = CHR 0x5C # ''040'' then CHR '' '' # decodeMountInfoPath s
      else if [a, b, c, d] = CHR 0x5C # ''011'' then CHR 0x09 # decodeMountInfoPath s
      else if [a, b, c, d] = CHR 0x5C # ''012'' then CHR 0x0A # decodeMountInfoPath s
      else if [a, b, c, d] = CHR 0x5C # ''134'' then CHR 0x5C # decodeMountInfoPath s
      else a # decodeMountInfoPath (b # c # d # s))"
| "decodeMountInfoPath s = s"

definition mountinfo_path :: path where
  "mountinfo_path = [''proc'', ''self'', ''mountinfo'']"

definition mount_point :: "string \<Rightarrow> string option" where
  "mount_point line =
     (if length (GoText.fields line) < 6 then None else Some (path_clean (decodeMountInfoPath (GoText.fields line ! 4))))"

definition mount_hit :: "string \<Rightarrow> bool \<Rightarrow> string \<Rightarrow> bool" where
  "mount_hit dir includeRoot line =
     (case mount_point line of None \<Rightarrow> False
      | Some m \<Rightarrow> includeRoot \<and> m = dir \<or> has_prefix (dir @ [slash]) m)"

definition rejectMounts :: "path \<Rightarrow> bool \<Rightarrow> unit io" where
  "rejectMounts dir includeRoot =
     bindE (tryE (read_file mountinfo_path)) (\<lambda>r. case r of
       Inl e \<Rightarrow> if err_is ErrNotExist e then retE () else failE (Wrap ''inspect mounted filesystems'' e)
     | Inr c \<Rightarrow>
         (case filter (mount_hit (path_text dir) includeRoot) (split_on (CHR 0x0A) [] (content_text c)) of
            [] \<Rightarrow> retE ()
          | line # _ \<Rightarrow> failE (Msg (''recovery directory contains nested mount point '' @
              (case mount_point line of None \<Rightarrow> [] | Some m \<Rightarrow> m)))))"

definition rejectNestedMounts :: "path \<Rightarrow> unit io" where
  "rejectNestedMounts dir = rejectMounts dir False"

definition rejectMountedTree :: "path \<Rightarrow> unit io" where
  "rejectMountedTree dir = rejectMounts dir True"

section \<open>Writing an archive\<close>

text \<open>\<open>filepath.WalkDir\<close> visits a tree in lexical order, a directory before its entries; that is
  the order of the paths as lists of components. Nothing changes during a walk, so its order is
  read off the world at its start; every visit and every directory that is read is a call of its
  own.\<close>

definition in_tree :: "world \<Rightarrow> path \<Rightarrow> path \<Rightarrow> bool" where
  "in_tree w base p \<longleftrightarrow> below base p \<and> p \<noteq> base \<and>
     list_all (\<lambda>k. is_dir w (take k p)) [length base..<length p]"

definition tree_order :: "world \<Rightarrow> path \<Rightarrow> path list" where
  "tree_order w base = base # sort (remdups (filter (in_tree w base) (map fst (w_fs w))))"

definition walk_visit :: "(path \<Rightarrow> info \<Rightarrow> 'b \<Rightarrow> 'b io) \<Rightarrow> path \<Rightarrow> 'b \<Rightarrow> 'b io" where
  "walk_visit f p b =
     bindE (lstat p) (\<lambda>i. bindE (f p i b) (\<lambda>b'.
     if i_kind i = KDir then bindE (read_dir p) (\<lambda>_. retE b') else retE b'))"

definition walk :: "path \<Rightarrow> (path \<Rightarrow> info \<Rightarrow> 'b \<Rightarrow> 'b io) \<Rightarrow> 'b \<Rightarrow> 'b io" where
  "walk base f b w = foldE (walk_visit f) (tree_order w base) b w"

definition tar_header :: "string \<Rightarrow> info \<Rightarrow> content \<Rightarrow> tar_entry" where
  "tar_header name i c = \<lparr>te_name = name, te_kind = (if i_kind i = KDir then TarDir else TarReg),
     te_mode = int (i_perm i AND 511), te_uid = i_uid i, te_gid = i_gid i,
     te_size = (if i_kind i = KDir then 0 else int (i_size i)), te_data = c, te_short = False\<rparr>"

definition read_entry :: "path \<Rightarrow> content io" where
  "read_entry p =
     bindE (open_path p) (\<lambda>_.
     bindE (tryE (lstat p)) (\<lambda>r.
     if (case r of Inl _ \<Rightarrow> True | Inr i \<Rightarrow> i_kind i \<noteq> KRegular)
     then bindE (ignoreE (close_file p)) (\<lambda>_. failE (Msg ''storage entry changed while it was being archived''))
     else bindE (tryE (read_file p)) (\<lambda>c.
          bindE (tryE (close_file p)) (\<lambda>k.
          case c of
            Inl e \<Rightarrow> failE (case join_errs [Some e, err_of k] of Some j \<Rightarrow> j | None \<Rightarrow> e)
          | Inr x \<Rightarrow> (case join_errs [err_of k] of Some e \<Rightarrow> failE e | None \<Rightarrow> retE x)))))"

definition archive_entry :: "path \<Rightarrow> string \<Rightarrow> path \<Rightarrow> info \<Rightarrow> int \<times> tar_entry list \<Rightarrow> (int \<times> tar_entry list) io" where
  "archive_entry base arch p i acc =
     (let name = join_slash (arch # drop (length base) p) in
      if i_kind i \<noteq> KDir \<and> i_kind i \<noteq> KRegular
      then failE (Msg (''storage contains unsupported entry '' @ path_text p))
      else if i_kind i = KDir then retE (fst acc, snd acc @ [tar_header name i (Text [])])
      else if fst acc > maxRestoreBytes - int (i_size i)
      then failE (Msg ''instance storage exceeds the recovery point limit'')
      else bindE (read_entry p) (\<lambda>c. retE (fst acc + int (i_size i), snd acc @ [tar_header name i c])))"

text \<open>The bytes reach the file when the writers are flushed and closed; what a failed walk leaves
  in it is not modelled, both callers throw it away.\<close>

definition write_archive :: "point_store \<Rightarrow> path \<Rightarrow> err + int \<times> tar_entry list \<Rightarrow> unit io" where
  "write_archive st dst walked =
     bindE (tryE (case walked of Inl _ \<Rightarrow> retE () | Inr acc \<Rightarrow> write_data dst (ps_pack st (snd acc)))) (\<lambda>wr.
     bindE (tryE (fsync dst)) (\<lambda>sy.
     bindE (tryE (close_file dst)) (\<lambda>cl.
     case join_errs [err_of walked, err_of wr, err_of sy, err_of cl] of None \<Rightarrow> retE () | Some e \<Rightarrow> failE e)))"

definition archiveDirectory :: "point_store \<Rightarrow> path \<Rightarrow> path \<Rightarrow> string \<Rightarrow> unit io" where
  "archiveDirectory st base dst arch =
     bindE (tryE (lstat base)) (\<lambda>r.
     if (case r of Inl _ \<Rightarrow> True | Inr i \<Rightarrow> i_kind i \<noteq> KDir)
     then failE (Msg ''source directory is unavailable or unsafe'')
     else bindE (rejectNestedMounts base) (\<lambda>_.
          bindE (mkdir_all (butlast dst) 448) (\<lambda>_.
          bindE (open_excl dst 384) (\<lambda>_.
          bindE (tryE (walk base (archive_entry base arch) (0, []))) (\<lambda>walked.
          write_archive st dst walked)))))"

section \<open>Reading an archive\<close>

text \<open>\<open>os.MkdirTemp\<close>\<close>

definition mkdir_temp :: "path \<Rightarrow> string \<Rightarrow> path io" where
  "mkdir_temp d pre = sys (\<lambda>w.
     if \<not> is_dir w d then (Inl (Sentinel ErrNotExist), w)
     else (case fresh_temp 10000 d pre w of
             (None, w') \<Rightarrow> (Inl (Sentinel ErrExist), w')
           | (Some t, w') \<Rightarrow> (Inr t, set_node t (dir_node 448) w')))"

definition perm_bits :: "int \<Rightarrow> nat" where
  "perm_bits mode = nat (mode AND 511)"

definition own_entry :: "path \<Rightarrow> tar_entry \<Rightarrow> unit io" where
  "own_entry p h = bindE (chmod p (perm_bits (te_mode h))) (\<lambda>_. chown p (te_uid h) (te_gid h))"

definition extract_file :: "path \<Rightarrow> tar_entry \<Rightarrow> unit io" where
  "extract_file p h =
     bindE (mkdir_all (butlast p) 488) (\<lambda>_.
     bindE (open_excl p (nat (te_mode h AND 438))) (\<lambda>_.
     bindE (tryE (bindE (write_data p (te_data h)) (\<lambda>_.
                  if te_short h then failE (Msg ''unexpected EOF'') else retE ()))) (\<lambda>c.
     bindE (tryE (close_file p)) (\<lambda>k.
     case join_errs [err_of c, err_of k] of Some e \<Rightarrow> failE e | None \<Rightarrow> own_entry p h))))"

definition safe_name :: "string \<Rightarrow> string \<Rightarrow> bool" where
  "safe_name arch name \<longleftrightarrow> path_local name \<and> (name = arch \<or> has_prefix (arch @ [slash]) name)"

definition extract_entry :: "path \<Rightarrow> string \<Rightarrow> tar_entry \<Rightarrow> int \<Rightarrow> int io" where
  "extract_entry dst arch h used =
     (let name = path_clean (te_name h); p = resolve dst name in
      if \<not> safe_name arch name then failE (Msg ''directory archive contains an unsafe path'')
      else if te_size h < 0 \<or> used > maxRestoreBytes - te_size h
      then failE (Msg ''storage archive exceeds the restore limit'')
      else bindE (case te_kind h of
             TarDir \<Rightarrow> bindE (mkdir_all p (perm_bits (te_mode h))) (\<lambda>_. own_entry p h)
           | TarReg \<Rightarrow> extract_file p h
           | TarOther \<Rightarrow> failE (Msg ''storage archive contains an unsupported entry''))
         (\<lambda>_. retE (used + te_size h)))"

definition extractDirectoryArchive :: "point_store \<Rightarrow> path \<Rightarrow> path \<Rightarrow> string \<Rightarrow> unit io" where
  "extractDirectoryArchive st src dst arch =
     bindE (open_path src) (\<lambda>_.
     deferE
       (bindE (read_file src) (\<lambda>c.
        bindE (liftE (ps_unpack st c)) (\<lambda>(es, eof).
        bindE (foldE (extract_entry dst arch) es 0) (\<lambda>_.
        case eof of None \<Rightarrow> retE () | Some e \<Rightarrow> failE e))))
       (close_file src))"

definition stageDirectoryArchive :: "point_store \<Rightarrow> path \<Rightarrow> path \<Rightarrow> string \<Rightarrow> path io" where
  "stageDirectoryArchive st src dst arch =
     bindE (extractDirectoryArchive st src dst arch) (\<lambda>_.
     bindE (tryE (lstat (dst @ [arch]))) (\<lambda>r.
     if (case r of Inl _ \<Rightarrow> True | Inr i \<Rightarrow> i_kind i \<noteq> KDir)
     then failE (Msg ''recovery point directory archive is incomplete'')
     else retE (dst @ [arch])))"

section \<open>Exchanging a directory\<close>

definition reconcile_both :: "path \<Rightarrow> path \<Rightarrow> bool io" where
  "reconcile_both syncRoot old =
     bindE (rejectNestedMounts old) (\<lambda>_.
     bindE (wrapE (Wrap ''sync restored directory'') (point_sync syncRoot)) (\<lambda>_.
     bindE (wrapE (Wrap ''remove previous directory after interrupted restore'') (remove_all old)) (\<lambda>_.
     bindE (wrapE (Wrap ''commit interrupted directory restore'') (point_sync syncRoot)) (\<lambda>_. retE True))))"

definition reconcileInterruptedDirectorySwap :: "path \<Rightarrow> path \<Rightarrow> path \<Rightarrow> bool io" where
  "reconcileInterruptedDirectorySwap syncRoot current old =
     bindE (tryE (lstat old)) (\<lambda>r.
     if not_exist r then retE False
     else if (case r of Inl _ \<Rightarrow> True | Inr i \<Rightarrow> i_kind i \<noteq> KDir)
     then failE (Msg ''previous storage restore staging directory is unsafe'')
     else bindE (tryE (lstat current)) (\<lambda>c.
       if not_exist c then
         bindE (wrapE (Wrap ''recover interrupted directory swap'') (rename old current)) (\<lambda>_.
         bindE (wrapE (Wrap ''sync recovered directory swap'') (point_sync syncRoot)) (\<lambda>_. retE False))
       else if (case c of Inl _ \<Rightarrow> True | Inr i \<Rightarrow> i_kind i \<noteq> KDir)
       then failE (Msg ''restored storage path is unsafe'')
       else reconcile_both syncRoot old))"

text \<open>After the restored directory took its place the old one is not moved back.\<close>

definition swap_commit :: "path \<Rightarrow> path \<Rightarrow> unit io" where
  "swap_commit syncRoot old =
     bindE (rejectNestedMounts old) (\<lambda>_.
     bindE (tryE (point_sync syncRoot)) (\<lambda>a.
     bindE (tryE (remove_all old)) (\<lambda>b.
     bindE (tryE (point_sync syncRoot)) (\<lambda>c.
     case join_errs [err_of a, err_of b, err_of c] of
       None \<Rightarrow> retE () | Some e \<Rightarrow> failE (Wrap ''commit restored directory'' e)))))"

definition swap_directories :: "path \<Rightarrow> path \<Rightarrow> path \<Rightarrow> path \<Rightarrow> unit io" where
  "swap_directories syncRoot current staged old =
     bindE (wrapE (Wrap ''stage current directory for restore'') (rename current old)) (\<lambda>_.
     checkE (point_sync syncRoot)
       (\<lambda>e. bindE (ignoreE (rename old current)) (\<lambda>_. failE (Wrap ''sync staged current directory'' e)))
       (\<lambda>_. checkE (rename staged current)
          (\<lambda>e. bindE (ignoreE (rename old current)) (\<lambda>_. failE (Wrap ''activate restored directory'' e)))
          (\<lambda>_. swap_commit syncRoot old)))"

definition restoreStagedDirectory :: "path \<Rightarrow> path \<Rightarrow> path \<Rightarrow> path \<Rightarrow> unit io" where
  "restoreStagedDirectory syncRoot current staged old =
     bindE (reconcileInterruptedDirectorySwap syncRoot current old) (\<lambda>completed.
     if completed then retE ()
     else bindE (tryE (lstat staged)) (\<lambda>r.
       if (case r of Inl _ \<Rightarrow> True | Inr i \<Rightarrow> i_kind i \<noteq> KDir)
       then failE (Msg ''staged recovery directory is incomplete'')
       else bindE (rejectMountedTree current) (\<lambda>_.
            bindE (tryE (lstat old)) (\<lambda>o1. case o1 of
              Inr _ \<Rightarrow> failE (Msg ''previous directory restore staging path still exists'')
            | Inl e \<Rightarrow> if \<not> err_is ErrNotExist e then failE e
                      else swap_directories syncRoot current staged old))))"

end
