(* ===== verification/PointStore.thy ===== *)
theory PointStore
  imports PointFiles Manager
begin

text \<open>
  The store of recovery points of \<open>internal/recovery\<close> (\<open>store.go\<close>): creating a point in a
  staging directory, listing, validating and pruning points, and restoring one under the
  authority of recovery control. The database is an interface: dumping delivers what it wrote
  and whether it failed, restoring consumes the stream of a file.
\<close>

section \<open>State\<close>

record 'd database =
  db_dump :: "'d \<Rightarrow> (content \<times> err option) \<times> 'd"
  db_restore :: "err + content \<Rightarrow> ('d, unit) act"

text \<open>The host of a restore: its files and its database.\<close>

record 'd vault =
  va_world :: world
  va_db :: 'd

definition onF :: "'a io \<Rightarrow> ('d vault, 'a) act" where
  "onF m v = (case m (va_world v) of (r, w) \<Rightarrow> (r, v\<lparr>va_world := w\<rparr>))"

definition onD :: "('d, 'a) act \<Rightarrow> ('d vault, 'a) act" where
  "onD m v = (case m (va_db v) of (r, d) \<Rightarrow> (r, v\<lparr>va_db := d\<rparr>))"

section \<open>Places\<close>

definition backupRoot :: "point_store \<Rightarrow> err + path" where
  "backupRoot st =
     (let root = (if ps_root st = [] then ''/var/backups/geoflow-updater'' else ps_root st) in
      if \<not> is_abs root then Inl (Msg ''backup root must be absolute'') else Inr (text_path root))"

definition point_now :: "point_store \<Rightarrow> int io" where
  "point_now st w = (Inr (ps_now st w), w)"

definition point_newID :: "point_store \<Rightarrow> string io" where
  "point_newID st =
     bindE (wrapE (Wrap ''generate recovery point id'') (read_random 4)) (\<lambda>suffix.
     bindE (point_now st) (\<lambda>t. retE (point_stamp t @ ''-'' @ hex_encode suffix)))"

text \<open>A slash-separated name below a directory.\<close>

definition named_below :: "path \<Rightarrow> string \<Rightarrow> path" where
  "named_below d name = resolve d name"

definition storage_path :: "config \<Rightarrow> path" where
  "storage_path c = text_path (path_join [cf_root c, ''storage''])"

definition redis_parent :: "config \<Rightarrow> path" where
  "redis_parent c = text_path (path_join [cf_root c, ''docker-data'', ''prod''])"

section \<open>Listing and loading\<close>

definition manifest_ok :: "string \<Rightarrow> string \<Rightarrow> point \<Rightarrow> bool" where
  "manifest_ok inst i p \<longleftrightarrow> pt_schema p = 1 \<and> pt_id p = i \<and> pt_instance p = inst \<and> pt_release p \<noteq> 0 \<and>
     pt_created p \<noteq> zero_time"

definition load_point :: "point_store \<Rightarrow> string \<Rightarrow> string \<Rightarrow> (path \<times> point) io" where
  "load_point st inst i =
     (if \<not> instance_id_ok inst \<or> \<not> point_id_ok i then failE (Msg ''recovery point identifier is invalid'')
      else bindE (liftE (backupRoot st)) (\<lambda>root.
      let d = root @ [inst, i]; mp = d @ [''manifest.json''] in
      bindE (tryE (lstat mp)) (\<lambda>r.
      if (case r of Inl _ \<Rightarrow> True
          | Inr f \<Rightarrow> i_kind f \<noteq> KRegular \<or> i_size f < 1 \<or> i_size f > 1024 * 1024)
      then failE (Msg ''recovery point manifest is unavailable'')
      else bindE (read_file mp) (\<lambda>c.
        case (case c of Json j \<Rightarrow> point_of_json j | Text _ \<Rightarrow> None) of
          None \<Rightarrow> failE (Msg ''decode recovery point manifest'')
        | Some p \<Rightarrow> if \<not> manifest_ok inst i p then failE (Msg ''recovery point manifest is invalid'')
                   else retE (d, p)))))"

text \<open>\<open>os.ReadDir\<close> with the kind of every entry.\<close>

definition entry_kind :: "world \<Rightarrow> path \<Rightarrow> fkind option" where
  "entry_kind w p = map_option n_kind (look w p)"

definition read_dirs :: "path \<Rightarrow> string list io" where
  "read_dirs d = bindE (read_dir d) (\<lambda>ns w.
     (Inr (filter (\<lambda>n. entry_kind w (d @ [n]) = Some KDir) ns), w))"

definition collect_point :: "point_store \<Rightarrow> string \<Rightarrow> string \<Rightarrow> point list \<Rightarrow> point list io" where
  "collect_point st inst name acc =
     (if \<not> point_id_ok name then retE acc
      else bindE (tryE (load_point st inst name)) (\<lambda>r. case r of
             Inl _ \<Rightarrow> retE acc | Inr (_, p) \<Rightarrow> retE (acc @ [p])))"

text \<open>The newest first. Go leaves the order of points of the same instant open; here they keep
  the order of their names.\<close>

definition newest_first :: "point list \<Rightarrow> point list" where
  "newest_first ps = sort_key (\<lambda>p. - pt_created p) ps"

definition point_list :: "point_store \<Rightarrow> string \<Rightarrow> point list io" where
  "point_list st inst =
     (if \<not> instance_id_ok inst then failE (Msg ''managed instance identifier is invalid'')
      else bindE (liftE (backupRoot st)) (\<lambda>root.
           bindE (tryE (read_dirs (root @ [inst]))) (\<lambda>r. case r of
             Inl e \<Rightarrow> if err_is ErrNotExist e then retE [] else failE e
           | Inr names \<Rightarrow> bindE (foldE (collect_point st inst) names []) (\<lambda>ps. retE (newest_first ps)))))"

section \<open>Pruning\<close>

definition keep_count :: "point_store \<Rightarrow> int" where
  "keep_count st = (if ps_keep st = 0 then 5 else ps_keep st)"

definition coordination_of :: "point_store \<Rightarrow> rcstore \<Rightarrow> store" where
  "coordination_of st c = \<lparr>st_dir = rc_dir c, st_hook = (\<lambda>_. None), st_sync = None, st_sha = (\<lambda>j. ps_sha st (Json j))\<rparr>"

definition add_id :: "string \<Rightarrow> string list \<Rightarrow> string list" where
  "add_id i xs = (if i \<in> set xs then xs else xs @ [i])"

definition add_checkpoint :: "point list \<Rightarrow> string list \<Rightarrow> string list" where
  "add_checkpoint ps kept =
     (case filter IsUpdateCheckpoint ps of [] \<Rightarrow> kept | p # _ \<Rightarrow> add_id (pt_id p) kept)"

fun fill_kept :: "int \<Rightarrow> point list \<Rightarrow> string list \<Rightarrow> string list" where
  "fill_kept k [] kept = kept"
| "fill_kept k (p # ps) kept =
     (if int (length kept) \<ge> k then kept else fill_kept k ps (add_id (pt_id p) kept))"

definition retained_ids :: "int \<Rightarrow> string \<Rightarrow> string list \<Rightarrow> point list \<Rightarrow> string list" where
  "retained_ids k protected refs ps = fill_kept k ps (add_checkpoint ps (foldl (\<lambda>xs i. add_id i xs) [protected] refs))"

definition remove_point :: "point_store \<Rightarrow> string \<Rightarrow> string \<Rightarrow> unit io" where
  "remove_point st inst i =
     bindE (liftE (backupRoot st)) (\<lambda>root.
     bindE (tryE (lstat (root @ [inst, i]))) (\<lambda>r.
     if (case r of Inl _ \<Rightarrow> True | Inr f \<Rightarrow> i_kind f \<noteq> KDir)
     then failE (Msg ''recovery point retention target is unsafe'')
     else bindE (remove_all (root @ [inst, i])) (\<lambda>_. point_sync (root @ [inst]))))"

definition prune :: "point_store \<Rightarrow> string \<Rightarrow> string \<Rightarrow> unit io" where
  "prune st inst protected =
     (let k = keep_count st in
      if k < 1 then failE (Msg ''recovery point retention must be positive'')
      else bindE (point_list st inst) (\<lambda>ps.
           bindE (case ps_control st of None \<Rightarrow> retE []
                  | Some c \<Rightarrow> bindE (point_now st) (\<lambda>t. protectedPoints (coordination_of st c) inst t)) (\<lambda>refs.
           let kept = retained_ids k protected refs ps in
           forE (\<lambda>p. if pt_id p \<in> set kept then retE () else remove_point st inst (pt_id p)) ps)))"

section \<open>Creating a point\<close>

definition describe_into :: "point_store \<Rightarrow> path \<Rightarrow> string \<Rightarrow> file_map \<Rightarrow> file_map io" where
  "describe_into st d name files =
     bindE (describeFile st (named_below d name)) (\<lambda>r. retE (map_put name r files))"

definition dump_database :: "'d database \<Rightarrow> path \<Rightarrow> ('d vault, unit) act" where
  "dump_database db p =
     bindE (onF (wrapE (Wrap ''create database backup'') (open_excl p 384))) (\<lambda>_.
     bindE (\<lambda>v. case db_dump db (va_db v) of (r, d) \<Rightarrow> (Inr r, v\<lparr>va_db := d\<rparr>)) (\<lambda>(c, failed).
     bindE (tryE (onF (write_data p c))) (\<lambda>wr.
     case (case wr of Inl e \<Rightarrow> Some e | Inr _ \<Rightarrow> failed) of
       Some e \<Rightarrow> bindE (ignoreE (onF (close_file p))) (\<lambda>_. failE (Wrap ''dump PostgreSQL database'' e))
     | None \<Rightarrow> onF (checkE (fsync p)
         (\<lambda>e. bindE (ignoreE (close_file p)) (\<lambda>_. failE (Wrap ''sync database backup'' e)))
         (\<lambda>_. wrapE (Wrap ''close database backup'') (close_file p))))))"

definition back_up_artifact :: "point_store \<Rightarrow> path \<Rightarrow> string \<times> string \<Rightarrow> file_map \<Rightarrow> file_map io" where
  "back_up_artifact st d a files =
     bindE (wrapE (Wrap (''back up '' @ fst a)) (copyRegularFile (text_path (snd a)) (named_below d (fst a)))) (\<lambda>_.
     describe_into st d (fst a) files)"

definition new_point :: "config \<Rightarrow> string \<Rightarrow> string \<Rightarrow> int \<Rightarrow> file_map \<Rightarrow> point" where
  "new_point c i reason t files =
     \<lparr>pt_deployment = Some c, pt_schema = 1, pt_id = i, pt_instance = cf_id c, pt_reason = trim reason,
      pt_created = t, pt_version = cf_version c, pt_release = cf_release c, pt_root = cf_root c,
      pt_files = files\<rparr>"

text \<open>What goes into the staging directory before it is committed.\<close>

definition fill_point :: "point_store \<Rightarrow> config \<Rightarrow> string \<Rightarrow> string \<Rightarrow> 'd database \<Rightarrow> path \<Rightarrow> ('d vault, point) act" where
  "fill_point st c reason i db d =
     bindE (dump_database db (d @ [''database.dump''])) (\<lambda>_. onF (
     bindE (describe_into st d ''database.dump'' []) (\<lambda>f1.
     bindE (archiveDirectory st (storage_path c) (d @ [''storage.tar.gz'']) ''storage'') (\<lambda>_.
     bindE (describe_into st d ''storage.tar.gz'' f1) (\<lambda>f2.
     bindE (wrapE (Wrap ''archive Redis data'')
        (archiveDirectory st (redis_parent c @ [''redis'']) (d @ [''redis.tar.gz'']) ''redis'')) (\<lambda>_.
     bindE (describe_into st d ''redis.tar.gz'' f2) (\<lambda>f3.
     bindE (foldE (back_up_artifact st d) (sort_key fst (deploymentArtifacts c)) f3) (\<lambda>files.
     bindE (point_now st) (\<lambda>t.
     let p = new_point c i reason t files in
     bindE (writeExclusive (d @ [''manifest.json'']) (Json (point_to_json p)) 384) (\<lambda>_.
     bindE (wrapE (Wrap ''sync recovery point'') (point_sync d)) (\<lambda>_. retE p)))))))))))"

definition create_committed :: "path \<Rightarrow> path \<Rightarrow> path \<Rightarrow> unit io" where
  "create_committed instanceRoot tmp final =
     bindE (wrapE (Wrap ''commit recovery point'') (rename tmp final)) (\<lambda>_.
     wrapE (Wrap ''sync committed recovery point'') (point_sync instanceRoot))"

text \<open>The deferred clean-up removes the staging directory unless the point was committed.\<close>

definition create_staged ::
    "point_store \<Rightarrow> config \<Rightarrow> string \<Rightarrow> string \<Rightarrow> 'd database \<Rightarrow> path \<Rightarrow> path \<Rightarrow> path \<Rightarrow> ('d vault, point) act" where
  "create_staged st c reason i db instanceRoot tmp final =
     checkE (bindE (fill_point st c reason i db tmp) (\<lambda>p.
             bindE (onF (create_committed instanceRoot tmp final)) (\<lambda>_. retE p)))
       (\<lambda>e. bindE (ignoreE (onF (remove_all tmp))) (\<lambda>_. failE e))
       (\<lambda>p. bindE (onF (wrapE (Wrap ''prune old recovery points'') (prune st (cf_id c) i))) (\<lambda>_. retE p))"

definition create_point :: "point_store \<Rightarrow> config \<Rightarrow> string \<Rightarrow> 'd database option \<Rightarrow> ('d vault, point) act" where
  "create_point st c reason db =
     (case db of None \<Rightarrow> failE (Msg ''database backup service is required'')
      | Some b \<Rightarrow>
        bindE (liftE (backupRoot st)) (\<lambda>root.
        if \<not> instance_id_ok (cf_id c) \<or> cf_root c = [] \<or> cf_compose c = [] \<or> cf_env c = []
        then failE (Msg ''instance configuration is incomplete'')
        else
          bindE (onF (wrapE (Wrap ''create recovery point directory'') (ensureDirectory (root @ [cf_id c]) 448))) (\<lambda>_.
          bindE (onF (point_newID st)) (\<lambda>i.
          bindE (onF (wrapE (Wrap ''create recovery point staging directory'')
                   (mkdir (root @ [cf_id c, ''.'' @ i @ ''.partial'']) 448))) (\<lambda>_.
          create_staged st c reason i b (root @ [cf_id c]) (root @ [cf_id c, ''.'' @ i @ ''.partial''])
            (root @ [cf_id c, i]))))))"

section \<open>Validating\<close>

definition expected_files :: "config \<Rightarrow> string list" where
  "expected_files source = [''database.dump'', ''redis.tar.gz'', ''storage.tar.gz''] @ map fst (deploymentArtifacts source)"

definition check_file :: "point_store \<Rightarrow> path \<Rightarrow> file_map \<Rightarrow> string \<Rightarrow> unit io" where
  "check_file st d files name =
     (case map_of files name of
        None \<Rightarrow> failE (Msg (''recovery point is missing '' @ name))
      | Some r \<Rightarrow> wrapE (Wrap (''verify recovery point '' @ name)) (verifyFile st (named_below d name) r))"

definition validate_point :: "point_store \<Rightarrow> config \<Rightarrow> string \<Rightarrow> (path \<times> point) io" where
  "validate_point st c i =
     bindE (load_point st (cf_id c) i) (\<lambda>(d, p).
     if pt_root p \<noteq> cf_root c then failE (Msg ''recovery point belongs to a different instance root'')
     else bindE (liftE (recoveryConfiguration c p)) (\<lambda>source.
          if length (pt_files p) \<noteq> length (expected_files source)
          then failE (Msg ''recovery point file set is incomplete'')
          else bindE (forE (check_file st d (pt_files p)) (expected_files source)) (\<lambda>_. retE (d, p))))"

section \<open>Restoring\<close>

definition sync_evidence :: "point_store \<Rightarrow> path \<Rightarrow> unit io" where
  "sync_evidence st p = (case ps_sync st of None \<Rightarrow> point_sync p | Some f \<Rightarrow> f p)"

definition evidence_directory :: "point_store \<Rightarrow> path \<Rightarrow> unit io" where
  "evidence_directory st p =
     bindE (ensureDirectory p 448) (\<lambda>_.
     bindE (sync_evidence st p) (\<lambda>_. sync_evidence st (butlast p)))"

definition save_partial :: "point_store \<Rightarrow> path \<Rightarrow> path \<Rightarrow> unit io \<Rightarrow> unit io" where
  "save_partial st d p fill =
     bindE (tryE (lstat p)) (\<lambda>r. case r of
       Inr i \<Rightarrow> if i_kind i \<noteq> KRegular then failE (Msg ''unsafe Redis quarantine archive'') else retE ()
     | Inl e \<Rightarrow>
         if \<not> err_is ErrNotExist e then failE e
         else
           (let t = butlast p @ [last p @ ''.partial''] in
            bindE (tryE (remove t)) (\<lambda>q. case q of
              Inl e2 \<Rightarrow> if \<not> err_is ErrNotExist e2 then failE e2
                        else bindE fill (\<lambda>_. bindE (rename t p) (\<lambda>_. sync_evidence st d))
            | Inr _ \<Rightarrow> bindE fill (\<lambda>_. bindE (rename t p) (\<lambda>_. sync_evidence st d)))))"

definition quarantine_dir :: "rcstore \<Rightarrow> string \<Rightarrow> string \<Rightarrow> path" where
  "quarantine_dir ctl inst epoch =
     (case rc_dir ctl of None \<Rightarrow> [] | Some d \<Rightarrow> d) @ [''recovery-control'', inst, ''quarantine'', epoch]"

definition tx_of :: "rauthority \<Rightarrow> string" where
  "tx_of a = (case rs_tx (ra_state a) of None \<Rightarrow> [] | Some t \<Rightarrow> t)"

definition archives_json :: "rauthority \<Rightarrow> file_record \<Rightarrow> file_record \<Rightarrow> json" where
  "archives_json a before restored = JObj [(''schema_version'', JNum 1), (''point_id'', JStr (ra_point a)),
     (''epoch'', JStr (rs_epoch (ra_state a))), (''transaction_id'', JStr (tx_of a)),
     (''archives'', JObj [(''before-redis.tar.gz'', file_record_to_json before),
                          (''restored-redis.tar.gz'', file_record_to_json restored)])]"

definition record_evidence :: "point_store \<Rightarrow> path \<Rightarrow> json \<Rightarrow> unit io" where
  "record_evidence st d j =
     bindE (tryE (read_file (d @ [''archives.json'']))) (\<lambda>r. case r of
       Inr c \<Rightarrow> if c \<noteq> Json j then failE (Msg ''Redis archive evidence changed'') else retE ()
     | Inl e \<Rightarrow> if \<not> err_is ErrNotExist e then failE e
               else bindE (writeExclusive (d @ [''archives.json'']) (Json j) 384) (\<lambda>_. sync_evidence st d))"

definition preserveRedis :: "point_store \<Rightarrow> rcstore \<Rightarrow> config \<Rightarrow> path \<Rightarrow> rauthority \<Rightarrow> unit io" where
  "preserveRedis st ctl c pointPath a =
     (let d = quarantine_dir ctl (cf_id c) (rs_epoch (ra_state a)) in
      bindE (forE (evidence_directory st) [butlast d, d]) (\<lambda>_.
      bindE (save_partial st d (d @ [''before-redis.tar.gz''])
        (archiveDirectory st (redis_parent c @ [''redis'']) (d @ [''before-redis.tar.gz.partial'']) ''redis'')) (\<lambda>_.
      bindE (save_partial st d (d @ [''restored-redis.tar.gz''])
        (copyRegularFile (pointPath @ [''redis.tar.gz'']) (d @ [''restored-redis.tar.gz.partial'']))) (\<lambda>_.
      bindE (describeFile st (d @ [''before-redis.tar.gz''])) (\<lambda>before.
      bindE (describeFile st (d @ [''restored-redis.tar.gz''])) (\<lambda>restored.
      record_evidence st d (archives_json a before restored)))))))"

definition restore_artifact :: "path \<Rightarrow> file_map \<Rightarrow> string \<times> string \<Rightarrow> unit io" where
  "restore_artifact d files a =
     wrapE (Wrap (''restore '' @ fst a)) (replaceFile (named_below d (fst a)) (text_path (snd a))
       (case map_of files (fst a) of None \<Rightarrow> zero_file_record | Some r \<Rightarrow> r))"

definition restore_database :: "'d database \<Rightarrow> path \<Rightarrow> ('d vault, unit) act" where
  "restore_database db p =
     bindE (onF (wrapE (Wrap ''open database backup'') (open_path p))) (\<lambda>_.
     bindE (tryE (onF (read_file p))) (\<lambda>stream.
     checkE (onD (db_restore db stream))
       (\<lambda>e. bindE (ignoreE (onF (close_file p))) (\<lambda>_. failE (Wrap ''restore PostgreSQL database'' e)))
       (\<lambda>_. onF (wrapE (Wrap ''close database backup'') (close_file p)))))"

definition old_name :: "string \<Rightarrow> string \<Rightarrow> string" where
  "old_name kind i = ''.geoflow-updater-'' @ kind @ ''-old-'' @ i"

definition restore_trees :: "config \<Rightarrow> string \<Rightarrow> path \<Rightarrow> path \<Rightarrow> unit io" where
  "restore_trees c i storage redis =
     bindE (wrapE (Wrap ''restore storage'') (restoreStagedDirectory (text_path (cf_root c)) (storage_path c) storage
       (text_path (cf_root c) @ [old_name ''storage'' i]))) (\<lambda>_.
     wrapE (Wrap ''restore Redis data'') (restoreStagedDirectory (redis_parent c) (redis_parent c @ [''redis'']) redis
       (redis_parent c @ [old_name ''redis'' i])))"

text \<open>Everything that follows the durable boundary.\<close>

definition restore_data ::
    "point_store \<Rightarrow> rcstore \<Rightarrow> config \<Rightarrow> config \<Rightarrow> restore_request \<Rightarrow> path \<Rightarrow> point \<Rightarrow> 'd database \<Rightarrow>
     path \<Rightarrow> path \<Rightarrow> rauthority \<Rightarrow> ('d vault, unit) act" where
  "restore_data st ctl c source rq d p db storage redis a =
     bindE (onF (wrapE (Wrap ''preserve Redis recovery evidence'') (preserveRedis st ctl c d a))) (\<lambda>_.
     bindE (onF (forE (restore_artifact d (pt_files p)) (sort_key fst (deploymentArtifacts source)))) (\<lambda>_.
     bindE (restore_database db (d @ [''database.dump''])) (\<lambda>_.
     bindE (onF (restore_trees c (rq_point rq) storage redis)) (\<lambda>_.
     bindE (onF (Restored ctl (cf_id c) (rq_tx rq))) (\<lambda>_. retE ())))))"

definition restore_staged ::
    "point_store \<Rightarrow> config \<Rightarrow> config \<Rightarrow> restore_request \<Rightarrow> path \<Rightarrow> point \<Rightarrow> 'd database \<Rightarrow>
     path \<Rightarrow> path \<Rightarrow> ('d vault, unit) act" where
  "restore_staged st c source rq d p db storage redis =
     bindE (onF (rejectMountedTree (storage_path c))) (\<lambda>_.
     bindE (onF (rejectMountedTree (redis_parent c @ [''redis'']))) (\<lambda>_.
     case ps_control st of
       None \<Rightarrow> failE (Msg ''durable recovery control is required before restoring data'')
     | Some ctl \<Rightarrow>
         bindE (onF (wrapE (Wrap ''persist restore boundary'')
           (rcBegin ctl (cf_id c) (rq_point rq) (rq_tx rq) (rq_digest rq)))) (\<lambda>a.
         if ra_restored a then retE ()
         else restore_data st ctl c source rq d p db storage redis a)))"

definition restoreValidated ::
    "point_store \<Rightarrow> config \<Rightarrow> restore_request \<Rightarrow> path \<Rightarrow> point \<Rightarrow> 'd database \<Rightarrow> ('d vault, unit) act" where
  "restoreValidated st c rq d p db =
     bindE (liftE (recoveryConfiguration c p)) (\<lambda>source.
     bindE (onF (wrapE (Wrap ''create recovery restore staging directory'')
       (mkdir_temp (text_path (cf_root c)) restore_prefix))) (\<lambda>s1.
     deferE (
       bindE (onF (wrapE (Wrap ''stage storage recovery archive'')
         (stageDirectoryArchive st (d @ [''storage.tar.gz'']) s1 ''storage''))) (\<lambda>storage.
       bindE (onF (wrapE (Wrap ''create Redis recovery staging directory'')
         (mkdir_temp (redis_parent c) restore_prefix))) (\<lambda>s2.
       deferE (
         bindE (onF (wrapE (Wrap ''stage Redis recovery archive'')
           (stageDirectoryArchive st (d @ [''redis.tar.gz'']) s2 ''redis''))) (\<lambda>redis.
         restore_staged st c source rq d p db storage redis))
       (onF (remove_all s2)))))
     (onF (remove_all s1))))"

definition restore_point :: "point_store \<Rightarrow> config \<Rightarrow> restore_request \<Rightarrow> 'd database option \<Rightarrow> ('d vault, unit) act" where
  "restore_point st c rq db =
     (case db of None \<Rightarrow> failE (Msg ''database restore service is required'')
      | Some b \<Rightarrow> bindE (onF (validate_point st c (rq_point rq))) (\<lambda>(d, p). restoreValidated st c rq d p b))"

end
