(* ===== verification/SwapLaws.thy ===== *)
theory SwapLaws
  imports PointFiles
begin

text \<open>
  Moving whole directories, and what the exchange of a directory for a restored one guarantees:
  wherever it stops, the tree in use is the one that was in use before or the restored one, and
  running it again finishes the exchange.
\<close>

section \<open>Trees\<close>

text \<open>The entries of a subtree by the path below its root.\<close>

definition tree :: "world \<Rightarrow> path \<Rightarrow> path \<Rightarrow> node option" where
  "tree w p = (\<lambda>r. look w (p @ r))"

definition no_tree :: "path \<Rightarrow> node option" where
  "no_tree = (\<lambda>_. None)"

text \<open>An entry that does not exist has nothing below it.\<close>

definition rooted_at :: "world \<Rightarrow> path \<Rightarrow> bool" where
  "rooted_at w p \<longleftrightarrow> (look w p = None \<longrightarrow> tree w p = no_tree)"

definition apart :: "path \<Rightarrow> path \<Rightarrow> bool" where
  "apart p q \<longleftrightarrow> \<not> below p q \<and> \<not> below q p"

lemma apart_sym: "apart p q \<Longrightarrow> apart q p"
  by (simp add: apart_def)

lemma below_iff: "below d p \<longleftrightarrow> (\<exists>r. p = d @ r)"
  by (simp add: below_def has_prefix_iff)

lemma below_append [simp]: "below d (d @ r)"
  by (simp add: below_iff)

lemma below_refl [simp]: "below d d"
  by (auto simp: below_iff)

lemma below_trans: "below a b \<Longrightarrow> below b c \<Longrightarrow> below a c"
  by (auto simp: below_iff)

lemma apart_below: "apart p q \<Longrightarrow> below p x \<Longrightarrow> \<not> below q x"
  by (auto simp: apart_def below_iff append_eq_append_conv2)

lemma tree_same: "(\<And>q. below p q \<Longrightarrow> look w' q = look w q) \<Longrightarrow> tree w' p = tree w p"
  by (auto simp: tree_def)

lemma tree_same_files: "same_files w w' \<Longrightarrow> tree w' p = tree w p"
  by (auto simp: tree_def same_files_look)

lemma tree_look: "tree w p [] = look w p"
  by (simp add: tree_def)

lemma tree_no_tree: "tree w p = no_tree \<Longrightarrow> look w p = None"
  using tree_look[of w p] by (simp add: no_tree_def)

section \<open>Removing and moving\<close>

lemma look_remove_all:
  "look (w\<lparr>w_fs := filter (\<lambda>(q, _). \<not> below p q) (w_fs w)\<rparr>) q = (if below p q then None else look w q)"
  by (simp add: look_def)

lemma touches_remove_all: "keeps (touches (below p)) (remove_all p)"
  unfolding remove_all_def
  by (rule keeps_sys_touches) (auto simp: touches_def same_env_def look_remove_all on_disk_def)

lemma remove_all_outcome:
  "wp (remove_all p) (\<lambda>r w'. touches (below p) w w' \<and>
     (tree w' p = no_tree \<or> r \<noteq> Inr () \<and> (\<forall>q. look w' q = look w q))) w"
  unfolding remove_all_def
  by (rule wp_sysI)
     (auto simp: wp_def touches_def same_env_def look_remove_all on_disk_def tree_def no_tree_def look_def)

lemma relocate_eq:
  assumes "\<not> below dst p"
  shows "relocate src dst p = q \<longleftrightarrow>
    (if below dst q then p = src @ drop (length dst) q else \<not> below src p \<and> p = q)"
proof (cases "below src p")
  case True
  then obtain r where p: "p = src @ r" by (auto simp: below_iff)
  have "dst @ r = q \<longleftrightarrow> below dst q \<and> r = drop (length dst) q" by (auto simp: below_iff)
  with p show ?thesis by (auto simp: relocate_def)
next
  case False
  then have "p \<noteq> src @ x" for x by (auto simp: below_iff)
  with False assms show ?thesis by (auto simp: relocate_def)
qed

lemma map_of_relocate:
  assumes "\<forall>(p, n) \<in> set xs. \<not> below dst p"
  shows "map_of (map (\<lambda>(p, n). (relocate src dst p, n)) xs) q =
    (if below dst q then map_of xs (src @ drop (length dst) q) else if below src q then None else map_of xs q)"
  using assms
proof (induction xs)
  case (Cons x xs)
  obtain p n where x: "x = (p, n)" by fastforce
  note eq = relocate_eq[of dst p src q]
  have IH: "map_of (map (\<lambda>(p, n). (relocate src dst p, n)) xs) q =
    (if below dst q then map_of xs (src @ drop (length dst) q) else if below src q then None else map_of xs q)"
    using Cons by simp
  have p: "\<not> below dst p" using Cons.prems x by simp
  show ?case
  proof (cases "below dst q")
    case True
    with eq p have "(relocate src dst p = q) = (src @ drop (length dst) q = p)" by auto
    with True IH x show ?thesis by (auto simp: eq_commute)
  next
    case False
    with eq p have "(relocate src dst p = q) = (\<not> below src p \<and> p = q)" by simp
    with False IH x show ?thesis by (auto simp: eq_commute)
  qed
qed simp

text \<open>A directory that was moved.\<close>

lemma look_renamed:
  assumes "apart src dst"
  shows "look (w\<lparr>w_fs := map (\<lambda>(p, n). (relocate src dst p, n)) (filter (\<lambda>(p, _). \<not> below dst p) (w_fs w))\<rparr>) q =
    (if below dst q then look w (src @ drop (length dst) q) else if below src q then None else look w q)"
proof -
  have "\<not> below dst (src @ r)" for r
    using apart_below[OF assms, of "src @ r"] by simp
  then show ?thesis
    using map_of_relocate[of "filter (\<lambda>(p, _). \<not> below dst p) (w_fs w)" dst src q]
    by (auto simp: look_def)
qed

definition moved :: "path \<Rightarrow> path \<Rightarrow> world \<Rightarrow> world \<Rightarrow> bool" where
  "moved src dst w w' \<longleftrightarrow> tree w' dst = tree w src \<and> tree w' src = no_tree \<and>
     (\<forall>q. \<not> below src q \<longrightarrow> \<not> below dst q \<longrightarrow> look w' q = look w q)"

lemma rename_tree_outcome:
  assumes "look w src = Some n" and "n_kind n = KDir" and "apart src dst"
  shows "wp (rename src dst) (\<lambda>r w'. same_env w w' \<and> ((\<forall>q. look w' q = look w q) \<and> r \<noteq> Inr () \<or> moved src dst w w')) w"
proof -
  have ne: "src \<noteq> dst" "\<not> below src dst" using assms(3) by (auto simp: apart_def)
  have no: "\<not> below dst (src @ x)" for x
    using apart_below[OF assms(3), of "src @ x"] by simp
  have mv: "moved src dst w (w\<lparr>w_tick := k, w_fs := map (\<lambda>(p, n). (relocate src dst p, n)) (filter (\<lambda>(p, _). \<not> below dst p) (w_fs w))\<rparr>)" for k
    using look_renamed[OF assms(3), of "w\<lparr>w_tick := k\<rparr>"] no
    by (simp add: moved_def tree_def no_tree_def fun_eq_iff)
  show ?thesis
    unfolding rename_def using assms(1,2) ne
    by (intro wp_sysI) (auto simp: wp_def same_env_def mv)
qed

lemma touches_rename: "keeps (touches (\<lambda>q. below src q \<or> below dst q)) (rename src dst)"
proof -
  have mv: "look (w\<lparr>w_fs := map (\<lambda>(p, n). (relocate src dst p, n)) (filter (\<lambda>(p, _). \<not> below dst p) (w_fs w))\<rparr>) q =
      look w q" if "\<not> below src q" "\<not> below dst q" for w q
    using map_of_relocate[of "filter (\<lambda>(p, _). \<not> below dst p) (w_fs w)" dst src q] that
    by (auto simp: look_def)
  show ?thesis
    unfolding rename_def
    by (rule keeps_sys_touches) (auto simp: touches_def same_env_def mv on_disk_def split: option.splits)
qed

section \<open>Calls that leave every entry alone\<close>

definition same_look :: "world \<Rightarrow> world \<Rightarrow> bool" where
  "same_look w w' \<longleftrightarrow> (\<forall>q. look w' q = look w q)"

interpretation still: frame same_look
  by unfold_locales (simp_all add: same_look_def)

lemma still_reads [keeps_intros]: "keeps same_files m \<Longrightarrow> keeps same_look m"
  by (erule keeps_mono) (simp add: same_look_def same_files_look)

lemma still_sync_entries [keeps_intros]: "keeps same_look (sync_entries d)"
  using touches_sync_entries[of "\<lambda>_. False"] by (rule keeps_mono) (simp add: same_look_def touches_def)

lemma still_point_sync [keeps_intros]: "keeps same_look (point_sync d)"
  unfolding point_sync_def by (intro keeps_intros)

lemma reads_rejectMounts [keeps_intros]: "keeps same_files (rejectMounts d b)"
  unfolding rejectMounts_def
  by (intro keeps_intros reads.keeps_bindE reads.keeps_tryE reads.keeps_retE reads.keeps_failE keeps_case_sum)
     (auto intro!: keeps_intros reads.keeps_retE reads.keeps_failE split: list.splits)

lemma touches_point_sync: "keeps (touches P) (point_sync d)"
  unfolding point_sync_def
  by (intro keeps_intros writes.keeps_bindE writes.keeps_tryE writes.keeps_retE writes.keeps_failE
      keeps_reads_touches[OF reads_open_path] keeps_reads_touches[OF reads_close_file])

section \<open>The exchange\<close>

text \<open>The tree in use: the current one, or the old one while it is moved aside.\<close>

definition live :: "path \<Rightarrow> path \<Rightarrow> world \<Rightarrow> path \<Rightarrow> node option" where
  "live cur old w = (if look w cur \<noteq> None then tree w cur else tree w old)"

text \<open>What both paths may hold: directories, and nothing below an entry that is not there.\<close>

definition swappable :: "path \<Rightarrow> path \<Rightarrow> world \<Rightarrow> bool" where
  "swappable cur old w \<longleftrightarrow> rooted_at w cur \<and> rooted_at w old \<and> (\<forall>n. look w cur = Some n \<longrightarrow> n_kind n = KDir)"

lemma same_look_simps:
  assumes "same_look w w'"
  shows "live cur old w' = live cur old w" "swappable cur old w' = swappable cur old w" "tree w' p = tree w p"
    "look w' p = look w p"
proof -
  have "look w' = look w" using assms by (auto simp: same_look_def)
  then show "live cur old w' = live cur old w" "swappable cur old w' = swappable cur old w" "tree w' p = tree w p"
    "look w' p = look w p"
    by (simp_all add: live_def swappable_def rooted_at_def tree_def)
qed

lemma still_wp: "keeps same_look m \<Longrightarrow> wp m (\<lambda>r. same_look w) w"
  by (rule keeps_wp)

lemma lstat_still:
  "wp (lstat p) (\<lambda>r w'. same_look w w' \<and> (\<forall>i. r = Inr i \<longrightarrow> (\<exists>n. look w p = Some n \<and> i_kind i = n_kind n)) \<and>
     (not_exist r \<longrightarrow> look w p = None)) w"
  by (rule wp_mono[OF lstat_outcome]) (auto simp: same_look_def same_files_look info_of_def)

lemma moved_kept: "moved src dst w w' \<Longrightarrow> apart p src \<Longrightarrow> apart p dst \<Longrightarrow> tree w' p = tree w p"
  unfolding moved_def by (rule tree_same) (blast dest: apart_below)

lemma moved_look: "moved src dst w w' \<Longrightarrow> look w' dst = look w src \<and> look w' src = None"
  using tree_look[of w' dst] tree_look[of w src] tree_look[of w' src] by (simp add: moved_def no_tree_def)

text \<open>Moving the old tree back, or the current one aside, changes neither what is in use.\<close>

lemma moved_back:
  assumes "moved old cur w w'" and "look w cur = None" and "look w old = Some n" and "n_kind n = KDir"
  shows "live cur old w' = live cur old w \<and> swappable cur old w' \<and> look w' old = None"
  using assms moved_look[OF assms(1)]
  by (auto simp: live_def swappable_def rooted_at_def moved_def)

lemma moved_aside:
  assumes "moved cur old w w'" and "look w cur \<noteq> None"
  shows "live cur old w' = live cur old w \<and> look w' cur = None \<and> swappable cur old w'"
  using assms moved_look[OF assms(1)]
  by (auto simp: live_def swappable_def rooted_at_def moved_def)

definition reconciled :: "path \<Rightarrow> path \<Rightarrow> path \<Rightarrow> world \<Rightarrow> err + bool \<Rightarrow> world \<Rightarrow> bool" where
  "reconciled cur old staged w r w' \<longleftrightarrow>
     live cur old w' = live cur old w \<and> swappable cur old w' \<and> tree w' staged = tree w staged \<and>
     (r = Inr True \<longrightarrow> look w cur \<noteq> None \<and> look w old \<noteq> None \<and> look w' cur \<noteq> None \<and> look w' old = None) \<and>
     (r = Inr False \<longrightarrow> look w' old = None)"

lemma reconciled_same:
  "same_look w w' \<Longrightarrow> swappable cur old w \<Longrightarrow> (r = Inr False \<longrightarrow> look w old = None) \<Longrightarrow> r \<noteq> Inr True \<Longrightarrow>
     reconciled cur old staged w r w'"
  by (simp add: reconciled_def same_look_simps)

lemma removed_old:
  assumes "touches (below old) w w'" "tree w' old = no_tree" "apart cur old" "apart staged old"
    and "swappable cur old w" "look w cur \<noteq> None"
  shows "live cur old w' = live cur old w" "swappable cur old w'" "look w' old = None" "look w' cur \<noteq> None"
    "tree w' staged = tree w staged"
proof -
  have t: "tree w' cur = tree w cur" "tree w' staged = tree w staged"
    using assms(1,3,4) by (auto intro!: tree_same touches_look dest: apart_below)
  have l: "look w' cur = look w cur" using t(1) tree_look by metis
  show "live cur old w' = live cur old w" "swappable cur old w'" "look w' old = None" "look w' cur \<noteq> None"
    "tree w' staged = tree w staged"
    using assms(2,5,6) t l tree_no_tree[OF assms(2)] by (auto simp: live_def swappable_def rooted_at_def)
qed

lemma reconcile_both_spec:
  assumes "swappable cur old w" "apart cur old" "apart staged old" "look w cur \<noteq> None" "look w old \<noteq> None"
  shows "wp (reconcile_both s old) (reconciled cur old staged w) w"
proof -
  let ?last = "bindE (wrapE (Wrap ''commit interrupted directory restore'') (point_sync s)) (\<lambda>_. retE True)"
  let ?rm = "bindE (wrapE (Wrap ''remove previous directory after interrupted restore'') (remove_all old)) (\<lambda>_. ?last)"
  have same: "reconciled cur old staged w (Inl e) w'" if "same_look w w'" for e w'
    using that by (rule reconciled_same) (use assms in simp_all)
  have gone: "reconciled cur old staged w r w'"
    if "same_look w w1" "touches (below old) w1 w2" "tree w2 old = no_tree" "same_look w2 w'" "r \<noteq> Inr False"
    for r w1 w2 w'
  proof -
    from that(1) assms have "swappable cur old w1" "look w1 cur \<noteq> None" by (simp_all add: same_look_simps)
    from removed_old[OF that(2,3) assms(2,3) this] that assms(4,5) show ?thesis
      by (simp add: reconciled_def same_look_simps)
  qed
  have rm: "wp ?rm (reconciled cur old staged w) w1" if w1: "same_look w w1" for w1
    unfolding wp_bindE[of "wrapE _ (remove_all old)" "\<lambda>_. ?last"] wp_wrapE
  proof (rule wp_mono[OF remove_all_outcome], goal_cases)
    case (1 r w2)
    show ?case
    proof (cases r)
      case (Inl e)
      with 1 w1 gone[OF w1 _ _ still.refl] same[OF still.trans[OF w1]] show ?thesis
        by (auto simp: same_look_def)
    next
      case (Inr u)
      have "wp ?last (reconciled cur old staged w) w2"
        unfolding wp_bindE wp_wrapE wp_retE
        by (rule wp_mono[OF still_wp[OF still_point_sync]])
           (use gone[OF w1, of w2] 1 Inr in \<open>auto split: sum.splits\<close>)
      with Inr show ?thesis by simp
    qed
  qed
  have sync: "wp (bindE (wrapE (Wrap ''sync restored directory'') (point_sync s)) (\<lambda>_. ?rm))
      (reconciled cur old staged w) w1" if w1: "same_look w w1" for w1
    unfolding wp_bindE[of "wrapE _ (point_sync s)" "\<lambda>_. ?rm"] wp_wrapE
    by (rule wp_mono[OF still_wp[OF still_point_sync]])
       (use same[OF still.trans[OF w1]] rm[OF still.trans[OF w1]] in \<open>auto split: sum.splits\<close>)
  show ?thesis
    unfolding reconcile_both_def rejectNestedMounts_def
    by (rule wp_bindI[OF still_wp]) (use same sync in \<open>auto intro: keeps_intros\<close>)
qed

lemma reconcile_spec:
  assumes "swappable cur old w" "apart cur old" "apart staged cur" "apart staged old"
  shows "wp (reconcileInterruptedDirectorySwap s cur old) (reconciled cur old staged w) w"
proof -
  have same: "reconciled cur old staged w r w'"
    if "same_look w w'" "r = Inr False \<longrightarrow> look w old = None" "r \<noteq> Inr True" for r w'
    using reconciled_same[OF that(1) assms(1)] that by simp
  have undo: "wp (bindE (wrapE (Wrap ''recover interrupted directory swap'') (rename old cur)) (\<lambda>_.
       bindE (wrapE (Wrap ''sync recovered directory swap'') (point_sync s)) (\<lambda>_. retE False)))
     (reconciled cur old staged w) w1"
    if w1: "same_look w w1" and n: "look w old = Some n" "n_kind n = KDir" and c: "look w cur = None" for w1 n
  proof -
    have w1': "look w1 old = Some n" "look w1 cur = None" using n c by (simp_all add: same_look_simps[OF w1])
    have fixed: "reconciled cur old staged w r w3"
      if "moved old cur w1 w2" "same_look w2 w3" "r \<noteq> Inr True" for r w2 w3
    proof -
      from moved_back[OF that(1) w1'(2,1) n(2)] moved_kept[OF that(1) assms(4,3)] that(3) show ?thesis
        by (simp add: reconciled_def same_look_simps[OF that(2)] same_look_simps[OF w1])
    qed
    show ?thesis
      unfolding wp_bindE[of "wrapE _ (rename old cur)"] wp_wrapE
    proof (rule wp_mono[OF rename_tree_outcome[OF w1'(1) n(2) apart_sym[OF assms(2)]]], goal_cases)
      case (1 r w2)
      then consider (stay) "same_look w1 w2" "r \<noteq> Inr ()" | (move) "moved old cur w1 w2"
        by (auto simp: same_look_def)
      then show ?case
      proof cases
        case stay
        with same[OF still.trans[OF w1]] show ?thesis by (auto split: sum.splits)
      next
        case move
        have "wp (bindE (wrapE (Wrap ''sync recovered directory swap'') (point_sync s)) (\<lambda>_. retE False))
           (reconciled cur old staged w) w2"
          unfolding wp_bindE wp_wrapE wp_retE
          by (rule wp_mono[OF still_wp[OF still_point_sync]]) (use fixed[OF move] in \<open>auto split: sum.splits\<close>)
        with fixed[OF move still.refl] show ?thesis by (auto split: sum.splits)
      qed
    qed
  qed
  show ?thesis
    unfolding reconcileInterruptedDirectorySwap_def
  proof (rule wp_tryI[OF lstat_still], goal_cases)
    case (1 r w1)
    then have w1: "same_look w w1" and r: "\<And>i. r = Inr i \<Longrightarrow> \<exists>n. look w old = Some n \<and> i_kind i = n_kind n"
      "not_exist r \<Longrightarrow> look w old = None" by auto
    show ?case
    proof (cases r)
      case (Inl e)
      with same[OF w1] r(2) show ?thesis by (auto simp: wp_eqs not_exist_def)
    next
      case (Inr i)
      with r obtain n where n: "look w old = Some n" "i_kind i = n_kind n" by blast
      show ?thesis
      proof (cases "n_kind n = KDir")
        case False
        with Inr n same[OF w1] show ?thesis by (simp add: wp_eqs not_exist_def)
      next
        case True
        have "wp (bindE (tryE (lstat cur)) (\<lambda>c.
           if not_exist c then
             bindE (wrapE (Wrap ''recover interrupted directory swap'') (rename old cur)) (\<lambda>_.
             bindE (wrapE (Wrap ''sync recovered directory swap'') (point_sync s)) (\<lambda>_. retE False))
           else if (case c of Inl _ \<Rightarrow> True | Inr i \<Rightarrow> i_kind i \<noteq> KDir)
           then failE (Msg ''restored storage path is unsafe'')
           else reconcile_both s old)) (reconciled cur old staged w) w1"
        proof (rule wp_tryI[OF lstat_still], goal_cases)
          case (1 c w2)
          then have w2: "same_look w w2" using w1 still.trans by blast
          consider (none) "not_exist c" | (bad) "\<not> not_exist c" "case c of Inl _ \<Rightarrow> True | Inr i \<Rightarrow> i_kind i \<noteq> KDir"
            | (dir) i where "c = Inr i" "i_kind i = KDir" "\<not> not_exist c"
            by (cases c) (auto simp: not_exist_def)
          then show ?case
          proof cases
            case none
            with 1 have "look w cur = None" by (simp add: same_look_simps[OF w1])
            from undo[OF w2 n(1) True this] none show ?thesis by simp
          next
            case bad
            with same[OF w2] show ?thesis by (simp add: wp_failE)
          next
            case dir
            with 1 have "look w cur \<noteq> None" by (auto simp: same_look_simps[OF w1])
            then have "look w2 cur \<noteq> None" "look w2 old \<noteq> None" "swappable cur old w2" using n assms(1) by (simp_all add: same_look_simps[OF w2])
            from reconcile_both_spec[OF this(3) assms(2,4) this(1,2)]
            have "wp (reconcile_both s old) (reconciled cur old staged w) w2"
              by (rule wp_mono) (simp add: reconciled_def same_look_simps[OF w2])
            with dir show ?thesis by simp
          qed
        qed
        with Inr n True show ?thesis by (simp add: not_exist_def)
      qed
    qed
  qed
qed

text \<open>What the exchange leaves: the tree in use before or the staged one, and on success the staged one
  with nothing left aside.\<close>

definition exchanged :: "path \<Rightarrow> path \<Rightarrow> (path \<Rightarrow> node option) \<Rightarrow> (path \<Rightarrow> node option) \<Rightarrow> err + unit \<Rightarrow> world \<Rightarrow> bool" where
  "exchanged cur old before staged r w' \<longleftrightarrow>
     swappable cur old w' \<and> (live cur old w' = before \<or> live cur old w' = staged) \<and>
     (r = Inr () \<longrightarrow> live cur old w' = staged \<and> look w' cur \<noteq> None \<and> look w' old = None)"

lemma exchanged_same:
  "same_look w w' \<Longrightarrow> exchanged cur old b s r w' = exchanged cur old b s r w"
  by (simp add: exchanged_def same_look_simps)

lemma swap_commit_spec:
  assumes "apart cur old" and w: "swappable cur old w" "look w cur \<noteq> None" "live cur old w = staged"
  shows "wp (swap_commit s old) (exchanged cur old b staged) w"
proof -
  have ex: "exchanged cur old b staged (Inl e) w" for e using w by (simp add: exchanged_def)
  have gone: "exchanged cur old b staged r w3"
    if "same_look w w1" "touches (below old) w1 w2" "tree w2 old = no_tree" "same_look w2 w3" for r w1 w2 w3
  proof -
    have w1: "swappable cur old w1" "look w1 cur \<noteq> None" "live cur old w1 = staged"
      using w by (simp_all add: same_look_simps[OF that(1)])
    note rm = removed_old[OF that(2,3) assms(1) assms(1) w1(1,2)]
    then have "live cur old w2 = staged" "look w2 cur \<noteq> None" using w1(3) by simp_all
    with rm(2,3) show ?thesis by (simp add: exchanged_def same_look_simps[OF that(4)])
  qed
  let ?fin = "\<lambda>a b c. case join_errs [err_of a, err_of b, err_of c] of
       None \<Rightarrow> retE () | Some e \<Rightarrow> failE (Wrap ''commit restored directory'' e)"
  have last: "wp (bindE (tryE (point_sync s)) (\<lambda>c. ?fin a r c)) (exchanged cur old b staged) w2"
    if w1: "same_look w w1" and rm: "touches (below old) w1 w2"
      "tree w2 old = no_tree \<or> r \<noteq> Inr () \<and> same_look w1 w2" for w1 w2 and a r :: "err + unit"
  proof (rule wp_tryI[OF still_wp[OF still_point_sync]])
    fix c w3 assume w3: "same_look w2 w3"
    show "wp (?fin a r c) (exchanged cur old b staged) w3"
    proof (cases "tree w2 old = no_tree")
      case True
      with gone[OF w1 rm(1) _ w3] show ?thesis by (simp add: wp_eqs split: option.split)
    next
      case False
      with rm(2) have "r \<noteq> Inr ()" "same_look w w3" using w1 w3 still.trans by blast+
      then obtain e where "join_errs [err_of a, err_of r, err_of c] = Some e"
        by (cases a; cases r; cases c) (auto simp: join_errs_def)
      with ex exchanged_same[OF \<open>same_look w w3\<close>] show ?thesis by (simp add: wp_eqs)
    qed
  qed
  show ?thesis
    unfolding swap_commit_def rejectNestedMounts_def
  proof (rule wp_bindI[OF still_wp])
    show "keeps same_look (rejectMounts old False)" by (intro keeps_intros)
  next
    fix e w1 assume "same_look w w1"
    then show "exchanged cur old b staged (Inl e) w1" using ex by (simp add: exchanged_same)
  next
    fix x w1 assume w1: "same_look w w1"
    show "wp (bindE (tryE (point_sync s)) (\<lambda>a. bindE (tryE (remove_all old)) (\<lambda>b.
        bindE (tryE (point_sync s)) (\<lambda>c. ?fin a b c)))) (exchanged cur old b staged) w1"
    proof (rule wp_tryI[OF still_wp[OF still_point_sync]], rule wp_tryI[OF remove_all_outcome])
      fix a r :: "err + unit" and w2 w3
      assume "same_look w1 w2"
        and "touches (below old) w2 w3 \<and> (tree w3 old = no_tree \<or> r \<noteq> Inr () \<and> (\<forall>q. look w3 q = look w2 q))"
      with last[OF still.trans[OF w1], of w2 w3 r a]
      show "wp (bindE (tryE (point_sync s)) (\<lambda>c. ?fin a r c)) (exchanged cur old b staged) w3"
        by (auto simp: same_look_def)
    qed
  qed
qed

lemma rename_missing: "look w src = None \<Longrightarrow> wp (rename src dst) (\<lambda>r w'. same_look w w' \<and> r \<noteq> Inr ()) w"
  unfolding rename_def by (rule wp_sysI) (auto simp: wp_def same_look_def)

text \<open>A directory that is moved, or is not there.\<close>

lemma rename_dir_outcome:
  assumes "\<forall>n. look w src = Some n \<longrightarrow> n_kind n = KDir" and "apart src dst"
  shows "wp (rename src dst) (\<lambda>r w'. same_look w w' \<and> r \<noteq> Inr () \<or> look w src \<noteq> None \<and> moved src dst w w') w"
proof (cases "look w src")
  case None
  then show ?thesis by (rule wp_mono[OF rename_missing]) auto
next
  case (Some n)
  with assms show ?thesis
    by (intro wp_mono[OF rename_tree_outcome[OF Some _ assms(2)]]) (auto simp: same_look_def)
qed

text \<open>Moving the old directory back after a failure.\<close>

lemma move_back_spec:
  assumes "apart cur old" and w: "swappable cur old w" "\<forall>n. look w old = Some n \<longrightarrow> n_kind n = KDir"
    and keep: "live cur old w = b \<or> live cur old w = staged" and old: "tree w old = b"
  shows "wp (bindE (ignoreE (rename old cur)) (\<lambda>_. failE e)) (exchanged cur old b staged) w"
  unfolding wp_bindE wp_ignoreE sum.case wp_failE
proof (rule wp_mono[OF rename_dir_outcome[OF w(2) apart_sym[OF assms(1)]]])
  fix r :: "err + unit" and w'
  assume "same_look w w' \<and> r \<noteq> Inr () \<or> look w old \<noteq> None \<and> moved old cur w w'"
  then consider (same) "same_look w w'" | (moved) n where "look w old = Some n" "moved old cur w w'" by auto
  then show "exchanged cur old b staged (Inl e) w'"
  proof cases
    case same
    then show ?thesis using w(1) keep by (simp add: exchanged_same) (simp add: exchanged_def)
  next
    case moved
    with w(2) have k: "n_kind n = KDir" by blast
    have cur: "look w' cur = Some n" "look w' old = None" using moved moved_look[OF moved(2)] by simp_all
    have "tree w' cur = b" "tree w' old = no_tree" using moved(2) old by (simp_all add: moved_def)
    with cur k show ?thesis
      by (auto simp: exchanged_def live_def swappable_def rooted_at_def)
  qed
qed

lemma swap_directories_spec:
  assumes ap: "apart cur old" "apart staged cur" "apart staged old"
    and w: "swappable cur old w" "look w old = None"
    and st: "look w staged = Some sn" "n_kind sn = KDir"
  shows "wp (swap_directories s cur staged old) (exchanged cur old (live cur old w) (tree w staged)) w"
proof -
  let ?b = "live cur old w" and ?s = "tree w staged"
  let ?post = "exchanged cur old ?b ?s"
  have same: "?post (Inl e) w'" if "same_look w w'" for e w'
    using w(1) by (simp add: exchanged_same[OF that]) (simp add: exchanged_def)
  have dir: "\<forall>n. look w cur = Some n \<longrightarrow> n_kind n = KDir" using w(1) by (simp add: swappable_def)
  show ?thesis
    unfolding swap_directories_def
      wp_bindE[of "wrapE (Wrap ''stage current directory for restore'') (rename cur old)"] wp_wrapE
  proof (rule wp_mono[OF rename_dir_outcome[OF dir ap(1)]], goal_cases)
    case (1 r w1)
    show ?case
    proof (cases "same_look w w1 \<and> r \<noteq> Inr ()")
      case True
      with same show ?thesis by (auto split: sum.splits)
    next
      case False
      with 1 obtain n where n: "look w cur = Some n" and mv: "moved cur old w w1" by auto
      have b: "?b = tree w cur" using n by (simp add: live_def)
      have w1: "live cur old w1 = ?b" "look w1 cur = None" "swappable cur old w1" "tree w1 old = ?b"
        using moved_aside[OF mv] n b mv by (simp_all add: moved_def)
      have old: "\<forall>n. look w1 old = Some n \<longrightarrow> n_kind n = KDir"
        using moved_look[OF mv] dir by simp
      have stg: "tree w1 staged = ?s" by (rule moved_kept[OF mv ap(2,3)])
      have lst: "look w1 staged = Some sn" using stg st(1) tree_look by metis
      have moved1: "?post (Inl e) w1" for e using w1 by (simp add: exchanged_def)
      have after_sync: "wp (checkE (rename staged cur)
          (\<lambda>e. bindE (ignoreE (rename old cur)) (\<lambda>_. failE (Wrap ''activate restored directory'' e)))
          (\<lambda>_. swap_commit s old)) ?post w2" if w2: "same_look w1 w2" for w2
      proof -
        note eqs = same_look_simps[OF w2]
        have dir2: "\<forall>n. look w2 staged = Some n \<longrightarrow> n_kind n = KDir" using lst st(2) by (simp add: eqs)
        show ?thesis
          unfolding wp_checkE
        proof (rule wp_mono[OF rename_dir_outcome[OF dir2 ap(2)]], goal_cases)
          case (1 r2 w3)
          show ?case
          proof (cases "same_look w2 w3 \<and> r2 \<noteq> Inr ()")
            case True
            then obtain e where e: "r2 = Inl e" by (cases r2) auto
            note eqs3 = same_look_simps[OF conjunct1[OF True]]
            from move_back_spec[OF ap(1), of w3 ?b ?s] w1 old e show ?thesis by (simp add: eqs eqs3)
          next
            case False
            with 1 have mv3: "moved staged cur w2 w3" by blast
            have c3: "look w3 cur = Some sn" "tree w3 cur = ?s"
              using moved_look[OF mv3] mv3 lst stg by (simp_all add: eqs moved_def)
            have o3: "tree w3 old = ?b" using moved_kept[OF mv3 apart_sym[OF ap(3)] apart_sym[OF ap(1)]] w1(4) by (simp add: eqs)
            have lo3: "look w3 old = look w1 old" using o3 w1(4) tree_look by metis
            have w3: "live cur old w3 = ?s" "swappable cur old w3" "look w3 cur \<noteq> None"
              "\<forall>n. look w3 old = Some n \<longrightarrow> n_kind n = KDir"
              using c3 o3 lo3 w1(3,4) st(2) old by (auto simp: live_def swappable_def rooted_at_def)
            show ?thesis
            proof (cases r2)
              case (Inl e)
              with move_back_spec[OF ap(1) w3(2,4) _ o3, of ?s] w3(1) show ?thesis by simp
            next
              case (Inr u)
              with swap_commit_spec[OF ap(1) w3(2,3,1)] show ?thesis by simp
            qed
          qed
        qed
      qed
      have "wp (checkE (point_sync s)
         (\<lambda>e. bindE (ignoreE (rename old cur)) (\<lambda>_. failE (Wrap ''sync staged current directory'' e)))
         (\<lambda>_. checkE (rename staged cur)
            (\<lambda>e. bindE (ignoreE (rename old cur)) (\<lambda>_. failE (Wrap ''activate restored directory'' e)))
            (\<lambda>_. swap_commit s old))) ?post w1"
        unfolding wp_checkE[of "point_sync s"]
      proof (rule wp_mono[OF still_wp[OF still_point_sync]], goal_cases)
        case (1 r w2)
        note eqs = same_look_simps[OF 1]
        from move_back_spec[OF ap(1), of w2 ?b ?s] w1 old after_sync[OF 1] show ?case
          by (auto simp: eqs split: sum.splits)
      qed
      with moved1 show ?thesis by (auto split: sum.splits)
    qed
  qed
qed

section \<open>Restoring a staged directory\<close>

lemma touches_reconcile:
  "keeps (touches (\<lambda>q. below cur q \<or> below old q)) (reconcileInterruptedDirectorySwap s cur old)"
proof -
  have "keeps (touches (\<lambda>q. below cur q \<or> below old q)) (rename old cur)"
    by (rule keeps_mono[OF touches_rename]) (auto elim!: touches_mono)
  moreover have "keeps (touches (\<lambda>q. below cur q \<or> below old q)) (remove_all old)"
    by (rule keeps_mono[OF touches_remove_all]) (auto elim!: touches_mono)
  ultimately show ?thesis
    unfolding reconcileInterruptedDirectorySwap_def reconcile_both_def rejectNestedMounts_def
    by (intro keeps_intros touches_point_sync keeps_reads_touches[OF reads_lstat]
        keeps_reads_touches[OF reads_rejectMounts])
qed

lemma touches_restoreStaged:
  "keeps (touches (\<lambda>q. below cur q \<or> below old q \<or> below staged q)) (restoreStagedDirectory s cur staged old)"
    (is "keeps ?T _")
proof -
  have "keeps ?T (rename cur old)" "keeps ?T (rename old cur)" "keeps ?T (rename staged cur)"
    by (rule keeps_mono[OF touches_rename], auto elim!: touches_mono)+
  moreover have "keeps ?T (remove_all old)"
    by (rule keeps_mono[OF touches_remove_all]) (auto elim!: touches_mono)
  moreover have "keeps ?T (reconcileInterruptedDirectorySwap s cur old)"
    by (rule keeps_mono[OF touches_reconcile]) (auto elim!: touches_mono)
  ultimately show ?thesis
    unfolding restoreStagedDirectory_def swap_directories_def swap_commit_def rejectNestedMounts_def rejectMountedTree_def
    by (intro keeps_intros writes.keeps_checkE touches_point_sync keeps_reads_touches[OF reads_lstat]
        keeps_reads_touches[OF reads_rejectMounts])
qed

lemma restoreStaged_spec:
  assumes ap: "apart cur old" "apart staged cur" "apart staged old" and w: "swappable cur old w"
  shows "wp (restoreStagedDirectory s cur staged old) (\<lambda>r w'. swappable cur old w' \<and>
     (live cur old w' = live cur old w \<or> live cur old w' = tree w staged) \<and>
     (r = Inr () \<longrightarrow> look w' cur \<noteq> None \<and> look w' old = None \<and>
        (live cur old w' = tree w staged \<or> look w cur \<noteq> None \<and> look w old \<noteq> None \<and> live cur old w' = live cur old w))) w"
    (is "wp _ ?Q w")
  unfolding restoreStagedDirectory_def
proof (rule wp_bindI[OF reconcile_spec[OF w ap, of s]])
  fix e w' assume "reconciled cur old staged w (Inl e) w'"
  then show "?Q (Inl e) w'" by (simp add: reconciled_def)
next
  fix finished w1 assume "reconciled cur old staged w (Inr finished) w1"
  then have w1: "live cur old w1 = live cur old w" "swappable cur old w1" "tree w1 staged = tree w staged"
    and fin: "finished \<Longrightarrow> look w cur \<noteq> None \<and> look w old \<noteq> None \<and> look w1 cur \<noteq> None \<and> look w1 old = None"
    and more: "\<not> finished \<Longrightarrow> look w1 old = None"
    by (auto simp: reconciled_def)
  have stop: "?Q (Inl e) w2" if "same_look w1 w2" for e w2
    using w1 by (simp add: same_look_simps[OF that])
  let ?rest = "bindE (tryE (lstat staged)) (\<lambda>r.
       if (case r of Inl _ \<Rightarrow> True | Inr i \<Rightarrow> i_kind i \<noteq> KDir)
       then failE (Msg ''staged recovery directory is incomplete'')
       else bindE (rejectMountedTree cur) (\<lambda>_.
            bindE (tryE (lstat old)) (\<lambda>o1. case o1 of
              Inr _ \<Rightarrow> failE (Msg ''previous directory restore staging path still exists'')
            | Inl e \<Rightarrow> if \<not> err_is ErrNotExist e then failE e
                      else swap_directories s cur staged old)))"
  have rest: "wp ?rest ?Q w1" if nf: "\<not> finished"
  proof (rule wp_tryI[OF lstat_still], goal_cases)
    case (1 r w2)
    show ?case
    proof (cases "case r of Inl _ \<Rightarrow> True | Inr i \<Rightarrow> i_kind i \<noteq> KDir")
      case True
      with 1 stop show ?thesis by (simp add: wp_failE)
    next
      case False
      with 1 obtain sn where sn: "look w1 staged = Some sn" "n_kind sn = KDir" and w2: "same_look w1 w2"
        by (auto split: sum.splits)
      have "wp (bindE (rejectMountedTree cur) (\<lambda>_. bindE (tryE (lstat old)) (\<lambda>o1. case o1 of
              Inr _ \<Rightarrow> failE (Msg ''previous directory restore staging path still exists'')
            | Inl e \<Rightarrow> if \<not> err_is ErrNotExist e then failE e else swap_directories s cur staged old))) ?Q w2"
        unfolding rejectMountedTree_def
      proof (rule wp_bindI[OF still_wp])
        show "keeps same_look (rejectMounts cur True)" by (intro keeps_intros)
      next
        fix e w3 assume "same_look w2 w3"
        with stop still.trans[OF w2] show "?Q (Inl e) w3" by blast
      next
        fix u w3 assume "same_look w2 w3"
        then have w3: "same_look w1 w3" by (rule still.trans[OF w2])
        show "wp (bindE (tryE (lstat old)) (\<lambda>o1. case o1 of
              Inr _ \<Rightarrow> failE (Msg ''previous directory restore staging path still exists'')
            | Inl e \<Rightarrow> if \<not> err_is ErrNotExist e then failE e else swap_directories s cur staged old)) ?Q w3"
        proof (rule wp_tryI[OF lstat_still], goal_cases)
          case (1 o1 w4)
          then have w4: "same_look w1 w4" using still.trans[OF w3] by blast
          note eqs = same_look_simps[OF w4]
          have "wp (swap_directories s cur staged old)
              (exchanged cur old (live cur old w4) (tree w4 staged)) w4"
            by (rule swap_directories_spec[OF ap]) (use w1 more[OF nf] sn in \<open>simp_all add: eqs\<close>)
          then have "wp (swap_directories s cur staged old) ?Q w4"
            by (rule wp_mono) (use w1 in \<open>auto simp: exchanged_def eqs\<close>)
          with stop[OF w4] show ?case by (auto simp: wp_eqs split: sum.splits)
        qed
      qed
      with False show ?thesis by simp
    qed
  qed
  show "wp (if finished then retE () else ?rest) ?Q w1"
    using fin rest w1 by (auto simp: wp_retE)
qed


end
