(* ===== verification/ExtractLaws.thy ===== *)
theory ExtractLaws
  imports SwapLaws
begin

text \<open>
  What reading an archive can do to the files: whatever names, kinds and sizes its entries carry,
  only the named directory below the staging directory changes, nothing but directories and
  regular files is made, and an archive is taken as a whole only when all of it is acceptable.
\<close>

section \<open>Clean names\<close>

lemma foldl_ups: "foldl (clean_step False) (replicate k ''..'') (replicate n ''..'') = replicate (k + n) ''..''"
proof (induction n arbitrary: k)
  case (Suc n)
  have "clean_step False (replicate k ''..'') ''..'' = replicate (Suc k) ''..''"
    by (cases k) (auto simp: clean_step_def replicate_append_same)
  with Suc[of "Suc k"] show ?case by simp
qed simp

lemma cleaned_member: "cleaned r cs \<Longrightarrow> c \<in> set cs \<Longrightarrow> c = ''..'' \<or> plain c"
  by (auto simp: cleaned_def list_all_iff)

lemma no_slash: "c = ''..'' \<or> plain c \<Longrightarrow> slash \<notin> set c"
  by (auto simp: plain_def slash_def)

lemma components_cleaned: "cleaned r cs \<Longrightarrow> cs \<noteq> [] \<Longrightarrow> components (join_slash cs) = cs"
  using cleaned_member[of r cs] by (intro components_join) (simp_all add: no_slash)

lemma foldl_cleaned: "cleaned False cs \<Longrightarrow> foldl (clean_step False) [] cs = cs"
  using foldl_ups[of 0] by (auto simp: cleaned_def foldl_plain foldl_append)

lemma is_abs_cleaned: "cleaned False cs \<Longrightarrow> \<not> is_abs (join_slash cs)"
proof (cases cs)
  case (Cons c ds)
  assume "cleaned False cs"
  then obtain n ps where cs: "cs = replicate n ''..'' @ ps" and ps: "list_all plain ps" by (auto simp: cleaned_def)
  have "c = ''..'' \<or> plain c" using Cons cs ps by (cases n) auto
  then have "c \<noteq> []" "slash \<notin> set c" by (auto simp: plain_def slash_def)
  with join_slash_head[of c ds] Cons show ?thesis by (cases c) (auto simp: is_abs_Cons)
qed (simp add: is_abs_Cons)

lemma clean_parts_cleaned: "cleaned False cs \<Longrightarrow> cs \<noteq> [] \<Longrightarrow> clean_parts (join_slash cs) = cs"
  by (simp add: clean_parts_def clean_from_def is_abs_cleaned components_cleaned foldl_cleaned)

lemma path_local_clean:
  assumes "path_local (path_clean s)"
  shows "\<not> is_abs s" and "list_all plain (clean_parts s)" and "clean_parts (path_clean s) = clean_parts s"
proof -
  show rel: "\<not> is_abs s" using assms by (auto simp: path_clean_def parts_text_def path_local_def is_abs_Cons)
  have c: "cleaned False (clean_parts s)" using cleaned_parts[of s] rel by simp
  show e: "clean_parts (path_clean s) = clean_parts s"
  proof (cases "clean_parts s = []")
    case True
    then show ?thesis
      by (simp add: path_clean_def parts_text_def rel)
        (simp add: clean_parts_def clean_from_def components_def clean_step_def is_abs_def has_prefix_def slash_def)
  next
    case False
    with c rel show ?thesis by (simp add: path_clean_def parts_text_def clean_parts_cleaned)
  qed
  from local_plain[OF assms] e show "list_all plain (clean_parts s)" by simp
qed

lemma resolve_clean:
  "\<not> is_abs s \<Longrightarrow> list_all plain (clean_parts s) \<Longrightarrow> clean_parts s \<noteq> [] \<Longrightarrow>
     resolve d (path_clean s) = d @ clean_parts s"
  by (simp add: path_clean_def parts_text_def resolve_def clean_from_def components_clean foldl_plain)

text \<open>The place of an entry that was accepted.\<close>

lemma safe_place:
  assumes "safe_name arch (path_clean s)" and "plain arch"
  shows "\<exists>rest. resolve d (path_clean s) = d @ arch # rest"
proof -
  let ?cs = "clean_parts s"
  from assms(1) have l: "path_local (path_clean s)" by (simp add: safe_name_def)
  note pl = path_local_clean[OF l]
  have arch: "components arch = [arch]" "slash \<notin> set arch" "arch \<noteq> ''.''" "CHR ''.'' # [] \<noteq> arch"
    using assms(2) by (auto simp: plain_def components_plain)
  have ne: "?cs \<noteq> []"
  proof
    assume "?cs = []"
    with pl(1) have "path_clean s = ''.''" by (simp add: path_clean_def parts_text_def)
    with assms(1) arch show False
      by (auto simp: safe_name_def has_prefix_iff slash_def Cons_eq_append_conv)
  qed
  then have pc: "path_clean s = join_slash ?cs" using pl(1) by (simp add: path_clean_def parts_text_def)
  have comps: "components (join_slash ?cs) = ?cs" using pl(2) ne by (rule components_clean)
  have "\<exists>rest. ?cs = arch # rest"
  proof (cases "path_clean s = arch")
    case True
    with pc comps arch show ?thesis by auto
  next
    case False
    with assms(1) obtain t where "path_clean s = arch @ slash # t"
      by (auto simp: safe_name_def has_prefix_iff)
    with pc have "components (arch @ slash # t) = ?cs" using comps by simp
    then have "?cs = arch # components t" by (simp add: components_append[OF arch(2)])
    then show ?thesis by blast
  qed
  with resolve_clean[OF pl(1,2) ne] show ?thesis by auto
qed

section \<open>Only the named directory\<close>

text \<open>When all directories on the way to the staging directory exist, only entries of the named
  directory change; and no entry gets a kind other than a directory or a regular file.\<close>

definition on_the_way :: "path \<Rightarrow> world \<Rightarrow> bool" where
  "on_the_way d w \<longleftrightarrow> (\<forall>q. below q d \<longrightarrow> q \<noteq> [] \<longrightarrow> is_dir w q)"

definition plain_kinds :: "world \<Rightarrow> world \<Rightarrow> bool" where
  "plain_kinds w w' \<longleftrightarrow> (\<forall>p n. look w' p = Some n \<longrightarrow> n_kind n \<in> {KDir, KRegular} \<or>
     (\<exists>m. look w p = Some m \<and> n_kind m = n_kind n))"

definition confined :: "path \<Rightarrow> string \<Rightarrow> world \<Rightarrow> world \<Rightarrow> bool" where
  "confined d arch w w' \<longleftrightarrow> (on_the_way d w \<longrightarrow> touches (below (d @ [arch])) w w') \<and> plain_kinds w w'"

lemma not_on_the_way: "below q d \<Longrightarrow> \<not> below (d @ [arch]) q"
  by (auto simp: below_iff)

lemma on_the_way_stays: "touches (below (d @ [arch])) w w' \<Longrightarrow> on_the_way d w' = on_the_way d w"
  using touches_look[of "below (d @ [arch])" w w'] not_on_the_way
  by (auto simp: on_the_way_def is_dir_def)

lemma plain_kinds_trans: "plain_kinds w w' \<Longrightarrow> plain_kinds w' w'' \<Longrightarrow> plain_kinds w w''"
  unfolding plain_kinds_def by metis

interpretation confining: frame "confined d arch" for d arch
proof unfold_locales
  show "confined d arch w w" for w by (auto simp: confined_def plain_kinds_def writes.refl)
next
  fix w w' w'' assume "confined d arch w w'" "confined d arch w' w''"
  then show "confined d arch w w''"
    using plain_kinds_trans by (auto simp: confined_def on_the_way_stays intro: writes.trans)
qed

lemma confined_reads: "keeps same_files m \<Longrightarrow> keeps (confined d arch) m"
  by (erule keeps_mono) (auto simp: confined_def plain_kinds_def same_files_touches same_files_look)

lemma confined_tick: "confined d arch (w\<lparr>w_tick := k\<rparr>) w' = confined d arch w w'"
  by (simp add: confined_def on_the_way_def is_dir_def plain_kinds_def touches_def same_env_def)

lemma confined_sys:
  assumes "\<And>w. confined d arch w (snd (m w))"
  shows "keeps (confined d arch) (sys m)"
proof -
  have "confined d arch w (w\<lparr>w_tick := k\<rparr>)" for w k
    using confining.refl[of d arch "w\<lparr>w_tick := k\<rparr>"] by (simp add: confined_tick)
  moreover have "confined d arch w (snd (m (w\<lparr>w_tick := k\<rparr>)))" for w k
    using assms[of "w\<lparr>w_tick := k\<rparr>"] by (simp add: confined_tick)
  ultimately show ?thesis by (auto simp: keeps_def sys_def Let_def split: fault.splits)
qed

lemma confined_set_node:
  assumes "below (d @ [arch]) p" and "n_kind n \<in> {KDir, KRegular} \<or> (\<exists>m. look w p = Some m \<and> n_kind m = n_kind n)"
  shows "confined d arch w (set_node p n w)"
  using assms by (auto simp: confined_def plain_kinds_def touches_def same_env_def)

lemma confined_update:
  assumes "below (d @ [arch]) p" and "\<And>n. n_kind (f n) = n_kind n"
  shows "keeps (confined d arch) (update_node p f)"
  unfolding update_node_def using confining.refl assms
  by (intro confined_sys) (auto intro!: confined_set_node split: option.splits)

lemma confined_open_excl: "below (d @ [arch]) p \<Longrightarrow> keeps (confined d arch) (open_excl p m)"
  unfolding open_excl_def
  by (rule confined_sys) (auto intro!: confined_set_node simp: confining.refl file_node_def)

lemma confined_mkdir_all_step:
  assumes "below (d @ [arch]) q \<or> below q d \<and> q \<noteq> []"
  shows "keeps (confined d arch) (mkdir_all_step m q)"
  unfolding keeps_def
proof
  fix w
  have pk: "plain_kinds w (set_node q (dir_node m) w)" by (auto simp: plain_kinds_def dir_node_def)
  show "confined d arch w (snd (mkdir_all_step m q w))"
  proof (cases "look w q")
    case (Some n)
    then show ?thesis by (simp add: mkdir_all_step_def confining.refl)
  next
    case None
    show ?thesis
    proof (cases "below (d @ [arch]) q")
      case True
      with None show ?thesis by (auto simp: mkdir_all_step_def dir_node_def intro!: confined_set_node)
    next
      case False
      with assms None have "\<not> on_the_way d w" by (auto simp: on_the_way_def is_dir_def)
      with None pk show ?thesis by (simp add: mkdir_all_step_def confined_def)
    qed
  qed
qed

lemma prefixes_below: "q \<in> set (prefixes_of p) \<Longrightarrow> q \<noteq> [] \<and> below q p"
  by (auto simp: prefixes_of_def below_iff) (metis append_take_drop_id)

lemma confined_mkdir_all:
  assumes "p = d \<or> below (d @ [arch]) p"
  shows "keeps (confined d arch) (mkdir_all p m)"
proof -
  have way: "below (d @ [arch]) q \<or> below q d \<and> q \<noteq> []" if "q \<in> set (prefixes_of p)" for q
  proof -
    from prefixes_below[OF that] obtain r where p: "p = q @ r" and q: "q \<noteq> []" by (auto simp: below_iff)
    from assms show ?thesis
    proof
      assume "p = d" with p q show ?thesis by auto
    next
      assume "below (d @ [arch]) p"
      then obtain t where "q @ r = d @ [arch] @ t" using p by (auto simp: below_iff)
      then obtain us where "q = d @ us \<and> us @ r = arch # t \<or> q @ us = d"
        using append_eq_append_conv2[of q r d "arch # t"] by auto
      with q show ?thesis by (cases us) (auto simp: below_iff)
    qed
  qed
  have "keeps (confined d arch) (foldE (\<lambda>x _. mkdir_all_step m x) ps b)" if "set ps \<subseteq> set (prefixes_of p)" for ps b
    using that
    by (induction ps arbitrary: b)
      (auto intro!: confining.keeps_retE confining.keeps_bindE confined_mkdir_all_step way)
  then have "keeps (confined d arch) (forE (mkdir_all_step m) (prefixes_of p))" by (simp add: forE_def)
  then show ?thesis unfolding mkdir_all_def by (intro confined_sys) (simp add: keeps_def)
qed

lemma confined_own_entry: "below (d @ [arch]) p \<Longrightarrow> keeps (confined d arch) (own_entry p h)"
  unfolding own_entry_def chmod_def chown_def
  by (intro confining.keeps_bindE confined_update) simp_all

lemma confined_extract_entry:
  assumes "plain arch"
  shows "keeps (confined d arch) (extract_entry d arch h used)"
proof (cases "safe_name arch (path_clean (te_name h))")
  case False
  then show ?thesis by (simp add: extract_entry_def Let_def confining.keeps_failE)
next
  case True
  from safe_place[OF True assms] obtain rest where p: "resolve d (path_clean (te_name h)) = d @ arch # rest" by blast
  then have b: "below (d @ [arch]) (resolve d (path_clean (te_name h)))" by (auto simp: below_iff)
  have up: "butlast (resolve d (path_clean (te_name h))) = d \<or>
      below (d @ [arch]) (butlast (resolve d (path_clean (te_name h))))"
    using p by (cases rest rule: rev_cases) (auto simp: below_iff butlast_append)
  show ?thesis
    unfolding extract_entry_def Let_def extract_file_def write_data_def
    by (intro keeps_intros confined_mkdir_all confined_own_entry confined_open_excl confined_update
          confined_reads[OF reads_close_file] b up disjI2)
       (auto intro!: keeps_intros confined_mkdir_all confined_own_entry confined_open_excl confined_update
          confined_reads[OF reads_close_file] b up split: tar_kind.splits)
qed

section \<open>What was accepted\<close>

definition acceptable :: "string \<Rightarrow> tar_entry \<Rightarrow> bool" where
  "acceptable arch h \<longleftrightarrow> safe_name arch (path_clean (te_name h)) \<and> te_kind h \<noteq> TarOther \<and> 0 \<le> te_size h \<and>
     (te_kind h = TarReg \<longrightarrow> \<not> te_short h)"

lemma none_passes [simp]:
  "(case r of None \<Rightarrow> m | Some e \<Rightarrow> failE e) w = (Inr y, w') \<longleftrightarrow> r = None \<and> m w = (Inr y, w')"
  by (cases r) auto

lemma extract_file_whole: "extract_file p h w = (Inr u, w') \<Longrightarrow> \<not> te_short h"
proof
  assume run: "extract_file p h w = (Inr u, w')" and "te_short h"
  then obtain c :: "err + unit" and k :: "err + unit" and w1 w2 where c: "bindE (write_data p (te_data h)) (\<lambda>_. failE (Msg ''unexpected EOF'')) w1 = (c, w2)"
    and "somes [err_of c, err_of k] = []"
    by (auto simp: extract_file_def bindE_Inr)
  then have "err_of c = None" by (cases "err_of c") auto
  then obtain y where "c = Inr y" by (cases c) auto
  with c show False by (auto simp: bindE_Inr)
qed

lemma extract_entry_Inr:
  assumes "extract_entry d arch h used w = (Inr n, w')"
  shows "acceptable arch h \<and> n = used + te_size h \<and> n \<le> maxRestoreBytes"
proof -
  have safe: "safe_name arch (path_clean (te_name h))" and size: "\<not> te_size h < 0" "\<not> used > maxRestoreBytes - te_size h"
    using assms by (auto simp: extract_entry_def Let_def split: if_splits)
  have "n = used + te_size h \<and> (case te_kind h of TarDir \<Rightarrow> True | TarReg \<Rightarrow> \<not> te_short h | TarOther \<Rightarrow> False)"
    using assms safe size
    by (auto simp: extract_entry_def Let_def bindE_Inr dest: extract_file_whole split: tar_kind.splits)
  with safe size show ?thesis by (auto simp: acceptable_def split: tar_kind.splits)
qed

lemma extract_entries_Inr:
  "foldE (extract_entry d arch) es used w = (Inr n, w') \<Longrightarrow>
     list_all (acceptable arch) es \<and> n = used + sum_list (map te_size es) \<and> (es \<noteq> [] \<longrightarrow> n \<le> maxRestoreBytes)"
proof (induction es arbitrary: used w)
  case Nil
  then show ?case by simp
next
  case (Cons h es)
  from Cons.prems obtain m w1 where h: "extract_entry d arch h used w = (Inr m, w1)"
    and es: "foldE (extract_entry d arch) es m w1 = (Inr n, w')" by (auto simp: bindE_Inr)
  from extract_entry_Inr[OF h] Cons.IH[OF es] show ?case by (cases es) auto
qed

lemma confined_extract:
  assumes "plain arch"
  shows "keeps (confined d arch) (extractDirectoryArchive st src d arch)"
  unfolding extractDirectoryArchive_def
  by (intro keeps_intros confined_reads[OF reads_open_path] confined_reads[OF reads_read_file]
      confined_reads[OF reads_close_file] confined_extract_entry[OF assms])

text \<open>C15: an archive cannot reach outside the directory it is for. Whatever the names, kinds and sizes of
  its entries are, and wherever the extraction stops, it changes only entries of the named
  directory below the staging directory, and makes nothing but directories and regular files; and
  it reports success only for an archive that was read to its end, whose names all lie in that
  directory, that has no entry of another kind, none that ends early, and at most 100 GiB.\<close>

theorem extraction_is_confined:
  assumes "extractDirectoryArchive st src d arch w = (r, w')" and "plain arch" and "on_the_way d w"
  shows "touches (below (d @ [arch])) w w' \<and>
    (\<forall>p n. look w' p = Some n \<longrightarrow> look w p = None \<longrightarrow> n_kind n \<in> {KDir, KRegular}) \<and>
    (r = Inr () \<longrightarrow> (\<exists>n es. look w src = Some n \<and> ps_unpack st (n_data n) = Inr (es, None) \<and>
       list_all (acceptable arch) es \<and> sum_list (map te_size es) \<le> maxRestoreBytes))"
proof (intro conjI impI allI)
  have c: "confined d arch w w'" using keepsD[OF confined_extract[OF assms(2)] assms(1)] .
  with assms(3) show "touches (below (d @ [arch])) w w'" by (simp add: confined_def)
  show "n_kind n \<in> {KDir, KRegular}" if "look w' p = Some n" "look w p = None" for p n
  proof -
    from c that(1) have "n_kind n \<in> {KDir, KRegular} \<or> (\<exists>m. look w p = Some m \<and> n_kind m = n_kind n)"
      unfolding confined_def plain_kinds_def by blast
    with that(2) show ?thesis by simp
  qed
  assume r: "r = Inr ()"
  with assms(1) obtain x w1 w2 c es eof k w3 w4 where "open_path src w = (Inr x, w1)" and "read_file src w1 = (Inr c, w2)"
    and un: "ps_unpack st c = Inr (es, eof)" and es: "foldE (extract_entry d arch) es 0 w2 = (Inr k, w3)"
    and eof: "(case eof of None \<Rightarrow> retE () | Some e \<Rightarrow> failE e) w3 = (Inr (), w4)"
    by (auto simp: extractDirectoryArchive_def bindE_Inr deferE_eq)
  moreover have "eof = None" using eof by (cases eof) auto
  moreover obtain n where "look w src = Some n" "c = n_data n"
    using wp_run[OF read_file_outcome calculation(2)] keepsD[OF reads_open_path calculation(1)]
    by (auto simp: same_files_look)
  moreover have "list_all (acceptable arch) es" using extract_entries_Inr[OF es] by blast
  moreover have "sum_list (map te_size es) \<le> maxRestoreBytes"
    using extract_entries_Inr[OF es] by (cases "es = []") (auto simp: maxRestoreBytes_def)
  ultimately show "\<exists>n es. look w src = Some n \<and> ps_unpack st (n_data n) = Inr (es, None) \<and>
       list_all (acceptable arch) es \<and> sum_list (map te_size es) \<le> maxRestoreBytes" by blast
qed

end
