(* ===== verification/PointLaws.thy ===== *)
theory PointLaws
  imports PointStore ExtractLaws CoordLaws
begin

text \<open>
  What the store of recovery points guarantees of the points it holds: a point that validates is
  the one that was recorded, file by file, and pruning spares every point that is still needed.
\<close>

section \<open>Reading\<close>

lemma reads_read_dirs [keeps_intros]: "keeps same_files (read_dirs d)"
proof -
  have "keeps same_files (\<lambda>w. (Inr (filter (\<lambda>n. entry_kind w (d @ [n]) = Some KDir) ns), w))" for ns
    by (simp add: keeps_def reads.refl)
  then show ?thesis unfolding read_dirs_def by (intro keeps_intros) simp
qed

lemma reads_load_point [keeps_intros]: "keeps same_files (load_point st inst i)"
  unfolding load_point_def Let_def by (intro keeps_intros)

lemma reads_collect_point [keeps_intros]: "keeps same_files (collect_point st inst name acc)"
  unfolding collect_point_def by (intro keeps_intros)

lemma reads_point_list [keeps_intros]: "keeps same_files (point_list st inst)"
  unfolding point_list_def by (intro keeps_intros)

lemma reads_point_now [keeps_intros]: "keeps same_files (point_now st)"
  by (simp add: point_now_def keeps_def reads.refl)

lemma reads_describeFile [keeps_intros]: "keeps same_files (describeFile st p)"
  unfolding describeFile_def by (intro keeps_intros)

lemma reads_verifyFile [keeps_intros]: "keeps same_files (verifyFile st p r)"
  unfolding verifyFile_def by (intro keeps_intros)

lemma reads_check_file [keeps_intros]: "keeps same_files (check_file st d fs name)"
  unfolding check_file_def by (intro keeps_intros)

lemma reads_validate_point [keeps_intros]: "keeps same_files (validate_point st c i)"
  unfolding validate_point_def by (intro keeps_intros)

text \<open>A file that has the recorded contents, size, mode and owner.\<close>

definition matches :: "point_store \<Rightarrow> world \<Rightarrow> path \<Rightarrow> file_record \<Rightarrow> bool" where
  "matches st w p r \<longleftrightarrow> (\<exists>n. look w p = Some n \<and> n_kind n = KRegular \<and> r = describe_as st (info_of w n) (n_data n))"

lemma describeFile_Inr:
  assumes "describeFile st p w = (Inr r, w')"
  shows "matches st w p r"
proof -
  from assms obtain i w1 w2 w3 c w4 where l: "lstat p w = (Inr i, w1)" and "open_path p w1 = (Inr (), w2)"
    and c: "read_file p w2 = (Inr c, w3)" and "i_kind i = KRegular" and r: "r = describe_as st i c"
    by (auto simp: describeFile_def bindE_Inr split: sum.splits if_splits)
  have s: "same_files w w2" using keepsD[OF reads_lstat l] keepsD[OF reads_open_path \<open>open_path p w1 = _\<close>]
    by (rule reads.trans)
  obtain n where n: "look w p = Some n" "i = info_of w n" using wp_run[OF lstat_outcome l] by auto
  moreover obtain m where "look w2 p = Some m" "n_kind m = KRegular" "c = n_data m"
    using wp_run[OF read_file_outcome c] by auto
  ultimately show ?thesis using s r by (auto simp: matches_def same_files_look)
qed

lemma verifyFile_Inr: "verifyFile st p r w = (Inr u, w') \<Longrightarrow> matches st w p r"
proof -
  assume "verifyFile st p r w = (Inr u, w')"
  then obtain a w1 where d: "describeFile st p w = (Inr a, w1)"
    and eq: "fr_sha a = fr_sha r" "fr_size a = fr_size r" "fr_mode a = fr_mode r" "fr_uid a = fr_uid r" "fr_gid a = fr_gid r"
    by (auto simp: verifyFile_def bindE_Inr)
  from eq have "a = r" by (intro file_record.equality) simp_all
  with describeFile_Inr[OF d] show ?thesis by simp
qed

lemma matches_same: "same_files w w' \<Longrightarrow> matches st w' p r = matches st w p r"
  by (auto simp: matches_def same_files_look info_of_def data_size_def same_files_env split: content.splits)

lemma check_files_Inr:
  assumes "forE (check_file st d fs) names w = (Inr u, w')" and "name \<in> set names"
  shows "\<exists>r. map_of fs name = Some r \<and> matches st w (named_below d name) r"
  using assms
proof (induction names arbitrary: w)
  case (Cons x xs)
  from Cons.prems(1) obtain w1 where x: "check_file st d fs x w = (Inr (), w1)"
    and xs: "forE (check_file st d fs) xs w1 = (Inr u, w')"
    by (auto simp: forE_def bindE_Inr)
  have s: "same_files w w1" using reads_check_file x by (rule keepsD)
  show ?case
  proof (cases "name = x")
    case True
    with x verifyFile_Inr show ?thesis by (fastforce simp: check_file_def split: option.splits)
  next
    case False
    with Cons.prems(2) have "name \<in> set xs" by simp
    from Cons.IH[OF xs this] show ?thesis by (simp add: matches_same[OF s])
  qed
qed simp

lemma load_point_Inr:
  assumes "load_point st inst i w = (Inr (d, p), w')"
  shows "instance_id_ok inst \<and> point_id_ok i \<and> manifest_ok inst i p \<and>
    (\<exists>root n j. backupRoot st = Inr root \<and> d = root @ [inst, i] \<and> look w (d @ [''manifest.json'']) = Some n \<and>
       n_kind n = KRegular \<and> n_data n = Json j \<and> point_of_json j = Some p)"
proof -
  from assms obtain root r w1 c w2 where ids: "instance_id_ok inst" "point_id_ok i" and root: "backupRoot st = Inr root"
    and d: "d = root @ [inst, i]" and l: "lstat (d @ [''manifest.json'']) w = (r, w1)"
    and c: "read_file (d @ [''manifest.json'']) w1 = (Inr c, w2)"
    and j: "(case c of Text x \<Rightarrow> None | Json j \<Rightarrow> point_of_json j) = Some p" and m: "manifest_ok inst i p"
    by (auto simp: load_point_def Let_def bindE_Inr split: if_splits)
  have "same_files w w1" using reads_lstat l by (rule keepsD)
  moreover obtain n where "look w1 (d @ [''manifest.json'']) = Some n" "n_kind n = KRegular" "c = n_data n"
    using wp_run[OF read_file_outcome c] by auto
  ultimately show ?thesis using ids root d j m by (auto simp: same_files_look split: content.splits)
qed

section \<open>Validating\<close>

lemma distinct_map_put: "distinct (map fst m) \<Longrightarrow> distinct (map fst (map_put k v m))"
  by (induction m) (auto simp: map_put_def)

lemma distinct_put_all: "put_all_pairs kvs m = Some m' \<Longrightarrow> distinct (map fst m) \<Longrightarrow> distinct (map fst m')"
  by (induction kvs m rule: put_all_pairs.induct) (auto simp: distinct_map_put split: option.splits)

lemma distinct_field_files:
  "field ''files'' dec_files kvs m = Some m' \<Longrightarrow> distinct (map fst m) \<Longrightarrow> distinct (map fst m')"
  by (induction "''files''" dec_files kvs m rule: field.induct)
     (auto simp: dec_files_def dest!: distinct_put_all split: if_splits option.splits json.splits)

lemma distinct_point_files: "point_of_json j = Some p \<Longrightarrow> distinct (map fst (pt_files p))"
  by (auto simp: point_of_json_def bind_eq_Some_conv dest!: distinct_field_files split: option.splits if_splits)

lemma distinct_expected: "distinct (expected_files c)"
  by (cases "cf_layout c = ''blue-green''") (simp_all add: expected_files_def deploymentArtifacts_def)

text \<open>C14: a recovery point that validates is intact: it lies in the directory of the instance under its own
  identifier, it records exactly the files that its deployment needs, and every one of them is a
  regular file with the recorded contents (by SHA-256), size, mode and owner. Validating changes no
  file.\<close>

theorem validated_point_is_intact:
  assumes "validate_point st c i w = (Inr (d, p), w')"
  shows "same_files w w' \<and> pt_id p = i \<and> pt_instance p = cf_id c \<and> pt_root p = cf_root c \<and>
    (\<exists>root source. backupRoot st = Inr root \<and> d = root @ [cf_id c, i] \<and> recoveryConfiguration c p = Inr source \<and>
       set (map fst (pt_files p)) = set (expected_files source) \<and>
       (\<forall>name \<in> set (expected_files source).
          \<exists>r. map_of (pt_files p) name = Some r \<and> matches st w (named_below d name) r))"
proof -
  from assms obtain source w1 w2 where l: "load_point st (cf_id c) i w = (Inr (d, p), w1)"
    and root: "pt_root p = cf_root c" and src: "recoveryConfiguration c p = Inr source"
    and len: "length (pt_files p) = length (expected_files source)"
    and chk: "forE (check_file st d (pt_files p)) (expected_files source) w1 = (Inr (), w2)"
    by (auto simp: validate_point_def bindE_Inr split: if_splits)
  note lp = load_point_Inr[OF l]
  have s: "same_files w w1" using reads_load_point l by (rule keepsD)
  have files: "\<forall>name \<in> set (expected_files source). \<exists>r. map_of (pt_files p) name = Some r \<and> matches st w (named_below d name) r"
    using check_files_Inr[OF chk] by (auto simp: matches_same[OF s])
  have "set (expected_files source) \<subseteq> set (map fst (pt_files p))"
    using files by (force dest: map_of_SomeD)
  moreover have "distinct (map fst (pt_files p))" using lp distinct_point_files by blast
  then have "card (set (map fst (pt_files p))) = card (set (expected_files source))"
    using len distinct_card[OF distinct_expected[of source]] distinct_card[of "map fst (pt_files p)"] by simp
  ultimately have "set (map fst (pt_files p)) = set (expected_files source)"
    by (intro card_subset_eq[symmetric]) simp_all
  with files lp root src keepsD[OF reads_validate_point assms] show ?thesis
    by (auto simp: manifest_ok_def)
qed

section \<open>Pruning\<close>

lemma set_add_id [simp]: "set (add_id i xs) = insert i (set xs)"
  by (auto simp: add_id_def)

lemma distinct_add_id [simp]: "distinct xs \<Longrightarrow> distinct (add_id i xs)"
  by (simp add: add_id_def)

lemma add_ids: "set (foldl (\<lambda>xs i. add_id i xs) ys refs) = set ys \<union> set refs"
  "distinct ys \<Longrightarrow> distinct (foldl (\<lambda>xs i. add_id i xs) ys refs)"
  by (induction refs arbitrary: ys) auto

lemma add_checkpoint_keeps:
  "set kept \<subseteq> set (add_checkpoint ps kept)" "distinct kept \<Longrightarrow> distinct (add_checkpoint ps kept)"
  "filter IsUpdateCheckpoint ps = p # rest \<Longrightarrow> pt_id p \<in> set (add_checkpoint ps kept)"
  by (auto simp: add_checkpoint_def split: list.splits)

lemma fill_kept_keeps:
  "set kept \<subseteq> set (fill_kept k ps kept)" "distinct kept \<Longrightarrow> distinct (fill_kept k ps kept)"
  "k \<le> int (length (fill_kept k ps kept)) \<or> pt_id ` set ps \<subseteq> set (fill_kept k ps kept)"
proof (induction k ps kept rule: fill_kept.induct)
  case (2 k p ps kept)
  {
    case 1
    from 2 show ?case by auto
  next
    case 2
    with "2.IH" show ?case by auto
  next
    case 3
    show ?case
    proof (cases "k \<le> int (length kept)")
      case False
      with "2.IH"(1,3) show ?thesis by auto
    qed simp
  }
qed simp_all

lemma retained_spares:
  assumes "kept = retained_ids k protected refs ps"
  shows "distinct kept" "protected \<in> set kept" "set refs \<subseteq> set kept"
    "filter IsUpdateCheckpoint ps = p # rest \<Longrightarrow> pt_id p \<in> set kept"
    "k \<le> int (length kept) \<or> pt_id ` set ps \<subseteq> set kept"
proof -
  let ?a = "foldl (\<lambda>xs i. add_id i xs) [protected] refs" and ?b = "add_checkpoint ps (foldl (\<lambda>xs i. add_id i xs) [protected] refs)"
  have a: "set ?a = insert protected (set refs)" "distinct ?a" using add_ids[of "[protected]" refs] by auto
  note b = add_checkpoint_keeps(1,2)[of ?a ps]
  have kept: "kept = fill_kept k ps ?b" using assms by (simp add: retained_ids_def)
  note c = fill_kept_keeps[where kept = ?b and k = k and ps = ps, folded kept]
  show "distinct kept" "protected \<in> set kept" "set refs \<subseteq> set kept" "k \<le> int (length kept) \<or> pt_id ` set ps \<subseteq> set kept"
    using a b c by auto
  show "pt_id p \<in> set kept" if "filter IsUpdateCheckpoint ps = p # rest"
    using add_checkpoint_keeps(3)[OF that] c(1) by blast
qed

text \<open>Removing a point removes its directory and makes nothing.\<close>

definition vanishing :: "world \<Rightarrow> world \<Rightarrow> bool" where
  "vanishing w w' \<longleftrightarrow> (\<forall>q. look w q = None \<longrightarrow> look w' q = None)"

interpretation vanish: frame vanishing
  by unfold_locales (simp_all add: vanishing_def)

lemma vanishing_still: "keeps same_look m \<Longrightarrow> keeps vanishing m"
  by (erule keeps_mono) (simp add: vanishing_def same_look_def)

lemma vanishing_remove_all: "keeps vanishing (remove_all p)"
proof (rule keepsI)
  fix w
  show "wp (remove_all p) (\<lambda>_. vanishing w) w"
    unfolding remove_all_def by (rule wp_sysI) (auto simp: wp_def vanishing_def look_remove_all look_def)
qed

lemma vanishing_remove_point: "keeps vanishing (remove_point st inst i)"
  unfolding remove_point_def
  by (intro keeps_intros vanishing_remove_all vanishing_still[OF still_point_sync]
      vanishing_still[OF still_reads[OF reads_lstat]])

lemma bindE_liftE_Inr [simp]: "bindE (liftE (Inr x)) f = f x"
  by (rule ext) (simp add: bindE_def liftE_def)

lemma touches_remove_point:
  assumes "backupRoot st = Inr bd" and "\<And>q. below (bd @ [inst, i]) q \<Longrightarrow> P q"
  shows "keeps (touches P) (remove_point st inst i)"
proof -
  have "keeps (touches P) (remove_all (bd @ [inst, i]))"
    by (rule keeps_mono[OF touches_remove_all]) (auto elim!: touches_mono intro: assms(2))
  then show ?thesis
    unfolding remove_point_def assms(1) bindE_liftE_Inr
    by (intro keeps_intros keeps_reads_touches[OF reads_lstat] touches_point_sync)
qed

lemma remove_point_Inr:
  assumes "remove_point st inst i w = (Inr u, w')" and "backupRoot st = Inr bd"
  shows "tree w' (bd @ [inst, i]) = no_tree"
proof -
  from assms obtain x w1 w2 where "remove_all (bd @ [inst, i]) w1 = (Inr x, w2)" and s: "point_sync (bd @ [inst]) w2 = (Inr u, w')"
    by (auto simp: remove_point_def bindE_Inr split: if_splits)
  with wp_run[OF remove_all_outcome] have "tree w2 (bd @ [inst, i]) = no_tree" by fastforce
  with keepsD[OF still_point_sync s] show ?thesis by (simp add: same_look_simps)
qed

text \<open>The loop that removes.\<close>

definition remove_unkept :: "point_store \<Rightarrow> string \<Rightarrow> string list \<Rightarrow> point \<Rightarrow> unit io" where
  "remove_unkept st inst kept p = (if pt_id p \<in> set kept then retE () else remove_point st inst (pt_id p))"

lemma touches_remove_unkept:
  assumes "backupRoot st = Inr bd" and "set ps \<subseteq> set all"
  shows "keeps (touches (\<lambda>q. \<exists>p \<in> set all. pt_id p \<notin> set kept \<and> below (bd @ [inst, pt_id p]) q))
    (forE (remove_unkept st inst kept) ps)"
  using assms(2)
  by (intro keeps_forE_set)
     (auto simp: remove_unkept_def intro!: writes.keeps_retE touches_remove_point[OF assms(1)])

lemma vanishing_remove_unkept: "keeps vanishing (forE (remove_unkept st inst kept) ps)"
  unfolding remove_unkept_def by (intro keeps_intros vanishing_remove_point)

lemma removed_unkept:
  assumes "backupRoot st = Inr bd" and "forE (remove_unkept st inst kept) ps w = (Inr u, w')"
    and "p \<in> set ps" and "pt_id p \<notin> set kept"
  shows "tree w' (bd @ [inst, pt_id p]) = no_tree"
  using assms(2,3)
proof (induction ps arbitrary: w)
  case (Cons x xs)
  from Cons.prems(1) obtain w1 where x: "remove_unkept st inst kept x w = (Inr (), w1)"
    and xs: "forE (remove_unkept st inst kept) xs w1 = (Inr u, w')"
    by (auto simp: forE_def bindE_Inr)
  show ?case
  proof (cases "p = x")
    case True
    with x assms(4) have "remove_point st inst (pt_id p) w = (Inr (), w1)" by (simp add: remove_unkept_def)
    from remove_point_Inr[OF this assms(1)] keepsD[OF vanishing_remove_unkept xs] show ?thesis
      by (auto simp: vanishing_def tree_def no_tree_def fun_eq_iff)
  next
    case False
    with Cons show ?thesis using xs by simp
  qed
qed simp

lemma newest_first_sorted: "sorted_wrt (\<lambda>p q. pt_created q \<le> pt_created p) (newest_first ps)"
  using sorted_sort_key[of "\<lambda>p. - pt_created p" ps] by (simp add: newest_first_def sorted_map)

lemma point_list_sorted:
  assumes "point_list st inst w = (Inr ps, w')"
  shows "sorted_wrt (\<lambda>p q. pt_created q \<le> pt_created p) ps"
proof -
  from assms obtain bd r w1 where
    "(case r of Inl e \<Rightarrow> if err_is ErrNotExist e then retE [] else failE e
      | Inr names \<Rightarrow> bindE (foldE (collect_point st inst) names []) (\<lambda>ps. retE (newest_first ps))) w1 = (Inr ps, w')"
    by (auto simp: point_list_def bindE_Inr split: if_splits)
  then show ?thesis by (cases r) (auto simp: bindE_Inr newest_first_sorted)
qed


end
