(* ===== verification/RestoreLaws.thy ===== *)
theory RestoreLaws
  imports PointLaws RecoveryLaws
begin

text \<open>
  The order a restore keeps: an archive is unpacked into staging directories of its own, the
  boundary of the restore becomes durable in recovery control, and only then are data and the
  database touched; and success is reported only when recovery control has recorded it.
\<close>

section \<open>Joined paths\<close>

lemma split_on_append: "split_on x acc (a @ x # b) = split_on x acc a @ split_on x [] b"
  by (induction x acc a rule: split_on.induct) auto

lemma components_slash: "components (a @ slash # b) = components a @ components b"
  by (simp add: components_def split_on_append)

lemma text_path_clean: "is_abs s \<Longrightarrow> text_path (path_clean s) = text_path s"
proof -
  assume abs: "is_abs s"
  have p: "list_all plain (text_path s)" by (rule text_path_plain)
  have "path_clean s = [] @ slash # join_slash (text_path s)"
    using abs by (simp add: path_clean_def clean_parts_def text_path_def parts_text_def)
  then have "components (path_clean s) = [] # components (join_slash (text_path s))"
    using components_slash[of "[]"] by (simp add: components_def)
  then have "text_path (path_clean s) = foldl (clean_step True) [] (components (join_slash (text_path s)))"
    by (simp add: text_path_def clean_from_def clean_step_def)
  also have "\<dots> = text_path s"
  proof (cases "text_path s = []")
    case True
    then show ?thesis by (simp add: components_def clean_step_def)
  next
    case False
    with p show ?thesis by (simp add: components_clean foldl_plain)
  qed
  finally show ?thesis .
qed

lemma text_path_join:
  assumes "is_abs s" and "list_all plain cs"
  shows "text_path (path_join (s # cs)) = text_path s @ cs"
proof -
  have ne: "s \<noteq> []" using assms(1) by (auto simp: is_abs_Cons)
  have fs: "filter (\<lambda>e. e \<noteq> []) (s # cs) = s # cs" using ne assms(2) by (auto simp: list_all_iff plain_def filter_id_conv)
  have "text_path (join_slash (s # cs)) = text_path s @ cs"
  proof (cases "cs = []")
    case False
    then have "join_slash (s # cs) = s @ slash # join_slash cs" by (cases cs) auto
    with False assms(2) show ?thesis
      by (simp add: text_path_def clean_from_def components_slash components_clean foldl_plain)
  qed simp
  moreover have "is_abs (join_slash (s # cs))"
    using assms(1) join_slash_head[OF ne, of cs] by (auto simp: is_abs_Cons)
  ultimately show ?thesis using fs by (simp add: path_join_def Let_def text_path_clean)
qed

lemma redis_parent_path: "is_abs (cf_root c) \<Longrightarrow> redis_parent c = text_path (cf_root c) @ [''docker-data'', ''prod'']"
  unfolding redis_parent_def by (rule text_path_join) (simp_all add: plain_def slash_def)

lemma storage_path_path: "is_abs (cf_root c) \<Longrightarrow> storage_path c = text_path (cf_root c) @ [''storage'']"
  unfolding storage_path_def by (rule text_path_join) (simp_all add: plain_def slash_def)

section \<open>The files of recovery control\<close>

definition control_entry :: "path \<Rightarrow> path \<Rightarrow> bool" where
  "control_entry sd q \<longleftrightarrow> q = sd \<or> q = sd @ [''recovery-control''] \<or> below (control_dir sd ''primary'') q \<or>
     q = floor_path sd \<or> temp_in sd ''.recovery-state-'' q"

lemma control_entries:
  "control_entry sd sd" "control_entry sd (sd @ [''recovery-control''])" "control_entry sd (control_dir sd ''primary'')"
  "control_entry sd (auth_path sd)" "control_entry sd (floor_path sd)" "control_entry sd (public_path sd ''primary'')"
  "control_entry sd (PublicDir sd ''primary'')" "control_entry sd (initialized_path sd ''primary'')"
  "control_entry sd (control_lock sd ''primary'')"
  by (auto simp: control_entry_def authority_path_def public_path_def PublicDir_def initialized_path_def
      control_lock_def control_dir_def below_iff)

lemma control_temporary:
  "p \<in> {auth_path sd, floor_path sd, public_path sd ''primary'', initialized_path sd ''primary''} \<Longrightarrow>
     temp_in (butlast p) ''.recovery-state-'' q \<Longrightarrow> control_entry sd q"
  by (auto simp: control_entry_def authority_path_def public_path_def PublicDir_def initialized_path_def
      floor_path_def control_dir_def below_iff temp_in_def butlast_append)

lemma control_atomic:
  assumes "p \<in> {auth_path sd, floor_path sd, public_path sd ''primary'', initialized_path sd ''primary''}"
  shows "keeps (touches (control_entry sd)) (atomic p c m)"
proof -
  have "target ''.recovery-state-'' p" using assms rc_targets by auto
  from atomic_touches[OF this] show ?thesis
    by (rule keeps_mono) (use assms control_temporary control_entries in \<open>auto elim!: touches_mono\<close>)
qed

lemma control_change:
  assumes st: "rc_dir st = Some sd" and m: "\<And>a. keeps same_files (mutate a)"
  shows "keeps (touches (control_entry sd)) (change st ''primary'' init mutate)"
proof -
  have init: "keeps (touches (control_entry sd)) (initialize_authority sd ''primary'')"
    unfolding initialize_authority_def
    by (intro keeps_intros control_atomic keeps_reads_touches[OF reads_lstat] keeps_reads_touches[OF reads_randomID]) simp_all
  have com: "keeps (touches (control_entry sd)) (commit sd ''primary'' a)" for a
    unfolding commit_def by (intro keeps_intros control_atomic directory_touches control_entries) simp_all
  have locked: "keeps (touches (control_entry sd)) (change_locked st sd ''primary'' init mutate)"
    unfolding change_locked_def
    by (intro keeps_intros init com keeps_reads_touches[OF m] keeps_reads_touches[OF reads_rcRead])
  have dirs: "keeps (touches (control_entry sd)) (forE (\<lambda>p. directory p 448)
      [sd, sd @ [''recovery-control''], control_dir sd ''primary''])"
    by (rule keeps_forE_set) (use control_entries in \<open>auto intro!: directory_touches\<close>)
  have "located st ''primary'' = Inr sd" by (simp add: located_def st)
  then show ?thesis
    unfolding change_def
    by (simp only: bindE_liftE_Inr)
       (intro keeps_intros dirs locked touches_open_create control_entries keeps_reads_touches[OF reads_CheckProtocol]
          keeps_reads_touches[OF reads_flock] keeps_reads_touches[OF reads_funlock] keeps_reads_touches[OF reads_close_file])
qed

section \<open>Staging\<close>

text \<open>The entries of the staging directories of a restore.\<close>

definition staging :: "config \<Rightarrow> path \<Rightarrow> bool" where
  "staging c q \<longleftrightarrow> (\<exists>t. (temp_in (text_path (cf_root c)) restore_prefix t \<or> temp_in (redis_parent c) restore_prefix t) \<and>
     below t q)"

lemma mkdir_temp_outcome:
  "wp (mkdir_temp d pre) (\<lambda>r w'. touches (temp_in d pre) w w' \<and>
     (\<forall>t. r = Inr t \<longrightarrow> temp_in d pre t \<and> look w t = None \<and> is_dir w' t)) w"
proof -
  have main: "wp (\<lambda>w. if \<not> is_dir w d then (Inl (Sentinel ErrNotExist), w)
          else case fresh_temp 10000 d pre w of
               (None, w') \<Rightarrow> (Inl (Sentinel ErrExist), w')
             | (Some t, w') \<Rightarrow> (Inr t, set_node t (dir_node 448) w'))
     (\<lambda>r w'. touches (temp_in d pre) w w' \<and>
       (\<forall>t. r = Inr t \<longrightarrow> temp_in d pre t \<and> look w t = None \<and> is_dir w' t)) (w\<lparr>w_tick := k\<rparr>)" for w k
  proof -
    let ?w = "w\<lparr>w_tick := k\<rparr>"
    obtain ot w' where f: "fresh_temp 10000 d pre ?w = (ot, w')" by fastforce
    note props = fresh_temp_props[OF f]
    from props have "\<And>p. look w' p = look w p" "\<And>p. on_disk w' p = on_disk w p" by (simp_all add: look_def on_disk_def)
    then show ?thesis
      using props f by (auto simp: wp_def touches_def same_env_def is_dir_def dir_node_def split: option.splits)
  qed
  show ?thesis
    unfolding mkdir_temp_def
  proof (rule wp_sysI[OF main])
    show "wp (\<lambda>w. if \<not> is_dir w d then (Inl (Sentinel ErrNotExist), w)
          else case fresh_temp 10000 d pre w of
               (None, w') \<Rightarrow> (Inl (Sentinel ErrExist), w')
             | (Some t, w') \<Rightarrow> (Inr t, set_node t (dir_node 448) w'))
       (\<lambda>_ w'. touches (temp_in d pre) w w' \<and>
         (\<forall>t. (Inl fault_err :: err + path) = Inr t \<longrightarrow> temp_in d pre t \<and> look w t = None \<and> is_dir w' t))
       (w\<lparr>w_tick := Suc (w_tick w)\<rparr>)"
      using main by (rule wp_mono) simp
  qed (simp add: touches_def same_env_def)
qed

text \<open>A directory all of whose ancestors are there.\<close>

lemma on_the_way_snoc: "on_the_way d w \<Longrightarrow> is_dir w (d @ [n]) \<Longrightarrow> on_the_way (d @ [n]) w"
proof -
  assume d: "on_the_way d w" and n: "is_dir w (d @ [n])"
  have "q = d @ [n] \<or> below q d" if "below q (d @ [n])" for q
    using that by (auto simp: below_iff) (metis butlast_append butlast_snoc append_Nil2)
  with d n show ?thesis by (auto simp: on_the_way_def)
qed

lemma on_the_way_kept:
  assumes "on_the_way d w" and "touches P w w'" and "\<And>q. below q d \<Longrightarrow> \<not> P q"
  shows "on_the_way d w'"
  using assms touches_look[OF assms(2)] by (auto simp: on_the_way_def is_dir_def)

text \<open>Unpacking into a fresh directory below \<open>d\<close> touches only that directory.\<close>

lemma staged_outcome:
  assumes "mkdir_temp d restore_prefix w = (Inr t, w1)" and "on_the_way d w" and "plain arch"
    and "stageDirectoryArchive st src t arch w1 = (r, w2)"
  shows "touches (below t) w1 w2" and "temp_in d restore_prefix t" and "r = Inr p \<Longrightarrow> p = t @ [arch]"
proof -
  from wp_run[OF mkdir_temp_outcome assms(1)] have t: "touches (temp_in d restore_prefix) w w1" "temp_in d restore_prefix t" "is_dir w1 t"
    by auto
  have way: "on_the_way d w1"
    by (rule on_the_way_kept[OF assms(2) t(1)]) (auto simp: temp_in_def below_iff)
  from t(2) obtain n where n: "t = d @ [n]" by (auto simp: temp_in_def)
  have "on_the_way t w1" using on_the_way_snoc[OF way, of n] t(3) n by simp
  moreover have "keeps (confined t arch) (stageDirectoryArchive st src t arch)"
    unfolding stageDirectoryArchive_def
    by (intro keeps_intros confined_extract[OF assms(3)] confined_reads[OF reads_lstat])
  then have "confined t arch w1 w2" using assms(4) by (rule keepsD)
  with calculation have "touches (below (t @ [arch])) w1 w2" by (simp add: confined_def)
  then show "touches (below t) w1 w2" by (rule touches_mono) (auto simp: below_iff)
  show "temp_in d restore_prefix t" by (rule t(2))
  show "p = t @ [arch]" if "r = Inr p" using assms(4) that by (auto simp: stageDirectoryArchive_def bindE_Inr split: if_splits)
qed

section \<open>The boundary\<close>

text \<open>What is durable when data may be restored: the authority names the transaction and the point and
  says that data is being restored, or that it has been.\<close>

definition boundary :: "restore_request \<Rightarrow> path \<Rightarrow> rauthority \<Rightarrow> world \<Rightarrow> bool" where
  "boundary rq sd a w \<longleftrightarrow> authority_at sd w = Some a \<and> durable w (auth_path sd) (Json (rauthority_to_json a)) 384 \<and>
     rs_tx (ra_state a) = Some (rq_tx rq) \<and> ra_point a = rq_point rq \<and> ra_digest a = rq_digest rq \<and>
     (ra_restored a \<or> rs_phase (ra_state a) = ''restoring'')"

lemma authority_valid: "authority_at sd w = Some a \<Longrightarrow> validate a ''primary'' = Inr ()"
  by (auto simp: authority_at_def split: option.splits content.splits if_splits)

lemma begin_boundary:
  assumes "rcBegin ctl inst (rq_point rq) (rq_tx rq) (rq_digest rq) w = (Inr a, w')" and "short_authorities w"
  shows "\<exists>sd. rc_dir ctl = Some sd \<and> inst = ''primary'' \<and> boundary rq sd a w'"
proof -
  from assms(1) obtain sd where sd: "rc_dir ctl = Some sd" and inst: "inst = ''primary''"
    by (auto simp: rcBegin_def change_def bindE_Inr located_def split: option.splits if_splits)
  from begin_success[OF assms(1)[unfolded inst] sd assms(2)] have facts: "authority_at sd w' = Some a"
    "durable w' (auth_path sd) (Json (rauthority_to_json a)) 384" "rs_tx (ra_state a) = Some (rq_tx rq)"
    "ra_point a = rq_point rq" "ra_digest a = rq_digest rq" by blast+
  have "ra_restored a \<or> rs_phase (ra_state a) = ''restoring''"
    using authority_valid[OF facts(1)] facts(3) by (auto simp: validate_def Let_def split: if_splits)
  with facts sd inst show ?thesis by (auto simp: boundary_def)
qed

lemma begin_frame:
  assumes "rcBegin ctl inst pt tx dg w = (r, w')"
  shows "touches (\<lambda>q. \<exists>sd. rc_dir ctl = Some sd \<and> control_entry sd q) w w'"
proof (cases "\<exists>sd. rc_dir ctl = Some sd \<and> inst = ''primary''")
  case True
  then obtain sd where sd: "rc_dir ctl = Some sd" and inst: "inst = ''primary''" by blast
  have m: "keeps same_files (begin_mutate pt tx dg a)" for a
    unfolding begin_mutate_def by (intro keeps_intros)
  have "keeps (touches (control_entry sd)) (rcBegin ctl inst pt tx dg)"
    unfolding inst rcBegin_def by (intro keeps_intros control_change[OF sd m])
  from keepsD[OF this assms] show ?thesis by (rule touches_mono) (use sd in blast)
next
  case False
  then have "\<exists>e. located ctl inst = Inl e" by (cases "rc_dir ctl") (auto simp: located_def)
  then obtain e where "located ctl inst = Inl e" by blast
  then have "rcBegin ctl inst pt tx dg w = (fst (rcBegin ctl inst pt tx dg w), w)"
    by (simp add: rcBegin_def change_def bindE_def liftE_def failE_def)
  with assms show ?thesis by (simp add: writes.refl)
qed

lemma restored_settles:
  assumes "Restored ctl inst tx w = (Inr b, w')" and "short_authorities w"
  shows "\<exists>sd. rc_dir ctl = Some sd \<and> inst = ''primary'' \<and> authority_at sd w' = Some b \<and>
    rs_tx (ra_state b) = Some tx \<and> ra_restored b"
proof -
  from assms(1) obtain sd where sd: "rc_dir ctl = Some sd" and inst: "inst = ''primary''"
    by (auto simp: Restored_def change_def bindE_Inr located_def split: option.splits if_splits)
  from change_success[OF assms(1)[unfolded inst Restored_def] sd quiet_mutations(3) assms(2)]
  obtain a w1 w2 where "restored_mutate tx a w1 = (Inr b, w2)" "authority_at sd w' = Some b" by blast
  with sd inst show ?thesis by (auto simp: restored_mutate_def split: if_splits)
qed

section \<open>Files of a vault\<close>

definition vfiles :: "(world \<Rightarrow> world \<Rightarrow> bool) \<Rightarrow> 'd vault \<Rightarrow> 'd vault \<Rightarrow> bool" where
  "vfiles R v v' \<longleftrightarrow> R (va_world v) (va_world v')"

locale vault_frame = frame R for R :: "world \<Rightarrow> world \<Rightarrow> bool"
begin

lemma keeps_onF [keeps_intros]: "keeps R m \<Longrightarrow> keeps (vfiles R) (onF m)"
  by (simp add: keeps_def vfiles_def onF_def case_prod_unfold)

lemma keeps_onD [keeps_intros]: "keeps (vfiles R) (onD m)"
  by (simp add: keeps_def vfiles_def onD_def case_prod_unfold refl)

end

sublocale vault_frame \<subseteq> vault: frame "vfiles R"
  by unfold_locales (auto simp: vfiles_def refl intro: trans)

interpretation vault_writes: vault_frame "touches P" for P
  by unfold_locales

lemma onF_run: "onF m v = (r, v') \<longleftrightarrow> (\<exists>w'. m (va_world v) = (r, w') \<and> v' = v\<lparr>va_world := w'\<rparr>)"
  by (auto simp: onF_def split: prod.splits)

text \<open>Whatever else the steps of a restore do, they leave the environment of the files alone.\<close>

definition anything :: "path \<Rightarrow> bool" where
  "anything q \<longleftrightarrow> True"

definition sync_keeps :: "point_store \<Rightarrow> bool" where
  "sync_keeps st \<longleftrightarrow> (\<forall>f p. ps_sync st = Some f \<longrightarrow> keeps (touches anything) (f p))"

lemma any_rename: "keeps (touches anything) (rename a b)"
  by (rule keeps_mono[OF touches_rename]) (auto simp: anything_def elim: touches_mono)

lemma any_create_temp: "keeps (touches anything) (create_temp d pre)"
  by (rule keeps_mono[OF touches_create_temp]) (auto simp: anything_def elim: touches_mono)

lemma any_file_calls:
  "keeps (touches anything) (mkdir_all p m)" "keeps (touches anything) (chmod p m)"
  "keeps (touches anything) (chown p u g)" "keeps (touches anything) (write_data p c)"
  "keeps (touches anything) (fsync p)" "keeps (touches anything) (remove p)"
  "keeps (touches anything) (open_excl p m)"
  by (rule touches_mkdir_all touches_chmod touches_chown touches_write_data touches_fsync touches_remove
      touches_open_excl; simp add: anything_def)+

lemma reads_walk: "(\<And>p i b. keeps same_files (f p i b)) \<Longrightarrow> keeps same_files (walk base f b)"
proof -
  assume f: "\<And>p i b. keeps same_files (f p i b)"
  have "keeps same_files (foldE (walk_visit f) ps b)" for ps b
    unfolding walk_visit_def by (intro keeps_intros f)
  then show ?thesis by (simp add: keeps_def walk_def)
qed

lemma reads_read_entry [keeps_intros]: "keeps same_files (read_entry p)"
  unfolding read_entry_def by (intro keeps_intros)

lemma reads_archive_entry [keeps_intros]: "keeps same_files (archive_entry base arch p i acc)"
  unfolding archive_entry_def Let_def by (intro keeps_intros)

lemmas any_calls = any_rename any_create_temp any_file_calls touches_point_sync

lemma any_archive: "keeps (touches anything) (archiveDirectory st base dst arch)"
  unfolding archiveDirectory_def write_archive_def rejectNestedMounts_def
  by (intro keeps_intros any_calls keeps_reads_touches[OF reads_lstat] keeps_reads_touches[OF reads_rejectMounts]
      keeps_reads_touches[OF reads_close_file] keeps_reads_touches[OF reads_walk])

lemma any_writeExclusive: "keeps (touches anything) (writeExclusive p c m)"
  unfolding writeExclusive_def by (intro keeps_intros any_calls keeps_reads_touches[OF reads_close_file])

lemma any_copy: "keeps (touches anything) (copyRegularFile src dst)"
  unfolding copyRegularFile_def
  by (intro keeps_intros any_calls any_writeExclusive keeps_reads_touches[OF reads_lstat]
      keeps_reads_touches[OF reads_read_file])

lemma any_replaceFile: "keeps (touches anything) (replaceFile src dst fr)"
  unfolding replaceFile_def replace_with_def replace_stage_file_def
  by (intro keeps_intros any_calls keeps_reads_touches[OF reads_close_file] keeps_reads_touches[OF reads_read_file])

lemma any_preserveRedis:
  assumes "sync_keeps st"
  shows "keeps (touches anything) (preserveRedis st ctl c d a)"
proof -
  have sync: "keeps (touches anything) (sync_evidence st p)" for p
    using assms by (auto simp: sync_evidence_def sync_keeps_def intro: touches_point_sync split: option.split)
  have partial: "keeps (touches anything) (save_partial st e p m)" if "keeps (touches anything) m" for e p m
    unfolding save_partial_def Let_def
    by (intro keeps_intros any_calls sync that keeps_reads_touches[OF reads_lstat])
  show ?thesis
    unfolding preserveRedis_def Let_def evidence_directory_def ensureDirectory_def record_evidence_def
    by (intro keeps_intros any_calls sync partial any_archive any_copy any_writeExclusive
        keeps_reads_touches[OF reads_lstat] keeps_reads_touches[OF reads_read_file]
        keeps_reads_touches[OF reads_describeFile])
qed

lemma any_restore_trees: "keeps (touches anything) (restore_trees c i a b)"
proof -
  have "keeps (touches anything) (restoreStagedDirectory s cur staged old)" for s cur staged old
    by (rule keeps_mono[OF touches_restoreStaged]) (auto simp: anything_def elim: touches_mono)
  then show ?thesis unfolding restore_trees_def by (intro keeps_intros)
qed

text \<open>The steps between the boundary and the record of its end.\<close>

definition data_steps ::
    "point_store \<Rightarrow> rcstore \<Rightarrow> config \<Rightarrow> config \<Rightarrow> restore_request \<Rightarrow> path \<Rightarrow> point \<Rightarrow> 'd database \<Rightarrow>
     path \<Rightarrow> path \<Rightarrow> rauthority \<Rightarrow> ('d vault, unit) act" where
  "data_steps st ctl c source rq d p db storage redis a =
     bindE (onF (wrapE (Wrap ''preserve Redis recovery evidence'') (preserveRedis st ctl c d a))) (\<lambda>_.
     bindE (onF (forE (restore_artifact d (pt_files p)) (sort_key fst (deploymentArtifacts source)))) (\<lambda>_.
     bindE (restore_database db (d @ [''database.dump''])) (\<lambda>_.
     onF (restore_trees c (rq_point rq) storage redis))))"

lemma restore_data_split:
  "restore_data st ctl c source rq d p db storage redis a =
     bindE (data_steps st ctl c source rq d p db storage redis a) (\<lambda>_.
     bindE (onF (Restored ctl (cf_id c) (rq_tx rq))) (\<lambda>_. retE ()))"
  by (simp add: restore_data_def data_steps_def bindE_assoc)

lemma any_data_steps:
  assumes "sync_keeps st"
  shows "keeps (vfiles (touches anything)) (data_steps st ctl c source rq d p db storage redis a)"
  unfolding data_steps_def restore_database_def restore_artifact_def
  by (intro keeps_intros any_preserveRedis[OF assms] any_replaceFile any_restore_trees
      keeps_reads_touches[OF reads_open_path] keeps_reads_touches[OF reads_read_file]
      keeps_reads_touches[OF reads_close_file])

section \<open>The order of a restore\<close>

definition control_file :: "point_store \<Rightarrow> path \<Rightarrow> bool" where
  "control_file st q \<longleftrightarrow> (\<exists>ctl sd. ps_control st = Some ctl \<and> rc_dir ctl = Some sd \<and> control_entry sd q)"

text \<open>Nothing but staging directories and the files of recovery control has changed.\<close>

definition untouched :: "point_store \<Rightarrow> config \<Rightarrow> 'd vault \<Rightarrow> 'd vault \<Rightarrow> bool" where
  "untouched st c v v' \<longleftrightarrow> va_db v' = va_db v \<and>
     touches (\<lambda>q. staging c q \<or> control_file st q) (va_world v) (va_world v')"

text \<open>The boundary was passed: up to it only staging directories had changed.\<close>

definition passed :: "point_store \<Rightarrow> config \<Rightarrow> restore_request \<Rightarrow> 'd vault \<Rightarrow> bool" where
  "passed st c rq v \<longleftrightarrow> (\<exists>ctl sd a w1 w2. ps_control st = Some ctl \<and> rc_dir ctl = Some sd \<and>
     touches (staging c) (va_world v) w1 \<and>
     rcBegin ctl (cf_id c) (rq_point rq) (rq_tx rq) (rq_digest rq) w1 = (Inr a, w2) \<and>
     boundary rq sd a w2 \<and> \<not> ra_restored a)"

text \<open>Recovery control says that the data of the transaction is restored.\<close>

definition recorded :: "point_store \<Rightarrow> restore_request \<Rightarrow> world \<Rightarrow> bool" where
  "recorded st rq w \<longleftrightarrow> (\<exists>ctl sd a. ps_control st = Some ctl \<and> rc_dir ctl = Some sd \<and>
     authority_at sd w = Some a \<and> rs_tx (ra_state a) = Some (rq_tx rq) \<and> ra_restored a)"

definition ordered :: "point_store \<Rightarrow> config \<Rightarrow> restore_request \<Rightarrow> 'd vault \<Rightarrow> err + unit \<Rightarrow> 'd vault \<Rightarrow> bool" where
  "ordered st c rq v r v' \<longleftrightarrow> (untouched st c v v' \<or> passed st c rq v) \<and>
     (r = Inr () \<longrightarrow> (\<exists>w. recorded st rq w \<and> touches (staging c) w (va_world v')))"

definition staged_only :: "config \<Rightarrow> 'd vault \<Rightarrow> 'd vault \<Rightarrow> bool" where
  "staged_only c v v' \<longleftrightarrow> va_db v' = va_db v \<and> touches (staging c) (va_world v) (va_world v')"

lemma ordered_failed: "staged_only c v v' \<Longrightarrow> ordered st c rq v (Inl e) v'"
  by (auto simp: ordered_def untouched_def staged_only_def elim: touches_mono)

lemma ordered_after:
  assumes "ordered st c rq v r v1" and "staged_only c v1 v2"
  shows "ordered st c rq v r v2"
proof -
  have "untouched st c v v2" if "untouched st c v v1"
    using that assms(2) by (auto simp: untouched_def staged_only_def intro: touches_comp)
  moreover have "\<exists>w. recorded st rq w \<and> touches (staging c) w (va_world v2)"
    if "recorded st rq w" "touches (staging c) w (va_world v1)" for w
    using that assms(2) writes.trans by (auto simp: staged_only_def)
  ultimately show ?thesis using assms(1) by (auto simp: ordered_def)
qed

lemma staged_only_trans: "staged_only c v v1 \<Longrightarrow> staged_only c v1 v2 \<Longrightarrow> staged_only c v v2"
  by (auto simp: staged_only_def intro: writes.trans)

lemma staged_only_onF:
  "onF m v = (r, v') \<Longrightarrow> (\<And>w'. m (va_world v) = (r, w') \<Longrightarrow> touches (staging c) (va_world v) w') \<Longrightarrow> staged_only c v v'"
  by (auto simp: onF_run staged_only_def)

lemma short_touched: "touches P w w' \<Longrightarrow> short_authorities w \<Longrightarrow> short_authorities w'"
  by (rule short_kept) (auto simp: touches_def same_env_def)

lemma restore_data_recorded:
  assumes "restore_data st ctl c source rq d p db storage redis a v = (Inr (), v')"
    and "sync_keeps st" and "short_authorities (va_world v)" and "ps_control st = Some ctl"
  shows "recorded st rq (va_world v')"
proof -
  from assms(1)[unfolded restore_data_split, THEN bindE_Inr[THEN iffD1]] obtain v1
    where v1: "data_steps st ctl c source rq d p db storage redis a v = (Inr (), v1)"
    and fin: "bindE (onF (Restored ctl (cf_id c) (rq_tx rq))) (\<lambda>_. retE ()) v1 = (Inr (), v')" by auto
  have "vfiles (touches anything) v v1" using any_data_steps[OF assms(2)] v1 by (rule keepsD)
  then have short: "short_authorities (va_world v1)" using assms(3) short_touched by (auto simp: vfiles_def)
  from fin obtain b w' where "Restored ctl (cf_id c) (rq_tx rq) (va_world v1) = (Inr b, w')" and "va_world v' = w'"
    by (auto simp: bindE_Inr onF_run)
  from restored_settles[OF this(1) short] this(2) assms(4) show ?thesis by (auto simp: recorded_def)
qed

lemma restore_staged_ordered:
  assumes run: "restore_staged st c source rq d p db storage redis v1 = (r, v')"
    and s1: "staged_only c v v1" and short: "short_authorities (va_world v)" and sy: "sync_keeps st"
  shows "ordered st c rq v r v'"
proof -
  have reading: "staged_only c v u" if "onF (rejectMountedTree q) u0 = (x, u)" "staged_only c v u0" for q u0 u x
  proof -
    have "staged_only c u0 u"
      using that(1) by (rule staged_only_onF)
        (use keepsD[OF reads_rejectMounts] in \<open>auto simp: rejectMountedTree_def intro: same_files_touches\<close>)
    with that(2) show ?thesis by (rule staged_only_trans)
  qed
  let ?rest = "case ps_control st of
       None \<Rightarrow> failE (Msg ''durable recovery control is required before restoring data'')
     | Some ctl \<Rightarrow>
         bindE (onF (wrapE (Wrap ''persist restore boundary'')
           (rcBegin ctl (cf_id c) (rq_point rq) (rq_tx rq) (rq_digest rq)))) (\<lambda>a.
         if ra_restored a then retE ()
         else restore_data st ctl c source rq d p db storage redis a)"
  obtain x v2 where m1: "onF (rejectMountedTree (storage_path c)) v1 = (x, v2)" by fastforce
  note s2 = reading[OF m1 s1]
  show ?thesis
  proof (cases x)
    case (Inl e)
    with run m1 s2 show ?thesis by (auto simp: restore_staged_def bindE_fail intro: ordered_failed)
  next
    case (Inr u)
    obtain y v3 where m2: "onF (rejectMountedTree (redis_parent c @ [''redis''])) v2 = (y, v3)" by fastforce
    note s3 = reading[OF m2 s2]
    show ?thesis
    proof (cases y)
      case (Inl e)
      with run m1 m2 Inr s3 show ?thesis
        by (auto simp: restore_staged_def bindE_fail bindE_step intro: ordered_failed)
    next
      case (Inr u')
      with run m1 m2 \<open>x = Inr u\<close> have rest: "?rest v3 = (r, v')" by (simp add: restore_staged_def bindE_step)
      show ?thesis
      proof (cases "ps_control st")
        case None
        with rest s3 show ?thesis by (auto intro: ordered_failed)
      next
        case (Some ctl)
        obtain z w4 where bg: "rcBegin ctl (cf_id c) (rq_point rq) (rq_tx rq) (rq_digest rq) (va_world v3) = (z, w4)"
          by fastforce
        let ?v4 = "v3\<lparr>va_world := w4\<rparr>"
        have unt: "untouched st c v ?v4"
          using s3 begin_frame[OF bg] Some
          by (auto simp: untouched_def staged_only_def control_file_def intro: touches_comp)
        have sh3: "short_authorities (va_world v3)" using s3 short short_touched by (auto simp: staged_only_def)
        show ?thesis
        proof (cases z)
          case (Inl e)
          with rest Some bg have "r = Inl (Wrap ''persist restore boundary'' e)" "v' = ?v4"
            by (auto simp: bindE_def onF_def wrapE_def)
          with unt show ?thesis by (simp add: ordered_def)
        next
          case (Inr a)
          with begin_boundary[OF bg[unfolded Inr] sh3] obtain sd where sd: "rc_dir ctl = Some sd" and bd: "boundary rq sd a w4"
            by blast
          have cont: "(if ra_restored a then retE () else restore_data st ctl c source rq d p db storage redis a) ?v4 = (r, v')"
            using rest Some bg Inr by (simp add: bindE_def onF_def wrapE_def)
          show ?thesis
          proof (cases "ra_restored a")
            case True
            with cont bd Some sd have "recorded st rq (va_world v')" "v' = ?v4" by (auto simp: boundary_def recorded_def)
            with unt show ?thesis by (auto simp: ordered_def intro: writes.refl)
          next
            case False
            then have pass: "passed st c rq v"
              using s3 Some sd bg Inr bd by (auto simp: passed_def staged_only_def)
            have sh4: "short_authorities w4" using begin_frame[OF bg] sh3 short_touched by blast
            have "r = Inr () \<Longrightarrow> recorded st rq (va_world v')"
              using restore_data_recorded[of st ctl c source rq d p db storage redis a ?v4 v'] cont False sy sh4 Some by simp
            with pass show ?thesis by (auto simp: ordered_def intro: writes.refl)
          qed
        qed
      qed
    qed
  qed
qed

lemma staged_only_removed:
  assumes "temp_in (text_path (cf_root c)) restore_prefix t \<or> temp_in (redis_parent c) restore_prefix t"
  shows "staged_only c v (snd (onF (remove_all t) v))"
proof -
  obtain r w where m: "remove_all t (va_world v) = (r, w)" by fastforce
  have "touches (below t) (va_world v) w" using touches_remove_all m by (rule keepsD)
  then have "touches (staging c) (va_world v) w"
    by (rule touches_mono) (use assms in \<open>auto simp: staging_def\<close>)
  with m show ?thesis by (simp add: staged_only_def onF_def)
qed

lemma prefix_not_special: "\<not> has_prefix restore_prefix ''docker-data''" "\<not> has_prefix restore_prefix ''prod''"
  by (simp_all add: has_prefix_def restore_prefix_def)

text \<open>The directories above both data trees stay while staging directories come and go.\<close>

lemma staging_not_above:
  assumes "is_abs (cf_root c)" and "below q (redis_parent c)"
  shows "\<not> staging c q"
proof
  let ?rp = "text_path (cf_root c)"
  assume "staging c q"
  then obtain d n where t: "d = ?rp \<or> d = redis_parent c" and n: "has_prefix restore_prefix n" and b: "below (d @ [n]) q"
    by (auto simp: staging_def temp_in_def)
  note rp = redis_parent_path[OF assms(1)]
  have "below (d @ [n]) (redis_parent c)" using b assms(2) by (rule below_trans)
  with rp t have "n = ''docker-data''" by (auto simp: below_iff)
  with n prefix_not_special show False by simp
qed

lemma staging_first:
  assumes "mkdir_temp (text_path (cf_root c)) restore_prefix w = (r, w') \<or> mkdir_temp (redis_parent c) restore_prefix w = (r, w')"
  shows "touches (staging c) w w'"
proof -
  have "staging c q" if "temp_in (text_path (cf_root c)) restore_prefix q \<or> temp_in (redis_parent c) restore_prefix q" for q
    using that below_refl by (auto simp: staging_def)
  moreover from assms have "touches (temp_in (text_path (cf_root c)) restore_prefix) w w' \<or>
      touches (temp_in (redis_parent c) restore_prefix) w w'"
    using wp_run[OF mkdir_temp_outcome, of _ _ w r w'] by blast
  ultimately show ?thesis by (auto elim: touches_mono)
qed

lemma restoreValidated_ordered:
  assumes run: "restoreValidated st c rq d p db v = (r, v')"
    and abs: "is_abs (cf_root c)" and way: "on_the_way (redis_parent c) (va_world v)"
    and short: "short_authorities (va_world v)" and sy: "sync_keeps st"
  shows "ordered st c rq v r v'"
proof -
  let ?rp = "text_path (cf_root c)" and ?dp = "redis_parent c"
  note rp = redis_parent_path[OF abs]
  have way0: "on_the_way ?rp w" if "on_the_way ?dp w" for w
    using that by (auto simp: on_the_way_def rp below_iff)
  have keep: "on_the_way ?dp (va_world u)" if "staged_only c v u" for u
    using on_the_way_kept[OF way] that staging_not_above[OF abs] by (auto simp: staged_only_def)
  have plains: "plain ''storage''" "plain ''redis''" by (simp_all add: plain_def slash_def)
  have refl: "staged_only c v v" by (simp add: staged_only_def writes.refl)
  show ?thesis
  proof (cases "recoveryConfiguration c p")
    case (Inl e)
    with run have "r = Inl e" "v' = v" by (auto simp: restoreValidated_def bindE_def liftE_def)
    with ordered_failed[OF refl] show ?thesis by simp
  next
    case src: (Inr source)
    let ?tail2 = "\<lambda>s1 storage s2. bindE (onF (wrapE (Wrap ''stage Redis recovery archive'')
           (stageDirectoryArchive st (d @ [''redis.tar.gz'']) s2 ''redis''))) (\<lambda>redis.
         restore_staged st c source rq d p db storage redis)"
    let ?tail1 = "\<lambda>s1. bindE (onF (wrapE (Wrap ''stage storage recovery archive'')
         (stageDirectoryArchive st (d @ [''storage.tar.gz'']) s1 ''storage''))) (\<lambda>storage.
       bindE (onF (wrapE (Wrap ''create Redis recovery staging directory'') (mkdir_temp ?dp restore_prefix))) (\<lambda>s2.
       deferE (?tail2 s1 storage s2) (onF (remove_all s2))))"
    obtain x w1 where t1: "mkdir_temp ?rp restore_prefix (va_world v) = (x, w1)" by fastforce
    let ?v1 = "v\<lparr>va_world := w1\<rparr>"
    have s1: "staged_only c v ?v1" using staging_first[OF disjI1[OF t1]] by (simp add: staged_only_def)
    show ?thesis
    proof (cases x)
      case (Inl e)
      with run src t1 have "v' = ?v1" "\<exists>e. r = Inl e" by (auto simp: restoreValidated_def bindE_def onF_def wrapE_def)
      with ordered_failed[OF s1] show ?thesis by auto
    next
      case (Inr a)
      have run1: "deferE (?tail1 a) (onF (remove_all a)) ?v1 = (r, v')"
        using run src t1 Inr by (simp add: restoreValidated_def bindE_def onF_def wrapE_def)
      then obtain v5 where body: "?tail1 a ?v1 = (r, v5)" and v': "v' = snd (onF (remove_all a) v5)"
        by (auto simp: deferE_eq)
      obtain y w2 where st1: "stageDirectoryArchive st (d @ [''storage.tar.gz'']) a ''storage'' w1 = (y, w2)" by fastforce
      let ?v2 = "?v1\<lparr>va_world := w2\<rparr>"
      note o1 = staged_outcome[OF t1[unfolded Inr] way0[OF way] plains(1) st1]
      have rm1: "staged_only c u (snd (onF (remove_all a) u))" for u :: "'a vault"
        using o1(2) by (intro staged_only_removed) simp
      have s2: "staged_only c v ?v2"
        using s1 touches_mono[OF o1(1), of "staging c"] o1(2)
        by (auto simp: staged_only_def staging_def intro: writes.trans)
      have "ordered st c rq v r v5"
      proof (cases y)
        case (Inl e)
        with body st1 have "v5 = ?v2" "\<exists>e. r = Inl e" by (auto simp: bindE_def onF_def wrapE_def)
        with ordered_failed[OF s2] show ?thesis by auto
      next
        case y: (Inr storage)
        obtain z w3 where t2: "mkdir_temp ?dp restore_prefix w2 = (z, w3)" by fastforce
        let ?v3 = "?v2\<lparr>va_world := w3\<rparr>"
        have s3: "staged_only c v ?v3"
          using s2 staging_first[OF disjI2[OF t2]] by (auto simp: staged_only_def intro: writes.trans)
        show ?thesis
        proof (cases z)
          case (Inl e)
          with body st1 y t2 have "v5 = ?v3" "\<exists>e. r = Inl e" by (auto simp: bindE_def onF_def wrapE_def)
          with ordered_failed[OF s3] show ?thesis by auto
        next
          case z: (Inr b)
          have "deferE (?tail2 a storage b) (onF (remove_all b)) ?v3 = (r, v5)"
            using body st1 y t2 z by (simp add: bindE_def onF_def wrapE_def)
          then obtain v4 where body2: "?tail2 a storage b ?v3 = (r, v4)" and v5: "v5 = snd (onF (remove_all b) v4)"
            by (auto simp: deferE_eq)
          obtain k w4 where st2: "stageDirectoryArchive st (d @ [''redis.tar.gz'']) b ''redis'' w3 = (k, w4)" by fastforce
          let ?v3' = "?v3\<lparr>va_world := w4\<rparr>"
          have way2: "on_the_way ?dp w2" using keep[OF s2] by simp
          note o2 = staged_outcome[OF t2[unfolded z] way2 plains(2) st2]
          have s4: "staged_only c v ?v3'"
            using s3 touches_mono[OF o2(1), of "staging c"] o2(2)
            by (auto simp: staged_only_def staging_def intro: writes.trans)
          have "ordered st c rq v r v4"
          proof (cases k)
            case (Inl e)
            with body2 st2 have "v4 = ?v3'" "\<exists>e. r = Inl e" by (auto simp: bindE_def onF_def wrapE_def)
            with ordered_failed[OF s4] show ?thesis by auto
          next
            case (Inr redis)
            with body2 st2 have "restore_staged st c source rq d p db storage redis ?v3' = (r, v4)"
              by (simp add: bindE_def onF_def wrapE_def)
            from restore_staged_ordered[OF this s4 short sy] show ?thesis .
          qed
          moreover have "staged_only c v4 v5" unfolding v5 using o2(2) by (intro staged_only_removed) simp
          ultimately show ?thesis by (rule ordered_after)
        qed
      qed
      moreover have "staged_only c v5 v'" unfolding v' by (rule rm1)
      ultimately show ?thesis by (rule ordered_after)
    qed
  qed
qed

lemma ordered_before:
  assumes "ordered st c rq v1 r v'" and "same_files (va_world v) (va_world v1)" and "va_db v1 = va_db v"
  shows "ordered st c rq v r v'"
proof -
  have t: "touches P (va_world v) w" if "touches P (va_world v1) w" for P w
    using same_files_touches[OF assms(2)] that by (rule writes.trans)
  have "untouched st c v v'" if "untouched st c v1 v'"
    using that assms(3) t by (simp add: untouched_def)
  moreover have "passed st c rq v" if "passed st c rq v1"
    using that t unfolding passed_def by blast
  ultimately show ?thesis using assms(1) by (auto simp: ordered_def)
qed


end
