(* ===== verification/PointJson.thy ===== *)
theory PointJson
  imports PointLaws
begin

text \<open>
  The manifest of a recovery point reads back as it was written, with its files in the order of
  their names; and the identifier of a new point is well formed.
\<close>

section \<open>The manifest\<close>

definition record_in_range :: "file_record \<Rightarrow> bool" where
  "record_in_range r \<longleftrightarrow> 0 \<le> fr_size r \<and> fr_size r < 2 ^ 63 \<and> 0 \<le> fr_mode r \<and> fr_mode r < 2 ^ 32 \<and>
     - (2 ^ 63) \<le> fr_uid r \<and> fr_uid r < 2 ^ 63 \<and> - (2 ^ 63) \<le> fr_gid r \<and> fr_gid r < 2 ^ 63"

definition config_in_range :: "config \<Rightarrow> bool" where
  "config_in_range c \<longleftrightarrow> - (2 ^ 63) \<le> cf_schema c \<and> cf_schema c < 2 ^ 63"

definition point_in_range :: "point \<Rightarrow> bool" where
  "point_in_range p \<longleftrightarrow> - (2 ^ 63) \<le> pt_schema p \<and> pt_schema p < 2 ^ 63 \<and>
     (\<forall>c. pt_deployment p = Some c \<longrightarrow> config_in_range c) \<and> list_all (\<lambda>(k, r). record_in_range r) (pt_files p) \<and>
     distinct (map fst (pt_files p))"

lemma dec_word64_num [simp]: "dec_word64 (JNum (uint w)) x = Some w"
  using uint_lt2p[of w] by (simp add: dec_word64_def dec_uint64_num)

lemma file_record_roundtrip: "record_in_range r \<Longrightarrow> dec_file_record (file_record_to_json r) x = Some r"
  by (simp add: dec_file_record_def file_record_to_json_def record_in_range_def dec_int64_def dec_uint32_def lower_char_def is_upper_def code_def)

lemma config_fields:
  "field ''layout'' dec_str (config_pairs c) [] = Some (cf_layout c)"
  "field ''active_slot'' dec_str (config_pairs c) [] = Some (cf_active_slot c)"
  "field ''infra_compose_file'' dec_str (config_pairs c) [] = Some (cf_infra_compose c)"
  "field ''infra_environment_file'' dec_str (config_pairs c) [] = Some (cf_infra_env c)"
  "config_in_range c \<Longrightarrow> field ''schema_version'' dec_int64 (config_pairs c) 0 = Some (cf_schema c)"
  "field ''id'' dec_str (config_pairs c) [] = Some (cf_id c)"
  "field ''root'' dec_str (config_pairs c) [] = Some (cf_root c)"
  "field ''compose_file'' dec_str (config_pairs c) [] = Some (cf_compose c)"
  "field ''environment_file'' dec_str (config_pairs c) [] = Some (cf_env c)"
  "field ''control_token_file'' dec_str (config_pairs c) [] = Some (cf_token c)"
  "field ''release_sequence'' dec_word64 (config_pairs c) 0 = Some (cf_release c)"
  "field ''enrolled_release_sha256'' dec_str (config_pairs c) [] = Some (cf_release_sha c)"
  "field ''version'' dec_str (config_pairs c) [] = Some (cf_version c)"
  "field ''postgres_major'' dec_str (config_pairs c) [] = Some (cf_pg_major c)"
  "field ''postgres_data_dir'' dec_str (config_pairs c) [] = Some (cf_pg_dir c)"
  "field ''postgres_container_data_dir'' dec_str (config_pairs c) [] = Some (cf_pg_mount c)"
  "field ''redis_major'' dec_str (config_pairs c) [] = Some (cf_redis_major c)"
  "field ''enrolled_at'' dec_time (config_pairs c) zero_time = Some (cf_enrolled c)"
  by (simp_all add: config_pairs_def config_in_range_def dec_int64_def lower_char_def is_upper_def code_def)

lemma config_known: "known config_keys (config_pairs c)"
  by (simp add: config_pairs_def config_keys_def lower_char_def is_upper_def code_def)

lemma config_roundtrip: "config_in_range c \<Longrightarrow> dec_config (config_to_json c) zero_config = Some c"
  by (simp add: dec_config_def config_to_json_def config_fields config_known zero_config_def)

lemma map_put_new: "k \<notin> fst ` set m \<Longrightarrow> map_put k v m = m @ [(k, v)]"
  by (force simp: map_put_def filter_id_conv)

lemma put_all_roundtrip:
  assumes "distinct (map fst (m @ xs))" and "list_all (\<lambda>(k, r). record_in_range r) xs"
  shows "put_all_pairs (map (\<lambda>(k, r). (k, file_record_to_json r)) xs) m = Some (m @ xs)"
  using assms
proof (induction xs arbitrary: m)
  case (Cons x xs)
  obtain k r where x: "x = (k, r)" by fastforce
  with Cons.prems have "k \<notin> fst ` set m" "record_in_range r" by auto
  with Cons.IH[of "m @ [x]"] Cons.prems x show ?case by (simp add: file_record_roundtrip map_put_new)
qed simp

definition by_name :: "file_map \<Rightarrow> file_map" where
  "by_name m = sort_key fst m"

lemma by_name_same [simp]: "set (by_name m) = set m" "length (by_name m) = length m"
  by (simp_all add: by_name_def)

lemma distinct_by_name [simp]: "distinct (map fst (by_name m)) = distinct (map fst m)"
  by (simp add: by_name_def distinct_map)

lemma map_of_by_name: "distinct (map fst m) \<Longrightarrow> map_of (by_name m) = map_of m"
  by (rule map_of_eqI) (auto simp: map_of_eq_Some_iff)

lemma files_roundtrip:
  assumes "distinct (map fst m)" and "list_all (\<lambda>(k, r). record_in_range r) m"
  shows "dec_files (files_to_json m) [] = Some (by_name m)"
proof -
  have "list_all (\<lambda>(k, r). record_in_range r) (by_name m)" using assms(2) by (simp add: list_all_iff)
  moreover have "distinct (map fst ([] @ by_name m))" using assms(1) by simp
  ultimately have "put_all_pairs (map (\<lambda>(k, r). (k, file_record_to_json r)) (by_name m)) [] = Some ([] @ by_name m)"
    by (intro put_all_roundtrip)
  then show ?thesis by (simp add: dec_files_def files_to_json_def by_name_def)
qed

lemma point_fields:
  "field ''schema_version'' dec_int64 (point_pairs p) 0 = dec_int64 (JNum (pt_schema p)) 0"
  "field ''id'' dec_str (point_pairs p) [] = Some (pt_id p)"
  "field ''instance_id'' dec_str (point_pairs p) [] = Some (pt_instance p)"
  "field ''reason'' dec_str (point_pairs p) [] = Some (pt_reason p)"
  "field ''created_at'' dec_time (point_pairs p) zero_time = Some (pt_created p)"
  "field ''version'' dec_str (point_pairs p) [] = Some (pt_version p)"
  "field ''release_sequence'' dec_word64 (point_pairs p) 0 = Some (pt_release p)"
  "field ''root'' dec_str (point_pairs p) [] = Some (pt_root p)"
  "field ''files'' dec_files (point_pairs p) [] = dec_files (files_to_json (pt_files p)) []"
  by (simp_all add: point_pairs_def field_other_pair lower_char_def is_upper_def code_def del: field_opt_pair
      split: option.split)

lemma dec_opt_config [simp]: "dec_opt dec_config zero_config (config_to_json c) None = map_option Some (dec_config (config_to_json c) zero_config)"
  by (simp add: config_to_json_def)

lemma point_deployment_field:
  assumes "\<forall>c. pt_deployment p = Some c \<longrightarrow> config_in_range c"
  shows "field ''deployment'' (dec_opt dec_config zero_config) (point_pairs p) None = Some (pt_deployment p)"
  using assms
  by (cases "pt_deployment p")
     (simp_all add: point_pairs_def field_this_pair config_roundtrip lower_char_def is_upper_def code_def del: field_opt_pair)

lemma point_known: "known point_keys (point_pairs p)"
  by (simp add: point_pairs_def point_keys_def lower_char_def is_upper_def code_def)

text \<open>The manifest reads back, its files in the order of their names.\<close>

lemma point_roundtrip:
  assumes "point_in_range p"
  shows "point_of_json (point_to_json p) = Some (p\<lparr>pt_files := by_name (pt_files p)\<rparr>)"
  using assms
  by (simp add: point_of_json_def point_to_json_def point_known point_fields point_deployment_field point_in_range_def
      dec_int64_num files_roundtrip)

section \<open>Identifiers\<close>

lemma civil_month_day:
  assumes "civil n = (y, m, d)"
  shows "nat m < 100" and "nat d < 100"
proof -
  define z where "z = n + 719468"
  define doe where "doe = z mod 146097"
  define yoe where "yoe = (doe - doe div 1460 + doe div 36524 - doe div 146096) div 365"
  define doy where "doy = doe - (365 * yoe + yoe div 4 - yoe div 100)"
  define mp where "mp = (5 * doy + 2) div 153"
  have doe: "0 \<le> doe" "doe < 146097" by (simp_all add: doe_def)
  have parts: "doe div 1460 \<le> 100" "doe div 146096 \<le> 1" "0 \<le> doe div 36524" "doe div 1460 + doe div 146096 \<le> doe"
    using doe zdiv_mono1[of doe 146096 1460] zdiv_mono1[of doe 146096 146096]
    by (simp_all add: pos_imp_zdiv_nonneg_iff)
  define x where "x = doe - doe div 1460 + doe div 36524 - doe div 146096"
  have x: "0 \<le> x" "doe - 101 \<le> x" using parts by (simp_all add: x_def)
  have yx: "yoe = x div 365" by (simp add: yoe_def x_def)
  have yoe: "0 \<le> yoe" "x - 365 < 365 * yoe" using x(1) unfolding yx by presburger+
  have "yoe div 100 \<le> yoe div 4" using yoe(1) by (intro zdiv_mono2) simp_all
  then have doy: "doy \<le> 500" using yoe x by (simp add: doy_def)
  have mp: "153 * mp \<le> 5 * doy + 2" "5 * doy + 2 < 153 * mp + 153" unfolding mp_def by presburger+
  then have low: "mp < 50" using doy by simp
  have civ: "civil n = (yoe + z div 146097 * 400 + (if (if mp < 10 then mp + 3 else mp - 9) \<le> 2 then 1 else 0),
      if mp < 10 then mp + 3 else mp - 9, doy - (153 * mp + 2) div 5 + 1)"
    unfolding civil_def Let_def z_def doe_def yoe_def doy_def mp_def by (rule refl)
  have m: "m = (if mp < 10 then mp + 3 else mp - 9)" and d: "d = doy - (153 * mp + 2) div 5 + 1"
    using assms civ by (simp_all only: prod.inject)
  have "m \<le> 60" using m low by (simp split: if_splits)
  then show "nat m < 100" by simp
  have "153 * mp + 2 - 5 < 5 * ((153 * mp + 2) div 5)" by presburger
  then have "d \<le> 40" using mp d by simp
  then show "nat d < 100" by simp
qed

definition four_digit_year :: "int \<Rightarrow> bool" where
  "four_digit_year t \<longleftrightarrow> fst (civil (t div second_ns div 86400)) < 10000"

lemma point_stamp_shape:
  assumes "four_digit_year t"
  shows "shape (replicate 8 is_digit @ [(=) CHR ''T''] @ replicate 6 is_digit @ [(=) CHR ''Z'']) (point_stamp t)"
proof -
  obtain y m d where c: "civil (t div second_ns div 86400) = (y, m, d)" by (metis prod_cases3)
  define sod where "sod = t div second_ns mod 86400"
  have sod: "0 \<le> sod" "sod < 86400" by (simp_all add: sod_def)
  have y: "nat y < 10 ^ 4" using assms c by (simp add: four_digit_year_def)
  note md = civil_month_day[OF c]
  have hms: "nat (sod div 3600) < 10 ^ 2" "nat (sod div 60 mod 60) < 10 ^ 2" "nat (sod mod 60) < 10 ^ 2"
    using sod by simp_all
  have md2: "nat m < 10 ^ 2" "nat d < 10 ^ 2" using md by simp_all
  have two: "n < 10 ^ 2 \<Longrightarrow> shape (replicate 2 is_digit) (pad_dec 2 n)" for n by (rule pad_dec_shape) simp_all
  have four: "shape (replicate 4 is_digit) (pad_dec 4 (nat y))" using y by (rule pad_dec_shape) simp
  have one: "shape [(=) CHR ''T''] ''T''" "shape [(=) CHR ''Z''] ''Z''" by (simp_all add: shape_def)
  note parts = shape_append[OF shape_append[OF four shape_append[OF two[OF md2(1)] two[OF md2(2)]]]
     shape_append[OF one(1) shape_append[OF shape_append[OF two[OF hms(1)] shape_append[OF two[OF hms(2)] two[OF hms(3)]]] one(2)]]]
  have "shape ((replicate 4 is_digit @ replicate 2 is_digit @ replicate 2 is_digit) @ [(=) CHR ''T''] @
      (replicate 2 is_digit @ replicate 2 is_digit @ replicate 2 is_digit) @ [(=) CHR ''Z''])
     ((pad_dec 4 (nat y) @ pad_dec 2 (nat m) @ pad_dec 2 (nat d)) @ ''T'' @
      (pad_dec 2 (nat (sod div 3600)) @ pad_dec 2 (nat (sod div 60 mod 60)) @ pad_dec 2 (nat (sod mod 60))) @ ''Z'')"
    by (rule parts)
  moreover have "replicate 4 is_digit @ replicate 2 is_digit @ replicate 2 is_digit = replicate 8 is_digit"
    "replicate 2 is_digit @ replicate 2 is_digit @ replicate 2 is_digit = replicate 6 is_digit"
    by (simp_all add: replicate_add[symmetric])
  ultimately show ?thesis by (simp add: point_stamp_def Let_def c sod_def)
qed

lemma point_newID_ok:
  assumes "point_newID st w = (Inr i, w')" and "\<And>u. same_files w u \<Longrightarrow> four_digit_year (ps_now st u)"
  shows "point_id_ok i"
proof -
  from assms(1) obtain bs w1 where r: "read_random 4 w = (Inr bs, w1)"
    and i: "i = point_stamp (ps_now st w1) @ ''-'' @ hex_encode bs"
    by (auto simp: point_newID_def bindE_Inr point_now_def)
  have "length bs = 4" using r by (auto simp: read_random_def sys_def Let_def split: fault.splits)
  then have "shape (replicate 8 is_hex) (hex_encode bs)" using hex_encode_shape[of bs] by simp
  moreover have "four_digit_year (ps_now st w1)" using assms(2) keepsD[OF reads_read_random r] .
  ultimately have "shape ((replicate 8 is_digit @ [(=) CHR ''T''] @ replicate 6 is_digit @ [(=) CHR ''Z'']) @
      [(=) CHR ''-''] @ replicate 8 is_hex) i"
    unfolding i by (intro shape_append point_stamp_shape) (simp_all add: shape_def)
  then show ?thesis by (simp add: point_id_ok_def)
qed

end
