(* ===== verification/PointWitness.thy ===== *)
theory PointWitness
  imports RestoreLaws PointJson LazyRun RecoveryWitness
begin

text \<open>
  The theorems about recovery points applied to a host with one deployment and two points, and
  what reading a point needs to succeed.
\<close>

section \<open>Calls that succeed\<close>

text \<open>Without faults a manifest that is there and in order loads, and a point whose files match it
  validates.\<close>

definition calm :: "world \<Rightarrow> bool" where
  "calm w \<longleftrightarrow> w_fault w = (\<lambda>_. FOk)"

lemma calm_tick [simp]: "calm (w\<lparr>w_tick := k\<rparr>) = calm w"
  by (simp add: calm_def)

lemma matches_tick [simp]: "matches st (w\<lparr>w_tick := k\<rparr>) p r = matches st w p r"
  by (simp add: matches_def info_of_def data_size_def cong: content.case_cong)

definition has_manifest :: "point_store \<Rightarrow> string \<Rightarrow> string \<Rightarrow> point \<Rightarrow> world \<Rightarrow> bool" where
  "has_manifest st inst i p w \<longleftrightarrow> instance_id_ok inst \<and> point_id_ok i \<and> manifest_ok inst i p \<and>
     (\<exists>bd n j. backupRoot st = Inr bd \<and> look w (bd @ [inst, i, ''manifest.json'']) = Some n \<and>
        n_kind n = KRegular \<and> n_data n = Json j \<and> 1 \<le> w_jlen w j \<and> w_jlen w j \<le> 1024 * 1024 \<and>
        point_of_json j = Some p)"

lemma has_manifest_tick [simp]: "has_manifest st inst i p (w\<lparr>w_tick := k\<rparr>) = has_manifest st inst i p w"
  by (simp add: has_manifest_def)

lemma load_point_runs:
  assumes "calm w" and "has_manifest st inst i p w" and "backupRoot st = Inr bd"
  shows "load_point st inst i w = (Inr (bd @ [inst, i], p), w\<lparr>w_tick := w_tick w + 2\<rparr>)"
  using assms
  by (auto simp: calm_def has_manifest_def load_point_def Let_def bindE_def tryE_def liftE_def failE_def retE_def
      lstat_def read_file_def sys_def info_of_def data_size_def)

lemma data_size_tick [simp]: "data_size (w\<lparr>w_tick := k\<rparr>) c = data_size w c"
  by (simp add: data_size_def split: content.splits)

lemma describeFile_runs:
  assumes "calm w" and "matches st w p r"
  shows "describeFile st p w = (Inr r, w\<lparr>w_tick := w_tick w + 4\<rparr>)"
  using assms
  by (auto simp: calm_def matches_def describeFile_def bindE_def tryE_def retE_def Let_def
      lstat_def open_path_def read_file_def close_file_def sys_def info_of_def)

lemma verifyFile_runs:
  assumes "calm w" and "matches st w p r"
  shows "verifyFile st p r w = (Inr (), w\<lparr>w_tick := w_tick w + 4\<rparr>)"
  using describeFile_runs[OF assms] by (simp add: verifyFile_def bindE_def retE_def)

lemma check_files_runs:
  assumes "calm w" and "\<forall>name \<in> set names. \<exists>r. map_of files name = Some r \<and> matches st w (named_below d name) r"
  shows "forE (check_file st d files) names w = (Inr (), w\<lparr>w_tick := w_tick w + 4 * length names\<rparr>)"
  using assms
proof (induction names arbitrary: w)
  case (Cons x xs)
  then obtain r where r: "map_of files x = Some r" "matches st w (named_below d x) r" by auto
  have "check_file st d files x w = (Inr (), w\<lparr>w_tick := w_tick w + 4\<rparr>)"
    using verifyFile_runs[OF Cons.prems(1) r(2)] r(1) by (simp add: check_file_def wrapE_def)
  with Cons.IH[of "w\<lparr>w_tick := w_tick w + 4\<rparr>"] Cons.prems show ?case by (simp add: forE_def bindE_def)
qed (simp add: forE_def retE_def)

lemma validate_point_runs:
  assumes "calm w" and "has_manifest st (cf_id c) i p w" and "backupRoot st = Inr bd" and "pt_root p = cf_root c"
    and "recoveryConfiguration c p = Inr source" and "length (pt_files p) = length (expected_files source)"
    and "\<forall>name \<in> set (expected_files source).
      \<exists>r. map_of (pt_files p) name = Some r \<and> matches st w (named_below (bd @ [cf_id c, i]) name) r"
  shows "\<exists>w'. validate_point st c i w = (Inr (bd @ [cf_id c, i], p), w')"
  using assms load_point_runs[OF assms(1-3)]
    check_files_runs[of "w\<lparr>w_tick := w_tick w + 2\<rparr>" "expected_files source" "pt_files p" st "bd @ [cf_id c, i]"]
  by (simp add: validate_point_def bindE_def liftE_def retE_def)

section \<open>A deployment and its point\<close>

definition ex_place :: path where "ex_place = [''backup'']"

definition ex_points :: point_store where
  "ex_points = \<lparr>ps_control = Some ex_rc, ps_root = ''/backup'', ps_keep = 1, ps_now = (\<lambda>_. 0), ps_sync = None,
     ps_sha = (\<lambda>_. ex_digest64), ps_pack = (\<lambda>_. Text ''archive''), ps_unpack = (\<lambda>_. Inr ([], None))\<rparr>"

definition ex_config :: config where
  "ex_config = zero_config\<lparr>cf_schema := 1, cf_id := ''primary'', cf_root := ''/srv'',
     cf_compose := ''/srv/state/compose.yml'', cf_env := ''/srv/state/release.env'', cf_token := ''/srv/state/token'',
     cf_release := 7, cf_version := ''2.0.0''\<rparr>"

definition ex_artifact :: node where
  "ex_artifact = ex_file 384 (Text ''data'')"

definition ex_names :: "string list" where
  "ex_names = [''database.dump'', ''redis.tar.gz'', ''storage.tar.gz'', ''site.env'', ''version.json'',
     ''managed/instance.yml'', ''managed/release.env'', ''managed/docker-compose.yml'']"

definition ex_record :: file_record where
  "ex_record = \<lparr>fr_sha = ex_digest64, fr_size = 4, fr_mode = 384, fr_uid = 0, fr_gid = 0\<rparr>"

definition ex_saved :: "string \<Rightarrow> int \<Rightarrow> file_map \<Rightarrow> point" where
  "ex_saved i t files = \<lparr>pt_deployment = Some ex_config, pt_schema = 1, pt_id = i, pt_instance = ''primary'',
     pt_reason = ''manual'', pt_created = t, pt_version = ''2.0.0'', pt_release = 7, pt_root = ''/srv'',
     pt_files = files\<rparr>"

definition ex_files :: file_map where
  "ex_files = by_name (map (\<lambda>n. (n, ex_record)) ex_names)"

definition ex_manifest :: "string \<Rightarrow> int \<Rightarrow> file_map \<Rightarrow> node" where
  "ex_manifest i t files = ex_file 384 (Json (point_to_json (ex_saved i t files)))"

definition point_world :: world where
  "point_world = ex_world ([([], dir_node 493), ([''srv''], dir_node 493), ([''srv'', ''docker-data''], dir_node 493),
       ([''srv'', ''docker-data'', ''prod''], dir_node 493), (ex_place, dir_node 448),
       (ex_place @ [''primary''], dir_node 448), (ex_place @ [''primary'', ex_point], dir_node 448),
       (ex_place @ [''primary'', ex_point, ''manifest.json''], ex_manifest ex_point 1 ex_files)] @
     map (\<lambda>n. (named_below (ex_place @ [''primary'', ex_point]) n, ex_artifact)) ex_names)"

lemma ex_points_simps [simp]:
  "ps_control ex_points = Some ex_rc" "ps_keep ex_points = 1" "ps_sync ex_points = None"
  "ps_unpack ex_points x = Inr ([], None)"
  by (simp_all add: ex_points_def)

lemma ex_backupRoot [simp]: "backupRoot ex_points = Inr ex_place"
  by code_simp

lemma ex_recovery [simp]: "recoveryConfiguration ex_config (ex_saved i t files) = Inr ex_config"
proof -
  have "list_ex (artifact_escapes ex_config) (deploymentArtifacts ex_config) = False" by code_simp
  then show ?thesis by (simp add: recoveryConfiguration_def ex_saved_def) (simp add: ex_config_def zero_config_def)
qed

lemma ex_expected: "expected_files ex_config = ex_names"
  by code_simp

lemma ex_names_distinct: "distinct ex_names"
  by code_simp

lemma ex_id [simp]: "cf_id ex_config = ''primary''" "cf_root ex_config = ''/srv''"
  by (simp_all add: ex_config_def)

lemma ex_saved_simps [simp]: "pt_id (ex_saved i t fs) = i" "pt_root (ex_saved i t fs) = ''/srv''"
  "pt_files (ex_saved i t fs) = fs" "pt_created (ex_saved i t fs) = t" "pt_reason (ex_saved i t fs) = ''manual''"
  by (simp_all add: ex_saved_def)

lemma ex_saved_json:
  assumes "by_name fs = fs" and "distinct (map fst fs)" and "list_all (\<lambda>(k, r). record_in_range r) fs"
  shows "point_of_json (point_to_json (ex_saved i t fs)) = Some (ex_saved i t fs)"
proof -
  have "point_in_range (ex_saved i t fs)"
    using assms(2,3) by (simp add: point_in_range_def ex_saved_def config_in_range_def ex_config_def zero_config_def)
  from point_roundtrip[OF this] assms(1) show ?thesis by (simp add: ex_saved_def)
qed

lemma ex_saved_ok: "t \<noteq> zero_time \<Longrightarrow> manifest_ok ''primary'' i (ex_saved i t fs)"
  by (simp add: manifest_ok_def ex_saved_def)

lemma ex_record_range: "record_in_range ex_record"
  by (simp add: record_in_range_def ex_record_def)

lemma ex_files_ok: "by_name ex_files = ex_files" "distinct (map fst ex_files)" "list_all (\<lambda>(k, r). record_in_range r) ex_files"
  "length ex_files = length ex_names" "name \<in> set ex_names \<Longrightarrow> map_of ex_files name = Some ex_record"
proof -
  let ?m = "map (\<lambda>n. (n, ex_record)) ex_names"
  have fst: "map fst ?m = ex_names" by (simp add: comp_def)
  show "by_name ex_files = ex_files"
    unfolding ex_files_def by_name_def by (rule sort_key_id_if_sorted) (rule sorted_sort_key)
  show d: "distinct (map fst ex_files)" unfolding ex_files_def using fst ex_names_distinct by simp
  show "list_all (\<lambda>(k, r). record_in_range r) ex_files"
    unfolding ex_files_def list_all_iff by (auto simp: ex_record_range)
  show "length ex_files = length ex_names" unfolding ex_files_def by simp
  show "map_of ex_files name = Some ex_record" if "name \<in> set ex_names"
    unfolding ex_files_def using that fst ex_names_distinct by (simp add: map_of_by_name map_of_map_restrict)
qed

lemma point_world_calm [simp]: "calm (ex_world fs)" "calm point_world"
  by (simp_all add: calm_def ex_world_def point_world_def)

lemma ex_place_names: "name \<in> set ex_names \<Longrightarrow>
    named_below (ex_place @ [''primary'', ex_point]) name = ex_place @ [''primary'', ex_point] @ components name"
proof -
  have "list_all (\<lambda>n. named_below (ex_place @ [''primary'', ex_point]) n = ex_place @ [''primary'', ex_point] @ components n)
      ex_names" by code_simp
  then show "name \<in> set ex_names \<Longrightarrow> ?thesis" by (simp add: list_all_iff)
qed

lemma point_world_file: "name \<in> set ex_names \<Longrightarrow> look point_world (named_below (ex_place @ [''primary'', ex_point]) name) = Some ex_artifact"
proof -
  have "list_all (\<lambda>n. look point_world (named_below (ex_place @ [''primary'', ex_point]) n) = Some ex_artifact) ex_names"
    unfolding point_world_def ex_world_def look_def ex_names_def ex_artifact_def by code_simp
  then show "name \<in> set ex_names \<Longrightarrow> ?thesis" by (simp add: list_all_iff)
qed

lemma point_world_manifest: "look point_world (ex_place @ [''primary'', ex_point, ''manifest.json'']) = Some (ex_manifest ex_point 1 ex_files)"
  by (simp add: point_world_def ex_world_def look_def ex_place_def)

lemma ex_point_ids [simp]: "instance_id_ok ''primary''" "point_id_ok ex_point"
  by (code_simp, code_simp)

lemma ex_validates: "\<exists>w'. validate_point ex_points ex_config ex_point point_world =
    (Inr (ex_place @ [''primary'', ex_point], ex_saved ex_point 1 ex_files), w')"
proof -
  have m: "has_manifest ex_points (cf_id ex_config) ex_point (ex_saved ex_point 1 ex_files) point_world"
    unfolding has_manifest_def
    using ex_saved_json[OF ex_files_ok(1-3)] ex_saved_ok[of 1] point_world_manifest
    by (simp add: ex_manifest_def ex_file_def zero_time_def) (simp add: point_world_def ex_world_def)
  have f: "matches ex_points point_world (named_below (ex_place @ [''primary'', ex_point]) name) ex_record" if "name \<in> set ex_names" for name
    using point_world_file[OF that]
    by (simp add: matches_def ex_artifact_def ex_file_def describe_as_def info_of_def data_size_def ex_record_def ex_points_def)
  show ?thesis
    using validate_point_runs[OF point_world_calm(2) m ex_backupRoot, of ex_config] f
    by (simp add: ex_expected ex_files_ok)
qed

theorem validated_point_is_intact_witness:
  "set (map fst ex_files) = set (expected_files ex_config) \<and>
   (\<exists>r. map_of ex_files ''site.env'' = Some r \<and>
      matches ex_points point_world (named_below (ex_place @ [''primary'', ex_point]) ''site.env'') r)"
proof -
  from ex_validates obtain w' where
    v: "validate_point ex_points ex_config ex_point point_world = (Inr (ex_place @ [''primary'', ex_point], ex_saved ex_point 1 ex_files), w')"
    by blast
  have "''site.env'' \<in> set ex_names" by (simp add: ex_names_def)
  with validated_point_is_intact[OF v] show ?thesis by (simp add: ex_expected)
qed

section \<open>Exchanging and unpacking\<close>

definition swap_world :: world where
  "swap_world = ex_world [([], dir_node 493), ([''srv''], dir_node 493), ([''srv'', ''storage''], dir_node 493),
     ([''srv'', ''storage'', ''a''], ex_file 384 (Text ''before'')), ([''srv'', ''t''], dir_node 448),
     ([''srv'', ''t'', ''storage''], dir_node 493), ([''srv'', ''t'', ''storage'', ''b''], ex_file 384 (Text ''restored''))]"

abbreviation ex_swap :: "(err + unit) \<times> world" where
  "ex_swap \<equiv> restoreStagedDirectory [''srv''] [''srv'', ''storage''] [''srv'', ''t'', ''storage''] [''srv'', ''old''] swap_world"

lemma ex_swap_done: "fst ex_swap = Inr ()" "look (snd ex_swap) [''srv'', ''storage'', ''a''] = None"
  "map_option n_data (look (snd ex_swap) [''srv'', ''storage'', ''b'']) = Some (Text ''restored'')"
  by (code_simp, code_simp, code_simp)


definition ex_entry :: "string \<Rightarrow> tar_kind \<Rightarrow> int \<Rightarrow> tar_entry" where
  "ex_entry n k s = \<lparr>te_name = n, te_kind = k, te_mode = 448, te_uid = 0, te_gid = 0, te_size = s,
     te_data = Text ''data'', te_short = False\<rparr>"

definition ex_unpacker :: point_store where
  "ex_unpacker = ex_points\<lparr>ps_unpack := (\<lambda>_. Inr ([ex_entry ''storage'' TarDir 0, ex_entry ''storage/a'' TarReg 4], None))\<rparr>"

definition unpack_world :: world where
  "unpack_world = ex_world [([], dir_node 493), ([''srv''], dir_node 493), ([''srv'', ''t''], dir_node 448),
     ([''in.tar.gz''], ex_file 384 (Text ''archive''))]"

abbreviation ex_unpack :: "(err + unit) \<times> world" where
  "ex_unpack \<equiv> extractDirectoryArchive ex_unpacker [''in.tar.gz''] [''srv'', ''t''] ''storage'' unpack_world"

lemma ex_unpack_done: "fst ex_unpack = Inr ()"
  by code_simp

theorem extraction_is_confined_witness:
  "touches (below [''srv'', ''t'', ''storage'']) unpack_world (snd ex_unpack) \<and>
   (\<exists>n es. look unpack_world [''in.tar.gz''] = Some n \<and> ps_unpack ex_unpacker (n_data n) = Inr (es, None) \<and>
      list_all (acceptable ''storage'') es)"
proof -
  have run: "ex_unpack = (fst ex_unpack, snd ex_unpack)" by simp
  have way: "on_the_way [''srv'', ''t''] unpack_world"
    by (auto simp: on_the_way_def below_def has_prefix_def unpack_world_def ex_world_def is_dir_def look_def dir_node_def
        take_Cons' split: if_splits)
  have p: "plain ''storage''" by (simp add: plain_def slash_def)
  from extraction_is_confined[OF run p way] ex_unpack_done show ?thesis by auto
qed

section \<open>Restoring\<close>

definition ex_restoring :: restore_request where
  "ex_restoring = \<lparr>rq_point = ex_point, rq_tx = ex_tx, rq_digest = ex_digest64\<rparr>"

definition ex_database :: "unit database" where
  "ex_database = \<lparr>db_dump = (\<lambda>_. ((Text ''dump'', None), ())), db_restore = (\<lambda>_. retE ())\<rparr>"

definition ex_vault :: "unit vault" where
  "ex_vault = \<lparr>va_world = point_world, va_db = ()\<rparr>"

abbreviation ex_restore :: "(err + unit) \<times> unit vault" where
  "ex_restore \<equiv> restore_point ex_points ex_config ex_restoring (Some ex_database) ex_vault"


section \<open>Pruning\<close>

definition ex_keeper :: point_store where
  "ex_keeper = ex_points\<lparr>ps_control := None\<rparr>"

definition old_point :: string where
  "old_point = ''20250101T000000Z-0000000b''"

definition prune_world :: world where
  "prune_world = ex_world [([], dir_node 493), (ex_place, dir_node 448), (ex_place @ [''primary''], dir_node 448),
     (ex_place @ [''primary'', ex_point], dir_node 448),
     (ex_place @ [''primary'', ex_point, ''manifest.json''], ex_manifest ex_point 2 []),
     (ex_place @ [''primary'', old_point], dir_node 448),
     (ex_place @ [''primary'', old_point, ''manifest.json''], ex_manifest old_point 1 [])]"

abbreviation ex_prune :: "(err + unit) \<times> world" where
  "ex_prune \<equiv> prune ex_keeper ''primary'' ex_point prune_world"

lemma prune_world_looks:
  "look prune_world (ex_place @ [''primary'', ex_point, ''manifest.json'']) = Some (ex_manifest ex_point 2 [])"
  "look prune_world (ex_place @ [''primary'', old_point, ''manifest.json'']) = Some (ex_manifest old_point 1 [])"
  "look prune_world (ex_place @ [''primary'', old_point]) = Some (dir_node 448)"
  "look prune_world (ex_place @ [''primary'']) = Some (dir_node 448)"
  by (simp_all add: prune_world_def ex_world_def look_def ex_point_def old_point_def ex_place_def)

lemma prune_manifests:
  "has_manifest ex_keeper ''primary'' ex_point (ex_saved ex_point 2 []) prune_world"
  "has_manifest ex_keeper ''primary'' old_point (ex_saved old_point 1 []) prune_world"
proof -
  have e: "by_name [] = []" by (simp add: by_name_def)
  have o: "point_id_ok old_point" by code_simp
  have b: "backupRoot ex_keeper = Inr ex_place" by code_simp
  show "has_manifest ex_keeper ''primary'' ex_point (ex_saved ex_point 2 []) prune_world"
    "has_manifest ex_keeper ''primary'' old_point (ex_saved old_point 1 []) prune_world"
    unfolding has_manifest_def
    using ex_saved_json[OF e] ex_saved_ok[of 1] ex_saved_ok[of 2] prune_world_looks(1,2) o b
    by (simp_all add: ex_manifest_def ex_file_def zero_time_def) (simp_all add: prune_world_def ex_world_def)
qed

lemma prune_names: "read_dirs (ex_place @ [''primary'']) prune_world = (Inr [old_point, ex_point], prune_world\<lparr>w_tick := 1\<rparr>)"
  by (simp add: read_dirs_def bindE_def read_dir_def sys_def prune_world_looks(4) entry_kind_def)
     (simp add: prune_world_def ex_world_def look_def children_def ex_place_def ex_point_def old_point_def dir_node_def)

lemma prune_list: "point_list ex_keeper ''primary'' prune_world =
    (Inr [ex_saved ex_point 2 [], ex_saved old_point 1 []], prune_world\<lparr>w_tick := 5\<rparr>)"
proof -
  have b: "backupRoot ex_keeper = Inr ex_place" by code_simp
  have o: "point_id_ok old_point" by code_simp
  have t: "w_tick prune_world = 0" "calm prune_world" by (simp_all add: prune_world_def ex_world_def calm_def)
  have l1: "load_point ex_keeper ''primary'' old_point (prune_world\<lparr>w_tick := 1\<rparr>) =
      (Inr (ex_place @ [''primary'', old_point], ex_saved old_point 1 []), prune_world\<lparr>w_tick := 3\<rparr>)"
    using load_point_runs[of "prune_world\<lparr>w_tick := 1\<rparr>" ex_keeper "''primary''" old_point, OF _ _ b] prune_manifests t by simp
  have l2: "load_point ex_keeper ''primary'' ex_point (prune_world\<lparr>w_tick := 3\<rparr>) =
      (Inr (ex_place @ [''primary'', ex_point], ex_saved ex_point 2 []), prune_world\<lparr>w_tick := 5\<rparr>)"
    using load_point_runs[of "prune_world\<lparr>w_tick := 3\<rparr>" ex_keeper "''primary''" ex_point, OF _ _ b] prune_manifests t by simp
  show ?thesis
    by (simp add: point_list_def bindE_def tryE_def liftE_def b prune_names collect_point_def o l1 l2 retE_def newest_first_def
        del: One_nat_def)
qed

lemma ex_prune_done: "look (snd ex_prune) (ex_place @ [''primary'', old_point]) = None"
proof -
  have b: "backupRoot ex_keeper = Inr ex_place" by code_simp
  have k: "ps_keep ex_keeper = 1" "ps_control ex_keeper = None" by (simp_all add: ex_keeper_def)
  have d: "ex_point \<noteq> old_point" "old_point \<noteq> ex_point" by (simp_all add: ex_point_def old_point_def)
  have c: "w_fault prune_world = (\<lambda>_. FOk)" by (simp add: prune_world_def ex_world_def)
  show ?thesis
    by (simp add: prune_def keep_count_def k prune_list bindE_def retE_def retained_ids_def add_checkpoint_def
        IsUpdateCheckpoint_def has_prefix_def d forE_def remove_point_def liftE_def b tryE_def lstat_def sys_def c
        prune_world_looks info_of_def dir_node_def remove_all_def point_sync_def open_path_def sync_entries_def
        close_file_def failE_def look_remove_all)
qed


end
