(* ===== verification/Agent.thy ===== *)
theory Agent
  imports Submission HostAuth
begin

text \<open>
  The HTTP service of \<open>internal/agent\<close> (\<open>server.go\<close>, \<open>coordination.go\<close>): the only way the web
  application reaches the updater. A request passes the multiplexer, the control token of its
  instance, the checks of its endpoint and, when it starts an operation, the authorization code.

  \<^item> A body is the sequence of JSON values it consists of; JSON text layout is not modelled, only
    the size of the text. The texts of request bodies are \<open>JStr\<close> values.
  \<^item> Go asks with type assertions what the manager and the authorizer can do; the manager and the
    authorization service of this repository can do all of it, so an assertion fails only for \<open>nil\<close>.
  \<^item> The status report comes from an interface, here a parameter. Percent-encoded request targets,
    headers that are not read and the listening socket are not modelled.
\<close>

section \<open>Requests and responses\<close>

record http_body =
  bd_size :: nat
  bd_broken :: bool
  bd_values :: "json list option"

record http_request =
  hq_method :: string
  hq_path :: string
  hq_bearer :: string
  hq_code :: string
  hq_length :: int
  hq_body :: http_body

text \<open>\<open>http.MaxBytesReader\<close> and a JSON decoder behind it: the values of the body, unless it is too
  long, breaks off or is not JSON.\<close>

definition read_body :: "nat \<Rightarrow> http_body \<Rightarrow> json list option" where
  "read_body limit b = (if bd_broken b \<or> limit < bd_size b then None else bd_values b)"

record point_summary =
  pu_schema :: int
  pu_id :: string
  pu_instance :: string
  pu_reason :: string
  pu_created :: int
  pu_version :: string
  pu_release :: "64 word"

datatype payload =
    PError string
  | PText string
  | PMoved string
  | PHealth string
  | PStatus json string
  | PPreview json
  | POperation operation
  | PPoints "point_summary list"
  | PCapabilities capabilities
  | PPlan plan
  | PReceipt receipt

record http_response =
  hr_status :: int
  hr_retry :: "int option"
  hr_body :: payload

record 'd agent =
  ag_dir :: "path option"
  ag_version :: string
  ag_status :: "(string \<Rightarrow> 'd host \<Rightarrow> json \<times> 'd host) option"
  ag_operations :: "'d manager option"
  ag_authorization :: "service option"
  ag_sha :: "string \<Rightarrow> string"
  ag_redirect :: int

type_synonym 'd handler = "('d host, http_response) act"

definition writeJSON :: "int \<Rightarrow> payload \<Rightarrow> 'd handler" where
  "writeJSON status p = retE \<lparr>hr_status = status, hr_retry = None, hr_body = p\<rparr>"

definition writeError :: "int \<Rightarrow> string \<Rightarrow> 'd handler" where
  "writeError status reason = writeJSON status (PError reason)"

text \<open>The header is set before the response is written.\<close>

definition with_retry :: "int option \<Rightarrow> 'd handler \<Rightarrow> 'd handler" where
  "with_retry seconds m = bindE m (\<lambda>r. retE (r\<lparr>hr_retry := seconds\<rparr>))"

section \<open>The control token\<close>

definition trim_prefix :: "string \<Rightarrow> string \<Rightarrow> string" where
  "trim_prefix p s = (if has_prefix p s then drop (length p) s else s)"

definition control_token_ok :: "string \<Rightarrow> bool" where
  "control_token_ok s \<longleftrightarrow> length s = 43 \<and> list_all (\<lambda>c. is_alnum c \<or> c = CHR ''_'' \<or> c = CHR ''-'') s"

definition agent_dir :: "'d agent \<Rightarrow> path" where
  "agent_dir s = (case ag_dir s of None \<Rightarrow> [''var'', ''lib'', ''geoflow-updater''] | Some d \<Rightarrow> d)"

definition token_path :: "'d agent \<Rightarrow> string \<Rightarrow> path" where
  "token_path s inst = agent_dir s @ [''instances'', inst, ''control.token'']"

definition token_unsafe :: "err + info \<Rightarrow> bool" where
  "token_unsafe r = (case r of Inl _ \<Rightarrow> True | Inr i \<Rightarrow> i_kind i \<noteq> KRegular \<or> i_perm i AND 23 \<noteq> 0)"

definition authorized :: "'d agent \<Rightarrow> http_request \<Rightarrow> string \<Rightarrow> bool io" where
  "authorized s rq inst =
     (let provided = trim_prefix ''Bearer '' (hq_bearer rq) in
      if provided = hq_bearer rq \<or> \<not> control_token_ok provided then retE False
      else bindE (tryE (lstat (token_path s inst))) (\<lambda>r.
           if token_unsafe r then retE False
           else bindE (tryE (read_file (token_path s inst))) (\<lambda>c. case c of
                  Inl _ \<Rightarrow> retE False
                | Inr x \<Rightarrow> let expected = trim (content_text x) in
                    retE (control_token_ok expected \<and> ag_sha s expected = ag_sha s provided))))"

section \<open>Starting operations\<close>

definition setStarted :: "operation \<Rightarrow> ('d host, unit) act" where
  "setStarted x h = (Inr (), h\<lparr>ho_started := x\<rparr>)"

definition getStarted :: "('d host, operation) act" where
  "getStarted h = (Inr (ho_started h), h)"

definition start_error :: "err \<Rightarrow> 'd handler" where
  "start_error e =
     (if err_is ErrActive e then writeError 409 ''operation_active''
      else if err_is ErrInvalidRecoveryPoint e then writeError 400 ''invalid_recovery_point''
      else writeError 503 ''operation_failed'')"

definition startOperation :: "'d agent \<Rightarrow> http_request \<Rightarrow> ('d manager \<Rightarrow> ('d host, operation) act) \<Rightarrow> 'd handler" where
  "startOperation s rq start =
     (if hq_method rq \<noteq> ''POST'' then writeError 405 ''method_not_allowed''
      else case ag_operations s of
        None \<Rightarrow> writeError 503 ''operations_unavailable''
      | Some m \<Rightarrow> bindE (tryE (start m)) (\<lambda>r. case r of
            Inl e \<Rightarrow> start_error e | Inr x \<Rightarrow> writeJSON 202 (POperation x)))"

definition retryAfter :: "service option \<Rightarrow> string \<Rightarrow> mutation_scope \<Rightarrow> ('d host, int) act" where
  "retryAfter au inst sc =
     bindE (case au of None \<Rightarrow> retE 900 | Some a \<Rightarrow> onW (RetryAfter a inst sc)) (\<lambda>n.
     retE (if n < 1 then 1 else if n > 86400 then 86400 else n))"

definition mutation_error :: "service \<Rightarrow> string \<Rightarrow> mutation_scope \<Rightarrow> err \<Rightarrow> 'd handler" where
  "mutation_error a inst sc e =
     (if err_is ErrUnconfigured e then writeError 503 ''mutation_authorization_unconfigured''
      else if err_is ErrReplay e then writeError 403 ''mutation_authorization_replayed''
      else if err_is ErrInvalid e then writeError 403 ''mutation_authorization_invalid''
      else if err_is ErrRateLimited e then
        bindE (retryAfter (Some a) inst sc) (\<lambda>n.
        with_retry (Some n) (writeError 429 ''mutation_authorization_rate_limited''))
      else start_error e)"

definition startMutationOperation ::
    "'d agent \<Rightarrow> http_request \<Rightarrow> string \<Rightarrow> mutation_scope \<Rightarrow> ('d manager \<Rightarrow> ('d host, operation) act) \<Rightarrow> 'd handler" where
  "startMutationOperation s rq inst sc start =
     (case ag_operations s of
        None \<Rightarrow> writeError 503 ''operations_unavailable''
      | Some m \<Rightarrow>
          if hq_code rq = [] then writeError 403 ''mutation_authorization_required''
          else case ag_authorization s of
            None \<Rightarrow> writeError 503 ''mutation_authorization_unavailable''
          | Some a \<Rightarrow>
              bindE (setStarted zero_operation) (\<lambda>_.
              bindE (tryE (host_Authorize a inst sc (hq_code rq) (bindE (start m) setStarted))) (\<lambda>r. case r of
                Inl e \<Rightarrow> mutation_error a inst sc e
              | Inr _ \<Rightarrow> bindE getStarted (\<lambda>x. writeJSON 202 (POperation x)))))"

section \<open>The endpoints of the first interface\<close>

definition instanceStatus :: "'d agent \<Rightarrow> http_request \<Rightarrow> string \<Rightarrow> 'd handler" where
  "instanceStatus s rq inst =
     (if hq_method rq \<noteq> ''GET'' then writeError 405 ''method_not_allowed''
      else case ag_status s of
        None \<Rightarrow> writeError 503 ''status_unavailable''
      | Some f \<Rightarrow> bindE (\<lambda>h. case f inst h of (j, h') \<Rightarrow> (Inr j, h')) (\<lambda>j. writeJSON 200 (PStatus j (ag_version s))))"

text \<open>The newest update checkpoint; the points come newest first.\<close>

fun websiteRollbackPointID :: "point list \<Rightarrow> string option" where
  "websiteRollbackPointID [] = None"
| "websiteRollbackPointID (p # ps) = (if IsUpdateCheckpoint p then Some (pt_id p) else websiteRollbackPointID ps)"

definition dec_rollback :: "json \<Rightarrow> string option" where
  "dec_rollback j = Option.bind (members j) (\<lambda>kvs.
     if \<not> known [''recovery_point_id''] kvs then None else field ''recovery_point_id'' dec_str kvs [])"

definition rollback_payload :: "http_body \<Rightarrow> string option" where
  "rollback_payload b = (case read_body 4096 b of Some [j] \<Rightarrow> dec_rollback j | _ \<Rightarrow> None)"

definition startRollback :: "'d agent \<Rightarrow> http_request \<Rightarrow> string \<Rightarrow> 'd handler" where
  "startRollback s rq inst =
     (if hq_method rq \<noteq> ''POST'' then writeError 405 ''method_not_allowed''
      else case ag_operations s of
        None \<Rightarrow> writeError 503 ''operations_unavailable''
      | Some m \<Rightarrow> case rollback_payload (hq_body rq) of
          None \<Rightarrow> writeError 400 ''invalid_request''
        | Some pid \<Rightarrow> bindE (tryE (RecoveryPoints m inst)) (\<lambda>r. case r of
            Inl _ \<Rightarrow> writeError 503 ''recovery_points_unavailable''
          | Inr points \<Rightarrow> case websiteRollbackPointID points of
              None \<Rightarrow> writeError 409 ''rollback_checkpoint_unavailable''
            | Some newest_id \<Rightarrow>
                if newest_id \<noteq> pid then writeError 400 ''rollback_requires_latest_update_checkpoint''
                else startMutationOperation s rq inst ScopeRollback (\<lambda>m. StartRollback m inst pid)))"

definition currentOperation :: "'d agent \<Rightarrow> http_request \<Rightarrow> string \<Rightarrow> 'd handler" where
  "currentOperation s rq inst =
     (if hq_method rq \<noteq> ''GET'' then writeError 405 ''method_not_allowed''
      else case ag_operations s of
        None \<Rightarrow> writeError 503 ''operations_unavailable''
      | Some m \<Rightarrow> bindE (tryE (Current m inst)) (\<lambda>r. case r of
            Inl e \<Rightarrow> if err_is ErrNotExist e then writeError 404 ''operation_not_found''
                     else writeError 503 ''operation_unavailable''
          | Inr x \<Rightarrow> writeJSON 200 (POperation x)))"

definition summary_of :: "point \<Rightarrow> point_summary" where
  "summary_of p = \<lparr>pu_schema = pt_schema p, pu_id = pt_id p, pu_instance = pt_instance p, pu_reason = pt_reason p,
     pu_created = pt_created p, pu_version = pt_version p, pu_release = pt_release p\<rparr>"

definition recoveryPoints :: "'d agent \<Rightarrow> string \<Rightarrow> 'd handler" where
  "recoveryPoints s inst =
     (case ag_operations s of
        None \<Rightarrow> writeError 503 ''operations_unavailable''
      | Some m \<Rightarrow> bindE (tryE (RecoveryPoints m inst)) (\<lambda>r. case r of
            Inl _ \<Rightarrow> writeError 503 ''recovery_points_unavailable''
          | Inr points \<Rightarrow> writeJSON 200 (PPoints (map summary_of points))))"

definition preview :: "'d agent \<Rightarrow> http_request \<Rightarrow> string \<Rightarrow> 'd handler" where
  "preview s rq inst =
     (if hq_method rq \<noteq> ''GET'' then writeError 405 ''method_not_allowed''
      else case ag_operations s of
        None \<Rightarrow> writeError 503 ''plan_unavailable''
      | Some m \<Rightarrow> bindE (tryE (Preview m inst)) (\<lambda>r. case r of
            Inl _ \<Rightarrow> writeError 503 ''plan_failed'' | Inr j \<Rightarrow> writeJSON 200 (PPreview j)))"

text \<open>The options of an update: an object with each key at most once, spelled exactly, and native
  JSON types.\<close>

definition update_field_ok :: "string \<times> json \<Rightarrow> bool" where
  "update_field_ok kv =
     (if fst kv = ''allow_maintenance'' then (case snd kv of JBool _ \<Rightarrow> True | _ \<Rightarrow> False)
      else if fst kv = ''expected_plan_sha256'' then (case dec_str (snd kv) [] of None \<Rightarrow> False | Some x \<Rightarrow> hex64_ok x)
      else False)"

definition update_options :: "(string \<times> json) list \<Rightarrow> options option" where
  "update_options kvs =
     (if \<not> distinct (map fst kvs) \<or> \<not> list_all update_field_ok kvs then None
      else Option.bind (field ''allow_maintenance'' dec_bool kvs False) (\<lambda>b.
           Option.bind (field ''expected_plan_sha256'' dec_str kvs []) (\<lambda>x.
           Some \<lparr>op_pinned = None, op_legacy = False, op_maintenance = b, op_expected_plan = x, op_operation = []\<rparr>)))"

text \<open>No body at all is the update of an old client.\<close>

definition update_payload :: "http_body \<Rightarrow> options option option" where
  "update_payload b =
     (case read_body 4096 b of
        None \<Rightarrow> None
      | Some js \<Rightarrow>
          if bd_size b = 0 then Some None
          else (case js of [JObj kvs] \<Rightarrow> map_option Some (update_options kvs) | _ \<Rightarrow> None))"

definition startUpdate :: "'d agent \<Rightarrow> http_request \<Rightarrow> string \<Rightarrow> 'd handler" where
  "startUpdate s rq inst =
     (if hq_method rq \<noteq> ''POST'' then writeError 405 ''method_not_allowed''
      else case update_payload (hq_body rq) of
        None \<Rightarrow> writeError 400 ''invalid_request''
      | Some opt \<Rightarrow> startMutationOperation s rq inst ScopeUpdate
          (\<lambda>m. case opt of None \<Rightarrow> StartUpdate m inst | Some x \<Rightarrow> StartUpdateWithOptions m inst x))"

text \<open>A \<open>POST\<close> without a body.\<close>

definition bare_post :: "http_request \<Rightarrow> 'd handler \<Rightarrow> 'd handler" where
  "bare_post rq m =
     (if hq_method rq \<noteq> ''POST'' then writeError 405 ''method_not_allowed''
      else if hq_length rq \<noteq> 0 then writeError 400 ''invalid_request'' else m)"

definition instanceEndpoint :: "string \<Rightarrow> (string \<times> string) option" where
  "instanceEndpoint p =
     (if \<not> has_prefix ''/v1/instances/'' p then None
      else let parts = components (trim_prefix ''/v1/instances/'' p); endpoint = join_slash (tl parts) in
        if length parts < 2 \<or> length parts > 3 \<or> \<not> instance_id_ok (hd parts) \<or> endpoint = [] then None
        else Some (hd parts, endpoint))"

definition statusInstanceID :: "string \<Rightarrow> string option" where
  "statusInstanceID p = (case instanceEndpoint p of
     None \<Rightarrow> None | Some (inst, endpoint) \<Rightarrow> if endpoint \<noteq> ''status'' then None else Some inst)"

definition serve_endpoint :: "'d agent \<Rightarrow> http_request \<Rightarrow> string \<Rightarrow> string \<Rightarrow> 'd handler" where
  "serve_endpoint s rq inst endpoint =
     (if endpoint = ''status'' then instanceStatus s rq inst
      else if endpoint = ''plan'' then preview s rq inst
      else if endpoint = ''updates'' then startUpdate s rq inst
      else if endpoint = ''switch-backs'' then
        bare_post rq (startMutationOperation s rq inst ScopeUpdate (\<lambda>m. StartSwitchBack m inst))
      else if endpoint = ''backups'' then
        (if hq_method rq = ''GET'' then recoveryPoints s inst
         else bare_post rq (startMutationOperation s rq inst ScopeBackup (\<lambda>m. StartBackup m inst)))
      else if endpoint = ''rollbacks'' then startRollback s rq inst
      else if endpoint = ''verify'' then bare_post rq (startOperation s rq (\<lambda>m. StartVerify m inst))
      else if endpoint = ''operations/current'' then currentOperation s rq inst
      else writeError 404 ''not_found'')"

definition instanceRequest :: "'d agent \<Rightarrow> http_request \<Rightarrow> 'd handler" where
  "instanceRequest s rq =
     (case instanceEndpoint (hq_path rq) of
        None \<Rightarrow> writeError 404 ''not_found''
      | Some (inst, endpoint) \<Rightarrow> bindE (onW (authorized s rq inst)) (\<lambda>admitted.
          if \<not> admitted then writeError 401 ''unauthorized'' else serve_endpoint s rq inst endpoint))"

definition health :: "'d agent \<Rightarrow> http_request \<Rightarrow> 'd handler" where
  "health s rq =
     (if hq_method rq \<noteq> ''GET'' then writeError 405 ''method_not_allowed''
      else writeJSON 200 (PHealth (ag_version s)))"

section \<open>The coordinated interface\<close>

text \<open>\<open>uniqueJSON\<close>: no object of the document has a key twice.\<close>

fun uniqueJSON :: "json \<Rightarrow> bool" where
  "uniqueJSON (JObj kvs) \<longleftrightarrow> distinct (map fst kvs) \<and> list_all (\<lambda>kv. uniqueJSON (snd kv)) kvs"
| "uniqueJSON (JArr js) \<longleftrightarrow> list_all uniqueJSON js"
| "uniqueJSON _ \<longleftrightarrow> True"

definition plan_request_of_json :: "json \<Rightarrow> plan_request option" where
  "plan_request_of_json j = Option.bind (members j) (\<lambda>kvs.
     if \<not> known [''action'', ''expected_epoch'', ''actor'', ''recovery_point_id''] kvs then None
     else Option.bind (field ''action'' dec_str kvs []) (\<lambda>ac.
          Option.bind (field ''expected_epoch'' dec_str kvs []) (\<lambda>ep.
          Option.bind (field ''actor'' dec_actor kvs zero_actor) (\<lambda>who.
          Option.bind (field ''recovery_point_id'' dec_str kvs []) (\<lambda>pid.
          Some \<lparr>pr_action = ac, pr_epoch = ep, pr_actor = who, pr_point = pid\<rparr>)))))"

definition submit_request_of_json :: "json \<Rightarrow> submit_request option" where
  "submit_request_of_json j = Option.bind (members j) (\<lambda>kvs.
     if \<not> known [''action'', ''plan_id'', ''plan_sha256'', ''expected_epoch'', ''allow_maintenance'',
          ''confirm_host_access'', ''client_request_id'', ''actor'', ''scope''] kvs then None
     else Option.bind (field ''action'' dec_str kvs []) (\<lambda>ac.
          Option.bind (field ''plan_id'' dec_str kvs []) (\<lambda>pid.
          Option.bind (field ''plan_sha256'' dec_str kvs []) (\<lambda>psha.
          Option.bind (field ''expected_epoch'' dec_str kvs []) (\<lambda>ep.
          Option.bind (field ''allow_maintenance'' dec_bool kvs False) (\<lambda>am.
          Option.bind (field ''confirm_host_access'' dec_bool kvs False) (\<lambda>ch.
          Option.bind (field ''client_request_id'' dec_str kvs []) (\<lambda>rid.
          Option.bind (field ''actor'' dec_actor kvs zero_actor) (\<lambda>who.
          Option.bind (field ''scope'' dec_str kvs []) (\<lambda>sc.
          Some \<lparr>sr_action = ac, sr_plan = pid, sr_plan_sha = psha, sr_epoch = ep, sr_allow_maintenance = am,
            sr_confirm_host = ch, sr_request = rid, sr_actor = who, sr_scope = sc\<rparr>))))))))))"

text \<open>A decision of the administrator is a literal \<open>true\<close> or \<open>false\<close>.\<close>

definition literal_bool :: "(string \<times> json) list \<Rightarrow> string \<Rightarrow> bool" where
  "literal_bool kvs k = (case map_of kvs k of Some (JBool _) \<Rightarrow> True | _ \<Rightarrow> False)"

definition decodeCoordinated :: "string list \<Rightarrow> (json \<Rightarrow> 'p option) \<Rightarrow> http_body \<Rightarrow> 'p option" where
  "decodeCoordinated decisions dec b =
     (case read_body 16384 b of
        Some [j] \<Rightarrow>
          if \<not> uniqueJSON j then None
          else Option.bind (dec j) (\<lambda>p. Option.bind (members j) (\<lambda>kvs.
               if list_all (literal_bool kvs) decisions then Some p else None))
      | _ \<Rightarrow> None)"

definition plan_payload :: "http_body \<Rightarrow> plan_request option" where
  "plan_payload b = (case decodeCoordinated [] plan_request_of_json b of
     None \<Rightarrow> None | Some p \<Rightarrow> if plan_request_valid p then Some p else None)"

definition submit_payload :: "http_body \<Rightarrow> submit_request option" where
  "submit_payload b =
     (case decodeCoordinated [''allow_maintenance'', ''confirm_host_access''] submit_request_of_json b of
        None \<Rightarrow> None | Some p \<Rightarrow> if submit_valid p then Some p else None)"

definition coordinated_error :: "string \<Rightarrow> err \<Rightarrow> 'd handler" where
  "coordinated_error missing e =
     (if err_is ErrNotExist e then writeError 404 missing
      else if err_is ErrConflict e then writeError 409 ''request_conflict''
      else if err_is ErrBaseline e then writeError 409 ''baseline_changed''
      else if err_is ErrEpoch e then writeError 409 ''epoch_changed''
      else if err_is ErrPlan e then writeError 409 ''plan_invalid''
      else if err_is ErrConfirmation e then writeError 409 ''confirmation_required''
      else if err_is ErrActive e then writeError 409 ''operation_active''
      else if err_is ErrUnconfigured e then writeError 503 ''mutation_authorization_unconfigured''
      else if err_is ErrInvalid e then writeError 403 ''mutation_authorization_invalid''
      else if err_is ErrReplay e then writeError 403 ''mutation_authorization_replayed''
      else if err_is ErrRateLimited e then writeError 429 ''mutation_authorization_rate_limited''
      else writeError 503 ''coordination_unavailable'')"

definition coordinated_reply :: "int \<Rightarrow> string \<Rightarrow> ('d host, payload) act \<Rightarrow> 'd handler" where
  "coordinated_reply status missing m = bindE (tryE m) (\<lambda>r. case r of
     Inl e \<Rightarrow> coordinated_error missing e | Inr v \<Rightarrow> writeJSON status v)"

text \<open>A submission that is rate limited names the delay.\<close>

definition submit_reply :: "'d agent \<Rightarrow> 'd manager \<Rightarrow> string \<Rightarrow> submit_request \<Rightarrow> string \<Rightarrow> 'd handler" where
  "submit_reply s m inst p otp =
     bindE (tryE (Submit m (map_option admission_authorizer (ag_authorization s)) inst p otp)) (\<lambda>r. case r of
       Inr v \<Rightarrow> writeJSON 202 (PReceipt v)
     | Inl e \<Rightarrow>
         bindE (if err_is ErrRateLimited e
                then bindE (retryAfter (ag_authorization s) inst (scope_of_name (Coordination.scope (sr_action p)))) (\<lambda>n. retE (Some n))
                else retE None) (\<lambda>n. with_retry n (coordinated_error ''not_found'' e)))"

definition only_get :: "http_request \<Rightarrow> 'd handler \<Rightarrow> 'd handler" where
  "only_get rq m = (if hq_method rq \<noteq> ''GET'' then writeError 405 ''method_not_allowed'' else m)"

definition only_post :: "http_request \<Rightarrow> 'd handler \<Rightarrow> 'd handler" where
  "only_post rq m = (if hq_method rq \<noteq> ''POST'' then writeError 405 ''method_not_allowed'' else m)"

definition serve_coordinated :: "'d agent \<Rightarrow> 'd manager \<Rightarrow> http_request \<Rightarrow> string \<Rightarrow> string list \<Rightarrow> 'd handler" where
  "serve_coordinated s m rq inst rest =
     (if rest = [''capabilities''] then
        only_get rq (coordinated_reply 200 ''not_found'' (bindE (Capabilities m inst) (\<lambda>c. retE (PCapabilities c))))
      else if rest = [''plans''] then
        only_post rq (case plan_payload (hq_body rq) of
            None \<Rightarrow> writeError 400 ''invalid_request''
          | Some p \<Rightarrow> coordinated_reply 201 ''not_found'' (bindE (CreatePlan m inst p) (\<lambda>x. retE (PPlan x))))
      else if length rest = 2 \<and> hd rest = ''plans'' then
        only_get rq (coordinated_reply 200 ''plan_not_found'' (bindE (GetPlan m inst (last rest)) (\<lambda>x. retE (PPlan x))))
      else if rest = [''operations''] then
        only_post rq (case submit_payload (hq_body rq) of
            None \<Rightarrow> writeError 400 ''invalid_request''
          | Some p \<Rightarrow> submit_reply s m inst p (hq_code rq))
      else if length rest = 2 \<and> hd rest = ''requests'' then
        only_get rq (if \<not> identifier_ok (last rest) then writeError 400 ''invalid_request''
          else coordinated_reply 200 ''request_not_found'' (bindE (Request m inst (last rest)) (\<lambda>x. retE (PReceipt x))))
      else if length rest = 2 \<and> hd rest = ''operations'' then
        only_get rq (if \<not> op_id_ok (last rest) then writeError 400 ''invalid_request''
          else coordinated_reply 200 ''operation_not_found''
                 (bindE (OperationReceipt m inst (last rest)) (\<lambda>x. retE (PReceipt x))))
      else writeError 404 ''not_found'')"

definition coordinatedRequest :: "'d agent \<Rightarrow> http_request \<Rightarrow> 'd handler" where
  "coordinatedRequest s rq =
     (let parts = components (trim_prefix ''/v2/instances/'' (hq_path rq)); inst = hd parts in
      if length parts < 2 \<or> length parts > 3 \<or> inst \<noteq> ''primary'' then writeError 404 ''not_found''
      else bindE (onW (authorized s rq inst)) (\<lambda>admitted.
        if \<not> admitted then writeError 401 ''unauthorized''
        else case ag_operations s of
          None \<Rightarrow> writeError 503 ''coordination_unavailable''
        | Some m \<Rightarrow> serve_coordinated s m rq inst (tl parts)))"

section \<open>The multiplexer\<close>

text \<open>\<open>http.ServeMux\<close>: a path is cleaned before it is matched, and a client that asked for another
  spelling is sent to the clean one, with a status that depends on the release of Go.\<close>

datatype route = RHealth | RInstance | RCoordinated | RMoved string | RMissing

definition mux_clean :: "string \<Rightarrow> string" where
  "mux_clean p =
     (let q = (if p = [] \<or> hd p \<noteq> slash then slash # p else p); c = path_clean q in
      if last q = slash \<and> c \<noteq> [slash] then c @ [slash] else c)"

definition pattern_route :: "string \<Rightarrow> route" where
  "pattern_route p =
     (if p = ''/v1/instances'' \<or> p = ''/v2/instances'' then RMoved (p @ [slash])
      else if p = ''/v1/health'' then RHealth
      else if has_prefix ''/v1/instances/'' p then RInstance
      else if has_prefix ''/v2/instances/'' p then RCoordinated
      else RMissing)"

definition mux_route :: "string \<Rightarrow> string \<Rightarrow> route" where
  "mux_route meth p =
     (if meth = ''CONNECT'' then pattern_route p
      else case pattern_route (mux_clean p) of
        RMoved q \<Rightarrow> RMoved q
      | r \<Rightarrow> if mux_clean p \<noteq> p then RMoved (mux_clean p) else r)"

definition Handler :: "'d agent \<Rightarrow> http_request \<Rightarrow> 'd handler" where
  "Handler s rq =
     (case mux_route (hq_method rq) (hq_path rq) of
        RHealth \<Rightarrow> health s rq
      | RInstance \<Rightarrow> instanceRequest s rq
      | RCoordinated \<Rightarrow> coordinatedRequest s rq
      | RMoved q \<Rightarrow> writeJSON (ag_redirect s) (PMoved q)
      | RMissing \<Rightarrow> writeJSON 404 (PText ''404 page not found''))"

end
