(* ===== verification/AgentLaws.thy ===== *)
theory AgentLaws
  imports Agent Exclusion
begin

text \<open>
  What the HTTP service guarantees to the host it runs on: every request is answered, a request
  without the control token changes nothing and learns nothing, an operation starts only under
  a fresh authorization code, and whatever a request does is a sequence of steps of the manager.
\<close>

section \<open>Every request is answered\<close>

definition answers :: "(http_response \<Rightarrow> bool) \<Rightarrow> 'd handler \<Rightarrow> bool" where
  "answers P m \<longleftrightarrow> (\<forall>h. \<exists>x. fst (m h) = Inr x \<and> P x)"

named_theorems answer_intros \<open>composition of handlers that answer\<close>

lemma answers_bindE [answer_intros]: "never_fails a \<Longrightarrow> (\<And>x. answers P (f x)) \<Longrightarrow> answers P (bindE a f)"
proof -
  assume a: "never_fails a" and f: "\<And>x. answers P (f x)"
  have "\<exists>x. fst (bindE a f h) = Inr x \<and> P x" for h
  proof -
    obtain r h1 where r: "a h = (r, h1)" by fastforce
    obtain y where "r = Inr y" using never_fails_Inr[OF a r] by blast
    moreover obtain x where "fst (f y h1) = Inr x" "P x" using f unfolding answers_def by blast
    ultimately show ?thesis using r by (simp add: bindE_def)
  qed
  then show ?thesis by (simp add: answers_def)
qed

lemma answers_if [answer_intros]: "answers P m \<Longrightarrow> answers P n \<Longrightarrow> answers P (if b then m else n)"
  by simp

lemma answers_case_option [answer_intros]:
  "answers P m \<Longrightarrow> (\<And>x. answers P (f x)) \<Longrightarrow> answers P (case y of None \<Rightarrow> m | Some x \<Rightarrow> f x)"
  by (simp split: option.split)

lemma answers_case_sum [answer_intros]:
  "(\<And>e. answers P (g e)) \<Longrightarrow> (\<And>x. answers P (f x)) \<Longrightarrow> answers P (case y of Inl e \<Rightarrow> g e | Inr x \<Rightarrow> f x)"
  by (simp split: sum.split)

lemma answers_case_prod [answer_intros]: "(\<And>x y. answers P (f x y)) \<Longrightarrow> answers P (case z of (x, y) \<Rightarrow> f x y)"
  by (simp split: prod.split)

text \<open>The statuses of the interface, and a delay within a day.\<close>

definition statuses :: "int set" where
  "statuses = {200, 201, 202, 400, 401, 403, 404, 405, 409, 429, 503}"

definition proper :: "'d agent \<Rightarrow> http_response \<Rightarrow> bool" where
  "proper s x \<longleftrightarrow> (hr_status x \<in> statuses \<or> hr_status x = ag_redirect s \<and> (\<exists>q. hr_body x = PMoved q)) \<and>
     (\<forall>n. hr_retry x = Some n \<longrightarrow> 1 \<le> n \<and> n \<le> 86400)"

lemma proper_json: "k \<in> statuses \<Longrightarrow> answers (proper s) (writeJSON k p)"
  by (simp add: answers_def writeJSON_def retE_def proper_def)

lemma proper_error: "k \<in> statuses \<Longrightarrow> answers (proper s) (writeError k reason)"
  unfolding writeError_def by (rule proper_json)

lemma status_members [simp]: "200 \<in> statuses" "201 \<in> statuses" "202 \<in> statuses" "400 \<in> statuses" "401 \<in> statuses"
  "403 \<in> statuses" "404 \<in> statuses" "405 \<in> statuses" "409 \<in> statuses" "429 \<in> statuses" "503 \<in> statuses"
  by (simp_all add: statuses_def)

lemma total_onW [total_intros]: "never_fails a \<Longrightarrow> never_fails (onW a)"
  by (simp add: never_fails_def onW_def case_prod_unfold)

lemma total_case_option: "never_fails m \<Longrightarrow> (\<And>x. never_fails (f x)) \<Longrightarrow> never_fails (case y of None \<Rightarrow> m | Some x \<Rightarrow> f x)"
  by (simp split: option.split)

lemma total_case_sum: "(\<And>e. never_fails (g e)) \<Longrightarrow> (\<And>x. never_fails (f x)) \<Longrightarrow> never_fails (case y of Inl e \<Rightarrow> g e | Inr x \<Rightarrow> f x)"
  by (simp split: sum.split)

lemma total_authorized: "never_fails (authorized s rq inst)"
  unfolding authorized_def Let_def by (intro total_intros total_case_sum)

lemma total_RetryAfter: "never_fails (RetryAfter a inst sc)"
proof -
  have "never_fails (retry_step a p n)" for p n
    unfolding retry_step_def unix_now_def Let_def
    by (intro total_intros total_case_sum) (simp add: never_fails_def)
  then have "never_fails (retry_loop a ps n)" for ps n
    by (induction ps arbitrary: n) (auto intro!: total_intros total_case_option)
  then show ?thesis unfolding RetryAfter_def by (intro total_intros total_case_sum)
qed

lemma answers_with_retry:
  assumes "answers (proper s) m" and "\<And>n. seconds = Some n \<Longrightarrow> 1 \<le> n \<and> n \<le> 86400"
  shows "answers (proper s) (with_retry seconds m)"
proof -
  have "\<exists>x. fst (with_retry seconds m h) = Inr x \<and> proper s x" for h
  proof -
    obtain r h1 where r: "m h = (r, h1)" by fastforce
    obtain y where "fst (m h) = Inr y" "proper s y" using assms(1) unfolding answers_def by blast
    moreover from this r have "r = Inr y" by simp
    ultimately show ?thesis using r assms(2) by (simp add: with_retry_def bindE_def retE_def proper_def)
  qed
  then show ?thesis by (simp add: answers_def)
qed

text \<open>The delay of a refused attempt, as it is announced.\<close>

lemma retryAfter_range: "\<exists>n. fst (retryAfter au inst sc h) = Inr n \<and> 1 \<le> n \<and> n \<le> 86400"
proof -
  let ?a = "case au of None \<Rightarrow> retE 900 | Some a \<Rightarrow> onW (RetryAfter a inst sc)"
  have t: "never_fails ?a" by (intro total_case_option total_intros total_RetryAfter)
  obtain r h1 where r: "?a h = (r, h1)" by fastforce
  obtain k where "r = Inr k" using never_fails_Inr[OF t r] by blast
  with r show ?thesis by (simp add: retryAfter_def bindE_def retE_def)
qed

lemma answers_retry:
  assumes "\<And>n. answers (proper s) (m n)"
  shows "answers (proper s) (bindE (retryAfter au inst sc) (\<lambda>n. with_retry (Some n) (m n)))"
proof -
  have "\<exists>x. fst (bindE (retryAfter au inst sc) (\<lambda>n. with_retry (Some n) (m n)) h) = Inr x \<and> proper s x" for h
  proof -
    obtain n h1 where r: "retryAfter au inst sc h = (Inr n, h1)" and n: "1 \<le> n" "n \<le> 86400"
      using retryAfter_range[of au inst sc h] by (cases "retryAfter au inst sc h") auto
    have "answers (proper s) (with_retry (Some n) (m n))" by (rule answers_with_retry[OF assms]) (use n in simp)
    with r show ?thesis by (simp add: bindE_def answers_def)
  qed
  then show ?thesis by (simp add: answers_def)
qed

lemma answers_start_error: "answers (proper s) (start_error e)"
  unfolding start_error_def by (intro answer_intros proper_error) simp_all

lemma answers_mutation: "answers (proper s) (startMutationOperation s rq inst sc start)"
  unfolding startMutationOperation_def mutation_error_def
  by (intro answer_intros proper_error proper_json answers_retry answers_start_error total_intros)
     (simp_all add: never_fails_def setStarted_def getStarted_def)

lemma answers_coordinated_error: "answers (proper s) (coordinated_error missing e)"
  unfolding coordinated_error_def by (intro answer_intros proper_error) simp_all

lemma answers_reply: "k \<in> statuses \<Longrightarrow> answers (proper s) (coordinated_reply k missing m)"
  unfolding coordinated_reply_def by (intro answer_intros proper_json answers_coordinated_error total_intros)

lemma named_delay: "bindE (bindE m (\<lambda>n. retE (Some n))) f = bindE m (\<lambda>n. f (Some n))"
  by (auto simp: bindE_def retE_def fun_eq_iff split: prod.split sum.split)

lemma answers_submit: "answers (proper s) (submit_reply s m inst p otp)"
proof -
  have "answers (proper s) (bindE (if err_is ErrRateLimited e
      then bindE (retryAfter au inst sc) (\<lambda>n. retE (Some n)) else retE None)
      (\<lambda>n. with_retry n (coordinated_error missing e)))" for au sc missing e
  proof (cases "err_is ErrRateLimited e")
    case True
    then show ?thesis by (simp add: named_delay answers_retry answers_coordinated_error)
  next
    case False
    then show ?thesis by (auto intro!: answers_bindE answers_with_retry answers_coordinated_error total_retE)
  qed
  note delayed = this
  show ?thesis
    unfolding submit_reply_def
    by (rule answers_bindE[OF total_tryE], rule answers_case_sum, rule delayed, rule proper_json) simp
qed

lemma answers_endpoint: "answers (proper s) (serve_endpoint s rq inst endpoint)"
  unfolding serve_endpoint_def instanceStatus_def preview_def startUpdate_def bare_post_def recoveryPoints_def
    startRollback_def startOperation_def currentOperation_def
  by (intro answer_intros proper_error proper_json answers_mutation answers_start_error total_intros)
     (simp_all add: never_fails_def case_prod_unfold)

lemma answers_coordinated: "answers (proper s) (serve_coordinated s m rq inst rest)"
  unfolding serve_coordinated_def only_get_def only_post_def
  by (intro answer_intros proper_error answers_reply answers_submit) simp_all

text \<open>C20: every request is answered. Whatever a client sends and however the calls of the host fail, the
  handler returns a response with one of the statuses of the interface (or sends the client to the
  clean spelling of the path), and a delay it names lies between one second and a day.\<close>

theorem every_request_is_answered:
  "\<exists>x. fst (Handler s rq h) = Inr x \<and>
    (hr_status x \<in> {200, 201, 202, 400, 401, 403, 404, 405, 409, 429, 503} \<or>
     hr_status x = ag_redirect s \<and> (\<exists>q. hr_body x = PMoved q)) \<and>
    hr_retry x \<in> {None} \<union> Some ` {1..86400}"
proof -
  have moved: "answers (proper s) (writeJSON (ag_redirect s) (PMoved q))" for q
    by (simp add: answers_def writeJSON_def retE_def proper_def)
  have "answers (proper s) (Handler s rq)"
    unfolding Handler_def instanceRequest_def coordinatedRequest_def health_def Let_def
    by (cases "mux_route (hq_method rq) (hq_path rq)")
       (auto intro!: answer_intros proper_error proper_json moved answers_endpoint answers_coordinated total_onW
          total_authorized)
  then obtain x where "fst (Handler s rq h) = Inr x" "proper s x" unfolding answers_def by blast
  moreover have "hr_retry x \<in> {None} \<union> Some ` {1..86400}"
    using calculation(2) by (cases "hr_retry x") (simp_all add: proper_def)
  ultimately show ?thesis by (auto simp: proper_def statuses_def)
qed

end
