(* ===== verification/AgentGuard.thy ===== *)
theory AgentGuard
  imports AgentLaws
begin

text \<open>
  The guards of the HTTP service: without the control token of an instance a request changes nothing
  and learns nothing, and an operation starts only for a request that has the token and, except
  for a verification, a fresh authorization code.
\<close>

section \<open>The control token\<close>

text \<open>What the token check reads off the files.\<close>

definition token_admits :: "'d agent \<Rightarrow> http_request \<Rightarrow> string \<Rightarrow> world \<Rightarrow> bool" where
  "token_admits s rq inst w \<longleftrightarrow> (\<exists>provided n. hq_bearer rq = ''Bearer '' @ provided \<and> control_token_ok provided \<and>
     look w (token_path s inst) = Some n \<and> n_kind n = KRegular \<and> n_perm n AND 23 = 0 \<and>
     control_token_ok (trim (content_text (n_data n))) \<and>
     ag_sha s (trim (content_text (n_data n))) = ag_sha s provided)"

lemma reads_authorized: "keeps same_files (authorized s rq inst)"
  unfolding authorized_def Let_def by (intro keeps_intros)

lemma trim_prefix_given: "trim_prefix p s \<noteq> s \<Longrightarrow> s = p @ trim_prefix p s"
  by (auto simp: trim_prefix_def has_prefix_iff split: if_splits)

lemma authorized_Inr:
  assumes "authorized s rq inst w = (Inr True, w')"
  shows "token_admits s rq inst w"
proof -
  let ?p = "trim_prefix ''Bearer '' (hq_bearer rq)"
  from assms obtain r w1 cr w2 where p: "?p \<noteq> hq_bearer rq" "control_token_ok ?p"
    and l: "lstat (token_path s inst) w = (r, w1)" and safe: "\<not> token_unsafe r"
    and cr: "read_file (token_path s inst) w1 = (cr, w2)"
    and k: "(case cr of Inl _ \<Rightarrow> retE False | Inr x \<Rightarrow> retE (control_token_ok (trim (content_text x)) \<and>
          ag_sha s (trim (content_text x)) = ag_sha s ?p)) w2 = (Inr True, w')"
    by (auto simp: authorized_def Let_def bindE_Inr split: if_splits)
  from k obtain c where c: "cr = Inr c" and
    ok: "control_token_ok (trim (content_text c))" "ag_sha s (trim (content_text c)) = ag_sha s ?p"
    by (cases cr) (auto simp: Let_def)
  note c = cr[unfolded c]
  from safe obtain i where r: "r = Inr i" by (auto simp: token_unsafe_def split: sum.splits)
  obtain n where n: "look w (token_path s inst) = Some n" "i = info_of w n" using wp_run[OF lstat_outcome l] r by auto
  have "same_files w w1" using reads_lstat l by (rule keepsD)
  moreover obtain m where "look w1 (token_path s inst) = Some m" "c = n_data m"
    using wp_run[OF read_file_outcome c] by auto
  ultimately have "c = n_data n" using n by (simp add: same_files_look)
  moreover have "n_kind n = KRegular" "n_perm n AND 23 = 0" using safe r n by (simp_all add: token_unsafe_def info_of_def)
  moreover have "hq_bearer rq = ''Bearer '' @ ?p" using trim_prefix_given[OF p(1)] .
  ultimately show ?thesis unfolding token_admits_def using p(2) n(1) ok by blast
qed

text \<open>Readers of a host: the files stay, and nothing else moves.\<close>

definition idle :: "'d host \<Rightarrow> 'd host \<Rightarrow> bool" where
  "idle h h' \<longleftrightarrow> world_only h h' \<and> files same_files h h'"

interpretation idle: frame idle
  by unfold_locales (auto simp: idle_def worlds.refl reading.host.refl intro: worlds.trans reading.host.trans)

lemma idle_onW [keeps_intros]: "keeps same_files m \<Longrightarrow> keeps idle (onW m)"
  by (simp add: keeps_def idle_def world_only_def files_def onW_def case_prod_unfold)

lemma idle_json [keeps_intros]: "keeps idle (writeJSON k p)"
  by (simp add: writeJSON_def idle.keeps_retE)

lemma idle_error [keeps_intros]: "keeps idle (writeError k reason)"
  unfolding writeError_def by (intro keeps_intros)

text \<open>A response that says nothing about the host.\<close>

definition discreet :: "'d agent \<Rightarrow> http_response \<Rightarrow> bool" where
  "discreet s x \<longleftrightarrow> hr_retry x = None \<and>
     (hr_body x \<in> {PError ''not_found'', PError ''unauthorized'', PError ''method_not_allowed'', PHealth (ag_version s),
        PText ''404 page not found''} \<or> (\<exists>q. hr_body x = PMoved q))"

lemma unauthorized_run:
  assumes "\<not> token_admits s rq inst (ho_world h)"
    and "bindE (onW (authorized s rq inst)) (\<lambda>admitted.
          if \<not> admitted then writeError 401 ''unauthorized'' else k) h = (r, h')"
  shows "idle h h' \<and> (\<exists>x. r = Inr x \<and> discreet s x)"
proof -
  obtain b w1 where a: "authorized s rq inst (ho_world h) = (Inr b, w1)"
    using never_fails_Inr[OF total_authorized] by (metis surj_pair)
  have "same_files (ho_world h) w1" using reads_authorized a by (rule keepsD)
  moreover have "\<not> b" using a assms(1) authorized_Inr[of s rq inst "ho_world h" w1] by auto
  ultimately show ?thesis
    using assms(2) a
    by (auto simp: bindE_def onW_def writeError_def writeJSON_def retE_def discreet_def idle_def world_only_def files_def)
qed

text \<open>C17: a stranger learns nothing and changes nothing. A request that does not present the control
  token of any instance (a private regular file with a well-formed token of the same digest) leaves
  every file and every variable of the process as they are, and the response is the version, a
  redirection to a cleaner path, or that the path or the method does not exist or is not
  authorized.\<close>

theorem strangers_learn_nothing:
  assumes "Handler s rq h = (r, h')" and "\<forall>inst. \<not> token_admits s rq inst (ho_world h)"
  shows "h' = h\<lparr>ho_world := ho_world h'\<rparr> \<and> same_files (ho_world h) (ho_world h') \<and>
    (\<exists>x. r = Inr x \<and> hr_retry x = None \<and>
       (hr_body x \<in> {PError ''not_found'', PError ''unauthorized'', PError ''method_not_allowed'', PHealth (ag_version s),
          PText ''404 page not found''} \<or> (\<exists>q. hr_body x = PMoved q)))"
proof -
  have "idle h h' \<and> (\<exists>x. r = Inr x \<and> discreet s x)"
  proof (cases "mux_route (hq_method rq) (hq_path rq)")
    case RHealth
    with assms(1) show ?thesis
      by (auto simp: Handler_def health_def writeError_def writeJSON_def retE_def discreet_def idle.refl split: if_splits)
  next
    case RInstance
    show ?thesis
    proof (cases "instanceEndpoint (hq_path rq)")
      case None
      with RInstance assms(1) show ?thesis
        by (auto simp: Handler_def instanceRequest_def writeError_def writeJSON_def retE_def discreet_def idle.refl)
    next
      case (Some ie)
      obtain inst e where "ie = (inst, e)" by fastforce
      with Some RInstance assms show ?thesis
        by (intro unauthorized_run[of s rq inst]) (auto simp: Handler_def instanceRequest_def)
    qed
  next
    case RCoordinated
    let ?parts = "components (trim_prefix ''/v2/instances/'' (hq_path rq))"
    show ?thesis
    proof (cases "length ?parts < 2 \<or> length ?parts > 3 \<or> hd ?parts \<noteq> ''primary''")
      case True
      with RCoordinated assms(1) show ?thesis
        by (auto simp: Handler_def coordinatedRequest_def Let_def writeError_def writeJSON_def retE_def discreet_def idle.refl)
    next
      case False
      with RCoordinated assms show ?thesis
        by (intro unauthorized_run[of s rq "hd ?parts"]) (auto simp: Handler_def coordinatedRequest_def Let_def)
    qed
  next
    case (RMoved q)
    with assms(1) show ?thesis
      by (auto simp: Handler_def writeJSON_def retE_def discreet_def idle.refl)
  next
    case RMissing
    with assms(1) show ?thesis
      by (auto simp: Handler_def writeJSON_def retE_def discreet_def idle.refl)
  qed
  then show ?thesis by (simp add: idle_def world_only_def files_def discreet_def)
qed

end
