(* ===== verification/AgentSteps.thy ===== *)
theory AgentSteps
  imports AgentGuard
begin

text \<open>
  What a request can set in motion: the authorization service runs the start of an operation at most
  once and only for a fresh code, so a request adds at most one goroutine, and everything it does
  is a sequence of steps of the manager (theory \<open>Exclusion\<close>).
\<close>

section \<open>The authorization service around a callback\<close>

text \<open>The presented code is the code of a counter newer than every counter that was used, and neither
  the scope nor the instance is locked out.\<close>

definition code_fresh :: "service \<Rightarrow> string \<Rightarrow> mutation_scope \<Rightarrow> string \<Rightarrow> world \<Rightarrow> bool" where
  "code_fresh a inst sc otp w \<longleftrightarrow> (\<exists>w1 x. touches (\<lambda>q. q = lock_path (instance_path a inst)) w w1 \<and>
     attempt_at a inst (instance_path a inst) sc otp w1 x \<and> 0 \<le> am_matched x \<and> am_last x < am_matched x)"

lemma code_fresh_same: "code_fresh a inst sc otp w1 \<Longrightarrow> same_files w w1 \<Longrightarrow> code_fresh a inst sc otp w"
  unfolding code_fresh_def by (blast intro: writes.trans same_files_touches)

text \<open>The callback ran once, or nothing of the process moved.\<close>

definition gated :: "(int \<Rightarrow> ('d host, unit) act) \<Rightarrow> 'd host \<Rightarrow> 'd host \<Rightarrow> bool" where
  "gated cb h h' \<longleftrightarrow> (\<exists>h1 c k h2. same_process h h1 \<and> cb c h1 = (k, h2) \<and> same_process h2 h')"

lemma gated_frames: "same_process h h1 \<Longrightarrow> gated cb h1 h2 \<Longrightarrow> same_process h2 h' \<Longrightarrow> gated cb h h'"
  unfolding gated_def by (blast intro: process.trans)

lemma gated_accept:
  assumes "host_accept_code d s mt used cleared cb adm h = (r, h')"
  shows "same_process h h' \<or> gated cb h h'"
proof (cases adm)
  case True
  obtain k h1 where c: "cb mt h = (k, h1)" by fastforce
  have "same_process h1 h'"
    using assms True c process_onW keepsD[OF process_onW]
    by (cases k) (auto simp: host_accept_code_def bindE_def process.refl)
  with c show ?thesis unfolding gated_def using process.refl by blast
next
  case False
  let ?w = "onW (wrapE (Wrap ''persist mutation authorization counter'') (replacePrivateFile (counter_path d s) (counter_text mt)))"
  obtain x h1 where w: "?w h = (x, h1)" by fastforce
  have p: "same_process h h1" by (rule keepsD[OF process_onW w])
  show ?thesis
  proof (cases x)
    case (Inl e)
    with assms False w p show ?thesis by (auto simp: host_accept_code_def bindE_def)
  next
    case (Inr u)
    obtain k h2 where c: "cb mt h1 = (k, h2)" by fastforce
    have "onW (after_callback d s used cleared k) h2 = (r, h')"
      using assms False w Inr c by (simp add: host_accept_code_def bindE_def tryE_def)
    then have "same_process h2 h'" by (rule keepsD[OF process_onW])
    with c p show ?thesis unfolding gated_def by blast
  qed
qed

lemma gated_check:
  assumes "host_check_code sv inst d s otp cb adm h = (r, h')"
  shows "same_process h h' \<or>
    (\<exists>x. attempt_at sv inst d s otp (ho_world h) x \<and> 0 \<le> am_matched x \<and> am_last x < am_matched x) \<and> gated cb h h'"
proof -
  obtain m h1 where m: "onW (match_attempt sv inst d s otp) h = (m, h1)" by fastforce
  have p: "same_process h h1" by (rule keepsD[OF process_onW m])
  show ?thesis
  proof (cases m)
    case (Inl e)
    with assms m p show ?thesis by (auto simp: host_check_code_def bindE_def)
  next
    case (Inr x)
    with m have at: "attempt_at sv inst d s otp (ho_world h) x" by (auto simp: onW_Inr dest: match_attempt_yields)
    show ?thesis
    proof (cases "0 \<le> am_matched x \<and> am_last x < am_matched x")
      case False
      have "same_process h1 h'"
        using assms m Inr False keepsD[OF process_onW]
        by (auto simp: host_check_code_def bindE_def failE_def process.refl split: if_splits)
      with p show ?thesis by (blast intro: process.trans)
    next
      case True
      let ?g = "onW (wrapE (Wrap ''calculate mutation authorization attempts'') (remainingGlobalAttemptState d s))"
      obtain g h2 where g: "?g h1 = (g, h2)" by fastforce
      have p2: "same_process h h2" using p keepsD[OF process_onW g] by (rule process.trans)
      show ?thesis
      proof (cases g)
        case (Inl e)
        with assms m Inr True g p2 show ?thesis by (auto simp: host_check_code_def bindE_def)
      next
        case (Inr c)
        with assms m \<open>m = Inr x\<close> True g have "host_accept_code d s (am_matched x) (am_last x) c cb adm h2 = (r, h')"
          by (auto simp: host_check_code_def bindE_def)
        from gated_accept[OF this] p2 at True show ?thesis
          by (blast intro: process.trans gated_frames process.refl)
      qed
    qed
  qed
qed

text \<open>What precedes the check reads the files and leaves the process alone.\<close>

definition looks_only :: "('d host, 'a) act \<Rightarrow> bool" where
  "looks_only m \<longleftrightarrow> keeps same_process m \<and> keeps (files same_files) m"

lemma gated_section:
  assumes "host_locked_section sv inst d s otp ex cb adm h = (r, h')" and "\<forall>e. ex = Some e \<longrightarrow> looks_only e"
  shows "same_process h h' \<or>
    (\<exists>w x. same_files (ho_world h) w \<and> attempt_at sv inst d s otp w x \<and> 0 \<le> am_matched x \<and> am_last x < am_matched x) \<and>
    gated cb h h'"
proof -
  let ?e = "case ex of None \<Rightarrow> retE False | Some e \<Rightarrow> e"
  have "keeps same_process ?e" "keeps (files same_files) ?e"
    using assms(2) by (auto simp: looks_only_def process.keeps_retE reading.host.keeps_retE split: option.splits)
  moreover obtain k h1 where e: "?e h = (k, h1)" by fastforce
  ultimately have p: "same_process h h1" and f: "same_files (ho_world h) (ho_world h1)"
    by (auto dest: keepsD simp: files_def)
  show ?thesis
  proof (cases k)
    case (Inl err)
    with assms(1) e p show ?thesis by (auto simp: host_locked_section_def bindE_def)
  next
    case (Inr found)
    with assms(1) e have "r = (if found then Inr () else Inl (Sentinel ErrInvalid)) \<and> h' = h1 \<or>
        host_check_code sv inst d s otp cb adm h1 = (r, h')"
      by (auto simp: host_locked_section_def bindE_def retE_def failE_def split: if_splits)
    with p f gated_check[of sv inst d s otp cb adm h1 r h'] show ?thesis
      by (blast intro: process.trans gated_frames process.refl)
  qed
qed

lemma process_after: "same_process x (snd (onW m x))"
  by (simp add: same_process_def onW_def case_prod_unfold)

lemma gated_lock:
  assumes "host_under_lock p M h = (r, h')"
  shows "same_process h h' \<or> (\<exists>w k h2. touches (\<lambda>q. q = p) (ho_world h) w \<and> M (h\<lparr>ho_world := w\<rparr>) = (k, h2) \<and> same_process h2 h')"
proof -
  obtain o1 w1 where o: "openPrivateLock p (ho_world h) = (o1, w1)" by fastforce
  have t1: "touches (\<lambda>q. q = p) (ho_world h) w1" using keepsD[OF touches_openPrivateLock o] by simp
  let ?f = "wrapE (Wrap ''lock mutation authorization'') (flock p)"
  show ?thesis
  proof (cases o1)
    case (Inl e)
    with assms o show ?thesis by (auto simp: host_under_lock_def bindE_def onW_def same_process_def)
  next
    case (Inr u)
    obtain f w2 where f: "?f w1 = (f, w2)" by fastforce
    have t2: "touches (\<lambda>q. q = p) (ho_world h) w2"
      using t1 keepsD[OF reads.keeps_wrapE[OF reads_flock] f] by (blast intro: writes.trans same_files_touches)
    note close = process_after
    show ?thesis
    proof (cases f)
      case (Inl e)
      with assms o Inr f close[of "h\<lparr>ho_world := w2\<rparr>" "close_file p"] show ?thesis
        by (auto simp: host_under_lock_def bindE_def deferE_def onW_def same_process_def)
    next
      case (Inr v)
      obtain k h2 where M: "M (h\<lparr>ho_world := w2\<rparr>) = (k, h2)" by fastforce
      with assms o \<open>o1 = Inr u\<close> f Inr have "h' = snd (onW (close_file p) (snd (onW (funlock p) h2)))"
        by (auto simp: host_under_lock_def bindE_def deferE_def onW_def split: prod.splits)
      with close have "same_process h2 h'" by (blast intro: process.trans)
      with t2 M show ?thesis by blast
    qed
  qed
qed

lemma host_authorize_gate:
  assumes "host_authorize a inst sc otp ex (Some cb) adm h = (r, h')" and "\<forall>e. ex = Some e \<longrightarrow> looks_only e"
  shows "same_process h h' \<or> code_fresh a inst sc otp (ho_world h) \<and> gated cb h h'"
proof -
  obtain dr h1 where d: "onW (instanceDir a inst) h = (dr, h1)" by fastforce
  have p: "same_process h h1" by (rule keepsD[OF process_onW d])
  show ?thesis
  proof (cases dr)
    case (Inl e)
    with assms(1) d p show ?thesis
      by (auto simp: host_authorize_def bindE_def tryE_def failE_def process.refl split: if_splits)
  next
    case (Inr x)
    with d have x: "x = instance_path a inst" "same_files (ho_world h) (ho_world h1)"
      by (auto simp: onW_Inr dest: instanceDir_yields)
    show ?thesis
    proof (cases "validScope sc")
      case False
      with assms(1) show ?thesis by (auto simp: host_authorize_def failE_def process.refl)
    next
      case True
      with assms(1) d Inr have "host_under_lock (lock_path x) (host_locked_section a inst x sc otp ex cb adm) h1 = (r, h')"
        by (simp add: host_authorize_def bindE_def tryE_def)
      from gated_lock[OF this] show ?thesis
      proof (elim disjE exE conjE)
        assume "same_process h1 h'"
        with p show ?thesis by (blast intro: process.trans)
      next
        fix w k h2
        assume t: "touches (\<lambda>q. q = lock_path x) (ho_world h1) w"
          and m: "host_locked_section a inst x sc otp ex cb adm (h1\<lparr>ho_world := w\<rparr>) = (k, h2)" and p2: "same_process h2 h'"
        have p1: "same_process h (h1\<lparr>ho_world := w\<rparr>)" using p by (simp add: same_process_def)
        have t': "touches (\<lambda>q. q = lock_path (instance_path a inst)) (ho_world h) w'" if "same_files w w'" for w'
          using t x that by (blast intro: writes.trans same_files_touches)
        from gated_section[OF m assms(2)] show ?thesis
        proof (elim disjE exE conjE)
          assume "same_process (h1\<lparr>ho_world := w\<rparr>) h2"
          with p1 p2 show ?thesis by (blast intro: process.trans)
        next
          fix w' y
          assume "same_files (ho_world (h1\<lparr>ho_world := w\<rparr>)) w'" "attempt_at a inst x sc otp w' y" "0 \<le> am_matched y"
            "am_last y < am_matched y" and g: "gated cb (h1\<lparr>ho_world := w\<rparr>) h2"
          with t' x(1) have "code_fresh a inst sc otp (ho_world h)" unfolding code_fresh_def by auto
          with gated_frames[OF p1 g p2] show ?thesis by blast
        qed
      qed
    qed
  qed
qed

section \<open>Starts\<close>

definition new_job :: "string \<Rightarrow> job \<Rightarrow> 'd host \<Rightarrow> 'd host \<Rightarrow> bool" where
  "new_job inst j h h' \<longleftrightarrow> inst \<notin> set (ho_locked h) \<and>
     (\<exists>x. on_instance x = inst \<and> ho_jobs h' = ho_jobs h @ [(inst, x, j)])"

lemma new_job_frames: "same_process h h1 \<Longrightarrow> new_job inst j h1 h2 \<Longrightarrow> same_process h2 h' \<Longrightarrow> new_job inst j h h'"
  by (simp add: new_job_def same_process_def)

text \<open>A call that is a step of the manager and spawns at most one goroutine.\<close>

definition starts :: "'d manager \<Rightarrow> string \<Rightarrow> job \<Rightarrow> ('d host, operation) act \<Rightarrow> bool" where
  "starts m inst j f \<longleftrightarrow> (\<forall>h r h'. f h = (r, h') \<longrightarrow> (\<forall>a. step m a h h') \<and> (same_process h h' \<or> new_job inst j h h'))"

lemma legacy_jobs:
  assumes "start_legacy m inst kind pid j h = (r, h')"
  shows "same_process h h' \<or> new_job inst j h h'"
  using startAccepted_cases[OF assms[unfolded start_legacy_def] process.keeps_retE]
  by (auto simp: plain_accept_def new_job_def)

lemma starts_legacy:
  "starts m inst (RunUpdate opt) (StartUpdateWithOptions m inst opt)"
  "starts m inst RunBackup (StartBackup m inst)" "starts m inst RunVerify (StartVerify m inst)"
  "starts m inst RunSwitchBack (StartSwitchBack m inst)" "starts m inst (RunRollback pid) (StartRollback m inst pid)"
  by (auto simp: starts_def StartUpdateWithOptions_def StartBackup_def StartVerify_def StartSwitchBack_def StartRollback_def
      failE_def process.refl dest: legacy_jobs split: if_splits
      intro: step.update[unfolded StartUpdateWithOptions_def] step.backup[unfolded StartBackup_def]
        step.verify[unfolded StartVerify_def] step.switch_back[unfolded StartSwitchBack_def]
        step.rollback[unfolded StartRollback_def] step.outside)

lemma starts_update: "starts m inst (RunUpdate legacy_options) (StartUpdate m inst)"
  unfolding StartUpdate_def by (rule starts_legacy)

text \<open>What a request set in motion.\<close>

definition launched :: "'d agent \<Rightarrow> http_request \<Rightarrow> string \<Rightarrow> 'd host \<Rightarrow> 'd host \<Rightarrow> bool" where
  "launched s rq inst h h' \<longleftrightarrow> (\<exists>m j. ag_operations s = Some m \<and> hq_method rq = ''POST'' \<and> new_job inst j h h' \<and>
     (\<forall>a. ag_authorization s \<in> {None, Some a} \<longrightarrow> rtranclp (step m a) h h') \<and>
     (j = RunVerify \<or> (\<exists>a sc. ag_authorization s = Some a \<and> code_fresh a inst sc (hq_code rq) (ho_world h))))"

lemma framed_step:
  assumes "same_process h h1" and "step m a h1 h2" and "same_process h2 h'"
  shows "rtranclp (step m a) h h'"
  using step.outside[OF assms(1)] assms(2) step.outside[OF assms(3)] by (meson converse_rtranclp_into_rtranclp rtranclp.rtrancl_refl)

lemma process_captured [keeps_intros]: "keeps same_process (setStarted x)" "keeps same_process getStarted"
  by (simp_all add: keeps_def setStarted_def getStarted_def same_process_def)

lemma process_writes [keeps_intros]: "keeps same_process (writeJSON k p)" "keeps same_process (writeError k reason)"
  unfolding writeError_def writeJSON_def by (intro keeps_intros)+

lemma process_start_error [keeps_intros]: "keeps same_process (start_error e)"
  unfolding start_error_def by (intro keeps_intros)

lemma process_delay [keeps_intros]: "keeps same_process (retryAfter au inst sc)"
  unfolding retryAfter_def by (intro keeps_intros)

lemma process_mutation_error [keeps_intros]: "keeps same_process (mutation_error a inst sc e)"
  unfolding mutation_error_def with_retry_def by (intro keeps_intros)

lemma mutation_launches:
  assumes run: "startMutationOperation s rq inst sc start h = (r, h')" and post: "hq_method rq = ''POST''"
    and starts: "\<And>m. starts m inst j (start m)"
  shows "same_process h h' \<or> launched s rq inst h h'"
proof (cases "ag_operations s")
  case None
  with run show ?thesis by (auto simp: startMutationOperation_def dest: keepsD[OF process_writes(2)])
next
  case (Some m)
  show ?thesis
  proof (cases "hq_code rq = [] \<or> ag_authorization s = None")
    case True
    with run Some show ?thesis
      by (auto simp: startMutationOperation_def dest: keepsD[OF process_writes(2)] split: if_splits)
  next
    case False
    then obtain a where a: "ag_authorization s = Some a" and code: "hq_code rq \<noteq> []" by auto
    let ?h = "h\<lparr>ho_started := zero_operation\<rparr>" and ?cb = "bindE (start m) setStarted"
    obtain k h1 where au: "host_Authorize a inst sc (hq_code rq) ?cb ?h = (k, h1)" by fastforce
    have "(case k of Inl e \<Rightarrow> mutation_error a inst sc e | Inr _ \<Rightarrow> bindE getStarted (\<lambda>x. writeJSON 202 (POperation x))) h1 = (r, h')"
      using run Some a code au by (simp add: startMutationOperation_def bindE_def tryE_def setStarted_def)
    moreover have "keeps same_process (case k of Inl e \<Rightarrow> mutation_error a inst sc e | Inr _ \<Rightarrow> bindE getStarted (\<lambda>x. writeJSON 202 (POperation x)))"
      by (intro keeps_intros)
    ultimately have rest: "same_process h1 h'" by (blast dest: keepsD)
    have first: "same_process h ?h" by (simp add: same_process_def)
    from host_authorize_gate[OF au[unfolded host_Authorize_def], simplified] show ?thesis
    proof (elim disjE conjE)
      assume "same_process ?h h1"
      with first rest show ?thesis by (blast intro: process.trans)
    next
      assume fresh: "code_fresh a inst sc (hq_code rq) (ho_world h)" and g: "gated (\<lambda>_. ?cb) ?h h1"
      from gated_frames[OF first g rest] obtain h2 c h3 where p: "same_process h h2" "?cb h2 = (c, h3)" "same_process h3 h'"
        unfolding gated_def by blast
      obtain q h4 where st: "start m h2 = (q, h4)" by fastforce
      have "same_process h4 h3" using p(2) st by (cases q) (auto simp: bindE_def setStarted_def same_process_def)
      with p(3) have after: "same_process h4 h'" by (blast intro: process.trans)
      from starts[of m] st have s: "\<And>a. step m a h2 h4" "same_process h2 h4 \<or> new_job inst j h2 h4"
        by (auto simp: starts_def)
      from s(2) show ?thesis
      proof
        assume "same_process h2 h4"
        with p(1) after show ?thesis by (blast intro: process.trans)
      next
        assume "new_job inst j h2 h4"
        with p(1) after have "new_job inst j h h'" by (blast intro: new_job_frames)
        moreover have "rtranclp (step m b) h h'" for b using p(1) s(1) after by (rule framed_step)
        ultimately show ?thesis using Some post a fresh by (auto simp: launched_def)
      qed
    qed
  qed
qed

lemma verify_launches:
  assumes run: "startOperation s rq (\<lambda>m. StartVerify m inst) h = (r, h')"
  shows "same_process h h' \<or> launched s rq inst h h'"
proof (cases "hq_method rq = ''POST'' \<and> ag_operations s \<noteq> None")
  case False
  with run show ?thesis by (auto simp: startOperation_def dest: keepsD[OF process_writes(2)] split: if_splits)
next
  case True
  then obtain m where m: "ag_operations s = Some m" and post: "hq_method rq = ''POST''" by auto
  obtain q h1 where st: "StartVerify m inst h = (q, h1)" by fastforce
  have "(case q of Inl e \<Rightarrow> start_error e | Inr x \<Rightarrow> writeJSON 202 (POperation x)) h1 = (r, h')"
    using run m post st by (simp add: startOperation_def bindE_def tryE_def)
  moreover have "keeps same_process (case q of Inl e \<Rightarrow> start_error e | Inr x \<Rightarrow> writeJSON 202 (POperation x))"
    by (intro keeps_intros)
  ultimately have rest: "same_process h1 h'" by (blast dest: keepsD)
  from starts_legacy(3)[of m inst] st have s: "\<And>a. step m a h h1" "same_process h h1 \<or> new_job inst RunVerify h h1"
    by (auto simp: starts_def)
  from s(2) show ?thesis
  proof
    assume "same_process h h1"
    with rest show ?thesis by (blast intro: process.trans)
  next
    assume "new_job inst RunVerify h h1"
    with rest have "new_job inst RunVerify h h'" by (blast intro: new_job_frames process.refl)
    moreover have "rtranclp (step m b) h h'" for b using process.refl s(1) rest by (rule framed_step)
    ultimately show ?thesis using m post by (auto simp: launched_def)
  qed
qed

section \<open>Submissions\<close>

lemma callback_jobs:
  assumes "services_keep same_process m" and run: "submit_callback m inst rq n h = (k, h')"
  shows "same_process h h' \<or> (\<exists>j. new_job inst j h h')"
proof -
  let ?start = "startAccepted m inst (action_kind (sr_action rq)) [] (submitted_job rq) (validate_submission m inst rq)
      (Some (accept_submission m inst rq n))"
  obtain q h1 where st: "?start h = (q, h1)" by fastforce
  from startAccepted_cases[OF st process_validate[OF assms(1)] plain_submission]
  have s: "same_process h h1 \<or> (\<exists>j. new_job inst j h h1)" by (auto simp: new_job_def)
  have "bindE (lookup_request m inst rq) (\<lambda>found.
      if found then retE () else liftE (case q of Inl e \<Rightarrow> Inl e | Inr _ \<Rightarrow> Inr ())) h1 = (k, h')"
    using run st by (simp add: submit_callback_def bindE_def tryE_def)
  moreover have "keeps same_process (bindE (lookup_request m inst rq) (\<lambda>found.
      if found then retE () else liftE (case q of Inl e \<Rightarrow> Inl e | Inr _ \<Rightarrow> Inr ())))"
    by (intro keeps_intros process_lookup)
  ultimately have "same_process h1 h'" by (blast dest: keepsD)
  with s show ?thesis by (blast intro: process.trans new_job_frames process.refl)
qed

lemma process_receipt [keeps_intros]: "keeps same_process getReceipt"
  by (simp add: keeps_def getReceipt_def same_process_def)

lemma Submit_jobs:
  assumes sv: "services_keep same_process m"
    and run: "Submit m (Some (admission_authorizer a)) inst p otp h = (q, h')"
  shows "same_process h h' \<or> (\<exists>sc. code_fresh a inst sc otp (ho_world h)) \<and> (\<exists>j. new_job inst j h h')"
proof (cases "inst \<noteq> ''primary'' \<or> \<not> submit_valid p")
  case True
  with run show ?thesis by (auto simp: Submit_def failE_def process.refl)
next
  case False
  let ?h = "h\<lparr>ho_receipt := zero_receipt\<rparr>" and ?l = "lookup_request m inst p"
  let ?au = "admission_authorizer a inst (Coordination.scope (sr_action p)) otp ?l (submit_callback m inst p)"
  have first: "same_process h ?h" by (simp add: same_process_def)
  obtain f h1 where l: "?l ?h = (f, h1)" by fastforce
  have p1: "same_process h h1" using first keepsD[OF process_lookup l] by (rule process.trans)
  have w1: "same_files (ho_world h) (ho_world h1)" using keepsD[OF files_lookup l] by (simp add: files_def)
  have rest: "(case f of Inl e \<Rightarrow> failE e | Inr found \<Rightarrow> if found then getReceipt else bindE ?au (\<lambda>_. getReceipt)) h1 = (q, h')"
    using run False l by (cases f) (auto simp: Submit_def bindE_def failE_def)
  show ?thesis
  proof (cases "f = Inr False")
    case False
    with rest p1 show ?thesis
      by (cases f) (auto simp: failE_def getReceipt_def)
  next
    case True
    obtain k h2 where au: "?au h1 = (k, h2)" by fastforce
    have "same_process h2 h'" using rest True au by (cases k) (auto simp: bindE_def getReceipt_def process.refl)
    moreover have "same_process h1 h2 \<or> code_fresh a inst (scope_of_name (Coordination.scope (sr_action p))) otp (ho_world h1) \<and>
        gated (submit_callback m inst p) h1 h2"
      by (rule host_authorize_gate[OF au[unfolded admission_authorizer_def]])
        (simp add: looks_only_def process_lookup files_lookup)
    ultimately show ?thesis
    proof (elim disjE conjE)
      assume "same_process h2 h'" "same_process h1 h2"
      with p1 show ?thesis by (blast intro: process.trans)
    next
      assume after: "same_process h2 h'" and fresh: "code_fresh a inst (scope_of_name (Coordination.scope (sr_action p))) otp (ho_world h1)"
        and "gated (submit_callback m inst p) h1 h2"
      from gated_frames[OF p1 this(3) after] obtain h3 c k' h4 where
        g: "same_process h h3" "submit_callback m inst p c h3 = (k', h4)" "same_process h4 h'" unfolding gated_def by blast
      from callback_jobs[OF sv g(2)] show ?thesis
      proof (elim disjE exE)
        assume "same_process h3 h4"
        with g show ?thesis by (blast intro: process.trans)
      next
        fix j
        assume "new_job inst j h3 h4"
        with g have "new_job inst j h h'" by (blast intro: new_job_frames)
        with code_fresh_same[OF fresh w1] show ?thesis by blast
      qed
    qed
  qed
qed

lemma process_coordinated_error [keeps_intros]: "keeps same_process (coordinated_error missing e)"
  unfolding coordinated_error_def by (intro keeps_intros)

lemma process_Submit_unauthorized: "keeps same_process (Submit m None inst p otp)"
proof -
  have "keeps same_process (\<lambda>h. (Inr (), h\<lparr>ho_receipt := zero_receipt\<rparr>))" by (simp add: keeps_def same_process_def)
  then show ?thesis unfolding Submit_def option.case by (intro keeps_intros process_lookup)
qed

lemma submit_launches:
  assumes sv: "services_keep same_process m" and m: "ag_operations s = Some m" and post: "hq_method rq = ''POST''"
    and run: "submit_reply s m inst p (hq_code rq) h = (r, h')"
  shows "same_process h h' \<or> launched s rq inst h h'"
proof -
  obtain q h1 where st: "Submit m (map_option admission_authorizer (ag_authorization s)) inst p (hq_code rq) h = (q, h1)"
    by fastforce
  have "keeps same_process (case q of Inr v \<Rightarrow> writeJSON 202 (PReceipt v)
     | Inl e \<Rightarrow>
         bindE (if err_is ErrRateLimited e
                then bindE (retryAfter (ag_authorization s) inst (scope_of_name (Coordination.scope (sr_action p)))) (\<lambda>n. retE (Some n))
                else retE None) (\<lambda>n. with_retry n (coordinated_error ''not_found'' e)))"
    unfolding with_retry_def by (intro keeps_intros)
  then have rest: "same_process h1 h'"
    using run st by (auto simp: submit_reply_def bindE_def[of "tryE _"] tryE_def dest: keepsD)
  show ?thesis
  proof (cases "ag_authorization s")
    case None
    with st have "same_process h h1" by (auto dest: keepsD[OF process_Submit_unauthorized])
    with rest show ?thesis by (blast intro: process.trans)
  next
    case (Some a)
    with st have su: "Submit m (Some (admission_authorizer a)) inst p (hq_code rq) h = (q, h1)" by simp
    from Submit_jobs[OF sv su] show ?thesis
    proof (elim disjE conjE exE)
      assume "same_process h h1"
      with rest show ?thesis by (blast intro: process.trans)
    next
      fix sc j
      assume fresh: "code_fresh a inst sc (hq_code rq) (ho_world h)" and j: "new_job inst j h h1"
      have "new_job inst j h h'" using process.refl j rest by (rule new_job_frames)
      moreover have "rtranclp (step m a) h h'" using process.refl step.submit[OF su] rest by (rule framed_step)
      ultimately show ?thesis using m post Some fresh by (auto simp: launched_def)
    qed
  qed
qed

section \<open>Whole requests\<close>

text \<open>What the parameters of the service may do: the deployment and the status report have no access to
  the variables of the manager, and listing recovery points changes no file.\<close>

definition trusted :: "'d agent \<Rightarrow> bool" where
  "trusted s \<longleftrightarrow> (\<forall>m. ag_operations s = Some m \<longrightarrow> services_keep same_process m \<and>
       (\<forall>d i. mg_deployment m = Some d \<longrightarrow> keeps (files same_files) (mp_list_points d i))) \<and>
     (\<forall>f i. ag_status s = Some f \<longrightarrow> keeps same_process (\<lambda>h. case f i h of (j, h') \<Rightarrow> (Inr j :: err + json, h')))"

lemma points_idle:
  assumes "trusted s" and "ag_operations s = Some m"
  shows "keeps same_process (RecoveryPoints m i)" and "keeps (files same_files) (RecoveryPoints m i)"
  using assms by (auto simp: trusted_def services_keep_def RecoveryPoints_def process.keeps_failE reading.host.keeps_failE
      split: option.splits)

lemma launched_after:
  assumes "same_process h h1" and "same_files (ho_world h) (ho_world h1)" and "launched s rq inst h1 h'"
  shows "launched s rq inst h h'"
proof -
  from assms(3) obtain m j where l: "ag_operations s = Some m" "hq_method rq = ''POST''" "new_job inst j h1 h'"
    "\<forall>a. ag_authorization s \<in> {None, Some a} \<longrightarrow> rtranclp (step m a) h1 h'"
    "j = RunVerify \<or> (\<exists>a sc. ag_authorization s = Some a \<and> code_fresh a inst sc (hq_code rq) (ho_world h1))"
    unfolding launched_def by blast
  have "rtranclp (step m a) h h'" if "ag_authorization s \<in> {None, Some a}" for a
    using step.outside[OF assms(1)] l(4) that by (blast intro: converse_rtranclp_into_rtranclp)
  moreover have "new_job inst j h h'" using assms(1) l(3) process.refl by (rule new_job_frames)
  ultimately show ?thesis using l assms(2) unfolding launched_def by (blast intro: code_fresh_same)
qed

lemma rollback_launches:
  assumes t: "trusted s" and run: "startRollback s rq inst h = (r, h')"
  shows "same_process h h' \<or> launched s rq inst h h'"
proof (cases "hq_method rq = ''POST'' \<and> ag_operations s \<noteq> None \<and> rollback_payload (hq_body rq) \<noteq> None")
  case False
  with run show ?thesis by (auto simp: startRollback_def dest: keepsD[OF process_writes(2)] split: if_splits option.splits)
next
  case True
  then obtain m pid where m: "ag_operations s = Some m" and post: "hq_method rq = ''POST''"
    and pid: "rollback_payload (hq_body rq) = Some pid" by auto
  obtain q h1 where ps: "RecoveryPoints m inst h = (q, h1)" by fastforce
  note idle = keepsD[OF points_idle(1)[OF t m] ps] keepsD[OF points_idle(2)[OF t m] ps]
  have "(\<exists>k reason. writeError k reason h1 = (r, h')) \<or>
      startMutationOperation s rq inst ScopeRollback (\<lambda>m. StartRollback m inst pid) h1 = (r, h')"
    using run m post pid ps
    by (auto simp: startRollback_def bindE_def tryE_def split: sum.splits option.splits if_splits)
  then have "same_process h1 h' \<or> launched s rq inst h1 h'"
    using mutation_launches[OF _ post starts_legacy(5)] keepsD[OF process_writes(2)] by blast
  with idle show ?thesis by (auto simp: files_def intro: process.trans launched_after)
qed

lemma endpoint_launches:
  assumes t: "trusted s" and run: "serve_endpoint s rq inst endpoint h = (r, h')"
  shows "same_process h h' \<or> launched s rq inst h h'"
proof -
  have status: "keeps same_process (instanceStatus s rq inst)"
    using t unfolding instanceStatus_def trusted_def
    by (cases "ag_status s") (auto intro!: keeps_intros)
  have points: "keeps same_process (recoveryPoints s inst)"
    unfolding recoveryPoints_def
    by (cases "ag_operations s") (auto intro!: keeps_intros points_idle[OF t])
  have prev: "keeps same_process (preview s rq inst)"
    using t unfolding preview_def
    by (cases "ag_operations s") (auto simp: trusted_def intro!: keeps_intros process_Preview)
  have current: "keeps same_process (currentOperation s rq inst)"
    unfolding currentOperation_def by (intro keeps_intros)
  have upd: "same_process h h' \<or> launched s rq inst h h'" if "startUpdate s rq inst h = (r, h')"
  proof (cases "hq_method rq = ''POST''")
    case True
    have "starts m inst (RunUpdate (case opt of None \<Rightarrow> legacy_options | Some x \<Rightarrow> x))
        (case opt of None \<Rightarrow> StartUpdate m inst | Some x \<Rightarrow> StartUpdateWithOptions m inst x)" for m :: "'a manager" and opt
      by (cases opt) (simp_all add: starts_update starts_legacy)
    from mutation_launches[OF _ True this] that True show ?thesis
      by (auto simp: startUpdate_def dest: keepsD[OF process_writes(2)] split: option.splits)
  qed (use that in \<open>auto simp: startUpdate_def dest: keepsD[OF process_writes(2)]\<close>)
  have bare: "same_process h h' \<or> launched s rq inst h h'"
    if "bare_post rq k h = (r, h')" and "hq_method rq = ''POST'' \<Longrightarrow> k h = (r, h') \<Longrightarrow> same_process h h' \<or> launched s rq inst h h'" for k
    using that by (auto simp: bare_post_def dest: keepsD[OF process_writes(2)] split: if_splits)
  have sb: "same_process h h' \<or> launched s rq inst h h'"
    if "bare_post rq (startMutationOperation s rq inst ScopeUpdate (\<lambda>m. StartSwitchBack m inst)) h = (r, h')"
    using bare[OF that] mutation_launches[OF _ _ starts_legacy(4)] by blast
  have bk: "same_process h h' \<or> launched s rq inst h h'"
    if "bare_post rq (startMutationOperation s rq inst ScopeBackup (\<lambda>m. StartBackup m inst)) h = (r, h')"
    using bare[OF that] mutation_launches[OF _ _ starts_legacy(2)] by blast
  have vf: "same_process h h' \<or> launched s rq inst h h'"
    if "bare_post rq (startOperation s rq (\<lambda>m. StartVerify m inst)) h = (r, h')"
    using bare[OF that] verify_launches by blast
  have e404: "same_process h h'" if "writeError 404 ''not_found'' h = (r, h')"
    using that by (rule keepsD[OF process_writes(2)])
  from run show ?thesis
    unfolding serve_endpoint_def
    using keepsD[OF status] keepsD[OF points] keepsD[OF prev] keepsD[OF current] upd sb bk vf e404 rollback_launches[OF t]
    by (simp split: if_splits)
qed

lemma coordinated_launches:
  assumes t: "trusted s" and m: "ag_operations s = Some m"
    and run: "serve_coordinated s m rq inst rest h = (r, h')"
  shows "same_process h h' \<or> launched s rq inst h h'"
proof -
  have sv: "services_keep same_process m" using t m by (simp add: trusted_def)
  have reply: "keeps same_process (coordinated_reply k missing c)" if "keeps same_process c" for k missing and c :: "('a host, payload) act"
    unfolding coordinated_reply_def by (intro keeps_intros that)
  have caps: "keeps same_process (Capabilities m inst)"
    unfolding Capabilities_def by (intro keeps_intros)
  have plan: "keeps same_process (GetPlan m inst x)" "keeps same_process (OperationReceipt m inst x)" for x
    unfolding GetPlan_def OperationReceipt_def receipt_of_def by (intro keeps_intros)+
  have quiet: "same_process h h'" if "keeps same_process k" "k h = (r, h')" for k :: "'a handler"
    using that by (rule keepsD)
  have submit: "same_process h h' \<or> launched s rq inst h h'"
    if "only_post rq (case submit_payload (hq_body rq) of None \<Rightarrow> writeError 400 ''invalid_request''
          | Some p \<Rightarrow> submit_reply s m inst p (hq_code rq)) h = (r, h')"
    using that submit_launches[OF sv m] keepsD[OF process_writes(2)]
    by (auto simp: only_post_def split: if_splits option.splits)
  have others: "keeps same_process (only_get rq (coordinated_reply 200 ''not_found'' (bindE (Capabilities m inst) (\<lambda>c. retE (PCapabilities c)))))"
    "keeps same_process (only_post rq (case plan_payload (hq_body rq) of None \<Rightarrow> writeError 400 ''invalid_request''
       | Some p \<Rightarrow> coordinated_reply 201 ''not_found'' (bindE (CreatePlan m inst p) (\<lambda>x. retE (PPlan x)))))"
    "keeps same_process (only_get rq (coordinated_reply 200 ''plan_not_found'' (bindE (GetPlan m inst i) (\<lambda>x. retE (PPlan x)))))"
    "keeps same_process (only_get rq (if \<not> identifier_ok i then writeError 400 ''invalid_request''
       else coordinated_reply 200 ''request_not_found'' (bindE (Request m inst i) (\<lambda>x. retE (PReceipt x)))))"
    "keeps same_process (only_get rq (if \<not> op_id_ok i then writeError 400 ''invalid_request''
       else coordinated_reply 200 ''operation_not_found'' (bindE (OperationReceipt m inst i) (\<lambda>x. retE (PReceipt x)))))"
    for i
    unfolding only_get_def only_post_def
    by (intro keeps_intros reply caps plan process_Request process_CreatePlan[OF sv])+
  from run show ?thesis
    unfolding serve_coordinated_def
    using quiet[OF others(1)] quiet[OF others(2)] quiet[OF others(3)] quiet[OF others(4)] quiet[OF others(5)] submit
      quiet[OF process_writes(2)]
    by (simp split: if_splits)
qed

text \<open>A request behind the token check.\<close>

lemma guarded_launches:
  assumes run: "bindE (onW (authorized s rq inst)) (\<lambda>admitted.
      if \<not> admitted then writeError 401 ''unauthorized'' else k) h = (r, h')"
    and k: "\<And>h1. k h1 = (r, h') \<Longrightarrow> same_process h1 h' \<or> launched s rq inst h1 h'"
  shows "same_process h h' \<or> token_admits s rq inst (ho_world h) \<and> launched s rq inst h h'"
proof -
  obtain b w where a: "authorized s rq inst (ho_world h) = (Inr b, w)"
    using never_fails_Inr[OF total_authorized] by (metis surj_pair)
  let ?h = "h\<lparr>ho_world := w\<rparr>"
  have idle: "same_process h ?h" "same_files (ho_world h) (ho_world ?h)"
    using keepsD[OF reads_authorized a] by (simp_all add: same_process_def)
  have rest: "(if \<not> b then writeError 401 ''unauthorized'' else k) ?h = (r, h')"
    using run a by (simp add: bindE_def onW_def)
  show ?thesis
  proof (cases b)
    case False
    then have "same_process ?h h'" using rest by (auto dest: keepsD[OF process_writes(2)])
    with idle(1) show ?thesis by (blast intro: process.trans)
  next
    case True
    with a have "token_admits s rq inst (ho_world h)" using authorized_Inr by simp
    moreover have "same_process ?h h' \<or> launched s rq inst ?h h'" using rest True k by simp
    ultimately show ?thesis using idle by (blast intro: process.trans launched_after)
  qed
qed

lemma Handler_launches:
  assumes t: "trusted s" and run: "Handler s rq h = (r, h')"
  shows "same_process h h' \<or> (\<exists>inst. token_admits s rq inst (ho_world h) \<and> launched s rq inst h h')"
proof (cases "mux_route (hq_method rq) (hq_path rq)")
  case RInstance
  show ?thesis
  proof (cases "instanceEndpoint (hq_path rq)")
    case None
    with RInstance run show ?thesis by (auto simp: Handler_def instanceRequest_def dest: keepsD[OF process_writes(2)])
  next
    case (Some ie)
    obtain inst e where "ie = (inst, e)" by fastforce
    with Some RInstance run have g: "bindE (onW (authorized s rq inst)) (\<lambda>admitted.
      if \<not> admitted then writeError 401 ''unauthorized'' else serve_endpoint s rq inst e) h = (r, h')"
      by (simp add: Handler_def instanceRequest_def)
    have "same_process h1 h' \<or> launched s rq inst h1 h'" if "serve_endpoint s rq inst e h1 = (r, h')" for h1
      using endpoint_launches[OF t that] .
    from guarded_launches[OF g this] show ?thesis by blast
  qed
next
  case RCoordinated
  let ?parts = "components (trim_prefix ''/v2/instances/'' (hq_path rq))"
  let ?k = "case ag_operations s of None \<Rightarrow> writeError 503 ''coordination_unavailable''
      | Some m \<Rightarrow> serve_coordinated s m rq (hd ?parts) (tl ?parts)"
  show ?thesis
  proof (cases "length ?parts < 2 \<or> length ?parts > 3 \<or> hd ?parts \<noteq> ''primary''")
    case True
    with RCoordinated run show ?thesis
      by (auto simp: Handler_def coordinatedRequest_def Let_def dest: keepsD[OF process_writes(2)])
  next
    case False
    with RCoordinated run have r: "bindE (onW (authorized s rq (hd ?parts))) (\<lambda>admitted.
      if \<not> admitted then writeError 401 ''unauthorized'' else ?k) h = (r, h')"
      by (simp add: Handler_def coordinatedRequest_def Let_def)
    have "same_process h1 h' \<or> launched s rq (hd ?parts) h1 h'" if "?k h1 = (r, h')" for h1
      using that coordinated_launches[OF t] keepsD[OF process_writes(2)] by (cases "ag_operations s") auto
    from guarded_launches[OF r this] show ?thesis by blast
  qed
qed (use run in \<open>auto simp: Handler_def health_def dest: keepsD[OF process_writes(1)] keepsD[OF process_writes(2)] split: if_splits\<close>)

text \<open>C18: an operation starts only with authority. When a request leaves another goroutine behind, it was a
  \<open>POST\<close> that presented the control token of the instance, the instance had no operation running,
  exactly one goroutine was added and it is for that instance; and unless it is a verification,
  which changes nothing, the request presented an authorization code that is fresh: the code of
  a counter newer than every one used before, while nothing was locked out.\<close>

theorem operations_need_authority:
  assumes "Handler s rq h = (r, h')" and "ho_jobs h' \<noteq> ho_jobs h" and "trusted s"
  shows "\<exists>inst x j. token_admits s rq inst (ho_world h) \<and> hq_method rq = ''POST'' \<and> inst \<notin> set (ho_locked h) \<and>
    ho_jobs h' = ho_jobs h @ [(inst, x, j)] \<and> on_instance x = inst \<and>
    (j = RunVerify \<or> (\<exists>a sc. ag_authorization s = Some a \<and> code_fresh a inst sc (hq_code rq) (ho_world h)))"
proof -
  have "\<not> same_process h h'" using assms(2) by (simp add: same_process_def)
  with Handler_launches[OF assms(3,1)] obtain inst where
    "token_admits s rq inst (ho_world h)" and l: "launched s rq inst h h'" by blast
  moreover from l obtain j where "hq_method rq = ''POST''" "new_job inst j h h'"
    "j = RunVerify \<or> (\<exists>a sc. ag_authorization s = Some a \<and> code_fresh a inst sc (hq_code rq) (ho_world h))"
    unfolding launched_def by blast
  ultimately show ?thesis unfolding new_job_def by blast
qed

text \<open>C19: requests refine the manager. Whatever a request does to the process is a sequence of steps of the
  transition relation of the manager, so every invariant of its reachable states, that no instance
  ever has two operations among them, holds for a host that serves requests.\<close>

theorem requests_refine_steps:
  assumes "Handler s rq h = (r, h')" and "trusted s" and "ag_operations s = Some m" and "ag_authorization s \<in> {None, Some a}"
  shows "rtranclp (step m a) h h' \<and> (reachable m a h \<longrightarrow> reachable m a h' \<and> consistent h')"
proof
  show steps: "rtranclp (step m a) h h'"
    using Handler_launches[OF assms(2,1)]
  proof (elim disjE exE conjE)
    assume "same_process h h'"
    then show ?thesis using step.outside by blast
  next
    fix inst
    assume "launched s rq inst h h'"
    with assms(3,4) show ?thesis unfolding launched_def by auto
  qed
  show "reachable m a h \<longrightarrow> reachable m a h' \<and> consistent h'"
  proof
    assume "reachable m a h"
    with steps have "reachable m a h'" by (induction rule: rtranclp_induct) (auto intro: reachable.more)
    moreover have "services_keep same_process m" using assms(2,3) by (simp add: trusted_def)
    ultimately show "reachable m a h' \<and> consistent h'" using reachable_consistent by blast
  qed
qed

end
