(* ===== verification/AgentWitness.thy ===== *)
theory AgentWitness
  imports AgentSteps ManagerWitness
begin

text \<open>The theorems about the HTTP service applied to a host with a control token, and a body whose keys
  differ only in case.\<close>

definition ex_token :: string where
  "ex_token = replicate 43 CHR ''t''"

definition ex_bearer :: string where
  "ex_bearer = ''Bearer '' @ ex_token"

definition ex_agent :: "unit agent" where
  "ex_agent = \<lparr>ag_dir = Some ex_dir, ag_version = ''1.0.0'', ag_status = None, ag_operations = Some ex_manager,
     ag_authorization = Some ex_auth, ag_sha = id, ag_redirect = 307\<rparr>"

definition no_body :: http_body where
  "no_body = \<lparr>bd_size = 0, bd_broken = False, bd_values = Some []\<rparr>"

definition ex_verify :: "string \<Rightarrow> http_request" where
  "ex_verify bearer = \<lparr>hq_method = ''POST'', hq_path = ''/v1/instances/primary/verify'', hq_bearer = bearer, hq_code = [],
     hq_length = 0, hq_body = no_body\<rparr>"

definition token_world :: world where
  "token_world = ex_world [(ex_dir @ [''instances'', ''primary'', ''control.token''], ex_file 416 (Text ex_token)),
     ([], dir_node 493), (ex_dir, dir_node 448), (ex_dir @ [''instances''], dir_node 448),
     (ex_dir @ [''instances'', ''primary''], dir_node 448)]"

lemma ex_agent_simps [simp]: "ag_dir ex_agent = Some ex_dir" "ag_operations ex_agent = Some ex_manager"
  "ag_authorization ex_agent = Some ex_auth" "ag_sha ex_agent = id" "ag_status ex_agent = None"
  by (simp_all add: ex_agent_def)

lemma ex_agent_trusted: "trusted ex_agent"
  using ex_keeps[OF process.frame_axioms]
  by (simp add: trusted_def) (simp add: ex_manager_def ex_services_def reading.host.keeps_retE)

lemma ex_route: "mux_route (hq_method (ex_verify b)) (hq_path (ex_verify b)) = RInstance"
    "instanceEndpoint (hq_path (ex_verify b)) = Some (''primary'', ''verify'')"
proof -
  have "mux_route ''POST'' ''/v1/instances/primary/verify'' = RInstance"
    "instanceEndpoint ''/v1/instances/primary/verify'' = Some (''primary'', ''verify'')" by (code_simp, code_simp)
  then show "mux_route (hq_method (ex_verify b)) (hq_path (ex_verify b)) = RInstance"
    "instanceEndpoint (hq_path (ex_verify b)) = Some (''primary'', ''verify'')" by (simp_all add: ex_verify_def)
qed

section \<open>Strangers\<close>

theorem strangers_learn_nothing_witness:
  "same_files fresh_world (ho_world (snd (Handler ex_agent (ex_verify ''Bearer guess'') (ex_host fresh_world))))"
proof -
  let ?h = "ex_host fresh_world"
  let ?run = "Handler ex_agent (ex_verify ''Bearer guess'') ?h"
  have run: "?run = (fst ?run, snd ?run)" by simp
  have "look fresh_world (token_path ex_agent inst) = None" for inst
    by (simp add: fresh_world_def ex_world_def look_def token_path_def agent_dir_def ex_dir_def)
  then have "\<forall>inst. \<not> token_admits ex_agent (ex_verify ''Bearer guess'') inst (ho_world ?h)"
    by (simp add: token_admits_def ex_host_def)
  from strangers_learn_nothing[OF run this] show ?thesis by (simp add: ex_host_def)
qed

section \<open>A verification\<close>

abbreviation ex_verified :: "(err + http_response) \<times> unit host" where
  "ex_verified \<equiv> Handler ex_agent (ex_verify ex_bearer) (ex_host token_world)"

lemma ex_token_ok: "control_token_ok ex_token" "trim ex_token = ex_token"
  "trim_prefix ''Bearer '' ex_bearer = ex_token" "ex_token \<noteq> ex_bearer"
  by (code_simp, code_simp, code_simp, code_simp)

lemma verify_begins: "begins (token_world\<lparr>w_tick := 2\<rparr>)"
  by (simp add: begins_def ex_begun_def[THEN fun_cong] ex_projected_def[THEN fun_cong] lazy host_worlds token_world_def ex_newID
      head_roundtrip head_valid_def ready_def ex_queue_def ex_new_id_def ex_new_ids[unfolded ex_new_id_def] ex_world_def cong: lazy_cong)

lemma ex_admitted: "authorized ex_agent (ex_verify ex_bearer) ''primary'' token_world = (Inr True, token_world\<lparr>w_tick := 2\<rparr>)"
  by (simp add: authorized_def ex_verify_def ex_token_ok bindE_def tryE_def lstat_def read_file_def sys_def token_path_def
      agent_dir_def token_world_def ex_world_def look_def Let_def ex_file_def info_of_def token_unsafe_def content_text_def retE_def)

lemma ex_verify_launched: "ho_jobs (snd ex_verified) \<noteq> []"
proof -
  let ?h = "ex_host (token_world\<lparr>w_tick := 2\<rparr>)"
  let ?run = "StartVerify ex_manager ''primary'' ?h"
  have run: "?run = (fst ?run, snd ?run)" by simp
  obtain x where x: "fst ?run = Inr x" using start_runs_at[OF verify_begins] by (cases "fst ?run") auto
  have "keeps same_process (retE ())" "plain_accept None" by (simp_all add: process.keeps_retE plain_accept_def)
  from startAccepted_cases[OF run[unfolded StartVerify_def start_legacy_def] this] x
  have j: "ho_jobs (snd ?run) \<noteq> []" by (auto simp: StartVerify_def start_legacy_def)
  have "ex_verified = serve_endpoint ex_agent (ex_verify ex_bearer) ''primary'' ''verify'' ?h"
    using ex_admitted by (simp add: Handler_def ex_route instanceRequest_def bindE_def onW_def)
  also have "\<dots> = (case fst ?run of Inl e \<Rightarrow> start_error e | Inr x \<Rightarrow> writeJSON 202 (POperation x)) (snd ?run)"
    by (simp add: serve_endpoint_def bare_post_def startOperation_def ex_verify_def bindE_def tryE_def case_prod_unfold)
  finally show ?thesis using j x by (simp add: writeJSON_def retE_def)
qed

lemma no_empty_code: "generateCode f secret n \<noteq> Inr []"
  using nat_dec_not_empty by (auto simp: generateCode_def pad_dec_def split: option.splits)

theorem operations_need_authority_witness:
  "\<exists>inst x. token_admits ex_agent (ex_verify ex_bearer) inst token_world \<and>
    ho_jobs (snd ex_verified) = [(inst, x, RunVerify)]"
proof -
  have run: "ex_verified = (fst ex_verified, snd ex_verified)" by simp
  have start: "ho_jobs (ex_host token_world) = []" "ho_world (ex_host token_world) = token_world" by (simp_all add: ex_host_def)
  have no_code: "\<not> code_fresh ex_auth inst sc [] w" for inst sc w
  proof -
    have "False" if "attempt_at ex_auth inst d sc [] w1 x" "0 \<le> am_matched x" for d w1 x
      using that no_empty_code by (auto simp: attempt_at_def)
    then show ?thesis by (auto simp: code_fresh_def)
  qed
  from operations_need_authority[OF run _ ex_agent_trusted] ex_verify_launched start
  show ?thesis by (auto simp: ex_verify_def no_code)
qed

theorem requests_refine_steps_witness:
  "rtranclp (step ex_manager ex_auth) (ex_host token_world) (snd ex_verified)"
proof -
  have run: "ex_verified = (fst ex_verified, snd ex_verified)" by simp
  from requests_refine_steps[OF run ex_agent_trusted] show ?thesis by simp
qed

section \<open>Keys that differ in case\<close>

text \<open>\<open>decodeCoordinated\<close> looks for repeated keys and for literal decisions under the exact spelling, and
  \<open>encoding/json\<close> then fills a field from every spelling of its key: a body may say \<open>false\<close> under the
  exact key and be read as \<open>true\<close>.\<close>

definition variant_fields :: "(string \<times> json) list" where
  "variant_fields =
     [(''action'', JStr ''update''), (''plan_id'', JStr (replicate 32 CHR ''a'')), (''plan_sha256'', JStr (replicate 64 CHR ''a'')),
      (''expected_epoch'', JStr (replicate 32 CHR ''a'')), (''allow_maintenance'', JBool False),
      (''confirm_host_access'', JBool False), (''Confirm_Host_Access'', JBool True),
      (''client_request_id'', JStr ''00000000-0000-4000-8000-000000000000''),
      (''actor'', JObj [(''management_instance_id'', JStr ''00000000-0000-4000-8000-000000000000''), (''admin_id'', JNum 1),
         (''identity_sha256'', JStr (replicate 64 CHR ''a''))]), (''scope'', JStr ''updater:update'')]"

definition variant_body :: http_body where
  "variant_body = \<lparr>bd_size = 512, bd_broken = False, bd_values = Some [JObj variant_fields]\<rparr>"

definition variant_request :: submit_request where
  "variant_request =
     \<lparr>sr_action = ''update'', sr_plan = replicate 32 CHR ''a'', sr_plan_sha = replicate 64 CHR ''a'',
      sr_epoch = replicate 32 CHR ''a'', sr_allow_maintenance = False, sr_confirm_host = True,
      sr_request = ''00000000-0000-4000-8000-000000000000'',
      sr_actor = \<lparr>ac_management = ''00000000-0000-4000-8000-000000000000'', ac_admin = 1,
        ac_identity = replicate 64 CHR ''a''\<rparr>, sr_scope = ''updater:update''\<rparr>"

lemma variant_known: "known [''action'', ''plan_id'', ''plan_sha256'', ''expected_epoch'', ''allow_maintenance'',
    ''confirm_host_access'', ''client_request_id'', ''actor'', ''scope''] variant_fields"
  by code_simp

lemma variant_read:
  "field ''action'' dec_str variant_fields [] = Some (sr_action variant_request)"
  "field ''plan_id'' dec_str variant_fields [] = Some (sr_plan variant_request)"
  "field ''plan_sha256'' dec_str variant_fields [] = Some (sr_plan_sha variant_request)"
  "field ''expected_epoch'' dec_str variant_fields [] = Some (sr_epoch variant_request)"
  "field ''allow_maintenance'' dec_bool variant_fields False = Some (sr_allow_maintenance variant_request)"
  "field ''confirm_host_access'' dec_bool variant_fields False = Some (sr_confirm_host variant_request)"
  "field ''client_request_id'' dec_str variant_fields [] = Some (sr_request variant_request)"
  "field ''actor'' dec_actor variant_fields zero_actor = Some (sr_actor variant_request)"
  "field ''scope'' dec_str variant_fields [] = Some (sr_scope variant_request)"
  by (code_simp, code_simp, code_simp, code_simp, code_simp, code_simp, code_simp, code_simp, code_simp)

lemma variant_decodes: "submit_request_of_json (JObj variant_fields) = Some variant_request"
  by (simp add: submit_request_of_json_def variant_known variant_read del: field.simps)

lemma variant_checked: "uniqueJSON (JObj variant_fields)"
    "list_all (literal_bool variant_fields) [''allow_maintenance'', ''confirm_host_access'']"
    "submit_valid variant_request"
  by (simp add: variant_fields_def, simp add: variant_fields_def literal_bool_def, code_simp)

lemma case_variant_overrides:
  "map_of variant_fields ''confirm_host_access'' = Some (JBool False) \<and>
   submit_payload variant_body = Some variant_request \<and> sr_confirm_host variant_request"
proof -
  have "decodeCoordinated [''allow_maintenance'', ''confirm_host_access''] submit_request_of_json variant_body = Some variant_request"
    using variant_checked by (simp add: decodeCoordinated_def read_body_def variant_body_def variant_decodes)
  then show ?thesis
    using variant_checked by (simp add: submit_payload_def) (simp add: variant_fields_def variant_request_def)
qed

end
