(* ===== verification/Topology.thy ===== *)
theory Topology
  imports Managed PathText PointRecord
begin

text \<open>
  The computations of \<open>internal/deployment\<close> that touch nothing: slots and Compose topologies
  (\<open>topology.go\<close>), release environments (\<open>topology.go\<close>, \<open>service.go\<close>), and the reading of a
  process table (\<open>legacy_scheduler.go\<close>). A YAML document is the tree it decodes to, written as
  a \<open>json\<close> value; a map has every key once.
\<close>

section \<open>Slots\<close>

definition LayoutBlueGreen :: string where
  "LayoutBlueGreen = ''blue-green''"

definition validSlot :: "string \<Rightarrow> bool" where
  "validSlot s \<longleftrightarrow> s = ''blue'' \<or> s = ''green''"

definition otherSlot :: "string \<Rightarrow> string" where
  "otherSlot s = (if s = ''blue'' then ''green'' else ''blue'')"

lemma otherSlot_valid [simp]: "validSlot (otherSlot s)"
  by (simp add: validSlot_def otherSlot_def)

lemma otherSlot_involution: "validSlot s \<Longrightarrow> otherSlot (otherSlot s) = s \<and> otherSlot s \<noteq> s"
  by (auto simp: validSlot_def otherSlot_def)

section \<open>Names\<close>

text \<open>\<open>^[A-Za-z0-9][A-Za-z0-9_.-]*$\<close>\<close>

definition name_char :: "char \<Rightarrow> bool" where
  "name_char c \<longleftrightarrow> is_alnum c \<or> c = CHR ''_'' \<or> c = CHR ''.'' \<or> c = CHR ''-''"

definition compose_service_ok :: "string \<Rightarrow> bool" where
  "compose_service_ok s = (case s of [] \<Rightarrow> False | c # cs \<Rightarrow> is_alnum c \<and> list_all name_char cs)"

definition safeOperationID :: "string \<Rightarrow> bool" where
  "safeOperationID s \<longleftrightarrow> 0 < length s \<and> length s \<le> 100 \<and> list_all name_char s \<and> s \<noteq> ''.'' \<and> s \<noteq> ''..''"

definition inside :: "path \<Rightarrow> string \<Rightarrow> bool" where
  "inside d p = (case path_rel (path_text d) p of
       None \<Rightarrow> False
     | Some r \<Rightarrow> is_abs p \<and> r \<noteq> ''..'' \<and> \<not> has_prefix ''../'' r)"

section \<open>The strategy of a release\<close>

definition StrategyMaintenance :: string where
  "StrategyMaintenance = ''maintenance''"

definition StrategyOnline :: string where
  "StrategyOnline = ''online''"

definition releaseStrategy :: "release \<Rightarrow> string" where
  "releaseStrategy r = (case DecodeUpgradePlan (rl_plan r) of Inl _ \<Rightarrow> StrategyMaintenance | Inr p \<Rightarrow> up_strategy p)"

definition executionStrategy :: "release \<Rightarrow> bool \<Rightarrow> string" where
  "executionStrategy r drained = (if drained then StrategyMaintenance else releaseStrategy r)"

section \<open>Compose topologies\<close>

definition tree_del :: "string list \<Rightarrow> (string \<times> json) list \<Rightarrow> (string \<times> json) list" where
  "tree_del ks kvs = filter (\<lambda>(k, _). k \<notin> set ks) kvs"

definition tree_put :: "string \<Rightarrow> json \<Rightarrow> (string \<times> json) list \<Rightarrow> (string \<times> json) list" where
  "tree_put k v kvs = map_put k v kvs"

definition tree_puts :: "(string \<times> json) list \<Rightarrow> (string \<times> json) list \<Rightarrow> (string \<times> json) list" where
  "tree_puts news kvs = foldl (\<lambda>m (k, v). tree_put k v m) kvs news"

definition required_services :: "string list" where
  "required_services = [''postgres'', ''redis'', ''init'', ''app'', ''web'', ''queue'', ''knowledge-queue'', ''scheduler'', ''reverb'']"

definition is_map :: "json option \<Rightarrow> bool" where
  "is_map j = (case j of Some (JObj _) \<Rightarrow> True | _ \<Rightarrow> False)"

definition slot_environment :: "string \<Rightarrow> 64 word \<Rightarrow> (string \<times> json) list" where
  "slot_environment slot sq =
     [(''AUTO_MIGRATE'', JStr ''false''), (''AUTO_INSTALL_ONCE'', JStr ''false''), (''AUTO_OPTIMIZE'', JStr ''false''),
      (''AUTO_FIX_STORAGE_PERMISSIONS'', JStr ''false''),
      (''GEOFLOW_SECURITY_UPGRADE_DRAIN_CONFIRMED'', JStr ''false''),
      (''GEOFLOW_SECURITY_FRESH_INSTALL_CONFIRMED'', JStr ''false''),
      (''REVERB_SCALING_ENABLED'', JStr ''true''), (''VIEW_COMPILED_PATH'', JStr ''/var/www/html/bootstrap/cache/views''),
      (''GEOFLOW_DEPLOYMENT_SLOT'', JStr slot), (''GEOFLOW_RELEASE_SEQUENCE'', JStr (nat_dec (unat sq)))]"

definition views_volume :: "path \<Rightarrow> string \<Rightarrow> json" where
  "views_volume d slot = JStr (path_text (d @ [''slots'', slot, ''views'']) @ '':/var/www/html/bootstrap/cache/views'')"

definition data_service :: "string \<Rightarrow> (string \<times> json) list \<Rightarrow> json" where
  "data_service name kvs =
     JObj (tree_put ''networks'' (JObj [(''data'', JObj [(''aliases'', JArr [JStr name])])]) kvs)"

definition app_service :: "string \<Rightarrow> 64 word \<Rightarrow> path \<Rightarrow> string \<Rightarrow> (string \<times> json) list \<Rightarrow> json" where
  "app_service slot sq d name kvs =
     (let env = (case map_of kvs ''environment'' of Some (JObj e) \<Rightarrow> e | _ \<Rightarrow> []);
          vols = (case map_of kvs ''volumes'' of Some (JArr v) \<Rightarrow> v | _ \<Rightarrow> []);
          php = (name \<noteq> ''web'');
          s1 = (if php \<and> name \<noteq> ''app'' then tree_put ''user'' (JStr ''33:33'') kvs else kvs);
          s2 = (if php then tree_puts [(''volumes'', JArr (vols @ [views_volume d slot])),
                                       (''networks'', JObj [(''app'', JNull), (''data'', JNull)])] s1
                else tree_put ''networks'' (JObj [(''app'', JNull), (''edge'', JObj [(''aliases'', JArr [JStr (slot @ ''-web'')])])]) s1);
          s3 = tree_put ''environment'' (JObj (if php then tree_puts (slot_environment slot sq) env else env)) s2
      in JObj (if name = ''init'' then tree_put ''restart'' (JStr ''no'') s3 else s3))"

text \<open>The loop over the services; \<open>Inl\<close> is the error of the loop.\<close>

fun split_services ::
    "string \<Rightarrow> 64 word \<Rightarrow> path \<Rightarrow> (string \<times> json) list \<Rightarrow>
     (string \<times> json) list \<Rightarrow> (string \<times> json) list \<Rightarrow> err + (string \<times> json) list \<times> (string \<times> json) list" where
  "split_services slot sq d [] apps infra = Inr (apps, infra)"
| "split_services slot sq d ((name, v) # rest) apps infra =
     (case v of
        JObj kvs \<Rightarrow>
          if \<not> compose_service_ok name then Inl (Msg ''invalid signed Compose service'')
          else if name = ''system-update-queue'' then split_services slot sq d rest apps infra
          else
            (let s = tree_del [''container_name'', ''depends_on'', ''ports'', ''build''] kvs in
             if name = ''postgres'' \<or> name = ''redis''
             then split_services slot sq d rest apps (infra @ [(name, data_service name s)])
             else split_services slot sq d rest (apps @ [(name, app_service slot sq d name s)]) infra)
      | _ \<Rightarrow> Inl (Msg ''invalid signed Compose service''))"

definition app_document :: "string \<Rightarrow> string \<Rightarrow> (string \<times> json) list \<Rightarrow> json" where
  "app_document pre slot apps = JObj
     [(''name'', JStr (pre @ ''-'' @ slot)), (''services'', JObj apps),
      (''networks'', JObj
        [(''app'', JObj []),
         (''data'', JObj [(''external'', JBool True), (''name'', JStr (pre @ ''-data''))]),
         (''edge'', JObj [(''external'', JBool True), (''name'', JStr (pre @ ''-edge''))])])]"

definition edge_service :: "path \<Rightarrow> json" where
  "edge_service d = JObj
     [(''image'', JStr ''${GEOFLOW_WEB_IMAGE:?signed GEOFLOW_WEB_IMAGE is required}''),
      (''entrypoint'', JArr [JStr ''nginx'']),
      (''command'', JArr [JStr ''-c'', JStr ''/etc/geoflow/nginx.conf'', JStr ''-g'', JStr ''daemon off;'']),
      (''ports'', JArr [JStr ''${WEB_PORT:-18080}:80'']), (''restart'', JStr ''unless-stopped''),
      (''volumes'', JArr [JStr (path_text (d @ [''infra'', ''traffic'']) @ '':/etc/geoflow:ro''),
                          JStr (path_text (d @ [''assets'']) @ '':/srv/geoflow-assets:ro'')]),
      (''networks'', JObj [(''edge'', JNull)]),
      (''healthcheck'', JObj
        [(''test'', JArr [JStr ''CMD-SHELL'', JStr ''wget -q -O /dev/null http://127.0.0.1:8081/ready'']),
         (''interval'', JStr ''5s''), (''timeout'', JStr ''3s''), (''retries'', JNum 12)])]"

definition infra_document :: "string \<Rightarrow> path \<Rightarrow> (string \<times> json) list \<Rightarrow> json" where
  "infra_document pre d infra = JObj
     [(''name'', JStr (pre @ ''-infra'')), (''services'', JObj (tree_put ''edge'' (edge_service d) infra)),
      (''networks'', JObj [(''data'', JObj [(''name'', JStr (pre @ ''-data''))]),
                           (''edge'', JObj [(''name'', JStr (pre @ ''-edge''))])])]"

definition tree_services :: "(string \<times> json) list \<Rightarrow> (string \<times> json) list option" where
  "tree_services kvs = (case map_of kvs ''services'' of Some (JObj s) \<Rightarrow> Some s | _ \<Rightarrow> None)"

definition renderTopology :: "json option \<Rightarrow> config \<Rightarrow> string \<Rightarrow> path \<Rightarrow> err + json \<times> json" where
  "renderTopology template c slot d =
     (if \<not> validSlot slot \<or> \<not> instance_id_ok (cf_id c) then Inl (Msg ''invalid deployment slot or instance'')
      else case template of
        None \<Rightarrow> Inl (Msg ''yaml'')
      | Some doc \<Rightarrow>
          (case members doc of
             None \<Rightarrow> Inl (Msg ''yaml'')
           | Some top_kvs \<Rightarrow>
               (case tree_services top_kvs of
                  None \<Rightarrow> Inl (Msg ''signed Compose has no services'')
                | Some services \<Rightarrow>
                    (case filter (\<lambda>r. \<not> is_map (map_of services r)) required_services of
                       r # _ \<Rightarrow> Inl (Msg (''signed Compose is missing '' @ r))
                     | [] \<Rightarrow>
                         (case split_services slot (cf_release c) d services [] [] of
                            Inl e \<Rightarrow> Inl e
                          | Inr (apps, infra) \<Rightarrow>
                              Inr (app_document (''geoflow-'' @ cf_id c) slot apps,
                                   infra_document (''geoflow-'' @ cf_id c) d infra))))))"

section \<open>Release environments\<close>

text \<open>\<open>strings.Cut\<close> at the first \<open>=\<close>.\<close>

definition cut_eq :: "string \<Rightarrow> (string \<times> string) option" where
  "cut_eq s = (if CHR ''='' \<in> set s
     then Some (takeWhile (\<lambda>c. c \<noteq> CHR ''='') s, tl (dropWhile (\<lambda>c. c \<noteq> CHR ''='') s)) else None)"

definition is_quote :: "char \<Rightarrow> bool" where
  "is_quote c \<longleftrightarrow> c = CHR 0x22 \<or> c = CHR 0x27"

definition trim_quotes :: "string \<Rightarrow> string" where
  "trim_quotes s = rev (dropWhile is_quote (rev (dropWhile is_quote s)))"

definition newline :: char where
  "newline = CHR 0x0A"

definition control_char :: "char \<Rightarrow> bool" where
  "control_char c \<longleftrightarrow> c = CHR 0x0D \<or> c = newline \<or> c = CHR 0x00"

text \<open>The value of a key found so far.\<close>

fun environment_scan :: "string \<Rightarrow> string list \<Rightarrow> string option \<Rightarrow> err + string" where
  "environment_scan key [] found = Inr (case found of None \<Rightarrow> [] | Some v \<Rightarrow> v)"
| "environment_scan key (l # ls) found =
     (case cut_eq (trim l) of
        Some (name, raw) \<Rightarrow>
          if name \<noteq> key then environment_scan key ls found
          else if found \<noteq> None then Inl (Msg (''duplicate environment key '' @ key))
          else environment_scan key ls (Some (trim_quotes (trim raw)))
      | None \<Rightarrow> environment_scan key ls found)"

definition environmentValue :: "string \<Rightarrow> string \<Rightarrow> err + string" where
  "environmentValue contents key =
     (case environment_scan key (split_on newline [] contents) None of
        Inl e \<Rightarrow> Inl e
      | Inr v \<Rightarrow> if list_ex control_char v then Inl (Msg ''invalid environment value'') else Inr v)"

text \<open>\<open>bufio.Scanner\<close> over lines: a final newline ends the last line, a carriage return before the
  newline is dropped, and a line that does not fit the buffer of 64 KiB ends the scan.\<close>

definition drop_cr :: "string \<Rightarrow> string" where
  "drop_cr l = (if l \<noteq> [] \<and> last l = CHR 0x0D then butlast l else l)"

definition raw_lines :: "string \<Rightarrow> string list" where
  "raw_lines s = (let ls = split_on newline [] s in if last ls = [] then butlast ls else ls)"

fun replace_lines ::
    "(string \<times> string) list \<Rightarrow> string list \<Rightarrow> string list \<Rightarrow> string \<Rightarrow> err + string list \<times> string" where
  "replace_lines reps [] seen out = Inr (seen, out)"
| "replace_lines reps (l # ls) seen out =
     (if 65536 \<le> length l then Inl (Msg ''bufio.Scanner: token too long'')
      else case cut_eq (drop_cr l) of
        Some (key, _) \<Rightarrow>
          (case map_of reps key of
             Some value \<Rightarrow>
               if key \<in> set seen then Inl (Msg (''release environment contains duplicate key '' @ key))
               else replace_lines reps ls (key # seen) (out @ key @ ''='' @ value @ [newline])
           | None \<Rightarrow> replace_lines reps ls seen (out @ drop_cr l @ [newline]))
      | None \<Rightarrow> replace_lines reps ls seen (out @ drop_cr l @ [newline]))"

definition replaceEnvironmentValues :: "string \<Rightarrow> (string \<times> string) list \<Rightarrow> err + string" where
  "replaceEnvironmentValues contents reps =
     (case replace_lines reps (raw_lines contents) [] [] of
        Inl e \<Rightarrow> Inl e
      | Inr (seen, out) \<Rightarrow>
          if length seen \<noteq> length reps then Inl (Msg ''release environment is missing updater-managed keys'')
          else Inr out)"

section \<open>The process table of a scheduler\<close>

fun idle_rows :: "int \<Rightarrow> string list \<Rightarrow> bool \<Rightarrow> bool \<Rightarrow> err + bool" where
  "idle_rows parent [] found idle =
     (if \<not> found then Inl (Msg ''legacy scheduler spawner is missing'') else Inr idle)"
| "idle_rows parent (l # ls) found idle =
     (case GoText.fields l of
        [p, s] \<Rightarrow>
          (case parse_int p of
             None \<Rightarrow> Inl (Msg ''invalid scheduler process PID'')
           | Some pid \<Rightarrow>
               if pid < 1 then Inl (Msg ''invalid scheduler process PID'')
               else if pid = parent then
                 (if found \<or> \<not> has_prefix ''T'' s then Inl (Msg ''legacy scheduler spawner is not frozen'')
                  else idle_rows parent ls True idle)
               else idle_rows parent ls found (if has_prefix ''Z'' s then idle else False))
      | _ \<Rightarrow> Inl (Msg ''invalid scheduler process row''))"

definition legacySchedulerIdle :: "string \<Rightarrow> int \<Rightarrow> err + bool" where
  "legacySchedulerIdle processes parent =
     (let ls = split_on newline [] (trim processes) in
      if length ls < 2 \<or> GoText.fields (hd ls) \<noteq> [''PID'', ''STAT'']
      then Inl (Msg ''cannot establish legacy scheduler process state'')
      else idle_rows parent (tl ls) False True)"

end
