(* ===== verification/TopologyLaws.thy ===== *)
theory TopologyLaws
  imports Topology
begin

text \<open>What the computations of \<open>Topology\<close> guarantee: a rendered topology is isolated and inert, a
  replaced release environment reads back as the pins of the release, and a scheduler counts as
  idle only when its frozen parent is alone.\<close>

section \<open>Topologies\<close>

text \<open>Walking down a document.\<close>

fun tree_get :: "string list \<Rightarrow> json \<Rightarrow> json option" where
  "tree_get [] j = Some j"
| "tree_get (k # ks) j = (case j of JObj kvs \<Rightarrow> Option.bind (map_of kvs k) (tree_get ks) | _ \<Rightarrow> None)"

lemma map_of_map_put [simp]: "map_of (map_put k v m) k' = (if k' = k then Some v else map_of m k')"
proof -
  have "map_of (filter (\<lambda>(k', _). k' \<noteq> k) m) k' = (if k' = k then None else map_of m k')"
    by (induction m) auto
  then show ?thesis by (simp add: map_put_def map_add_def split: option.splits)
qed

lemma tree_put_get [simp]: "map_of (tree_put k v m) k' = (if k' = k then Some v else map_of m k')"
  by (simp add: tree_put_def)

lemma tree_del_get [simp]: "map_of (tree_del ks m) k = (if k \<in> set ks then None else map_of m k)"
  by (induction m) (auto simp: tree_del_def)

lemma tree_puts_keep: "k \<notin> fst ` set news \<Longrightarrow> map_of (tree_puts news m) k = map_of m k"
  by (induction news arbitrary: m) (auto simp: tree_puts_def)

lemma tree_puts_get: "distinct (map fst news) \<Longrightarrow> (k, v) \<in> set news \<Longrightarrow> map_of (tree_puts news m) k = Some v"
proof (induction news arbitrary: m)
  case (Cons n ns)
  show ?case
  proof (cases "(k, v) = n")
    case True
    with Cons.prems(1) have "k \<notin> fst ` set ns" by force
    with True show ?thesis using tree_puts_keep[of k ns "tree_put k v m"] by (auto simp: tree_puts_def)
  next
    case False
    with Cons show ?thesis by (cases n) (auto simp: tree_puts_def)
  qed
qed simp

definition inert_keys :: "string list" where
  "inert_keys = [''AUTO_MIGRATE'', ''AUTO_INSTALL_ONCE'', ''AUTO_OPTIMIZE'', ''AUTO_FIX_STORAGE_PERMISSIONS'',
     ''GEOFLOW_SECURITY_UPGRADE_DRAIN_CONFIRMED'', ''GEOFLOW_SECURITY_FRESH_INSTALL_CONFIRMED'']"

text \<open>What one service of a slot may be.\<close>

definition slot_service_ok :: "string \<Rightarrow> string \<Rightarrow> json \<Rightarrow> bool" where
  "slot_service_ok slot name s \<longleftrightarrow>
     (\<forall>k \<in> {''container_name'', ''depends_on'', ''ports'', ''build''}. tree_get [k] s = None) \<and>
     (if name = ''web''
      then tree_get [''networks''] s = Some (JObj [(''app'', JNull), (''edge'', JObj [(''aliases'', JArr [JStr (slot @ ''-web'')])])])
      else tree_get [''networks''] s = Some (JObj [(''app'', JNull), (''data'', JNull)]) \<and>
           tree_get [''environment'', ''GEOFLOW_DEPLOYMENT_SLOT''] s = Some (JStr slot) \<and>
           (\<forall>k \<in> set inert_keys. tree_get [''environment'', k] s = Some (JStr ''false'')))"

lemma slot_environment_distinct: "distinct (map fst (slot_environment slot sq))"
  by (simp add: slot_environment_def)

lemma app_service_ok:
  assumes "\<forall>k \<in> {''container_name'', ''depends_on'', ''ports'', ''build''}. map_of kvs k = None"
  shows "slot_service_ok slot name (app_service slot sq d name kvs)"
proof -
  define vols where "vols = (case map_of kvs ''volumes'' of Some (JArr v) \<Rightarrow> v | _ \<Rightarrow> [])"
  define env where "env = (case map_of kvs ''environment'' of Some (JObj e) \<Rightarrow> e | _ \<Rightarrow> [])"
  let ?se = "slot_environment slot sq"
  have puts: "map_of (tree_puts [(''volumes'', v), (''networks'', n)] m) k =
      (if k = ''networks'' then Some n else if k = ''volumes'' then Some v else map_of m k)" for v n m k
    by (simp add: tree_puts_def)
  have slotv: "map_of (tree_puts ?se env) ''GEOFLOW_DEPLOYMENT_SLOT'' = Some (JStr slot)"
    by (rule tree_puts_get[OF slot_environment_distinct]) (simp add: slot_environment_def)
  have inert: "map_of (tree_puts ?se env) k = Some (JStr ''false'')" if "k \<in> set inert_keys" for k
    by (rule tree_puts_get[OF slot_environment_distinct])
       (use that in \<open>auto simp: inert_keys_def slot_environment_def\<close>)
  show ?thesis
    using assms slotv inert
    unfolding slot_service_ok_def app_service_def Let_def env_def[symmetric] vols_def[symmetric]
    by (cases "name = ''web''"; cases "name = ''app''"; cases "name = ''init''") (simp_all add: puts)
qed

lemma split_services_ok:
  assumes "split_services slot sq d ss apps infra = Inr (apps', infra')"
    and "\<forall>(n, s) \<in> set apps. n \<notin> {''postgres'', ''redis'', ''system-update-queue''} \<and> slot_service_ok slot n s"
    and "\<forall>(n, s) \<in> set infra. n \<in> {''postgres'', ''redis''} \<and> tree_get [''ports''] s = None"
  shows "(\<forall>(n, s) \<in> set apps'. n \<notin> {''postgres'', ''redis'', ''system-update-queue''} \<and> slot_service_ok slot n s) \<and>
    (\<forall>(n, s) \<in> set infra'. n \<in> {''postgres'', ''redis''} \<and> tree_get [''ports''] s = None)"
  using assms
proof (induction slot sq d ss apps infra rule: split_services.induct)
  case (2 slot sq d name v rest apps infra)
  from "2.prems"(1) obtain kvs where v: "v = JObj kvs" by (cases v) auto
  let ?s = "tree_del [''container_name'', ''depends_on'', ''ports'', ''build''] kvs"
  have ok: "slot_service_ok slot name (app_service slot sq d name ?s)" by (rule app_service_ok) auto
  have ports: "tree_get [''ports''] (data_service name ?s) = None" by (simp add: data_service_def)
  from "2.prems"(1) v have name: "compose_service_ok name" by (auto split: if_splits)
  consider "name = ''system-update-queue''" | "name \<noteq> ''system-update-queue''" "name = ''postgres'' \<or> name = ''redis''" |
      "name \<noteq> ''system-update-queue''" "name \<noteq> ''postgres''" "name \<noteq> ''redis''" by blast
  then show ?case
  proof cases
    case 1
    with "2.IH"(1)[OF v] "2.prems" v name show ?thesis by simp
  next
    case 2
    have "split_services slot sq d rest apps (infra @ [(name, data_service name ?s)]) = Inr (apps', infra')"
      using 2 "2.prems"(1) v name by (simp add: Let_def split: if_splits)
    from "2.IH"(2)[OF v _ 2(1) refl 2(2) this "2.prems"(2)] "2.prems"(3) name ports 2(2) show ?thesis by fastforce
  next
    case 3
    have "split_services slot sq d rest (apps @ [(name, app_service slot sq d name ?s)]) infra = Inr (apps', infra')"
      using 3 "2.prems"(1) v name by (simp add: Let_def)
    from "2.IH"(3)[OF v _ 3(1) refl _ this _ "2.prems"(3)] "2.prems"(2) name ok 3 show ?thesis by fastforce
  qed
qed simp

text \<open>CX: a rendered topology is isolated. Whatever the signed template holds, the project of a slot
  contains no database and no queue, and none of its services publishes a port, has a fixed
  container name or builds an image; only the web server is on the edge network, under the name
  of its slot, every PHP service belongs to the slot and migrates, installs and confirms nothing
  by itself; and the infrastructure consists of the databases, without ports, and the edge.\<close>

theorem topology_is_isolated:
  assumes "renderTopology template c slot d = Inr (app, infra)"
  shows "tree_get [''name''] app = Some (JStr (''geoflow-'' @ cf_id c @ ''-'' @ slot)) \<and> validSlot slot \<and>
    (\<forall>n s. tree_get [''services'', n] app = Some s \<longrightarrow>
       n \<notin> {''postgres'', ''redis'', ''system-update-queue''} \<and> slot_service_ok slot n s) \<and>
    (\<forall>n s. tree_get [''services'', n] infra = Some s \<longrightarrow>
       n = ''edge'' \<and> s = edge_service d \<or> n \<in> {''postgres'', ''redis''} \<and> tree_get [''ports''] s = None)"
proof -
  from assms have slot: "validSlot slot" by (auto simp: renderTopology_def split: if_splits)
  from assms obtain services apps infras where
      s: "split_services slot (cf_release c) d services [] [] = Inr (apps, infras)"
    and app: "app = app_document (''geoflow-'' @ cf_id c) slot apps"
    and infra: "infra = infra_document (''geoflow-'' @ cf_id c) d infras"
    by (auto simp: renderTopology_def split: if_splits option.splits list.splits sum.splits)
  from split_services_ok[OF s] have ok:
    "\<forall>(n, s) \<in> set apps. n \<notin> {''postgres'', ''redis'', ''system-update-queue''} \<and> slot_service_ok slot n s"
    "\<forall>(n, s) \<in> set infras. n \<in> {''postgres'', ''redis''} \<and> tree_get [''ports''] s = None" by auto
  have apps: "n \<notin> {''postgres'', ''redis'', ''system-update-queue''} \<and> slot_service_ok slot n s"
    if "map_of apps n = Some s" for n s
    using map_of_SomeD[OF that] ok(1) by fast
  have infras: "n \<in> {''postgres'', ''redis''} \<and> tree_get [''ports''] s = None" if "map_of infras n = Some s" for n s
    using map_of_SomeD[OF that] ok(2) by fast
  have "tree_get [''services'', n] app = map_of apps n" "tree_get [''name''] app = Some (JStr (''geoflow-'' @ cf_id c @ ''-'' @ slot))"
    "tree_get [''services'', n] infra = (if n = ''edge'' then Some (edge_service d) else map_of infras n)" for n
    by (cases "map_of apps n", simp_all add: app infra app_document_def infra_document_def) (cases "map_of infras n", simp_all)
  with apps infras slot show ?thesis by (simp split: if_splits)
qed

section \<open>Release environments\<close>

lemma cut_eq_append: "CHR ''='' \<notin> set k \<Longrightarrow> cut_eq (k @ ''='' @ v) = Some (k, v)"
  by (simp add: cut_eq_def takeWhile_append dropWhile_append)

lemma cut_eq_Some: "cut_eq l = Some (k, raw) \<Longrightarrow> l = k @ ''='' @ raw \<and> CHR ''='' \<notin> set k"
proof -
  assume a: "cut_eq l = Some (k, raw)"
  then have e: "CHR ''='' \<in> set l" "k = takeWhile (\<lambda>c. c \<noteq> CHR ''='') l" "raw = tl (dropWhile (\<lambda>c. c \<noteq> CHR ''='') l)"
    by (auto simp: cut_eq_def split: if_splits)
  obtain x xs where d: "dropWhile (\<lambda>c. c \<noteq> CHR ''='') l = x # xs"
    using e(1) by (cases "dropWhile (\<lambda>c. c \<noteq> CHR ''='') l") (auto simp: dropWhile_eq_Nil_conv)
  have "x = CHR ''=''" using d hd_dropWhile[of "\<lambda>c. c \<noteq> CHR ''=''" l] by auto
  then have "dropWhile (\<lambda>c. c \<noteq> CHR ''='') l = ''='' @ raw" using d e(3) by simp
  then have "l = k @ ''='' @ raw" using e(2) takeWhile_dropWhile_id[of "\<lambda>c. c \<noteq> CHR ''=''" l] by simp
  moreover have "CHR ''='' \<notin> set k" using e(2) by (auto dest: set_takeWhileD)
  ultimately show ?thesis by simp
qed

lemma environment_scan_value:
  assumes "environment_scan key ls found = Inr x" and "l \<in> set ls" and "cut_eq (trim l) = Some (key, raw)"
  shows "found = None \<and> x = trim_quotes (trim raw)"
  using assms
proof (induction key ls found rule: environment_scan.induct)
  case (2 key l' ls found)
  have later: "environment_scan key ms (Some v) = Inr x \<Longrightarrow>
      x = v \<and> (\<forall>l \<in> set ms. \<forall>raw. cut_eq (trim l) \<noteq> Some (key, raw))" for ms v
    by (induction ms) (auto split: option.splits if_splits)
  show ?case
  proof (cases "l = l'")
    case True
    with "2.prems"(1,3) have "found = None" "environment_scan key ls (Some (trim_quotes (trim raw))) = Inr x"
      by (auto split: if_splits)
    with later show ?thesis by blast
  next
    case False
    with "2.prems"(2) have l: "l \<in> set ls" by simp
    show ?thesis
    proof (cases "\<exists>b. cut_eq (trim l') = Some (key, b)")
      case True
      with "2.prems"(1) later l "2.prems"(3) show ?thesis by (auto split: if_splits)
    next
      case False
      with "2.IH" "2.prems"(1,3) l show ?thesis by (auto split: option.splits)
    qed
  qed
qed simp

text \<open>One line after the replacement.\<close>

definition replaced :: "(string \<times> string) list \<Rightarrow> string \<Rightarrow> string" where
  "replaced reps l = (case cut_eq l of
     Some (k, _) \<Rightarrow> (case map_of reps k of Some v \<Rightarrow> k @ ''='' @ v | None \<Rightarrow> l) | None \<Rightarrow> l)"

definition pin_of :: "(string \<times> string) list \<Rightarrow> string \<Rightarrow> string list" where
  "pin_of reps l = (case cut_eq l of Some (k, _) \<Rightarrow> if map_of reps k = None then [] else [k] | None \<Rightarrow> [])"

definition plain_lines :: "string list \<Rightarrow> bool" where
  "plain_lines ls \<longleftrightarrow> list_all (\<lambda>l. CHR 0x0D \<notin> set l \<and> newline \<notin> set l) ls"

lemma drop_cr_plain [simp]: "CHR 0x0D \<notin> set l \<Longrightarrow> drop_cr l = l"
  by (auto simp: drop_cr_def dest: last_in_set)

lemma replace_lines_iff:
  assumes "plain_lines ls" and "distinct seen"
  shows "replace_lines reps ls seen out = Inr (seen', out') \<longleftrightarrow>
     list_all (\<lambda>l. length l < 65536) ls \<and> distinct (concat (map (pin_of reps) ls)) \<and>
     set (concat (map (pin_of reps) ls)) \<inter> set seen = {} \<and>
     seen' = rev (concat (map (pin_of reps) ls)) @ seen \<and>
     out' = out @ concat (map (\<lambda>l. replaced reps l @ [newline]) ls)"
  using assms
proof (induction ls arbitrary: seen out)
  case (Cons l ls)
  then have l: "drop_cr l = l" and ls: "plain_lines ls" by (simp_all add: plain_lines_def)
  show ?case
  proof (cases "65536 \<le> length l")
    case True
    then show ?thesis by auto
  next
    case False
    note small = this
    show ?thesis
    proof (cases "pin_of reps l")
      case Nil
      then have "replace_lines reps (l # ls) seen out = replace_lines reps ls seen (out @ l @ [newline])" "replaced reps l = l"
        using small l by (auto simp: pin_of_def replaced_def split: option.splits if_splits)
      then show ?thesis using Cons.IH[OF ls Cons.prems(2)] small Nil by auto
    next
      case (Cons k ks)
      then obtain raw v where k: "cut_eq l = Some (k, raw)" "map_of reps k = Some v" and ks: "ks = []"
        by (auto simp: pin_of_def split: option.splits if_splits)
      have r: "replaced reps l = k @ ''='' @ v" using k by (simp add: replaced_def)
      show ?thesis
      proof (cases "k \<in> set seen")
        case True
        then show ?thesis using small l k Cons by auto
      next
        case False
        then have step: "replace_lines reps (l # ls) seen out = replace_lines reps ls (k # seen) (out @ k @ ''='' @ v @ [newline])"
          using small l k by simp
        have "distinct (k # seen)" using False Cons.prems(2) by simp
        from Cons.IH[OF ls this] step show ?thesis using small Cons ks r False by auto
      qed
    qed
  qed
qed auto

lemma split_on_plain: "x \<notin> set s \<Longrightarrow> split_on x acc (s @ x # t) = (acc @ s) # split_on x [] t"
  by (induction s arbitrary: acc) auto

lemma split_on_lines:
  "\<forall>l \<in> set ls. newline \<notin> set l \<Longrightarrow> split_on newline [] (concat (map (\<lambda>l. l @ [newline]) ls)) = ls @ [[]]"
  by (induction ls) (simp_all add: split_on_plain)

lemma split_on_no_sep: "set (concat (split_on x acc s)) \<subseteq> set acc \<union> set s - {x} \<union> set acc"
  by (induction x acc s rule: split_on.induct) (auto split: if_splits)

lemma split_on_set: "l \<in> set (split_on x acc s) \<Longrightarrow> x \<notin> set acc \<Longrightarrow> x \<notin> set l \<and> set l \<subseteq> set acc \<union> set s"
  by (induction x acc s rule: split_on.induct) (auto split: if_splits)

lemma raw_lines_plain: "CHR 0x0D \<notin> set s \<Longrightarrow> plain_lines (raw_lines s)"
proof -
  assume cr: "CHR 0x0D \<notin> set s"
  have "set (raw_lines s) \<subseteq> set (split_on newline [] s)"
    by (auto simp: raw_lines_def Let_def dest: in_set_butlastD)
  then have "CHR 0x0D \<notin> set l \<and> newline \<notin> set l" if "l \<in> set (raw_lines s)" for l
    using that split_on_set[of l newline "[]" s] cr by auto
  then show ?thesis by (auto simp: plain_lines_def list_all_iff)
qed

lemma raw_lines_of_lines:
  "\<forall>l \<in> set ls. newline \<notin> set l \<Longrightarrow> raw_lines (concat (map (\<lambda>l. l @ [newline]) ls)) = ls"
  by (simp add: raw_lines_def split_on_lines)

definition pins_clean :: "(string \<times> string) list \<Rightarrow> bool" where
  "pins_clean reps \<longleftrightarrow> distinct (map fst reps) \<and>
     (\<forall>(k, v) \<in> set reps. length (k @ ''='' @ v) < 65536 \<and> list_all (\<lambda>c. \<not> is_space c \<and> \<not> is_quote c \<and> c \<noteq> CHR 0x00) (k @ v))"

lemma space_chars: "is_space newline" "is_space (CHR 0x0D)"
  by (simp_all add: is_space_def code_def newline_def)

lemma pins_cleanD:
  assumes "pins_clean reps" and "map_of reps k = Some v"
  shows "length (k @ ''='' @ v) < 65536" "list_all (\<lambda>c. \<not> is_space c) (k @ v)" "list_all (\<lambda>c. \<not> is_quote c) v"
    "CHR 0x0D \<notin> set (k @ v)" "newline \<notin> set (k @ v)" "\<not> list_ex control_char v"
proof -
  from assms have kv: "length (k @ ''='' @ v) < 65536 \<and> list_all (\<lambda>c. \<not> is_space c \<and> \<not> is_quote c \<and> c \<noteq> CHR 0x00) (k @ v)"
    by (auto simp: pins_clean_def dest: map_of_SomeD)
  then show "length (k @ ''='' @ v) < 65536" by simp
  from kv show "list_all (\<lambda>c. \<not> is_space c) (k @ v)" "list_all (\<lambda>c. \<not> is_quote c) v" by (auto simp: list_all_iff)
  from kv show "CHR 0x0D \<notin> set (k @ v)" "newline \<notin> set (k @ v)" using space_chars by (auto simp: list_all_iff)
  from kv show "\<not> list_ex control_char v" using space_chars
    by (auto simp: list_all_iff list_ex_iff control_char_def)
qed

lemma replaced_pins_all:
  assumes "pins_clean reps" and "CHR 0x0D \<notin> set l \<and> newline \<notin> set l \<and> length l < 65536"
  shows "CHR 0x0D \<notin> set (replaced reps l) \<and> newline \<notin> set (replaced reps l) \<and> length (replaced reps l) < 65536 \<and>
      pin_of reps (replaced reps l) = pin_of reps l \<and> replaced reps (replaced reps l) = replaced reps l"
proof (cases "cut_eq l")
  case None
  then show ?thesis using assms by (simp add: replaced_def)
next
  case (Some p)
  then obtain k raw where k: "cut_eq l = Some (k, raw)" by (cases p) auto
  show ?thesis
  proof (cases "map_of reps k")
    case None
    then show ?thesis using k assms by (simp add: replaced_def)
  next
    case (Some v)
    have "cut_eq (k @ ''='' @ v) = Some (k, v)" using cut_eq_Some[OF k] by (intro cut_eq_append) simp
    moreover have "newline \<noteq> CHR ''=''" by (simp add: newline_def)
    ultimately show ?thesis using k Some pins_cleanD[OF assms(1) Some] by (auto simp: replaced_def pin_of_def)
  qed
qed

lemmas replaced_pins = replaced_pins_all[THEN conjunct1] replaced_pins_all[THEN conjunct2, THEN conjunct1]
  replaced_pins_all[THEN conjunct2, THEN conjunct2, THEN conjunct1]
  replaced_pins_all[THEN conjunct2, THEN conjunct2, THEN conjunct2, THEN conjunct1]
  replaced_pins_all[THEN conjunct2, THEN conjunct2, THEN conjunct2, THEN conjunct2]

lemma trim_quotes_id: "list_all (\<lambda>c. \<not> is_quote c) s \<Longrightarrow> trim_quotes s = s"
proof -
  assume s: "list_all (\<lambda>c. \<not> is_quote c) s"
  have "dropWhile is_quote t = t" if "list_all (\<lambda>c. \<not> is_quote c) t" for t using that by (cases t) auto
  from this[OF s] this[of "rev s"] s show ?thesis by (simp add: trim_quotes_def list_all_iff)
qed

text \<open>CX: the pins of a release take effect. When the values of a release environment were replaced,
  reading a replaced key gives the pinned value, or an error that it is there twice, and never
  another value; and replacing the same values again changes nothing, which is how an enrolled
  release is recognized.\<close>

theorem pins_take_effect:
  assumes "replaceEnvironmentValues contents reps = Inr out" and "pins_clean reps" and "CHR 0x0D \<notin> set contents"
  shows "(\<forall>(k, v) \<in> set reps. environmentValue out k \<in> {Inr v, Inl (Msg (''duplicate environment key '' @ k))}) \<and>
    replaceEnvironmentValues out reps = Inr out"
proof -
  let ?ls = "raw_lines contents" and ?pins = "concat (map (pin_of reps) (raw_lines contents))"
  let ?rs = "map (replaced reps) ?ls"
  have plain: "plain_lines ?ls" by (rule raw_lines_plain[OF assms(3)])
  from assms(1) obtain seen where s: "replace_lines reps ?ls [] [] = Inr (seen, out)" and len: "length seen = length reps"
    by (auto simp: replaceEnvironmentValues_def split: sum.splits prod.splits if_splits)
  from s replace_lines_iff[OF plain, of "[]" reps "[]" seen out] have ls: "list_all (\<lambda>l. length l < 65536) ?ls" "distinct ?pins"
    and seen: "seen = rev ?pins" and out: "out = concat (map (\<lambda>l. l @ [newline]) ?rs)" by (auto simp: comp_def)
  have line: "CHR 0x0D \<notin> set l \<and> newline \<notin> set l \<and> length l < 65536" if "l \<in> set ?ls" for l
    using that plain ls(1) by (auto simp: plain_lines_def list_all_iff)
  note rep = replaced_pins[OF assms(2) line]
  have nl: "\<forall>l \<in> set ?rs. newline \<notin> set l" using rep(2) by auto
  have pins: "concat (map (pin_of reps) ?rs) = ?pins" using rep(4) by (simp add: comp_def cong: map_cong)
  have twice: "map (replaced reps) ?rs = ?rs" using rep(5) by (simp cong: map_cong)
  have "plain_lines ?rs" "list_all (\<lambda>l. length l < 65536) ?rs" using rep(1-3) by (auto simp: plain_lines_def list_all_iff)
  moreover have "concat (map (\<lambda>l. replaced reps l @ [newline]) ?rs) = out"
    using arg_cong[OF twice, of "\<lambda>ls. concat (map (\<lambda>l. l @ [newline]) ls)"] out by (simp add: comp_def)
  ultimately have "replace_lines reps ?rs [] [] = Inr (seen, out)"
    unfolding replace_lines_iff[OF \<open>plain_lines ?rs\<close> distinct.simps(1)[THEN iffD2, OF TrueI]] pins using ls(2) seen by simp
  then have again: "replaceEnvironmentValues out reps = Inr out"
    using raw_lines_of_lines[OF nl] out len by (simp add: replaceEnvironmentValues_def)
  have "environmentValue out k \<in> {Inr v, Inl (Msg (''duplicate environment key '' @ k))}" if kv: "(k, v) \<in> set reps" for k v
  proof -
    have d: "distinct (map fst reps)" using assms(2) by (simp add: pins_clean_def)
    then have m: "map_of reps k = Some v" using kv by simp
    have "set ?pins \<subseteq> set (map fst reps)"
      by (auto simp: pin_of_def split: option.splits if_splits dest: map_of_SomeD) (metis domI dom_map_of_conv_image_fst)
    moreover have "card (set ?pins) = card (set (map fst reps))"
      using len seen ls(2) d by (metis distinct_card length_map length_rev)
    ultimately have "set ?pins = set (map fst reps)" by (intro card_subset_eq) simp_all
    then have "k \<in> set ?pins" using kv by force
    then obtain l where l: "l \<in> set ?ls" "k \<in> set (pin_of reps l)" by auto
    then have "\<exists>raw. cut_eq l = Some (k, raw)" by (cases "cut_eq l") (auto simp: pin_of_def split: if_splits)
    then obtain raw where "cut_eq l = Some (k, raw)" by blast
    then have r: "replaced reps l = k @ ''='' @ v" and keq: "CHR ''='' \<notin> set k"
      using m cut_eq_Some by (auto simp: replaced_def)
    note c = pins_cleanD[OF assms(2) m]
    have "trim (k @ ''='' @ v) = k @ ''='' @ v" using c(2) by (intro trim_id) (auto simp: list_all_iff is_space_def code_def)
    then have cut: "cut_eq (trim (replaced reps l)) = Some (k, v)" using r keq cut_eq_append by simp
    have "split_on newline [] out = ?rs @ [[]]" using split_on_lines[OF nl] out by simp
    moreover have "replaced reps l \<in> set (?rs @ [[]])" using l by simp
    moreover have "trim v = v" using c(2) by (intro trim_id) (auto simp: list_all_iff)
    moreover have "environment_scan k ls f = Inl e \<Longrightarrow> e = Msg (''duplicate environment key '' @ k)" for ls f e
      by (induction k ls f rule: environment_scan.induct) (auto split: option.splits if_splits)
    ultimately show ?thesis
      using environment_scan_value[OF _ _ cut, of "?rs @ [[]]" None] c(3,6) trim_quotes_id[of v]
      by (cases "environment_scan k (?rs @ [[]]) None") (auto simp: environmentValue_def)
  qed
  with again show ?thesis by blast
qed

section \<open>Idle schedulers\<close>

definition table_rows :: "string list \<Rightarrow> (int option \<times> string) list" where
  "table_rows ls = map (\<lambda>l. (parse_int (hd (GoText.fields l)), last (GoText.fields l))) ls"

definition others_gone :: "int \<Rightarrow> (int option \<times> string) list \<Rightarrow> bool" where
  "others_gone parent rows \<longleftrightarrow> (\<forall>(p, s) \<in> set rows. p \<noteq> Some parent \<longrightarrow> has_prefix ''Z'' s)"

lemma idle_rows_sound:
  assumes "idle_rows parent ls found idle = Inr res"
  shows "length (filter (\<lambda>(p, s). p = Some parent) (table_rows ls)) = (if found then 0 else 1) \<and>
    (\<forall>(p, s) \<in> set (table_rows ls). (\<exists>i \<ge> 1. p = Some i) \<and> (p = Some parent \<longrightarrow> has_prefix ''T'' s)) \<and>
    res = (idle \<and> others_gone parent (table_rows ls))"
  using assms
proof (induction parent ls found idle rule: idle_rows.induct)
  case (1 parent found idle)
  then show ?case by (auto simp: table_rows_def others_gone_def split: if_splits)
next
  case (2 parent l ls found idle)
  from "2.prems" obtain p s pid where f: "GoText.fields l = [p, s]" "parse_int p = Some pid" "1 \<le> pid"
    by (auto split: list.splits option.splits if_splits)
  show ?case
  proof (cases "pid = parent")
    case True
    with "2.prems" f have c: "\<not> found" "has_prefix ''T'' s" "idle_rows parent ls True idle = Inr res"
      by (auto split: if_splits)
    from "2.IH"(1)[OF f(1) _ _ f(2)] have "length (filter (\<lambda>(p, s). p = Some parent) (table_rows ls)) = 0 \<and>
        (\<forall>(p, s) \<in> set (table_rows ls). (\<exists>i \<ge> 1. p = Some i) \<and> (p = Some parent \<longrightarrow> has_prefix ''T'' s)) \<and>
        res = (idle \<and> others_gone parent (table_rows ls))"
      using True f c by auto
    then show ?thesis using True f c by (auto simp: table_rows_def others_gone_def)
  next
    case False
    with "2.prems" f have r: "idle_rows parent ls found (if has_prefix ''Z'' s then idle else False) = Inr res" by simp
    from "2.IH"(2)[OF f(1) _ _ f(2)] have "length (filter (\<lambda>(p, s). p = Some parent) (table_rows ls)) = (if found then 0 else 1) \<and>
        (\<forall>(p, s) \<in> set (table_rows ls). (\<exists>i \<ge> 1. p = Some i) \<and> (p = Some parent \<longrightarrow> has_prefix ''T'' s)) \<and>
        res = ((if has_prefix ''Z'' s then idle else False) \<and> others_gone parent (table_rows ls))"
      using False f r by auto
    then show ?thesis using False f by (auto simp: table_rows_def others_gone_def split: if_splits)
  qed
qed

text \<open>CX: a scheduler is idle only when its frozen parent is alone. When the process table of the
  scheduler is accepted, exactly one row is its parent, that one is stopped, and the answer is
  whether every other process is a zombie.\<close>

theorem idle_means_alone:
  assumes "legacySchedulerIdle processes parent = Inr idle"
  shows "\<exists>rows. rows = table_rows (tl (split_on newline [] (trim processes))) \<and>
    length (filter (\<lambda>(p, s). p = Some parent) rows) = 1 \<and>
    (\<forall>s. (Some parent, s) \<in> set rows \<longrightarrow> has_prefix ''T'' s) \<and> (idle \<longleftrightarrow> others_gone parent rows)"
proof -
  from assms have "idle_rows parent (tl (split_on newline [] (trim processes))) False True = Inr idle"
    by (auto simp: legacySchedulerIdle_def Let_def split: if_splits)
  from idle_rows_sound[OF this] show ?thesis by auto
qed

end
