(* ===== verification/Docker.thy ===== *)
theory Docker
  imports Topology RecoveryControl PointStore
begin

text \<open>
  The ground of \<open>internal/deployment\<close>: the service, the commands it gives to Docker
  (\<open>bluegreen_helpers.go\<close>, \<open>service.go\<close>), the arguments that select a deployment
  (\<open>recovery_runtime.go\<close>, \<open>legacy_adapter.go\<close>), and starting and draining containers
  (\<open>bluegreen_helpers.go\<close>, \<open>recovery_http.go\<close>).

  \<^item> Docker is a parameter: a command line, with an input or without, is answered with an error or
    with an output. The state of the process holds, beside the state of Docker, the errands the
    service ran so far, in order. Among them are notes, which do nothing: that services of a
    deployment are started, that the ingress is pointed at a deployment, that a recovery point was
    made, that data is restored.
  \<^item> An output is a text and, when it is a sequence of JSON values, these values. An output that
    does not fit a bounded buffer is cut, and what was cut is not JSON.
  \<^item> The deadline of a loop that waits is the number of times it may wait, \<open>dv_patience\<close>.
\<close>

section \<open>The service\<close>

datatype errand =
    Ran "string list"
  | Started config "string list"
  | Switched config
  | PointMade string string
  | DataRestored config "PointRecord.restore_request"

record 'd daemon =
  da_errands :: "errand list"
  da_state :: 'd

record reply =
  re_text :: string
  re_values :: "json list option"

record report =
  rp_status :: string
  rp_checks :: "(string \<times> string \<times> string) list"

record url_parts =
  ur_scheme :: string
  ur_host :: string
  ur_hostname :: string
  ur_port :: string
  ur_user :: bool

type_synonym ('d, 'a) deed = "('d daemon host, 'a) act"

text \<open>The interface \<open>RecoveryStore\<close>. The last argument of a restore is the deployment whose database
  is restored.\<close>

record 'd recoveries =
  rv_create :: "config \<Rightarrow> string \<Rightarrow> ('d, point) deed"
  rv_validate :: "config \<Rightarrow> string \<Rightarrow> ('d, unit) deed"
  rv_restore :: "config \<Rightarrow> PointRecord.restore_request \<Rightarrow> config \<Rightarrow> ('d, unit) deed"
  rv_list :: "string \<Rightarrow> ('d, point list) deed"

text \<open>The journal of a release, \<open>releaseTransaction\<close> of \<open>bluegreen.go\<close>.\<close>

record transaction =
  tr_schema :: int
  tr_operation :: string
  tr_status :: string
  tr_stage :: string
  tr_strategy :: string
  tr_source :: config
  tr_candidate :: config
  tr_target :: release
  tr_version :: content
  tr_point :: string
  tr_opened :: bool
  tr_layout :: bool
  tr_handed :: bool
  tr_workers :: "string list"
  tr_plan :: string
  tr_error :: string

text \<open>\<open>Service\<close>: the state directory, the resolver, which works on files and the network, the
  diagnostics, which look at files and Docker, Docker itself, the store of recovery points, the
  observation time, the modification times of files, which the file model does not keep, and what
  belongs to other libraries: YAML, URLs, tar, digests, the bytes of signed documents, the digest and
  the JSON of a release, and the JSON of a transaction, which holds such bytes.\<close>

record 'd deployer =
  dv_dir :: "path option"
  dv_releases :: "release io option"
  dv_doctor :: "(string \<Rightarrow> world \<Rightarrow> 'd \<Rightarrow> report \<times> world \<times> 'd) option"
  dv_run :: "content option \<Rightarrow> string list \<Rightarrow> ('d, reply) act"
  dv_store :: "point_store option"
  dv_patience :: nat
  dv_observe :: int
  dv_mtime :: "world \<Rightarrow> path \<Rightarrow> int"
  dv_now :: "'d daemon host \<Rightarrow> int"
  dv_yaml :: "content \<Rightarrow> json option"
  dv_marshal :: "json \<Rightarrow> content"
  dv_config :: "content \<Rightarrow> config option"
  dv_config_text :: "config \<Rightarrow> content"
  dv_template :: "release \<Rightarrow> content"
  dv_bytes :: "doc \<Rightarrow> content"
  dv_sha :: "content \<Rightarrow> string"
  dv_url :: "string \<Rightarrow> url_parts option"
  dv_untar :: "reply \<Rightarrow> tar_entry list \<times> err option"
  dv_identity :: "release \<Rightarrow> string"
  dv_release_json :: "release \<Rightarrow> json"
  dv_encode :: "transaction \<Rightarrow> json"
  dv_decode :: "json \<Rightarrow> transaction option"

definition deploy_dir :: "'d deployer \<Rightarrow> path" where
  "deploy_dir dv = (case dv_dir dv of None \<Rightarrow> [''var'', ''lib'', ''geoflow-updater''] | Some d \<Rightarrow> d)"

definition instanceDirectory :: "'d deployer \<Rightarrow> string \<Rightarrow> path" where
  "instanceDirectory dv inst = deploy_dir dv @ [''instances'', inst]"

definition recoveryControl :: "'d deployer \<Rightarrow> rcstore" where
  "recoveryControl dv = \<lparr>rc_dir = Some (deploy_dir dv)\<rparr>"

section \<open>Docker\<close>

definition daemon_run ::
    "(content option \<Rightarrow> string list \<Rightarrow> ('d, reply) act) \<Rightarrow> content option \<Rightarrow> string list \<Rightarrow> ('d daemon, reply) act" where
  "daemon_run run input args d =
     (case run input args (da_state d) of
        (r, s) \<Rightarrow> (r, \<lparr>da_errands = da_errands d @ [Ran args], da_state = s\<rparr>))"

definition docker_in :: "'d deployer \<Rightarrow> content option \<Rightarrow> string list \<Rightarrow> ('d, reply) deed" where
  "docker_in dv input args h =
     (case daemon_run (dv_run dv) input args (ho_dep h) of (r, d) \<Rightarrow> (r, h\<lparr>ho_dep := d\<rparr>))"

definition docker :: "'d deployer \<Rightarrow> string list \<Rightarrow> ('d, reply) deed" where
  "docker dv args = docker_in dv None args"

definition note_errand :: "errand \<Rightarrow> ('d, unit) deed" where
  "note_errand x h = (Inr (), h\<lparr>ho_dep := (ho_dep h)\<lparr>da_errands := da_errands (ho_dep h) @ [x]\<rparr>\<rparr>)"

definition docker_quiet :: "'d deployer \<Rightarrow> string list \<Rightarrow> ('d, unit) deed" where
  "docker_quiet dv args = bindE (docker dv args) (\<lambda>_. retE ())"

text \<open>\<open>limitedBuffer\<close> keeps the first 64 KiB; \<open>boundedOutput\<close> notes that 2 MiB were exceeded.\<close>

definition limited :: "reply \<Rightarrow> reply" where
  "limited r = (if length (re_text r) \<le> 65536 then r
     else \<lparr>re_text = take 65536 (re_text r), re_values = None\<rparr>)"

definition exceeded :: "reply \<Rightarrow> bool" where
  "exceeded r \<longleftrightarrow> 2097152 < length (re_text r)"

definition one_value :: "reply \<Rightarrow> json option" where
  "one_value r = (case re_values r of Some [j] \<Rightarrow> Some j | _ \<Rightarrow> None)"

definition docker_text :: "'d deployer \<Rightarrow> string list \<Rightarrow> ('d, reply) deed" where
  "docker_text dv args = bindE (docker dv args) (\<lambda>r. retE (limited r))"

definition diagnose :: "(string \<Rightarrow> world \<Rightarrow> 'd \<Rightarrow> report \<times> world \<times> 'd) \<Rightarrow> string \<Rightarrow> ('d, report) deed" where
  "diagnose doctor inst h =
     (case doctor inst (ho_world h) (da_state (ho_dep h)) of
        (rep, w, s) \<Rightarrow> (Inr rep, h\<lparr>ho_world := w, ho_dep := (ho_dep h)\<lparr>da_state := s\<rparr>\<rparr>))"

section \<open>Managed files\<close>

definition regularFile :: "path \<Rightarrow> unit io" where
  "regularFile p = bindE (lstat p) (\<lambda>i.
     if i_kind i \<noteq> KRegular then failE (Msg ''path is not a regular file'') else retE ())"

definition replace_stage_mode :: "path \<Rightarrow> content \<Rightarrow> nat \<Rightarrow> unit io" where
  "replace_stage_mode t c m =
     checkE (bindE (chmod t m) (\<lambda>_. bindE (write_data t c) (\<lambda>_. fsync t)))
       (\<lambda>e. bindE (ignoreE (close_file t)) (\<lambda>_. failE e)) (\<lambda>_. close_file t)"

definition sync_parent :: "path \<Rightarrow> unit io" where
  "sync_parent d =
     bindE (open_path d) (\<lambda>_. bindE (tryE (sync_entries d)) (\<lambda>s. bindE (tryE (close_file d)) (\<lambda>k.
     case join_errs [err_of s, err_of k] of None \<Rightarrow> retE () | Some e \<Rightarrow> failE e)))"

definition replaceContents_mode :: "path \<Rightarrow> content \<Rightarrow> nat \<Rightarrow> unit io" where
  "replaceContents_mode p c m =
     bindE (create_temp (butlast p) ''.geoflow-updater-'') (\<lambda>t.
     deferE (bindE (replace_stage_mode t c m) (\<lambda>_. bindE (rename t p) (\<lambda>_. sync_parent (butlast p)))) (remove t))"

definition replaceFromFile :: "path \<Rightarrow> path \<Rightarrow> nat \<Rightarrow> unit io" where
  "replaceFromFile src dst m = bindE (read_file src) (\<lambda>c. replaceContents_mode dst c m)"

definition safe_component :: "nat \<Rightarrow> path \<Rightarrow> unit io" where
  "safe_component m p =
     bindE (tryE (lstat p)) (\<lambda>r. case r of
       Inl e \<Rightarrow> if err_is ErrNotExist e then bindE (mkdir p m) (\<lambda>_. chmod p m) else failE e
     | Inr i \<Rightarrow> if i_kind i \<noteq> KDir
               then failE (Msg ''managed directory contains a symbolic link or non-directory'') else retE ())"

definition safeDirectory :: "path \<Rightarrow> nat \<Rightarrow> unit io" where
  "safeDirectory p m = forE (safe_component m) (prefixes_of p)"

text \<open>The text of a file.\<close>

definition file_text :: "content \<Rightarrow> string" where
  "file_text c = (case c of Text s \<Rightarrow> s | Json _ \<Rightarrow> [])"

definition compose_services :: "json \<Rightarrow> (string \<times> json) list option" where
  "compose_services doc = Option.bind (members doc) (\<lambda>kvs.
     case map_of kvs ''services'' of
       None \<Rightarrow> Some [] | Some JNull \<Rightarrow> Some [] | Some (JObj s) \<Rightarrow> Some s | Some _ \<Rightarrow> None)"

definition read_services :: "'d deployer \<Rightarrow> path \<Rightarrow> string list io" where
  "read_services dv p =
     bindE (read_file p) (\<lambda>c.
     case Option.bind (dv_yaml dv c) compose_services of
       None \<Rightarrow> failE (Msg ''yaml'') | Some s \<Rightarrow> retE (map fst s))"

definition not_applications :: "string list" where
  "not_applications = [''postgres'', ''redis'', ''init'', ''system-update-queue'', ''edge'']"

definition applicationServices :: "'d deployer \<Rightarrow> string \<Rightarrow> string list io" where
  "applicationServices dv compose =
     bindE (read_services dv (text_path compose)) (\<lambda>names.
     if \<not> list_all compose_service_ok names then failE (Msg ''invalid service name'')
     else retE (sort (filter (\<lambda>n. n \<notin> set not_applications) names)))"

definition backgroundServices :: "'d deployer \<Rightarrow> string \<Rightarrow> string list io" where
  "backgroundServices dv compose =
     bindE (applicationServices dv compose) (\<lambda>names.
     retE (filter (\<lambda>n. n \<noteq> ''app'' \<and> n \<noteq> ''web'' \<and> n \<noteq> ''reverb'') names))"

section \<open>Selecting a deployment\<close>

definition composeArguments :: "string \<Rightarrow> string \<Rightarrow> string \<Rightarrow> string list" where
  "composeArguments site env compose =
     [''compose'', ''--env-file'', path_join [site, ''.env.prod''], ''--env-file'', env, ''-f'', compose]"

definition infrastructureConfig :: "config \<Rightarrow> config" where
  "infrastructureConfig c =
     (if cf_layout c = LayoutBlueGreen then c\<lparr>cf_compose := cf_infra_compose c, cf_env := cf_infra_env c\<rparr> else c)"

definition legacyRecoveryAppImage :: string where
  "legacyRecoveryAppImage =
     ''ghcr.io/yaojingang/geoflow-app@sha256:94c01bfd52941cf48ad9693fce30fc571c29353189fb5e128d0e0752daa36448''"

definition legacyAdapterContainerDir :: string where
  "legacyAdapterContainerDir = ''/run/geoflow-recovery-adapter''"

definition legacyAdapterRequired :: "config \<Rightarrow> bool io" where
  "legacyAdapterRequired c =
     bindE (read_file (text_path (cf_env c))) (\<lambda>data.
     bindE (liftE (environmentValue (file_text data) ''GEOFLOW_APP_IMAGE'')) (\<lambda>image.
     if image \<noteq> legacyRecoveryAppImage then retE False
     else bindE (liftE (environmentValue (file_text data) ''GEOFLOW_VERSION'')) (\<lambda>version.
          if cf_version c \<noteq> ''3.1.0'' \<or> version \<noteq> ''3.1.0''
          then failE (Msg ''signed legacy recovery image version mismatch'') else retE True)))"

text \<open>The embedded scripts are files of the build; only their names matter here. Go writes the files in
  no particular order.\<close>

definition legacy_files :: "(string \<times> content) list" where
  "legacy_files =
     [(''legacy-recovery.php'', Text ''legacy-recovery.php''), (''legacy-http-guard.php'', Text ''legacy-http-guard.php''),
      (''legacy-recovery.ini'', Text (''auto_prepend_file='' @ legacyAdapterContainerDir @ ''/legacy-http-guard.php'' @ [newline]))]"

definition legacy_dir :: "'d deployer \<Rightarrow> string \<Rightarrow> path" where
  "legacy_dir dv inst = control_dir (deploy_dir dv) inst @ [''legacy-adapter'']"

definition legacyAdapterFiles :: "'d deployer \<Rightarrow> string \<Rightarrow> path io" where
  "legacyAdapterFiles dv inst =
     bindE (safeDirectory (legacy_dir dv inst) 493) (\<lambda>_.
     bindE (chmod (legacy_dir dv inst) 493) (\<lambda>_.
     bindE (forE (\<lambda>(n, c). replaceContents_mode (legacy_dir dv inst @ [n]) c 292) legacy_files) (\<lambda>_.
     retE (legacy_dir dv inst))))"

definition runtime_environment :: "string \<Rightarrow> json" where
  "runtime_environment inst = JObj
     [(''GEOFLOW_RECOVERY_CONTRACT'', JStr ''1''), (''GEOFLOW_UPDATER_INSTANCE_ID'', JStr inst),
      (''AUTO_MIGRATE'', JStr ''false''), (''AUTO_INSTALL_ONCE'', JStr ''false''), (''AUTO_OPTIMIZE'', JStr ''false'')]"

definition runtime_overlay :: "string \<Rightarrow> string list \<Rightarrow> string list \<Rightarrow> json" where
  "runtime_overlay inst volumes names = JObj [(''services'', JObj (map (\<lambda>n. (n, JObj
     [(''environment'', runtime_environment inst), (''volumes'', JArr (map JStr volumes))])) names))]"

definition runtime_volumes :: "'d deployer \<Rightarrow> config \<Rightarrow> rauthority \<Rightarrow> bool \<Rightarrow> string list io" where
  "runtime_volumes dv c a legacy =
     (let public = path_text (PublicDir (deploy_dir dv) (cf_id c)) @ '':/run/geoflow-recovery-control:ro'' in
      if \<not> legacy then retE [public]
      else bindE (legacyAdapterFiles dv (cf_id c)) (\<lambda>d.
        retE ([public, path_text d @ '':'' @ legacyAdapterContainerDir @ '':ro''] @
          (if rs_phase (ra_state a) \<noteq> ''ready''
           then [path_text (d @ [''legacy-recovery.ini'']) @ '':/usr/local/etc/php/conf.d/zz-geoflow-recovery.ini:ro''] else []))))"

definition overlay_path :: "config \<Rightarrow> string" where
  "overlay_path c = path_join [path_dir (cf_compose c), ''recovery-runtime.yml'']"

definition runtime_arguments_at :: "'d deployer \<Rightarrow> config \<Rightarrow> string list io" where
  "runtime_arguments_at dv c =
     bindE (rcInitialize (recoveryControl dv) (cf_id c)) (\<lambda>a.
     bindE (legacyAdapterRequired c) (\<lambda>legacy.
     bindE (runtime_volumes dv c a legacy) (\<lambda>volumes.
     bindE (read_services dv (text_path (cf_compose c))) (\<lambda>names.
     if \<not> list_all compose_service_ok names then failE (Msg ''invalid recovery runtime service'')
     else
       (let args = composeArguments (cf_root c) (cf_env c) (cf_compose c);
            php = filter (\<lambda>n. n \<notin> {''postgres'', ''redis'', ''web'', ''edge''}) names in
        if php = [] then retE args
        else bindE (replaceContents_mode (text_path (overlay_path c)) (dv_marshal dv (runtime_overlay (cf_id c) volumes php)) 384) (\<lambda>_.
             retE (args @ [''-f'', overlay_path c])))))))"

definition runtimeArguments :: "'d deployer \<Rightarrow> config \<Rightarrow> string list io" where
  "runtimeArguments dv c =
     bindE (tryE (rcRead (recoveryControl dv) (cf_id c))) (\<lambda>r. case r of
       Inr _ \<Rightarrow> runtime_arguments_at dv c
     | Inl e \<Rightarrow>
         if err_is ErrNotExist e then
           bindE (tryE (lstat (initialized_path (deploy_dir dv) (cf_id c)))) (\<lambda>i.
           if not_exist i then retE (composeArguments (cf_root c) (cf_env c) (cf_compose c)) else failE e)
         else failE e)"

definition command :: "'d deployer \<Rightarrow> config \<Rightarrow> string list \<Rightarrow> ('d, unit) deed" where
  "command dv c args = bindE (onW (runtimeArguments dv c)) (\<lambda>sel. docker_quiet dv (sel @ args))"

definition compose_output :: "'d deployer \<Rightarrow> config \<Rightarrow> string list \<Rightarrow> ('d, reply) deed" where
  "compose_output dv c args =
     bindE (onW (runtimeArguments dv c)) (\<lambda>sel.
     bindE (docker_text dv (sel @ args)) (\<lambda>r. retE (r\<lparr>re_text := trim (re_text r)\<rparr>)))"

section \<open>Draining\<close>

definition container_id_ok :: "string \<Rightarrow> bool" where
  "container_id_ok s \<longleftrightarrow> 12 \<le> length s \<and> length s \<le> 64 \<and> list_all is_hex s"

definition containerIDs :: "'d deployer \<Rightarrow> config \<Rightarrow> string list \<Rightarrow> ('d, string list) deed" where
  "containerIDs dv c names =
     bindE (compose_output dv c ([''ps'', ''--all'', ''--quiet''] @ names)) (\<lambda>r.
     let ids = GoText.fields (re_text r) in
     if list_all container_id_ok ids then retE ids else failE (Msg ''invalid Docker container identifier''))"

definition signal_running :: "'d deployer \<Rightarrow> string \<Rightarrow> string \<Rightarrow> ('d, unit) deed" where
  "signal_running dv sig i =
     bindE (docker_text dv [''inspect'', ''--format={{.State.Running}}'', i]) (\<lambda>r.
     if trim (re_text r) = ''true'' then docker_quiet dv [''kill'', ''--signal='' @ sig, i] else retE ())"

definition state_format :: string where
  "state_format = ''--format={{.State.Running}}|{{.State.ExitCode}}|{{.State.OOMKilled}}''"

definition exit_clean :: "string \<Rightarrow> string \<Rightarrow> bool" where
  "exit_clean sig n \<longleftrightarrow> n = ''0'' \<or> n = ''143'' \<or> sig = ''KILL'' \<and> n = ''137''"

text \<open>The state of one container: whether it still runs.\<close>

definition container_drained :: "string \<Rightarrow> string \<Rightarrow> err + bool" where
  "container_drained sig t =
     (case split_on CHR ''|'' [] (trim t) of
        [running, status, oom] \<Rightarrow>
          if oom \<noteq> ''false'' then Inl (Msg ''worker state or OOM check failed'')
          else if running = ''true'' then Inr False
          else if running \<noteq> ''false'' \<or> \<not> exit_clean sig status
          then Inl (Msg (''worker did not drain cleanly (exit '' @ status @ '')'')) else Inr True
      | _ \<Rightarrow> Inl (Msg ''worker state or OOM check failed''))"

definition drain_look :: "'d deployer \<Rightarrow> string \<Rightarrow> string \<Rightarrow> bool \<Rightarrow> ('d, bool) deed" where
  "drain_look dv sig i running =
     bindE (docker_text dv [''inspect'', state_format, i]) (\<lambda>r.
     bindE (liftE (container_drained sig (re_text r))) (\<lambda>gone. retE (running \<or> \<not> gone)))"

fun drain_wait :: "nat \<Rightarrow> 'd deployer \<Rightarrow> string list \<Rightarrow> string \<Rightarrow> ('d, unit) deed" where
  "drain_wait n dv ids sig =
     bindE (foldE (drain_look dv sig) ids False) (\<lambda>running.
     if \<not> running then retE ()
     else case n of
       0 \<Rightarrow> failE (Wrap ''drain deadline exceeded; containers retained'' (Msg ''context deadline exceeded''))
     | Suc k \<Rightarrow> drain_wait k dv ids sig)"

declare drain_wait.simps [simp del]

definition drainContainersSignal :: "'d deployer \<Rightarrow> string list \<Rightarrow> string \<Rightarrow> ('d, unit) deed" where
  "drainContainersSignal dv ids sig =
     (if ids = [] then retE ()
      else bindE (docker_quiet dv ([''update'', ''--restart=no''] @ ids)) (\<lambda>_.
           bindE (forE (signal_running dv sig) ids) (\<lambda>_. drain_wait (dv_patience dv) dv ids sig)))"

definition drainContainers :: "'d deployer \<Rightarrow> string list \<Rightarrow> ('d, unit) deed" where
  "drainContainers dv ids = drainContainersSignal dv ids ''TERM''"

definition http_role :: "string \<Rightarrow> bool" where
  "http_role n \<longleftrightarrow> n = ''web'' \<or> n = ''app''"

definition drain_group :: "'d deployer \<Rightarrow> config \<Rightarrow> string list \<Rightarrow> ('d, unit) deed" where
  "drain_group dv c names =
     bindE (containerIDs dv c names) (\<lambda>ids.
     drainContainersSignal dv ids (if length names = 1 \<and> http_role (hd names) then ''QUIT'' else ''TERM''))"

text \<open>A web server is drained alone, with its own signal.\<close>

definition drainServices :: "'d deployer \<Rightarrow> config \<Rightarrow> string list \<Rightarrow> ('d, unit) deed" where
  "drainServices dv c names =
     (if names = [] then retE ()
      else if 1 < length names \<and> list_ex http_role names then forE (\<lambda>n. drain_group dv c [n]) names
      else drain_group dv c names)"

fun wait_upgrade :: "nat \<Rightarrow> 'd deployer \<Rightarrow> string \<Rightarrow> ('d, unit) deed" where
  "wait_upgrade n dv op =
     bindE (docker_text dv [''ps'', ''--quiet'', ''--filter'', ''label=geoflow.updater.operation='' @ op]) (\<lambda>r.
     if trim (re_text r) = [] then retE ()
     else case n of
       0 \<Rightarrow> failE (Wrap ''upgrade process remains active; recovery deferred'' (Msg ''context deadline exceeded''))
     | Suc k \<Rightarrow> wait_upgrade k dv op)"

declare wait_upgrade.simps [simp del]

definition waitUpgradeContainers :: "'d deployer \<Rightarrow> string \<Rightarrow> ('d, unit) deed" where
  "waitUpgradeContainers dv op = wait_upgrade (dv_patience dv) dv op"

definition retired_id_ok :: "string \<Rightarrow> bool" where
  "retired_id_ok s \<longleftrightarrow> 12 \<le> length s \<and> list_all is_hex s"

definition drainRetiredWorker :: "'d deployer \<Rightarrow> ('d, unit) deed" where
  "drainRetiredWorker dv =
     bindE (docker_text dv [''ps'', ''--all'', ''--quiet'', ''--filter'', ''name=^/geoflow-system-update-queue-prod$'']) (\<lambda>r.
     let ids = GoText.fields (re_text r) in
     if \<not> list_all retired_id_ok ids then failE (Msg ''invalid retired worker identifier'')
     else bindE (drainContainers dv ids) (\<lambda>_.
          if ids \<noteq> [] then docker_quiet dv (''rm'' # ids) else retE ()))"

end
