(* ===== verification/Traffic.thy ===== *)
theory Traffic
  imports Docker
begin

text \<open>
  Opening services to requests (\<open>internal/deployment\<close>): the start of services and what recovery
  allows of it (\<open>bluegreen_helpers.go\<close>), the guarded HTTP containers of a recovery
  (\<open>recovery_http.go\<close>), and the ingress (\<open>traffic.go\<close>, \<open>topology.go\<close>).
\<close>

section \<open>The address of the site\<close>

definition environment_file :: "string \<Rightarrow> path" where
  "environment_file site = text_path (path_join [site, ''.env.prod''])"

definition bad_address :: "url_parts \<Rightarrow> bool" where
  "bad_address u \<longleftrightarrow> ur_hostname u = [] \<or> ur_user u \<or> (ur_scheme u \<noteq> ''https'' \<and> ur_scheme u \<noteq> ''http'') \<or>
     CHR 0x0D \<in> set (ur_host u) \<or> newline \<in> set (ur_host u)"

definition address_port :: "url_parts \<Rightarrow> int option" where
  "address_port u =
     (if ur_port u = [] then Some (if ur_scheme u = ''https'' then 443 else 80)
      else case parse_int (ur_port u) of
        None \<Rightarrow> None | Some n \<Rightarrow> if n < 1 \<or> n > 65535 then None else Some n)"

definition siteAuthority :: "'d deployer \<Rightarrow> string \<Rightarrow> (string \<times> string \<times> int) io" where
  "siteAuthority dv site =
     bindE (read_file (environment_file site)) (\<lambda>env.
     bindE (liftE (environmentValue (file_text env) ''APP_URL'')) (\<lambda>address.
     case dv_url dv address of
       None \<Rightarrow> failE (Msg ''APP_URL must be an absolute HTTP or HTTPS URL without credentials'')
     | Some u \<Rightarrow>
         if bad_address u then failE (Msg ''APP_URL must be an absolute HTTP or HTTPS URL without credentials'')
         else (case address_port u of
           None \<Rightarrow> failE (Msg ''APP_URL port is invalid'') | Some n \<Rightarrow> retE (ur_host u, ur_scheme u, n))))"

definition http_probe :: "string \<Rightarrow> string \<Rightarrow> string list" where
  "http_probe host p =
     [''exec'', ''-T'', ''web'', ''wget'', ''-q'', ''-T'', ''10'', ''--header'', ''Host: '' @ host, ''-O'', ''/dev/null'',
      ''http://127.0.0.1'' @ p]"

definition checkHTTP :: "'d deployer \<Rightarrow> config \<Rightarrow> ('d, unit) deed" where
  "checkHTTP dv c =
     bindE (onW (siteAuthority dv (cf_root c))) (\<lambda>(host, _, _).
     forE (\<lambda>p. wrapE (Wrap (''candidate HTTP check '' @ p @ '' failed'')) (command dv c (http_probe host p))) [''/up'', ''/''])"

fun wait_http :: "nat \<Rightarrow> 'd deployer \<Rightarrow> config \<Rightarrow> ('d, unit) deed" where
  "wait_http n dv c = bindE (tryE (checkHTTP dv c)) (\<lambda>r. case r of
     Inr _ \<Rightarrow> retE ()
   | Inl _ \<Rightarrow> (case n of 0 \<Rightarrow> failE (Msg ''context deadline exceeded'') | Suc k \<Rightarrow> wait_http k dv c))"

declare wait_http.simps [simp del]

definition waitHTTP :: "'d deployer \<Rightarrow> config \<Rightarrow> ('d, unit) deed" where
  "waitHTTP dv c = wait_http (dv_patience dv) dv c"

section \<open>The containers of a recovery\<close>

record container_mount =
  mn_type :: string
  mn_source :: string
  mn_destination :: string
  mn_writable :: bool

record recovery_container =
  rk_id :: string
  rk_image :: string
  rk_env :: "string list"
  rk_labels :: "(string \<times> string) list"
  rk_restart :: string
  rk_running :: bool
  rk_status :: string
  rk_health :: "string option"
  rk_mounts :: "container_mount list"

definition dec_strings :: "json \<Rightarrow> string list \<Rightarrow> string list option" where
  "dec_strings = dec_list (\<lambda>j. dec_str j [])"

fun dec_pairs :: "(string \<times> json) list \<Rightarrow> (string \<times> string) list \<Rightarrow> (string \<times> string) list option" where
  "dec_pairs [] m = Some m"
| "dec_pairs ((k, j) # kvs) m = Option.bind (dec_str j []) (\<lambda>v. dec_pairs kvs (map_put k v m))"

definition dec_labels :: "json \<Rightarrow> (string \<times> string) list \<Rightarrow> (string \<times> string) list option" where
  "dec_labels j m = (case j of JObj kvs \<Rightarrow> dec_pairs kvs m | JNull \<Rightarrow> Some [] | _ \<Rightarrow> None)"

definition dec_name :: "string \<Rightarrow> json \<Rightarrow> string \<Rightarrow> string option" where
  "dec_name k j x = Option.bind (members j) (\<lambda>kvs. field k dec_str kvs x)"

definition dec_host_config :: "json \<Rightarrow> string \<Rightarrow> string option" where
  "dec_host_config j x = Option.bind (members j) (\<lambda>kvs. field ''RestartPolicy'' (dec_name ''Name'') kvs x)"

definition dec_container_config ::
    "json \<Rightarrow> string \<times> string list \<times> (string \<times> string) list \<Rightarrow> (string \<times> string list \<times> (string \<times> string) list) option" where
  "dec_container_config j x = Option.bind (members j) (\<lambda>kvs.
     Option.bind (field ''Image'' dec_str kvs (fst x)) (\<lambda>img.
     Option.bind (field ''Env'' dec_strings kvs (fst (snd x))) (\<lambda>env.
     Option.bind (field ''Labels'' dec_labels kvs (snd (snd x))) (\<lambda>labels. Some (img, env, labels)))))"

definition dec_container_state ::
    "json \<Rightarrow> bool \<times> string \<times> string option \<Rightarrow> (bool \<times> string \<times> string option) option" where
  "dec_container_state j x = Option.bind (members j) (\<lambda>kvs.
     Option.bind (field ''Running'' dec_bool kvs (fst x)) (\<lambda>run.
     Option.bind (field ''Status'' dec_str kvs (fst (snd x))) (\<lambda>st.
     Option.bind (field ''Health'' (dec_opt (dec_name ''Status'') []) kvs (snd (snd x))) (\<lambda>health.
     Some (run, st, health)))))"

definition dec_mount :: "json \<Rightarrow> container_mount option" where
  "dec_mount j = Option.bind (members j) (\<lambda>kvs.
     Option.bind (field ''Type'' dec_str kvs []) (\<lambda>t.
     Option.bind (field ''Source'' dec_str kvs []) (\<lambda>src.
     Option.bind (field ''Destination'' dec_str kvs []) (\<lambda>dst.
     Option.bind (field ''RW'' dec_bool kvs False) (\<lambda>rw.
     Some \<lparr>mn_type = t, mn_source = src, mn_destination = dst, mn_writable = rw\<rparr>)))))"

definition container_of_json :: "json \<Rightarrow> recovery_container option" where
  "container_of_json j = Option.bind (members j) (\<lambda>kvs.
     Option.bind (field ''Id'' dec_str kvs []) (\<lambda>i.
     Option.bind (field ''Config'' dec_container_config kvs ([], [], [])) (\<lambda>(img, env, labels).
     Option.bind (field ''HostConfig'' dec_host_config kvs []) (\<lambda>policy.
     Option.bind (field ''State'' dec_container_state kvs (False, [], None)) (\<lambda>(run, st, health).
     Option.bind (field ''Mounts'' (dec_list dec_mount) kvs []) (\<lambda>mounts.
     Some \<lparr>rk_id = i, rk_image = img, rk_env = env, rk_labels = labels, rk_restart = policy, rk_running = run,
       rk_status = st, rk_health = health, rk_mounts = mounts\<rparr>))))))"

definition inspectRecoveryContainer :: "'d deployer \<Rightarrow> string \<Rightarrow> ('d, recovery_container) deed" where
  "inspectRecoveryContainer dv i =
     bindE (docker dv [''inspect'', ''--format={{json .}}'', i]) (\<lambda>r.
     case (if exceeded r then None else Option.bind (one_value r) container_of_json) of
       None \<Rightarrow> failE (Msg ''invalid recovery container inspection'')
     | Some k \<Rightarrow> if rk_id k \<noteq> i then failE (Msg ''invalid recovery container inspection'') else retE k)"

definition upper_char :: "char \<Rightarrow> char" where
  "upper_char x = (if is_lower x then char_of (of_char x - 32 :: nat) else x)"

definition image_key :: "string \<Rightarrow> string" where
  "image_key role = ''GEOFLOW_'' @ map upper_char role @ ''_IMAGE''"

definition guard_environment :: "string \<Rightarrow> (string \<times> string) list" where
  "guard_environment inst =
     [(''GEOFLOW_RECOVERY_CONTRACT'', ''1''), (''GEOFLOW_UPDATER_INSTANCE_ID'', inst), (''AUTO_MIGRATE'', ''false''),
      (''AUTO_INSTALL_ONCE'', ''false''), (''AUTO_OPTIMIZE'', ''false'')]"

definition entry_of :: "string \<times> string \<Rightarrow> string" where
  "entry_of kv = fst kv @ ''='' @ snd kv"

fun check_environment :: "(string \<times> string) list \<Rightarrow> string list \<Rightarrow> err + unit" where
  "check_environment [] env = Inr ()"
| "check_environment (kv # kvs) env =
     (if entry_of kv \<notin> set env then Inl (Msg ''recovery PHP environment is incomplete'')
      else if list_ex (\<lambda>x. has_prefix (fst kv @ ''='') x \<and> x \<noteq> entry_of kv) env
      then Inl (Msg ''recovery PHP environment conflicts'')
      else check_environment kvs env)"

definition bypasses_guard :: "string \<Rightarrow> bool" where
  "bypasses_guard entry \<longleftrightarrow>
     (has_prefix ''PHP_INI_SCAN_DIR='' entry \<and> entry \<noteq> ''PHP_INI_SCAN_DIR=/usr/local/etc/php/conf.d'') \<or>
     (has_prefix ''PHPRC='' entry \<and> entry \<noteq> ''PHPRC=/usr/local/etc/php'') \<or>
     entry = ''PHP_INI_SCAN_DIR'' \<or> entry = ''PHPRC''"

definition guard_mounts :: "'d deployer \<Rightarrow> string \<Rightarrow> bool \<Rightarrow> (string \<times> string) list" where
  "guard_mounts dv inst legacy =
     (''/run/geoflow-recovery-control'', path_text (PublicDir (deploy_dir dv) inst)) #
     (if legacy then
        [(legacyAdapterContainerDir, path_text (legacy_dir dv inst)),
         (''/usr/local/etc/php/conf.d/zz-geoflow-recovery.ini'', path_text (legacy_dir dv inst @ [''legacy-recovery.ini'']))]
      else [])"

fun check_mounts :: "(string \<times> string) list \<Rightarrow> container_mount list \<Rightarrow> err + unit" where
  "check_mounts [] ms = Inr ()"
| "check_mounts ((dst, src) # rest) ms =
     (case filter (\<lambda>m. mn_destination m = dst) ms of
        [] \<Rightarrow> Inl (Msg ''recovery PHP guard mount is absent'')
      | [m] \<Rightarrow> if mn_type m \<noteq> ''bind'' \<or> mn_source m \<noteq> src \<or> mn_writable m
               then Inl (Msg ''unsafe recovery PHP mount'') else check_mounts rest ms
      | _ \<Rightarrow> Inl (Msg ''unsafe recovery PHP mount''))"

definition image_selected :: "string \<Rightarrow> string \<Rightarrow> recovery_container \<Rightarrow> bool" where
  "image_selected role expected k \<longleftrightarrow>
     (let pre = ''ghcr.io/yaojingang/geoflow-'' @ role @ ''@sha256:'' in
      has_prefix pre expected \<and> hex64_ok (drop (length pre) expected) \<and> rk_image k = expected)"

definition newly_created :: "string \<Rightarrow> string \<Rightarrow> recovery_container \<Rightarrow> bool" where
  "newly_created role i k \<longleftrightarrow> rk_id k = i \<and> map_of (rk_labels k) ''com.docker.compose.service'' = Some role \<and>
     \<not> rk_running k \<and> rk_status k = ''created'' \<and> rk_restart k = ''no''"

definition check_guard :: "'d deployer \<Rightarrow> string \<Rightarrow> bool \<Rightarrow> recovery_container \<Rightarrow> err + unit" where
  "check_guard dv inst legacy k =
     (case check_environment (guard_environment inst) (rk_env k) of
        Inl e \<Rightarrow> Inl e
      | Inr _ \<Rightarrow>
          if legacy \<and> list_ex bypasses_guard (rk_env k)
          then Inl (Msg ''legacy PHP configuration would bypass the recovery guard'')
          else check_mounts (guard_mounts dv inst legacy) (rk_mounts k))"

definition validateRecoveryContainer ::
    "'d deployer \<Rightarrow> config \<Rightarrow> string \<Rightarrow> string \<Rightarrow> recovery_container \<Rightarrow> bool \<Rightarrow> unit io" where
  "validateRecoveryContainer dv c role i k legacy =
     (if \<not> newly_created role i k
      then failE (Msg ''recovery HTTP container must be newly created with restart disabled'')
      else bindE (read_file (text_path (cf_env c))) (\<lambda>data.
           bindE (liftE (environmentValue (file_text data) (image_key role))) (\<lambda>expected.
           if \<not> image_selected role expected k
           then failE (Msg ''recovery HTTP image does not match the selected digest'')
           else if role \<noteq> ''app'' then retE ()
           else liftE (check_guard dv (cf_id c) legacy k))))"

text \<open>Each role has exactly one new container, and it was inspected.\<close>

definition collect_role :: "'d deployer \<Rightarrow> config \<Rightarrow> bool \<Rightarrow> string list \<Rightarrow> string \<Rightarrow> string list \<Rightarrow> ('d, string list) deed" where
  "collect_role dv c legacy old role ids =
     bindE (containerIDs dv c [role]) (\<lambda>selected.
     case selected of
       [i] \<Rightarrow>
         if i \<in> set old \<or> i \<in> set ids then failE (Msg ''recovery HTTP container was not replaced uniquely'')
         else bindE (inspectRecoveryContainer dv i) (\<lambda>k.
              bindE (onW (validateRecoveryContainer dv c role i k legacy)) (\<lambda>_. retE (ids @ [i])))
     | _ \<Rightarrow> failE (Msg ''recovery HTTP container was not replaced uniquely''))"

definition look_ready :: "'d deployer \<Rightarrow> string \<Rightarrow> bool \<Rightarrow> ('d, bool) deed" where
  "look_ready dv i ready =
     bindE (inspectRecoveryContainer dv i) (\<lambda>k.
     if rk_status k = ''exited'' \<or> rk_status k = ''dead'' \<or> rk_health k = Some ''unhealthy''
     then failE (Msg ''recovery HTTP container failed readiness'')
     else retE (if \<not> rk_running k \<or> (rk_health k \<noteq> None \<and> rk_health k \<noteq> Some ''healthy'') then False else ready))"

fun wait_ready :: "nat \<Rightarrow> 'd deployer \<Rightarrow> string list \<Rightarrow> ('d, unit) deed" where
  "wait_ready n dv ids =
     bindE (foldE (look_ready dv) ids True) (\<lambda>ready.
     if ready then retE ()
     else case n of
       0 \<Rightarrow> failE (Wrap ''recovery HTTP readiness'' (Msg ''context deadline exceeded''))
     | Suc k \<Rightarrow> wait_ready k dv ids)"

declare wait_ready.simps [simp del]

definition http_evidence :: "rauthority \<Rightarrow> bool" where
  "http_evidence a \<longleftrightarrow> rs_phase (ra_state a) = ''http_ready'' \<and> rs_tx (ra_state a) \<noteq> None \<and> ra_prep a \<noteq> [] \<and> ra_redis a \<noteq> []"

definition same_generation :: "rauthority \<Rightarrow> rauthority \<Rightarrow> bool" where
  "same_generation a b \<longleftrightarrow> rs_phase (ra_state b) = ''http_ready'' \<and> rs_epoch (ra_state b) = rs_epoch (ra_state a) \<and>
     rs_tx (ra_state b) \<noteq> None \<and> rs_tx (ra_state b) = rs_tx (ra_state a)"

definition http_overlay :: content where
  "http_overlay = Text (join_lines [''services:'', ''  app:'', ''    restart: '' @ [CHR 0x22] @ ''no'' @ [CHR 0x22],
     ''  web:'', ''    restart: '' @ [CHR 0x22] @ ''no'' @ [CHR 0x22]] @ [newline])"

definition http_overlay_path :: "config \<Rightarrow> string" where
  "http_overlay_path c = path_join [path_dir (cf_compose c), ''recovery-http.yml'']"

definition release_recovered :: "'d deployer \<Rightarrow> config \<Rightarrow> rauthority \<Rightarrow> string list \<Rightarrow> ('d, unit) deed" where
  "release_recovered dv c a ids =
     bindE (onW (rcRead (recoveryControl dv) (cf_id c))) (\<lambda>b.
     if \<not> same_generation a b then failE (Msg ''recovery generation changed during HTTP preparation'')
     else bindE (docker_quiet dv ([''update'', ''--restart=unless-stopped''] @ ids)) (\<lambda>_.
          bindE (note_errand (Started c [''app'', ''web''])) (\<lambda>_.
          bindE (docker_quiet dv (''start'' # ids)) (\<lambda>_. wait_ready (dv_patience dv) dv ids))))"

definition startRecoveredHTTP :: "'d deployer \<Rightarrow> config \<Rightarrow> ('d, unit) deed" where
  "startRecoveredHTTP dv c =
     bindE (onW (rcRead (recoveryControl dv) (cf_id c))) (\<lambda>a.
     if \<not> http_evidence a then failE (Msg ''recovery HTTP evidence is incomplete'')
     else bindE (containerIDs dv c [''app'', ''web'']) (\<lambda>old.
          bindE (drainContainersSignal dv old ''QUIT'') (\<lambda>_.
          bindE (onW (runtimeArguments dv c)) (\<lambda>sel.
          bindE (onW (replaceContents_mode (text_path (http_overlay_path c)) http_overlay 384)) (\<lambda>_.
          bindE (docker_quiet dv (sel @ [''-f'', http_overlay_path c, ''up'', ''--no-start'', ''--no-deps'', ''--force-recreate'',
            ''app'', ''web''])) (\<lambda>_.
          bindE (onW (legacyAdapterRequired c)) (\<lambda>legacy.
          bindE (foldE (collect_role dv c legacy old) [''app'', ''web''] []) (\<lambda>ids.
          release_recovered dv c a ids))))))))"

section \<open>Starting services\<close>

text \<open>What may start before recovery is ready: whether the names open HTTP.\<close>

fun recovery_names :: "string \<Rightarrow> string list \<Rightarrow> bool \<Rightarrow> err + bool" where
  "recovery_names phase [] http = Inr http"
| "recovery_names phase (n # ns) http =
     (if n = ''postgres'' \<or> n = ''redis'' then recovery_names phase ns http
      else if n = ''app'' \<or> n = ''web'' \<or> n = ''edge'' then
        (if phase \<noteq> ''http_ready'' then Inl (Msg ''recovery validation must finish before opening HTTP'')
         else recovery_names phase ns (if n = ''edge'' then http else True))
      else Inl (Msg ''recovered background services remain quarantined''))"

definition start_compose :: "'d deployer \<Rightarrow> config \<Rightarrow> string list \<Rightarrow> ('d, unit) deed" where
  "start_compose dv c names =
     bindE (note_errand (Started c names)) (\<lambda>_.
     bindE (containerIDs dv c names) (\<lambda>ids.
     bindE (if ids \<noteq> [] then docker_quiet dv ([''update'', ''--restart=unless-stopped''] @ ids) else retE ()) (\<lambda>_.
     command dv c ([''up'', ''-d'', ''--no-deps'', ''--wait'', ''--wait-timeout'', ''180''] @ names))))"

definition start_recovering :: "'d deployer \<Rightarrow> config \<Rightarrow> string list \<Rightarrow> string \<Rightarrow> ('d, unit) deed" where
  "start_recovering dv c names phase =
     bindE (liftE (recovery_names phase names False)) (\<lambda>http.
     if \<not> http then start_compose dv c names
     else if length names \<noteq> 2 \<or> ''app'' \<notin> set names \<or> ''web'' \<notin> set names
     then failE (Msg ''recovery HTTP startup requires the guarded app and web pair'')
     else startRecoveredHTTP dv c)"

definition startServices :: "'d deployer \<Rightarrow> config \<Rightarrow> string list \<Rightarrow> ('d, unit) deed" where
  "startServices dv c names =
     (if names = [] then retE ()
      else bindE (tryE (onW (rcRead (recoveryControl dv) (cf_id c)))) (\<lambda>r. case r of
        Inr a \<Rightarrow> if rs_phase (ra_state a) \<noteq> ''ready'' then start_recovering dv c names (rs_phase (ra_state a))
                 else start_compose dv c names
      | Inl e \<Rightarrow> if err_is ErrNotExist e then start_compose dv c names else failE e))"

section \<open>The ingress\<close>

definition dq :: "string \<Rightarrow> string" where
  "dq s = [CHR 0x22] @ s @ [CHR 0x22]"

definition sq :: "string \<Rightarrow> string" where
  "sq s = [CHR 0x27] @ s @ [CHR 0x27]"

text \<open>What the release endpoint of the ingress answers.\<close>

definition release_answer :: "string \<Rightarrow> nat \<Rightarrow> string" where
  "release_answer slot n = ''{'' @ dq ''slot'' @ '':'' @ dq slot @ '','' @ dq ''sequence'' @ '':'' @ nat_dec n @ ''}''"

definition ingress_head :: "string list" where
  "ingress_head =
     [''worker_processes auto;'', ''pid /tmp/nginx.pid;'', ''events { worker_connections 4096; }'', ''http {'',
      ''  include /etc/nginx/mime.types;'', ''  default_type application/octet-stream;'',
      ''  resolver 127.0.0.11 valid=5s ipv6=off;'',
      ''  map $http_upgrade $connection_upgrade { default upgrade; '' @ sq [] @ '' close; }'',
      ''  server {'', ''    listen 127.0.0.1:8081;'',
      ''    location = /ready { return 200 '' @ dq (''ready'' @ [CHR 0x5C] @ ''n'') @ ''; }'']"

definition ingress_tail :: "string \<Rightarrow> nat \<Rightarrow> string \<Rightarrow> int \<Rightarrow> string list" where
  "ingress_tail slot n scheme port =
     [''  }'', ''  server {'', ''    listen 80 default_server;'', ''    server_name _;'', ''    client_max_body_size 128m;'',
      ''    add_header X-GEOFlow-Release '' @ dq (nat_dec n) @ '' always;'',
      ''    location ^~ /build/assets/ {'', ''      alias /srv/geoflow-assets/;'', ''      expires 1y;'',
      ''      add_header Cache-Control '' @ dq ''public, immutable'' @ '';'',
      ''      add_header Access-Control-Allow-Origin '' @ dq ''*'' @ '';'', ''    }'',
      ''    location / {'', ''      set $active_web '' @ slot @ ''-web;'', ''      proxy_pass http://$active_web:80;'',
      ''      proxy_http_version 1.1;'', ''      proxy_set_header Host $http_host;'',
      ''      proxy_set_header X-Forwarded-For $proxy_add_x_forwarded_for;'',
      ''      proxy_set_header X-Forwarded-Proto '' @ scheme @ '';'',
      ''      proxy_set_header X-Forwarded-Port '' @ int_dec port @ '';'',
      ''      proxy_set_header Upgrade $http_upgrade;'', ''      proxy_set_header Connection $connection_upgrade;'',
      ''      proxy_buffering off;'', ''      proxy_read_timeout 86400s;'', ''      proxy_send_timeout 86400s;'',
      ''      proxy_next_upstream off;'', ''    }'', ''  }'', ''}'']"

definition renderIngress :: "string \<Rightarrow> 64 word \<Rightarrow> string \<Rightarrow> int \<Rightarrow> err + string" where
  "renderIngress slot n scheme port =
     (if \<not> validSlot slot \<or> n = 0 \<or> (scheme \<noteq> ''http'' \<and> scheme \<noteq> ''https'') \<or> port < 1 \<or> port > 65535
      then Inl (Msg ''invalid ingress identity'')
      else Inr (join_lines (ingress_head @
        [''    location = /release { default_type application/json; return 200 '' @ sq (release_answer slot (unat n)) @ ''; }''] @
        ingress_tail slot (unat n) scheme port) @ [newline]))"

definition ingressWorkersScript :: string where
  "ingressWorkersScript = join_lines
     [''for f in /proc/[0-9]*/cmdline; do'',
      ''  command=$(tr '' @ sq ([CHR 0x5C] @ ''000'') @ '' '' @ sq '' '' @ '' < '' @ dq ''$f'' @ '' 2>/dev/null) || continue'',
      ''  case '' @ dq ''$command'' @ '' in '' @ dq ''nginx: worker process'' @ ''*)'',
      ''    pid=${f#/proc/}; pid=${pid%/cmdline}'',
      ''    start=$(awk '' @ sq ''{print $22}'' @ '' '' @ dq ''/proc/$pid/stat'' @ '' 2>/dev/null) || continue'',
      ''    printf '' @ sq (''%s:%s'' @ [CHR 0x5C] @ ''n'') @ '' '' @ dq ''$pid'' @ '' '' @ dq ''$start'',
      ''  esac'', ''done'']"

definition worker_ok :: "string \<Rightarrow> bool" where
  "worker_ok w = (case split_on CHR '':'' [] w of
     [pid, start] \<Rightarrow> pid \<noteq> [] \<and> start \<noteq> [] \<and> list_all is_digit (pid @ start) | _ \<Rightarrow> False)"

definition ingressWorkers :: "'d deployer \<Rightarrow> config \<Rightarrow> ('d, string list) deed" where
  "ingressWorkers dv c =
     bindE (compose_output dv (infrastructureConfig c) [''exec'', ''-T'', ''edge'', ''sh'', ''-ec'', ingressWorkersScript]) (\<lambda>r.
     let workers = GoText.fields (re_text r) in
     if list_all worker_ok workers then retE workers else failE (Msg ''invalid ingress worker identity''))"

definition dec_identity :: "json \<Rightarrow> (string \<times> int) option" where
  "dec_identity j = Option.bind (members j) (\<lambda>kvs.
     Option.bind (field ''slot'' dec_str kvs []) (\<lambda>s.
     Option.bind (field ''sequence'' dec_uint64 kvs 0) (\<lambda>n. Some (s, n))))"

definition checkIngressIdentity :: "'d deployer \<Rightarrow> config \<Rightarrow> ('d, unit) deed" where
  "checkIngressIdentity dv c =
     bindE (compose_output dv (infrastructureConfig c)
       [''exec'', ''-T'', ''edge'', ''wget'', ''-q'', ''-T'', ''5'', ''-O'', ''-'', ''http://127.0.0.1:8081/release'']) (\<lambda>r.
     if Option.bind (one_value r) dec_identity \<noteq> Some (cf_active_slot c, uint (cf_release c))
     then failE (Msg ''ingress release does not match managed deployment state'') else retE ())"

fun wait_ingress :: "nat \<Rightarrow> 'd deployer \<Rightarrow> config \<Rightarrow> ('d, unit) deed" where
  "wait_ingress n dv c = bindE (tryE (checkIngressIdentity dv c)) (\<lambda>r. case r of
     Inr _ \<Rightarrow> retE ()
   | Inl _ \<Rightarrow> (case n of
       0 \<Rightarrow> failE (Msg ''ingress did not activate the requested release'') | Suc k \<Rightarrow> wait_ingress k dv c))"

declare wait_ingress.simps [simp del]

definition traffic_dir :: "'d deployer \<Rightarrow> string \<Rightarrow> path" where
  "traffic_dir dv inst = instanceDirectory dv inst @ [''infra'', ''traffic'']"

text \<open>Up to the decision to switch: the candidate configuration is tested by nginx itself.\<close>

definition prepare_ingress :: "'d deployer \<Rightarrow> config \<Rightarrow> string \<Rightarrow> bool \<Rightarrow> ('d, string list) deed" where
  "prepare_ingress dv c contents running =
     bindE (onW (safeDirectory (traffic_dir dv (cf_id c)) 493)) (\<lambda>_.
     bindE (onW (replaceContents_mode (traffic_dir dv (cf_id c) @ [''candidate.conf'']) (Text contents) 420)) (\<lambda>_.
     bindE (command dv (infrastructureConfig c)
       (if running then [''exec'', ''-T'', ''edge'', ''nginx'', ''-t'', ''-c'', ''/etc/geoflow/candidate.conf'']
        else [''run'', ''--rm'', ''--no-deps'', ''--entrypoint'', ''nginx'', ''edge'', ''-t'', ''-c'', ''/etc/geoflow/candidate.conf''])) (\<lambda>_.
     if \<not> running then retE []
     else bindE (ingressWorkers dv c) (\<lambda>workers.
          if workers = [] then failE (Msg ''running ingress has no observable workers'') else retE workers))))"

definition reload_arguments :: "bool \<Rightarrow> string list" where
  "reload_arguments running =
     (if running then [''exec'', ''-T'', ''edge'', ''nginx'', ''-s'', ''reload'', ''-c'', ''/etc/geoflow/nginx.conf'']
      else [''up'', ''-d'', ''--no-deps'', ''--wait'', ''--wait-timeout'', ''60'', ''edge''])"

definition empty_content :: "content \<Rightarrow> bool" where
  "empty_content x \<longleftrightarrow> x = Text []"

definition activate_ingress :: "'d deployer \<Rightarrow> config \<Rightarrow> content option \<Rightarrow> bool \<Rightarrow> ('d, unit) deed" where
  "activate_ingress dv c old running =
     bindE (note_errand (Switched c)) (\<lambda>_.
     checkE (command dv (infrastructureConfig c) (reload_arguments running))
       (\<lambda>e. bindE (case old of
                 None \<Rightarrow> retE ()
               | Some x \<Rightarrow> if empty_content x then retE ()
                   else ignoreE (onW (replaceContents_mode (traffic_dir dv (cf_id c) @ [''nginx.conf'']) x 420))) (\<lambda>_. failE e))
       (\<lambda>_. wait_ingress (dv_patience dv) dv c))"

definition edge_running :: "'d deployer \<Rightarrow> config \<Rightarrow> bool \<Rightarrow> ('d, bool) deed" where
  "edge_running dv c running =
     (if \<not> running then retE False
      else bindE (compose_output dv (infrastructureConfig c) [''ps'', ''--status'', ''running'', ''--quiet'', ''edge'']) (\<lambda>r.
           retE (trim (re_text r) \<noteq> [])))"

text \<open>The workers of the old ingress are reported even when the switch fails after they were seen.\<close>

definition switchIngress :: "'d deployer \<Rightarrow> config \<Rightarrow> 64 word \<Rightarrow> bool \<Rightarrow> ('d, string list \<times> err option) deed" where
  "switchIngress dv c n running0 =
     bindE (tryE (
       bindE (edge_running dv c running0) (\<lambda>running.
       bindE (onW (siteAuthority dv (cf_root c))) (\<lambda>(_, scheme, port).
       bindE (liftE (renderIngress (cf_active_slot c) n scheme port)) (\<lambda>contents.
       bindE (prepare_ingress dv c contents running) (\<lambda>workers.
       bindE (tryE (onW (read_file (traffic_dir dv (cf_id c) @ [''nginx.conf''])))) (\<lambda>old.
       bindE (case old of Inl e \<Rightarrow> if err_is ErrNotExist e then retE () else failE e | Inr _ \<Rightarrow> retE ()) (\<lambda>_.
       bindE (onW (replaceContents_mode (traffic_dir dv (cf_id c) @ [''nginx.conf'']) (Text contents) 420)) (\<lambda>_.
       retE (running, workers, case old of Inl _ \<Rightarrow> None | Inr x \<Rightarrow> Some x)))))))))) (\<lambda>r. case r of
     Inl e \<Rightarrow> retE ([], Some e)
   | Inr (running, workers, old) \<Rightarrow>
       bindE (tryE (activate_ingress dv c old running)) (\<lambda>s. retE (workers, err_of s)))"

definition ingress_error :: "string list \<times> err option \<Rightarrow> ('d, unit) deed" where
  "ingress_error r = (case snd r of None \<Rightarrow> retE () | Some e \<Rightarrow> failE e)"

fun wait_workers :: "nat \<Rightarrow> 'd deployer \<Rightarrow> config \<Rightarrow> string list \<Rightarrow> ('d, unit) deed" where
  "wait_workers n dv c workers =
     bindE (ingressWorkers dv c) (\<lambda>now_running.
     if \<not> list_ex (\<lambda>w. w \<in> set workers) now_running then retE ()
     else case n of
       0 \<Rightarrow> failE (Msg ''ingress still serves old in-flight requests; old slot retained'')
     | Suc k \<Rightarrow> wait_workers k dv c workers)"

declare wait_workers.simps [simp del]

definition waitIngressWorkers :: "'d deployer \<Rightarrow> config \<Rightarrow> string list \<Rightarrow> ('d, unit) deed" where
  "waitIngressWorkers dv c workers =
     (if workers = [] then retE () else wait_workers (dv_patience dv) dv c workers)"

definition ensureEdgeNetwork :: "'d deployer \<Rightarrow> string \<Rightarrow> ('d, unit) deed" where
  "ensureEdgeNetwork dv inst =
     (if \<not> instance_id_ok inst then failE (Msg ''invalid instance for edge network'')
      else let name = ''geoflow-'' @ inst @ ''-edge''; project = ''geoflow-'' @ inst @ ''-infra'' in
        bindE (wrapE (Wrap ''find edge network'')
          (docker_text dv [''network'', ''ls'', ''--filter'', ''name=^'' @ name @ ''$'', ''--format'', ''{{.ID}}''])) (\<lambda>r.
        if trim (re_text r) = [] then
          docker_quiet dv [''network'', ''create'', ''--label'', ''com.docker.compose.project='' @ project,
            ''--label'', ''com.docker.compose.network=edge'', name]
        else bindE (wrapE (Wrap ''inspect edge network ownership'')
               (docker_text dv [''network'', ''inspect'', ''--format'',
                 ''{{index .Labels '' @ dq ''com.docker.compose.project'' @ ''}}|{{index .Labels '' @
                 dq ''com.docker.compose.network'' @ ''}}'', name])) (\<lambda>owner.
             if trim (re_text owner) \<noteq> project @ ''|edge'' then failE (Msg ''edge network belongs to another deployment'')
             else retE ())))"

section \<open>Running services\<close>

definition dec_row :: "json \<Rightarrow> (string \<times> string \<times> string) option" where
  "dec_row j = Option.bind (members j) (\<lambda>kvs.
     Option.bind (field ''Service'' dec_str kvs []) (\<lambda>s.
     Option.bind (field ''State'' dec_str kvs []) (\<lambda>st.
     Option.bind (field ''Health'' dec_str kvs []) (\<lambda>h. Some (s, st, h)))))"

text \<open>\<open>docker compose ps\<close> prints an array or one object after another.\<close>

definition service_rows :: "reply \<Rightarrow> (string \<times> string \<times> string) list option" where
  "service_rows r =
     (if has_prefix ''['' (re_text r)
      then Option.bind (one_value r) (\<lambda>j. case j of JArr js \<Rightarrow> dec_all dec_row js | _ \<Rightarrow> None)
      else Option.bind (re_values r) (dec_all dec_row))"

definition row_ready :: "string \<times> string \<times> string \<Rightarrow> bool" where
  "row_ready x \<longleftrightarrow> fst x = ''init'' \<or> fst (snd x) = ''running'' \<and> (snd (snd x) = [] \<or> snd (snd x) = ''healthy'')"

definition runningServices :: "'d deployer \<Rightarrow> config \<Rightarrow> ('d, unit) deed" where
  "runningServices dv c =
     bindE (onW (applicationServices dv (cf_compose c))) (\<lambda>expected.
     bindE (compose_output dv c [''ps'', ''--all'', ''--format'', ''json'']) (\<lambda>r.
     case service_rows r of
       None \<Rightarrow> failE (Msg ''invalid service table'')
     | Some rows \<Rightarrow>
         (case filter (\<lambda>x. \<not> row_ready x) rows of
            x # _ \<Rightarrow> failE (Msg (''service '' @ fst x @ '' is not ready''))
          | [] \<Rightarrow>
              (case filter (\<lambda>n. n \<notin> fst ` {x \<in> set rows. fst x \<noteq> ''init''}) expected of
                 n # _ \<Rightarrow> failE (Msg (''required service '' @ n @ '' is absent'')) | [] \<Rightarrow> retE ()))))"

fun observe_loop :: "nat \<Rightarrow> 'd deployer \<Rightarrow> config \<Rightarrow> int \<Rightarrow> ('d, unit) deed" where
  "observe_loop n dv c deadline =
     bindE (checkHTTP dv c) (\<lambda>_. bindE (checkIngressIdentity dv c) (\<lambda>_. bindE (runningServices dv c) (\<lambda>_ h.
     if deadline \<le> dv_now dv h then (Inr (), h)
     else case n of 0 \<Rightarrow> (Inl (Msg ''context deadline exceeded''), h) | Suc k \<Rightarrow> observe_loop k dv c deadline h)))"

declare observe_loop.simps [simp del]

definition observeRelease :: "'d deployer \<Rightarrow> config \<Rightarrow> ('d, unit) deed" where
  "observeRelease dv c h =
     observe_loop (dv_patience dv) dv c
       (dv_now dv h + (if dv_observe dv \<le> 0 then 120 * 10 ^ 9 else dv_observe dv)) h"

end
