(* ===== verification/Scheduler.thy ===== *)
theory Scheduler
  imports Traffic
begin

text \<open>
  Draining the background of a deployment (\<open>legacy_scheduler.go\<close>, \<open>bluegreen.go\<close>). The old scheduler
  does not stop when asked; it is frozen, watched until its tasks have ended, and killed only
  after a proof of that is on disk. Whatever happens, a process that was frozen and still runs is
  continued, and its proof is revoked before.
\<close>

record scheduler_state =
  ss_running :: bool
  ss_exit :: int
  ss_oom :: bool
  ss_pid :: int
  ss_started :: string

definition zero_scheduler :: scheduler_state where
  "zero_scheduler = \<lparr>ss_running = False, ss_exit = 0, ss_oom = False, ss_pid = 0, ss_started = []\<rparr>"

definition scheduler_of_json :: "json \<Rightarrow> scheduler_state option" where
  "scheduler_of_json j = Option.bind (members j) (\<lambda>kvs.
     Option.bind (field ''Running'' dec_bool kvs False) (\<lambda>run.
     Option.bind (field ''ExitCode'' dec_int64 kvs 0) (\<lambda>n.
     Option.bind (field ''OOMKilled'' dec_bool kvs False) (\<lambda>oom.
     Option.bind (field ''Pid'' dec_int64 kvs 0) (\<lambda>pid.
     Option.bind (field ''StartedAt'' dec_str kvs []) (\<lambda>started.
     Some \<lparr>ss_running = run, ss_exit = n, ss_oom = oom, ss_pid = pid, ss_started = started\<rparr>))))))"

definition scheduler_to_json :: "scheduler_state \<Rightarrow> json" where
  "scheduler_to_json s = JObj [(''Running'', JBool (ss_running s)), (''ExitCode'', JNum (ss_exit s)),
     (''OOMKilled'', JBool (ss_oom s)), (''Pid'', JNum (ss_pid s)), (''StartedAt'', JStr (ss_started s))]"

definition content_json :: "content \<Rightarrow> json option" where
  "content_json x = (case x of Json j \<Rightarrow> Some j | Text _ \<Rightarrow> None)"

definition inspect_scheduler :: "'d deployer \<Rightarrow> string \<Rightarrow> ('d, scheduler_state) deed" where
  "inspect_scheduler dv i =
     bindE (docker_text dv [''inspect'', ''--format={{json .State}}'', i]) (\<lambda>r.
     case Option.bind (one_value r) scheduler_of_json of None \<Rightarrow> failE (Msg ''invalid JSON'') | Some s \<Rightarrow> retE s)"

definition proof_path :: "'d deployer \<Rightarrow> config \<Rightarrow> string \<Rightarrow> path" where
  "proof_path dv c i = instanceDirectory dv (cf_id c) @ [''legacy-scheduler-drain-'' @ i @ ''.json'']"

definition intent_path :: "'d deployer \<Rightarrow> config \<Rightarrow> string \<Rightarrow> path" where
  "intent_path dv c i = instanceDirectory dv (cf_id c) @ [''legacy-scheduler-freeze-'' @ i @ ''.json'']"

text \<open>A proof covers an abnormal exit only for the same start of the container.\<close>

definition proof_covers :: "scheduler_state \<Rightarrow> scheduler_state \<Rightarrow> bool" where
  "proof_covers recorded s \<longleftrightarrow> ss_running recorded \<and> 0 < ss_pid recorded \<and> \<not> ss_oom recorded \<and> ss_started recorded = ss_started s"

definition stopped_scheduler :: "'d deployer \<Rightarrow> path \<Rightarrow> scheduler_state \<Rightarrow> ('d, unit) deed" where
  "stopped_scheduler dv prf s =
     (let unclean = failE (Msg (''legacy scheduler did not exit cleanly (exit '' @ int_dec (ss_exit s) @ '')'')) in
      if ss_exit s = 0 \<or> ss_exit s = 143 then retE ()
      else if ss_exit s \<noteq> 137 then unclean
      else bindE (tryE (onW (regularFile prf))) (\<lambda>f. case f of
        Inl _ \<Rightarrow> unclean
      | Inr _ \<Rightarrow> bindE (tryE (onW (read_file prf))) (\<lambda>r. case r of
          Inl _ \<Rightarrow> unclean
        | Inr x \<Rightarrow> (case Option.bind (content_json x) scheduler_of_json of
            None \<Rightarrow> unclean | Some recorded \<Rightarrow> if proof_covers recorded s then retE () else unclean))))"

definition intent_valid :: "scheduler_state \<Rightarrow> bool" where
  "intent_valid s \<longleftrightarrow> ss_running s \<and> 1 \<le> ss_pid s \<and> ss_started s \<noteq> [] \<and> \<not> ss_oom s"

definition read_intent :: "path \<Rightarrow> scheduler_state io" where
  "read_intent intent =
     bindE (regularFile intent) (\<lambda>_.
     bindE (read_file intent) (\<lambda>x w.
     case Option.bind (content_json x) scheduler_of_json of
       None \<Rightarrow> (Inl (Msg ''invalid scheduler freeze intent''), w)
     | Some s \<Rightarrow> (if data_size w x > 4096 \<or> \<not> intent_valid s then Inl (Msg ''invalid scheduler freeze intent'') else Inr s, w)))"

definition thawLegacyScheduler :: "'d deployer \<Rightarrow> string \<Rightarrow> path \<Rightarrow> path \<Rightarrow> ('d, unit) deed" where
  "thawLegacyScheduler dv i intent prf =
     bindE (onW (read_intent intent)) (\<lambda>recorded.
     bindE (inspect_scheduler dv i) (\<lambda>current.
     bindE (if \<not> ss_running current then retE ()
            else bindE (onW (replaceContents_mode prf (Json (JObj [])) 384)) (\<lambda>_.
                 if ss_started current = ss_started recorded \<and> ss_pid current = ss_pid recorded
                 then docker_quiet dv [''kill'', ''--signal=CONT'', i] else retE ())) (\<lambda>_.
     onW (remove intent))))"

fun wait_idle :: "nat \<Rightarrow> 'd deployer \<Rightarrow> string \<Rightarrow> int \<Rightarrow> ('d, unit) deed" where
  "wait_idle n dv i parent =
     bindE (docker_text dv [''top'', i, ''-eo'', ''pid,stat'']) (\<lambda>r.
     bindE (liftE (legacySchedulerIdle (re_text r) parent)) (\<lambda>idle.
     if idle then retE ()
     else case n of
       0 \<Rightarrow> failE (Wrap ''legacy scheduler still has child tasks'' (Msg ''context deadline exceeded''))
     | Suc k \<Rightarrow> wait_idle k dv i parent))"

declare wait_idle.simps [simp del]

text \<open>What happens between the freeze and the kill.\<close>

definition kill_idle :: "'d deployer \<Rightarrow> string \<Rightarrow> path \<Rightarrow> scheduler_state \<Rightarrow> ('d, unit) deed" where
  "kill_idle dv i prf s =
     bindE (docker_quiet dv [''kill'', ''--signal=STOP'', i]) (\<lambda>_.
     bindE (wait_idle (dv_patience dv) dv i (ss_pid s)) (\<lambda>_.
     bindE (onW (replaceContents_mode prf (Json (scheduler_to_json s)) 384)) (\<lambda>_.
     drainContainersSignal dv [i] ''KILL'')))"

text \<open>The deferred thaw joins its error to the result.\<close>

definition with_thaw :: "('d, unit) deed \<Rightarrow> ('d, unit) deed \<Rightarrow> ('d, unit) deed" where
  "with_thaw m thaw =
     bindE (tryE m) (\<lambda>r. bindE (tryE thaw) (\<lambda>t.
     case join_errs [err_of r, err_of t] of None \<Rightarrow> retE () | Some e \<Rightarrow> failE e))"

definition drainLegacyScheduler :: "'d deployer \<Rightarrow> config \<Rightarrow> string \<Rightarrow> ('d, unit) deed" where
  "drainLegacyScheduler dv c i =
     bindE (inspect_scheduler dv i) (\<lambda>s.
     if ss_oom s \<or> ss_started s = [] then failE (Msg ''legacy scheduler state is invalid or OOM killed'')
     else if \<not> ss_running s then stopped_scheduler dv (proof_path dv c i) s
     else if ss_pid s < 1 then failE (Msg ''legacy scheduler parent PID is invalid'')
     else bindE (docker_quiet dv [''update'', ''--restart=no'', i]) (\<lambda>_.
          bindE (onW (safeDirectory (instanceDirectory dv (cf_id c)) 448)) (\<lambda>_.
          bindE (onW (replaceContents_mode (intent_path dv c i) (Json (scheduler_to_json s)) 384)) (\<lambda>_.
          with_thaw (kill_idle dv i (proof_path dv c i) s)
            (thawLegacyScheduler dv i (intent_path dv c i) (proof_path dv c i))))))"

definition legacy_command :: "json \<Rightarrow> bool option" where
  "legacy_command j = map_option (\<lambda>xs. xs = [''php'', ''artisan'', ''schedule:work'']) (dec_strings j [])"

definition sort_scheduler :: "'d deployer \<Rightarrow> config \<Rightarrow> string \<Rightarrow> string list \<Rightarrow> ('d, string list) deed" where
  "sort_scheduler dv c i other =
     bindE (docker_text dv [''inspect'', ''--format={{json .Config.Cmd}}'', i]) (\<lambda>r.
     case Option.bind (one_value r) legacy_command of
       None \<Rightarrow> failE (Msg ''invalid JSON'')
     | Some False \<Rightarrow> retE (other @ [i])
     | Some True \<Rightarrow> bindE (drainLegacyScheduler dv c i) (\<lambda>_. retE other))"

definition drainScheduler :: "'d deployer \<Rightarrow> config \<Rightarrow> ('d, unit) deed" where
  "drainScheduler dv c =
     bindE (containerIDs dv c [''scheduler'']) (\<lambda>ids.
     bindE (foldE (sort_scheduler dv c) ids []) (\<lambda>other. drainContainers dv other))"

text \<open>\<open>filepath.Glob\<close> over the freeze intents ignores what it cannot read.\<close>

definition intent_name :: "string \<Rightarrow> bool" where
  "intent_name n \<longleftrightarrow> has_prefix ''legacy-scheduler-freeze-'' n \<and> has_suffix ''.json'' n \<and>
     length ''legacy-scheduler-freeze-.json'' \<le> length n"

definition frozen_intents :: "'d deployer \<Rightarrow> config \<Rightarrow> string list io" where
  "frozen_intents dv c =
     bindE (tryE (read_dir (instanceDirectory dv (cf_id c)))) (\<lambda>r.
     retE (case r of Inl _ \<Rightarrow> [] | Inr ns \<Rightarrow> filter intent_name ns))"

definition resume_frozen :: "'d deployer \<Rightarrow> config \<Rightarrow> string \<Rightarrow> ('d, unit) deed" where
  "resume_frozen dv c i =
     bindE (tryE (onW (lstat (intent_path dv c i)))) (\<lambda>r. case r of
       Inl e \<Rightarrow> if err_is ErrNotExist e then retE () else failE e
     | Inr _ \<Rightarrow> thawLegacyScheduler dv i (intent_path dv c i) (proof_path dv c i))"

definition resumeFrozenSchedulers :: "'d deployer \<Rightarrow> config \<Rightarrow> ('d, unit) deed" where
  "resumeFrozenSchedulers dv c =
     bindE (onW (frozen_intents dv c)) (\<lambda>intents.
     if intents = [] then retE ()
     else bindE (containerIDs dv c [''scheduler'']) (\<lambda>ids. forE (resume_frozen dv c) ids))"

definition drainBackground :: "'d deployer \<Rightarrow> config \<Rightarrow> ('d, unit) deed" where
  "drainBackground dv c =
     bindE (drainScheduler dv c) (\<lambda>_.
     bindE (onW (backgroundServices dv (cf_compose c))) (\<lambda>names.
     drainServices dv c (filter (\<lambda>n. n \<noteq> ''scheduler'') names)))"

end
