(* ===== verification/Transaction.thy ===== *)
theory Transaction
  imports Scheduler
begin

text \<open>
  The records a release works on (\<open>internal/deployment\<close>): the journal of the release
  (\<open>bluegreen.go\<close>), the configuration of the instance and the checks before an update
  (\<open>service.go\<close>), the deployments a recovery has to know (\<open>recovery_topology.go\<close>), and the
  preparation of a candidate (\<open>bluegreen_helpers.go\<close>, \<open>traffic.go\<close>).
\<close>

section \<open>The journal of a release\<close>

definition transactionPath :: "'d deployer \<Rightarrow> string \<Rightarrow> path" where
  "transactionPath dv inst = instanceDirectory dv inst @ [''release-transaction.json'']"

definition saveTransaction :: "'d deployer \<Rightarrow> transaction \<Rightarrow> unit io" where
  "saveTransaction dv t = replaceContents_mode (transactionPath dv (cf_id (tr_source t))) (Json (dv_encode dv t)) 384"

definition transaction_limit :: nat where
  "transaction_limit = 8 * 1024 * 1024"

definition transaction_ok :: "'d deployer \<Rightarrow> string \<Rightarrow> transaction \<Rightarrow> err + unit" where
  "transaction_ok dv inst t =
     (if tr_schema t \<noteq> 1 \<or> cf_id (tr_source t) \<noteq> inst \<or> cf_id (tr_candidate t) \<noteq> inst \<or>
         \<not> validSlot (cf_active_slot (tr_candidate t)) \<or> \<not> safeOperationID (tr_operation t)
      then Inl (Msg ''invalid release transaction'')
      else if list_ex (\<lambda>p. \<not> inside (instanceDirectory dv inst) p)
                [cf_compose (tr_source t), cf_env (tr_source t), cf_compose (tr_candidate t), cf_env (tr_candidate t)]
      then Inl (Msg ''release transaction path escaped managed state'')
      else release_validate (tr_target t))"

definition readTransaction :: "'d deployer \<Rightarrow> string \<Rightarrow> transaction io" where
  "readTransaction dv inst =
     (if \<not> instance_id_ok inst then failE (Msg ''invalid instance'')
      else bindE (regularFile (transactionPath dv inst)) (\<lambda>_.
           bindE (open_path (transactionPath dv inst)) (\<lambda>_.
           deferE
             (bindE (read_file (transactionPath dv inst)) (\<lambda>x w.
              case (if transaction_limit < data_size w x then None else Option.bind (content_json x) (dv_decode dv)) of
                None \<Rightarrow> (Inl (Msg ''invalid release transaction''), w)
              | Some t \<Rightarrow> (case transaction_ok dv inst t of Inl e \<Rightarrow> (Inl e, w) | Inr _ \<Rightarrow> (Inr t, w))))
             (close_file (transactionPath dv inst)))))"

section \<open>The configuration of an instance\<close>

text \<open>\<open>filepath.EvalSymlinks\<close>: whether the path resolves to itself. Links have no destination in the
  file model; a path through one resolves to something else.\<close>

definition evalSymlinks :: "path \<Rightarrow> bool io" where
  "evalSymlinks p = sys (\<lambda>w.
     if list_ex (\<lambda>q. look w q = None) (prefixes_of p) then (Inl (Sentinel ErrNotExist), w)
     else (Inr (list_all (\<lambda>q. map_option n_kind (look w q) \<noteq> Some KSymlink) (prefixes_of p)), w))"

definition incomplete_config :: "config \<Rightarrow> string \<Rightarrow> bool" where
  "incomplete_config c inst \<longleftrightarrow> cf_schema c \<noteq> 1 \<or> cf_id c \<noteq> inst \<or> cf_root c = [] \<or> cf_release c = 0 \<or> cf_version c = []"

definition check_root :: "string \<Rightarrow> unit io" where
  "check_root site =
     (if \<not> is_abs site \<or> site = ''/'' then failE (Msg ''managed instance root is unsafe'')
      else bindE (tryE (lstat (text_path site))) (\<lambda>r.
           if (case r of Inl _ \<Rightarrow> True | Inr i \<Rightarrow> i_kind i \<noteq> KDir)
           then failE (Msg ''managed instance root is unavailable or unsafe'')
           else bindE (tryE (evalSymlinks (text_path site))) (\<lambda>s.
             if s \<noteq> Inr True then failE (Msg ''managed instance root no longer matches its enrolled path'') else retE ())))"

definition check_owned :: "path \<Rightarrow> string \<Rightarrow> unit io" where
  "check_owned d p =
     (case path_rel (path_text d) (path_clean p) of
        None \<Rightarrow> failE (Msg ''managed instance path escapes its state directory'')
      | Some r \<Rightarrow>
          if r = ''..'' \<or> has_prefix ''../'' r then failE (Msg ''managed instance path escapes its state directory'')
          else bindE (tryE (evalSymlinks (text_path p))) (\<lambda>s.
               if s \<noteq> Inr True then failE (Msg ''managed instance path contains a symbolic link'')
               else checkE (regularFile (text_path p))
                      (\<lambda>_. failE (Msg ''managed instance file is unavailable or unsafe'')) retE))"

definition check_layout :: "path \<Rightarrow> config \<Rightarrow> err + string list" where
  "check_layout d c =
     (let owned = [cf_compose c, cf_env c, cf_token c] in
      if cf_layout c = [] then Inr owned
      else if cf_layout c \<noteq> LayoutBlueGreen then Inl (Msg ''unsupported managed layout'')
      else if \<not> validSlot (cf_active_slot c) then Inl (Msg ''invalid active slot'')
      else if path_dir (cf_compose c) \<noteq> path_text (d @ [''slots'', cf_active_slot c]) then Inl (Msg ''active slot path mismatch'')
      else Inr (owned @ [cf_infra_compose c, cf_infra_env c]))"

definition unsafe_directory :: "err + info \<Rightarrow> bool" where
  "unsafe_directory r = (case r of Inl _ \<Rightarrow> True | Inr i \<Rightarrow> i_kind i \<noteq> KDir)"

definition check_storage :: "string \<Rightarrow> string \<Rightarrow> unit io" where
  "check_storage site pid =
     bindE (tryE (lstat (text_path (path_join [site, ''storage''])))) (\<lambda>r.
     bindE (if not_exist r \<and> pid \<noteq> []
            then tryE (lstat (text_path (path_join [site, ''.geoflow-updater-storage-old-'' @ pid]))) else retE r) (\<lambda>r2.
     if unsafe_directory r2 then failE (Msg ''managed storage directory is unavailable or unsafe'') else retE ()))"

definition loadConfigForRecovery :: "'d deployer \<Rightarrow> string \<Rightarrow> string \<Rightarrow> config io" where
  "loadConfigForRecovery dv inst pid =
     (if \<not> instance_id_ok inst then failE (Msg ''managed instance identifier is invalid'')
      else
        (let d = instanceDirectory dv inst; p = d @ [''instance.yml''] in
         bindE (tryE (lstat p)) (\<lambda>r.
         if (case r of Inl _ \<Rightarrow> True | Inr i \<Rightarrow> i_kind i \<noteq> KRegular \<or> i_size i < 1 \<or> i_size i > 1024 * 1024)
         then failE (Msg ''managed instance configuration is unavailable'')
         else bindE (read_file p) (\<lambda>x.
              case dv_config dv x of
                None \<Rightarrow> failE (Msg ''yaml'')
              | Some c \<Rightarrow>
                  if incomplete_config c inst then failE (Msg ''managed instance configuration is incomplete'')
                  else
                    (let site = path_clean (cf_root c) in
                     bindE (check_root site) (\<lambda>_.
                     bindE (liftE (check_layout d c)) (\<lambda>owned.
                     bindE (evalSymlinks d) (\<lambda>_.
                     bindE (forE (check_owned d) owned) (\<lambda>_.
                     bindE (forE (\<lambda>n. checkE (regularFile (text_path (path_join [site, n])))
                              (\<lambda>_. failE (Msg ''managed site file is unavailable or unsafe'')) retE) [''.env.prod'', ''version.json'']) (\<lambda>_.
                     bindE (check_storage site pid) (\<lambda>_. retE (c\<lparr>cf_root := site\<rparr>)))))))))))) "

definition loadConfig :: "'d deployer \<Rightarrow> string \<Rightarrow> config io" where
  "loadConfig dv inst = loadConfigForRecovery dv inst []"

section \<open>Deployments of an instance\<close>

definition slot_config :: "'d deployer \<Rightarrow> config \<Rightarrow> string \<Rightarrow> config" where
  "slot_config dv c slot =
     c\<lparr>cf_active_slot := slot, cf_compose := path_text (instanceDirectory dv (cf_id c) @ [''slots'', slot, ''docker-compose.yml'']),
       cf_env := path_text (instanceDirectory dv (cf_id c) @ [''slots'', slot, ''release.env''])\<rparr>"

definition topology_paths :: "'d deployer \<Rightarrow> string \<Rightarrow> config \<Rightarrow> err + string list" where
  "topology_paths dv inst r =
     (let owned = [cf_compose r, cf_env r, cf_token r]; slot = slot_config dv (r\<lparr>cf_id := inst\<rparr>) (cf_active_slot r);
          infra = instanceDirectory dv inst @ [''infra''] in
      if cf_layout r = [] then Inr owned
      else if cf_layout r \<noteq> LayoutBlueGreen then Inl (Msg ''recovery topology has an unsupported layout'')
      else if \<not> validSlot (cf_active_slot r) \<or> cf_compose r \<noteq> cf_compose slot \<or> cf_env r \<noteq> cf_env slot \<or>
              cf_infra_compose r \<noteq> path_text (infra @ [''docker-compose.yml'']) \<or>
              cf_infra_env r \<noteq> path_text (infra @ [''release.env''])
      then Inl (Msg ''recovery topology has unexpected slot or infrastructure paths'')
      else Inr (owned @ [cf_infra_compose r, cf_infra_env r]))"

definition check_topology_path :: "path \<Rightarrow> string \<Rightarrow> unit io" where
  "check_topology_path d p =
     (if \<not> inside d p then failE (Msg ''recovery topology escaped managed state'')
      else bindE (tryE (evalSymlinks (text_path p))) (\<lambda>s.
           if s \<noteq> Inr True then failE (Msg ''recovery topology has an unavailable or symbolic path'')
           else regularFile (text_path p)))"

definition validateRecoveryTopology :: "'d deployer \<Rightarrow> config \<Rightarrow> config \<Rightarrow> unit io" where
  "validateRecoveryTopology dv c r =
     (if cf_schema r \<noteq> 1 \<or> cf_id r \<noteq> cf_id c \<or> cf_root r \<noteq> cf_root c \<or> cf_token r \<noteq> cf_token c \<or>
         cf_release r = 0 \<or> cf_version r = []
      then failE (Msg ''recovery topology does not match the enrolled instance'')
      else bindE (liftE (topology_paths dv (cf_id c) r)) (\<lambda>ps.
           bindE (evalSymlinks (instanceDirectory dv (cf_id c))) (\<lambda>_.
           forE (check_topology_path (instanceDirectory dv (cf_id c))) ps)))"

definition add_slot :: "'d deployer \<Rightarrow> config \<Rightarrow> config \<Rightarrow> config list \<Rightarrow> config list io" where
  "add_slot dv current c configs =
     (if cf_layout c \<noteq> LayoutBlueGreen then retE configs
      else
        (let other = slot_config dv c (otherSlot (cf_active_slot c)) in
         if cf_compose other \<in> cf_compose ` set configs then retE configs
         else bindE (tryE (regularFile (text_path (cf_compose other)))) (\<lambda>r. case r of
           Inl e \<Rightarrow> if err_is ErrNotExist e then retE configs else failE e
         | Inr _ \<Rightarrow> bindE (validateRecoveryTopology dv current other) (\<lambda>_. retE (configs @ [other])))))"

definition recoverySlots :: "'d deployer \<Rightarrow> config \<Rightarrow> config list \<Rightarrow> config list io" where
  "recoverySlots dv current configs = foldE (add_slot dv current) configs configs"

definition add_recorded :: "'d deployer \<Rightarrow> config \<Rightarrow> config \<Rightarrow> config list \<Rightarrow> config list io" where
  "add_recorded dv c r configs =
     bindE (validateRecoveryTopology dv c r) (\<lambda>_.
     retE (if cf_compose r \<in> cf_compose ` set configs then configs else configs @ [r]))"

definition final_status :: "string \<Rightarrow> bool" where
  "final_status s \<longleftrightarrow> s = StatusSucceeded \<or> s = StatusRolledBack \<or> s = StatusFailed"

definition recoveryTopologies :: "'d deployer \<Rightarrow> config \<Rightarrow> config list io" where
  "recoveryTopologies dv c =
     bindE (tryE (readTransaction dv (cf_id c))) (\<lambda>r. case r of
       Inl e \<Rightarrow> if err_is ErrNotExist e then recoverySlots dv c [c] else failE e
     | Inr t \<Rightarrow>
         if final_status (tr_status t) then recoverySlots dv c [c]
         else if tr_status t \<noteq> ''running'' \<and> tr_status t \<noteq> StatusRecoveryRequired
         then failE (Msg ''unknown deployment transaction status during recovery'')
         else if \<not> tr_layout t then recoverySlots dv c [c]
         else if cf_layout (tr_candidate t) \<noteq> LayoutBlueGreen
         then failE (Msg ''pending layout has no blue-green candidate'')
         else bindE (foldE (add_recorded dv c) [tr_source t, tr_candidate t] [c]) (\<lambda>cs. recoverySlots dv c cs))"

definition downInfrastructure :: "'d deployer \<Rightarrow> config \<Rightarrow> ('d, unit) deed" where
  "downInfrastructure dv c =
     bindE (if cf_layout c \<noteq> LayoutBlueGreen then retE ()
            else bindE (onW (validateRecoveryTopology dv c c)) (\<lambda>_.
                 bindE (onW (recoverySlots dv c [c])) (\<lambda>slots.
                 forE (\<lambda>s. command dv s [''down'', ''--remove-orphans'']) slots))) (\<lambda>_.
     command dv (infrastructureConfig c) [''down'', ''--remove-orphans''])"

section \<open>Before an update\<close>

definition requireRecoveryReady :: "'d deployer \<Rightarrow> string \<Rightarrow> unit io" where
  "requireRecoveryReady dv inst =
     bindE (tryE (rcRead (recoveryControl dv) inst)) (\<lambda>r. case r of
       Inr a \<Rightarrow> if rs_phase (ra_state a) \<noteq> ''ready''
                then failE (Msg ''recovery reconciliation is required before application changes or background work'')
                else retE ()
     | Inl e \<Rightarrow>
         if err_is ErrNotExist e then
           bindE (tryE (lstat (initialized_path (deploy_dir dv) inst))) (\<lambda>i. if not_exist i then retE () else failE e)
         else failE e)"

definition Resolve :: "'d deployer \<Rightarrow> string \<Rightarrow> ('d, release) deed" where
  "Resolve dv inst =
     (case dv_releases dv of
        None \<Rightarrow> failE (Msg ''trusted release resolver is unavailable'')
      | Some current \<Rightarrow>
          bindE (wrapE (Wrap ''resolve signed release'') (onW current)) (\<lambda>r.
          bindE (wrapE (Wrap ''validate signed release'') (liftE (release_validate r))) (\<lambda>_. retE r)))"

text \<open>The only failure an update tolerates is one: the retired update worker, which it removes.\<close>

fun tolerated_checks :: "(string \<times> string \<times> string) list \<Rightarrow> bool \<Rightarrow> bool" where
  "tolerated_checks [] seen = seen"
| "tolerated_checks ((i, st, m) # xs) seen =
     (if st = ''pass'' then tolerated_checks xs seen
      else if st = ''fail'' then (if seen \<or> i \<noteq> ''retired-update-worker'' then False else tolerated_checks xs True)
      else False)"

definition updatePreflightReportAllowed :: "report \<Rightarrow> bool" where
  "updatePreflightReportAllowed r \<longleftrightarrow>
     rp_status r = ''pass'' \<or> rp_status r = ''fail'' \<and> tolerated_checks (rp_checks r) False"

definition release_pins :: "release \<Rightarrow> string \<Rightarrow> string \<Rightarrow> (string \<times> string) list" where
  "release_pins r pg redis =
     [(''GEOFLOW_RELEASE_SEQUENCE'', nat_dec (unat (rl_sequence r))), (''GEOFLOW_VERSION'', rl_version r),
      (''GEOFLOW_APP_IMAGE'', rl_app r), (''GEOFLOW_WEB_IMAGE'', rl_web r),
      (''GEOFLOW_POSTGRES_IMAGE'', pg), (''GEOFLOW_REDIS_IMAGE'', redis)]"

definition check_installed :: "string \<Rightarrow> content \<Rightarrow> unit io" where
  "check_installed p expected =
     bindE (tryE (lstat (text_path p))) (\<lambda>r w.
       let differs = failE (Msg ''the installed deployment content differs from its signed release'') in
       (if (case r of Inl _ \<Rightarrow> True | Inr i \<Rightarrow> i_kind i \<noteq> KRegular \<or> i_size i \<noteq> data_size w expected) then differs
        else bindE (tryE (read_file (text_path p))) (\<lambda>x. if x \<noteq> Inr expected then differs else retE ())) w)"

definition enrolled_layout :: "'d deployer \<Rightarrow> config \<Rightarrow> bool" where
  "enrolled_layout dv c \<longleftrightarrow> cf_layout c = [] \<and> cf_active_slot c = [] \<and> cf_infra_compose c = [] \<and> cf_infra_env c = [] \<and>
     cf_compose c = path_text (instanceDirectory dv (cf_id c) @ [''docker-compose.managed.yml'']) \<and>
     cf_env c = path_text (instanceDirectory dv (cf_id c) @ [''release.env''])"

definition conversion_plan :: "config \<Rightarrow> release \<Rightarrow> bool" where
  "conversion_plan c r = (case DecodeUpgradePlan (rl_plan r) of
     Inl _ \<Rightarrow> False | Inr p \<Rightarrow> up_strategy p = StrategyMaintenance \<and> AllowsSource p (uint (cf_release c)))"

definition check_pins :: "config \<Rightarrow> release \<Rightarrow> unit io" where
  "check_pins c r =
     bindE (tryE (lstat (text_path (cf_env c)))) (\<lambda>i.
     if (case i of Inl _ \<Rightarrow> True | Inr f \<Rightarrow> i_kind f \<noteq> KRegular \<or> i_size f > 1024 * 1024)
     then failE (Msg ''the installed release environment is not a bounded regular file'')
     else bindE (read_file (text_path (cf_env c))) (\<lambda>x.
          bindE (liftE (InfrastructureImages r (cf_pg_major c) (cf_redis_major c))) (\<lambda>(pg, redis).
          if replaceEnvironmentValues (file_text x) (release_pins r pg redis) \<noteq> Inr (file_text x)
          then failE (Msg ''the installed image pins differ from its signed release'') else retE ())))"

definition validateEnrolledConversion :: "'d deployer \<Rightarrow> config \<Rightarrow> release \<Rightarrow> unit io" where
  "validateEnrolledConversion dv c r =
     (if \<not> enrolled_layout dv c then failE (Msg ''only the enrolled legacy layout can be converted'')
      else bindE (liftE (release_validate r)) (\<lambda>_.
        if \<not> conversion_plan c r
        then failE (Msg ''the enrolled release requires a signed maintenance plan permitting its source'')
        else if cf_version c \<noteq> rl_version r \<or> \<not> (shape (replicate 40 is_hex) (rl_commit r) \<or> hex64_ok (rl_commit r))
        then failE (Msg ''the enrolled release version or source identity does not match'')
        else if cf_release_sha c \<noteq> dv_identity dv r
        then failE (Msg ''the current signed release differs from the complete enrolled release identity'')
        else bindE (forE (\<lambda>(p, x). check_installed p x)
               [(cf_compose c, dv_template dv r), (path_join [cf_root c, ''version.json''], dv_bytes dv (rl_document r))]) (\<lambda>_.
             check_pins c r)))"

definition Preflight :: "'d deployer \<Rightarrow> string \<Rightarrow> release \<Rightarrow> ('d, unit) deed" where
  "Preflight dv inst r =
     bindE (onW (requireRecoveryReady dv inst)) (\<lambda>_.
     bindE (onW (loadConfig dv inst)) (\<lambda>c.
     if rl_sequence r < cf_release c then failE (Msg (''signed release sequence '' @ nat_dec (unat (rl_sequence r)) @
       '' does not exceed installed sequence '' @ nat_dec (unat (cf_release c))))
     else bindE (if rl_sequence r = cf_release c
            then onW (wrapE (Wrap ''same-release layout conversion is unavailable'') (validateEnrolledConversion dv c r))
            else retE ()) (\<lambda>_.
          if dc_len (rl_document r) = 0 then failE (Msg ''signed release is missing its version document'')
          else bindE (liftE (InfrastructureImages r (cf_pg_major c) (cf_redis_major c))) (\<lambda>_.
               case dv_doctor dv of
                 None \<Rightarrow> failE (Msg ''deployment diagnostics are unavailable'')
               | Some doctor \<Rightarrow>
                   bindE (diagnose doctor inst) (\<lambda>rep.
                   if updatePreflightReportAllowed rep then retE ()
                   else failE (Msg (''current deployment diagnostics returned '' @ rp_status rep)))))))"

section \<open>Preparing a candidate\<close>

definition prepareViews :: "'d deployer \<Rightarrow> config \<Rightarrow> unit io" where
  "prepareViews dv c =
     (let p = instanceDirectory dv (cf_id c) @ [''slots'', cf_active_slot c, ''views''] in
      bindE (safeDirectory p 493) (\<lambda>_. chown p 33 33))"

definition candidate_config :: "config \<Rightarrow> release \<Rightarrow> path \<Rightarrow> string \<Rightarrow> config" where
  "candidate_config c r d slot =
     (let k = c\<lparr>cf_release := rl_sequence r, cf_version := rl_version r,
                cf_compose := path_text (d @ [''docker-compose.yml'']), cf_env := path_text (d @ [''release.env'']),
                cf_active_slot := slot\<rparr>
      in if slot \<noteq> [] then k\<lparr>cf_layout := LayoutBlueGreen\<rparr> else k)"

definition candidate_template :: "'d deployer \<Rightarrow> config \<Rightarrow> release \<Rightarrow> string \<Rightarrow> err + content" where
  "candidate_template dv k r slot =
     (if slot = [] then Inr (dv_template dv r)
      else case renderTopology (dv_yaml dv (dv_template dv r)) k slot (instanceDirectory dv (cf_id k)) of
        Inl e \<Rightarrow> Inl e | Inr (app, infra) \<Rightarrow> Inr (dv_marshal dv app))"

definition candidate_files :: "'d deployer \<Rightarrow> release \<Rightarrow> content \<Rightarrow> string \<Rightarrow> (string \<times> content \<times> nat) list" where
  "candidate_files dv r template env =
     [(''docker-compose.yml'', template, 384), (''release.env'', Text env, 384),
      (''upgrade-plan.json'', dv_bytes dv (rl_plan r), 420), (''version.json'', dv_bytes dv (rl_document r), 384)]"

text \<open>Go writes the files in no particular order.\<close>

definition prepareRelease :: "'d deployer \<Rightarrow> config \<Rightarrow> release \<Rightarrow> path \<Rightarrow> string \<Rightarrow> ('d, config) deed" where
  "prepareRelease dv c r d slot =
     (let k = candidate_config c r d slot in
      bindE (onW (safeDirectory d 448)) (\<lambda>_.
      bindE (liftE (candidate_template dv k r slot)) (\<lambda>template.
      bindE (onW (read_file (text_path (cf_env c)))) (\<lambda>env.
      bindE (liftE (InfrastructureImages r (cf_pg_major c) (cf_redis_major c))) (\<lambda>(pg, redis).
      bindE (liftE (replaceEnvironmentValues (file_text env) (release_pins r pg redis))) (\<lambda>env2.
      bindE (onW (forE (\<lambda>(n, x, m). replaceContents_mode (d @ [n]) x m) (candidate_files dv r template env2))) (\<lambda>_.
      bindE (if slot \<noteq> [] then onW (prepareViews dv k) else retE ()) (\<lambda>_.
      bindE (command dv k [''config'', ''--quiet'']) (\<lambda>_. retE k)))))))))"

record app_report =
  ar_schema :: int
  ar_status :: string
  ar_plan :: string
  ar_version :: string
  ar_pending :: "migration list"
  ar_online :: bool

definition dec_pending :: "json \<Rightarrow> migration option" where
  "dec_pending j = Option.bind (members j) (\<lambda>kvs.
     Option.bind (field ''name'' dec_str kvs []) (\<lambda>n.
     Option.bind (field ''sha256'' dec_str kvs []) (\<lambda>h.
     Option.bind (field ''online'' dec_bool kvs False) (\<lambda>on. Some \<lparr>mi_name = n, mi_sha = h, mi_online = on\<rparr>))))"

definition app_report_of_json :: "json \<Rightarrow> app_report option" where
  "app_report_of_json j = Option.bind (members j) (\<lambda>kvs.
     Option.bind (field ''schema_version'' dec_int64 kvs 0) (\<lambda>sv.
     Option.bind (field ''status'' dec_str kvs []) (\<lambda>st.
     Option.bind (field ''plan_sha256'' dec_str kvs []) (\<lambda>ps.
     Option.bind (field ''version'' dec_str kvs []) (\<lambda>v.
     Option.bind (field ''pending_migrations'' (dec_list dec_pending) kvs []) (\<lambda>ms.
     Option.bind (field ''eligible_online'' dec_bool kvs False) (\<lambda>on.
     Some \<lparr>ar_schema = sv, ar_status = st, ar_plan = ps, ar_version = v, ar_pending = ms, ar_online = on\<rparr>)))))))"

definition upgrade_digest :: "'d deployer \<Rightarrow> release \<Rightarrow> string" where
  "upgrade_digest dv r = dv_sha dv (dv_bytes dv (rl_plan r))"

definition go_bool :: "bool \<Rightarrow> string" where
  "go_bool b = (if b then ''true'' else ''false'')"

definition phase_arguments ::
    "'d deployer \<Rightarrow> config \<Rightarrow> release \<Rightarrow> 64 word \<Rightarrow> string \<Rightarrow> string \<Rightarrow> bool \<Rightarrow> string list" where
  "phase_arguments dv c r source op phase drained =
     [''run'', ''--rm'', ''--no-deps'', ''--user'', ''33:33'', ''--label'', ''geoflow.updater.operation='' @ op, ''--entrypoint'', ''php'',
      ''-v'', path_join [path_dir (cf_compose c), ''upgrade-plan.json''] @ '':/run/geoflow-upgrade-plan.json:ro'',
      ''-e'', ''AUTO_MIGRATE=false'', ''-e'', ''AUTO_INSTALL_ONCE=false'', ''-e'', ''AUTO_OPTIMIZE=false'',
      ''-e'', ''GEOFLOW_SECURITY_FRESH_INSTALL_CONFIRMED=false'',
      ''-e'', ''GEOFLOW_SECURITY_UPGRADE_DRAIN_CONFIRMED='' @ go_bool drained, ''init'', ''artisan'', ''geoflow:upgrade'',
      ''--phase='' @ phase, ''--strategy='' @ executionStrategy r drained, ''--operation='' @ op,
      ''--source-sequence='' @ nat_dec (unat source), ''--plan=/run/geoflow-upgrade-plan.json'',
      ''--plan-sha256='' @ upgrade_digest dv r, ''--json'', ''--no-interaction'']"

definition applicationPhase ::
    "'d deployer \<Rightarrow> config \<Rightarrow> release \<Rightarrow> 64 word \<Rightarrow> string \<Rightarrow> string \<Rightarrow> bool \<Rightarrow> ('d, app_report) deed" where
  "applicationPhase dv c r source op phase drained =
     bindE (onW (runtimeArguments dv c)) (\<lambda>sel.
     bindE (wrapE (Wrap (''application upgrade '' @ phase @ '' failed''))
       (docker dv (sel @ phase_arguments dv c r source op phase drained))) (\<lambda>out.
     if exceeded out then failE (Msg ''application upgrade output exceeded limit'')
     else case Option.bind (one_value out) app_report_of_json of
       None \<Rightarrow> failE (Msg (''application upgrade '' @ phase @ '' returned invalid JSON''))
     | Some rep \<Rightarrow>
         if ar_schema rep \<noteq> 1 \<or> ar_status rep \<noteq> ''pass'' \<or> ar_plan rep \<noteq> upgrade_digest dv r \<or> ar_version rep \<noteq> rl_version r
         then failE (Msg ''application readiness or release identity did not match the signed plan'')
         else retE rep))"

definition verify_pin :: "string \<Rightarrow> string \<times> string \<Rightarrow> err + unit" where
  "verify_pin env kv = (case environmentValue env (fst kv) of
     Inl e \<Rightarrow> Inl e
   | Inr v \<Rightarrow> if v \<noteq> snd kv
       then Inl (Msg ''infrastructure image changes require a separate maintenance infrastructure operation'') else Inr ())"

definition verifyInfrastructurePins :: "config \<Rightarrow> release \<Rightarrow> unit io" where
  "verifyInfrastructurePins c r =
     bindE (read_file (text_path (cf_infra_env c))) (\<lambda>x.
     bindE (liftE (InfrastructureImages r (cf_pg_major c) (cf_redis_major c))) (\<lambda>(pg, redis).
     forE (\<lambda>kv. liftE (verify_pin (file_text x) kv)) [(''GEOFLOW_POSTGRES_IMAGE'', pg), (''GEOFLOW_REDIS_IMAGE'', redis)]))"

definition ensureSlotFree :: "'d deployer \<Rightarrow> config \<Rightarrow> string \<Rightarrow> ('d, unit) deed" where
  "ensureSlotFree dv c slot =
     (if \<not> validSlot slot \<or> slot = cf_active_slot c then failE (Msg ''candidate slot is not inactive'')
      else bindE (docker_text dv [''ps'', ''--filter'',
             ''label=com.docker.compose.project=geoflow-'' @ cf_id c @ ''-'' @ slot, ''--format={{.ID}}'']) (\<lambda>r.
           if trim (re_text r) \<noteq> []
           then failE (Msg ''inactive slot still has running containers; finish draining before reusing it'') else retE ()))"

section \<open>Assets and infrastructure\<close>

definition asset_name :: "tar_entry \<Rightarrow> string" where
  "asset_name e =
     (let drop_pre = (\<lambda>pre s. if has_prefix pre s then drop (length pre) s else s)
      in drop_pre ''assets/'' (drop_pre ''./'' (te_name e)))"

definition asset_unsafe :: "tar_entry \<Rightarrow> bool" where
  "asset_unsafe e \<longleftrightarrow> (let n = asset_name e in
     te_kind e \<noteq> TarReg \<or> n = [] \<or> is_abs n \<or> path_clean n \<noteq> n \<or> has_prefix ''..'' n \<or> CHR 0x5C \<in> set n \<or>
     te_size e < 0 \<or> te_size e > 32 * 1024 * 1024)"

definition copy_asset :: "path \<Rightarrow> tar_entry \<Rightarrow> nat \<Rightarrow> nat io" where
  "copy_asset d e n =
     (if te_kind e = TarDir then retE n
      else if asset_unsafe e then failE (Msg ''frontend asset archive has an unsafe entry'')
      else if te_short e then failE (Msg ''frontend asset archive is truncated'')
      else
        (let p = resolve d (asset_name e) in
         bindE (safeDirectory (butlast p) 493) (\<lambda>_.
         bindE (tryE (read_file p)) (\<lambda>old.
         bindE (case old of
             Inr x \<Rightarrow> if x \<noteq> te_data e then failE (Msg ''frontend asset name collides with retained release content'') else retE ()
           | Inl e2 \<Rightarrow> if err_is ErrNotExist e2 then replaceContents_mode p (te_data e) 420 else failE e2) (\<lambda>_.
         retE (Suc n))))))"

definition asset_limit :: nat where
  "asset_limit = 256 * 1024 * 1024"

definition copy_archive :: "'d deployer \<Rightarrow> config \<Rightarrow> string \<Rightarrow> path \<Rightarrow> ('d, unit) deed" where
  "copy_archive dv c i tmp =
     bindE (wrapE (Wrap ''export signed frontend assets'')
       (bindE (docker dv [''cp'', i @ '':/var/www/html/public/build/assets/.'', ''-'']) (\<lambda>r.
        if asset_limit < length (re_text r) then failE (Msg ''artifact exceeds backup byte limit'')
        else bindE (onW (write_data tmp (Text (re_text r)))) (\<lambda>_. retE r)))) (\<lambda>r.
     case dv_untar dv r of (es, eof) \<Rightarrow>
       bindE (onW (foldE (copy_asset (instanceDirectory dv (cf_id c) @ [''assets''])) es 0)) (\<lambda>n.
       case eof of
         Some e \<Rightarrow> failE e
       | None \<Rightarrow> if n = 0 then failE (Msg ''candidate contains no frontend build assets'') else retE ()))"

definition copyAssets :: "'d deployer \<Rightarrow> config \<Rightarrow> ('d, unit) deed" where
  "copyAssets dv c =
     bindE (containerIDs dv c [''web'']) (\<lambda>ids. case ids of
       [i] \<Rightarrow>
         bindE (onW (safeDirectory (instanceDirectory dv (cf_id c) @ [''assets'']) 493)) (\<lambda>_.
         bindE (onW (create_temp (instanceDirectory dv (cf_id c)) ''.assets-'')) (\<lambda>tmp.
         deferE (deferE (copy_archive dv c i tmp) (onW (close_file tmp))) (onW (remove tmp))))
     | _ \<Rightarrow> failE (Msg ''candidate web container is missing or scaled unexpectedly''))"

definition infra_template :: "'d deployer \<Rightarrow> config \<Rightarrow> release \<Rightarrow> string \<Rightarrow> err + content" where
  "infra_template dv k r inst =
     (case renderTopology (dv_yaml dv (dv_template dv r)) k (cf_active_slot k) (instanceDirectory dv inst) of
        Inl e \<Rightarrow> Inl e | Inr (app, infra) \<Rightarrow> Inr (dv_marshal dv infra))"

definition installInfrastructure :: "'d deployer \<Rightarrow> config \<Rightarrow> config \<Rightarrow> release \<Rightarrow> bool \<Rightarrow> ('d, unit) deed" where
  "installInfrastructure dv source k r fresh =
     (let d = text_path (path_dir (cf_infra_compose k)); infra = infrastructureConfig k in
      bindE (liftE (infra_template dv k r (cf_id source))) (\<lambda>x.
      bindE (onW (safeDirectory (d @ [''traffic'']) 493)) (\<lambda>_.
      bindE (onW (safeDirectory (instanceDirectory dv (cf_id source) @ [''assets'']) 493)) (\<lambda>_.
      bindE (onW (read_file (text_path (cf_env k)))) (\<lambda>env.
      bindE (onW (replaceContents_mode (text_path (cf_infra_compose k)) x 384)) (\<lambda>_.
      bindE (onW (replaceContents_mode (text_path (cf_infra_env k)) env 384)) (\<lambda>_.
      bindE (command dv infra [''config'', ''--quiet'']) (\<lambda>_.
      bindE (if fresh then retE () else downInfrastructure dv source) (\<lambda>_.
      bindE (command dv infra [''up'', ''-d'', ''--wait'', ''--wait-timeout'', ''180'', ''postgres'', ''redis'']) (\<lambda>_.
      bindE (ensureEdgeNetwork dv (cf_id k)) (\<lambda>_.
      if cf_layout source = LayoutBlueGreen then command dv infra [''up'', ''-d'', ''--no-deps'', ''--wait'', ''edge'']
      else retE ())))))))))))"

definition activateSlot :: "'d deployer \<Rightarrow> config \<Rightarrow> content \<Rightarrow> unit io" where
  "activateSlot dv c version =
     bindE (replaceContents_mode (text_path (path_join [cf_root c, ''version.json''])) version 416) (\<lambda>_.
     replaceContents_mode (instanceDirectory dv (cf_id c) @ [''instance.yml'']) (dv_config_text dv c) 416)"

end
