(* ===== verification/HostRecovery.thy ===== *)
theory HostRecovery
  imports Transaction
begin

text \<open>
  Stopping, restoring and resuming an instance (\<open>internal/deployment\<close>): the isolated recovery
  commands and the evidence they must give (\<open>host_recovery.go\<close>), and the calls the update engine
  makes (\<open>service.go\<close>). \<open>point_recoveries\<close> is the store of recovery points with the database
  that Docker runs.
\<close>

section \<open>Errands\<close>

definition restore_data_from :: "'d recoveries \<Rightarrow> config \<Rightarrow> PointRecord.restore_request \<Rightarrow> config \<Rightarrow> ('d, unit) deed" where
  "restore_data_from rv c rq source = bindE (note_errand (DataRestored c rq)) (\<lambda>_. rv_restore rv c rq source)"

section \<open>The database of a deployment\<close>

definition dump_arguments :: "config \<Rightarrow> string list" where
  "dump_arguments c = (let k = infrastructureConfig c in
     composeArguments (cf_root k) (cf_env k) (cf_compose k) @
     [''exec'', ''-T'', ''postgres'', ''sh'', ''-eu'', ''-c'',
      ''exec pg_dump --username='' @ dq ''$POSTGRES_USER'' @ '' --dbname='' @ dq ''$POSTGRES_DB'' @ '' --format=custom --create''])"

definition load_arguments :: "config \<Rightarrow> string list" where
  "load_arguments c = (let k = infrastructureConfig c in
     composeArguments (cf_root k) (cf_env k) (cf_compose k) @
     [''exec'', ''-T'', ''postgres'', ''sh'', ''-eu'', ''-c'',
      ''exec pg_restore --exit-on-error --clean --if-exists --create --username='' @ dq ''$POSTGRES_USER'' @ '' --dbname=postgres''])"

definition postgresDatabase ::
    "(content option \<Rightarrow> string list \<Rightarrow> ('d, reply) act) \<Rightarrow> config \<Rightarrow> ('d daemon) database" where
  "postgresDatabase run c = \<lparr>
     db_dump = (\<lambda>d. case daemon_run run None (dump_arguments c) d of
        (Inl e, d') \<Rightarrow> ((Text [], Some e), d') | (Inr r, d') \<Rightarrow> ((Text (re_text r), None), d')),
     db_restore = (\<lambda>stream.
        (let k = infrastructureConfig c in
         bindE (wrapE (Wrap ''start database services for restore'')
           (daemon_run run None (composeArguments (cf_root k) (cf_env k) (cf_compose k) @ [''up'', ''-d'', ''--wait'', ''postgres'']))) (\<lambda>_.
         bindE (liftE stream) (\<lambda>x.
         bindE (daemon_run run (Some x) (load_arguments c)) (\<lambda>_. retE ())))))\<rparr>"

definition onV :: "('d daemon vault, 'a) act \<Rightarrow> ('d, 'a) deed" where
  "onV m h = (case m \<lparr>va_world = ho_world h, va_db = ho_dep h\<rparr> of
     (r, v) \<Rightarrow> (r, h\<lparr>ho_world := va_world v, ho_dep := va_db v\<rparr>))"

definition point_recoveries ::
    "(content option \<Rightarrow> string list \<Rightarrow> ('d, reply) act) \<Rightarrow> point_store \<Rightarrow> 'd recoveries" where
  "point_recoveries run st = \<lparr>
     rv_create = (\<lambda>c reason. onV (create_point st c reason (Some (postgresDatabase run c)))),
     rv_validate = (\<lambda>c pid. bindE (onW (validate_point st c pid)) (\<lambda>_. retE ())),
     rv_restore = (\<lambda>c rq source. onV (restore_point st c rq (Some (postgresDatabase run source)))),
     rv_list = (\<lambda>inst. onW (point_list st inst))\<rparr>"

definition recoveries :: "'d deployer \<Rightarrow> 'd recoveries option" where
  "recoveries dv = map_option (point_recoveries (dv_run dv)) (dv_store dv)"

section \<open>Isolated recovery commands\<close>

record recovery_report =
  vr_schema :: int
  vr_status :: string
  vr_digest :: string
  vr_tx :: string
  vr_epoch :: string
  vr_credentials :: bool
  vr_admins :: bool
  vr_themes :: "int option"
  vr_background :: string
  vr_count :: "int option"
  vr_quarantine :: string

definition recovery_report_of_json :: "json \<Rightarrow> recovery_report option" where
  "recovery_report_of_json j = Option.bind (members j) (\<lambda>kvs.
     Option.bind (field ''schema_version'' dec_int64 kvs 0) (\<lambda>sv.
     Option.bind (field ''status'' dec_str kvs []) (\<lambda>st.
     Option.bind (field ''admin_digest'' dec_str kvs []) (\<lambda>digest.
     Option.bind (field ''transaction_id'' dec_str kvs []) (\<lambda>t.
     Option.bind (field ''epoch'' dec_str kvs []) (\<lambda>ep.
     Option.bind (field ''credentials_invalidated'' dec_bool kvs False) (\<lambda>cred.
     Option.bind (field ''administrators_verified'' dec_bool kvs False) (\<lambda>adm.
     Option.bind (field ''theme_revisions'' (dec_opt dec_int64 0) kvs None) (\<lambda>themes.
     Option.bind (field ''background_status'' dec_str kvs []) (\<lambda>bg.
     Option.bind (field ''quarantine_count'' (dec_opt dec_int64 0) kvs None) (\<lambda>n.
     Option.bind (field ''quarantine_sha256'' dec_str kvs []) (\<lambda>q.
     Some \<lparr>vr_schema = sv, vr_status = st, vr_digest = digest, vr_tx = t, vr_epoch = ep, vr_credentials = cred,
       vr_admins = adm, vr_themes = themes, vr_background = bg, vr_count = n, vr_quarantine = q\<rparr>))))))))))))"

definition omit_bool :: "string \<Rightarrow> bool \<Rightarrow> (string \<times> json) list" where
  "omit_bool k b = (if b then [(k, JBool True)] else [])"

definition int_or_null :: "int option \<Rightarrow> json" where
  "int_or_null n = (case n of None \<Rightarrow> JNull | Some i \<Rightarrow> JNum i)"

definition recovery_report_to_json :: "recovery_report \<Rightarrow> json" where
  "recovery_report_to_json r = JObj (
     [(''schema_version'', JNum (vr_schema r)), (''status'', JStr (vr_status r))] @
     omit_str ''admin_digest'' (vr_digest r) @ omit_str ''transaction_id'' (vr_tx r) @ omit_str ''epoch'' (vr_epoch r) @
     omit_bool ''credentials_invalidated'' (vr_credentials r) @ omit_bool ''administrators_verified'' (vr_admins r) @
     [(''theme_revisions'', int_or_null (vr_themes r))] @ omit_str ''background_status'' (vr_background r) @
     [(''quarantine_count'', int_or_null (vr_count r))] @ omit_str ''quarantine_sha256'' (vr_quarantine r))"

definition recovery_arguments :: "bool \<Rightarrow> string \<Rightarrow> string \<Rightarrow> string \<Rightarrow> string list" where
  "recovery_arguments legacy phase t digest =
     [''run'', ''--rm'', ''--no-deps'', ''--user'', ''33:33'', ''--entrypoint'', ''php'', ''-e'', ''AUTO_MIGRATE=false'',
      ''-e'', ''AUTO_INSTALL_ONCE=false'', ''-e'', ''AUTO_OPTIMIZE=false'', ''init''] @
     (if legacy then [legacyAdapterContainerDir @ ''/legacy-recovery.php''] else [''artisan'', ''geoflow:recovery'']) @
     [''--phase='' @ phase, ''--transaction='' @ t, ''--json'', ''--no-interaction''] @
     (if phase = ''prepare'' then [''--expected-admin-digest='' @ digest] else [])"

definition recoveryPhase :: "'d deployer \<Rightarrow> config \<Rightarrow> string \<Rightarrow> string \<Rightarrow> string \<Rightarrow> ('d, recovery_report) deed" where
  "recoveryPhase dv c phase t digest =
     (if phase \<noteq> ''inspect'' \<and> phase \<noteq> ''prepare'' \<and> phase \<noteq> ''verify'' then failE (Msg ''unsupported fixed recovery phase'')
      else if \<not> safeOperationID t then failE (Msg ''invalid recovery operation identity'')
      else bindE (onW (legacyAdapterRequired c)) (\<lambda>legacy.
        if phase = ''prepare'' \<and> \<not> hex64_ok digest then failE (Msg ''invalid frozen administrator digest'')
        else bindE (onW (runtimeArguments dv c)) (\<lambda>sel.
             bindE (wrapE (Wrap (''isolated Core recovery '' @ phase @ '' failed''))
               (docker dv (sel @ recovery_arguments legacy phase t digest))) (\<lambda>out.
             if exceeded out then failE (Msg ''Core recovery response exceeded limit'')
             else case Option.bind (one_value out) recovery_report_of_json of
               None \<Rightarrow> failE (Msg ''Core recovery returned invalid JSON; compatible recovery adapter is required'')
             | Some r \<Rightarrow>
                 if vr_schema r \<noteq> 1 \<or> vr_status r \<noteq> ''pass'' \<or> (case vr_themes r of None \<Rightarrow> True | Some n \<Rightarrow> n < 0)
                 then failE (Msg ''Core recovery evidence was incomplete'') else retE r))))"

definition prepareRestore ::
    "'d deployer \<Rightarrow> config \<Rightarrow> PointRecord.restore_request \<Rightarrow> ('d, PointRecord.restore_request) deed" where
  "prepareRestore dv c rq =
     (if \<not> safeOperationID (rq_tx rq) then failE (Msg ''recovery requires a stable operation identity'')
      else bindE (onW (rcInitialize (recoveryControl dv) (cf_id c))) (\<lambda>a.
        if rs_tx (ra_state a) = Some (rq_tx rq) then
          (if ra_point a \<noteq> rq_point rq then failE (Msg ''recovery point changed within transaction'')
           else retE (rq\<lparr>rq_digest := ra_digest a\<rparr>))
        else bindE (tryE (onW (rcCheckpoint (recoveryControl dv) (cf_id c) (rq_point rq) (rq_tx rq)))) (\<lambda>k. case k of
          Inr cp \<Rightarrow> retE (rq\<lparr>rq_digest := cp_digest cp\<rparr>)
        | Inl e \<Rightarrow>
            if \<not> err_is ErrNotExist e then failE e
            else bindE (recoveryPhase dv c ''inspect'' (rq_tx rq) []) (\<lambda>r.
                 if \<not> hex64_ok (vr_digest r) then failE (Msg ''Core did not provide a frozen administrator digest'')
                 else retE (rq\<lparr>rq_digest := vr_digest r\<rparr>)))))"

definition FreezeRecoveryCheckpoint :: "'d deployer \<Rightarrow> string \<Rightarrow> PointRecord.restore_request \<Rightarrow> ('d, unit) deed" where
  "FreezeRecoveryCheckpoint dv inst rq =
     bindE (onW (loadConfig dv inst)) (\<lambda>c.
     bindE (prepareRestore dv c rq) (\<lambda>rq2.
     onW (CaptureCheckpoint (recoveryControl dv) inst (rq_point rq2) (rq_tx rq2) (rq_digest rq2))))"

section \<open>Resuming after a restore\<close>

definition proof_authorizes :: "rauthority \<Rightarrow> string \<Rightarrow> recovery_report \<Rightarrow> bool" where
  "proof_authorizes a t r \<longleftrightarrow> vr_tx r = t \<and> vr_epoch r = rs_epoch (ra_state a) \<and> vr_credentials r \<and> vr_admins r \<and>
     vr_background r = ''held'' \<and> (case vr_count r of None \<Rightarrow> False | Some n \<Rightarrow> 0 \<le> n) \<and> hex64_ok (vr_quarantine r)"

definition proven_phase :: "'d deployer \<Rightarrow> config \<Rightarrow> rauthority \<Rightarrow> string \<Rightarrow> string \<Rightarrow> ('d, recovery_report) deed" where
  "proven_phase dv c a t phase =
     bindE (recoveryPhase dv c phase t (ra_digest a)) (\<lambda>r.
     if \<not> proof_authorizes a t r then failE (Msg ''Core recovery proof does not authorize HTTP startup'') else retE r)"

record redis_report =
  qr_schema :: int
  qr_status :: string
  qr_epoch :: string
  qr_entries :: "json list option"

definition dec_entries :: "json \<Rightarrow> json list option \<Rightarrow> json list option option" where
  "dec_entries j x = (case j of JArr js \<Rightarrow> Some (Some js) | JNull \<Rightarrow> Some None | _ \<Rightarrow> None)"

definition redis_report_of_json :: "json \<Rightarrow> redis_report option" where
  "redis_report_of_json j = Option.bind (members j) (\<lambda>kvs.
     Option.bind (field ''schema_version'' dec_int64 kvs 0) (\<lambda>sv.
     Option.bind (field ''status'' dec_str kvs []) (\<lambda>st.
     Option.bind (field ''epoch'' dec_str kvs []) (\<lambda>ep.
     Option.bind (field ''entries'' dec_entries kvs None) (\<lambda>es.
     Some \<lparr>qr_schema = sv, qr_status = st, qr_epoch = ep, qr_entries = es\<rparr>)))))"

definition redis_canonical :: "redis_report \<Rightarrow> json list \<Rightarrow> json" where
  "redis_canonical r es = JObj [(''schema_version'', JNum (qr_schema r)), (''status'', JStr (qr_status r)),
     (''epoch'', JStr (qr_epoch r)), (''entries'', JArr es)]"

definition redis_script_path :: "'d deployer \<Rightarrow> string \<Rightarrow> path" where
  "redis_script_path dv inst = control_dir (deploy_dir dv) inst @ [''scripts'', ''recovery-redis.php'']"

definition redis_arguments :: "'d deployer \<Rightarrow> string \<Rightarrow> string \<Rightarrow> string list" where
  "redis_arguments dv inst epoch =
     [''run'', ''--rm'', ''--no-deps'', ''--user'', ''33:33'', ''--entrypoint'', ''php'', ''-v'',
      path_text (redis_script_path dv inst) @ '':/run/geoflow-recovery-redis.php:ro'', ''init'',
      ''/run/geoflow-recovery-redis.php'', epoch]"

definition queues_path :: "'d deployer \<Rightarrow> string \<Rightarrow> string \<Rightarrow> path" where
  "queues_path dv inst epoch = control_dir (deploy_dir dv) inst @ [''quarantine'', epoch, ''queues.json'']"

text \<open>The manifest of the queues is written once; a different one is refused.\<close>

definition write_queues :: "path \<Rightarrow> json \<Rightarrow> unit io" where
  "write_queues p j =
     bindE (safeDirectory (butlast p) 448) (\<lambda>_.
     bindE (tryE (read_file p)) (\<lambda>r.
     if (case r of Inr x \<Rightarrow> x \<noteq> Json j | Inl _ \<Rightarrow> False) then failE (Msg ''Redis quarantine evidence changed'')
     else bindE (case r of Inl e \<Rightarrow> if err_is ErrNotExist e then retE () else failE e | Inr _ \<Rightarrow> retE ()) (\<lambda>_.
          replaceContents_mode p (Json j) 384)))"

definition redis_entries :: "string \<Rightarrow> reply \<Rightarrow> (redis_report \<times> json list) option" where
  "redis_entries epoch out = Option.bind (one_value out) (\<lambda>j. Option.bind (redis_report_of_json j) (\<lambda>r.
     Option.bind (qr_entries r) (\<lambda>es.
     if qr_schema r \<noteq> 1 \<or> qr_status r \<noteq> ''pass'' \<or> qr_epoch r \<noteq> epoch then None else Some (r, es))))"

definition quarantineRedis :: "'d deployer \<Rightarrow> config \<Rightarrow> rauthority \<Rightarrow> string \<Rightarrow> ('d, unit) deed" where
  "quarantineRedis dv c a t =
     (let epoch = rs_epoch (ra_state a); script = redis_script_path dv (cf_id c) in
      bindE (onW (safeDirectory (butlast script) 493)) (\<lambda>_.
      bindE (onW (replaceContents_mode script (Text ''recovery-redis.php'') 292)) (\<lambda>_.
      bindE (onW (runtimeArguments dv c)) (\<lambda>sel.
      bindE (wrapE (Wrap ''Redis quarantine failed'') (docker dv (sel @ redis_arguments dv (cf_id c) epoch))) (\<lambda>out.
      if exceeded out then failE (Msg ''Redis quarantine manifest exceeded limit'')
      else case redis_entries epoch out of
        None \<Rightarrow> failE (Msg ''invalid Redis quarantine evidence'')
      | Some (r, es) \<Rightarrow>
          bindE (onW (write_queues (queues_path dv (cf_id c) epoch) (redis_canonical r es))) (\<lambda>_.
          bindE (onW (RecordRedisManifest (recoveryControl dv) (cf_id c) t (dv_sha dv (Json (redis_canonical r es))))) (\<lambda>_.
          retE ())))))))"

definition open_recovered :: "'d deployer \<Rightarrow> config \<Rightarrow> rauthority \<Rightarrow> string \<Rightarrow> ('d, rauthority) deed" where
  "open_recovered dv c a t =
     bindE (proven_phase dv c a t ''prepare'') (\<lambda>before.
     bindE (proven_phase dv c a t ''verify'') (\<lambda>after.
     if recovery_report_to_json after \<noteq> recovery_report_to_json before
     then failE (Msg ''Core preparation changed during verification'')
     else bindE (onW (RecordPreparation (recoveryControl dv) (cf_id c) t
                  (dv_sha dv (Json (recovery_report_to_json after))))) (\<lambda>_.
          bindE (quarantineRedis dv c a t) (\<lambda>_. onW (OpenHTTP (recoveryControl dv) (cf_id c) t)))))"

definition up_arguments :: "string list" where
  "up_arguments = [''run'', ''--rm'', ''--no-deps'', ''--user'', ''33:33'', ''--entrypoint'', ''php'', ''init'', ''artisan'', ''up'']"

definition resumeRecovered :: "'d deployer \<Rightarrow> config \<Rightarrow> rauthority \<Rightarrow> ('d, unit) deed" where
  "resumeRecovered dv c a =
     (if \<not> ra_restored a \<or> (rs_phase (ra_state a) \<noteq> ''validating'' \<and> rs_phase (ra_state a) \<noteq> ''http_ready'')
      then failE (Msg ''data recovery is incomplete; services remain stopped'')
      else case rs_tx (ra_state a) of
        None \<Rightarrow> failE (Msg ''data recovery is incomplete; services remain stopped'')
      | Some t \<Rightarrow>
          bindE (startServices dv (infrastructureConfig c) [''postgres'', ''redis'']) (\<lambda>_.
          bindE (if rs_phase (ra_state a) = ''validating'' then open_recovered dv c a t else retE a) (\<lambda>b.
          if ra_prep b = [] \<or> ra_redis b = [] then failE (Msg ''missing durable recovery validation proof'')
          else bindE (command dv c up_arguments) (\<lambda>_.
               bindE (startServices dv c [''app'', ''web'']) (\<lambda>_.
               bindE (if cf_layout c = LayoutBlueGreen
                      then bindE (switchIngress dv c (cf_release c) True) ingress_error else retE ()) (\<lambda>_.
               checkHTTP dv c))))))"

section \<open>Stopping\<close>

definition down_arguments :: "string list" where
  "down_arguments = [''run'', ''--rm'', ''--no-deps'', ''--entrypoint'', ''php'', ''-e'', ''AUTO_MIGRATE=false'',
     ''-e'', ''AUTO_INSTALL_ONCE=false'', ''init'', ''artisan'', ''down'', ''--retry=60'']"

definition enter_maintenance :: "'d deployer \<Rightarrow> config \<Rightarrow> ('d, unit) deed" where
  "enter_maintenance dv c =
     bindE (tryE (onW (lstat (storage_path c)))) (\<lambda>r.
     if (case r of Inr i \<Rightarrow> i_kind i = KDir | Inl _ \<Rightarrow> False)
     then wrapE (Wrap ''enter maintenance'') (command dv c down_arguments)
     else if \<not> not_exist r then failE (Msg ''maintenance storage is unavailable'') else retE ())"

text \<open>The other slot of a deployment, when it exists.\<close>

definition add_other_slot :: "'d deployer \<Rightarrow> string \<Rightarrow> config \<Rightarrow> config list \<Rightarrow> config list io" where
  "add_other_slot dv inst c configs =
     (if cf_layout c \<noteq> LayoutBlueGreen then retE configs
      else
        (let slot = otherSlot (cf_active_slot c); d = instanceDirectory dv inst @ [''slots'', slot];
             other = c\<lparr>cf_active_slot := slot, cf_compose := path_text (d @ [''docker-compose.yml'']),
                       cf_env := path_text (d @ [''release.env''])\<rparr> in
         bindE (tryE (regularFile (text_path (cf_compose other)))) (\<lambda>r. case r of
           Inr _ \<Rightarrow> bindE (regularFile (text_path (cf_env other))) (\<lambda>_. retE (configs @ [other]))
         | Inl e \<Rightarrow> if err_is ErrNotExist e then retE configs else failE e)))"

fun distinct_by :: "('a \<Rightarrow> 'b) \<Rightarrow> 'a list \<Rightarrow> 'b list \<Rightarrow> 'a list" where
  "distinct_by f [] seen = []"
| "distinct_by f (x # xs) seen =
     (if f x \<in> set seen then distinct_by f xs seen else x # distinct_by f xs (f x # seen))"

definition drain_slot :: "'d deployer \<Rightarrow> config \<Rightarrow> ('d, unit) deed" where
  "drain_slot dv c =
     bindE (drainBackground dv c) (\<lambda>_. drainServices dv c [''reverb'', ''web'', ''app''])"

definition wait_recorded_upgrade :: "'d deployer \<Rightarrow> string \<Rightarrow> ('d, unit) deed" where
  "wait_recorded_upgrade dv inst =
     bindE (tryE (onW (readTransaction dv inst))) (\<lambda>r. case r of
       Inr t \<Rightarrow> waitUpgradeContainers dv (tr_operation t)
     | Inl e \<Rightarrow> if err_is ErrNotExist e then retE () else failE e)"

definition quiesce :: "'d deployer \<Rightarrow> string \<Rightarrow> config \<Rightarrow> config list \<Rightarrow> ('d, unit) deed" where
  "quiesce dv inst c additional =
     bindE (enter_maintenance dv c) (\<lambda>_.
     bindE (drainRetiredWorker dv) (\<lambda>_.
     bindE (wait_recorded_upgrade dv inst) (\<lambda>_.
     bindE (onW (foldE (add_other_slot dv inst) (c # additional) (c # additional))) (\<lambda>configs.
     bindE (forE (drain_slot dv) (distinct_by cf_compose configs [])) (\<lambda>_.
     forE (\<lambda>k. drainServices dv k [''redis''])
       (distinct_by cf_compose (map infrastructureConfig configs) []))))))"

definition Quiesce :: "'d deployer \<Rightarrow> string \<Rightarrow> ('d, unit) deed" where
  "Quiesce dv inst = bindE (onW (loadConfig dv inst)) (\<lambda>c. quiesce dv inst c [])"

definition QuiesceForRecovery :: "'d deployer \<Rightarrow> string \<Rightarrow> string \<Rightarrow> ('d, unit) deed" where
  "QuiesceForRecovery dv inst pid =
     (if \<not> point_id_ok pid then failE (Msg ''recovery point identifier is invalid'')
      else bindE (onW (loadConfigForRecovery dv inst pid)) (\<lambda>c.
           bindE (onW (recoveryTopologies dv c)) (\<lambda>cs. quiesce dv inst c (tl cs))))"

section \<open>Recovery points\<close>

definition CreateRecoveryPoint :: "'d deployer \<Rightarrow> string \<Rightarrow> string \<Rightarrow> ('d, string) deed" where
  "CreateRecoveryPoint dv inst reason =
     bindE (onW (loadConfig dv inst)) (\<lambda>c. case recoveries dv of
       None \<Rightarrow> failE (Msg ''recovery point store is unavailable'')
     | Some rv \<Rightarrow> bindE (rv_create rv c reason) (\<lambda>p. bindE (note_errand (PointMade (pt_id p) reason)) (\<lambda>_. retE (pt_id p))))"

definition ValidateRecoveryPoint :: "'d deployer \<Rightarrow> string \<Rightarrow> string \<Rightarrow> ('d, unit) deed" where
  "ValidateRecoveryPoint dv inst pid =
     (if \<not> point_id_ok pid then failE (Msg ''recovery point identifier is invalid'')
      else bindE (onW (loadConfigForRecovery dv inst pid)) (\<lambda>c. case recoveries dv of
        None \<Rightarrow> failE (Msg ''recovery point store is unavailable'') | Some rv \<Rightarrow> rv_validate rv c pid))"

definition ListRecoveryPoints :: "'d deployer \<Rightarrow> string \<Rightarrow> ('d, point list) deed" where
  "ListRecoveryPoints dv inst = (case recoveries dv of
     None \<Rightarrow> failE (Msg ''recovery point store is unavailable'') | Some rv \<Rightarrow> rv_list rv inst)"

definition point_source :: "config \<Rightarrow> string \<Rightarrow> point list \<Rightarrow> config" where
  "point_source c pid points =
     (case filter (\<lambda>p. pt_id p = pid \<and> pt_deployment p \<noteq> None) points of
        p # _ \<Rightarrow> the (pt_deployment p) | [] \<Rightarrow> c)"

definition recovery_inspector :: "'d deployer \<Rightarrow> config \<Rightarrow> string \<Rightarrow> config io" where
  "recovery_inspector dv c inst =
     bindE (tryE (readTransaction dv inst)) (\<lambda>r.
     retE (case r of
       Inl _ \<Rightarrow> c
     | Inr t \<Rightarrow> if tr_layout t \<and> (tr_status t = ''running'' \<or> tr_status t = StatusRecoveryRequired) then tr_candidate t else c))"

definition close_transaction :: "'d deployer \<Rightarrow> string \<Rightarrow> unit io" where
  "close_transaction dv inst =
     bindE (tryE (readTransaction dv inst)) (\<lambda>r. case r of
       Inr t \<Rightarrow> saveTransaction dv (t\<lparr>tr_status := StatusRolledBack, tr_error := []\<rparr>)
     | Inl e \<Rightarrow> if err_is ErrNotExist e then retE () else failE e)"

definition Rollback :: "'d deployer \<Rightarrow> string \<Rightarrow> PointRecord.restore_request \<Rightarrow> ('d, unit) deed" where
  "Rollback dv inst rq =
     (if \<not> point_id_ok (rq_point rq) then failE (Msg ''recovery point identifier is invalid'')
      else bindE (onW (loadConfigForRecovery dv inst (rq_point rq))) (\<lambda>c.
           bindE (onW (recoveryTopologies dv c)) (\<lambda>topologies. case recoveries dv of
             None \<Rightarrow> failE (Msg ''recovery point store is unavailable'')
           | Some rv \<Rightarrow>
               bindE (rv_list rv inst) (\<lambda>points.
               let source = point_source c (rq_point rq) points in
               bindE (rv_validate rv c (rq_point rq)) (\<lambda>_.
               bindE (onW (recovery_inspector dv c inst)) (\<lambda>inspector.
               bindE (prepareRestore dv inspector rq) (\<lambda>rq2.
               bindE (forE (\<lambda>k. downInfrastructure dv k)
                 (distinct_by (\<lambda>k. cf_compose (infrastructureConfig k)) topologies [cf_compose (infrastructureConfig source)])) (\<lambda>_.
               bindE (restore_data_from rv c rq2 source) (\<lambda>_. onW (close_transaction dv inst)))))))) ))"

section \<open>Resuming\<close>

definition resume_services :: "string list \<Rightarrow> err + string list" where
  "resume_services names =
     (if \<not> list_all compose_service_ok names then Inl (Msg ''managed Compose contains invalid service name'')
      else (case filter (\<lambda>r. r \<notin> set names) required_services of
        [] \<Rightarrow> Inr (sort (filter (\<lambda>n. n \<noteq> ''system-update-queue'') names))
      | missing \<Rightarrow> Inl (Msg ''managed Compose is missing required services'')))"

definition resumeServices :: "'d deployer \<Rightarrow> string \<Rightarrow> string list io" where
  "resumeServices dv compose =
     bindE (tryE (lstat (text_path compose))) (\<lambda>r.
     if (case r of Inl _ \<Rightarrow> True | Inr i \<Rightarrow> i_kind i \<noteq> KRegular \<or> i_size i < 1 \<or> i_size i > 1024 * 1024)
     then failE (Msg ''managed Compose file is unavailable'')
     else bindE (read_services dv (text_path compose)) (\<lambda>names. liftE (resume_services names)))"

definition resume_slots :: "'d deployer \<Rightarrow> config \<Rightarrow> ('d, unit) deed" where
  "resume_slots dv c =
     bindE (startServices dv (infrastructureConfig c) [''postgres'', ''redis'']) (\<lambda>_.
     bindE (command dv (infrastructureConfig c) [''up'', ''-d'', ''--wait'', ''postgres'', ''redis'']) (\<lambda>_.
     bindE (command dv c [''run'', ''--rm'', ''--no-deps'', ''--entrypoint'', ''php'', ''-e'', ''AUTO_MIGRATE=false'',
       ''-e'', ''AUTO_INSTALL_ONCE=false'', ''init'', ''artisan'', ''up'']) (\<lambda>_.
     bindE (onW (applicationServices dv (cf_compose c))) (\<lambda>names.
     bindE (startServices dv c names) (\<lambda>_.
     bindE (bindE (switchIngress dv c (cf_release c) True) ingress_error) (\<lambda>_.
     bindE (resumeFrozenSchedulers dv c) (\<lambda>_. waitHTTP dv c)))))))"

definition remove_retired :: "'d deployer \<Rightarrow> ('d, unit) deed" where
  "remove_retired dv =
     bindE (tryE (docker_quiet dv [''rm'', ''-f'', ''geoflow-system-update-queue-prod''])) (\<lambda>r. case r of
       Inr _ \<Rightarrow> retE ()
     | Inl e \<Rightarrow> if contains ''No such container'' (error_text e) then retE ()
               else failE (Wrap ''remove retired application update executor'' e))"

definition resume_legacy :: "'d deployer \<Rightarrow> config \<Rightarrow> ('d, unit) deed" where
  "resume_legacy dv c =
     bindE (onW (wrapE (Wrap ''select managed services'') (resumeServices dv (cf_compose c)))) (\<lambda>names.
     bindE (onW (runtimeArguments dv c)) (\<lambda>sel.
     bindE (wrapE (Wrap ''disable maintenance mode'')
       (docker_quiet dv (sel @ [''run'', ''--rm'', ''--no-deps'', ''init'', ''php'', ''artisan'', ''up'']))) (\<lambda>_.
     bindE (remove_retired dv) (\<lambda>_.
     bindE (containerIDs dv c (filter (\<lambda>n. n \<noteq> ''init'') names)) (\<lambda>ids.
     bindE (if ids = [] then retE ()
            else wrapE (Wrap ''restore managed restart policies'') (docker_quiet dv ([''update'', ''--restart=unless-stopped''] @ ids))) (\<lambda>_.
     bindE (note_errand (Started c names)) (\<lambda>_.
     bindE (wrapE (Wrap ''start managed deployment'')
       (docker_quiet dv (sel @ [''up'', ''-d'', ''--remove-orphans'', ''--wait'', ''--wait-timeout'', ''180''] @ names))) (\<lambda>_.
     resumeFrozenSchedulers dv c))))))))"

definition Resume :: "'d deployer \<Rightarrow> string \<Rightarrow> ('d, unit) deed" where
  "Resume dv inst =
     bindE (onW (loadConfig dv inst)) (\<lambda>c.
     bindE (tryE (onW (rcRead (recoveryControl dv) inst))) (\<lambda>r.
     let go = (if cf_layout c = LayoutBlueGreen then resume_slots dv c else resume_legacy dv c) in
     case r of
       Inr a \<Rightarrow> if rs_phase (ra_state a) \<noteq> ''ready'' then resumeRecovered dv c a else go
     | Inl e \<Rightarrow>
         if \<not> err_is ErrNotExist e then failE e
         else bindE (tryE (onW (lstat (initialized_path (deploy_dir dv) inst)))) (\<lambda>i.
              if \<not> not_exist i then failE e else go)))"

definition failed_checks :: "report \<Rightarrow> string" where
  "failed_checks r = concat (map (\<lambda>(i, st, m). i @ '': '' @ m @ ''; '') (filter (\<lambda>(i, st, m). st = ''fail'') (rp_checks r)))"

definition verify_report :: "'d deployer \<Rightarrow> string \<Rightarrow> ('d, unit) deed" where
  "verify_report dv inst =
     (case dv_doctor dv of
        None \<Rightarrow> failE (Msg ''deployment diagnostics are unavailable'')
      | Some doctor \<Rightarrow>
          bindE (diagnose doctor inst) (\<lambda>rep.
          if rp_status rep = ''pass'' then retE ()
          else failE (Msg (''deployment verification returned '' @ rp_status rep @ '': '' @ failed_checks rep))))"

definition Verify :: "'d deployer \<Rightarrow> string \<Rightarrow> ('d, unit) deed" where
  "Verify dv inst =
     bindE (tryE (onW (rcRead (recoveryControl dv) inst))) (\<lambda>r. case r of
       Inr a \<Rightarrow>
         if rs_phase (ra_state a) = ''ready'' then verify_report dv inst
         else if rs_phase (ra_state a) \<noteq> ''http_ready'' \<or> ra_prep a = [] \<or> ra_redis a = []
         then failE (Msg ''recovery validation remains incomplete'')
         else bindE (onW (loadConfig dv inst)) (\<lambda>c. checkHTTP dv c)
     | Inl e \<Rightarrow>
         if \<not> err_is ErrNotExist e then failE e
         else bindE (tryE (onW (lstat (initialized_path (deploy_dir dv) inst)))) (\<lambda>i.
              if \<not> not_exist i then failE e else verify_report dv inst))"

section \<open>The steps of a legacy update\<close>

definition candidatePaths :: "config \<Rightarrow> string \<times> string" where
  "candidatePaths c =
     (let d = path_join [path_dir (cf_compose c), ''transaction''] in
      (path_join [d, ''docker-compose.candidate.yml''], path_join [d, ''release.candidate.env'']))"

definition at_candidate :: "config \<Rightarrow> config" where
  "at_candidate c = c\<lparr>cf_compose := fst (candidatePaths c), cf_env := snd (candidatePaths c)\<rparr>"

definition writeCandidate :: "'d deployer \<Rightarrow> config \<Rightarrow> release \<Rightarrow> unit io" where
  "writeCandidate dv c r =
     bindE (liftE (InfrastructureImages r (cf_pg_major c) (cf_redis_major c))) (\<lambda>(pg, redis).
     bindE (read_file (text_path (cf_env c))) (\<lambda>x.
     bindE (liftE (replaceEnvironmentValues (file_text x) (release_pins r pg redis))) (\<lambda>env.
     bindE (mkdir_all (text_path (path_dir (fst (candidatePaths c)))) 488) (\<lambda>_.
     bindE (replaceContents_mode (text_path (fst (candidatePaths c))) (dv_template dv r) 416) (\<lambda>_.
     replaceContents_mode (text_path (snd (candidatePaths c))) (Text env) 416)))))"

definition Pull :: "'d deployer \<Rightarrow> string \<Rightarrow> release \<Rightarrow> ('d, unit) deed" where
  "Pull dv inst r =
     bindE (onW (loadConfig dv inst)) (\<lambda>c.
     bindE (onW (writeCandidate dv c r)) (\<lambda>_. command dv (at_candidate c) [''pull'']))"

definition Migrate :: "'d deployer \<Rightarrow> string \<Rightarrow> ('d, unit) deed" where
  "Migrate dv inst =
     bindE (onW (loadConfig dv inst)) (\<lambda>c.
     bindE (onW (runtimeArguments dv (at_candidate c))) (\<lambda>sel.
     wrapE (Wrap ''run database migrations'')
       (docker_quiet dv (sel @ [''run'', ''--rm'', ''--no-deps'', ''init'', ''php'', ''artisan'', ''migrate'', ''--force'']))))"

definition Activate :: "'d deployer \<Rightarrow> string \<Rightarrow> release \<Rightarrow> unit io" where
  "Activate dv inst r =
     bindE (loadConfig dv inst) (\<lambda>c.
     bindE (forE (\<lambda>p. checkE (regularFile (text_path p)) (\<lambda>_. failE (Msg ''prepared signed deployment is unavailable'')) retE)
       [fst (candidatePaths c), snd (candidatePaths c)]) (\<lambda>_.
     bindE (wrapE (Wrap ''activate managed Compose file'')
       (replaceFromFile (text_path (fst (candidatePaths c))) (text_path (cf_compose c)) 416)) (\<lambda>_.
     bindE (wrapE (Wrap ''activate release environment'')
       (replaceFromFile (text_path (snd (candidatePaths c))) (text_path (cf_env c)) 416)) (\<lambda>_.
     bindE (wrapE (Wrap ''activate instance configuration'')
       (replaceContents_mode (instanceDirectory dv inst @ [''instance.yml''])
          (dv_config_text dv (c\<lparr>cf_release := rl_sequence r, cf_version := rl_version r\<rparr>)) 416)) (\<lambda>_.
     wrapE (Wrap ''activate installed version marker'')
       (replaceContents_mode (text_path (path_join [cf_root c, ''version.json''])) (dv_bytes dv (rl_document r)) 416))))))"

end
