(* ===== verification/Release.thy ===== *)
theory Release
  imports HostRecovery
begin

text \<open>
  A release of the blue-green deployment (\<open>bluegreen.go\<close>, the second half of \<open>traffic.go\<close>,
  \<open>switchback.go\<close>): planning, the steps from the candidate to the drained old slot, and what happens
  to an interrupted release.

  The Go code mutates the journal, the candidate and a flag in closures. Here they are a state,
  \<open>flight\<close>, which carries the host; a call of the service is lifted to it by \<open>onH\<close>.
\<close>

section \<open>The plan of an update\<close>

record plan_summary =
  ps_schema :: int
  ps_source :: "64 word"
  ps_sequence :: "64 word"
  ps_version :: string
  ps_strategy :: string
  ps_sha :: string
  ps_upgrade_sha :: string
  ps_layout :: bool
  ps_pending :: "migration list"
  ps_steps :: "ustep list"

definition migration_to_json :: "migration \<Rightarrow> json" where
  "migration_to_json m = JObj [(''name'', JStr (mi_name m)), (''sha256'', JStr (mi_sha m)), (''online'', JBool (mi_online m))]"

definition ustep_to_json :: "ustep \<Rightarrow> json" where
  "ustep_to_json s = JObj [(''id'', JStr (us_id s)), (''kind'', JStr (us_kind s)), (''phase'', JStr (us_phase s)),
     (''timeout_seconds'', JNum (us_timeout s)), (''online'', JBool (us_online s))]"

definition summary_to_json :: "plan_summary \<Rightarrow> json" where
  "summary_to_json p = JObj
     [(''schema_version'', JNum (ps_schema p)), (''source_sequence'', JNum (uint (ps_source p))),
      (''target_sequence'', JNum (uint (ps_sequence p))), (''target_version'', JStr (ps_version p)),
      (''strategy'', JStr (ps_strategy p)), (''plan_sha256'', JStr (ps_sha p)),
      (''upgrade_plan_sha256'', JStr (ps_upgrade_sha p)), (''layout_change'', JBool (ps_layout p)),
      (''pending_migrations'', JArr (map migration_to_json (ps_pending p))),
      (''steps'', JArr (map ustep_to_json (ps_steps p)))]"

text \<open>Only a blue-green deployment whose infrastructure stays can be updated online.\<close>

definition planned_strategy :: "config \<Rightarrow> release \<Rightarrow> upgrade_plan \<Rightarrow> string io" where
  "planned_strategy c r p =
     (if cf_layout c \<noteq> LayoutBlueGreen then retE StrategyMaintenance
      else bindE (tryE (verifyInfrastructurePins c r)) (\<lambda>v.
           retE (case v of Inl _ \<Rightarrow> StrategyMaintenance | Inr _ \<Rightarrow> up_strategy p)))"

definition identity_json :: "'d deployer \<Rightarrow> plan_summary \<Rightarrow> release \<Rightarrow> config \<Rightarrow> content \<Rightarrow> json" where
  "identity_json dv p r c env = JObj
     [(''Summary'', summary_to_json p), (''App'', JStr (rl_app r)), (''Web'', JStr (rl_web r)),
      (''Compose'', JStr (dv_sha dv (dv_template dv r))), (''Root'', JStr (cf_root c)),
      (''Slot'', JStr (cf_active_slot c)), (''Environment'', JStr (dv_sha dv env))]"

definition summarize :: "'d deployer \<Rightarrow> config \<Rightarrow> release \<Rightarrow> app_report \<Rightarrow> plan_summary io" where
  "summarize dv c r rep =
     bindE (liftE (DecodeUpgradePlan (rl_plan r))) (\<lambda>p.
     if \<not> AllowsSource p (uint (cf_release c))
     then failE (Msg ''installed release is outside the signed upgrade source range'')
     else bindE (planned_strategy c r p) (\<lambda>strategy.
       if strategy = StrategyOnline \<and> \<not> ar_online rep
       then failE (Msg ''pending migrations or application contracts require maintenance'')
       else
         (let s = \<lparr>ps_schema = 1, ps_source = cf_release c, ps_sequence = rl_sequence r, ps_version = rl_version r,
                ps_strategy = strategy, ps_sha = [], ps_upgrade_sha = upgrade_digest dv r,
                ps_layout = cf_layout c \<noteq> LayoutBlueGreen, ps_pending = ar_pending rep, ps_steps = up_steps p\<rparr>
          in bindE (read_file (environment_file (cf_root c))) (\<lambda>env.
             retE (s\<lparr>ps_sha := dv_sha dv (Json (identity_json dv s r c env))\<rparr>)))))"

definition preview_at :: "'d deployer \<Rightarrow> config \<Rightarrow> release \<Rightarrow> path \<Rightarrow> ('d, plan_summary) deed" where
  "preview_at dv c r d =
     bindE (prepareRelease dv c r d (if cf_layout c = LayoutBlueGreen then otherSlot (cf_active_slot c) else [])) (\<lambda>k.
     bindE (command dv k [''pull'', ''init'']) (\<lambda>_.
     bindE (applicationPhase dv k r (cf_release c) ''preview'' ''inspect'' False) (\<lambda>rep.
     onW (summarize dv c r rep))))"

definition previewRelease :: "'d deployer \<Rightarrow> string \<Rightarrow> release \<Rightarrow> ('d, plan_summary) deed" where
  "previewRelease dv inst r =
     bindE (onW (loadConfig dv inst)) (\<lambda>c.
     if dc_len (rl_plan r) = 0
     then failE (Msg ''signed release has no upgrade plan; legacy maintenance update is required'')
     else bindE (Preflight dv inst r) (\<lambda>_.
          bindE (onW (mkdir_temp (instanceDirectory dv inst) ''.preview-'')) (\<lambda>d.
          deferE (preview_at dv c r d) (onW (remove_all d)))))"

definition ServicePreview :: "'d deployer \<Rightarrow> string \<Rightarrow> ('d, plan_summary) deed" where
  "ServicePreview dv inst = bindE (Resolve dv inst) (previewRelease dv inst)"

section \<open>The backup of an online release\<close>

text \<open>A prune keeps the newest directories and the current one; equal times keep their order here.\<close>

definition add_saved :: "'d deployer \<Rightarrow> path \<Rightarrow> string \<Rightarrow> string \<Rightarrow> (string \<times> int) list \<Rightarrow> (string \<times> int) list io" where
  "add_saved dv d current n acc w =
     (if n = current \<or> \<not> is_dir w (d @ [n]) \<or> \<not> safeOperationID n then (Inr acc, w)
      else bindE (lstat (d @ [n])) (\<lambda>_ w2. (Inr (acc @ [(n, dv_mtime dv w2 (d @ [n]))]), w2)) w)"

definition latest_saved :: "(string \<times> int) list \<Rightarrow> (string \<times> int) list" where
  "latest_saved xs = sort_key (\<lambda>x. - snd x) xs"

definition pruneOnlineBackups :: "'d deployer \<Rightarrow> path \<Rightarrow> string \<Rightarrow> nat \<Rightarrow> unit io" where
  "pruneOnlineBackups dv d current keep =
     bindE (read_dir d) (\<lambda>names.
     bindE (foldE (add_saved dv d current) names []) (\<lambda>others.
     forE (\<lambda>x. remove_all (d @ [fst x])) (drop (keep - 1) (latest_saved others))))"

definition dump_online :: "'d deployer \<Rightarrow> config \<Rightarrow> path \<Rightarrow> ('d, unit) deed" where
  "dump_online dv c p =
     bindE (\<lambda>h. case db_dump (postgresDatabase (dv_run dv) c) (ho_dep h) of (r, d) \<Rightarrow> (Inr r, h\<lparr>ho_dep := d\<rparr>)) (\<lambda>(x, failed).
     bindE (onW (tryE (write_data p x))) (\<lambda>wr.
     bindE (onW (tryE (fsync p))) (\<lambda>s.
     bindE (onW (tryE (close_file p))) (\<lambda>k.
     case join_errs [(case err_of wr of Some e \<Rightarrow> Some e | None \<Rightarrow> failed), err_of s, err_of k] of
       None \<Rightarrow> retE () | Some e \<Rightarrow> failE e))))"

definition backup_metadata :: "'d deployer \<Rightarrow> config \<Rightarrow> content \<Rightarrow> nat \<Rightarrow> int \<Rightarrow> json" where
  "backup_metadata dv c x n t = JObj
     [(''automatic_data_restore'', JBool False), (''bytes'', JNum (int n)),
      (''consistency'', JStr ''postgresql-snapshot-only''), (''created_at'', JTime t), (''schema_version'', JNum 1),
      (''sha256'', JStr (dv_sha dv x)), (''source_sequence'', JNum (uint (cf_release c)))]"

definition list_arguments :: "config \<Rightarrow> string list" where
  "list_arguments c = (let k = infrastructureConfig c in
     composeArguments (cf_root c) (cf_env k) (cf_compose k) @ [''exec'', ''-T'', ''postgres'', ''pg_restore'', ''--list''])"

definition check_dump :: "'d deployer \<Rightarrow> config \<Rightarrow> string \<Rightarrow> path \<Rightarrow> nat \<Rightarrow> ('d, unit) deed" where
  "check_dump dv c op p n =
     bindE (onW (open_path p)) (\<lambda>_.
     deferE
       (bindE (wrapE (Wrap ''online dump verification'')
          (bindE (onW (read_file p)) (\<lambda>x. bindE (docker_in dv (Some x) (list_arguments c)) (\<lambda>_. retE x)))) (\<lambda>x.
        bindE (\<lambda>h. onW (replaceContents_mode (butlast p @ [''metadata.json'']) (Json (backup_metadata dv c x n (dv_now dv h))) 384) h) (\<lambda>_.
        onW (pruneOnlineBackups dv (butlast (butlast p)) op 5))))
       (onW (close_file p)))"

definition onlineBackup :: "'d deployer \<Rightarrow> transaction \<Rightarrow> ('d, unit) deed" where
  "onlineBackup dv t =
     (let d = instanceDirectory dv (cf_id (tr_source t)) @ [''online-backups'', tr_operation t]; p = d @ [''postgres.dump''] in
      bindE (onW (safeDirectory d 448)) (\<lambda>_.
      bindE (onW (open_excl p 384)) (\<lambda>_.
      bindE (dump_online dv (tr_source t) p) (\<lambda>_.
      bindE (onW (tryE (lstat p))) (\<lambda>i.
      case i of
        Inl _ \<Rightarrow> failE (Msg ''online database dump is empty'')
      | Inr f \<Rightarrow>
          if i_size f = 0 then failE (Msg ''online database dump is empty'')
          else check_dump dv (tr_source t) (tr_operation t) p (i_size f))))))"

section \<open>The state of a release\<close>

record 'd flight =
  fl_host :: "'d daemon host"
  fl_tx :: transaction
  fl_candidate :: config
  fl_kept :: bool

type_synonym ('d, 'a) leg = "('d flight, 'a) act"

definition onH :: "('d, 'a) deed \<Rightarrow> ('d, 'a) leg" where
  "onH m f = (case m (fl_host f) of (r, h) \<Rightarrow> (r, f\<lparr>fl_host := h\<rparr>))"

definition on_tx :: "(transaction \<Rightarrow> transaction) \<Rightarrow> ('d, unit) leg" where
  "on_tx g f = (Inr (), f\<lparr>fl_tx := g (fl_tx f)\<rparr>)"

definition with_tx :: "(transaction \<Rightarrow> ('d, 'a) leg) \<Rightarrow> ('d, 'a) leg" where
  "with_tx k f = k (fl_tx f) f"

definition with_candidate :: "(config \<Rightarrow> ('d, 'a) leg) \<Rightarrow> ('d, 'a) leg" where
  "with_candidate k f = k (fl_candidate f) f"

definition set_candidate :: "config \<Rightarrow> ('d, unit) leg" where
  "set_candidate k f = (Inr (), f\<lparr>fl_candidate := k\<rparr>)"

definition release_preparation :: "('d, unit) leg" where
  "release_preparation f = (Inr (), f\<lparr>fl_kept := False\<rparr>)"

definition save_tx :: "'d deployer \<Rightarrow> ('d, unit) leg" where
  "save_tx dv = with_tx (\<lambda>t. onH (onW (saveTransaction dv t)))"

definition tell :: "'d deployer \<Rightarrow> 'd daemon host observer option \<Rightarrow> string \<Rightarrow> string \<Rightarrow> string \<Rightarrow> ('d, unit) deed" where
  "tell dv obs name status message h = (case obs of
     None \<Rightarrow> (Inr (), h)
   | Some observe \<Rightarrow>
       observe \<lparr>sg_name = name, sg_status = status, sg_message = message, sg_at = dv_now dv h\<rparr> h)"

text \<open>The closure \<open>step\<close>: the journal names the stage before anything is done, and holds what was done
  before the stage is reported.\<close>

definition flight_step ::
    "'d deployer \<Rightarrow> 'd daemon host observer option \<Rightarrow> string \<Rightarrow> ('d, unit) leg \<Rightarrow> ('d, unit) leg" where
  "flight_step dv obs name run =
     bindE (on_tx (\<lambda>t. t\<lparr>tr_stage := name\<rparr>)) (\<lambda>_.
     bindE (save_tx dv) (\<lambda>_.
     bindE (onH (tell dv obs name ''running'' [])) (\<lambda>_.
     bindE (wrapE (Wrap name) run) (\<lambda>_.
     bindE (save_tx dv) (\<lambda>_.
     onH (tell dv obs name ''succeeded'' []))))))"

section \<open>The steps\<close>

record 'd launch =
  la_config :: config
  la_release :: release
  la_operation :: string
  la_slot :: string
  la_dir :: path
  la_observe :: "'d daemon host observer option"

definition stays :: "'d launch \<Rightarrow> bool" where
  "stays la \<longleftrightarrow> cf_layout (la_config la) = LayoutBlueGreen"

definition step_pull :: "'d deployer \<Rightarrow> 'd launch \<Rightarrow> ('d, unit) leg" where
  "step_pull dv la =
     bindE (onH (prepareRelease dv (la_config la) (la_release la) (la_dir la) (la_slot la))) (\<lambda>k.
     bindE (set_candidate k) (\<lambda>_.
     bindE (on_tx (\<lambda>t. t\<lparr>tr_candidate := k\<rparr>)) (\<lambda>_.
     bindE (save_tx dv) (\<lambda>_. release_preparation))))"

definition step_backup :: "'d deployer \<Rightarrow> 'd launch \<Rightarrow> string \<Rightarrow> ('d, unit) leg" where
  "step_backup dv la inst =
     bindE (onH (CreateRecoveryPoint dv inst (''update-to-'' @ rl_version (la_release la)))) (\<lambda>pid.
     bindE (on_tx (\<lambda>t. t\<lparr>tr_point := pid\<rparr>)) (\<lambda>_.
     with_tx (\<lambda>t. onH (FreezeRecoveryCheckpoint dv inst \<lparr>rq_point = pid, rq_tx = tr_operation t, rq_digest = []\<rparr>))))"

definition restart_redis :: "'d deployer \<Rightarrow> 'd launch \<Rightarrow> ('d, unit) leg" where
  "restart_redis dv la = (let infra = infrastructureConfig (la_config la) in
     bindE (onH (startServices dv infra [''redis''])) (\<lambda>_.
     onH (command dv infra [''up'', ''-d'', ''--no-deps'', ''--wait'', ''redis''])))"

definition drained :: "transaction \<Rightarrow> bool" where
  "drained t \<longleftrightarrow> tr_strategy t = StrategyMaintenance"

definition step_upgrade :: "'d deployer \<Rightarrow> 'd launch \<Rightarrow> ('d, unit) leg" where
  "step_upgrade dv la = with_tx (\<lambda>t. with_candidate (\<lambda>k.
     bindE (onH (applicationPhase dv k (la_release la) (cf_release (la_config la)) (la_operation la) ''apply'' (drained t))) (\<lambda>_.
     retE ())))"

definition converted :: "'d deployer \<Rightarrow> string \<Rightarrow> config \<Rightarrow> config" where
  "converted dv inst k =
     k\<lparr>cf_layout := LayoutBlueGreen,
       cf_infra_compose := path_text (instanceDirectory dv inst @ [''infra'', ''docker-compose.yml'']),
       cf_infra_env := path_text (instanceDirectory dv inst @ [''infra'', ''release.env''])\<rparr>"

definition step_layout :: "'d deployer \<Rightarrow> 'd launch \<Rightarrow> string \<Rightarrow> ('d, unit) leg" where
  "step_layout dv la inst =
     bindE (onH (prepareRelease dv (la_config la) (la_release la) (la_dir la) (la_slot la))) (\<lambda>k0.
     let k = converted dv inst k0 in
     bindE (set_candidate k) (\<lambda>_.
     bindE (on_tx (\<lambda>t. t\<lparr>tr_candidate := k, tr_layout := True\<rparr>)) (\<lambda>_.
     bindE (save_tx dv) (\<lambda>_.
     bindE release_preparation (\<lambda>_.
     onH (installInfrastructure dv (la_config la) k (la_release la) False))))))"

definition artisan_up :: "string list" where
  "artisan_up = [''run'', ''--rm'', ''--no-deps'', ''--entrypoint'', ''php'', ''init'', ''artisan'', ''up'']"

definition step_candidate :: "'d deployer \<Rightarrow> 'd launch \<Rightarrow> ('d, unit) leg" where
  "step_candidate dv la = with_tx (\<lambda>t. with_candidate (\<lambda>k.
     bindE (onH (onW (prepareViews dv k))) (\<lambda>_.
     bindE (onH (startServices dv k [''app'', ''reverb'', ''web''])) (\<lambda>_.
     bindE (if drained t then onH (command dv k artisan_up) else retE ()) (\<lambda>_.
     bindE (onH (applicationPhase dv k (la_release la) (cf_release (la_config la)) (la_operation la) ''verify'' (drained t))) (\<lambda>_.
     bindE (onH (waitHTTP dv k)) (\<lambda>_. onH (copyAssets dv k))))))))"

definition step_switch :: "'d deployer \<Rightarrow> 'd launch \<Rightarrow> ('d, unit) leg" where
  "step_switch dv la = with_candidate (\<lambda>k.
     bindE (on_tx (\<lambda>t. t\<lparr>tr_opened := True\<rparr>)) (\<lambda>_.
     bindE (save_tx dv) (\<lambda>_.
     bindE (onH (switchIngress dv k (rl_sequence (la_release la)) (stays la))) (\<lambda>(workers, failed).
     bindE (on_tx (\<lambda>t. t\<lparr>tr_workers := workers\<rparr>)) (\<lambda>_.
     case failed of
       Some e \<Rightarrow> failE e
     | None \<Rightarrow> onH (onW (activateSlot dv k (dv_bytes dv (rl_document (la_release la))))))))))"

definition step_workers :: "'d deployer \<Rightarrow> 'd launch \<Rightarrow> ('d, unit) leg" where
  "step_workers dv la = with_candidate (\<lambda>k.
     bindE (if stays la then onH (drainBackground dv (la_config la)) else retE ()) (\<lambda>_.
     bindE (onH (onW (backgroundServices dv (cf_compose k)))) (\<lambda>names.
     bindE (onH (startServices dv k names)) (\<lambda>_.
     on_tx (\<lambda>t. t\<lparr>tr_handed := True\<rparr>)))))"

definition step_drain :: "'d deployer \<Rightarrow> 'd launch \<Rightarrow> ('d, unit) leg" where
  "step_drain dv la = with_tx (\<lambda>t. with_candidate (\<lambda>k.
     bindE (onH (drainServices dv (la_config la) [''reverb''])) (\<lambda>_.
     bindE (onH (waitIngressWorkers dv k (tr_workers t))) (\<lambda>_.
     onH (drainServices dv (la_config la) [''web'', ''reverb'', ''app''])))))"

definition layout_needed :: "'d launch \<Rightarrow> ('d, bool) leg" where
  "layout_needed la =
     (if \<not> stays la then retE True
      else bindE (tryE (onH (onW (verifyInfrastructurePins (la_config la) (la_release la))))) (\<lambda>v.
           retE (case v of Inl _ \<Rightarrow> True | Inr _ \<Rightarrow> False)))"

text \<open>The closure \<open>run\<close>, in three parts: until the data is safe, until traffic, after.\<close>

definition run_secure :: "'d deployer \<Rightarrow> 'd launch \<Rightarrow> string \<Rightarrow> ('d, unit) leg" where
  "run_secure dv la inst = (let st = flight_step dv (la_observe la) in with_tx (\<lambda>t.
     if drained t
     then bindE (st ''quiesce'' (onH (Quiesce dv inst))) (\<lambda>_.
          bindE (st ''backup'' (step_backup dv la inst)) (\<lambda>_. restart_redis dv la))
     else st ''online-backup'' (with_tx (\<lambda>t2. onH (onlineBackup dv t2)))))"

definition run_protect :: "'d deployer \<Rightarrow> 'd launch \<Rightarrow> string \<Rightarrow> ('d, unit) leg" where
  "run_protect dv la inst = (let st = flight_step dv (la_observe la) in
     bindE (if stays la then st ''pull'' (step_pull dv la)
            else st ''retain-assets'' (onH (copyAssets dv (la_config la)))) (\<lambda>_. run_secure dv la inst))"

definition run_candidate :: "'d deployer \<Rightarrow> 'd launch \<Rightarrow> string \<Rightarrow> ('d, unit) leg" where
  "run_candidate dv la inst = (let st = flight_step dv (la_observe la) in
     bindE (st ''upgrade'' (step_upgrade dv la)) (\<lambda>_.
     bindE (layout_needed la) (\<lambda>yes.
     bindE (if yes then st ''layout'' (step_layout dv la inst) else retE ()) (\<lambda>_.
     bindE (with_tx (\<lambda>t. set_candidate (tr_candidate t))) (\<lambda>_.
     st ''candidate'' (step_candidate dv la))))))"

definition run_traffic :: "'d deployer \<Rightarrow> 'd launch \<Rightarrow> ('d, unit) leg" where
  "run_traffic dv la = (let st = flight_step dv (la_observe la) in
     bindE (st ''switch'' (step_switch dv la)) (\<lambda>_.
     bindE (st ''workers'' (step_workers dv la)) (\<lambda>_.
     bindE (st ''observe'' (with_candidate (\<lambda>k. onH (observeRelease dv k)))) (\<lambda>_.
     if stays la then st ''drain'' (step_drain dv la) else retE ()))))"

definition run_release :: "'d deployer \<Rightarrow> 'd launch \<Rightarrow> string \<Rightarrow> ('d, unit) leg" where
  "run_release dv la inst =
     bindE (run_protect dv la inst) (\<lambda>_. bindE (run_candidate dv la inst) (\<lambda>_. run_traffic dv la))"

section \<open>Going back\<close>

definition restoreApplication :: "'d deployer \<Rightarrow> transaction \<Rightarrow> ('d, unit) deed" where
  "restoreApplication dv t =
     (let src = tr_source t; k = tr_candidate t in
      if cf_layout src \<noteq> LayoutBlueGreen
      then failE (Msg ''application-only rollback requires a retained blue-green source'')
      else bindE (drainBackground dv k) (\<lambda>_.
           bindE (startServices dv src [''app'', ''reverb'', ''web'']) (\<lambda>_.
           bindE (waitHTTP dv src) (\<lambda>_.
           bindE (switchIngress dv src (cf_release src) True) (\<lambda>sw.
           bindE (ingress_error sw) (\<lambda>_.
           bindE (onW (activateSlot dv src (tr_version t))) (\<lambda>_.
           bindE (onW (backgroundServices dv (cf_compose src))) (\<lambda>names.
           bindE (startServices dv src names) (\<lambda>_.
           bindE (drainServices dv k [''reverb'']) (\<lambda>_.
           bindE (waitIngressWorkers dv src (fst sw)) (\<lambda>_.
           drainServices dv k [''web'', ''app''])))))))))))"

text \<open>The boundary is durable before the source may write again.\<close>

definition resumeSource :: "'d deployer \<Rightarrow> ('d, unit) leg" where
  "resumeSource dv =
     bindE (on_tx (\<lambda>t. t\<lparr>tr_stage := ''resume'', tr_opened := True\<rparr>)) (\<lambda>_.
     bindE (wrapE (Wrap ''persist source resume boundary'') (save_tx dv)) (\<lambda>_.
     with_tx (\<lambda>t. onH (Resume dv (cf_id (tr_source t))))))"

definition stop_candidate :: "'d deployer \<Rightarrow> transaction \<Rightarrow> ('d, unit) deed" where
  "stop_candidate dv t =
     (if tr_layout t then
        bindE (onW (applicationServices dv (cf_compose (tr_candidate t)))) (\<lambda>names.
        bindE (drainServices dv (tr_candidate t) names) (\<lambda>_. downInfrastructure dv (tr_candidate t)))
      else if cf_layout (tr_source t) = LayoutBlueGreen then
        bindE (onW (applicationServices dv (cf_compose (tr_candidate t)))) (\<lambda>names.
        drainServices dv (tr_candidate t) names)
      else retE ())"

definition restore_source_data :: "'d deployer \<Rightarrow> transaction \<Rightarrow> ('d, unit) deed" where
  "restore_source_data dv t =
     bindE (prepareRestore dv (if tr_layout t then tr_candidate t else tr_source t)
              \<lparr>rq_point = tr_point t, rq_tx = tr_operation t, rq_digest = []\<rparr>) (\<lambda>rq.
     bindE (stop_candidate dv t) (\<lambda>_. case recoveries dv of
       None \<Rightarrow> failE (Msg ''recovery store unavailable'')
     | Some rv \<Rightarrow>
         bindE (if tr_layout t then retE () else drainServices dv (infrastructureConfig (tr_source t)) [''redis'']) (\<lambda>_.
         restore_data_from rv (tr_source t) rq (tr_source t))))"

definition restoreBeforeTraffic :: "'d deployer \<Rightarrow> ('d, unit) leg" where
  "restoreBeforeTraffic dv = with_tx (\<lambda>t.
     if tr_opened t then failE (Msg ''traffic may have resumed; start a new explicit data recovery'')
     else bindE (onH (restore_source_data dv t)) (\<lambda>_. resumeSource dv))"

definition tx_status :: "string \<Rightarrow> ('d, unit) leg" where
  "tx_status s = on_tx (\<lambda>t. t\<lparr>tr_status := s\<rparr>)"

definition tx_error :: "string \<Rightarrow> ('d, unit) leg" where
  "tx_error s = on_tx (\<lambda>t. t\<lparr>tr_error := s\<rparr>)"

text \<open>What a failed release may undo, by its strategy and by what its journal says.\<close>

definition recover_release :: "'d deployer \<Rightarrow> ('d, unit) leg" where
  "recover_release dv = with_tx (\<lambda>t.
     if tr_strategy t = StrategyOnline then
       (if tr_stage t = ''drain'' then failE (Msg ''old connections are still draining; both slots were retained'')
        else bindE (onH (restoreApplication dv t)) (\<lambda>_. tx_status StatusRolledBack))
     else if tr_opened t \<and> tr_stage t = ''resume'' then
       bindE (resumeSource dv) (\<lambda>_. tx_status (if tr_point t \<noteq> [] then StatusRolledBack else StatusFailed))
     else if tr_opened t then
       failE (Msg ''traffic or background writes may have resumed; data restoration requires a separate authorized recovery'')
     else if tr_point t \<noteq> [] then bindE (restoreBeforeTraffic dv) (\<lambda>_. tx_status StatusRolledBack)
     else bindE (resumeSource dv) (\<lambda>_. tx_status StatusFailed))"

definition flight_result :: "('d, result) leg" where
  "flight_result = with_tx (\<lambda>t. retE (outcome (tr_status t) (tr_target t) (tr_point t) (tr_error t)))"

definition settle_release :: "'d deployer \<Rightarrow> err \<Rightarrow> ('d, result) leg" where
  "settle_release dv cause =
     bindE (checkE (recover_release dv) (\<lambda>e. tx_error (joined [Some cause, Some e])) retE) (\<lambda>_.
     bindE (checkE (save_tx dv)
       (\<lambda>e. bindE (tx_status StatusRecoveryRequired) (\<lambda>_.
            on_tx (\<lambda>t. t\<lparr>tr_error := joined [Some (Msg (tr_error t)), Some e]\<rparr>))) retE) (\<lambda>_.
     flight_result))"

definition failRelease :: "'d deployer \<Rightarrow> err \<Rightarrow> 'd daemon host observer option \<Rightarrow> ('d, result) leg" where
  "failRelease dv cause obs =
     bindE (tx_error (error_text cause)) (\<lambda>_.
     bindE (tx_status StatusRecoveryRequired) (\<lambda>_.
     bindE (ignoreE (save_tx dv)) (\<lambda>_.
     bindE (ignoreE (with_tx (\<lambda>t. onH (tell dv obs (tr_stage t) ''failed'' (error_text cause))))) (\<lambda>_.
     checkE (with_tx (\<lambda>t. onH (waitUpgradeContainers dv (tr_operation t))))
       (\<lambda>e. bindE (tx_error (joined [Some cause, Some e])) (\<lambda>_.
            bindE (ignoreE (save_tx dv)) (\<lambda>_. flight_result)))
       (\<lambda>_. settle_release dv cause)))))"

text \<open>A flight that starts from a journal: nothing else is known of it.\<close>

definition boarded :: "transaction \<Rightarrow> 'd daemon host \<Rightarrow> 'd flight" where
  "boarded t h = \<lparr>fl_host = h, fl_tx = t, fl_candidate = tr_candidate t, fl_kept = True\<rparr>"

definition from_journal :: "transaction \<Rightarrow> ('d, 'a) leg \<Rightarrow> ('d, 'a) deed" where
  "from_journal t m h = (case m (boarded t h) of (r, f) \<Rightarrow> (r, fl_host f))"

end
