(* ===== verification/Deployment.thy ===== *)
theory Deployment
  imports Release
begin

text \<open>
  The deployment as its callers see it (\<open>internal/deployment\<close>): the execution of a release, its
  reconciliation after a crash (\<open>bluegreen.go\<close>), the switch back to a retained release
  (\<open>switchback.go\<close>), the snapshot a coordinated action is planned on (\<open>coordination.go\<close>), and the
  service as the interface that the update engine and the operation manager call.
\<close>

section \<open>The execution of a release\<close>

definition pending_release :: "string \<Rightarrow> bool" where
  "pending_release s \<longleftrightarrow> s = StatusRecoveryRequired \<or> s = ''running''"

text \<open>Before anything is prepared.\<close>

definition execute_checks ::
    "'d deployer \<Rightarrow> string \<Rightarrow> release \<Rightarrow> options \<Rightarrow> ('d, config \<times> string \<times> content) deed" where
  "execute_checks dv inst r op =
     (if \<not> safeOperationID (op_operation op)
      then failE (Msg ''an operation identity is required for a planned update'')
      else bindE (onW (loadConfig dv inst)) (\<lambda>c.
        bindE (Preflight dv inst r) (\<lambda>_.
        bindE (tryE (onW (readTransaction dv inst))) (\<lambda>old.
        if (case old of Inr t \<Rightarrow> pending_release (tr_status t) | Inl _ \<Rightarrow> False)
        then failE (Msg ''the previous deployment requires recovery'')
        else if (case old of Inr _ \<Rightarrow> False | Inl e \<Rightarrow> \<not> err_is ErrNotExist e)
        then failE (case old of Inl e \<Rightarrow> e | Inr _ \<Rightarrow> Msg [])
        else
          (let slot = (if cf_layout c = LayoutBlueGreen then otherSlot (cf_active_slot c) else ''blue'') in
           bindE (ensureSlotFree dv c slot) (\<lambda>_.
           bindE (onW (read_file (text_path (path_join [cf_root c, ''version.json''])))) (\<lambda>version.
           retE (c, slot, version))))))))"

definition new_transaction ::
    "string \<Rightarrow> config \<Rightarrow> config \<Rightarrow> release \<Rightarrow> content \<Rightarrow> plan_summary \<Rightarrow> string \<Rightarrow> transaction" where
  "new_transaction op c k r version s slot =
     \<lparr>tr_schema = 1, tr_operation = op, tr_status = ''running'', tr_stage = [], tr_strategy = ps_strategy s, tr_source = c,
      tr_candidate = (if validSlot (cf_active_slot k) then k else k\<lparr>cf_active_slot := slot\<rparr>),
      tr_target = r, tr_version = version, tr_point = [], tr_opened = False, tr_layout = False, tr_handed = False,
      tr_workers = [], tr_plan = ps_sha s, tr_error = []\<rparr>"

text \<open>The plan is bound to what the caller saw before anything of the deployment is touched.\<close>

definition bind_plan :: "options \<Rightarrow> plan_summary \<Rightarrow> err + unit" where
  "bind_plan op s =
     (if ps_strategy s = StrategyMaintenance \<and> \<not> op_maintenance op
      then Inl (Msg ''this plan requires a maintenance window; explicitly allow maintenance to execute'')
      else if op_expected_plan op \<noteq> [] \<and> op_expected_plan op \<noteq> ps_sha s
      then Inl (Msg ''upgrade plan changed after preview'') else Inr ())"

definition prepare_flight ::
    "'d deployer \<Rightarrow> config \<Rightarrow> string \<Rightarrow> content \<Rightarrow> release \<Rightarrow> options \<Rightarrow> path \<Rightarrow> ('d, config \<times> transaction) deed" where
  "prepare_flight dv c slot version r op d =
     bindE (prepareRelease dv c r d (if cf_layout c = LayoutBlueGreen then slot else [])) (\<lambda>k.
     bindE (command dv k [''pull'']) (\<lambda>_.
     bindE (applicationPhase dv k r (cf_release c) (op_operation op) ''inspect'' False) (\<lambda>rep.
     bindE (onW (summarize dv c r rep)) (\<lambda>s.
     bindE (liftE (bind_plan op s)) (\<lambda>_.
     retE (k, new_transaction (op_operation op) c k r version s slot))))))"

definition finish_release :: "'d deployer \<Rightarrow> 'd daemon host observer option \<Rightarrow> ('d, result) leg" where
  "finish_release dv obs =
     bindE (on_tx (\<lambda>t. t\<lparr>tr_status := StatusSucceeded, tr_stage := ''succeeded''\<rparr>)) (\<lambda>_.
     checkE (save_tx dv) (\<lambda>e. failRelease dv e obs) (\<lambda>_.
     checkE (onH (tell dv obs ''succeeded'' ''succeeded'' [])) (\<lambda>e. failRelease dv e obs) (\<lambda>_.
     with_tx (\<lambda>t. retE (outcome StatusSucceeded (tr_target t) (tr_point t) [])))))"

definition fail_before :: "'d deployer \<Rightarrow> release \<Rightarrow> 'd daemon host observer option \<Rightarrow> err \<Rightarrow> ('d, result) deed" where
  "fail_before dv r obs e =
     bindE (ignoreE (tell dv obs ''preflight'' ''failed'' (error_text e))) (\<lambda>_.
     retE (outcome StatusFailed r [] (error_text e)))"

text \<open>A journal that may exist is never taken for one that does not.\<close>

definition launch_release :: "'d deployer \<Rightarrow> 'd launch \<Rightarrow> string \<Rightarrow> ('d, result) leg" where
  "launch_release dv la inst =
     checkE (save_tx dv)
       (\<lambda>e. bindE (tryE (onH (onW (readTransaction dv inst)))) (\<lambda>saved. with_tx (\<lambda>t.
            if (case saved of Inr u \<Rightarrow> tr_operation u = tr_operation t | Inl _ \<Rightarrow> False)
            then retE (outcome StatusRecoveryRequired (la_release la) [] (error_text e))
            else onH (fail_before dv (la_release la) (la_observe la) e))))
       (\<lambda>_. checkE (run_release dv la inst) (\<lambda>e. failRelease dv e (la_observe la))
              (\<lambda>_. finish_release dv (la_observe la)))"

text \<open>The deferred removal of the preparation looks at the flag when the release has ended.\<close>

definition fly :: "'d deployer \<Rightarrow> 'd launch \<Rightarrow> string \<Rightarrow> config \<times> transaction \<Rightarrow> path \<Rightarrow> ('d, result) deed" where
  "fly dv la inst kt d h =
     (case launch_release dv la inst \<lparr>fl_host = h, fl_tx = snd kt, fl_candidate = fst kt, fl_kept = True\<rparr> of
        (r, f) \<Rightarrow> (r, if fl_kept f then fl_host f else snd (onW (remove_all d) (fl_host f))))"

definition ExecuteRelease ::
    "'d deployer \<Rightarrow> string \<Rightarrow> release \<Rightarrow> options \<Rightarrow> 'd daemon host observer option \<Rightarrow> ('d, result) deed" where
  "ExecuteRelease dv inst r op obs =
     checkE (execute_checks dv inst r op) (fail_before dv r obs) (\<lambda>(c, slot, version).
     checkE (onW (mkdir_temp (instanceDirectory dv inst) ''.release-'')) (fail_before dv r obs) (\<lambda>d.
     checkE (prepare_flight dv c slot version r op d)
       (\<lambda>e. deferE (fail_before dv r obs e) (onW (remove_all d)))
       (\<lambda>kt. fly dv \<lparr>la_config = c, la_release = r, la_operation = op_operation op, la_slot = slot,
                la_dir = instanceDirectory dv inst @ [''slots'', slot], la_observe = obs\<rparr> inst kt d)))"

section \<open>Reconciliation\<close>

definition settled_result :: "transaction \<Rightarrow> result" where
  "settled_result t = outcome (tr_status t) (tr_target t) (tr_point t) (tr_error t)"

text \<open>Without a durable boundary, an interrupted maintenance release is left to an explicit recovery.\<close>

definition no_boundary :: string where
  "no_boundary = ''interrupted maintenance recovery has no durable resume boundary; start a new explicit data recovery''"

definition refuse_reconcile :: "'d deployer \<Rightarrow> ('d, result) leg" where
  "refuse_reconcile dv =
     bindE (tx_status StatusRecoveryRequired) (\<lambda>_.
     bindE (tx_error no_boundary) (\<lambda>_.
     checkE (save_tx dv)
       (\<lambda>e. bindE (on_tx (\<lambda>t. t\<lparr>tr_error := joined [Some (Msg (tr_error t)), Some e]\<rparr>)) (\<lambda>_. flight_result))
       (\<lambda>_. flight_result)))"

text \<open>An online release that was draining only has to finish the drain.\<close>

definition interrupted :: "'d deployer \<Rightarrow> ('d, result) leg" where
  "interrupted dv = with_tx (\<lambda>t. failRelease dv (Msg (''updater interrupted during '' @ tr_stage t)) None)"

definition finish_drain :: "'d deployer \<Rightarrow> ('d, result) leg" where
  "finish_drain dv = with_tx (\<lambda>t.
     checkE (onH (drainServices dv (tr_source t) [''reverb''])) (\<lambda>e. failRelease dv e None) (\<lambda>_.
     checkE (bindE (onH (waitIngressWorkers dv (tr_candidate t) (tr_workers t))) (\<lambda>_.
             bindE (onH (drainServices dv (tr_source t) [''web'', ''reverb'', ''app''])) (\<lambda>_.
             bindE (on_tx (\<lambda>u. u\<lparr>tr_status := StatusSucceeded, tr_stage := ''succeeded'', tr_error := []\<rparr>)) (\<lambda>_.
             save_tx dv))))
       (\<lambda>_. interrupted dv)
       (\<lambda>_. with_tx (\<lambda>u. retE (outcome (tr_status u) (tr_target u) [] [])))))"

definition reconcile_pending :: "'d deployer \<Rightarrow> ('d, result) leg" where
  "reconcile_pending dv = with_tx (\<lambda>t.
     if tr_strategy t \<noteq> StrategyOnline \<and> \<not> (tr_stage t = ''resume'' \<and> tr_opened t) then refuse_reconcile dv
     else if tr_strategy t = StrategyOnline \<and> tr_stage t = ''drain'' then finish_drain dv
     else interrupted dv)"

definition ReconcileRelease :: "'d deployer \<Rightarrow> string \<Rightarrow> string \<Rightarrow> ('d, result \<times> bool) deed" where
  "ReconcileRelease dv inst op =
     bindE (tryE (onW (readTransaction dv inst))) (\<lambda>r. case r of
       Inl e \<Rightarrow> if err_is ErrNotExist e then retE (outcome [] zero_release [] [], False)
               else retE (outcome StatusRecoveryRequired zero_release [] (error_text e), True)
     | Inr t \<Rightarrow>
         if tr_operation t \<noteq> op then retE (outcome [] zero_release [] [], False)
         else if final_status (tr_status t) then retE (settled_result t, True)
         else bindE (from_journal t (reconcile_pending dv)) (\<lambda>x. retE (x, True)))"

section \<open>Switching back\<close>

text \<open>Only a completed online release whose candidate is still the running one.\<close>

definition switchable :: "transaction \<Rightarrow> bool" where
  "switchable t \<longleftrightarrow> tr_strategy t = StrategyOnline \<and> cf_layout (tr_source t) = LayoutBlueGreen \<and> tr_status t = StatusSucceeded"

definition still_deployed :: "config \<Rightarrow> transaction \<Rightarrow> bool" where
  "still_deployed c t \<longleftrightarrow> cf_release c = rl_sequence (tr_target t) \<and> cf_active_slot c = cf_active_slot (tr_candidate t)"

definition switch_checks :: "'d deployer \<Rightarrow> string \<Rightarrow> string \<Rightarrow> transaction io" where
  "switch_checks dv inst op =
     bindE (requireRecoveryReady dv inst) (\<lambda>_.
     if \<not> safeOperationID op then failE (Msg ''invalid operation identity'')
     else bindE (readTransaction dv inst) (\<lambda>t.
       if \<not> switchable t
       then failE (Msg ''only a completed compatible online release has an application switch-back'')
       else bindE (loadConfig dv inst) (\<lambda>c.
            if \<not> still_deployed c t then failE (Msg ''retained release no longer matches current deployment'')
            else retE t)))"

definition source_release :: "transaction \<Rightarrow> release" where
  "source_release t = zero_release\<lparr>rl_version := cf_version (tr_source t), rl_sequence := cf_release (tr_source t)\<rparr>"

definition switch_result :: "string \<Rightarrow> string \<Rightarrow> result" where
  "switch_result s e = outcome s zero_release [] e"

definition switch_run :: "'d deployer \<Rightarrow> 'd daemon host observer option \<Rightarrow> ('d, result) leg" where
  "switch_run dv obs =
     checkE (onH (tell dv obs ''switch-back'' ''running'' [])) (\<lambda>e. failRelease dv e None) (\<lambda>_.
     checkE (with_tx (\<lambda>t. onH (restoreApplication dv t)))
       (\<lambda>e. bindE (tx_status StatusRecoveryRequired) (\<lambda>_. bindE (tx_error (error_text e)) (\<lambda>_.
            bindE (ignoreE (save_tx dv)) (\<lambda>_. retE (switch_result StatusRecoveryRequired (error_text e)))))) (\<lambda>_.
     bindE (on_tx (\<lambda>t. t\<lparr>tr_status := StatusRolledBack, tr_error := []\<rparr>)) (\<lambda>_.
     checkE (save_tx dv) (\<lambda>e. retE (switch_result StatusRecoveryRequired (error_text e))) (\<lambda>_.
     checkE (onH (tell dv obs ''switch-back'' ''succeeded'' []))
       (\<lambda>e. retE (switch_result StatusRecoveryRequired (error_text e)))
       (\<lambda>_. with_tx (\<lambda>t. retE (outcome StatusSucceeded (source_release t) [] [])))))))"

definition SwitchBack ::
    "'d deployer \<Rightarrow> string \<Rightarrow> string \<Rightarrow> 'd daemon host observer option \<Rightarrow> ('d, result) deed" where
  "SwitchBack dv inst op obs =
     checkE (onW (switch_checks dv inst op)) (\<lambda>e. retE (switch_result StatusFailed (error_text e))) (\<lambda>t.
     let u = t\<lparr>tr_operation := op, tr_stage := ''switch-back'', tr_status := ''running''\<rparr> in
     checkE (onW (saveTransaction dv u)) (\<lambda>e. retE (switch_result StatusFailed (error_text e))) (\<lambda>_.
     from_journal u (switch_run dv obs)))"

end
