(* ===== verification/DeployService.thy ===== *)
theory DeployService
  imports Deployment Runners
begin

text \<open>
  What an action is planned on (\<open>internal/deployment/coordination.go\<close>), and the service of
  \<open>internal/deployment\<close> as the deployment that the update engine and the operation manager call.
\<close>

section \<open>The baseline of an action\<close>

text \<open>\<open>encoding/json\<close> writes the keys of a map in order.\<close>

definition go_map :: "(string \<times> json) list \<Rightarrow> json" where
  "go_map kvs = JObj (sort_key fst kvs)"

definition hash_file :: "'d deployer \<Rightarrow> string \<Rightarrow> (string \<times> json) list \<Rightarrow> (string \<times> json) list io" where
  "hash_file dv p m =
     bindE (regularFile (text_path p)) (\<lambda>_.
     bindE (read_file (text_path p)) (\<lambda>x. retE (map_put p (JStr (dv_sha dv x)) m)))"

definition baseline_paths :: "'d deployer \<Rightarrow> string \<Rightarrow> config \<Rightarrow> string list" where
  "baseline_paths dv inst c =
     [path_text (instanceDirectory dv inst @ [''instance.yml'']), cf_compose c, cf_env c,
      path_join [cf_root c, ''.env.prod''], path_join [cf_root c, ''version.json'']] @
     (if cf_infra_compose c \<noteq> []
      then [cf_infra_compose c, cf_infra_env c, path_join [path_dir (cf_infra_compose c), ''traffic'', ''nginx.conf''],
            path_join [path_dir (cf_compose c), ''upgrade-plan.json''], path_join [path_dir (cf_compose c), ''version.json'']]
      else [])"

definition full_scope :: json where
  "full_scope = JArr (map JStr [''database'', ''storage'', ''configuration'', ''deployment'', ''redis''])"

text \<open>What a single action adds: to the baseline, to the details, and to the snapshot.\<close>

type_synonym evidence = "(string \<times> json) list \<times> (string \<times> json) list \<times> release option \<times> string \<times> bool"

definition version_pairs :: "string \<Rightarrow> 64 word \<Rightarrow> (string \<times> json) list" where
  "version_pairs v n = [(''version'', JStr v), (''sequence'', JNum (uint n))]"

definition plan_evidence :: "'d deployer \<Rightarrow> string \<Rightarrow> ('d, evidence) deed" where
  "plan_evidence dv inst =
     bindE (Resolve dv inst) (\<lambda>r.
     bindE (previewRelease dv inst r) (\<lambda>s.
     retE ([(''target'', dv_release_json dv r), (''plan'', summary_to_json s)],
           [(''target'', go_map (version_pairs (rl_version r) (rl_sequence r) @
              [(''app_image'', JStr (rl_app r)), (''web_image'', JStr (rl_web r))])), (''upgrade'', summary_to_json s)],
           Some r, ps_sha s, ps_strategy s = StrategyMaintenance)))"

definition backup_evidence :: evidence where
  "backup_evidence = ([(''scope'', full_scope)], [(''scope'', full_scope)], None, [], True)"

definition restore_evidence :: "'d deployer \<Rightarrow> string \<Rightarrow> string \<Rightarrow> ('d, evidence) deed" where
  "restore_evidence dv inst pid =
     bindE (ListRecoveryPoints dv inst) (\<lambda>ps. case filter IsUpdateCheckpoint ps of
       [] \<Rightarrow> failE (Msg ''latest update checkpoint is unavailable'')
     | p # _ \<Rightarrow>
         if pt_id p \<noteq> pid then failE (Msg ''restore requires latest update checkpoint'')
         else bindE (ValidateRecoveryPoint dv inst pid) (\<lambda>_.
              retE ([(''point'', point_to_json p), (''scope'', full_scope)],
                    [(''recovery_point'', go_map ([(''id'', JStr (pt_id p))] @ version_pairs (pt_version p) (pt_release p) @
                       [(''created_at'', JTime (pt_created p)), (''manifest_sha256'', JStr (dv_sha dv (Json (point_to_json p))))]))],
                    None, [], True)))"

definition switch_evidence :: "'d deployer \<Rightarrow> string \<Rightarrow> config \<Rightarrow> ('d, evidence) deed" where
  "switch_evidence dv inst c =
     bindE (onW (readTransaction dv inst)) (\<lambda>t.
     if \<not> switchable t \<or> \<not> still_deployed c t then failE (Msg ''compatible retained release is unavailable'')
     else bindE (onW (foldE (hash_file dv) [cf_compose (tr_source t), cf_env (tr_source t)] [])) (\<lambda>retained.
          retE ([(''transaction'', dv_encode dv t), (''retained_files'', go_map retained)],
                [(''target'', go_map (version_pairs (cf_version (tr_source t)) (cf_release (tr_source t)) @
                    [(''slot'', JStr (cf_active_slot (tr_source t)))])),
                 (''deployment_transaction_id'', JStr (tr_operation t))], None, [], False)))"

definition action_evidence :: "'d deployer \<Rightarrow> string \<Rightarrow> string \<Rightarrow> string \<Rightarrow> config \<Rightarrow> ('d, evidence) deed" where
  "action_evidence dv inst action pid c =
     (if action = ''update'' then plan_evidence dv inst
      else if action = ''backup'' then retE backup_evidence
      else if action = ''restore'' then restore_evidence dv inst pid
      else if action = ''switch-back'' then switch_evidence dv inst c
      else failE (Msg ''invalid action''))"

definition baseline_json :: "config \<Rightarrow> (string \<times> json) list \<Rightarrow> rstate \<Rightarrow> string \<Rightarrow> (string \<times> json) list \<Rightarrow> json" where
  "baseline_json c hashes s action extra =
     go_map ([(''config'', config_to_json c), (''files'', go_map hashes), (''recovery'', rstate_to_json s),
              (''action'', JStr action)] @ extra)"

definition source_details :: "config \<Rightarrow> json" where
  "source_details c = go_map (version_pairs (cf_version c) (cf_release c) @ [(''slot'', JStr (cf_active_slot c))])"

definition ActionSnapshot :: "'d deployer \<Rightarrow> string \<Rightarrow> string \<Rightarrow> string \<Rightarrow> ('d, snapshot) deed" where
  "ActionSnapshot dv inst action pid =
     bindE (onW (rcRead (recoveryControl dv) inst)) (\<lambda>a.
     if rs_phase (ra_state a) \<noteq> ''ready'' \<and> action \<noteq> ''restore''
     then failE (Msg ''recovery reconciliation is required'')
     else bindE (onW (loadConfig dv inst)) (\<lambda>c.
          bindE (onW (foldE (hash_file dv) (baseline_paths dv inst c) [])) (\<lambda>hashes.
          bindE (action_evidence dv inst action pid c) (\<lambda>(extra, details, r, plan, maintenance).
          retE \<lparr>sn_baseline = dv_sha dv (Json (baseline_json c hashes (ra_state a) action extra)),
                sn_maintenance = maintenance, sn_continuation = ''host_only'',
                sn_details = Some (go_map ((''source'', source_details c) # details)), sn_target = r, sn_plan = plan\<rparr>))))"

section \<open>The service as an interface\<close>

definition result_of :: "('d, result) deed \<Rightarrow> 'd daemon host \<Rightarrow> result \<times> 'd daemon host" where
  "result_of m h = (case m h of (Inr r, h') \<Rightarrow> (r, h') | (Inl e, h') \<Rightarrow> (failed_result (error_text e), h'))"

definition reconcile_of :: "('d, result \<times> bool) deed \<Rightarrow> 'd daemon host \<Rightarrow> (result \<times> bool) \<times> 'd daemon host" where
  "reconcile_of m h = (case m h of (Inr r, h') \<Rightarrow> (r, h') | (Inl e, h') \<Rightarrow> ((failed_result (error_text e), False), h'))"

text \<open>A request of the engine carries no frozen digest.\<close>

definition engine_request :: "Update.restore_request \<Rightarrow> PointRecord.restore_request" where
  "engine_request rq = \<lparr>rq_point = rr_point rq, rq_tx = rr_transaction rq, rq_digest = []\<rparr>"

definition service_deployment :: "'d deployer \<Rightarrow> 'd daemon host deployment" where
  "service_deployment dv = \<lparr>
     dp_resolve = Resolve dv, dp_preflight = Preflight dv, dp_pull = Pull dv, dp_quiesce = Quiesce dv,
     dp_point = CreateRecoveryPoint dv, dp_migrate = (\<lambda>inst r. Migrate dv inst),
     dp_activate = (\<lambda>inst r. onW (Activate dv inst r)), dp_rollback = (\<lambda>inst rq. Rollback dv inst (engine_request rq)),
     dp_resume = Resume dv, dp_verify = Verify dv,
     dp_freeze = Some (\<lambda>inst rq. FreezeRecoveryCheckpoint dv inst (engine_request rq)),
     dp_quiesce_recovery = Some (QuiesceForRecovery dv),
     dp_planned = Some (\<lambda>inst r op obs. result_of (ExecuteRelease dv inst r op obs))\<rparr>"

definition service_services :: "'d deployer \<Rightarrow> 'd daemon host services" where
  "service_services dv = \<lparr>
     mp_base = service_deployment dv, mp_quiesce_recovery = QuiesceForRecovery dv,
     mp_validate_point = ValidateRecoveryPoint dv, mp_list_points = ListRecoveryPoints dv,
     mp_snapshot = Some (ActionSnapshot dv),
     mp_preview = Some (\<lambda>inst. bindE (ServicePreview dv inst) (\<lambda>s. retE (summary_to_json s))),
     mp_reconcile = Some (\<lambda>inst op. reconcile_of (ReconcileRelease dv inst op)),
     mp_switch_back = Some (\<lambda>inst op obs. result_of (SwitchBack dv inst op (Some obs)))\<rparr>"

end
