(* ===== verification/DeployFrame.thy ===== *)
theory DeployFrame
  imports DeployService ManagerLaws
begin

text \<open>
  What every call of the deployment service preserves. \<open>deed_frame\<close> states it once: a relation on the
  process that file calls, commands to Docker and the allowed notes keep is kept by every operation
  of \<open>internal/deployment\<close>. It is used with two relations: the fields of the process that belong to
  the operation manager, and the errands that were added.
\<close>

named_theorems deed_intros \<open>composition of framed calls of the deployment service\<close>

lemma keeps_case_list:
  "keeps R f \<Longrightarrow> (\<And>y ys. keeps R (g y ys)) \<Longrightarrow> keeps R (case xs of [] \<Rightarrow> f | y # ys \<Rightarrow> g y ys)"
  by (simp split: list.splits)

lemma keeps_case_nat: "keeps R f \<Longrightarrow> (\<And>k. keeps R (g k)) \<Longrightarrow> keeps R (case n of 0 \<Rightarrow> f | Suc k \<Rightarrow> g k)"
  by (simp split: nat.splits)

lemma keeps_at: "(\<And>k. keeps R (f k)) \<Longrightarrow> keeps R (\<lambda>h. f (g h) h)"
  by (simp add: keeps_def)

locale deed_frame = frame R for R :: "'d daemon host \<Rightarrow> 'd daemon host \<Rightarrow> bool" +
  fixes dv :: "'d deployer" and allowed :: "errand \<Rightarrow> bool"
  assumes world: "R h (h\<lparr>ho_world := w\<rparr>)"
    and ran: "R h (h\<lparr>ho_dep := snd (daemon_run (dv_run dv) input args (ho_dep h))\<rparr>)"
    and noted: "allowed x \<Longrightarrow> keeps R (note_errand x)"
    and looked: "R h (h\<lparr>ho_world := w, ho_dep := (ho_dep h)\<lparr>da_state := s\<rparr>\<rparr>)"
begin

lemmas composed [deed_intros] =
  keeps_retE keeps_failE keeps_liftE keeps_bindE keeps_tryE keeps_ignoreE keeps_wrapE keeps_deferE keeps_checkE
  keeps_foldE keeps_forE keeps_if keeps_case_sum keeps_case_option keeps_case_prod keeps_case_list keeps_case_nat

lemma deed_onW [deed_intros]: "keeps R (onW m)"
  by (simp add: keeps_def onW_def world case_prod_unfold)

lemma deed_docker_in [deed_intros]: "keeps R (docker_in dv input args)"
  by (simp add: keeps_def docker_in_def ran case_prod_unfold)

lemma deed_docker [deed_intros]:
  "keeps R (docker dv args)" "keeps R (docker_quiet dv args)" "keeps R (docker_text dv args)"
  unfolding docker_def docker_quiet_def docker_text_def by (intro deed_intros)+

lemma deed_diagnose [deed_intros]: "keeps R (diagnose f inst)"
  by (simp add: keeps_def diagnose_def looked case_prod_unfold)

end

section \<open>The store of recovery points\<close>

text \<open>A call of the store sees the files of the host and the database that Docker runs.\<close>

definition vaulted :: "('d daemon host \<Rightarrow> 'd daemon host \<Rightarrow> bool) \<Rightarrow> 'd daemon vault \<Rightarrow> 'd daemon vault \<Rightarrow> bool" where
  "vaulted R v v' \<longleftrightarrow> (\<forall>h. va_world v = ho_world h \<and> va_db v = ho_dep h \<longrightarrow>
     R h (h\<lparr>ho_world := va_world v', ho_dep := va_db v'\<rparr>))"

sublocale deed_frame \<subseteq> vault: frame "vaulted R"
proof unfold_locales
  show "vaulted R v v" for v
    using refl by (auto simp: vaulted_def)
  show "vaulted R v v''" if one: "vaulted R v v'" and two: "vaulted R v' v''" for v v' v''
    unfolding vaulted_def
  proof (intro allI impI)
    fix h :: "'d daemon host"
    let ?h' = "h\<lparr>ho_world := va_world v', ho_dep := va_db v'\<rparr>"
    assume "va_world v = ho_world h \<and> va_db v = ho_dep h"
    then have "R h ?h'" using one by (simp add: vaulted_def)
    moreover have "R ?h' (?h'\<lparr>ho_world := va_world v'', ho_dep := va_db v''\<rparr>)"
      using two[unfolded vaulted_def, rule_format, of ?h'] by simp
    ultimately show "R h (h\<lparr>ho_world := va_world v'', ho_dep := va_db v''\<rparr>)" by (auto dest: trans)
  qed
qed

context deed_frame
begin

lemmas vault_intros =
  vault.keeps_retE vault.keeps_failE vault.keeps_liftE vault.keeps_bindE vault.keeps_tryE vault.keeps_ignoreE vault.keeps_wrapE
  vault.keeps_deferE vault.keeps_checkE keeps_if keeps_case_sum keeps_case_option keeps_case_prod

lemma vault_onF: "keeps (vaulted R) (onF m)"
  using world by (auto simp: keeps_def vaulted_def onF_def case_prod_unfold)

lemma vault_run: "vaulted R v (v\<lparr>va_db := snd (daemon_run (dv_run dv) input args (va_db v))\<rparr>)"
  using ran by (auto simp: vaulted_def)

lemma vault_dump: "keeps (vaulted R) (dump_database (postgresDatabase (dv_run dv) c) p)"
proof -
  have "keeps (vaulted R) (\<lambda>v. case db_dump (postgresDatabase (dv_run dv) c) (va_db v) of (r, d) \<Rightarrow> (Inr r, v\<lparr>va_db := d\<rparr>))"
    using vault_run by (auto simp: keeps_def postgresDatabase_def split: prod.splits sum.splits) (metis snd_conv)+
  then show ?thesis unfolding dump_database_def by (intro vault_intros vault_onF)
qed

lemma vault_onD:
  assumes "keeps (\<lambda>d d'. \<forall>v. va_db v = d \<longrightarrow> vaulted R v (v\<lparr>va_db := d'\<rparr>)) m"
  shows "keeps (vaulted R) (onD m)"
  using assms by (simp add: keeps_def onD_def case_prod_unfold)

lemma vault_restore: "keeps (vaulted R) (restore_database (postgresDatabase (dv_run dv) c) p)"
proof -
  let ?D = "\<lambda>d d'. \<forall>v. va_db v = d \<longrightarrow> vaulted R v (v\<lparr>va_db := d'\<rparr>)"
  have D: "frame ?D"
  proof
    show "?D d d" for d :: "'d daemon" using vault.refl by auto
    show "?D d d''" if "?D d d'" "?D d' d''" for d d' d''
    proof (intro allI impI)
      fix v :: "'d daemon vault"
      assume "va_db v = d"
      then have "vaulted R v (v\<lparr>va_db := d'\<rparr>)" "vaulted R (v\<lparr>va_db := d'\<rparr>) (v\<lparr>va_db := d'\<rparr>\<lparr>va_db := d''\<rparr>)"
        using that(1)[rule_format, of v] that(2)[rule_format, of "v\<lparr>va_db := d'\<rparr>"] by simp_all
      then show "vaulted R v (v\<lparr>va_db := d''\<rparr>)" by (auto dest: vault.trans)
    qed
  qed
  have run: "keeps ?D (daemon_run (dv_run dv) input args)" for input args
    using vault_run by (auto simp: keeps_def)
  have "keeps ?D (db_restore (postgresDatabase (dv_run dv) c) stream)" for stream
    unfolding postgresDatabase_def Let_def
    by (simp, intro frame.keeps_bindE[OF D] frame.keeps_wrapE[OF D] frame.keeps_liftE[OF D] frame.keeps_retE[OF D] run)
  then show ?thesis unfolding restore_database_def by (intro vault_intros vault_onF vault_onD)
qed

lemma vault_create: "keeps (vaulted R) (create_point st c reason (Some (postgresDatabase (dv_run dv) k)))"
  unfolding create_point_def create_staged_def fill_point_def option.case
  by (intro vault_intros vault_onF vault_dump)

lemma vault_restore_point: "keeps (vaulted R) (restore_point st c rq (Some (postgresDatabase (dv_run dv) k)))"
  unfolding restore_point_def restoreValidated_def restore_staged_def restore_data_def option.case
  by (intro vault_intros vault_onF vault_restore)

lemma deed_onV: "keeps (vaulted R) m \<Longrightarrow> keeps R (onV m)"
  by (auto simp: keeps_def vaulted_def onV_def case_prod_unfold)

lemma points:
  assumes "recoveries dv = Some rv"
  shows "keeps R (rv_create rv c reason)" "keeps R (rv_validate rv c pid)" "keeps R (rv_restore rv c rq source)"
    "keeps R (rv_list rv inst)"
  using assms unfolding recoveries_def
  by (auto simp: point_recoveries_def intro!: deed_onV vault_create vault_restore_point deed_intros)

section \<open>Compose, draining, starting\<close>

lemma deed_compose [deed_intros]: "keeps R (command dv c args)" "keeps R (compose_output dv c args)"
  unfolding command_def compose_output_def by (intro deed_intros)+

lemma deed_containerIDs [deed_intros]: "keeps R (containerIDs dv c names)"
  unfolding containerIDs_def Let_def by (intro deed_intros)

lemma deed_drain_look [deed_intros]: "keeps R (drain_look dv sig i b)"
  unfolding drain_look_def by (intro deed_intros)

lemma deed_drain_wait: "keeps R (drain_wait n dv ids sig)"
  by (induction n; subst drain_wait.simps; simp only: nat.case; intro deed_intros; assumption)

lemma deed_drain [deed_intros]: "keeps R (drainContainersSignal dv ids sig)" "keeps R (drainContainers dv ids)"
  unfolding drainContainers_def drainContainersSignal_def signal_running_def by (intro deed_intros deed_drain_wait)+

lemma deed_drainServices [deed_intros]: "keeps R (drainServices dv c names)"
  unfolding drainServices_def drain_group_def by (intro deed_intros)

lemma deed_wait_upgrade: "keeps R (wait_upgrade n dv op)"
  by (induction n; subst wait_upgrade.simps; simp only: nat.case; intro deed_intros; assumption)

lemma deed_waitUpgradeContainers [deed_intros]: "keeps R (waitUpgradeContainers dv op)"
  unfolding waitUpgradeContainers_def by (rule deed_wait_upgrade)

lemma deed_drainRetiredWorker [deed_intros]: "keeps R (drainRetiredWorker dv)"
  unfolding drainRetiredWorker_def Let_def by (intro deed_intros)

lemma deed_checkHTTP [deed_intros]: "keeps R (checkHTTP dv c)"
  unfolding checkHTTP_def by (intro deed_intros)

lemma deed_wait_http: "keeps R (wait_http n dv c)"
  by (induction n; subst wait_http.simps; simp only: nat.case; intro deed_intros; assumption)

lemma deed_waitHTTP [deed_intros]: "keeps R (waitHTTP dv c)"
  unfolding waitHTTP_def by (rule deed_wait_http)

lemma deed_inspect [deed_intros]: "keeps R (inspectRecoveryContainer dv i)"
  unfolding inspectRecoveryContainer_def by (intro deed_intros)

lemma deed_collect_role [deed_intros]: "keeps R (collect_role dv c legacy old role ids)"
  unfolding collect_role_def by (intro deed_intros)

lemma deed_look_ready [deed_intros]: "keeps R (look_ready dv i b)"
  unfolding look_ready_def by (intro deed_intros)

lemma deed_wait_ready: "keeps R (wait_ready n dv ids)"
  by (induction n; subst wait_ready.simps; simp only: nat.case; intro deed_intros; assumption)

lemma deed_startRecoveredHTTP:
  assumes "allowed (Started c [''app'', ''web''])"
  shows "keeps R (startRecoveredHTTP dv c)"
  unfolding startRecoveredHTTP_def release_recovered_def by (intro deed_intros deed_wait_ready noted assms)

lemma deed_start_compose: "allowed (Started c names) \<Longrightarrow> keeps R (start_compose dv c names)"
  unfolding start_compose_def by (intro deed_intros noted)

lemma deed_startServices:
  assumes "allowed (Started c names)" and "allowed (Started c [''app'', ''web''])"
  shows "keeps R (startServices dv c names)"
  unfolding startServices_def start_recovering_def
  by (intro deed_intros deed_start_compose deed_startRecoveredHTTP assms)

section \<open>The ingress\<close>

lemma deed_ingressWorkers [deed_intros]: "keeps R (ingressWorkers dv c)"
  unfolding ingressWorkers_def Let_def by (intro deed_intros)

lemma deed_checkIngressIdentity [deed_intros]: "keeps R (checkIngressIdentity dv c)"
  unfolding checkIngressIdentity_def by (intro deed_intros)

lemma deed_wait_ingress: "keeps R (wait_ingress n dv c)"
  by (induction n; subst wait_ingress.simps; simp only: nat.case; intro deed_intros; assumption)

lemma deed_prepare_ingress [deed_intros]: "keeps R (prepare_ingress dv c contents running)"
  unfolding prepare_ingress_def by (intro deed_intros)

lemma deed_edge_running [deed_intros]: "keeps R (edge_running dv c running)"
  unfolding edge_running_def by (intro deed_intros)

lemma deed_switchIngress: "allowed (Switched c) \<Longrightarrow> keeps R (switchIngress dv c n running)"
  unfolding switchIngress_def activate_ingress_def by (intro deed_intros deed_wait_ingress noted)

lemma deed_ingress_error [deed_intros]: "keeps R (ingress_error r)"
  unfolding ingress_error_def by (intro deed_intros)

lemma deed_wait_workers: "keeps R (wait_workers n dv c ws)"
  by (induction n; subst wait_workers.simps; simp only: nat.case; intro deed_intros; assumption)

lemma deed_waitIngressWorkers [deed_intros]: "keeps R (waitIngressWorkers dv c ws)"
  unfolding waitIngressWorkers_def by (intro deed_intros deed_wait_workers)

lemma deed_ensureEdgeNetwork [deed_intros]: "keeps R (ensureEdgeNetwork dv inst)"
  unfolding ensureEdgeNetwork_def Let_def by (intro deed_intros)

lemma deed_runningServices [deed_intros]: "keeps R (runningServices dv c)"
  unfolding runningServices_def by (intro deed_intros)

lemma deed_observe_loop: "keeps R (observe_loop n dv c deadline)"
proof (induction n)
  case 0
  show ?case
    by (subst observe_loop.simps, intro deed_intros)
       (simp add: keeps_def refl)
next
  case (Suc n)
  then show ?case
    by (subst observe_loop.simps, intro deed_intros) (simp add: keeps_def refl)
qed

lemma deed_observeRelease [deed_intros]: "keeps R (observeRelease dv c)"
  using deed_observe_loop by (simp add: keeps_def observeRelease_def)

section \<open>Schedulers\<close>

lemma deed_inspect_scheduler [deed_intros]: "keeps R (inspect_scheduler dv i)"
  unfolding inspect_scheduler_def by (intro deed_intros)

lemma deed_thaw [deed_intros]: "keeps R (thawLegacyScheduler dv i intent prf)"
  unfolding thawLegacyScheduler_def by (intro deed_intros)

lemma deed_wait_idle [deed_intros]: "keeps R (wait_idle n dv i parent)"
  by (induction n; subst wait_idle.simps; simp only: nat.case; intro deed_intros; assumption)

lemma deed_kill_idle [deed_intros]: "keeps R (kill_idle dv i prf s)"
  unfolding kill_idle_def by (intro deed_intros)

lemma deed_with_thaw [deed_intros]: "keeps R m \<Longrightarrow> keeps R t \<Longrightarrow> keeps R (with_thaw m t)"
  unfolding with_thaw_def by (intro deed_intros)

lemma deed_drainLegacyScheduler [deed_intros]: "keeps R (drainLegacyScheduler dv c i)"
  unfolding drainLegacyScheduler_def stopped_scheduler_def Let_def by (intro deed_intros)

lemma keeps_case_bool: "keeps R f \<Longrightarrow> keeps R g \<Longrightarrow> keeps R (case b of True \<Rightarrow> f | False \<Rightarrow> g)"
  by (cases b) simp_all

lemma deed_sort_scheduler [deed_intros]: "keeps R (sort_scheduler dv c i other)"
  unfolding sort_scheduler_def by (intro deed_intros keeps_case_bool)

lemma deed_drainScheduler [deed_intros]: "keeps R (drainScheduler dv c)"
  unfolding drainScheduler_def by (intro deed_intros)

lemma deed_resumeFrozen [deed_intros]: "keeps R (resumeFrozenSchedulers dv c)"
  unfolding resumeFrozenSchedulers_def resume_frozen_def by (intro deed_intros)

lemma deed_drainBackground [deed_intros]: "keeps R (drainBackground dv c)"
  unfolding drainBackground_def by (intro deed_intros)

section \<open>Preparing\<close>

lemma deed_downInfrastructure [deed_intros]: "keeps R (downInfrastructure dv c)"
  unfolding downInfrastructure_def by (intro deed_intros)

lemma deed_Resolve [deed_intros]: "keeps R (Resolve dv inst)"
  unfolding Resolve_def by (intro deed_intros)

lemma deed_Preflight [deed_intros]: "keeps R (Preflight dv inst r)"
  unfolding Preflight_def by (intro deed_intros)

lemma deed_prepareRelease [deed_intros]: "keeps R (prepareRelease dv c r d slot)"
  unfolding prepareRelease_def Let_def by (intro deed_intros)

lemma deed_applicationPhase [deed_intros]: "keeps R (applicationPhase dv c r source op phase b)"
  unfolding applicationPhase_def by (intro deed_intros)

lemma deed_ensureSlotFree [deed_intros]: "keeps R (ensureSlotFree dv c slot)"
  unfolding ensureSlotFree_def by (intro deed_intros)

lemma deed_copyAssets [deed_intros]: "keeps R (copyAssets dv c)"
  unfolding copyAssets_def copy_archive_def by (intro deed_intros)

lemma deed_installInfrastructure [deed_intros]: "keeps R (installInfrastructure dv source k r fresh)"
  unfolding installInfrastructure_def Let_def by (intro deed_intros)

section \<open>Recovery\<close>

lemma deed_recoveryPhase [deed_intros]: "keeps R (recoveryPhase dv c phase t digest)"
  unfolding recoveryPhase_def by (intro deed_intros)

lemma deed_prepareRestore [deed_intros]: "keeps R (prepareRestore dv c rq)"
  unfolding prepareRestore_def by (intro deed_intros)

lemma deed_Freeze [deed_intros]: "keeps R (FreezeRecoveryCheckpoint dv inst rq)"
  unfolding FreezeRecoveryCheckpoint_def by (intro deed_intros)

lemma deed_quarantineRedis [deed_intros]: "keeps R (quarantineRedis dv c a t)"
  unfolding quarantineRedis_def Let_def by (intro deed_intros)

lemma deed_open_recovered [deed_intros]: "keeps R (open_recovered dv c a t)"
  unfolding open_recovered_def proven_phase_def by (intro deed_intros)

lemma deed_resumeRecovered:
  assumes "\<And>k ns. set ns \<subseteq> {''postgres'', ''redis'', ''app'', ''web''} \<Longrightarrow> allowed (Started k ns)"
    and "\<And>k. allowed (Switched k)"
  shows "keeps R (resumeRecovered dv c a)"
  unfolding resumeRecovered_def
  by (intro deed_intros deed_startServices deed_switchIngress assms) (auto intro: assms)

lemma deed_quiesce [deed_intros]: "keeps R (quiesce dv inst c cs)"
  unfolding quiesce_def enter_maintenance_def wait_recorded_upgrade_def drain_slot_def by (intro deed_intros)

lemma deed_Quiesce [deed_intros]: "keeps R (Quiesce dv inst)" "keeps R (QuiesceForRecovery dv inst pid)"
  unfolding Quiesce_def QuiesceForRecovery_def by (intro deed_intros)+

lemma deed_CreateRecoveryPoint:
  assumes "\<And>pid. allowed (PointMade pid reason)"
  shows "keeps R (CreateRecoveryPoint dv inst reason)"
  by (cases "recoveries dv"; simp only: CreateRecoveryPoint_def option.case; intro deed_intros points noted assms; assumption)

lemma deed_points [deed_intros]: "keeps R (ValidateRecoveryPoint dv inst pid)" "keeps R (ListRecoveryPoints dv inst)"
  by (cases "recoveries dv"; simp only: ValidateRecoveryPoint_def ListRecoveryPoints_def option.case;
      intro deed_intros points; assumption)+

lemma deed_restore_data:
  assumes "recoveries dv = Some rv" and "allowed (DataRestored c rq)"
  shows "keeps R (restore_data_from rv c rq source)"
  unfolding restore_data_from_def by (intro deed_intros noted points assms)

lemma deed_Rollback:
  assumes "\<And>c rq. allowed (DataRestored c rq)"
  shows "keeps R (Rollback dv inst rq)"
  by (cases "recoveries dv"; simp only: Rollback_def Let_def option.case;
      intro deed_intros points deed_restore_data assms; assumption)

section \<open>Resuming\<close>

lemma deed_Resume:
  assumes "\<And>k ns. allowed (Started k ns)" and "\<And>k. allowed (Switched k)"
  shows "keeps R (Resume dv inst)"
  unfolding Resume_def Let_def resume_slots_def resume_legacy_def remove_retired_def
  by (intro deed_intros deed_resumeRecovered deed_startServices deed_switchIngress noted assms)

lemma deed_Verify [deed_intros]: "keeps R (Verify dv inst)"
  unfolding Verify_def verify_report_def by (intro deed_intros)

lemma deed_legacy [deed_intros]: "keeps R (Pull dv inst r)" "keeps R (Migrate dv inst)"
  unfolding Pull_def Migrate_def by (intro deed_intros)+

section \<open>Releases\<close>

lemma deed_previews [deed_intros]: "keeps R (previewRelease dv inst r)" "keeps R (ServicePreview dv inst)"
  unfolding ServicePreview_def previewRelease_def preview_at_def by (intro deed_intros)+

lemma deed_dump [deed_intros]: "keeps R (dump_online dv c p)"
proof -
  have "keeps R (\<lambda>h. case db_dump (postgresDatabase (dv_run dv) c) (ho_dep h) of (r, d) \<Rightarrow> (Inr r, h\<lparr>ho_dep := d\<rparr>))"
    using ran by (auto simp: keeps_def postgresDatabase_def split: prod.splits sum.splits) (metis snd_conv)+
  then show ?thesis unfolding dump_online_def by (intro deed_intros)
qed

lemma deed_onlineBackup [deed_intros]: "keeps R (onlineBackup dv t)"
proof -
  have "keeps R (\<lambda>h. onW (replaceContents_mode p (Json (backup_metadata dv c x n (dv_now dv h))) m) h)" for p c x n m
    by (simp add: keeps_def onW_def world case_prod_unfold)
  then show ?thesis unfolding onlineBackup_def check_dump_def Let_def by (intro deed_intros)
qed

lemma deed_restoreApplication:
  assumes "\<And>k ns. allowed (Started k ns)" and "\<And>k. allowed (Switched k)"
  shows "keeps R (restoreApplication dv t)"
  unfolding restoreApplication_def Let_def by (intro deed_intros deed_startServices deed_switchIngress assms)

lemma deed_restore_source_data:
  assumes "\<And>c rq. allowed (DataRestored c rq)"
  shows "keeps R (restore_source_data dv t)"
  by (cases "recoveries dv"; simp only: restore_source_data_def stop_candidate_def option.case;
      intro deed_intros deed_restore_data assms; assumption)

end

section \<open>A release in flight\<close>

text \<open>The edits of the journal that decide nothing about data: they leave alone whether traffic was
  opened, the recovery point, the strategy, the source, the target and the operation.\<close>

definition bookkeeping :: "(transaction \<Rightarrow> transaction) \<Rightarrow> bool" where
  "bookkeeping g \<longleftrightarrow> (\<forall>t. tr_opened (g t) = tr_opened t \<and> tr_point (g t) = tr_point t \<and>
     tr_strategy (g t) = tr_strategy t \<and> tr_source (g t) = tr_source t \<and> tr_operation (g t) = tr_operation t \<and>
     tr_target (g t) = tr_target t)"

definition watched :: "('d daemon host \<Rightarrow> 'd daemon host \<Rightarrow> bool) \<Rightarrow> 'd daemon host observer option \<Rightarrow> bool" where
  "watched R obs \<longleftrightarrow> (\<forall>f s. obs = Some f \<longrightarrow> keeps R (f s))"

lemma watched_None [simp]: "watched R None"
  by (simp add: watched_def)

locale leg_frame = deed_frame R dv allowed + flight: frame S
  for R :: "'d daemon host \<Rightarrow> 'd daemon host \<Rightarrow> bool" and dv :: "'d deployer" and allowed :: "errand \<Rightarrow> bool"
    and S :: "'d flight \<Rightarrow> 'd flight \<Rightarrow> bool" +
  assumes host: "R (fl_host f) h \<Longrightarrow> S f (f\<lparr>fl_host := h\<rparr>)"
    and marked: "S f (f\<lparr>fl_candidate := k\<rparr>)" "S f (f\<lparr>fl_kept := b\<rparr>)"
    and booked: "bookkeeping g \<Longrightarrow> S f (f\<lparr>fl_tx := g (fl_tx f)\<rparr>)"
begin

lemmas flying [deed_intros] =
  flight.keeps_retE flight.keeps_failE flight.keeps_liftE flight.keeps_bindE flight.keeps_tryE flight.keeps_ignoreE
  flight.keeps_wrapE flight.keeps_checkE

lemma leg_onH [deed_intros]: "keeps R m \<Longrightarrow> keeps S (onH m)"
  by (simp add: keeps_def onH_def host case_prod_unfold)

lemma leg_state [deed_intros]:
  "bookkeeping g \<Longrightarrow> keeps S (on_tx g)" "keeps S (set_candidate k)" "keeps S release_preparation"
  by (simp_all add: keeps_def on_tx_def set_candidate_def release_preparation_def marked booked)

lemma leg_edits [deed_intros]:
  "keeps S (on_tx (\<lambda>t. t\<lparr>tr_stage := x\<rparr>))" "keeps S (on_tx (\<lambda>t. t\<lparr>tr_candidate := k\<rparr>))"
  "keeps S (on_tx (\<lambda>t. t\<lparr>tr_workers := ws\<rparr>))" "keeps S (on_tx (\<lambda>t. t\<lparr>tr_handed := b\<rparr>))"
  "keeps S (on_tx (\<lambda>t. t\<lparr>tr_candidate := k, tr_layout := b\<rparr>))"
  "keeps S (on_tx (\<lambda>t. t\<lparr>tr_error := e t\<rparr>))"
  "keeps S (on_tx (\<lambda>t. t\<lparr>tr_status := x, tr_stage := y\<rparr>))" "keeps S (on_tx (\<lambda>t. t\<lparr>tr_status := x, tr_error := e t\<rparr>))"
  "keeps S (on_tx (\<lambda>t. t\<lparr>tr_status := x, tr_stage := y, tr_error := e t\<rparr>))"
  "keeps S (tx_status x)" "keeps S (tx_error z)"
  by (simp_all add: leg_state(1) bookkeeping_def tx_status_def tx_error_def)

lemma leg_with [deed_intros]:
  "(\<And>t. keeps S (k t)) \<Longrightarrow> keeps S (with_tx k)"
  "(\<And>c. keeps S (j c)) \<Longrightarrow> keeps S (with_candidate j)"
  by (simp_all add: keeps_def with_tx_def with_candidate_def)

lemma leg_save [deed_intros]: "keeps S (save_tx dv)" "keeps S flight_result"
  unfolding save_tx_def flight_result_def by (intro deed_intros)+

lemma deed_tell: "watched R obs \<Longrightarrow> keeps R (tell dv obs name status message)"
  by (cases obs) (auto simp: keeps_def tell_def watched_def refl)

lemma leg_step:
  assumes "watched R obs" and "keeps S run"
  shows "keeps S (flight_step dv obs name run)"
  unfolding flight_step_def by (intro deed_intros deed_tell assms)

lemma leg_secure_maintenance:
  assumes "watched R (la_observe la)" and "keeps S (step_backup dv la inst)" and "\<And>k ns. allowed (Started k ns)"
  shows "keeps S (bindE (flight_step dv (la_observe la) ''quiesce'' (onH (Quiesce dv inst))) (\<lambda>_.
    bindE (flight_step dv (la_observe la) ''backup'' (step_backup dv la inst)) (\<lambda>_. restart_redis dv la)))"
  unfolding restart_redis_def Let_def by (intro deed_intros leg_step deed_startServices assms)

lemma leg_secure_online:
  assumes "watched R (la_observe la)"
  shows "keeps S (flight_step dv (la_observe la) ''online-backup'' (with_tx (\<lambda>t. onH (onlineBackup dv t))))"
  by (intro deed_intros leg_step assms)

lemma leg_protect:
  assumes "watched R (la_observe la)" and "keeps S (run_secure dv la inst)"
  shows "keeps S (run_protect dv la inst)"
  unfolding run_protect_def Let_def step_pull_def by (intro deed_intros leg_step assms)

lemma leg_candidate:
  assumes "watched R (la_observe la)" and "\<And>k ns. allowed (Started k ns)"
  shows "keeps S (run_candidate dv la inst)"
  unfolding run_candidate_def Let_def step_upgrade_def layout_needed_def step_layout_def step_candidate_def
  by (intro deed_intros leg_step deed_startServices assms)

lemma leg_traffic:
  assumes "watched R (la_observe la)" and "keeps S (step_switch dv la)"
    and "\<And>k ns. allowed (Started k ns)"
  shows "keeps S (run_traffic dv la)"
  unfolding run_traffic_def Let_def step_workers_def step_drain_def
  by (intro deed_intros leg_step deed_startServices assms)

lemma leg_fail:
  assumes "watched R obs" and "keeps S (recover_release dv)"
  shows "keeps S (failRelease dv cause obs)"
  unfolding failRelease_def settle_release_def by (intro deed_intros deed_tell assms)

lemma leg_finish:
  assumes "watched R obs" and "keeps S (recover_release dv)"
  shows "keeps S (finish_release dv obs)"
  unfolding finish_release_def by (intro deed_intros deed_tell leg_fail assms)

lemma deed_fail_before: "watched R obs \<Longrightarrow> keeps R (fail_before dv r obs e)"
  unfolding fail_before_def by (intro deed_intros deed_tell)

lemma leg_launch:
  assumes "watched R (la_observe la)" and "keeps S (recover_release dv)"
    and "keeps S (run_protect dv la inst)" "keeps S (run_candidate dv la inst)" "keeps S (run_traffic dv la)"
  shows "keeps S (launch_release dv la inst)"
  unfolding launch_release_def run_release_def
  by (intro deed_intros deed_fail_before leg_fail leg_finish assms)

lemma leg_reconcile:
  assumes "keeps S (recover_release dv)"
  shows "keeps S (reconcile_pending dv)"
  unfolding reconcile_pending_def refuse_reconcile_def finish_drain_def interrupted_def
  by (intro deed_intros leg_fail assms) simp_all

lemma leg_switch_run:
  assumes "watched R obs" and "keeps S (recover_release dv)"
    and "\<And>k ns. allowed (Started k ns)" and "\<And>k. allowed (Switched k)"
  shows "keeps S (switch_run dv obs)"
  unfolding switch_run_def by (intro deed_intros deed_tell leg_fail deed_restoreApplication assms) simp_all

end

section \<open>The relation of the process alone\<close>

definition flown :: "('d daemon host \<Rightarrow> 'd daemon host \<Rightarrow> bool) \<Rightarrow> 'd flight \<Rightarrow> 'd flight \<Rightarrow> bool" where
  "flown R f f' \<longleftrightarrow> R (fl_host f) (fl_host f')"

sublocale deed_frame \<subseteq> flown: leg_frame R dv allowed "flown R"
  by unfold_locales (auto simp: flown_def refl intro: trans)

context deed_frame
begin

lemma deed_execute_checks [deed_intros]: "keeps R (execute_checks dv inst r op)"
  unfolding execute_checks_def Let_def by (intro deed_intros)

lemma deed_prepare_flight [deed_intros]: "keeps R (prepare_flight dv c slot version r op d)"
  unfolding prepare_flight_def by (intro deed_intros)

lemma deed_ActionSnapshot [deed_intros]: "keeps R (ActionSnapshot dv inst action pid)"
  unfolding ActionSnapshot_def action_evidence_def plan_evidence_def restore_evidence_def switch_evidence_def
  by (intro deed_intros)

lemma deed_from_journal [deed_intros]: "keeps (flown R) m \<Longrightarrow> keeps R (from_journal t m)"
  by (auto simp: keeps_def flown_def from_journal_def boarded_def case_prod_unfold) (metis flight.select_convs(1))

lemma deed_fly:
  assumes "keeps (flown R) (launch_release dv la inst)"
  shows "keeps R (fly dv la inst kt d)"
  unfolding keeps_def
proof
  fix h :: "'d daemon host"
  let ?f = "\<lparr>fl_host = h, fl_tx = snd kt, fl_candidate = fst kt, fl_kept = True\<rparr>"
  obtain r f where run: "launch_release dv la inst ?f = (r, f)" by fastforce
  have "R h (fl_host f)" using keepsD[OF assms run] by (simp add: flown_def)
  moreover have "R (fl_host f) (snd (onW (remove_all d) (fl_host f)))"
    by (simp add: onW_def world case_prod_unfold)
  ultimately show "R h (snd (fly dv la inst kt d h))" by (auto simp: fly_def run intro: trans)
qed

lemma flown_on_tx: "keeps (flown R) (on_tx g)"
  by (simp add: keeps_def flown_def on_tx_def refl)

lemma flown_recover:
  assumes "\<And>x. allowed x"
  shows "keeps (flown R) (recover_release dv)"
  unfolding recover_release_def restoreBeforeTraffic_def resumeSource_def
  by (intro deed_intros flown_on_tx deed_Resume deed_restoreApplication deed_restore_source_data assms)

lemma flown_launch:
  assumes "watched R (la_observe la)" and "\<And>x. allowed x"
  shows "keeps (flown R) (launch_release dv la inst)"
proof -
  have "keeps (flown R) (step_backup dv la inst)" "keeps (flown R) (step_switch dv la)"
    unfolding step_backup_def step_switch_def
    by (intro deed_intros flown_on_tx deed_CreateRecoveryPoint deed_switchIngress assms)+
  then have "keeps (flown R) (run_secure dv la inst)"
    unfolding run_secure_def Let_def
    by (intro deed_intros flown.leg_secure_maintenance flown.leg_secure_online assms)
  with \<open>keeps (flown R) (step_switch dv la)\<close> show ?thesis
    by (intro flown.leg_launch flown.leg_protect flown.leg_candidate flown.leg_traffic flown.leg_step flown_recover assms)
qed

lemma deed_ExecuteRelease:
  assumes "watched R obs" and "\<And>x. allowed x"
  shows "keeps R (ExecuteRelease dv inst r op obs)"
  unfolding ExecuteRelease_def
  by (intro deed_intros flown.deed_fail_before deed_fly flown_launch assms) (simp add: assms)

lemma deed_ReconcileRelease:
  assumes "keeps (flown R) (recover_release dv)"
  shows "keeps R (ReconcileRelease dv inst op)"
  unfolding ReconcileRelease_def by (intro deed_intros flown.leg_reconcile assms)

lemma deed_SwitchBack:
  assumes "watched R obs" and "\<And>x. allowed x"
  shows "keeps R (SwitchBack dv inst op obs)"
  unfolding SwitchBack_def Let_def by (intro deed_intros flown.leg_switch_run flown_recover assms)

end

end
