(* ===== verification/DeployTrace.thy ===== *)
theory DeployTrace
  imports DeployFrame Exclusion
begin

text \<open>
  What the deployment service does over a whole call, read off its errands: it is the deployment the
  operation manager assumes, reconciliation and the switch back never restore data, and an update
  restores nothing but the recovery point it made itself, before traffic was opened.
\<close>

section \<open>The service and the process of the manager\<close>

interpretation service: deed_frame same_process dv "\<lambda>_. True" for dv
  by unfold_locales (auto simp: same_process_def note_errand_def keeps_def)

text \<open>The manager as it is put together: its services and the engine's deployment are the service of
  \<open>internal/deployment\<close>, and the clock reads the time.\<close>

definition deployed :: "'d daemon manager \<Rightarrow> 'd deployer \<Rightarrow> bool" where
  "deployed m dv \<longleftrightarrow> mg_deployment m = Some (service_services dv) \<and>
     en_deployment (mg_engine m) = Some (service_deployment dv) \<and> (\<forall>h. snd (en_now (mg_engine m) h) = h)"

lemma liftR_result: "keeps R m \<Longrightarrow> keeps R (liftR (result_of m))" "keeps R n \<Longrightarrow> keeps R (liftR (reconcile_of n))"
  by (auto simp: keeps_def liftR_def result_of_def reconcile_of_def split: prod.splits sum.splits) (metis snd_conv)+

lemma service_watched: "(\<And>g s. obs = Some g \<Longrightarrow> keeps same_process (g s)) \<Longrightarrow> watched same_process obs"
  by (simp add: watched_def)

lemma service_deployment_keeps: "deployment_keeps same_process (service_deployment dv)"
  unfolding deployment_keeps_def service_deployment_def deployment.select_convs option.inject
  by (intro conjI allI impI deed_intros service.deed_CreateRecoveryPoint service.deed_Rollback service.deed_Resume
        TrueI)
     (auto intro!: deed_intros liftR_result service.deed_ExecuteRelease service_watched)

lemma service_services_keep:
  assumes "deployed m dv"
  shows "services_keep same_process m"
proof -
  have "keeps same_process (liftR (en_now (mg_engine m)))"
    using assms by (simp add: deployed_def keeps_def liftR_def case_prod_unfold process.refl)
  then have "engine_keeps same_process (mg_engine m)"
    using assms service_deployment_keeps by (simp add: engine_keeps_def deployed_def)
  then show ?thesis
    using assms service_deployment_keeps unfolding services_keep_def deployed_def
    by (auto simp: service_services_def intro!: deed_intros liftR_result service.deed_ReconcileRelease
        service.flown_recover service.deed_SwitchBack service_watched)
qed

section \<open>The errands of a call\<close>

definition adds :: "(errand \<Rightarrow> bool) \<Rightarrow> 'd daemon host \<Rightarrow> 'd daemon host \<Rightarrow> bool" where
  "adds P h h' \<longleftrightarrow> (\<exists>xs. da_errands (ho_dep h') = da_errands (ho_dep h) @ xs \<and>
     (\<forall>x \<in> set xs. (\<exists>args. x = Ran args) \<or> P x))"

interpretation errands: deed_frame "adds P" dv P for P dv
proof unfold_locales
  show "adds P h h" for h :: "'d daemon host" by (auto simp: adds_def)
  show "adds P h h''" if "adds P h h'" "adds P h' h''" for h h' h'' :: "'d daemon host"
  proof -
    from that obtain xs ys where "da_errands (ho_dep h') = da_errands (ho_dep h) @ xs" "da_errands (ho_dep h'') = da_errands (ho_dep h') @ ys"
      and "\<forall>x \<in> set (xs @ ys). (\<exists>args. x = Ran args) \<or> P x"
      unfolding adds_def by (auto simp: ball_Un)
    then show ?thesis unfolding adds_def by (intro exI[of _ "xs @ ys"]) simp
  qed
qed (auto simp: adds_def keeps_def note_errand_def daemon_run_def case_prod_unfold)

lemma adds_mono: "adds P h h' \<Longrightarrow> (\<And>x. P x \<Longrightarrow> Q x) \<Longrightarrow> adds Q h h'"
  unfolding adds_def by blast

lemma watched_mono: "watched (adds P) obs \<Longrightarrow> (\<And>x. P x \<Longrightarrow> Q x) \<Longrightarrow> watched (adds Q) obs"
  by (auto simp: watched_def keeps_def intro: adds_mono[of P])

section \<open>Once traffic was opened, or in an online release, no data is restored\<close>

definition not_restored :: "errand \<Rightarrow> bool" where
  "not_restored x \<longleftrightarrow> (\<forall>c rq. x \<noteq> DataRestored c rq)"

definition armed :: "transaction \<Rightarrow> bool" where
  "armed t \<longleftrightarrow> tr_opened t \<or> tr_strategy t = StrategyOnline"

definition steady :: "'d flight \<Rightarrow> 'd flight \<Rightarrow> bool" where
  "steady f f' \<longleftrightarrow> (armed (fl_tx f) \<longrightarrow> armed (fl_tx f') \<and> adds not_restored (fl_host f) (fl_host f'))"

interpretation steady: leg_frame "adds not_restored" dv not_restored steady for dv
  by unfold_locales (auto simp: steady_def armed_def bookkeeping_def errands.refl intro: errands.trans)

lemma not_restored_simps [simp]:
  "not_restored (Ran a)" "not_restored (Started k ns)" "not_restored (Switched k)" "not_restored (PointMade p r)"
  "\<not> not_restored (DataRestored k rq)"
  by (simp_all add: not_restored_def)

lemma steady_resumeSource: "keeps steady (resumeSource dv)"
proof -
  have opened: "keeps steady (on_tx (\<lambda>t. t\<lparr>tr_stage := ''resume'', tr_opened := True\<rparr>))"
    by (simp add: keeps_def on_tx_def steady_def armed_def errands.refl)
  show ?thesis
    unfolding resumeSource_def
    by (rule steady.flight.keeps_bindE[OF opened]) (intro deed_intros errands.deed_Resume; simp)
qed

lemma steady_recover: "keeps steady (recover_release dv)"
  unfolding keeps_def
proof
  fix f :: "'a flight"
  let ?t = "fl_tx f"
  let ?m = "if tr_strategy ?t = StrategyOnline then
       (if tr_stage ?t = ''drain'' then failE (Msg ''old connections are still draining; both slots were retained'')
        else bindE (onH (restoreApplication dv ?t)) (\<lambda>_. tx_status StatusRolledBack))
     else if tr_stage ?t = ''resume'' then
       bindE (resumeSource dv) (\<lambda>_. tx_status (if tr_point ?t \<noteq> [] then StatusRolledBack else StatusFailed))
     else failE (Msg ''traffic or background writes may have resumed; data restoration requires a separate authorized recovery'')"
  show "steady f (snd (recover_release dv f))"
  proof (cases "armed ?t")
    case False
    then show ?thesis by (simp add: steady_def)
  next
    case True
    then have "recover_release dv f = ?m f" by (auto simp: recover_release_def with_tx_def armed_def)
    moreover have "keeps steady ?m"
      by (intro deed_intros steady_resumeSource errands.deed_restoreApplication) simp_all
    ultimately show ?thesis by (simp add: keeps_def)
  qed
qed

lemma journal_restores_nothing:
  assumes "armed t" and "keeps steady m"
  shows "adds not_restored h (snd (from_journal t m h))"
  using assms by (auto simp: keeps_def steady_def from_journal_def boarded_def case_prod_unfold) (metis flight.select_convs(1,2))

lemma reconcile_pending_restores_nothing:
  "adds not_restored h (snd (from_journal t (reconcile_pending dv) h))"
proof (cases "armed t")
  case True
  then show ?thesis by (rule journal_restores_nothing) (rule steady.leg_reconcile[OF steady_recover])
next
  case False
  have refused: "keeps (flown (adds not_restored)) (refuse_reconcile dv)"
    unfolding refuse_reconcile_def by (intro deed_intros errands.flown.leg_edits errands.flown.leg_save errands.flown.flying)
  have "reconcile_pending dv (boarded t h) = refuse_reconcile dv (boarded t h)"
    using False by (simp add: reconcile_pending_def with_tx_def boarded_def armed_def)
  moreover have "adds not_restored h (fl_host (snd (refuse_reconcile dv (boarded t h))))"
    using refused by (simp add: keeps_def flown_def boarded_def) (metis flight.select_convs(1))
  ultimately show ?thesis by (simp add: from_journal_def case_prod_unfold)
qed

lemma ReconcileRelease_restores_nothing: "keeps (adds not_restored) (ReconcileRelease dv inst op)"
proof -
  have journal: "keeps (adds not_restored) (from_journal t (reconcile_pending dv))" for t
    by (simp add: keeps_def reconcile_pending_restores_nothing)
  show ?thesis
    unfolding ReconcileRelease_def
    by (intro journal errands.composed errands.deed_onW)
qed

lemma keeps_checkE_run:
  assumes "frame R" and "keeps R m" and "\<And>e. keeps R (g e)" and "\<And>w x w'. m w = (Inr x, w') \<Longrightarrow> keeps R (f x)"
  shows "keeps R (checkE m g f)"
  unfolding keeps_def
proof
  fix w
  obtain r w' where m: "m w = (r, w')" by fastforce
  have one: "R w w'" using keepsD[OF assms(2) m] .
  show "R w (snd (checkE m g f w))"
  proof (cases r)
    case (Inl e)
    have "R w' (snd (g e w'))" using assms(3) by (simp add: keeps_def)
    with one Inl m show ?thesis by (auto simp: checkE_def intro: frame.trans[OF assms(1)])
  next
    case (Inr x)
    have "R w' (snd (f x w'))" using assms(4)[OF m[unfolded Inr]] by (simp add: keeps_def)
    with one Inr m show ?thesis by (auto simp: checkE_def intro: frame.trans[OF assms(1)])
  qed
qed

lemma switch_checks_run: "switch_checks dv inst op w = (Inr t, w') \<Longrightarrow> switchable t"
  by (auto simp: switch_checks_def bindE_Inr split: if_splits)

lemma SwitchBack_restores_nothing:
  assumes "watched (adds not_restored) obs"
  shows "keeps (adds not_restored) (SwitchBack dv inst op obs)"
proof -
  have journal: "keeps (adds not_restored) (from_journal (t\<lparr>tr_operation := op, tr_stage := s, tr_status := x\<rparr>) (switch_run dv obs))"
    if "switchable t" for t s x
    unfolding keeps_def
  proof (intro allI journal_restores_nothing)
    show "armed (t\<lparr>tr_operation := op, tr_stage := s, tr_status := x\<rparr>)" using that by (simp add: armed_def switchable_def)
    show "keeps steady (switch_run dv obs)" by (intro steady.leg_switch_run steady_recover assms) simp_all
  qed
  have after: "keeps (adds not_restored) (let u = t\<lparr>tr_operation := op, tr_stage := ''switch-back'', tr_status := ''running''\<rparr> in
     checkE (onW (saveTransaction dv u)) (\<lambda>e. retE (switch_result StatusFailed (error_text e))) (\<lambda>_.
     from_journal u (switch_run dv obs)))" if "onW (switch_checks dv inst op) w = (Inr t, w')" for t w w'
    unfolding Let_def using that
    by (intro deed_intros journal switch_checks_run[of dv inst op "ho_world w" _ "ho_world w'"])
       (auto simp: onW_def split: prod.splits)
  show ?thesis unfolding SwitchBack_def
    by (intro keeps_checkE_run[OF errands.frame_axioms] deed_intros after)
qed

end
