(* ===== verification/DeployOwn.thy ===== *)
theory DeployOwn
  imports DeployTrace
begin

text \<open>
  What an update may restore: an invariant over the whole flight of a release, from the first command
  to the recovery from its failure. It relates the errands that were run to the journal: a restore
  concerns the source and the operation of the journal, and follows the creation of its point with no
  switch of the ingress in between.
\<close>

section \<open>Restores that a release may make\<close>

definition own_restores :: "string \<Rightarrow> string \<Rightarrow> string \<Rightarrow> errand list \<Rightarrow> bool" where
  "own_restores inst op reason xs \<longleftrightarrow> (\<forall>i < length xs. \<forall>k rq. xs ! i = DataRestored k rq \<longrightarrow>
     cf_id k = inst \<and> rq_tx rq = op \<and> PointMade (rq_point rq) reason \<in> set (take i xs) \<and>
     (\<forall>j. Switched j \<notin> set (take i xs)))"

text \<open>An errand that a release may add where a point \<open>p\<close> exists and traffic was not opened.\<close>

definition restores_of :: "string \<Rightarrow> string \<Rightarrow> string \<Rightarrow> errand \<Rightarrow> bool" where
  "restores_of inst op p x \<longleftrightarrow> (\<exists>k rq. x = DataRestored k rq \<and> cf_id k = inst \<and> rq_tx rq = op \<and> rq_point rq = p)"

lemma own_restores_Nil [simp]: "own_restores inst op reason []"
  by (simp add: own_restores_def)

lemma own_restores_append:
  assumes "own_restores inst op reason xs" and "\<And>y. y \<in> set ys \<Longrightarrow> not_restored y"
  shows "own_restores inst op reason (xs @ ys)"
  unfolding own_restores_def
proof (intro allI impI)
  fix i k rq
  assume i: "i < length (xs @ ys)" and at: "(xs @ ys) ! i = DataRestored k rq"
  have "i < length xs"
  proof (rule ccontr)
    assume "\<not> i < length xs"
    then have "(xs @ ys) ! i \<in> set ys" using i by (simp add: nth_append)
    with at show False using assms(2) by (metis not_restored_simps(5))
  qed
  then have "take i (xs @ ys) = take i xs" "(xs @ ys) ! i = xs ! i" by (simp_all add: nth_append)
  with assms(1)[unfolded own_restores_def, rule_format, OF \<open>i < length xs\<close>, of k rq] at
  show "cf_id k = inst \<and> rq_tx rq = op \<and> PointMade (rq_point rq) reason \<in> set (take i (xs @ ys)) \<and>
     (\<forall>j. Switched j \<notin> set (take i (xs @ ys)))"
    by metis
qed

lemma own_restores_extend:
  assumes xs: "own_restores inst op reason xs" and p: "PointMade p reason \<in> set xs"
    and xs0: "\<And>j. Switched j \<notin> set xs" and ys0: "\<And>j. Switched j \<notin> set ys"
    and ys: "\<And>k rq. DataRestored k rq \<in> set ys \<Longrightarrow> cf_id k = inst \<and> rq_tx rq = op \<and> rq_point rq = p"
  shows "own_restores inst op reason (xs @ ys)"
  unfolding own_restores_def
proof (intro allI impI)
  fix i k rq
  assume i: "i < length (xs @ ys)" and at: "(xs @ ys) ! i = DataRestored k rq"
  show "cf_id k = inst \<and> rq_tx rq = op \<and> PointMade (rq_point rq) reason \<in> set (take i (xs @ ys)) \<and>
     (\<forall>j. Switched j \<notin> set (take i (xs @ ys)))"
  proof (cases "i < length xs")
    case True
    then have "take i (xs @ ys) = take i xs" "(xs @ ys) ! i = xs ! i" by (simp_all add: nth_append)
    with xs[unfolded own_restores_def, rule_format, OF True, of k rq] at show ?thesis by metis
  next
    case False
    then have "DataRestored k rq \<in> set ys" using i at by (auto simp: nth_append dest: sym)
    moreover have "set (take i (xs @ ys)) \<subseteq> set xs \<union> set ys" by (metis set_append set_take_subset)
    moreover have "set xs \<subseteq> set (take i (xs @ ys))" using False by simp
    ultimately show ?thesis using ys p xs0 ys0 by blast
  qed
qed

section \<open>The invariant of a flight\<close>

text \<open>\<open>\<Q>\<close> may fix what is known of the journal: whether traffic was opened, and the strategy.\<close>

definition history :: "string \<Rightarrow> string \<Rightarrow> string \<Rightarrow> bool \<Rightarrow> errand list \<Rightarrow> transaction \<Rightarrow> errand list \<Rightarrow> bool" where
  "history inst op reason allow e0 t es \<longleftrightarrow>
     (\<exists>xs. es = e0 @ xs \<and> own_restores inst op reason xs \<and>
        (tr_point t \<noteq> [] \<longrightarrow> PointMade (tr_point t) reason \<in> set xs) \<and>
        ((\<exists>k. Switched k \<in> set xs) \<longrightarrow> armed t) \<and>
        ((\<exists>p r. PointMade p r \<in> set xs) \<or> (\<exists>k rq. DataRestored k rq \<in> set xs) \<longrightarrow> allow))"

definition sound :: "string \<Rightarrow> string \<Rightarrow> string \<Rightarrow> bool \<Rightarrow> errand list \<Rightarrow> 'd flight \<Rightarrow> bool" where
  "sound inst op reason allow e0 f \<longleftrightarrow> (let t = fl_tx f in
     cf_id (tr_source t) = inst \<and> tr_operation t = op \<and> (tr_strategy t = StrategyMaintenance \<longrightarrow> allow) \<and>
     history inst op reason allow e0 t (da_errands (ho_dep (fl_host f))))"

definition within ::
    "string \<Rightarrow> string \<Rightarrow> string \<Rightarrow> bool \<Rightarrow> errand list \<Rightarrow> (bool \<Rightarrow> string \<Rightarrow> bool) \<Rightarrow> 'd flight \<Rightarrow> 'd flight \<Rightarrow> bool" where
  "within inst op reason allow e0 Q f f' \<longleftrightarrow>
     (sound inst op reason allow e0 f \<and> Q (tr_opened (fl_tx f)) (tr_strategy (fl_tx f)) \<longrightarrow>
      sound inst op reason allow e0 f' \<and> Q (tr_opened (fl_tx f')) (tr_strategy (fl_tx f')))"

definition started :: "errand \<Rightarrow> bool" where
  "started x \<longleftrightarrow> (\<exists>k ns. x = Started k ns)"

definition mild :: "errand \<Rightarrow> bool" where
  "mild x \<longleftrightarrow> started x \<or> (\<exists>k. x = Switched k)"

lemma started_simps [simp]: "started (Started k ns)" "mild (Started k ns)" "mild (Switched k)"
  by (simp_all add: started_def mild_def)

lemma sound_adds:
  assumes "sound inst op reason allow e0 f" and "adds mild (fl_host f) h"
    and "adds started (fl_host f) h \<or> armed (fl_tx f)"
  shows "sound inst op reason allow e0 (f\<lparr>fl_host := h\<rparr>)"
proof -
  let ?es = "da_errands (ho_dep (fl_host f))"
  from assms(1) obtain xs where es: "?es = e0 @ xs" and own: "own_restores inst op reason xs"
    and p: "tr_point (fl_tx f) \<noteq> [] \<longrightarrow> PointMade (tr_point (fl_tx f)) reason \<in> set xs"
    and sw: "(\<exists>k. Switched k \<in> set xs) \<longrightarrow> armed (fl_tx f)"
    and al: "(\<exists>p r. PointMade p r \<in> set xs) \<or> (\<exists>k rq. DataRestored k rq \<in> set xs) \<longrightarrow> allow"
    unfolding sound_def history_def Let_def by blast
  from assms(2) obtain ys where ys: "da_errands (ho_dep h) = ?es @ ys" "\<forall>y \<in> set ys. (\<exists>a. y = Ran a) \<or> mild y"
    unfolding adds_def by blast
  have quiet: "\<not> (\<exists>k. Switched k \<in> set ys)" if "adds started (fl_host f) h"
    using that ys(1) by (auto simp: adds_def started_def)
  have plain: "not_restored y" "\<And>p r. y \<noteq> PointMade p r" "\<And>k rq. y \<noteq> DataRestored k rq" if "y \<in> set ys" for y
    using ys(2) that by (auto simp: mild_def started_def not_restored_def)
  have "own_restores inst op reason (xs @ ys)" using own plain(1) by (rule own_restores_append)
  moreover have "(\<exists>k. Switched k \<in> set (xs @ ys)) \<longrightarrow> armed (fl_tx f)" using sw quiet assms(3) by auto
  moreover have "(\<exists>p r. PointMade p r \<in> set (xs @ ys)) \<or> (\<exists>k rq. DataRestored k rq \<in> set (xs @ ys)) \<longrightarrow> allow"
    using al plain(2,3) by fastforce
  ultimately show ?thesis
    using assms(1) p es ys(1) unfolding sound_def history_def Let_def
    by (auto intro!: exI[of _ "xs @ ys"])
qed

lemma sound_booked:
  assumes "sound inst op reason allow e0 f" and "bookkeeping g"
  shows "sound inst op reason allow e0 (f\<lparr>fl_tx := g (fl_tx f)\<rparr>)"
  using assms by (simp add: sound_def history_def bookkeeping_def armed_def Let_def)

lemma adds_mild: "adds started h h' \<Longrightarrow> adds mild h h'"
  by (erule adds_mono) (simp add: mild_def)

interpretation within: leg_frame "adds started" dv started "within inst op reason allow e0 Q"
  for dv inst op reason allow e0 Q
proof unfold_locales
  fix f f' f'' :: "'a flight" and h k b g
  show "within inst op reason allow e0 Q f f" by (simp add: within_def)
  show "within inst op reason allow e0 Q f f' \<Longrightarrow> within inst op reason allow e0 Q f' f'' \<Longrightarrow>
      within inst op reason allow e0 Q f f''"
    by (simp add: within_def)
  show "adds started (fl_host f) h \<Longrightarrow> within inst op reason allow e0 Q f (f\<lparr>fl_host := h\<rparr>)"
    by (simp add: within_def sound_adds adds_mild)
  show "within inst op reason allow e0 Q f (f\<lparr>fl_candidate := k\<rparr>)" "within inst op reason allow e0 Q f (f\<lparr>fl_kept := b\<rparr>)"
    by (simp_all add: within_def sound_def)
  show "bookkeeping g \<Longrightarrow> within inst op reason allow e0 Q f (f\<lparr>fl_tx := g (fl_tx f)\<rparr>)"
    by (simp add: within_def sound_booked) (simp add: bookkeeping_def)
qed

abbreviation anyway :: "bool \<Rightarrow> string \<Rightarrow> bool" where
  "anyway \<equiv> \<lambda>_ _. True"

text \<open>Where the journal says that traffic may be open, the ingress may be switched.\<close>

definition going :: "bool \<Rightarrow> string \<Rightarrow> bool" where
  "going b s \<longleftrightarrow> b \<or> s = StrategyOnline"

lemma within_switching:
  assumes "keeps (adds mild) m"
  shows "keeps (within inst op reason allow e0 going) (onH m)"
  unfolding keeps_def
proof
  fix f :: "'a flight"
  have "adds mild (fl_host f) (snd (m (fl_host f)))" using assms by (simp add: keeps_def)
  then show "within inst op reason allow e0 going f (snd (onH m f))"
    by (auto simp: within_def onH_def case_prod_unfold going_def armed_def intro: sound_adds)
qed

text \<open>Narrowing and forgetting what is known of the journal.\<close>

lemma within_open:
  assumes "bookkeeping g" and "keeps (within inst op reason allow e0 going) k"
  shows "keeps (within inst op reason allow e0 anyway) (bindE (on_tx (\<lambda>t. g (t\<lparr>tr_opened := True\<rparr>))) (\<lambda>_. k))"
  unfolding keeps_def
proof
  fix f :: "'a flight"
  let ?f = "f\<lparr>fl_tx := g ((fl_tx f)\<lparr>tr_opened := True\<rparr>)\<rparr>"
  have "sound inst op reason allow e0 ?f \<and> going (tr_opened (fl_tx ?f)) (tr_strategy (fl_tx ?f))"
    if "sound inst op reason allow e0 f"
    using that \<open>bookkeeping g\<close> by (auto simp: sound_def history_def bookkeeping_def armed_def going_def Let_def)
  moreover have "within inst op reason allow e0 going ?f (snd (k ?f))" using assms by (simp add: keeps_def)
  ultimately show "within inst op reason allow e0 anyway f (snd (bindE (on_tx (\<lambda>t. g (t\<lparr>tr_opened := True\<rparr>))) (\<lambda>_. k) f))"
    by (auto simp: within_def bindE_def on_tx_def)
qed

lemma within_with_tx:
  assumes "\<And>t. Q (tr_opened t) (tr_strategy t) \<Longrightarrow> keeps (within inst op reason allow e0 Q) (k t)"
    and "\<And>t. \<not> Q (tr_opened t) (tr_strategy t) \<Longrightarrow>
      keeps (within inst op reason allow e0 (\<lambda>b s. \<not> Q b s)) (k t)"
  shows "keeps (within inst op reason allow e0 anyway) (with_tx k)"
  unfolding keeps_def
proof
  fix f :: "'a flight"
  let ?t = "fl_tx f"
  show "within inst op reason allow e0 anyway f (snd (with_tx k f))"
  proof (cases "Q (tr_opened ?t) (tr_strategy ?t)")
    case True
    from keepsD[OF assms(1)[OF True], of f] True show ?thesis
      by (auto simp: within_def with_tx_def case_prod_unfold) (metis prod.collapse)
  next
    case False
    from keepsD[OF assms(2)[OF False], of f] False show ?thesis
      by (auto simp: within_def with_tx_def case_prod_unfold) (metis prod.collapse)
  qed
qed

section \<open>The recovery point of a release\<close>

lemma point_is_noted:
  assumes "CreateRecoveryPoint dv inst reason h = (Inr pid, h')"
  shows "PointMade pid reason \<in> set (drop (length (da_errands (ho_dep h))) (da_errands (ho_dep h')))"
proof -
  from assms[unfolded CreateRecoveryPoint_def, THEN bindE_Inr[THEN iffD1]] obtain c h1 where
    c: "onW (loadConfig dv inst) h = (Inr c, h1)"
    and rest: "(case recoveries dv of None \<Rightarrow> failE (Msg ''recovery point store is unavailable'')
      | Some rv \<Rightarrow> bindE (rv_create rv c reason) (\<lambda>p. bindE (note_errand (PointMade (pt_id p) reason)) (\<lambda>_. retE (pt_id p)))) h1
      = (Inr pid, h')" by blast
  from rest obtain rv p h2 where rv: "recoveries dv = Some rv" and made: "rv_create rv c reason h1 = (Inr p, h2)"
    and out: "bindE (note_errand (PointMade (pt_id p) reason)) (\<lambda>_. retE (pt_id p)) h2 = (Inr pid, h')"
    by (auto simp: bindE_Inr split: option.splits)
  have "adds started h h1" by (rule keepsD[OF errands.deed_onW c])
  moreover have "adds started h1 h2" by (rule keepsD[OF errands.points(1)[OF rv] made])
  ultimately obtain ys where "da_errands (ho_dep h2) = da_errands (ho_dep h) @ ys"
    using errands.trans unfolding adds_def by blast
  moreover have "da_errands (ho_dep h') = da_errands (ho_dep h2) @ [PointMade pid reason]"
    using out by (auto simp: bindE_def note_errand_def)
  ultimately show ?thesis by simp
qed

lemma sound_point:
  assumes "sound inst op reason allow e0 f" and allow
    and adds: "adds (\<lambda>x. \<exists>p. x = PointMade p reason) (fl_host f) h"
    and p: "p = tr_point (fl_tx f) \<or> PointMade p reason \<in> set (drop (length (da_errands (ho_dep (fl_host f)))) (da_errands (ho_dep h)))"
  shows "sound inst op reason allow e0 (f\<lparr>fl_host := h, fl_tx := (fl_tx f)\<lparr>tr_point := p\<rparr>\<rparr>)"
proof -
  let ?es = "da_errands (ho_dep (fl_host f))"
  from assms(1) obtain xs where es: "?es = e0 @ xs" and own: "own_restores inst op reason xs"
    and q: "tr_point (fl_tx f) \<noteq> [] \<longrightarrow> PointMade (tr_point (fl_tx f)) reason \<in> set xs"
    and sw: "(\<exists>k. Switched k \<in> set xs) \<longrightarrow> armed (fl_tx f)"
    unfolding sound_def history_def Let_def by blast
  from adds obtain ys where ys: "da_errands (ho_dep h) = ?es @ ys"
    and kind: "\<forall>y \<in> set ys. (\<exists>a. y = Ran a) \<or> (\<exists>p. y = PointMade p reason)"
    unfolding adds_def by blast
  have "own_restores inst op reason (xs @ ys)"
    using own kind by (auto intro!: own_restores_append simp: not_restored_def)
  moreover have "p \<noteq> [] \<longrightarrow> PointMade p reason \<in> set (xs @ ys)" using p q ys by auto
  moreover have "(\<exists>k. Switched k \<in> set (xs @ ys)) \<longrightarrow> armed ((fl_tx f)\<lparr>tr_point := p\<rparr>)"
    using sw kind by (auto simp: armed_def)
  ultimately show ?thesis
    using assms(1,2) es ys unfolding sound_def history_def Let_def by (auto intro!: exI[of _ "xs @ ys"])
qed

definition in_maintenance :: "bool \<Rightarrow> string \<Rightarrow> bool" where
  "in_maintenance b s \<longleftrightarrow> s = StrategyMaintenance"

lemma within_backup:
  assumes "reason = ''update-to-'' @ rl_version (la_release la)"
  shows "keeps (within inst op reason allow e0 in_maintenance) (step_backup dv la i)"
  unfolding keeps_def
proof
  fix f :: "'a flight"
  let ?W = "within inst op reason allow e0 in_maintenance"
  obtain r h where run: "CreateRecoveryPoint dv i reason (fl_host f) = (r, h)" by fastforce
  have adds: "adds (\<lambda>x. \<exists>p. x = PointMade p reason) (fl_host f) h"
    by (rule keepsD[OF errands.deed_CreateRecoveryPoint run]) simp
  let ?g = "\<lambda>p. f\<lparr>fl_host := h, fl_tx := (fl_tx f)\<lparr>tr_point := p\<rparr>\<rparr>"
  have same: "?g (tr_point (fl_tx f)) = f\<lparr>fl_host := h\<rparr>" by simp
  have step: "?W f (?g p)" if "p = tr_point (fl_tx f) \<or>
    PointMade p reason \<in> set (drop (length (da_errands (ho_dep (fl_host f)))) (da_errands (ho_dep h)))" for p
    unfolding within_def
  proof (intro impI; elim conjE)
    assume s: "sound inst op reason allow e0 f" and m: "in_maintenance (tr_opened (fl_tx f)) (tr_strategy (fl_tx f))"
    then have allow by (simp add: sound_def Let_def in_maintenance_def)
    from sound_point[OF s this adds that] m
    show "sound inst op reason allow e0 (?g p) \<and> in_maintenance (tr_opened (fl_tx (?g p))) (tr_strategy (fl_tx (?g p)))"
      by (simp add: in_maintenance_def)
  qed
  show "?W f (snd (step_backup dv la i f))"
  proof (cases r)
    case (Inl e)
    then have "snd (step_backup dv la i f) = f\<lparr>fl_host := h\<rparr>"
      using run assms by (simp add: step_backup_def bindE_def onH_def)
    then show ?thesis using step[of "tr_point (fl_tx f)"] same by simp
  next
    case (Inr pid)
    let ?k = "with_tx (\<lambda>t. onH (FreezeRecoveryCheckpoint dv i \<lparr>rq_point = pid, rq_tx = tr_operation t, rq_digest = []\<rparr>))"
    have "step_backup dv la i f = ?k (?g pid)"
      using run Inr assms by (simp add: step_backup_def bindE_def onH_def on_tx_def)
    moreover have "keeps ?W ?k" by (intro deed_intros)
    ultimately have "?W (?g pid) (snd (step_backup dv la i f))" by (simp add: keeps_def)
    moreover have "?W f (?g pid)" using point_is_noted[OF run[unfolded Inr]] by (intro step) simp
    ultimately show ?thesis by (rule within.flight.trans[rotated])
  qed
qed

section \<open>Opening traffic\<close>

lemma within_switch: "keeps (within inst op reason allow e0 anyway) (step_switch dv la)"
proof -
  have "keeps (within inst op reason allow e0 going) (bindE (save_tx dv) (\<lambda>_.
     bindE (onH (switchIngress dv k (rl_sequence (la_release la)) (stays la))) (\<lambda>(workers, failed).
     bindE (on_tx (\<lambda>t. t\<lparr>tr_workers := workers\<rparr>)) (\<lambda>_.
     case failed of
       Some e \<Rightarrow> failE e
     | None \<Rightarrow> onH (onW (activateSlot dv k (dv_bytes dv (rl_document (la_release la)))))))))" for k
    by (intro within_switching errands.deed_switchIngress deed_intros) simp_all
  from within_open[of "\<lambda>t. t", OF _ this] show ?thesis
    unfolding step_switch_def by (intro within.leg_with) (simp add: bookkeeping_def)
qed

lemma within_resumeSource: "keeps (within inst op reason allow e0 anyway) (resumeSource dv)"
proof -
  have "keeps (within inst op reason allow e0 going) (bindE (wrapE (Wrap ''persist source resume boundary'') (save_tx dv)) (\<lambda>_.
     with_tx (\<lambda>t. onH (Resume dv (cf_id (tr_source t))))))"
    by (intro within_switching errands.deed_Resume deed_intros) simp_all
  moreover have "t\<lparr>tr_stage := ''resume'', tr_opened := True\<rparr> = t\<lparr>tr_opened := True\<rparr>\<lparr>tr_stage := ''resume''\<rparr>" for t :: transaction
    by (cases t) simp
  ultimately show ?thesis
    unfolding resumeSource_def by (simp only:) (rule within_open, simp_all add: bookkeeping_def)
qed

section \<open>Restoring\<close>

lemma sum_fail_Inr:
  "(case k of Inl e \<Rightarrow> (if b e then failE (g e) else m e) | Inr x \<Rightarrow> retE (f x)) w = (Inr y, w') \<longleftrightarrow>
     (\<exists>x. k = Inr x \<and> y = f x \<and> w' = w) \<or> (\<exists>e. k = Inl e \<and> \<not> b e \<and> m e w = (Inr y, w'))"
  by (cases k) auto

lemma prepareRestore_fields:
  "prepareRestore dv c rq h = (Inr rq', h') \<Longrightarrow> rq_point rq' = rq_point rq \<and> rq_tx rq' = rq_tx rq"
  by (auto simp: prepareRestore_def bindE_Inr sum_fail_Inr split: if_splits)

lemma keeps_bindE_run:
  assumes "frame R" and "keeps R m" and "\<And>w x w'. m w = (Inr x, w') \<Longrightarrow> keeps R (f x)"
  shows "keeps R (bindE m f)"
proof -
  have "bindE m f = checkE m failE f" by (simp add: fun_eq_iff bindE_def checkE_def failE_def split: prod.splits sum.splits)
  then show ?thesis
    by (simp, intro keeps_checkE_run assms frame.keeps_failE)
qed

lemma restore_adds: "keeps (adds (restores_of (cf_id (tr_source t)) (tr_operation t) (tr_point t))) (restore_source_data dv t)"
proof -
  let ?R = "adds (restores_of (cf_id (tr_source t)) (tr_operation t) (tr_point t))"
  have restore: "keeps ?R (restore_data_from rv (tr_source t) rq (tr_source t))"
    if "recoveries dv = Some rv" "rq_point rq = tr_point t" "rq_tx rq = tr_operation t" for rv rq
    by (rule errands.deed_restore_data[OF that(1)]) (simp add: restores_of_def that)
  show ?thesis
  proof (cases "recoveries dv")
    case None
    show ?thesis unfolding restore_source_data_def stop_candidate_def None option.case
      by (intro deed_intros)
  next
    case (Some rv)
    show ?thesis unfolding restore_source_data_def stop_candidate_def Some option.case
    proof (rule keeps_bindE_run[OF errands.frame_axioms])
      show "keeps ?R (prepareRestore dv k rq)" for k rq by (rule errands.deed_prepareRestore)
    qed (intro restore[OF Some] deed_intros; auto dest: prepareRestore_fields)
  qed
qed

lemma sound_restores:
  assumes "sound inst op reason allow e0 f" and "adds (restores_of inst op (tr_point (fl_tx f))) (fl_host f) h"
    and "\<not> armed (fl_tx f)" and "tr_point (fl_tx f) \<noteq> []"
  shows "sound inst op reason allow e0 (f\<lparr>fl_host := h\<rparr>)"
proof -
  let ?t = "fl_tx f"
  let ?es = "da_errands (ho_dep (fl_host f))"
  from assms(1,3,4) obtain xs where es: "?es = e0 @ xs" and own: "own_restores inst op reason xs"
    and q: "PointMade (tr_point ?t) reason \<in> set xs" and sw: "\<And>k. Switched k \<notin> set xs" and al: allow
    unfolding sound_def history_def Let_def by blast
  from assms(2) obtain ys where ys: "da_errands (ho_dep h) = ?es @ ys"
    and kind: "\<forall>y \<in> set ys. (\<exists>a. y = Ran a) \<or> restores_of inst op (tr_point ?t) y"
    unfolding adds_def by blast
  have "own_restores inst op reason (xs @ ys)"
    using own q sw by (rule own_restores_extend) (use kind in \<open>auto simp: restores_of_def\<close>)
  moreover have "\<not> (\<exists>k. Switched k \<in> set (xs @ ys))" using sw kind by (auto simp: restores_of_def)
  ultimately show ?thesis
    using assms(1) es ys q al unfolding sound_def history_def Let_def by (auto intro!: exI[of _ "xs @ ys"])
qed

lemma sound_restore_source:
  assumes "sound inst op reason allow e0 f" and "\<not> armed (fl_tx f)" and "tr_point (fl_tx f) \<noteq> []"
  shows "sound inst op reason allow e0 (snd (onH (restore_source_data dv (fl_tx f)) f))"
proof -
  have "cf_id (tr_source (fl_tx f)) = inst" "tr_operation (fl_tx f) = op" using assms(1) by (simp_all add: sound_def Let_def)
  then have "adds (restores_of inst op (tr_point (fl_tx f))) (fl_host f) (snd (restore_source_data dv (fl_tx f) (fl_host f)))"
    using restore_adds[of "fl_tx f" dv] by (simp add: keeps_def)
  from sound_restores[OF assms(1) this assms(2,3)] show ?thesis by (simp add: onH_def case_prod_unfold)
qed

section \<open>The recovery of a failed release\<close>

lemma within_restoreBeforeTraffic:
  assumes "sound inst op reason allow e0 f" and "\<not> armed (fl_tx f)" and "tr_point (fl_tx f) \<noteq> []"
  shows "sound inst op reason allow e0 (snd (restoreBeforeTraffic dv f))"
proof -
  let ?t = "fl_tx f"
  obtain r f1 where run: "onH (restore_source_data dv ?t) f = (r, f1)" by fastforce
  then have s: "sound inst op reason allow e0 f1" using sound_restore_source[OF assms, of dv] by simp
  have "restoreBeforeTraffic dv f = bindE (onH (restore_source_data dv ?t)) (\<lambda>_. resumeSource dv) f"
    using assms(2) by (simp add: restoreBeforeTraffic_def with_tx_def armed_def)
  moreover have "sound inst op reason allow e0 (snd (resumeSource dv f1))"
    using within_resumeSource[of inst op reason allow e0 dv] s by (simp add: keeps_def within_def)
  ultimately show ?thesis using s by (cases r) (simp_all add: bindE_def run)
qed

lemma keeps_within: "keeps (within inst op reason allow e0 Q) m \<Longrightarrow> sound inst op reason allow e0 f \<Longrightarrow>
    Q (tr_opened (fl_tx f)) (tr_strategy (fl_tx f)) \<Longrightarrow> sound inst op reason allow e0 (snd (m f))"
  by (simp add: keeps_def within_def)

lemma sound_then_status:
  assumes "sound inst op reason allow e0 (snd (m f))"
  shows "sound inst op reason allow e0 (snd (bindE m (\<lambda>_. tx_status s) f))"
proof -
  have "keeps (within inst op reason allow e0 anyway) (tx_status s)" by (intro deed_intros)
  then show ?thesis using assms
    by (auto simp: bindE_def keeps_def within_def split: prod.splits sum.splits)
qed

lemma within_recover: "keeps (within inst op reason allow e0 anyway) (recover_release dv)"
  unfolding keeps_def
proof
  fix f :: "'a flight"
  let ?t = "fl_tx f"
  let ?m = "if tr_strategy ?t = StrategyOnline then
       (if tr_stage ?t = ''drain'' then failE (Msg ''old connections are still draining; both slots were retained'')
        else bindE (onH (restoreApplication dv ?t)) (\<lambda>_. tx_status StatusRolledBack))
     else if tr_stage ?t = ''resume'' then
       bindE (resumeSource dv) (\<lambda>_. tx_status (if tr_point ?t \<noteq> [] then StatusRolledBack else StatusFailed))
     else failE (Msg ''traffic or background writes may have resumed; data restoration requires a separate authorized recovery'')"
  show "within inst op reason allow e0 anyway f (snd (recover_release dv f))"
    unfolding within_def
  proof (intro impI conjI TrueI; elim conjE)
    assume s: "sound inst op reason allow e0 f"
    have resumed: "sound inst op reason allow e0 (snd (bindE (resumeSource dv) (\<lambda>_. tx_status x) f))" for x
      by (rule sound_then_status keeps_within within_resumeSource s TrueI)+
    show "sound inst op reason allow e0 (snd (recover_release dv f))"
    proof (cases "armed ?t")
      case False
      then have "recover_release dv f = (if tr_point ?t \<noteq> []
          then bindE (restoreBeforeTraffic dv) (\<lambda>_. tx_status StatusRolledBack)
          else bindE (resumeSource dv) (\<lambda>_. tx_status StatusFailed)) f"
        by (simp add: recover_release_def with_tx_def armed_def)
      then show ?thesis
        using sound_then_status[where m = "restoreBeforeTraffic dv", OF within_restoreBeforeTraffic[OF s False]] resumed by simp
    next
      case True
      have online: "sound inst op reason allow e0 (snd (bindE (onH (restoreApplication dv ?t)) (\<lambda>_. tx_status StatusRolledBack) f))"
        by (rule sound_then_status, rule keeps_within[OF within_switching s])
           (use True in \<open>auto simp: going_def armed_def intro!: errands.deed_restoreApplication\<close>)
      have "recover_release dv f = ?m f" using True by (auto simp: recover_release_def with_tx_def armed_def)
      then show ?thesis using online resumed s by (simp add: failE_def)
    qed
  qed
qed

section \<open>The whole release\<close>

definition nothing :: "errand \<Rightarrow> bool" where
  "nothing x \<longleftrightarrow> False"

lemma within_launch:
  assumes "watched (adds nothing) (la_observe la)"
    and "reason = ''update-to-'' @ rl_version (la_release la)"
  shows "keeps (within inst op reason allow e0 anyway) (launch_release dv la i)"
proof -
  have w: "watched (adds started) (la_observe la)"
    by (rule watched_mono[OF assms(1)]) (simp add: nothing_def)
  have "keeps (within inst op reason allow e0 anyway) (run_secure dv la i)"
    unfolding run_secure_def Let_def
  proof (rule within_with_tx[where Q = in_maintenance])
    fix t :: transaction
    let ?A = "bindE (flight_step dv (la_observe la) ''quiesce'' (onH (Quiesce dv i))) (\<lambda>_.
          bindE (flight_step dv (la_observe la) ''backup'' (step_backup dv la i)) (\<lambda>_. restart_redis dv la))"
    let ?B = "flight_step dv (la_observe la) ''online-backup'' (with_tx (\<lambda>t2. onH (onlineBackup dv t2)))"
    show "in_maintenance (tr_opened t) (tr_strategy t) \<Longrightarrow>
        keeps (within inst op reason allow e0 in_maintenance) (if drained t then ?A else ?B)"
      using within.leg_secure_maintenance[OF w within_backup[OF assms(2)]] by (simp add: in_maintenance_def drained_def)
    show "\<not> in_maintenance (tr_opened t) (tr_strategy t) \<Longrightarrow>
        keeps (within inst op reason allow e0 (\<lambda>b s. \<not> in_maintenance b s)) (if drained t then ?A else ?B)"
      using within.leg_secure_online[OF w] by (simp add: in_maintenance_def drained_def)
  qed
  then show ?thesis
    by (intro within.leg_launch within.leg_protect within.leg_candidate within.leg_traffic within_recover within_switch w)
       simp_all
qed

lemma loadConfig_id: "loadConfig dv inst w = (Inr c, w') \<Longrightarrow> cf_id c = inst"
  by (auto simp: loadConfig_def loadConfigForRecovery_def Let_def bindE_Inr incomplete_config_def
      split: if_splits option.splits)

lemma execute_checks_run: "execute_checks dv inst r op h = (Inr (c, slot, version), h') \<Longrightarrow> cf_id c = inst"
  by (auto simp: execute_checks_def Let_def bindE_Inr onW_def dest: loadConfig_id split: if_splits prod.splits)

lemma prepare_flight_run:
  "prepare_flight dv c slot version r op d h = (Inr kt, h') \<Longrightarrow>
     \<exists>s. bind_plan op s = Inr () \<and> snd kt = new_transaction (op_operation op) c (fst kt) r version s slot"
  by (auto simp: prepare_flight_def bindE_Inr)

lemma adds_nothing: "adds nothing h h' \<Longrightarrow> \<exists>xs. da_errands (ho_dep h') = da_errands (ho_dep h) @ xs \<and> (\<forall>x \<in> set xs. \<exists>a. x = Ran a)"
  by (auto simp: adds_def nothing_def)

definition traced :: "string \<Rightarrow> options \<Rightarrow> release \<Rightarrow> 'd daemon host \<Rightarrow> 'd daemon host \<Rightarrow> bool" where
  "traced inst op r h h' \<longleftrightarrow> (\<exists>xs. da_errands (ho_dep h') = da_errands (ho_dep h) @ xs \<and>
     own_restores inst (op_operation op) (''update-to-'' @ rl_version r) xs \<and>
     ((\<exists>p s. PointMade p s \<in> set xs) \<or> (\<exists>k rq. DataRestored k rq \<in> set xs) \<longrightarrow> op_maintenance op))"

lemma traced_nothing: "adds nothing h h' \<Longrightarrow> traced inst op r h h'"
proof -
  assume "adds nothing h h'"
  then obtain xs where xs: "da_errands (ho_dep h') = da_errands (ho_dep h) @ xs" "\<forall>x \<in> set xs. \<exists>a. x = Ran a"
    using adds_nothing by blast
  then have "own_restores inst (op_operation op) (''update-to-'' @ rl_version r) ([] @ xs)"
    by (intro own_restores_append) (auto simp: not_restored_def)
  with xs show ?thesis by (auto simp: traced_def intro!: exI[of _ xs])
qed

lemma sound_start:
  assumes "adds nothing h h'" and "cf_id c = inst" and "bind_plan op s = Inr ()"
    and "tr = new_transaction (op_operation op) c k r version s slot"
  shows "sound inst (op_operation op) (''update-to-'' @ rl_version r) (op_maintenance op) (da_errands (ho_dep h))
    \<lparr>fl_host = h', fl_tx = tr, fl_candidate = k2, fl_kept = b\<rparr>"
proof -
  from adds_nothing[OF assms(1)] obtain xs where xs: "da_errands (ho_dep h') = da_errands (ho_dep h) @ xs"
    "\<forall>x \<in> set xs. \<exists>a. x = Ran a" by blast
  then have "own_restores inst (op_operation op) (''update-to-'' @ rl_version r) ([] @ xs)"
    by (intro own_restores_append) (auto simp: not_restored_def)
  then have "history inst (op_operation op) (''update-to-'' @ rl_version r) (op_maintenance op) (da_errands (ho_dep h)) tr
      (da_errands (ho_dep h'))"
    using xs assms(4) unfolding history_def by (intro exI[of _ xs]) (auto simp: new_transaction_def)
  then show ?thesis using assms(2-4) by (auto simp: sound_def new_transaction_def bind_plan_def split: if_splits)
qed

lemma traced_fly:
  assumes "watched (adds nothing) obs" and "adds nothing h h1" and "cf_id c = inst"
    and "prepare_flight dv c slot version r op d h1 = (Inr kt, h2)"
    and la: "la_observe la = obs" "la_release la = r"
  shows "traced inst op r h (snd (fly dv la inst kt d h2))"
proof -
  have "adds nothing h1 h2" by (rule keepsD[OF errands.deed_prepare_flight assms(4)])
  with assms(2) have h2: "adds nothing h h2" by (rule errands.trans)
  from prepare_flight_run[OF assms(4)] obtain s where
    s: "bind_plan op s = Inr ()" "snd kt = new_transaction (op_operation op) c (fst kt) r version s slot" by blast
  let ?f = "\<lparr>fl_host = h2, fl_tx = snd kt, fl_candidate = fst kt, fl_kept = True\<rparr>"
  let ?sound = "sound inst (op_operation op) (''update-to-'' @ rl_version r) (op_maintenance op) (da_errands (ho_dep h))"
  obtain q f where run: "launch_release dv la inst ?f = (q, f)" by fastforce
  have "?sound (snd (launch_release dv la inst ?f))"
    by (rule keeps_within[OF within_launch sound_start[OF h2 assms(3) s]]) (simp_all add: la assms(1))
  then have f: "?sound f" by (simp add: run)
  have "da_errands (ho_dep (snd (fly dv la inst kt d h2))) = da_errands (ho_dep (fl_host f))"
    by (simp add: fly_def run onW_def case_prod_unfold)
  then show ?thesis using f unfolding sound_def history_def traced_def Let_def by auto
qed

lemma ExecuteRelease_traced:
  assumes "watched (adds nothing) obs"
  shows "traced inst op r h (snd (ExecuteRelease dv inst r op obs h))"
proof -
  note quiet = errands.flown.deed_fail_before[OF assms, where dv = dv and r = r]
  have failed: "traced inst op r h (snd (fail_before dv r obs e h'))" if "adds nothing h h'" for e h'
    using quiet[of e] that by (auto simp: keeps_def intro: traced_nothing errands.trans)
  obtain r1 h1 where checks: "execute_checks dv inst r op h = (r1, h1)" by fastforce
  have h1: "adds nothing h h1" by (rule keepsD[OF errands.deed_execute_checks checks])
  show ?thesis
  proof (cases r1)
    case (Inl e)
    then show ?thesis using checks failed[OF h1] by (simp add: ExecuteRelease_def checkE_def)
  next
    case (Inr x)
    obtain c slot version where x: "x = (c, slot, version)" by (cases x)
    obtain r2 h2 where dir: "onW (mkdir_temp (instanceDirectory dv inst) ''.release-'') h1 = (r2, h2)" by fastforce
    have h2: "adds nothing h h2" by (rule errands.trans[OF h1 keepsD[OF errands.deed_onW dir]])
    show ?thesis
    proof (cases r2)
      case 2: (Inl e)
      then show ?thesis using checks Inr x dir failed[OF h2] by (simp add: ExecuteRelease_def checkE_def)
    next
      case 2: (Inr d)
      obtain r3 h3 where prep: "prepare_flight dv c slot version r op d h2 = (r3, h3)" by fastforce
      show ?thesis
      proof (cases r3)
        case 3: (Inl e)
        have "adds nothing h h3" by (rule errands.trans[OF h2 keepsD[OF errands.deed_prepare_flight prep]])
        moreover have "adds nothing h3 (snd (deferE (fail_before dv r obs e) (onW (remove_all d)) h3))"
          using errands.keeps_deferE[OF quiet[of e] errands.deed_onW, of "remove_all d"] by (simp add: keeps_def)
        ultimately show ?thesis
          using checks Inr x dir 2 prep 3 by (auto simp: ExecuteRelease_def checkE_def intro: traced_nothing errands.trans)
      next
        case 3: (Inr kt)
        from checks Inr x have "cf_id c = inst" by (auto dest: execute_checks_run)
        from traced_fly[OF assms h2 this prep[unfolded 3]] show ?thesis
          using checks Inr x dir 2 prep 3 by (simp add: ExecuteRelease_def checkE_def)
      qed
    qed
  qed
qed

end
