(* ===== verification/DeployLaws.thy ===== *)
theory DeployLaws
  imports DeployOwn RecoveryLaws OperationLaws
begin

text \<open>
  Single operations of the deployment service: the journal of a release is replaced atomically and
  traffic opens only after it is on disk; recovery keeps background services stopped; a drain that
  succeeds leaves no container running and asks Docker a bounded number of times.
\<close>

section \<open>The journal of a release\<close>

lemma replace_stage_mode_ok: "stage_ok m c (\<lambda>t. replace_stage_mode t c m)"
  unfolding stage_ok_def
proof (intro allI impI)
  fix t w
  assume t: "look w t = Some (file_node 384)"
  let ?Q = "\<lambda>(r :: err + unit) w'. touches (\<lambda>q. q = t) w w' \<and> (r = Inr () \<longrightarrow> (\<exists>n. look w' t = Some n \<and> good_file m c n))"
  have written: "wp (bindE (chmod t m) (\<lambda>_. bindE (write_data t c) (\<lambda>_. fsync t))) ?Q w"
    unfolding chmod_def write_data_def fsync_def
    using t by (intro wp_bindI[OF update_node_outcome] wp_mono[OF update_node_outcome])
      (auto simp: good_file_def file_node_def intro: writes.trans)
  have closed: "wp (close_file t) (\<lambda>r w2. ?Q q w2) w1" if "?Q q w1" for q w1
    by (rule wp_mono[OF close_file_outcome])
       (use that in \<open>auto simp: same_files_look intro: writes.trans same_files_touches\<close>)
  show "wp (replace_stage_mode t c m) ?Q w"
    unfolding replace_stage_mode_def wp_checkE
  proof (rule wp_mono[OF written])
    fix r w1
    assume q: "?Q r w1"
    show "case r of Inl e \<Rightarrow> wp (bindE (ignoreE (close_file t)) (\<lambda>_. failE e)) ?Q w1 | Inr x \<Rightarrow> wp (close_file t) ?Q w1"
    proof (cases r)
      case (Inl e)
      with closed[OF q] show ?thesis by (auto simp: wp_eqs elim!: wp_mono)
    next
      case (Inr x)
      with closed[OF q] show ?thesis by (auto elim!: wp_mono)
    qed
  qed
qed

lemma replaceContents_mode_outcome:
  assumes p: "target ''.geoflow-updater-'' p"
  shows "wp (replaceContents_mode p c m) (put_post (temp_in (butlast p) ''.geoflow-updater-'') m p c w) w"
proof -
  have ne: "p \<noteq> []" using p by (simp add: target_def)
  have sync: "sync_parent = sync_and_close"
    by (simp add: fun_eq_iff sync_parent_def sync_and_close_def)
  show ?thesis
    unfolding replaceContents_mode_def sync
  proof (rule wp_mono[OF staged_put_spec[OF p replace_stage_mode_ok finish_rename_sync[of sync_and_close p, OF sync_and_close_outcome ne]]])
    show "keeps (touches_mem (\<lambda>q. q = t)) (remove t)" for t by (rule mem_remove) simp
  qed simp
qed

interpretation managed: atomic_put "\<lambda>p c. replaceContents_mode p c m" "target ''.geoflow-updater-''"
    "\<lambda>p. temp_in (butlast p) ''.geoflow-updater-''" m for m
  by unfold_locales (simp_all add: replaceContents_mode_outcome target_not_temp)

lemma transaction_target: "target ''.geoflow-updater-'' (transactionPath dv inst)"
  by (simp add: target_def transactionPath_def has_prefix_def)

text \<open>What the journal of a transaction is on disk.\<close>

definition journaled :: "'d deployer \<Rightarrow> transaction \<Rightarrow> world \<Rightarrow> bool" where
  "journaled dv t w \<longleftrightarrow> durable w (transactionPath dv (cf_id (tr_source t))) (Json (dv_encode dv t)) 384 \<and>
     stored w (transactionPath dv (cf_id (tr_source t))) (Json (dv_encode dv t)) 384"

lemma saved_is_journaled: "saveTransaction dv t w = (Inr (), w') \<Longrightarrow> journaled dv t w'"
  unfolding saveTransaction_def journaled_def using managed.put_commit[OF transaction_target] by blast

lemma readTransaction_stored:
  assumes "readTransaction dv inst w = (Inr u, w')" and "stored w (transactionPath dv inst) (Json (dv_encode dv t)) 384"
    and "dv_decode dv (dv_encode dv t) = Some t"
  shows "u = t"
proof -
  let ?p = "transactionPath dv inst"
  from assms(1) obtain w1 w2 w3 c w4 where
    l: "regularFile ?p w = (Inr (), w1)" and o2: "open_path ?p w1 = (Inr (), w2)" and r: "read_file ?p w2 = (Inr c, w3)"
    and d: "Option.bind (content_json c) (dv_decode dv) = Some u"
    unfolding readTransaction_def
    by (auto simp: bindE_Inr deferE_eq split: if_splits option.splits sum.splits)
  have "keeps same_files (regularFile ?p)" unfolding regularFile_def by (intro keeps_intros)
  with l o2 have "look w2 ?p = look w ?p"
    by (metis keepsD reads_open_path same_files_look)
  with wp_run[OF read_file_outcome r] assms(2) have "c = Json (dv_encode dv t)"
    by (auto simp: stored_def good_file_def)
  with d assms(3) show ?thesis by (simp add: content_json_def)
qed

section \<open>Traffic opens on record\<close>

text \<open>Either the journal is durable, or not a single command was run.\<close>

definition on_record :: "'d deployer \<Rightarrow> transaction \<Rightarrow> 'd daemon host \<Rightarrow> 'd daemon host \<Rightarrow> bool" where
  "on_record dv t h h' \<longleftrightarrow>
     (\<exists>w. saveTransaction dv t (ho_world h) = (Inr (), w) \<and> journaled dv t w) \<or>
     da_errands (ho_dep h') = da_errands (ho_dep h)"

lemma save_first:
  "on_record dv (g (fl_tx f)) (fl_host f) (fl_host (snd (bindE (on_tx g) (\<lambda>_. bindE (wrapE e (save_tx dv)) k) f)))"
proof -
  obtain q w where save: "saveTransaction dv (g (fl_tx f)) (ho_world (fl_host f)) = (q, w)" by fastforce
  show ?thesis
  proof (cases q)
    case (Inl x)
    then show ?thesis
      using save by (simp add: on_record_def bindE_def on_tx_def wrapE_def save_tx_def with_tx_def onH_def onW_def)
  next
    case (Inr u)
    with save saved_is_journaled show ?thesis by (auto simp: on_record_def)
  qed
qed

lemma wrapE_id: "wrapE (\<lambda>e. e) m = m"
  by (simp add: fun_eq_iff wrapE_def split: prod.splits sum.splits)

lemmas save_first_plain = save_first[where e = "\<lambda>e. e", unfolded wrapE_id]

text \<open>CX: traffic is opened on record. The step that switches the ingress to the candidate, and the
  step that resumes the source, first make a journal durable that says that traffic was opened;
  if that fails, neither runs a single command.\<close>

theorem traffic_opens_on_record:
  "on_record dv ((fl_tx f)\<lparr>tr_opened := True\<rparr>) (fl_host f) (fl_host (snd (step_switch dv la f))) \<and>
   on_record dv ((fl_tx f)\<lparr>tr_stage := ''resume'', tr_opened := True\<rparr>) (fl_host f) (fl_host (snd (resumeSource dv f)))"
proof
  show "on_record dv ((fl_tx f)\<lparr>tr_opened := True\<rparr>) (fl_host f) (fl_host (snd (step_switch dv la f)))"
    unfolding step_switch_def with_candidate_def by (rule save_first_plain)
  show "on_record dv ((fl_tx f)\<lparr>tr_stage := ''resume'', tr_opened := True\<rparr>) (fl_host f) (fl_host (snd (resumeSource dv f)))"
    unfolding resumeSource_def by (rule save_first)
qed

text \<open>CX: the journal of a release is atomic. Whatever fails while it is saved, its file holds either
  what it held before or the complete new journal; and a transaction whose save succeeded is what a
  later read of the journal returns, if the read returns anything.\<close>

theorem journal_is_atomic:
  assumes "saveTransaction dv t w = (r, w')" and "dv_decode dv (dv_encode dv t) = Some t"
    and "inst = cf_id (tr_source t)"
  shows "(look w' (transactionPath dv inst) = look w (transactionPath dv inst) \<or>
      stored w' (transactionPath dv inst) (Json (dv_encode dv t)) 384) \<and>
    (r = Inr () \<longrightarrow> journaled dv t w' \<and>
      (\<forall>w1 u w2. same_files w' w1 \<and> readTransaction dv inst w1 = (Inr u, w2) \<longrightarrow> u = t))"
proof -
  note save = assms(1)[unfolded saveTransaction_def, folded assms(3)]
  have kept: "stored w1 (transactionPath dv inst) (Json (dv_encode dv t)) 384"
    if "journaled dv t w'" "same_files w' w1" for w1
    using that assms(3) by (auto simp: journaled_def stored_def same_files_look)
  show ?thesis
    using managed.put_atomic[OF transaction_target save] saved_is_journaled[of dv t w w'] assms(1)
      readTransaction_stored[OF _ kept assms(2)] by blast
qed

section \<open>Starting while recovery is not finished\<close>

lemma recovery_names_spec:
  "recovery_names ph ns http = Inr b \<Longrightarrow> set ns \<subseteq> {''postgres'', ''redis'', ''app'', ''web'', ''edge''} \<and>
     (set ns \<inter> {''app'', ''web'', ''edge''} \<noteq> {} \<longrightarrow> ph = ''http_ready'') \<and> b = (http \<or> ''app'' \<in> set ns \<or> ''web'' \<in> set ns)"
  by (induction ph ns http rule: recovery_names.induct) (auto split: if_splits)

lemma onW_rcRead:
  assumes "onW (rcRead (recoveryControl dv) ''primary'') h = (r, h1)"
  shows "same_files (ho_world h) (ho_world h1) \<and> ho_dep h1 = ho_dep h \<and>
    (\<forall>a. r = Inr a \<longrightarrow> authority_at (deploy_dir dv) (ho_world h) = Some a) \<and>
    (\<forall>e. r = Inl e \<longrightarrow> err_is ErrNotExist e \<longrightarrow> authority_at (deploy_dir dv) (ho_world h) = None)"
proof -
  from assms obtain w where read: "rcRead (recoveryControl dv) ''primary'' (ho_world h) = (r, w)" and h1: "h1 = h\<lparr>ho_world := w\<rparr>"
    by (auto simp: onW_def split: prod.splits)
  have dir: "rc_dir (recoveryControl dv) = Some (deploy_dir dv)" by (simp add: recoveryControl_def)
  have "authority_at (deploy_dir dv) (ho_world h) = None" if "r = Inl e" "err_is ErrNotExist e" for e
    using rcRead_missing[OF read[unfolded that(1)] that(2) dir] by (simp add: authority_at_def)
  with keepsD[OF reads_rcRead read] rcRead_yields[OF _ dir] read show ?thesis by (auto simp: h1)
qed

lemma authority_same: "same_files w w' \<Longrightarrow> authority_at d w' = authority_at d w"
proof -
  assume s: "same_files w w'"
  then have j: "w_jlen w' = w_jlen w" by (simp add: same_files_def same_env_def)
  from s have l: "look w' = look w" by (simp add: fun_eq_iff same_files_look)
  show ?thesis unfolding authority_at_def j l ..
qed

definition held_start :: "config \<Rightarrow> rauthority \<Rightarrow> errand \<Rightarrow> bool" where
  "held_start c a x \<longleftrightarrow> (\<exists>ns. x = Started c ns \<and>
     (set ns \<subseteq> {''postgres'', ''redis'', ''edge''} \<and> (''edge'' \<in> set ns \<longrightarrow> rs_phase (ra_state a) = ''http_ready'') \<or>
      ns = [''app'', ''web''] \<and> http_evidence a))"

lemma recovered_http_holds:
  assumes "authority_at (deploy_dir dv) (ho_world h) = Some a" and "cf_id c = ''primary''"
  shows "adds (held_start c a) h (snd (startRecoveredHTTP dv c h))"
proof -
  obtain r h1 where read: "onW (rcRead (recoveryControl dv) ''primary'') h = (r, h1)" by fastforce
  note facts = onW_rcRead[OF read]
  show ?thesis
  proof (cases "http_evidence a")
    case True
    have "keeps (adds (held_start c a)) (startRecoveredHTTP dv c)"
      by (rule errands.deed_startRecoveredHTTP) (simp add: held_start_def True)
    then show ?thesis by (simp add: keeps_def)
  next
    case False
    then have "ho_dep (snd (startRecoveredHTTP dv c h)) = ho_dep h"
      using read facts assms by (cases r) (auto simp: startRecoveredHTTP_def bindE_def failE_def)
    then show ?thesis by (simp add: adds_def)
  qed
qed

lemma start_recovering_holds:
  assumes "authority_at (deploy_dir dv) (ho_world h) = Some a" and "cf_id c = ''primary''"
  shows "adds (held_start c a) h (snd (start_recovering dv c names (rs_phase (ra_state a)) h))"
proof (cases "recovery_names (rs_phase (ra_state a)) names False")
  case (Inl e)
  then show ?thesis by (simp add: start_recovering_def bindE_def liftE_def failE_def errands.refl)
next
  case (Inr http)
  note spec = recovery_names_spec[OF Inr]
  show ?thesis
  proof (cases http)
    case True
    then show ?thesis
      using recovered_http_holds[OF assms] Inr
      by (simp add: start_recovering_def bindE_def liftE_def failE_def errands.refl)
  next
    case False
    then have "held_start c a (Started c names)" using spec by (auto simp: held_start_def)
    then have "keeps (adds (held_start c a)) (start_compose dv c names)" by (rule errands.deed_start_compose)
    then show ?thesis using False Inr by (simp add: start_recovering_def bindE_def liftE_def keeps_def)
  qed
qed

text \<open>CX: recovery holds the background. As long as the recovery authority on disk is not in its final
  phase, starting services starts nothing of the deployment but the data services, and the edge once
  HTTP is ready, or exactly the guarded pair of application and web server, and that only on the
  complete evidence of a prepared recovery.\<close>

theorem recovery_holds_background:
  assumes "authority_at (deploy_dir dv) (ho_world h) = Some a" and "rs_phase (ra_state a) \<noteq> ''ready''"
    and "cf_id c = ''primary''" and "startServices dv c names h = (r, h')"
  shows "\<exists>xs. da_errands (ho_dep h') = da_errands (ho_dep h) @ xs \<and>
    (\<forall>k ns. Started k ns \<in> set xs \<longrightarrow> k = c \<and>
      (set ns \<subseteq> {''postgres'', ''redis'', ''edge''} \<and> (''edge'' \<in> set ns \<longrightarrow> rs_phase (ra_state a) = ''http_ready'') \<or>
       ns = [''app'', ''web''] \<and> http_evidence a))"
proof -
  obtain q h1 where read: "onW (rcRead (recoveryControl dv) ''primary'') h = (q, h1)" by fastforce
  note facts = onW_rcRead[OF read]
  have "adds (held_start c a) h h'"
  proof (cases "names = []")
    case True
    then show ?thesis using assms(4) by (simp add: startServices_def errands.refl)
  next
    case False
    show ?thesis
    proof (cases q)
      case (Inl e)
      then have "h' = h1" using False assms read facts by (auto simp: startServices_def bindE_def tryE_def failE_def)
      with facts show ?thesis by (simp add: adds_def)
    next
      case (Inr b)
      with facts assms(1) have b: "b = a" by simp
      have "authority_at (deploy_dir dv) (ho_world h1) = Some a"
        using facts assms(1) authority_same[of "ho_world h" "ho_world h1"] by simp
      from start_recovering_holds[OF this assms(3), of names]
      have "adds (held_start c a) h1 h'"
        using False assms read Inr b by (simp add: startServices_def bindE_def tryE_def)
      with facts show ?thesis by (simp add: adds_def)
    qed
  qed
  then obtain xs where xs: "da_errands (ho_dep h') = da_errands (ho_dep h) @ xs"
    and each: "\<And>x. x \<in> set xs \<Longrightarrow> (\<exists>args. x = Ran args) \<or> held_start c a x"
    unfolding adds_def by blast
  show ?thesis
  proof (intro exI[of _ xs] conjI allI impI)
    fix k ns
    assume "Started k ns \<in> set xs"
    with each have held: "held_start c a (Started k ns)" by blast
    then show "k = c" unfolding held_start_def by simp
    from held show "set ns \<subseteq> {''postgres'', ''redis'', ''edge''} \<and> (''edge'' \<in> set ns \<longrightarrow> rs_phase (ra_state a) = ''http_ready'') \<or>
        ns = [''app'', ''web''] \<and> http_evidence a"
      unfolding held_start_def by simp
  qed (rule xs)
qed

section \<open>Draining\<close>

text \<open>What Docker is known to do when it is asked for the state of a container: asking starts nothing,
  and an answer that begins with \<open>false\<close> means that the container is not running.\<close>

definition honest_state :: "'d deployer \<Rightarrow> ('d \<Rightarrow> string \<Rightarrow> bool) \<Rightarrow> bool" where
  "honest_state dv running \<longleftrightarrow> (\<forall>d i r d' j. dv_run dv None [''inspect'', state_format, i] d = (r, d') \<longrightarrow>
     (running d' j \<longrightarrow> running d j) \<and>
     (\<forall>x. r = Inr x \<longrightarrow> has_prefix ''false|'' (trim (re_text (limited x))) \<longrightarrow> \<not> running d' i))"

definition runs :: "('d \<Rightarrow> string \<Rightarrow> bool) \<Rightarrow> 'd daemon host \<Rightarrow> string \<Rightarrow> bool" where
  "runs running h i \<longleftrightarrow> running (da_state (ho_dep h)) i"

lemma split_on_first: "split_on c acc s = x # y # zs \<Longrightarrow> \<exists>t. acc @ s = x @ c # t"
  by (induction c acc s arbitrary: x rule: split_on.induct) (auto split: if_splits)

lemma drained_false:
  assumes "container_drained sig t = Inr True"
  shows "has_prefix ''false|'' (trim t)"
proof -
  from assms obtain n oom where s: "split_on CHR ''|'' [] (trim t) = [''false'', n, oom]"
    by (auto simp: container_drained_def split: list.splits if_splits)
  from split_on_first[OF s] show ?thesis by (auto simp: has_prefix_iff)
qed

lemma drain_look_stopped:
  assumes honest: "honest_state dv running" and look: "drain_look dv sig i b h = (Inr b', h')"
  shows "(runs running h' j \<longrightarrow> runs running h j) \<and> (b' \<longleftrightarrow> b \<or> b') \<and> (\<not> b' \<longrightarrow> \<not> b \<and> \<not> runs running h' i)"
proof -
  obtain r d where run: "dv_run dv None [''inspect'', state_format, i] (da_state (ho_dep h)) = (r, d)" by fastforce
  from look obtain y gone h1 where y: "docker_text dv [''inspect'', state_format, i] h = (Inr y, h1)"
    and g: "container_drained sig (re_text y) = Inr gone" and b': "b' = (b \<or> \<not> gone)" and h1: "h' = h1"
    unfolding drain_look_def by (auto simp: bindE_Inr)
  from y run obtain x where r: "r = Inr x" and yx: "y = limited x" and d: "da_state (ho_dep h1) = d"
    by (cases r) (auto simp: docker_text_def docker_def docker_in_def daemon_run_def bindE_def)
  note g = g[unfolded yx] and h' = d[folded h1]
  have "(running d j \<longrightarrow> running (da_state (ho_dep h)) j) \<and>
      (has_prefix ''false|'' (trim (re_text (limited x))) \<longrightarrow> \<not> running d i)"
    using honest[unfolded honest_state_def, rule_format, OF run] r by blast
  moreover have "gone \<longrightarrow> has_prefix ''false|'' (trim (re_text (limited x)))"
    using g drained_false[of sig "re_text (limited x)"] by (cases gone) auto
  ultimately show ?thesis using b' h' by (auto simp: runs_def)
qed

lemma drain_round_stopped:
  assumes honest: "honest_state dv running"
  shows "foldE (drain_look dv sig) ids b h = (Inr b', h') \<Longrightarrow>
    (\<forall>j. runs running h' j \<longrightarrow> runs running h j) \<and> (\<not> b' \<longrightarrow> \<not> b \<and> (\<forall>i \<in> set ids. \<not> runs running h' i))"
proof (induction ids arbitrary: b h)
  case Nil
  then show ?case by simp
next
  case (Cons i ids)
  from Cons.prems obtain b1 h1 where look: "drain_look dv sig i b h = (Inr b1, h1)"
    and rest: "foldE (drain_look dv sig) ids b1 h1 = (Inr b', h')"
    by (auto simp: bindE_Inr)
  from Cons.IH[OF rest] drain_look_stopped[OF honest look] show ?case by auto
qed

lemma drain_wait_stopped:
  assumes honest: "honest_state dv running"
  shows "drain_wait n dv ids sig h = (Inr (), h') \<Longrightarrow> \<forall>i \<in> set ids. \<not> runs running h' i"
proof (induction n arbitrary: h)
  case 0
  then obtain b h1 where f: "foldE (drain_look dv sig) ids False h = (Inr b, h1)" "\<not> b" "h' = h1"
    by (subst (asm) drain_wait.simps) (auto simp: bindE_Inr split: if_splits)
  with drain_round_stopped[OF honest f(1)] show ?case by simp
next
  case (Suc n)
  obtain b h1 where f: "foldE (drain_look dv sig) ids False h = (Inr b, h1)"
    and rest: "(if \<not> b then retE () else drain_wait n dv ids sig) h1 = (Inr (), h')"
    using Suc.prems[unfolded drain_wait.simps[of "Suc n"] nat.case] by (auto simp: bindE_Inr)
  show ?case
  proof (cases b)
    case True
    with rest Suc.IH show ?thesis by simp
  next
    case False
    with drain_round_stopped[OF honest f] rest show ?thesis by simp
  qed
qed

text \<open>CX: a drain that succeeds leaves nothing running. When a group of services is drained without an
  error, none of the containers that Docker listed for it still runs, whatever it was asked on the way,
  provided Docker tells the truth about the state of a container.\<close>

theorem drained_is_stopped:
  assumes "honest_state dv running" and "containerIDs dv c names h = (Inr ids, h1)"
    and "drain_group dv c names h = (Inr (), h')"
  shows "\<forall>i \<in> set ids. \<not> runs running h' i"
proof (cases "ids = []")
  case False
  from assms(2,3) have "drainContainersSignal dv ids (if length names = 1 \<and> http_role (hd names) then ''QUIT'' else ''TERM'') h1 = (Inr (), h')"
    by (simp add: drain_group_def bindE_def)
  with False obtain sig h2 where "drain_wait (dv_patience dv) dv ids sig h2 = (Inr (), h')"
    by (auto simp: drainContainersSignal_def bindE_Inr)
  from drain_wait_stopped[OF assms(1) this] show ?thesis .
qed simp

end
