(* ===== verification/Spec2Isabelle.thy ===== *)
theory Spec2Isabelle
  imports ManagerWitness CoordWitness UpdateWitness AuthWitness RecoveryWitness BaseWitness PointWitness AgentWitness TopologyLaws DeployLaws
begin

text \<open>
  A model of the host updater of GEOFlow (\<open>cmd/geoflow-updater\<close> and \<open>internal\<close>): the privileged
  service that updates, backs up, restores and verifies one managed installation on behalf of a
  web application that it does not trust. Everything it decides must survive a crash, so most of
  what is proved here is about what is on disk when a call returns or stops half-way.

  The parts and how they interact.

  \<^item> The \<^emph>\<open>operation manager\<close> (\<open>internal/operation\<close>) accepts operations, runs each in a goroutine
    under a lock per instance, journals every stage, and recovers interrupted operations.
  \<^item> The \<^emph>\<open>coordination store\<close> (\<open>internal/coordination\<close>) holds the plans and the admissions of
    requests, written once and numbered; the manager accepts a submission by writing an admission
    and repairs the journal from it.
  \<^item> \<^emph>\<open>Authorization\<close> (\<open>internal/authorization\<close>) checks the one-time codes; an admission is made
    inside its critical section, so that a code and a request are consumed together.
  \<^item> The \<^emph>\<open>update engine\<close> (\<open>internal/update\<close>) orders the calls of an update to the deployment and
    decides between roll-back and recovery; the manager runs it with an observer that journals.
  \<^item> \<^emph>\<open>Recovery control\<close> (\<open>internal/recoverycontrol\<close>) holds the authority over restore generations.
  \<^item> The \<^emph>\<open>store of recovery points\<close> (\<open>internal/recovery\<close>) makes, lists, validates, prunes and
    restores points; a restore first asks recovery control for its boundary, and pruning asks the
    coordination store what is still needed.
  \<^item> The \<^emph>\<open>agent\<close> (\<open>internal/agent\<close>) serves the web application: a request that presents the control token
    of the instance reaches the manager, and one that changes anything also needs a code.
  \<^item> \<^emph>\<open>Signed releases and upgrade plans\<close> (\<open>internal/managed\<close>) are validated before they are used.

  The theories. \<open>Prelude\<close> has errors as values (\<open>err\<close>), computations on a state (\<open>act\<close>), a weakest
  precondition calculus (\<open>wp\<close>) and the locale \<open>frame\<close> of relations that every computation keeps.
  \<open>GoText\<close>, \<open>PathText\<close> and \<open>Json\<close> model the parts of the Go library that the sources use: texts and
  identifiers, path texts, and JSON documents after lexing. \<open>FileSys\<close> models the file system calls with a
  plan of faults: every call succeeds, fails before its effect or after it, and a plan that fails
  every call from some point on leaves what a crash leaves. \<open>FileSpec\<close> has their frames and
  outcomes, and \<open>AtomicPut\<close> the locale \<open>atomic_put\<close>, the contract of a crash-safe replacement,
  which coordination, authorization, recovery control and the manager each interpret.

  \<^item> \<open>Coordination\<close>, \<open>CoordStore\<close> (\<open>store.go\<close>, \<open>head.go\<close>): records and their durable store; \<open>CoordLaws\<close>
    relates readers to a pure view of the files, \<open>CoordOrder\<close> proves the order of operations and
    that an admission is written completely or not at all.
  \<^item> \<open>Totp\<close>, \<open>Authorization\<close> (\<open>service.go\<close>, \<open>retry.go\<close>): codes, counters, attempts and lock-outs;
    \<open>AuthLaws\<close>: a code is accepted at most once, lock-outs hold, failures are counted. \<open>HostAuth\<close> is
    the same service around callbacks that act on the whole process.
  \<^item> \<open>Managed\<close> (\<open>release.go\<close>, \<open>upgrade.go\<close>): validation of releases and upgrade plans.
  \<^item> \<open>Update\<close> (\<open>engine.go\<close>, \<open>planned.go\<close>), \<open>UpdateLaws\<close> and \<open>UpdateProtocol\<close>: the engine, its calls as a
    log, and the automaton of update phases that every run refines.
  \<^item> \<open>Journal\<close>, \<open>Manager\<close>, \<open>Dispatch\<close>, \<open>Submission\<close> (\<open>manager.go\<close>, \<open>planned.go\<close>, \<open>coordination.go\<close>): the
    journal of an operation, the runners, starting and recovering operations, and the coordinated
    interface. \<open>ManagerLaws\<close>, \<open>AdmissionLaws\<close>, \<open>SubmitLaws\<close>, \<open>OperationLaws\<close>, \<open>Runners\<close>, \<open>Exclusion\<close> and
    \<open>ReconcileLaws\<close> prove that a submission is admitted once, that a saved operation reads back, that
    operations end, that at most one runs (over the step relation \<open>step\<close> and its reachable states), and
    what recovery may do on its own.
  \<^item> \<open>RecoveryControl\<close> (\<open>store.go\<close>, \<open>checkpoint.go\<close>, \<open>protocol.go\<close>) and \<open>RecoveryLaws\<close>: every operation is one
    step of the phase protocol.
  \<^item> \<open>PointRecord\<close>, \<open>PointFiles\<close>, \<open>PointStore\<close> (\<open>internal/recovery/store.go\<close>): manifests, archives, the
    exchange of directories and the store of points. \<open>SwapLaws\<close>, \<open>ExtractLaws\<close>, \<open>PointLaws\<close>, \<open>PointJson\<close> and
    \<open>RestoreLaws\<close> prove that an exchange is crash safe, that an archive cannot reach outside its
    directory, that a validated point is intact, that pruning spares what is needed, and the order of
    a restore.
  \<^item> \<open>Agent\<close> (\<open>internal/agent\<close>): the HTTP service, its control tokens and both of its interfaces. \<open>AgentLaws\<close>:
    every request is answered; \<open>AgentGuard\<close>: a stranger learns and changes nothing; \<open>AgentSteps\<close>: an
    operation starts only with authority, and what requests do are steps of the manager, so that what
    \<open>Exclusion\<close> proves of its reachable states holds for the host that serves them.
  \<^item> The \<open>Witness\<close> theories, with \<open>Examples\<close> and \<open>LazyRun\<close>, apply the theorems to concrete hosts.

  Bounds and fuel. Loops over lists are recursions on the lists; the loop that doubles a delay runs on
  a counter (\<open>backoff_loop\<close>), as does the search for a free temporary name (ten thousand attempts, as
  \<open>os.CreateTemp\<close> makes); no definition of the model can run out of fuel. Integers have the
  ranges of their Go types where a decoder checks them or an addition can leave them (\<open>wrap64\<close>), and
  release numbers are 64-bit words.

  Parameters of the model: SHA-256 and HMAC, the length and the bytes of JSON texts, the YAML decoder, the tar and
  gzip formats, the clock, the deployment behind the engine and the database behind a restore. A
  hypothesis on one of them is stated in the theorem that needs it.

  Not modelled: contexts and timeouts (a call is not cancelled), the interleaving of goroutines inside
  an operation (a goroutine runs as one step between calls; \<open>flock\<close> serializes the authorization of one
  instance), partial removal of a directory tree, the disk image of directories that are renamed, the Docker Compose orchestration of
  \<open>internal/deployment\<close>, the listening socket of \<open>internal/agent\<close>, enrollment, diagnostics, the TUF client and
  repository tools and the command lines.
\<close>

end
